(* ===== verification/Prelude.thy ===== *)
theory Prelude
  imports Main "HOL-Library.Monad_Syntax"
begin

text \<open>
  What every component of the model shares: the types that stand for strings, byte
  buffers, instants and fallible results; the character classes of the source's regular
  expressions; the string operations of the language; tables as lists of rows with the
  four SQL statements the source issues on them; and the runtime functions (digests, URL
  parsing, validators of third-party packages) as one record that the definitions take
  as an argument.

  A \<open>char\<close> is one code unit; strings hold code units below 256.  An instant is a number
  of milliseconds.  An error is the message its exception carries.
\<close>

section \<open>Shared types\<close>

type_synonym bytes = string
type_synonym time = int
type_synonym 'a result = "string + 'a"

named_theorems table_simps \<open>selecting from a table after a statement changed it\<close>
named_theorems frame_simps \<open>what an operation leaves unchanged\<close>

definition is_ok :: "'e + 'a \<Rightarrow> bool" where
  "is_ok r \<longleftrightarrow> (case r of Inl _ \<Rightarrow> False | Inr _ \<Rightarrow> True)"

lemma is_ok_simps [simp]: "is_ok (Inr a)" "\<not> is_ok (Inl e)"
  by (simp_all add: is_ok_def)

lemma is_ok_iff: "is_ok r \<longleftrightarrow> (\<exists>a. r = Inr a)"
  by (cases r) simp_all

lemma known_outcome: "fst x = Inr v \<Longrightarrow> x = (Inr v, snd x)"
  by (cases x) simp

lemma ok_outcome: "is_ok (fst x) \<Longrightarrow> x = (Inr (projr (fst x)), snd x)"
  by (cases x; cases "fst x") simp_all

text \<open>Sequencing of fallible statements: the first exception is the result.\<close>

definition and_then :: "'e + 'a \<Rightarrow> ('a \<Rightarrow> 'e + 'b) \<Rightarrow> 'e + 'b" where
  "and_then r f = (case r of Inl e \<Rightarrow> Inl e | Inr a \<Rightarrow> f a)"

lemma and_then_simps [simp]: "and_then (Inl e) f = Inl e" "and_then (Inr a) f = f a"
  by (simp_all add: and_then_def)

lemma and_then_Inr: "and_then r f = Inr b \<longleftrightarrow> (\<exists>a. r = Inr a \<and> f a = Inr b)"
  by (cases r) simp_all

lemma and_then_Inl:
  "and_then r f = Inl e \<longleftrightarrow> r = Inl e \<or> (\<exists>a. r = Inr a \<and> f a = Inl e)"
  by (cases r) simp_all

text \<open>
  Reading a successful result backwards through the conditionals of a definition: the bundle
  \<open>succ_simps\<close> turns \<open>body = Inr b\<close> into the conditions under which the body gets there.
\<close>

lemma case_eq_Inr:
  "(case x of None \<Rightarrow> A | Some y \<Rightarrow> f y) = Inr b \<longleftrightarrow>
     (x = None \<and> A = Inr b) \<or> (\<exists>y. x = Some y \<and> f y = Inr b)"
  "(case s of Inl e \<Rightarrow> g e | Inr v \<Rightarrow> h v) = Inr b \<longleftrightarrow>
     (\<exists>e. s = Inl e \<and> g e = Inr b) \<or> (\<exists>v. s = Inr v \<and> h v = Inr b)"
  "(case l of [] \<Rightarrow> A | z # zs \<Rightarrow> k z zs) = Inr b \<longleftrightarrow>
     (l = [] \<and> A = Inr b) \<or> (\<exists>z zs. l = z # zs \<and> k z zs = Inr b)"
  "(case p of (u, v) \<Rightarrow> m u v) = Inr b \<longleftrightarrow> (\<exists>u v. p = (u, v) \<and> m u v = Inr b)"
  "(if c then A else B) = Inr b \<longleftrightarrow> (c \<and> A = Inr b) \<or> (\<not> c \<and> B = Inr b)"
  by (auto split: option.split sum.split list.split prod.split)

lemma case_eq_Pair:
  "(case x of None \<Rightarrow> A | Some y \<Rightarrow> f y) = (r, d) \<longleftrightarrow>
     (x = None \<and> A = (r, d)) \<or> (\<exists>y. x = Some y \<and> f y = (r, d))"
  "(case s of Inl e \<Rightarrow> g e | Inr v \<Rightarrow> h v) = (r, d) \<longleftrightarrow>
     (\<exists>e. s = Inl e \<and> g e = (r, d)) \<or> (\<exists>v. s = Inr v \<and> h v = (r, d))"
  "(case l of [] \<Rightarrow> A | z # zs \<Rightarrow> k z zs) = (r, d) \<longleftrightarrow>
     (l = [] \<and> A = (r, d)) \<or> (\<exists>z zs. l = z # zs \<and> k z zs = (r, d))"
  "(case p of (u, v) \<Rightarrow> m u v) = (r, d) \<longleftrightarrow> (\<exists>u v. p = (u, v) \<and> m u v = (r, d))"
  "(if c then A else B) = (r, d) \<longleftrightarrow> (c \<and> A = (r, d)) \<or> (\<not> c \<and> B = (r, d))"
  by (auto split: option.split sum.split list.split prod.split)

lemmas succ_simps = and_then_Inr case_eq_Inr case_eq_Pair Let_def

section \<open>Character classes and string operations\<close>

text \<open>
  A class is a list of ranges of code units.  \<open>rx cls lo hi s\<close> is the match of
  \<open>^[cls]{lo,hi}$\<close>.
\<close>

type_synonym char_class = "(nat \<times> nat) list"

definition char_in :: "char_class \<Rightarrow> char \<Rightarrow> bool" where
  "char_in cls c \<longleftrightarrow> list_ex (\<lambda>(lo, hi). lo \<le> of_char c \<and> of_char c \<le> hi) cls"

definition rx :: "char_class \<Rightarrow> nat \<Rightarrow> nat \<Rightarrow> string \<Rightarrow> bool" where
  "rx cls lo hi s \<longleftrightarrow> lo \<le> length s \<and> length s \<le> hi \<and> list_all (char_in cls) s"

abbreviation digit_class :: char_class where "digit_class \<equiv> [(48, 57)]"
abbreviation lower_class :: char_class where "lower_class \<equiv> [(97, 122)]"
abbreviation upper_class :: char_class where "upper_class \<equiv> [(65, 90)]"
abbreviation alnum_class :: char_class where
  "alnum_class \<equiv> [(65, 90), (97, 122), (48, 57)]"

text \<open>\<open>[A-Za-z0-9_-]\<close>, \<open>[A-Za-z0-9._~-]\<close> and \<open>[a-z0-9_.-]\<close>.\<close>

abbreviation id_class :: char_class where
  "id_class \<equiv> [(65, 90), (97, 122), (48, 57), (95, 95), (45, 45)]"
abbreviation client_class :: char_class where
  "client_class \<equiv> [(65, 90), (97, 122), (48, 57), (46, 46), (95, 95), (126, 126), (45, 45)]"
abbreviation code_class :: char_class where
  "code_class \<equiv> [(97, 122), (48, 57), (95, 95), (46, 46), (45, 45)]"

text \<open>\<open>^[a-z][a-z0-9_.-]{2,63}$\<close>, the shape of policy names and reason codes.\<close>

definition rx_code :: "string \<Rightarrow> bool" where
  "rx_code s \<longleftrightarrow> (case s of [] \<Rightarrow> False
     | c # cs \<Rightarrow> char_in lower_class c \<and> rx code_class 2 63 cs)"

definition starts_with :: "string \<Rightarrow> string \<Rightarrow> bool" where
  "starts_with s p \<longleftrightarrow> take (length p) s = p"

definition ends_with :: "string \<Rightarrow> string \<Rightarrow> bool" where
  "ends_with s p \<longleftrightarrow> length p \<le> length s \<and> drop (length s - length p) s = p"

lemma starts_with_append [simp]: "starts_with (p @ s) p"
  by (simp add: starts_with_def)

lemma rx_length: "rx cls lo hi s \<Longrightarrow> lo \<le> length s \<and> length s \<le> hi"
  by (simp add: rx_def)

fun split_on :: "char \<Rightarrow> string \<Rightarrow> string list" where
  "split_on d [] = [[]]"
| "split_on d (c # cs) =
     (if c = d then [] # split_on d cs
      else (case split_on d cs of [] \<Rightarrow> [[c]] | w # ws \<Rightarrow> (c # w) # ws))"

lemma split_on_nonempty [simp]: "split_on d s \<noteq> []"
  by (induction s) (auto split: list.splits)

fun join_with :: "string \<Rightarrow> string list \<Rightarrow> string" where
  "join_with d [] = []"
| "join_with d [w] = w"
| "join_with d (w # ws) = w @ d @ join_with d ws"

text \<open>The byte length of the UTF-8 encoding; code units below 256 take one or two bytes.\<close>

definition utf8_length :: "string \<Rightarrow> nat" where
  "utf8_length s = sum_list (map (\<lambda>c. if of_char c < (128::nat) then 1 else 2) s)"

text \<open>\<open>[...new Set(xs)]\<close>: the first occurrence of each element, in order.\<close>

fun dedup :: "'a list \<Rightarrow> 'a list" where
  "dedup [] = []"
| "dedup (x # xs) = x # dedup (filter (\<lambda>y. y \<noteq> x) xs)"

lemma set_dedup [simp]: "set (dedup xs) = set xs"
  by (induction xs rule: dedup.induct) auto

lemma distinct_dedup [simp]: "distinct (dedup xs)"
  by (induction xs rule: dedup.induct) auto

lemma dedup_distinct: "distinct xs \<Longrightarrow> dedup xs = xs"
proof (induction xs rule: dedup.induct)
  case (2 x xs)
  then have "filter (\<lambda>y. y \<noteq> x) xs = xs" by (auto intro: filter_True)
  with 2 show ?case by simp
qed simp

definition safe_integer :: "int \<Rightarrow> bool" where
  "safe_integer n \<longleftrightarrow> \<bar>n\<bar> \<le> 9007199254740991"

text \<open>\<open>Math.max(lo, Math.min(hi, n))\<close> on integers.\<close>

definition clamp :: "int \<Rightarrow> int \<Rightarrow> int \<Rightarrow> int" where
  "clamp lo hi n = max lo (min hi n)"

lemma clamp_bounds: "lo \<le> hi \<Longrightarrow> lo \<le> clamp lo hi n \<and> clamp lo hi n \<le> hi"
  by (simp add: clamp_def)

lemma clamp_id: "lo \<le> n \<Longrightarrow> n \<le> hi \<Longrightarrow> clamp lo hi n = n"
  by (simp add: clamp_def)

section \<open>Tables\<close>

text \<open>
  A table is the list of its rows in insertion order.  \<open>lookup_by key k t\<close> is the row a
  \<open>SELECT ... WHERE key = k\<close> returns first; under \<open>has_pk\<close> it is the only one.
\<close>

definition first_row :: "'r list \<Rightarrow> 'r option" where
  "first_row t = (case t of [] \<Rightarrow> None | r # _ \<Rightarrow> Some r)"

definition lookup_by :: "('r \<Rightarrow> 'k) \<Rightarrow> 'k \<Rightarrow> 'r list \<Rightarrow> 'r option" where
  "lookup_by key k t = first_row (filter (\<lambda>r. key r = k) t)"

definition sql_update :: "('r \<Rightarrow> bool) \<Rightarrow> ('r \<Rightarrow> 'r) \<Rightarrow> 'r list \<Rightarrow> 'r list" where
  "sql_update P f t = map (\<lambda>r. if P r then f r else r) t"

definition sql_delete :: "('r \<Rightarrow> bool) \<Rightarrow> 'r list \<Rightarrow> 'r list" where
  "sql_delete P t = filter (\<lambda>r. \<not> P r) t"

definition row_count :: "('r \<Rightarrow> bool) \<Rightarrow> 'r list \<Rightarrow> nat" where
  "row_count P t = length (filter P t)"

definition sql_insert :: "('r \<Rightarrow> 'k) \<Rightarrow> 'r \<Rightarrow> 'r list \<Rightarrow> 'r list result" where
  "sql_insert key r t =
     (if key r \<in> set (map key t) then Inl ''unique_violation'' else Inr (t @ [r]))"

text \<open>An \<open>UPDATE\<close> on a table with a row CHECK.\<close>

definition sql_update_checked ::
  "('r \<Rightarrow> bool) \<Rightarrow> ('r \<Rightarrow> bool) \<Rightarrow> ('r \<Rightarrow> 'r) \<Rightarrow> 'r list \<Rightarrow> 'r list result" where
  "sql_update_checked ok P f t =
     (if list_all (\<lambda>r. P r \<longrightarrow> ok (f r)) t then Inr (sql_update P f t) else Inl ''check_violation'')"

definition sql_insert_checked ::
  "('r \<Rightarrow> bool) \<Rightarrow> ('r \<Rightarrow> 'k) \<Rightarrow> 'r \<Rightarrow> 'r list \<Rightarrow> 'r list result" where
  "sql_insert_checked ok key r t = (if ok r then sql_insert key r t else Inl ''check_violation'')"

definition has_pk :: "('r \<Rightarrow> 'k) \<Rightarrow> 'r list \<Rightarrow> bool" where
  "has_pk key t \<longleftrightarrow> distinct (map key t)"

text \<open>\<open>COALESCE(column, now)\<close>\<close>

definition coalesce :: "'a option \<Rightarrow> 'a \<Rightarrow> 'a option" where
  "coalesce x v = (case x of Some y \<Rightarrow> Some y | None \<Rightarrow> Some v)"

lemma coalesce_simps [simp]:
  "coalesce x v \<noteq> None" "\<exists>y. coalesce x v = Some y"
  "coalesce (Some y) v = Some y" "coalesce None v = Some v"
  by (simp_all add: coalesce_def split: option.split)

lemma first_row_simps [simp]:
  "first_row [] = None" "first_row (r # t) = Some r" "first_row t = None \<longleftrightarrow> t = []"
  by (simp_all add: first_row_def split: list.splits)

lemma first_row_in: "first_row t = Some r \<Longrightarrow> r \<in> set t"
  by (cases t) simp_all

lemma first_row_filterD:
  "first_row (filter P t) = Some r \<Longrightarrow> r \<in> set t \<and> P r"
  by (cases "filter P t") (auto simp: first_row_def filter_eq_Cons_iff)

lemma first_row_filter_None: "first_row (filter P t) = None \<longleftrightarrow> (\<forall>r\<in>set t. \<not> P r)"
  by (auto simp: filter_empty_conv)

lemma lookup_byD: "lookup_by key k t = Some r \<Longrightarrow> r \<in> set t \<and> key r = k"
  unfolding lookup_by_def by (rule first_row_filterD)

lemma lookup_by_None: "lookup_by key k t = None \<longleftrightarrow> k \<notin> key ` set t"
  by (auto simp: lookup_by_def filter_empty_conv)

lemma lookup_by_Nil [table_simps]: "lookup_by key k [] = None"
  by (simp add: lookup_by_def)

lemma lookup_by_Cons [table_simps]:
  "lookup_by key k (r # t) = (if key r = k then Some r else lookup_by key k t)"
  by (simp add: lookup_by_def)

lemma lookup_by_append [table_simps]:
  "lookup_by key k (t @ u) =
     (case lookup_by key k t of None \<Rightarrow> lookup_by key k u | Some r \<Rightarrow> Some r)"
  by (induction t) (auto simp: table_simps)

text \<open>The row just inserted under a key no row had.\<close>

lemma lookup_by_fresh:
  "key r = k \<Longrightarrow> k \<notin> key ` set t \<Longrightarrow> lookup_by key k (t @ [r]) = Some r"
  by (simp add: lookup_by_None [symmetric] table_simps)

lemma lookup_by_in:
  "has_pk key t \<Longrightarrow> r \<in> set t \<Longrightarrow> lookup_by key (key r) t = Some r"
  by (induction t) (auto simp: has_pk_def table_simps)

lemma lookup_by_eq:
  "lookup_by key k t = Some q \<Longrightarrow> has_pk key t \<Longrightarrow> r \<in> set t \<Longrightarrow> key r = k \<Longrightarrow> r = q"
  using lookup_by_in [of key t r] by simp

lemma lookup_by_update [table_simps]:
  assumes "\<And>r. key (f r) = key r"
  shows "lookup_by key k (sql_update P f t) =
     map_option (\<lambda>r. if P r then f r else r) (lookup_by key k t)"
  by (induction t) (auto simp: sql_update_def table_simps assms)

lemma lookup_by_update_key:
  assumes "\<And>r. key (f r) = key r"
  shows "lookup_by key k (sql_update (\<lambda>r. key r = k') f t) =
     (if k = k' then map_option f (lookup_by key k t) else lookup_by key k t)"
  by (induction t) (auto simp: table_simps assms sql_update_def)

lemma lookup_by_delete [table_simps]:
  "has_pk key t \<Longrightarrow> lookup_by key k (sql_delete P t) =
     (case lookup_by key k t of None \<Rightarrow> None | Some r \<Rightarrow> if P r then None else Some r)"
proof (induction t)
  case (Cons r t)
  show ?case
  proof (cases "key r = k")
    case True
    with Cons.prems have "lookup_by key k t = None" "lookup_by key k (sql_delete P t) = None"
      by (auto simp: has_pk_def lookup_by_None sql_delete_def)
    with True show ?thesis by (simp add: sql_delete_def table_simps)
  next
    case False
    with Cons show ?thesis by (simp add: sql_delete_def has_pk_def table_simps)
  qed
qed (simp add: sql_delete_def table_simps)

lemma map_key_update:
  "(\<And>r. key (f r) = key r) \<Longrightarrow> map key (sql_update P f t) = map key t"
  by (simp add: sql_update_def)

lemma has_pk_update: "(\<And>r. key (f r) = key r) \<Longrightarrow> has_pk key t \<Longrightarrow> has_pk key (sql_update P f t)"
  by (simp add: has_pk_def map_key_update)

lemma has_pk_delete: "has_pk key t \<Longrightarrow> has_pk key (sql_delete P t)"
  by (simp add: has_pk_def sql_delete_def distinct_map_filter)

lemma has_pk_insert: "sql_insert key r t = Inr u \<Longrightarrow> has_pk key t \<Longrightarrow> has_pk key u"
  by (auto simp: sql_insert_def has_pk_def split: if_splits)

lemma sql_insert_Inr:
  "sql_insert key r t = Inr u \<longleftrightarrow> key r \<notin> key ` set t \<and> u = t @ [r]"
  by (auto simp: sql_insert_def)

lemma sql_insert_Inl:
  "sql_insert key r t = Inl e \<longleftrightarrow> key r \<in> key ` set t \<and> e = ''unique_violation''"
  by (auto simp: sql_insert_def)

lemma sql_update_checked_Inr:
  "sql_update_checked ok P f t = Inr u \<longleftrightarrow> (\<forall>r\<in>set t. P r \<longrightarrow> ok (f r)) \<and> u = sql_update P f t"
  by (auto simp: sql_update_checked_def list_all_iff)

lemma sql_insert_checked_Inr:
  "sql_insert_checked ok key r t = Inr u \<longleftrightarrow> ok r \<and> key r \<notin> key ` set t \<and> u = t @ [r]"
  by (auto simp: sql_insert_checked_def sql_insert_Inr)

lemma set_sql_update: "set (sql_update P f t) = (\<lambda>r. if P r then f r else r) ` set t"
  by (simp add: sql_update_def)

lemma sql_update_append [simp]: "sql_update P f (t @ u) = sql_update P f t @ sql_update P f u"
  by (simp add: sql_update_def)

lemma sql_update_simps [simp]:
  "sql_update P f [] = []"
  "sql_update P f (r # t) = (if P r then f r else r) # sql_update P f t"
  by (simp_all add: sql_update_def)

lemma ball_sql_update:
  "(\<forall>r\<in>set (sql_update P f t). Q r) \<longleftrightarrow>
     (\<forall>r\<in>set t. (P r \<longrightarrow> Q (f r)) \<and> (\<not> P r \<longrightarrow> Q r))"
  by (auto simp: set_sql_update)

lemma set_sql_delete [simp]: "set (sql_delete P t) = {r \<in> set t. \<not> P r}"
  by (simp add: sql_delete_def)

lemma sql_update_none: "(\<forall>r\<in>set t. \<not> P r) \<Longrightarrow> sql_update P f t = t"
  unfolding sql_update_def by (induction t) auto

lemma pk_inject:
  "has_pk key t \<Longrightarrow> r \<in> set t \<Longrightarrow> r' \<in> set t \<Longrightarrow> key r = key r' \<Longrightarrow> r = r'"
  by (auto simp: has_pk_def distinct_map inj_on_def)

lemma row_count_pk:
  assumes "has_pk key t" and "\<And>r. P r \<Longrightarrow> key r = k"
  shows "row_count P t \<le> 1"
  using assms(1)
proof (induction t)
  case (Cons r t)
  show ?case
  proof (cases "P r")
    case True
    have "filter P t = []"
      using Cons.prems True assms(2) by (auto simp: filter_empty_conv has_pk_def)
    then show ?thesis by (simp add: row_count_def)
  next
    case False
    with Cons show ?thesis by (simp add: row_count_def has_pk_def)
  qed
qed (simp add: row_count_def)

lemma row_count_eq_0: "row_count P t = 0 \<longleftrightarrow> (\<forall>r\<in>set t. \<not> P r)"
  by (auto simp: row_count_def filter_empty_conv)

lemma row_count_pos: "row_count P t = 1 \<Longrightarrow> \<exists>r\<in>set t. P r"
  using row_count_eq_0 [of P t] by force

lemma filter_sql_update:
  "(\<And>r. P r \<Longrightarrow> Q (f r) = Q r) \<Longrightarrow>
     filter Q (sql_update P f t) = sql_update P f (filter Q t)"
  by (induction t) (auto simp: sql_update_def)

section \<open>The runtime\<close>

text \<open>
  Functions of node:crypto, of the URL parser and of third-party validators.  The
  definitions take this record as an argument, so every theorem holds for every choice of
  them; a theorem that needs more (a digest of 32 bytes, no collision on two given
  values) says so.
\<close>

record url =
  url_href :: string
  url_protocol :: string
  url_username :: string
  url_password :: string
  url_hostname :: string
  url_port :: string
  url_pathname :: string
  url_search :: string
  url_hash :: string
  url_origin :: string

record runtime =
  sha256 :: "string \<Rightarrow> bytes"
  hmac_sha256 :: "bytes \<Rightarrow> string \<Rightarrow> bytes"
  base64url :: "bytes \<Rightarrow> string"
  hex :: "bytes \<Rightarrow> string"
  parse_url :: "string \<Rightarrow> url option"
  zod_uuid :: "string \<Rightarrow> bool"
  zod_url :: "string \<Rightarrow> bool"
  zod_datetime :: "string \<Rightarrow> bool"
  zod_email :: "string \<Rightarrow> bool"

text \<open>
  A concrete runtime for evaluating examples: a digest that pads to 32 bytes, and a URL
  parser for \<open>https://host/path\<close> without any other component.
\<close>

definition pad32 :: "string \<Rightarrow> string" where
  "pad32 s = take 32 (s @ replicate 32 CHR ''x'')"

definition sample_parse_url :: "string \<Rightarrow> url option" where
  "sample_parse_url s = (if starts_with s ''https://'' then
     (let rest = drop 8 s; host = takeWhile (\<lambda>c. c \<noteq> CHR ''/'') rest;
          path = dropWhile (\<lambda>c. c \<noteq> CHR ''/'') rest;
          path = (if path = [] then ''/'' else path)
      in Some \<lparr>url_href = ''https://'' @ host @ path, url_protocol = ''https:'',
           url_username = [], url_password = [], url_hostname = host, url_port = [],
           url_pathname = path, url_search = [], url_hash = [],
           url_origin = ''https://'' @ host\<rparr>)
     else None)"

definition sample_runtime :: runtime where
  "sample_runtime = \<lparr>sha256 = pad32, hmac_sha256 = (\<lambda>k s. pad32 (s @ k)),
     base64url = id, hex = id, parse_url = sample_parse_url, zod_uuid = (\<lambda>s. length s = 36),
     zod_url = (\<lambda>s. sample_parse_url s \<noteq> None), zod_datetime = (\<lambda>s. s \<noteq> []),
     zod_email = (\<lambda>s. CHR ''@'' \<in> set s)\<rparr>"

text \<open>Forty-three copies of one character: the shape of a random 32-byte token.\<close>

definition sample_token :: "char \<Rightarrow> string" where
  "sample_token c = replicate 43 c"

end
