(* ===== verification/Contracts.thy ===== *)
theory Contracts
  imports Prelude
begin

text \<open>
  The package contracts: JSON values with the schema combinators its parsers are built
  from, opaque identifiers, the ordered MCP scopes and the scope sets a request may
  carry, the tool policy, tenant contexts, platform errors and the views the control
  plane returns.
\<close>

section \<open>JSON values and schemas\<close>

text \<open>
  A number that is not an integer is kept as its literal.  Object keys are distinct.  A
  schema sees \<open>None\<close> where the source sees \<open>undefined\<close>, and answers \<open>None\<close> where the
  source's parser throws.
\<close>

datatype json =
    JNull
  | JBool bool
  | JInt int
  | JFloat string
  | JStr string
  | JArr "json list"
  | JObj "(string \<times> json) list"

type_synonym json_object = "(string \<times> json) list"
type_synonym 'a schema = "json option \<Rightarrow> 'a option"

definition z_str :: "(string \<Rightarrow> bool) \<Rightarrow> string schema" where
  "z_str P j = (case j of Some (JStr s) \<Rightarrow> if P s then Some s else None | _ \<Rightarrow> None)"

definition z_int :: "(int \<Rightarrow> bool) \<Rightarrow> int schema" where
  "z_int P j = (case j of
     Some (JInt n) \<Rightarrow> if safe_integer n \<and> P n then Some n else None | _ \<Rightarrow> None)"

definition z_enum :: "(string \<times> 'a) list \<Rightarrow> 'a schema" where
  "z_enum names j = (case j of Some (JStr s) \<Rightarrow> map_of names s | _ \<Rightarrow> None)"

definition z_optional :: "'a schema \<Rightarrow> 'a option schema" where
  "z_optional sch j = (case j of None \<Rightarrow> Some None | Some _ \<Rightarrow> map_option Some (sch j))"

fun z_all :: "('a \<Rightarrow> 'b option) \<Rightarrow> 'a list \<Rightarrow> 'b list option" where
  "z_all f [] = Some []"
| "z_all f (x # xs) =
     (case f x of None \<Rightarrow> None | Some y \<Rightarrow> map_option ((#) y) (z_all f xs))"

definition z_array :: "'a schema \<Rightarrow> ('a list \<Rightarrow> bool) \<Rightarrow> 'a list schema" where
  "z_array sch P j = (case j of
     Some (JArr xs) \<Rightarrow>
       (case z_all (\<lambda>x. sch (Some x)) xs of
          None \<Rightarrow> None | Some ys \<Rightarrow> if P ys then Some ys else None)
   | _ \<Rightarrow> None)"

text \<open>\<open>z.object({...}).strict()\<close> refuses a key it does not name.\<close>

definition strict_keys :: "string list \<Rightarrow> json_object \<Rightarrow> bool" where
  "strict_keys ks obj \<longleftrightarrow> list_all (\<lambda>kv. fst kv \<in> set ks) obj"

definition z_literal :: "string \<Rightarrow> string schema" where
  "z_literal s = z_str (\<lambda>v. v = s)"

definition z_object :: "string list \<Rightarrow> json option \<Rightarrow> json_object option" where
  "z_object ks j = (case j of
     Some (JObj obj) \<Rightarrow> if strict_keys ks obj then Some obj else None | _ \<Rightarrow> None)"

definition zod_error :: string where
  "zod_error = ''zod_error''"

definition parse_or_throw :: "'a option \<Rightarrow> 'a result" where
  "parse_or_throw r = (case r of None \<Rightarrow> Inl zod_error | Some v \<Rightarrow> Inr v)"

lemma parse_or_throw_Inr [simp]: "parse_or_throw r = Inr v \<longleftrightarrow> r = Some v"
  by (auto simp: parse_or_throw_def split: option.splits)

lemma z_all_Some: "z_all f xs = Some ys \<longleftrightarrow> map f xs = map Some ys"
  by (induction xs arbitrary: ys) (auto split: option.splits)

lemma z_str_Some [simp]: "z_str P j = Some s \<longleftrightarrow> j = Some (JStr s) \<and> P s"
  by (auto simp: z_str_def split: option.splits json.splits if_splits)

lemma z_int_Some [simp]: "z_int P j = Some n \<longleftrightarrow> j = Some (JInt n) \<and> safe_integer n \<and> P n"
  by (auto simp: z_int_def split: option.splits json.splits if_splits)

section \<open>Identifiers\<close>

text \<open>\<open>/^\d+$/u\<close>\<close>

definition digits :: "string \<Rightarrow> bool" where
  "digits s \<longleftrightarrow> s \<noteq> [] \<and> list_all (char_in digit_class) s"


definition opaque_id :: "string \<Rightarrow> bool" where
  "opaque_id s \<longleftrightarrow> rx id_class 8 128 s"

definition oauth_client_id :: "string \<Rightarrow> bool" where
  "oauth_client_id s \<longleftrightarrow> 8 \<le> length s \<and> length s \<le> 256 \<and> s \<noteq> [] \<and>
     list_all (char_in client_class) s"

section \<open>Scopes\<close>

datatype mcp_scope = McpRead | McpContentWrite | McpMediaWrite | McpTaxonomyWrite | McpSeoWrite

definition MCP_SCOPE_NAMES :: "(string \<times> mcp_scope) list" where
  "MCP_SCOPE_NAMES =
     [(''mcp:read'', McpRead), (''mcp:content.write'', McpContentWrite),
      (''mcp:media.write'', McpMediaWrite), (''mcp:taxonomy.write'', McpTaxonomyWrite),
      (''mcp:seo.write'', McpSeoWrite)]"

definition MCP_SCOPE_ORDER :: "mcp_scope list" where
  "MCP_SCOPE_ORDER = map snd MCP_SCOPE_NAMES"

fun scope_name :: "mcp_scope \<Rightarrow> string" where
  "scope_name McpRead = ''mcp:read''"
| "scope_name McpContentWrite = ''mcp:content.write''"
| "scope_name McpMediaWrite = ''mcp:media.write''"
| "scope_name McpTaxonomyWrite = ''mcp:taxonomy.write''"
| "scope_name McpSeoWrite = ''mcp:seo.write''"

definition scope_of :: "string \<Rightarrow> mcp_scope option" where
  "scope_of s = map_of MCP_SCOPE_NAMES s"

fun index_of :: "'a list \<Rightarrow> 'a \<Rightarrow> int" where
  "index_of [] x = -1"
| "index_of (y # ys) x =
     (if y = x then 0 else (let i = index_of ys x in if i < 0 then -1 else i + 1))"

definition scope_index :: "mcp_scope \<Rightarrow> int" where
  "scope_index s = index_of MCP_SCOPE_ORDER s"

lemma scope_index_simps [simp]:
  "scope_index McpRead = 0" "scope_index McpContentWrite = 1" "scope_index McpMediaWrite = 2"
  "scope_index McpTaxonomyWrite = 3" "scope_index McpSeoWrite = 4"
  by (simp_all add: scope_index_def MCP_SCOPE_ORDER_def MCP_SCOPE_NAMES_def Let_def)

lemma scope_index_inject [simp]: "scope_index a = scope_index b \<longleftrightarrow> a = b"
  by (cases a; cases b) simp_all

text \<open>The declared order of the scopes is a linear order, which the library then sorts by.\<close>

instantiation mcp_scope :: linorder
begin
definition less_eq_mcp_scope :: "mcp_scope \<Rightarrow> mcp_scope \<Rightarrow> bool" where
  "less_eq_mcp_scope a b \<longleftrightarrow> scope_index a \<le> scope_index b"
definition less_mcp_scope :: "mcp_scope \<Rightarrow> mcp_scope \<Rightarrow> bool" where
  "less_mcp_scope a b \<longleftrightarrow> scope_index a < scope_index b"
instance
  by standard (auto simp: less_eq_mcp_scope_def less_mcp_scope_def)
end

lemma scope_of_name [simp]: "scope_of (scope_name s) = Some s"
  by (cases s) (simp_all add: scope_of_def MCP_SCOPE_NAMES_def)

lemma scope_of_SomeD: "scope_of n = Some s \<Longrightarrow> n = scope_name s"
  by (auto simp: scope_of_def MCP_SCOPE_NAMES_def split: if_splits)

lemma scope_name_inject [simp]: "scope_name a = scope_name b \<longleftrightarrow> a = b"
  by (metis scope_of_name option.inject)

lemma scope_order_all: "s \<in> set MCP_SCOPE_ORDER"
  by (cases s) (simp_all add: MCP_SCOPE_ORDER_def MCP_SCOPE_NAMES_def)

text \<open>The refinements of the scope-set schema, over the elements in order.\<close>

fun scope_order_valid :: "mcp_scope list \<Rightarrow> bool" where
  "scope_order_valid (p # s # rest) =
     (scope_index p < scope_index s \<and> scope_order_valid (s # rest))"
| "scope_order_valid _ = True"

definition mcp_scope_set :: "mcp_scope list \<Rightarrow> bool" where
  "mcp_scope_set xs \<longleftrightarrow> 1 \<le> length xs \<and> length xs \<le> length MCP_SCOPE_ORDER \<and>
     length (dedup xs) = length xs \<and> scope_order_valid xs"

definition parse_scope_set :: "string list \<Rightarrow> mcp_scope list option" where
  "parse_scope_set names =
     (case z_all scope_of names of None \<Rightarrow> None
      | Some xs \<Rightarrow> if mcp_scope_set xs then Some xs else None)"

lemma scope_order_valid_iff: "scope_order_valid xs \<longleftrightarrow> sorted_wrt (<) xs"
  by (induction xs rule: scope_order_valid.induct)
     (auto simp: less_mcp_scope_def dest: less_trans)

lemma parse_scope_set_Some:
  "parse_scope_set names = Some xs \<longleftrightarrow> names = map scope_name xs \<and> mcp_scope_set xs"
proof -
  have z: "z_all scope_of names = Some ys \<longleftrightarrow> names = map scope_name ys" for ys
    unfolding z_all_Some
    by (induction names arbitrary: ys) (auto simp: Cons_eq_map_conv dest: scope_of_SomeD)
  show ?thesis
  proof
    assume "parse_scope_set names = Some xs"
    then have "z_all scope_of names = Some xs" and "mcp_scope_set xs"
      by (auto simp: parse_scope_set_def split: option.splits if_splits)
    then show "names = map scope_name xs \<and> mcp_scope_set xs" by (simp add: z)
  next
    assume *: "names = map scope_name xs \<and> mcp_scope_set xs"
    then have "names = map scope_name xs" by (rule conjunct1)
    then have "z_all scope_of names = Some xs" by (rule z [THEN iffD2])
    with * show "parse_scope_set names = Some xs" by (simp add: parse_scope_set_def)
  qed
qed

definition MCP_ABILITY_SCOPE_POLICY :: "(string \<times> mcp_scope) list" where
  "MCP_ABILITY_SCOPE_POLICY =
    [(''wp-auto/site-health'', McpRead), (''wp-auto/site-info'', McpRead),
     (''wp-auto/posts-search'', McpRead), (''wp-auto/post-get'', McpRead),
     (''wp-auto/pages-search'', McpRead), (''wp-auto/page-get'', McpRead),
     (''wp-auto/categories-list'', McpRead), (''wp-auto/tags-list'', McpRead),
     (''wp-auto/post-create-draft'', McpContentWrite),
     (''wp-auto/page-create-draft'', McpContentWrite),
     (''wp-auto/post-update'', McpContentWrite), (''wp-auto/page-update'', McpContentWrite),
     (''wp-auto/media-search'', McpRead), (''wp-auto/media-get'', McpRead),
     (''wp-auto/media-upload'', McpMediaWrite), (''wp-auto/media-update'', McpMediaWrite),
     (''wp-auto/media-set-featured'', McpMediaWrite),
     (''wp-auto/media-import-url'', McpMediaWrite),
     (''wp-auto/category-create'', McpTaxonomyWrite), (''wp-auto/tag-create'', McpTaxonomyWrite),
     (''wp-auto/taxonomy-assign'', McpTaxonomyWrite), (''wp-auto/seo-get'', McpRead),
     (''wp-auto/seo-update'', McpSeoWrite)]"

section \<open>Contexts, errors and views\<close>

record tenant_context =
  ctx_tenant :: string
  ctx_account :: string
  ctx_correlation :: string

definition parse_tenant_context :: "runtime \<Rightarrow> tenant_context \<Rightarrow> tenant_context result" where
  "parse_tenant_context rt c =
     (if zod_uuid rt (ctx_tenant c) \<and> opaque_id (ctx_account c) \<and> opaque_id (ctx_correlation c)
      then Inr c else Inl zod_error)"

datatype auth_method = Oidc | EmailOtp

record account_principal =
  pr_account :: string
  pr_time :: int
  pr_method :: auth_method

definition parse_account_principal :: "account_principal \<Rightarrow> account_principal result" where
  "parse_account_principal p =
     (if opaque_id (pr_account p) \<and> safe_integer (pr_time p) \<and> 0 \<le> pr_time p
      then Inr p else Inl zod_error)"

datatype platform_error_code =
    InvalidRequest | NotFound | Conflict | Unauthenticated | Forbidden | TemporarilyUnavailable

record platform_error =
  pe_code :: platform_error_code
  pe_status :: nat

datatype tenant_status = TActive | TSuspended | TDeleted
datatype member_role = Owner | Administrator | Member
datatype site_status = SitePending | SiteActive | SiteSuspended | SiteRevoked | SiteDeleted
datatype pairing_status =
  PairPending | PairVerifying | PairActive | PairExpired | PairCancelled | PairFailed
datatype grant_status = GrantPending | GrantActive | GrantSuspended | GrantRevoked

record membership_view =
  mv_tenant :: string
  mv_role :: member_role
  mv_created :: time
  mv_home :: bool

text \<open>\<open>CanonicalResourceSchema\<close>: a URL string of https with no other component than host and
  path, on the default port.\<close>

definition canonical_resource :: "runtime \<Rightarrow> string \<Rightarrow> bool" where
  "canonical_resource rt v \<longleftrightarrow> zod_url rt v \<and>
     (case parse_url rt v of None \<Rightarrow> False
      | Some u \<Rightarrow> \<not> (url_protocol u \<noteq> ''https:'' \<or> url_username u \<noteq> [] \<or> url_password u \<noteq> [] \<or>
                     url_hash u \<noteq> [] \<or> url_search u \<noteq> []) \<and>
                  \<not> (url_port u \<noteq> [] \<and> url_port u \<noteq> ''443''))"

record tenant_view =
  tv_id :: string
  tv_status :: tenant_status
  tv_created :: time

record site_view =
  sv_id :: string
  sv_tenant :: string
  sv_resource :: string
  sv_hostname :: string
  sv_status :: site_status
  sv_created :: time

record grant_view =
  gv_id :: string
  gv_tenant :: string
  gv_site :: string
  gv_subject :: string
  gv_client :: string
  gv_scopes :: "mcp_scope list"
  gv_status :: grant_status
  gv_version :: string
  gv_created :: time

section \<open>Properties\<close>

text \<open>
  A list of scope names is accepted exactly when it is the non-empty, canonically ordered
  enumeration of a set of scopes: two accepted lists with the same members are equal, so the
  array comparison the grant lookup does in SQL is set equality.
\<close>

theorem scope_set_canonical:
  assumes "parse_scope_set a = Some xs" and "parse_scope_set b = Some ys"
    and "set a = set b"
  shows "a = b \<and> xs = filter (\<lambda>s. scope_name s \<in> set a) MCP_SCOPE_ORDER"
proof -
  have a: "a = map scope_name xs" "sorted_wrt (<) xs"
    and b: "b = map scope_name ys" "sorted_wrt (<) ys"
    using assms(1,2) by (auto simp: parse_scope_set_Some mcp_scope_set_def scope_order_valid_iff)
  have inj: "inj scope_name" by (simp add: inj_def)
  have sets: "set xs = set ys"
    using assms(3) by (simp add: a b inj_image_eq_iff [OF inj])
  have order: "sorted_wrt (<) MCP_SCOPE_ORDER"
    by (simp add: MCP_SCOPE_ORDER_def MCP_SCOPE_NAMES_def less_mcp_scope_def)
  let ?f = "filter (\<lambda>s. scope_name s \<in> set a) MCP_SCOPE_ORDER"
  have "set ?f = set xs"
    using scope_order_all by (auto simp: a)
  moreover have "sorted_wrt (<) ?f"
    using order by (rule sorted_wrt_filter)
  ultimately have "xs = ?f" and "xs = ys"
    using a b sets by (auto intro: strict_sorted_equal)
  with a b show ?thesis by simp
qed

theorem scope_set_canonical_witness:
  "parse_scope_set [''mcp:read'', ''mcp:seo.write''] = Some [McpRead, McpSeoWrite] \<and>
   [McpRead, McpSeoWrite] =
     filter (\<lambda>s. scope_name s \<in> set [''mcp:read'', ''mcp:seo.write'']) MCP_SCOPE_ORDER"
proof -
  have p: "parse_scope_set [''mcp:read'', ''mcp:seo.write''] = Some [McpRead, McpSeoWrite]"
    by code_simp
  show ?thesis using p scope_set_canonical [OF p p refl] by simp
qed

end
