(* ===== verification/Json_Text.thy ===== *)
theory Json_Text
  imports Contracts
begin

text \<open>
  \<open>JSON.stringify\<close> on the JSON values of the model, and the decimal numerals it prints.  Code
  units below 256 other than controls, the quote and the backslash are printed as they are.
\<close>

definition digit_char :: "nat \<Rightarrow> char" where
  "digit_char n = char_of (48 + n mod 10)"

fun show_nat :: "nat \<Rightarrow> string" where
  "show_nat n = (if n < 10 then [digit_char n] else show_nat (n div 10) @ [digit_char (n mod 10)])"

declare show_nat.simps [simp del]

definition show_int :: "int \<Rightarrow> string" where
  "show_int i = (if i < 0 then ''-'' @ show_nat (nat (- i)) else show_nat (nat i))"

definition hex_digit :: "nat \<Rightarrow> char" where
  "hex_digit n = (if n < 10 then char_of (48 + n) else char_of (87 + n))"

definition json_escape :: "char \<Rightarrow> string" where
  "json_escape c =
     (let n = of_char c :: nat in
      if c = CHR 0x22 then [CHR 0x5C, CHR 0x22]
      else if c = CHR 0x5C then [CHR 0x5C, CHR 0x5C]
      else if n = 8 then CHR 0x5C # ''b''
      else if n = 9 then CHR 0x5C # ''t''
      else if n = 10 then CHR 0x5C # ''n''
      else if n = 12 then CHR 0x5C # ''f''
      else if n = 13 then CHR 0x5C # ''r''
      else if n < 32 then CHR 0x5C # ''u00'' @ [hex_digit (n div 16), hex_digit (n mod 16)]
      else [c])"

definition json_quote :: "string \<Rightarrow> string" where
  "json_quote s = CHR 0x22 # concat (map json_escape s) @ [CHR 0x22]"

fun json_stringify :: "json \<Rightarrow> string"
  and stringify_items :: "json list \<Rightarrow> string list"
  and stringify_fields :: "(string \<times> json) list \<Rightarrow> string list" where
  "json_stringify JNull = ''null''"
| "json_stringify (JBool b) = (if b then ''true'' else ''false'')"
| "json_stringify (JInt i) = show_int i"
| "json_stringify (JFloat s) = s"
| "json_stringify (JStr s) = json_quote s"
| "json_stringify (JArr xs) = ''['' @ join_with '','' (stringify_items xs) @ '']''"
| "json_stringify (JObj fs) = ''{'' @ join_with '','' (stringify_fields fs) @ ''}''"
| "stringify_items [] = []"
| "stringify_items (x # xs) = json_stringify x # stringify_items xs"
| "stringify_fields [] = []"
| "stringify_fields ((k, v) # fs) = (json_quote k @ '':'' @ json_stringify v) # stringify_fields fs"

text \<open>The text \<open>JSON.parse\<close> reads back; the parser is a parameter where the source parses.\<close>

end
