(* ===== verification/Network.thy ===== *)
theory Network
  imports Json_Text "HOL-Library.List_Lexorder"
begin

text \<open>
  Where a site may live and how its address is found (packages/pairing): the canonical form of a
  resource, the addresses that count as public, resolution that refuses a name with any
  non-public address, and the lookup pinned to one address.  \<open>isIP\<close> of node:net and the range
  classification of ipaddr.js are parameters.
\<close>

section \<open>Diagnostics\<close>

datatype diag_stage =
    StageDns | StageDestination | StageNetwork | StageResponse | StageProof | StageState
  | StagePersistence | StageUnknown

datatype diag_code =
    DnsFailed | DestinationUnsafe | NetworkFailed | NetworkTimeout | TlsFailed
  | Http401 | Http403 | Http429 | Http4xx | Http5xx | HttpOther
  | ContentTypeInvalid | TooLarge | JsonInvalid | SchemaInvalid
  | KeyInvalid | SignatureInvalid | HeaderInvalid | ClaimsInvalid
  | PairingStateInvalid | TenantAccessDenied | PersistenceFailed | CodeUnknown

text \<open>What is thrown: a diagnostic error, or any other error with its message.\<close>

datatype thrown = Diag diag_stage diag_code | Plain string

definition diagnostic :: "diag_stage \<Rightarrow> diag_code \<Rightarrow> thrown option \<Rightarrow> thrown" where
  "diagnostic stage code cause =
     (case cause of Some (Diag s c) \<Rightarrow> Diag s c | _ \<Rightarrow> Diag stage code)"

definition pairingDiagnostic :: "thrown \<Rightarrow> diag_stage \<times> diag_code" where
  "pairingDiagnostic e =
     (case e of Diag s c \<Rightarrow> (s, c) | Plain m \<Rightarrow> (StageUnknown, CodeUnknown))"

definition plain :: "'a result \<Rightarrow> thrown + 'a" where
  "plain r = (case r of Inl e \<Rightarrow> Inl (Plain e) | Inr a \<Rightarrow> Inr a)"

text \<open>\<open>try \<dots> catch (error) { throw diagnostic(stage, code, error) }\<close>\<close>

definition rethrow :: "diag_stage \<Rightarrow> diag_code \<Rightarrow> (thrown + 'a) \<Rightarrow> thrown + 'a" where
  "rethrow stage code r =
     (case r of Inl e \<Rightarrow> Inl (diagnostic stage code (Some e)) | Inr a \<Rightarrow> Inr a)"

lemma plain_Inr [simp]: "plain r = Inr a \<longleftrightarrow> r = Inr a"
  by (cases r) (simp_all add: plain_def)

lemma rethrow_Inr [simp]: "rethrow s c r = Inr a \<longleftrightarrow> r = Inr a"
  by (cases r) (simp_all add: rethrow_def)

lemma plain_simps [simp]: "plain (Inl e) = Inl (Plain e)" "plain (Inr a) = Inr a"
  by (simp_all add: plain_def)

lemma rethrow_simps [simp]:
  "rethrow s c (Inl e) = Inl (diagnostic s c (Some e))" "rethrow s c (Inr a) = Inr a"
  by (simp_all add: rethrow_def)

section \<open>Canonical resources\<close>

definition lower_char :: "char \<Rightarrow> char" where
  "lower_char c = (let n = of_char c :: nat in if 65 \<le> n \<and> n \<le> 90 then char_of (n + 32) else c)"

definition to_lower :: "string \<Rightarrow> string" where
  "to_lower s = map lower_char s"

text \<open>
  The \<open>href\<close> after the host is replaced and the port cleared, for a URL without credentials:
  the authority is rewritten, what follows it stays.
\<close>

definition href_with_host :: "url \<Rightarrow> string \<Rightarrow> string" where
  "href_with_host u host =
     (let authority = ''https://'' @ url_hostname u @
            (if url_port u = [] then [] else '':'' @ url_port u)
      in ''https://'' @ host @ drop (length authority) (url_href u))"

definition canonicalizeResource :: "runtime \<Rightarrow> string \<Rightarrow> string result" where
  "canonicalizeResource rt input =
     (case parse_url rt input of
        None \<Rightarrow> Inl ''Invalid URL''
      | Some u \<Rightarrow>
          if url_protocol u \<noteq> ''https:'' \<or> url_username u \<noteq> [] \<or> url_password u \<noteq> [] \<or>
             url_search u \<noteq> [] \<or> url_hash u \<noteq> []
          then Inl ''invalid_resource''
          else if url_port u \<noteq> [] \<and> url_port u \<noteq> ''443'' then Inl ''resource_port_not_allowed''
          else if url_pathname u = ''/'' \<or> ends_with (url_pathname u) ''/''
          then Inl ''resource_path_not_canonical''
          else
            let href = href_with_host u (to_lower (url_hostname u)) in
            if canonical_resource rt href then Inr href else Inl zod_error)"

section \<open>Public addresses\<close>

text \<open>\<open>isIP\<close> answers 0, 4 or 6; \<open>ip_range\<close> is the name of the range of a processed address.\<close>

record net =
  isIP :: "string \<Rightarrow> nat"
  ip_range :: "string \<Rightarrow> string"

definition isPublicAddress :: "net \<Rightarrow> string \<Rightarrow> bool" where
  "isPublicAddress n address \<longleftrightarrow> isIP n address \<noteq> 0 \<and> ip_range n address = ''unicast''"

text \<open>The default sort compares code units.\<close>

definition sort_strings :: "string list \<Rightarrow> string list" where
  "sort_strings = sort_key (map (of_char :: char \<Rightarrow> nat))"

text \<open>A rejected resolution is \<open>None\<close>.\<close>

definition resolvePublicAddresses ::
  "net \<Rightarrow> (string \<Rightarrow> string list option) \<Rightarrow> (string \<Rightarrow> string list option) \<Rightarrow> string \<Rightarrow>
     thrown + string list" where
  "resolvePublicAddresses n resolve4 resolve6 hostname =
     (if isIP n hostname \<noteq> 0 then
        (if \<not> isPublicAddress n hostname then Inl (diagnostic StageDestination DestinationUnsafe None)
         else Inr [hostname])
      else
        let v4 = (case resolve4 hostname of None \<Rightarrow> [] | Some xs \<Rightarrow> xs);
            v6 = (case resolve6 hostname of None \<Rightarrow> [] | Some xs \<Rightarrow> xs);
            addresses = dedup (v4 @ v6)
        in if length addresses = 0 then Inl (diagnostic StageDns DnsFailed None)
           else if list_ex (\<lambda>a. \<not> isPublicAddress n a) addresses
           then Inl (diagnostic StageDestination DestinationUnsafe None)
           else Inr (sort_strings addresses))"

text \<open>The pinned lookup: what the callback receives, with and without \<open>all\<close>.\<close>

datatype lookup_answer = AllAddresses "(string \<times> nat) list" | OneAddress string nat

definition createPinnedAddressLookup :: "net \<Rightarrow> string \<Rightarrow> (string \<Rightarrow> bool \<Rightarrow> lookup_answer) result" where
  "createPinnedAddressLookup n pinned =
     (let family = isIP n pinned in
      if family = 0 then Inl ''pinned_address_invalid''
      else Inr (\<lambda>hostname all. if all then AllAddresses [(pinned, family)] else OneAddress pinned family))"

section \<open>Lemmas\<close>

lemma set_sort_strings [simp]: "set (sort_strings xs) = set xs"
  by (simp add: sort_strings_def)

lemma lower_char_idem [simp]: "lower_char (lower_char c) = lower_char c"
proof (cases "65 \<le> (of_char c :: nat) \<and> (of_char c :: nat) \<le> 90")
  case True
  then have "(of_char (char_of ((of_char c :: nat) + 32) :: char) :: nat) = of_char c + 32"
    by (simp add: of_char_of)
  with True show ?thesis by (simp add: lower_char_def Let_def)
qed (auto simp: lower_char_def Let_def)

lemma to_lower_idem [simp]: "to_lower (to_lower s) = to_lower s"
  by (simp add: to_lower_def)

lemma canonicalize_Inr:
  assumes "canonicalizeResource rt input = Inr c"
  obtains u where "parse_url rt input = Some u" "url_protocol u = ''https:''" "url_username u = []"
    "url_password u = []" "url_search u = []" "url_hash u = []"
    "\<not> ends_with (url_pathname u) ''/''" "url_pathname u \<noteq> ''/''"
    "url_port u = [] \<or> url_port u = ''443''"
    "c = href_with_host u (to_lower (url_hostname u))" "canonical_resource rt c"
  using assms unfolding canonicalizeResource_def
  by (auto simp: succ_simps)

section \<open>Properties\<close>

text \<open>
  A name resolves only when every one of its addresses, of both families, is public: nothing that
  is returned is private, loopback or reserved, and a single such address refuses the name.
\<close>

theorem resolved_addresses_public:
  assumes "resolvePublicAddresses n r4 r6 hostname = Inr addresses"
  shows "addresses \<noteq> [] \<and> (\<forall>a\<in>set addresses. isPublicAddress n a) \<and>
     (isIP n hostname = 0 \<longrightarrow> (\<forall>xs a. (r4 hostname = Some xs \<or> r6 hostname = Some xs) \<and> a \<in> set xs \<longrightarrow>
        a \<in> set addresses))"
proof (cases "isIP n hostname = 0")
  case True
  let ?all = "dedup ((case r4 hostname of None \<Rightarrow> [] | Some xs \<Rightarrow> xs) @
      (case r6 hostname of None \<Rightarrow> [] | Some xs \<Rightarrow> xs))"
  from True assms have a: "addresses = sort_strings ?all" "?all \<noteq> []"
    "\<not> list_ex (\<lambda>a. \<not> isPublicAddress n a) ?all"
    by (auto simp: resolvePublicAddresses_def Let_def simp del: dedup.simps split: if_split_asm)
  have "set addresses \<noteq> {}"
    unfolding a(1) set_sort_strings using a(2) by (simp only: set_empty not_False_eq_True)
  moreover have "\<forall>x\<in>set addresses. isPublicAddress n x"
    using a(3) unfolding a(1) set_sort_strings by (auto simp: list_ex_iff simp del: dedup.simps)
  moreover have "set addresses = set (case r4 hostname of None \<Rightarrow> [] | Some xs \<Rightarrow> xs) \<union>
      set (case r6 hostname of None \<Rightarrow> [] | Some xs \<Rightarrow> xs)" unfolding a(1) set_sort_strings by simp
  ultimately show ?thesis by auto
next
  case False
  with assms show ?thesis by (auto simp: resolvePublicAddresses_def split: if_split_asm)
qed

definition sample_net :: net where
  "sample_net = \<lparr>isIP = (\<lambda>s. if s \<noteq> [] \<and> list_all (char_in [(48, 57), (46, 46)]) s then 4 else 0),
     ip_range = (\<lambda>s. if starts_with s ''10.'' then ''private'' else ''unicast'')\<rparr>"

theorem resolved_addresses_public_witness:
  "isPublicAddress sample_net ''8.8.4.4'' \<and> isPublicAddress sample_net ''8.8.8.8''"
proof -
  have "resolvePublicAddresses sample_net (\<lambda>h. Some [''8.8.8.8'', ''8.8.4.4'']) (\<lambda>h. None) ''a.example'' =
      Inr [''8.8.4.4'', ''8.8.8.8'']" by code_simp
  from resolved_addresses_public [OF this] show ?thesis by simp
qed

text \<open>
  Canonicalisation is idempotent, given that the URL parser reads a serialised https URL back to
  its parts: the stored form of a resource is the form it is looked up by.
\<close>

theorem canonicalize_idempotent:
  assumes "canonicalizeResource rt input = Inr c"
    and "\<And>u. parse_url rt input = Some u \<Longrightarrow>
      parse_url rt c = Some (u\<lparr>url_href := c, url_hostname := to_lower (url_hostname u), url_port := []\<rparr>)"
    and "\<And>u. parse_url rt input = Some u \<Longrightarrow> starts_with c (''https://'' @ to_lower (url_hostname u))"
  shows "canonicalizeResource rt c = Inr c"
proof -
  obtain u where u: "parse_url rt input = Some u" "url_protocol u = ''https:''" "url_username u = []"
    "url_password u = []" "url_search u = []" "url_hash u = []"
    "\<not> ends_with (url_pathname u) ''/''" "url_pathname u \<noteq> ''/''"
    "c = href_with_host u (to_lower (url_hostname u))" "canonical_resource rt c"
    by (rule canonicalize_Inr [OF assms(1)])
  have "''https://'' @ to_lower (url_hostname u) @
      drop (length (''https://'' @ to_lower (url_hostname u))) c = c"
    using assms(3) [OF u(1)] unfolding starts_with_def
    by (metis append_assoc append_take_drop_id)
  then show ?thesis
    using u assms(2) [OF u(1)] by (simp add: canonicalizeResource_def href_with_host_def)
qed

theorem canonicalize_idempotent_witness:
  "canonicalizeResource sample_runtime ''https://a.example/mcp'' = Inr ''https://a.example/mcp''"
proof (rule canonicalize_idempotent)
  show "canonicalizeResource sample_runtime ''https://a.example/mcp'' = Inr ''https://a.example/mcp''"
    by code_simp
  fix u
  assume "parse_url sample_runtime ''https://a.example/mcp'' = Some u"
  moreover have "parse_url sample_runtime ''https://a.example/mcp'' = Some
      \<lparr>url_href = ''https://a.example/mcp'', url_protocol = ''https:'', url_username = [],
       url_password = [], url_hostname = ''a.example'', url_port = [], url_pathname = ''/mcp'',
       url_search = [], url_hash = [], url_origin = ''https://a.example''\<rparr>" by code_simp
  ultimately have u: "u = \<lparr>url_href = ''https://a.example/mcp'', url_protocol = ''https:'', url_username = [],
       url_password = [], url_hostname = ''a.example'', url_port = [], url_pathname = ''/mcp'',
       url_search = [], url_hash = [], url_origin = ''https://a.example''\<rparr>" by simp
  have "to_lower ''a.example'' = ''a.example''" by code_simp
  then show "parse_url sample_runtime ''https://a.example/mcp'' = Some (u\<lparr>url_href := ''https://a.example/mcp'',
        url_hostname := to_lower (url_hostname u), url_port := []\<rparr>)"
    and "starts_with ''https://a.example/mcp'' (''https://'' @ to_lower (url_hostname u))"
    using \<open>parse_url sample_runtime ''https://a.example/mcp'' = Some u\<close>
    by (simp_all add: u starts_with_def)
qed

text \<open>
  The check on the query looks at \<open>search\<close>, which is empty both without a query and with an
  empty one.  For a parser that keeps the question mark in \<open>href\<close>, as the URL standard does, a
  resource and the same resource followed by a question mark are both accepted as canonical and
  stay different strings.
\<close>

theorem empty_query_not_canonicalised:
  assumes "canonicalizeResource rt r = Inr r" and "parse_url rt r = Some u" and "url_href u = r"
    and "parse_url rt (r @ ''?'') = Some (u\<lparr>url_href := r @ ''?''\<rparr>)" and "zod_url rt (r @ ''?'')"
    and "url_port u = []" and "starts_with r (''https://'' @ url_hostname u)"
  shows "canonicalizeResource rt (r @ ''?'') = Inr (r @ ''?'')"
proof -
  obtain v where v: "parse_url rt r = Some v" "url_protocol v = ''https:''" "url_username v = []"
    "url_password v = []" "url_search v = []" "url_hash v = []"
    "\<not> ends_with (url_pathname v) ''/''" "url_pathname v \<noteq> ''/''"
    "r = href_with_host v (to_lower (url_hostname v))" "canonical_resource rt r"
    by (rule canonicalize_Inr [OF assms(1)])
  then have [simp]: "v = u" using assms(2) by simp
  let ?n = "length (''https://'' @ url_hostname u)"
  have r: "r = (''https://'' @ url_hostname u) @ drop ?n r"
    using assms(7) unfolding starts_with_def by (metis append_take_drop_id)
  have n: "length (''https://'' @ url_hostname u) \<le> length r" using arg_cong [OF r, of length] by simp
  have "r = (''https://'' @ to_lower (url_hostname u)) @ drop ?n r"
    using v(9) assms(3,6) by (simp add: href_with_host_def)
  then have "(''https://'' @ to_lower (url_hostname u)) @ drop ?n r =
      (''https://'' @ url_hostname u) @ drop ?n r" using r by simp
  then have low: "to_lower (url_hostname u) = url_hostname u"
    unfolding append_same_eq by simp
  have "href_with_host (u\<lparr>url_href := r @ ''?''\<rparr>) (to_lower (url_hostname u)) = r @ ''?''"
    using n r low assms(6) by (simp add: href_with_host_def)
  with v assms(4-6) show ?thesis
    by (simp add: canonicalizeResource_def canonical_resource_def)
qed

definition query_parse_url :: "string \<Rightarrow> url option" where
  "query_parse_url s = (if ends_with s ''?''
     then map_option (\<lambda>u. u\<lparr>url_href := s\<rparr>) (sample_parse_url (butlast s)) else sample_parse_url s)"

definition query_runtime :: runtime where
  "query_runtime = sample_runtime\<lparr>parse_url := query_parse_url,
     zod_url := (\<lambda>s. query_parse_url s \<noteq> None)\<rparr>"

theorem empty_query_not_canonicalised_witness:
  "canonicalizeResource query_runtime ''https://a.example/mcp?'' = Inr ''https://a.example/mcp?''"
proof -
  let ?r = "''https://a.example/mcp''"
  have "canonicalizeResource query_runtime (?r @ ''?'') = Inr (?r @ ''?'')"
    by (rule empty_query_not_canonicalised [where u = "\<lparr>url_href = ?r, url_protocol = ''https:'',
       url_username = [], url_password = [], url_hostname = ''a.example'', url_port = [],
       url_pathname = ''/mcp'', url_search = [], url_hash = [], url_origin = ''https://a.example''\<rparr>"])
       (code_simp+)
  then show ?thesis by simp
qed

end
