(* ===== verification/Machines.thy ===== *)
theory Machines
  imports Main
begin

text \<open>
  The contract a stateful component keeps with its callers, as locales: a step function and an
  invariant that every admissible step preserves.  The lemmas on runs are proved here once; each
  component interprets the locale on its own operations.
\<close>

locale state_machine =
  fixes step :: "'op \<Rightarrow> 's \<Rightarrow> 's"
    and admissible :: "'op \<Rightarrow> bool"
    and invar :: "'s \<Rightarrow> bool"
  assumes step_inv: "invar s \<Longrightarrow> admissible x \<Longrightarrow> invar (step x s)"
begin

lemma run_inv: "invar s \<Longrightarrow> list_all admissible xs \<Longrightarrow> invar (fold step xs s)"
  by (induction xs arbitrary: s) (simp_all add: step_inv)

lemma run_append_inv:
  "invar (fold step xs s) \<Longrightarrow> list_all admissible ys \<Longrightarrow> invar (fold step (xs @ ys) s)"
  by (simp add: run_inv)

end

text \<open>
  A machine whose steps also move up a preorder (a counter that never decreases, rows that
  stay revoked): every state of a run is above the first.
\<close>

locale monotone_machine = state_machine step admissible invar
  for step :: "'op \<Rightarrow> 's \<Rightarrow> 's" and admissible invar +
  fixes below :: "'s \<Rightarrow> 's \<Rightarrow> bool"
  assumes below_refl: "below s s"
    and below_trans: "below s t \<Longrightarrow> below t u \<Longrightarrow> below s u"
    and step_below: "invar s \<Longrightarrow> admissible x \<Longrightarrow> below s (step x s)"
begin

lemma run_below: "invar s \<Longrightarrow> list_all admissible xs \<Longrightarrow> below s (fold step xs s)"
proof (induction xs arbitrary: s)
  case Nil
  show ?case by (simp add: below_refl)
next
  case (Cons x xs)
  then have "below s (step x s)" and "invar (step x s)"
    by (simp_all add: step_below step_inv)
  with Cons show ?case by (auto intro: below_trans)
qed

end

text \<open>
  A budgeted machine: a natural-number measure of the state that no step raises and every
  charged step lowers, so a run holds at most that many charged steps.
\<close>

locale budget_machine = state_machine step admissible invar
  for step :: "'op \<Rightarrow> 's \<Rightarrow> 's" and admissible invar +
  fixes budget :: "'s \<Rightarrow> nat"
    and charged :: "'op \<Rightarrow> 's \<Rightarrow> bool"
  assumes step_budget: "invar s \<Longrightarrow> admissible x \<Longrightarrow> budget (step x s) \<le> budget s"
    and charge_budget:
      "invar s \<Longrightarrow> admissible x \<Longrightarrow> charged x s \<Longrightarrow> budget (step x s) < budget s"
begin

fun charges :: "'op list \<Rightarrow> 's \<Rightarrow> nat" where
  "charges [] s = 0"
| "charges (x # xs) s = (if charged x s then 1 else 0) + charges xs (step x s)"

lemma charges_le_budget:
  "invar s \<Longrightarrow> list_all admissible xs \<Longrightarrow> charges xs s + budget (fold step xs s) \<le> budget s"
proof (induction xs arbitrary: s)
  case (Cons x xs)
  then have "invar (step x s)" by (simp add: step_inv)
  with Cons have "charges xs (step x s) + budget (fold step xs (step x s)) \<le> budget (step x s)"
    by simp
  with Cons.prems show ?case
    using step_budget [of s x] charge_budget [of s x] by auto
qed simp

end

end
