(* ===== verification/Site_Proof.thy ===== *)
theory Site_Proof
  imports Network Machines
begin

text \<open>
  The signed proofs a WordPress site gives (packages/pairing): the schema of the claims, the
  verification of a compact JWS against what the platform expects, the HTTPS request that fetches
  a proof, and the client that puts them together.  The functions of the jose library are the
  fields of a record.
\<close>

section \<open>Schemas\<close>

record site_jwk =
  jw_x :: string
  jw_kid :: string
  jw_alg :: bool
  jw_use :: bool

text \<open>\<open>SitePublicJwkSchema\<close>: the optional members are kept as whether they are present.\<close>

definition SitePublicJwkSchema :: "json \<Rightarrow> site_jwk option" where
  "SitePublicJwkSchema j =
     Option.bind (z_object [''kty'', ''crv'', ''x'', ''kid'', ''alg'', ''use''] (Some j)) (\<lambda>obj.
     Option.bind (z_literal ''OKP'' (map_of obj ''kty'')) (\<lambda>_.
     Option.bind (z_literal ''Ed25519'' (map_of obj ''crv'')) (\<lambda>_.
     Option.bind (z_str (\<lambda>x. 40 \<le> length x \<and> length x \<le> 64) (map_of obj ''x'')) (\<lambda>x.
     Option.bind (z_str opaque_id (map_of obj ''kid'')) (\<lambda>kid.
     Option.bind (z_optional (z_literal ''EdDSA'') (map_of obj ''alg'')) (\<lambda>alg.
     Option.bind (z_optional (z_literal ''sig'') (map_of obj ''use'')) (\<lambda>use.
     Some \<lparr>jw_x = x, jw_kid = kid, jw_alg = (alg \<noteq> None), jw_use = (use \<noteq> None)\<rparr>)))))))"

definition jwk_json :: "site_jwk \<Rightarrow> json" where
  "jwk_json k = JObj ([(''kty'', JStr ''OKP''), (''crv'', JStr ''Ed25519''), (''x'', JStr (jw_x k)),
     (''kid'', JStr (jw_kid k))] @ (if jw_alg k then [(''alg'', JStr ''EdDSA'')] else []) @
     (if jw_use k then [(''use'', JStr ''sig'')] else []))"

datatype proof_kind = ProofPairing | ProofConsent
datatype proof_decision = Approved | DeniedDecision

record proof_claims =
  pc_kind :: proof_kind
  pc_iss :: string
  pc_platform :: string
  pc_tenant :: string
  pc_site :: "string option"
  pc_attempt :: "string option"
  pc_key_sha :: "string option"
  pc_key_id :: "string option"
  pc_grant :: "string option"
  pc_subject :: "string option"
  pc_client :: "string option"
  pc_resource :: string
  pc_aud :: "string option"
  pc_scope :: "mcp_scope list option"
  pc_decision :: "proof_decision option"
  pc_challenge :: string
  pc_iat :: int
  pc_exp :: int

definition claim_names :: "string list" where
  "claim_names =
     [''kind'', ''protocol_version'', ''iss'', ''platform_issuer'', ''tenant_id'', ''site_id'',
      ''pairing_attempt_id'', ''platform_signing_key_sha256'', ''platform_signing_kid'',
      ''grant_id'', ''subject_id'', ''client_id'', ''resource'', ''aud'', ''scope'', ''decision'',
      ''challenge'', ''iat'', ''exp'']"

definition z_scope_set :: "mcp_scope list schema" where
  "z_scope_set j = z_array (z_enum MCP_SCOPE_NAMES) mcp_scope_set j"

definition SiteProofClaimsSchema :: "runtime \<Rightarrow> json \<Rightarrow> proof_claims option" where
  "SiteProofClaimsSchema rt j =
     Option.bind (z_object claim_names (Some j)) (\<lambda>obj.
     Option.bind (z_enum [(''pairing'', ProofPairing), (''consent'', ProofConsent)] (map_of obj ''kind'')) (\<lambda>kind.
     Option.bind (z_literal ''1'' (map_of obj ''protocol_version'')) (\<lambda>_.
     Option.bind (z_str (\<lambda>s. 1 \<le> length s \<and> length s \<le> 253) (map_of obj ''iss'')) (\<lambda>iss.
     Option.bind (z_str (zod_url rt) (map_of obj ''platform_issuer'')) (\<lambda>platform.
     Option.bind (z_str (zod_uuid rt) (map_of obj ''tenant_id'')) (\<lambda>tenant.
     Option.bind (z_optional (z_str opaque_id) (map_of obj ''site_id'')) (\<lambda>site.
     Option.bind (z_optional (z_str opaque_id) (map_of obj ''pairing_attempt_id'')) (\<lambda>attempt.
     Option.bind (z_optional (z_str (rx id_class 43 43)) (map_of obj ''platform_signing_key_sha256'')) (\<lambda>sha.
     Option.bind (z_optional (z_str opaque_id) (map_of obj ''platform_signing_kid'')) (\<lambda>kid.
     Option.bind (z_optional (z_str opaque_id) (map_of obj ''grant_id'')) (\<lambda>grant.
     Option.bind (z_optional (z_str opaque_id) (map_of obj ''subject_id'')) (\<lambda>subject.
     Option.bind (z_optional (z_str oauth_client_id) (map_of obj ''client_id'')) (\<lambda>client.
     Option.bind (z_str (canonical_resource rt) (map_of obj ''resource'')) (\<lambda>resource.
     Option.bind (z_optional (z_str (canonical_resource rt)) (map_of obj ''aud'')) (\<lambda>aud.
     Option.bind (z_optional z_scope_set (map_of obj ''scope'')) (\<lambda>scope.
     Option.bind (z_optional (z_enum [(''approved'', Approved), (''denied'', DeniedDecision)])
       (map_of obj ''decision'')) (\<lambda>decision.
     Option.bind (z_str (rx id_class 32 128) (map_of obj ''challenge'')) (\<lambda>challenge.
     Option.bind (z_int (\<lambda>_. True) (map_of obj ''iat'')) (\<lambda>iat.
     Option.bind (z_int (\<lambda>_. True) (map_of obj ''exp'')) (\<lambda>exp.
     Some \<lparr>pc_kind = kind, pc_iss = iss, pc_platform = platform, pc_tenant = tenant, pc_site = site,
       pc_attempt = attempt, pc_key_sha = sha, pc_key_id = kid, pc_grant = grant,
       pc_subject = subject, pc_client = client, pc_resource = resource, pc_aud = aud,
       pc_scope = scope, pc_decision = decision, pc_challenge = challenge, pc_iat = iat,
       pc_exp = exp\<rparr>))))))))))))))))))))"

record expected_proof =
  xp_kind :: proof_kind
  xp_platform :: string
  xp_tenant :: string
  xp_resource :: string
  xp_challenge :: string
  xp_attempt :: "string option"
  xp_site :: "string option"
  xp_key_sha :: "string option"
  xp_key_id :: "string option"
  xp_grant :: "string option"
  xp_client :: "string option"
  xp_subject :: "string option"
  xp_scopes :: "string list option"
  xp_decision :: "proof_decision option"
  xp_now :: time

record verified_proof =
  vp_claims :: proof_claims
  vp_jwk :: site_jwk
  vp_thumbprint :: string

section \<open>Verification\<close>

text \<open>jose and \<open>JSON.parse\<close>: a call that throws is \<open>None\<close>.\<close>

record jose =
  importJWK :: "site_jwk \<Rightarrow> string option"
  decodeProtectedHeader :: "string \<Rightarrow> json_object option"
  compactVerify :: "string \<Rightarrow> string \<Rightarrow> string option"
  jwkThumbprint :: "site_jwk \<Rightarrow> string"
  parse_json :: "string \<Rightarrow> json option"

definition MAX_SITE_PROOF_BYTES :: nat where "MAX_SITE_PROOF_BYTES = 16 * 1024"
definition SITE_PROOF_TTL_SECONDS :: int where "SITE_PROOF_TTL_SECONDS = 60"

definition exactClaim :: "'a option \<Rightarrow> 'a option \<Rightarrow> string \<Rightarrow> unit result" where
  "exactClaim actual expected name =
     (if actual \<noteq> expected then Inl (name @ ''_mismatch'') else Inr ())"

definition hostname_of :: "runtime \<Rightarrow> string \<Rightarrow> string result" where
  "hostname_of rt s =
     (case parse_url rt s of None \<Rightarrow> Inl ''Invalid URL'' | Some u \<Rightarrow> Inr (url_hostname u))"

definition header_ok :: "json_object \<Rightarrow> site_jwk \<Rightarrow> bool" where
  "header_ok header jwk \<longleftrightarrow>
     join_with '','' (sort_strings (map fst header)) = ''alg,kid,typ'' \<and>
     map_of header ''alg'' = Some (JStr ''EdDSA'') \<and>
     map_of header ''typ'' = Some (JStr ''wepuu-site-proof+jwt'') \<and>
     map_of header ''kid'' = Some (JStr (jw_kid jwk))"

definition check_claims :: "runtime \<Rightarrow> proof_claims \<Rightarrow> expected_proof \<Rightarrow> unit result" where
  "check_claims rt c x =
     (let now = xp_now x div 1000 in
      if pc_exp c \<le> now \<or> pc_iat c > now + 5 \<or> pc_exp c - pc_iat c > SITE_PROOF_TTL_SECONDS
      then Inl ''invalid''
      else if pc_kind c \<noteq> xp_kind x \<or> pc_platform c \<noteq> xp_platform x then Inl ''invalid''
      else and_then (hostname_of rt (xp_resource x)) (\<lambda>host.
        if pc_iss c \<noteq> host \<or> pc_tenant c \<noteq> xp_tenant x \<or> pc_resource c \<noteq> xp_resource x \<or>
           pc_challenge c \<noteq> xp_challenge x
        then Inl ''invalid''
        else
          and_then (exactClaim (pc_attempt c) (xp_attempt x) ''pairing_attempt'') (\<lambda>_.
          and_then (exactClaim (pc_site c) (xp_site x) ''site'') (\<lambda>_.
          and_then (exactClaim (pc_key_sha c) (xp_key_sha x) ''platform_signing_key'') (\<lambda>_.
          and_then (exactClaim (pc_key_id c) (xp_key_id x) ''platform_signing_kid'') (\<lambda>_.
          and_then (exactClaim (pc_grant c) (xp_grant x) ''grant'') (\<lambda>_.
          and_then (exactClaim (pc_client c) (xp_client x) ''client'') (\<lambda>_.
          and_then (exactClaim (pc_subject c) (xp_subject x) ''subject'') (\<lambda>_.
          and_then (exactClaim (pc_aud c)
             (if xp_kind x = ProofConsent then Some (xp_resource x) else None) ''audience'') (\<lambda>_.
          and_then (exactClaim (pc_decision c) (xp_decision x) ''decision'') (\<lambda>_.
          case xp_scopes x of
            None \<Rightarrow> Inr ()
          | Some expected \<Rightarrow>
              let actual = (case pc_scope c of None \<Rightarrow> [] | Some xs \<Rightarrow> map scope_name xs) in
              if length actual \<noteq> length expected \<or>
                 list_ex (\<lambda>(a, b). a \<noteq> b) (zip actual expected)
              then Inl ''invalid'' else Inr ())))))))))))"

definition verifySiteProof ::
  "runtime \<Rightarrow> jose \<Rightarrow> string \<Rightarrow> json \<Rightarrow> expected_proof \<Rightarrow> thrown + verified_proof" where
  "verifySiteProof rt jo compactJws publicJwkInput expected =
     (if utf8_length compactJws > MAX_SITE_PROOF_BYTES
      then Inl (diagnostic StageProof SignatureInvalid None)
      else case Option.bind (SitePublicJwkSchema publicJwkInput)
                 (\<lambda>jwk. map_option (\<lambda>key. (jwk, key)) (importJWK jo jwk)) of
        None \<Rightarrow> Inl (diagnostic StageProof KeyInvalid (Some (Plain zod_error)))
      | Some (jwk, key) \<Rightarrow>
          (case decodeProtectedHeader jo compactJws of
             None \<Rightarrow> Inl (diagnostic StageProof HeaderInvalid (Some (Plain ''Invalid Token'')))
           | Some header \<Rightarrow>
               if \<not> header_ok header jwk
               then Inl (diagnostic StageProof HeaderInvalid (Some (Plain ''invalid'')))
               else (case compactVerify jo compactJws key of
                 None \<Rightarrow> Inl (diagnostic StageProof SignatureInvalid (Some (Plain ''signature'')))
               | Some payload \<Rightarrow>
                   rethrow StageProof ClaimsInvalid (plain
                     (and_then (parse_or_throw (Option.bind (parse_json jo payload)
                        (SiteProofClaimsSchema rt))) (\<lambda>claims.
                      and_then (check_claims rt claims expected) (\<lambda>_.
                      Inr \<lparr>vp_claims = claims, vp_jwk = jwk, vp_thumbprint = jwkThumbprint jo jwk\<rparr>)))))))"

section \<open>Fetching a proof\<close>

record site_response =
  sr_proof :: string
  sr_jwk :: json

definition SiteProofResponseSchema :: "json \<Rightarrow> site_response option" where
  "SiteProofResponseSchema j =
     Option.bind (z_object [''proof'', ''publicJwk''] (Some j)) (\<lambda>obj.
     Option.bind (z_str (\<lambda>_. True) (map_of obj ''proof'')) (\<lambda>pr.
     Option.bind (map_of obj ''publicJwk'') (\<lambda>jwk.
     map_option (\<lambda>k. \<lparr>sr_proof = pr, sr_jwk = jwk_json k\<rparr>) (SitePublicJwkSchema jwk))))"

definition httpDiagnostic :: "int \<Rightarrow> thrown" where
  "httpDiagnostic status =
     (if status = 401 then Diag StageResponse Http401
      else if status = 403 then Diag StageResponse Http403
      else if status = 429 then Diag StageResponse Http429
      else if 400 \<le> status \<and> status < 500 then Diag StageResponse Http4xx
      else if 500 \<le> status \<and> status < 600 then Diag StageResponse Http5xx
      else Diag StageResponse HttpOther)"

definition TLS_ERROR_CODES :: "string list" where
  "TLS_ERROR_CODES =
     [''CERT_HAS_EXPIRED'', ''CERT_NOT_YET_VALID'', ''DEPTH_ZERO_SELF_SIGNED_CERT'',
      ''ERR_TLS_CERT_ALTNAME_INVALID'', ''SELF_SIGNED_CERT_IN_CHAIN'',
      ''UNABLE_TO_GET_ISSUER_CERT'', ''UNABLE_TO_GET_ISSUER_CERT_LOCALLY'',
      ''UNABLE_TO_VERIFY_LEAF_SIGNATURE'']"

text \<open>A network error: a diagnostic already, or an error with or without a string code.\<close>

datatype net_error = NetDiag diag_stage diag_code | NetCode string | NetOther

definition networkDiagnostic :: "net_error \<Rightarrow> thrown" where
  "networkDiagnostic e =
     (case e of
        NetDiag s c \<Rightarrow> Diag s c
      | NetCode code \<Rightarrow>
          if code \<in> set TLS_ERROR_CODES \<or> starts_with code ''ERR_SSL_'' \<or> starts_with code ''ERR_TLS_''
          then Diag StageNetwork TlsFailed else Diag StageNetwork NetworkFailed
      | NetOther \<Rightarrow> Diag StageNetwork NetworkFailed)"

text \<open>
  \<open>requestSiteProof\<close> as the events of the request, in any order.  The promise is settled by the
  first call of \<open>succeed\<close> or \<open>fail\<close>; \<open>rq_body\<close> is the response being read, if one is.
\<close>

datatype http_event =
    Response int string
  | Chunk string
  | EndOfBody
  | TimedOut
  | NetError net_error

record http_request =
  rq_settled :: "(thrown + site_response) option"
  rq_body :: "string option"
  rq_size :: nat

definition fresh_request :: http_request where
  "fresh_request = \<lparr>rq_settled = None, rq_body = None, rq_size = 0\<rparr>"

definition settle :: "(thrown + site_response) \<Rightarrow> http_request \<Rightarrow> http_request" where
  "settle r st = st\<lparr>rq_settled := coalesce (rq_settled st) r\<rparr>"

fun http_step :: "jose \<Rightarrow> http_event \<Rightarrow> http_request \<Rightarrow> http_request" where
  "http_step jo (Response status content_type) st =
     (if status \<noteq> 200 then settle (Inl (httpDiagnostic status)) st
      else if \<not> starts_with (to_lower content_type) ''application/json''
      then settle (Inl (Diag StageResponse ContentTypeInvalid)) st
      else st\<lparr>rq_body := Some []\<rparr>)"
| "http_step jo (Chunk bytes) st =
     (case rq_body st of
        None \<Rightarrow> st
      | Some body \<Rightarrow>
          let size = rq_size st + length bytes in
          if size > MAX_SITE_PROOF_BYTES
          then settle (Inl (Diag StageResponse TooLarge)) (st\<lparr>rq_size := size, rq_body := None\<rparr>)
          else st\<lparr>rq_size := size, rq_body := Some (body @ bytes)\<rparr>)"
| "http_step jo EndOfBody st =
     (case rq_body st of
        None \<Rightarrow> st
      | Some body \<Rightarrow>
          (case parse_json jo body of
             None \<Rightarrow> settle (Inl (Diag StageResponse JsonInvalid)) st
           | Some decoded \<Rightarrow>
               (case SiteProofResponseSchema decoded of
                  None \<Rightarrow> settle (Inl (Diag StageResponse SchemaInvalid)) st
                | Some parsed \<Rightarrow> settle (Inr parsed) st)))"
| "http_step jo TimedOut st = settle (Inl (Diag StageNetwork NetworkTimeout)) st"
| "http_step jo (NetError e) st = settle (Inl (networkDiagnostic e)) st"

definition requestSiteProof :: "jose \<Rightarrow> http_event list \<Rightarrow> (thrown + site_response) option" where
  "requestSiteProof jo events = rq_settled (fold (http_step jo) events fresh_request)"

section \<open>The verification client\<close>

record site_verification =
  sq_resource :: string
  sq_platform :: string
  sq_tenant :: string
  sq_attempt :: string
  sq_site :: string
  sq_pem :: string
  sq_kid :: string
  sq_verifier :: string
  sq_challenge :: string

text \<open>The endpoint: the fixed path on the origin of the resource.\<close>

definition proof_endpoint :: "url \<Rightarrow> string" where
  "proof_endpoint u = url_origin u @ ''/wp-json/wp-auto/v1/pairing/proof''"

definition proof_body :: "site_verification \<Rightarrow> string \<Rightarrow> json" where
  "proof_body q resource = JObj
     [(''protocol_version'', JStr ''1''), (''tenant_id'', JStr (sq_tenant q)),
      (''pairing_attempt_id'', JStr (sq_attempt q)), (''site_id'', JStr (sq_site q)),
      (''platform_signing_key_pem'', JStr (sq_pem q)), (''platform_signing_kid'', JStr (sq_kid q)),
      (''verifier'', JStr (sq_verifier q)), (''challenge'', JStr (sq_challenge q)),
      (''platform_issuer'', JStr (sq_platform q)), (''resource'', JStr resource)]"

text \<open>\<open>HttpsSiteVerificationClient.verify\<close> at time \<open>now\<close>, over a resolver and a request function.\<close>

definition https_verify ::
  "runtime \<Rightarrow> jose \<Rightarrow> net \<Rightarrow> (string \<Rightarrow> thrown + string list) \<Rightarrow>
     (string \<Rightarrow> string \<Rightarrow> string \<Rightarrow> thrown + site_response) \<Rightarrow> time \<Rightarrow> site_verification \<Rightarrow>
     thrown + verified_proof" where
  "https_verify rt jo n resolver request now q =
     and_then (plain (canonicalizeResource rt (sq_resource q))) (\<lambda>resource.
     case parse_url rt resource of
       None \<Rightarrow> Inl (Plain ''Invalid URL'')
     | Some u \<Rightarrow>
         and_then (rethrow StageDns DnsFailed (resolver (url_hostname u))) (\<lambda>addresses.
         case addresses of
           [] \<Rightarrow> Inl (diagnostic StageDns DnsFailed None)
         | pinned # _ \<Rightarrow>
             if \<not> isPublicAddress n pinned then Inl (diagnostic StageDestination DestinationUnsafe None)
             else
               and_then (request (proof_endpoint u) (json_stringify (proof_body q resource)) pinned)
               (\<lambda>response. verifySiteProof rt jo (sr_proof response) (sr_jwk response)
                  \<lparr>xp_kind = ProofPairing, xp_platform = sq_platform q, xp_tenant = sq_tenant q,
                   xp_resource = resource, xp_challenge = sq_challenge q,
                   xp_attempt = Some (sq_attempt q), xp_site = Some (sq_site q),
                   xp_key_sha = Some (base64url rt (sha256 rt (sq_pem q))),
                   xp_key_id = Some (sq_kid q), xp_grant = None, xp_client = None,
                   xp_subject = None, xp_scopes = None, xp_decision = None, xp_now = now\<rparr>)))"

section \<open>Lemmas\<close>

lemma exactClaim_Inr [simp]: "exactClaim a x m = Inr () \<longleftrightarrow> a = x"
  by (simp add: exactClaim_def)

lemma same_elements:
  "length xs = length ys \<Longrightarrow> \<not> list_ex (\<lambda>(a, b). a \<noteq> b) (zip xs ys) \<Longrightarrow> xs = ys"
  by (induction xs ys rule: list_induct2) auto

lemma check_claims_Inr:
  assumes "check_claims rt c x = Inr ()"
  shows "xp_now x div 1000 < pc_exp c \<and> pc_iat c \<le> xp_now x div 1000 + 5 \<and> pc_exp c - pc_iat c \<le> 60 \<and>
     pc_kind c = xp_kind x \<and> pc_platform c = xp_platform x \<and>
     hostname_of rt (xp_resource x) = Inr (pc_iss c) \<and> pc_tenant c = xp_tenant x \<and>
     pc_resource c = xp_resource x \<and> pc_challenge c = xp_challenge x \<and>
     pc_attempt c = xp_attempt x \<and> pc_site c = xp_site x \<and> pc_key_sha c = xp_key_sha x \<and>
     pc_key_id c = xp_key_id x \<and> pc_grant c = xp_grant x \<and> pc_client c = xp_client x \<and>
     pc_subject c = xp_subject x \<and> pc_decision c = xp_decision x \<and>
     pc_aud c = (if xp_kind x = ProofConsent then Some (xp_resource x) else None) \<and>
     (\<forall>ss. xp_scopes x = Some ss \<longrightarrow>
        (case pc_scope c of None \<Rightarrow> [] | Some xs \<Rightarrow> map scope_name xs) = ss)"
  using assms unfolding check_claims_def SITE_PROOF_TTL_SECONDS_def
  by (auto simp: succ_simps dest!: same_elements)

lemma verify_Inr:
  assumes "verifySiteProof rt jo jws jwkj x = Inr v"
  obtains header key payload j where
    "utf8_length jws \<le> MAX_SITE_PROOF_BYTES" "SitePublicJwkSchema jwkj = Some (vp_jwk v)"
    "importJWK jo (vp_jwk v) = Some key" "decodeProtectedHeader jo jws = Some header"
    "header_ok header (vp_jwk v)" "compactVerify jo jws key = Some payload"
    "parse_json jo payload = Some j" "SiteProofClaimsSchema rt j = Some (vp_claims v)"
    "check_claims rt (vp_claims v) x = Inr ()" "vp_thumbprint v = jwkThumbprint jo (vp_jwk v)"
proof -
  from assms obtain jwk key header payload j claims where *:
    "utf8_length jws \<le> MAX_SITE_PROOF_BYTES" "SitePublicJwkSchema jwkj = Some jwk"
    "importJWK jo jwk = Some key" "decodeProtectedHeader jo jws = Some header"
    "header_ok header jwk" "compactVerify jo jws key = Some payload"
    "parse_json jo payload = Some j" "SiteProofClaimsSchema rt j = Some claims"
    "check_claims rt claims x = Inr ()"
    "v = \<lparr>vp_claims = claims, vp_jwk = jwk, vp_thumbprint = jwkThumbprint jo jwk\<rparr>"
    unfolding verifySiteProof_def
    by (auto simp: succ_simps not_less bind_eq_Some_conv)
  then show thesis by (intro that [of key header payload j]) simp_all
qed

lemma no_difference [simp]: "\<not> list_ex (\<lambda>(a, b). a \<noteq> b) (zip xs xs)"
  by (induction xs) auto

text \<open>The claims the platform accepts, every one of them compared with what it expects.\<close>

definition granted_scopes :: "proof_claims \<Rightarrow> string list" where
  "granted_scopes c = (case pc_scope c of None \<Rightarrow> [] | Some xs \<Rightarrow> map scope_name xs)"

lemma check_claims_iff:
  "check_claims rt c x = Inr () \<longleftrightarrow>
     xp_now x div 1000 < pc_exp c \<and> pc_iat c \<le> xp_now x div 1000 + 5 \<and> pc_exp c - pc_iat c \<le> 60 \<and>
     pc_kind c = xp_kind x \<and> pc_platform c = xp_platform x \<and>
     hostname_of rt (xp_resource x) = Inr (pc_iss c) \<and> pc_tenant c = xp_tenant x \<and>
     pc_resource c = xp_resource x \<and> pc_challenge c = xp_challenge x \<and>
     pc_attempt c = xp_attempt x \<and> pc_site c = xp_site x \<and> pc_key_sha c = xp_key_sha x \<and>
     pc_key_id c = xp_key_id x \<and> pc_grant c = xp_grant x \<and> pc_client c = xp_client x \<and>
     pc_subject c = xp_subject x \<and> pc_decision c = xp_decision x \<and>
     pc_aud c = (if xp_kind x = ProofConsent then Some (xp_resource x) else None) \<and>
     (case xp_scopes x of None \<Rightarrow> True | Some ss \<Rightarrow> granted_scopes c = ss)" (is "?l = ?r")
proof
  assume l: ?l
  from check_claims_Inr [OF this] show ?r by (auto simp: granted_scopes_def split: option.split)
next
  assume r: ?r
  then show ?l
    unfolding check_claims_def SITE_PROOF_TTL_SECONDS_def Let_def granted_scopes_def [symmetric]
    by (simp add: exactClaim_def not_le not_less split: option.split_asm option.split)
qed

lemma verify_iff:
  "verifySiteProof rt jo jws jwkj x = Inr v \<longleftrightarrow>
     utf8_length jws \<le> 16384 \<and> SitePublicJwkSchema jwkj = Some (vp_jwk v) \<and>
     (\<exists>key header payload j. importJWK jo (vp_jwk v) = Some key \<and>
        decodeProtectedHeader jo jws = Some header \<and> header_ok header (vp_jwk v) \<and>
        compactVerify jo jws key = Some payload \<and> parse_json jo payload = Some j \<and>
        SiteProofClaimsSchema rt j = Some (vp_claims v)) \<and>
     check_claims rt (vp_claims v) x = Inr () \<and> vp_thumbprint v = jwkThumbprint jo (vp_jwk v)" (is "?l = ?r")
proof
  assume ?l
  then show ?r by (rule verify_Inr) (auto simp: MAX_SITE_PROOF_BYTES_def)
next
  assume ?r
  then show ?l
    by (cases v) (auto simp: verifySiteProof_def MAX_SITE_PROOF_BYTES_def parse_or_throw_def)
qed

text \<open>An answered request keeps its answer, and what was read stays within the limit.\<close>

definition request_ok :: "http_request \<Rightarrow> bool" where
  "request_ok st \<longleftrightarrow> (case rq_body st of None \<Rightarrow> True
     | Some body \<Rightarrow> length body \<le> rq_size st \<and> length body \<le> MAX_SITE_PROOF_BYTES)"

definition request_below :: "http_request \<Rightarrow> http_request \<Rightarrow> bool" where
  "request_below st st' \<longleftrightarrow> (rq_settled st \<noteq> None \<longrightarrow> rq_settled st' = rq_settled st)"

lemma settle_simps [simp]:
  "rq_body (settle r st) = rq_body st" "rq_size (settle r st) = rq_size st"
  "rq_settled (settle r st) = coalesce (rq_settled st) r"
  by (simp_all add: settle_def)

interpretation site_requests:
  monotone_machine "http_step jo" "\<lambda>_. True" request_ok request_below for jo
proof unfold_locales
  fix st x
  assume "request_ok st"
  then show "request_ok (http_step jo x st)"
    by (cases x) (auto simp: request_ok_def Let_def split: option.splits)
  show "request_below st (http_step jo x st)"
    by (cases x) (auto simp: request_below_def Let_def split: option.splits)
qed (auto simp: request_below_def)

section \<open>Properties\<close>

text \<open>
  C6. A proof verifies precisely if it is short enough, the site's key signed it, its header names that
  key and nothing but the algorithm and the type, and its claims are what the platform expects: kind,
  platform issuer, host, tenant, resource, challenge, audience, decision, scopes where scopes are
  expected, and every optional claim, present or absent; it is not expired, was not issued more than
  five seconds ahead, and is valid for at most a minute.
\<close>

theorem site_proof_sound:
  "verifySiteProof rt jo jws jwkj x = Inr v \<longleftrightarrow>
     utf8_length jws \<le> 16384 \<and> SitePublicJwkSchema jwkj = Some (vp_jwk v) \<and>
     (\<exists>key header payload j. importJWK jo (vp_jwk v) = Some key \<and>
        decodeProtectedHeader jo jws = Some header \<and>
        join_with '','' (sort_strings (map fst header)) = ''alg,kid,typ'' \<and>
        map_of header ''alg'' = Some (JStr ''EdDSA'') \<and> map_of header ''typ'' = Some (JStr ''wepuu-site-proof+jwt'') \<and>
        map_of header ''kid'' = Some (JStr (jw_kid (vp_jwk v))) \<and>
        compactVerify jo jws key = Some payload \<and> parse_json jo payload = Some j \<and>
        SiteProofClaimsSchema rt j = Some (vp_claims v)) \<and>
     (let c = vp_claims v; now = xp_now x div 1000 in
        now < pc_exp c \<and> pc_iat c \<le> now + 5 \<and> pc_exp c - pc_iat c \<le> 60 \<and>
        pc_kind c = xp_kind x \<and> pc_platform c = xp_platform x \<and>
        hostname_of rt (xp_resource x) = Inr (pc_iss c) \<and> pc_tenant c = xp_tenant x \<and>
        pc_resource c = xp_resource x \<and> pc_challenge c = xp_challenge x \<and>
        pc_attempt c = xp_attempt x \<and> pc_site c = xp_site x \<and> pc_key_sha c = xp_key_sha x \<and>
        pc_key_id c = xp_key_id x \<and> pc_grant c = xp_grant x \<and> pc_client c = xp_client x \<and>
        pc_subject c = xp_subject x \<and> pc_decision c = xp_decision x \<and>
        pc_aud c = (if xp_kind x = ProofConsent then Some (xp_resource x) else None) \<and>
        (case xp_scopes x of None \<Rightarrow> True | Some ss \<Rightarrow> granted_scopes c = ss)) \<and>
     vp_thumbprint v = jwkThumbprint jo (vp_jwk v)"
  unfolding verify_iff check_claims_iff header_ok_def Let_def by (rule arg_cong2 [where f = "(\<and>)", OF refl]) blast

definition sample_claims_json :: json where
  "sample_claims_json = JObj
     [(''kind'', JStr ''pairing''), (''protocol_version'', JStr ''1''), (''iss'', JStr ''a.example''),
      (''platform_issuer'', JStr ''https://p.example/''), (''tenant_id'', JStr (replicate 36 CHR ''1'')),
      (''site_id'', JStr ''site-0001''), (''pairing_attempt_id'', JStr ''attempt-01''),
      (''platform_signing_key_sha256'', JStr (replicate 43 CHR ''k'')),
      (''platform_signing_kid'', JStr ''kid-00001''), (''resource'', JStr ''https://a.example/mcp''),
      (''challenge'', JStr (sample_token CHR ''c'')), (''iat'', JInt 100), (''exp'', JInt 160)]"

definition sample_jwk :: site_jwk where
  "sample_jwk = \<lparr>jw_x = sample_token CHR ''x'', jw_kid = ''site-key-1'', jw_alg = True, jw_use = False\<rparr>"

definition sample_jose :: jose where
  "sample_jose = \<lparr>importJWK = (\<lambda>k. Some (jw_kid k)),
     decodeProtectedHeader = (\<lambda>s. Some [(''alg'', JStr ''EdDSA''), (''kid'', JStr ''site-key-1''),
        (''typ'', JStr ''wepuu-site-proof+jwt'')]),
     compactVerify = (\<lambda>s k. if s = ''jws'' then Some ''payload'' else None), jwkThumbprint = jw_x,
     parse_json = (\<lambda>s. if s = ''payload'' then Some sample_claims_json else None)\<rparr>"

definition sample_expected :: expected_proof where
  "sample_expected = \<lparr>xp_kind = ProofPairing, xp_platform = ''https://p.example/'',
     xp_tenant = replicate 36 CHR ''1'', xp_resource = ''https://a.example/mcp'',
     xp_challenge = sample_token CHR ''c'', xp_attempt = Some ''attempt-01'', xp_site = Some ''site-0001'',
     xp_key_sha = Some (replicate 43 CHR ''k''), xp_key_id = Some ''kid-00001'', xp_grant = None,
     xp_client = None, xp_subject = None, xp_scopes = None, xp_decision = None, xp_now = 120000\<rparr>"

definition sample_verified :: "thrown + verified_proof" where
  "sample_verified = verifySiteProof sample_runtime sample_jose ''jws'' (jwk_json sample_jwk) sample_expected"

lemma sample_verified_eval: "sample_verified = Inr (projr sample_verified)"
  by code_simp

theorem site_proof_sound_witness:
  "pc_exp (vp_claims (projr sample_verified)) - pc_iat (vp_claims (projr sample_verified)) \<le> 60 \<and>
   pc_site (vp_claims (projr sample_verified)) = Some ''site-0001''"
proof -
  have "xp_site sample_expected = Some ''site-0001''" by (simp add: sample_expected_def)
  with site_proof_sound [THEN iffD1, OF sample_verified_eval [unfolded sample_verified_def]] show ?thesis
    unfolding sample_verified_def Let_def by auto
qed

text \<open>
  The request for a proof is answered at most once: whatever happens after it was settled, the
  answer stays; a time-out always settles it; and at no moment does it hold more than 16 KiB.
\<close>

theorem site_request_settles_once:
  "(requestSiteProof jo events = Some r \<longrightarrow> requestSiteProof jo (events @ rest) = Some r) \<and>
   (TimedOut \<in> set events \<longrightarrow> requestSiteProof jo events \<noteq> None) \<and>
   (case rq_body (fold (http_step jo) events fresh_request) of
      None \<Rightarrow> True | Some body \<Rightarrow> length body \<le> 16384)"
proof -
  have ok: "request_ok (fold (http_step jo) xs fresh_request)" for xs
    by (rule site_requests.run_inv) (simp_all add: request_ok_def fresh_request_def list_all_iff)
  have once: "requestSiteProof jo (xs @ ys) = Some q" if "requestSiteProof jo xs = Some q" for xs ys q
    using site_requests.run_below [OF ok [of xs], of ys jo] that
    by (simp add: requestSiteProof_def request_below_def list_all_iff)
  have "requestSiteProof jo events \<noteq> None" if "TimedOut \<in> set events"
  proof -
    from that obtain us vs where "events = us @ TimedOut # vs" by (auto simp: in_set_conv_decomp)
    then have e: "events = (us @ [TimedOut]) @ vs" by simp
    have "requestSiteProof jo (us @ [TimedOut]) \<noteq> None"
      by (simp add: requestSiteProof_def)
    then obtain q where "requestSiteProof jo (us @ [TimedOut]) = Some q" by auto
    from once [OF this, of vs] show ?thesis by (simp add: e)
  qed
  with once [of events r rest] ok [of events] show ?thesis
    by (auto simp: request_ok_def MAX_SITE_PROOF_BYTES_def split: option.splits)
qed

theorem site_request_settles_once_witness:
  "requestSiteProof sample_jose ([TimedOut] @ [Response 200 ''application/json'', EndOfBody]) =
     Some (Inl (Diag StageNetwork NetworkTimeout))"
proof -
  have "requestSiteProof sample_jose [TimedOut] = Some (Inl (Diag StageNetwork NetworkTimeout))"
    by code_simp
  with site_request_settles_once show ?thesis by blast
qed

text \<open>
  C33. The verification client reaches the network only at public addresses: how requests to any
  other address would be answered has no influence on it.
\<close>

theorem client_contacts_public_only:
  assumes "\<And>endpoint body address. isPublicAddress n address \<Longrightarrow>
     request endpoint body address = request' endpoint body address"
  shows "https_verify rt jo n resolver request now q = https_verify rt jo n resolver request' now q"
  unfolding https_verify_def
  by (cases "canonicalizeResource rt (sq_resource q)")
     (auto simp: assms and_then_def split: option.split sum.split list.split)

definition sample_request :: site_verification where
  "sample_request = \<lparr>sq_resource = ''https://a.example/mcp'', sq_platform = ''https://p.example/'',
     sq_tenant = replicate 36 CHR ''1'', sq_attempt = ''attempt-01'', sq_site = ''site-0001'',
     sq_pem = ''pem'', sq_kid = ''kid-00001'', sq_verifier = ''v'', sq_challenge = ''c''\<rparr>"

theorem client_contacts_public_only_witness:
  "https_verify sample_runtime sample_jose sample_net (\<lambda>h. Inr [''10.0.0.1''])
     (\<lambda>e b a. Inl (Plain ''refused'')) 0 sample_request =
   https_verify sample_runtime sample_jose sample_net (\<lambda>h. Inr [''10.0.0.1''])
     (\<lambda>e b a. if isPublicAddress sample_net a then Inl (Plain ''refused'')
              else Inr \<lparr>sr_proof = ''stolen'', sr_jwk = JNull\<rparr>) 0 sample_request"
  by (rule client_contacts_public_only) simp

end
