(* ===== verification/Schema.thy ===== *)
theory Schema
  imports Contracts
begin

text \<open>
  The database the services share: one record per row of each table of the migrations, with
  the columns the modelled code reads or writes, and one record \<open>db\<close> of all the tables.
  A column with a CHECK on a fixed set of words is a datatype.  Foreign keys and the CHECKs on
  the shape of identifiers are not part of the model.  The unique indexes that the code
  relies on are checked by the insertions below.
\<close>

record account_row =
  acc_id :: string
  acc_status :: tenant_status
  acc_issuer :: "string option"
  acc_subject_hash :: "string option"

record tenant_row =
  ten_id :: string
  ten_status :: tenant_status
  ten_created :: time

record membership_row =
  mem_tenant :: string
  mem_account :: string
  mem_role :: member_role
  mem_active :: bool
  mem_created :: time

record home_row =
  home_account :: string
  home_tenant :: string

record link_row =
  link_user :: string
  link_account :: string

record auth_user_row =
  usr_id :: string
  usr_email :: string

record auth_session_row =
  ses_id :: string
  ses_user :: string
  ses_created :: time
  ses_expires :: time

record account_session_row =
  as_hash :: bytes
  as_account :: string
  as_issuer :: string
  as_authenticated :: time
  as_expires :: time
  as_revoked :: "time option"

record login_row =
  lt_hash :: bytes
  lt_return :: string
  lt_csrf :: bytes
  lt_email :: "bytes option"
  lt_created :: time
  lt_expires :: time
  lt_consumed :: "time option"

datatype console_purpose = PurposeLogin | PurposeLogout

record console_tx_row =
  ct_id :: string
  ct_purpose :: console_purpose
  ct_secret :: bytes
  ct_return :: string
  ct_session :: "string option"
  ct_account :: "string option"
  ct_code :: "bytes option"
  ct_created :: time
  ct_expires :: time
  ct_consumed :: "time option"

record console_session_row =
  cs_hash :: bytes
  cs_account :: string
  cs_session :: string
  cs_authenticated :: time
  cs_created :: time
  cs_expires :: time
  cs_revoked :: "time option"

record site_row =
  si_tenant :: string
  si_id :: string
  si_resource :: string
  si_hostname :: string
  si_status :: site_status
  si_jwk :: json
  si_thumbprint :: string
  si_created :: time
  si_revoked :: "time option"

record attempt_row =
  pa_tenant :: string
  pa_id :: string
  pa_initiator :: string
  pa_resource :: string
  pa_verifier :: bytes
  pa_status :: pairing_status
  pa_expires :: time
  pa_consumed :: "time option"
  pa_site :: "string option"
  pa_failure :: "string option"
  pa_correlation :: string

record grant_row =
  gr_tenant :: string
  gr_id :: string
  gr_site :: string
  gr_subject :: string
  gr_client :: string
  gr_scopes :: "string list"
  gr_challenge :: bytes
  gr_expires :: time
  gr_status :: grant_status
  gr_version :: string
  gr_created :: time
  gr_revoked :: "time option"
  gr_reason :: "string option"

record idem_row =
  im_tenant :: string
  im_operation :: string
  im_key :: string
  im_digest :: bytes
  im_reference :: string
  im_expires :: time

record artifact_row =
  pv_model :: string
  pv_id :: string
  pv_tenant :: "string option"
  pv_payload :: json_object
  pv_expires :: "time option"

record secret_row =
  sa_model :: string
  sa_version :: nat
  sa_hash :: bytes
  sa_tenant :: "string option"
  sa_payload :: json_object
  sa_expires :: "time option"
  sa_consumed :: "time option"

datatype family_status = FamActive | FamRevoked | FamExpired

record family_row =
  fam_id :: string
  fam_tenant :: string
  fam_site :: string
  fam_grant :: string
  fam_client :: string
  fam_subject :: string
  fam_status :: family_status
  fam_generation :: int
  fam_last_used :: time
  fam_absolute :: time
  fam_revoked :: "time option"
  fam_reason :: "string option"

datatype event_type = EvGrant | EvSite | EvSubject | EvToken | EvKey

record outbox_row =
  ob_id :: nat
  ob_tenant :: string
  ob_site :: string
  ob_resource :: string
  ob_sequence :: nat
  ob_type :: event_type
  ob_grant :: "string option"
  ob_key :: "string option"
  ob_reason :: string
  ob_not_before :: time
  ob_attempts :: nat
  ob_locked :: "time option"
  ob_delivered :: "time option"
  ob_error :: "string option"

record bucket_row =
  bk_policy :: string
  bk_subject :: bytes
  bk_window :: time
  bk_counter :: nat
  bk_expires :: time

datatype key_status = KeyPublished | KeyActive | KeyRetiring | KeyRevoked
datatype custody_provider = AwsKms | LocalPkcs8

record key_row =
  ky_kid :: string
  ky_provider :: custody_provider
  ky_reference :: string
  ky_jwk :: json
  ky_status :: key_status
  ky_publish :: time
  ky_activate :: "time option"
  ky_retire :: "time option"
  ky_revoke :: "time option"

datatype client_status = ClActive | ClSuspended | ClRevoked

record client_row =
  cl_id :: string
  cl_mode :: string
  cl_redirects :: json
  cl_digest :: string
  cl_status :: client_status

datatype otp_outcome = OtpReserved | OtpAccepted | OtpRejected | OtpUnknown

record otp_row =
  otp_id :: string
  otp_recipient :: bytes
  otp_reserved :: time
  otp_attempted :: "time option"
  otp_result :: otp_outcome

datatype audit_outcome = AuditSuccess | AuditDenied | AuditError

record event_row =
  ev_tenant :: string
  ev_id :: nat
  ev_occurred :: time
  ev_name :: string
  ev_outcome :: audit_outcome
  ev_reason :: string
  ev_correlation :: string
  ev_actor :: "string option"
  ev_site :: "string option"
  ev_client :: "string option"
  ev_grant :: "string option"
  ev_service :: string
  ev_version :: string
  ev_duration :: "string option"

datatype scope_kind = ScopeAccount | ScopeTenant | ScopeSite
datatype job_status = JobPending | JobWaiting | JobComplete | JobFailed

record job_row =
  dj_id :: string
  dj_kind :: scope_kind
  dj_scope :: string
  dj_tenant :: "string option"
  dj_requested_by :: string
  dj_status :: job_status
  dj_safe_after :: "time option"
  dj_completed :: "time option"
  dj_failure :: "string option"
  dj_counts :: json_object

record tombstone_row =
  tb_job :: string
  tb_kind :: string
  tb_object :: string
  tb_tenant :: "string option"

text \<open>The tables, in five groups: identity, console, platform, OAuth and deletion.\<close>

record db =
  accounts :: "account_row list"
  tenants :: "tenant_row list"
  memberships :: "membership_row list"
  homes :: "home_row list"
  links :: "link_row list"
  auth_users :: "auth_user_row list"
  auth_sessions :: "auth_session_row list"
  account_sessions :: "account_session_row list"
  login_txs :: "login_row list"
  console_txs :: "console_tx_row list"
  console_sessions :: "console_session_row list"
  otp_rows :: "otp_row list"
  sites :: "site_row list"
  attempts :: "attempt_row list"
  grants :: "grant_row list"
  idems :: "idem_row list"
  events :: "event_row list"
  artifacts :: "artifact_row list"
  secrets :: "secret_row list"
  families :: "family_row list"
  outbox :: "outbox_row list"
  buckets :: "bucket_row list"
  signing_keys :: "key_row list"
  clients :: "client_row list"
  deletion_jobs :: "job_row list"
  tombstones :: "tombstone_row list"

definition empty_db :: db where
  "empty_db = \<lparr>accounts = [], tenants = [], memberships = [], homes = [], links = [],
     auth_users = [], auth_sessions = [], account_sessions = [], login_txs = [],
     console_txs = [], console_sessions = [], otp_rows = [], sites = [], attempts = [],
     grants = [], idems = [], events = [], artifacts = [], secrets = [], families = [],
     outbox = [], buckets = [], signing_keys = [], clients = [], deletion_jobs = [], tombstones = []\<rparr>"

section \<open>Unique indexes\<close>

definition site_live :: "site_row \<Rightarrow> bool" where
  "site_live s \<longleftrightarrow> si_status s = SitePending \<or> si_status s = SiteActive \<or> si_status s = SiteSuspended"

definition grant_live :: "grant_row \<Rightarrow> bool" where
  "grant_live g \<longleftrightarrow>
     gr_status g = GrantPending \<or> gr_status g = GrantActive \<or> gr_status g = GrantSuspended"

definition site_key :: "site_row \<Rightarrow> string \<times> string" where
  "site_key s = (si_tenant s, si_id s)"

definition grant_key :: "grant_row \<Rightarrow> string \<times> string" where
  "grant_key g = (gr_tenant g, gr_id g)"

definition consent_key :: "grant_row \<Rightarrow> string \<times> string \<times> string \<times> string" where
  "consent_key g = (gr_tenant g, gr_site g, gr_subject g, gr_client g)"

text \<open>
  \<open>platform.sites\<close>: the primary key, and \<open>one_live_site_per_resource_idx\<close>.
  \<open>platform.grants\<close>: \<open>grants_global_id_idx\<close>, and \<open>grants_one_live_consent_idx\<close>.
\<close>

definition insert_site :: "site_row \<Rightarrow> site_row list \<Rightarrow> site_row list result" where
  "insert_site s t =
     (if site_live s \<and> si_resource s \<in> set (map si_resource (filter site_live t))
      then Inl ''unique_violation'' else sql_insert site_key s t)"

definition insert_grant :: "grant_row \<Rightarrow> grant_row list \<Rightarrow> grant_row list result" where
  "insert_grant g t =
     (if grant_live g \<and> consent_key g \<in> set (map consent_key (filter grant_live t))
      then Inl ''unique_violation'' else sql_insert gr_id g t)"

definition sites_ok :: "site_row list \<Rightarrow> bool" where
  "sites_ok t \<longleftrightarrow> has_pk site_key t \<and> has_pk si_resource (filter site_live t)"

definition grants_ok :: "grant_row list \<Rightarrow> bool" where
  "grants_ok t \<longleftrightarrow> has_pk gr_id t \<and> has_pk consent_key (filter grant_live t)"

lemma insert_site_ok: "insert_site s t = Inr u \<Longrightarrow> sites_ok t \<Longrightarrow> sites_ok u"
  by (auto simp: insert_site_def sites_ok_def sql_insert_Inr has_pk_def split: if_splits)

lemma insert_grant_ok: "insert_grant g t = Inr u \<Longrightarrow> grants_ok t \<Longrightarrow> grants_ok u"
  by (auto simp: insert_grant_def grants_ok_def sql_insert_Inr has_pk_def split: if_splits)

text \<open>
  A statement that keeps a row's keys and never makes a dead row live keeps the indexes:
  the live rows afterwards are some of those before.
\<close>

lemma has_pk_live_update:
  assumes "\<And>r. key (f r) = key r" and "\<And>r. live (f r) \<Longrightarrow> live r"
    and "has_pk key (filter live t)"
  shows "has_pk key (filter live (sql_update P f t))"
  using assms(3)
proof (induction t)
  case (Cons r t)
  have sub: "key ` set (filter live (sql_update P f t)) \<subseteq> key ` set (filter live t)"
    using assms(1,2) by (fastforce simp: sql_update_def)
  from Cons show ?case
    using assms(1) [of r] assms(2) [of r] sub
    by (auto simp: sql_update_def has_pk_def split: if_splits)
qed (simp add: sql_update_def)

lemma sites_ok_update:
  assumes "\<And>r. site_key (f r) = site_key r" and "\<And>r. si_resource (f r) = si_resource r"
    and "\<And>r. site_live (f r) \<Longrightarrow> site_live r" and "sites_ok t"
  shows "sites_ok (sql_update P f t)"
  using assms by (simp add: sites_ok_def has_pk_update has_pk_live_update)

lemma grants_ok_update:
  assumes "\<And>r. gr_id (f r) = gr_id r" and "\<And>r. consent_key (f r) = consent_key r"
    and "\<And>r. grant_live (f r) \<Longrightarrow> grant_live r" and "grants_ok t"
  shows "grants_ok (sql_update P f t)"
  using assms by (simp add: grants_ok_def has_pk_update has_pk_live_update)

text \<open>At most one live site has a given resource, and one live grant a given binding.\<close>

lemma live_site_unique:
  "sites_ok t \<Longrightarrow> s \<in> set t \<Longrightarrow> s' \<in> set t \<Longrightarrow> site_live s \<Longrightarrow> site_live s' \<Longrightarrow>
     si_resource s = si_resource s' \<Longrightarrow> s = s'"
  by (rule pk_inject [of si_resource "filter site_live t"]) (simp_all add: sites_ok_def)

lemma live_consent_unique:
  "grants_ok t \<Longrightarrow> g \<in> set t \<Longrightarrow> g' \<in> set t \<Longrightarrow> grant_live g \<Longrightarrow> grant_live g' \<Longrightarrow>
     consent_key g = consent_key g' \<Longrightarrow> g = g'"
  by (rule pk_inject [of consent_key "filter grant_live t"]) (simp_all add: grants_ok_def)

end
