(* ===== verification/Database.thy ===== *)
theory Database
  imports Schema Machines "HOL-Library.List_Lexorder"
begin

text \<open>
  The class Database: a transaction runs an operation under a role and session settings; an
  operation that throws leaves the database as it was.  The row-level policies of the
  migrations are predicates on a row, the session and the database.  Functions the migrations
  declare SECURITY DEFINER run as the owner and see every row.
\<close>

section \<open>Transactions\<close>

datatype db_role =
    RoleControl
  | RoleAuth
  | RoleAuditWriter
  | RoleSessionReader
  | RoleIdentityWriter
  | RoleAccountAuthWriter
  | RoleAccountAuthReader
  | RoleAccountWorkspace

record session =
  se_role :: db_role
  se_tenant :: "string option"
  se_account :: "string option"

type_synonym 'a tx = "session \<Rightarrow> db \<Rightarrow> ('a \<times> db) result"
type_synonym 'a outcome = "'a result \<times> db"

text \<open>\<open>BEGIN\<close>, the operation, then \<open>COMMIT\<close>; an exception is \<open>ROLLBACK\<close> and thrown on.\<close>

definition transaction :: "session \<Rightarrow> 'a tx \<Rightarrow> db \<Rightarrow> 'a outcome" where
  "transaction s op d = (case op s d of Inl e \<Rightarrow> (Inl e, d) | Inr (a, d') \<Rightarrow> (Inr a, d'))"

definition role_session :: "db_role \<Rightarrow> session" where
  "role_session r = \<lparr>se_role = r, se_tenant = None, se_account = None\<rparr>"

definition withTenant :: "runtime \<Rightarrow> tenant_context \<Rightarrow> 'a tx \<Rightarrow> db \<Rightarrow> 'a outcome" where
  "withTenant rt input op d =
     (case parse_tenant_context rt input of
        Inl e \<Rightarrow> (Inl e, d)
      | Inr c \<Rightarrow> transaction \<lparr>se_role = RoleControl, se_tenant = Some (ctx_tenant c),
                             se_account = Some (ctx_account c)\<rparr> op d)"

definition withAuthorizationService :: "'a tx \<Rightarrow> db \<Rightarrow> 'a outcome" where
  "withAuthorizationService op d = transaction (role_session RoleAuth) op d"

definition withAuditWriter :: "string \<Rightarrow> 'a tx \<Rightarrow> db \<Rightarrow> 'a outcome" where
  "withAuditWriter tenantId op d =
     transaction ((role_session RoleAuditWriter)\<lparr>se_tenant := Some tenantId\<rparr>) op d"

definition withSessionReader :: "'a tx \<Rightarrow> db \<Rightarrow> 'a outcome" where
  "withSessionReader op d = transaction (role_session RoleSessionReader) op d"

definition withIdentityWriter :: "'a tx \<Rightarrow> db \<Rightarrow> 'a outcome" where
  "withIdentityWriter op d = transaction (role_session RoleIdentityWriter) op d"

definition withAccountAuthWriter :: "'a tx \<Rightarrow> db \<Rightarrow> 'a outcome" where
  "withAccountAuthWriter op d = transaction (role_session RoleAccountAuthWriter) op d"

definition withAccountAuthReader :: "'a tx \<Rightarrow> db \<Rightarrow> 'a outcome" where
  "withAccountAuthReader op d = transaction (role_session RoleAccountAuthReader) op d"

definition withAccountWorkspace :: "string \<Rightarrow> 'a tx \<Rightarrow> db \<Rightarrow> 'a outcome" where
  "withAccountWorkspace accountId op d =
     (if \<not> rx id_class 8 128 accountId then (Inl ''account_context_invalid'', d)
      else transaction ((role_session RoleAccountWorkspace)\<lparr>se_account := Some accountId\<rparr>) op d)"

lemma transaction_Inl: "transaction s op d = (Inl e, d') \<longleftrightarrow> op s d = Inl e \<and> d' = d"
  by (auto simp: transaction_def split: sum.splits)

lemma transaction_Inr: "transaction s op d = (Inr a, d') \<longleftrightarrow> op s d = Inr (a, d')"
  by (auto simp: transaction_def split: sum.splits)

lemma transaction_keeps:
  "P d \<Longrightarrow> (\<And>a d'. op s d = Inr (a, d') \<Longrightarrow> P d') \<Longrightarrow> P (snd (transaction s op d))"
  by (auto simp: transaction_def split: sum.splits)

lemma transaction_rollback: "transaction s op d = (Inl e, d') \<Longrightarrow> d' = d"
  by (simp add: transaction_Inl)

lemmas with_role_defs = withAuthorizationService_def withSessionReader_def withIdentityWriter_def
  withAccountAuthWriter_def withAccountAuthReader_def

lemmas tx_succ = with_role_defs transaction_Inr succ_simps

section \<open>Row-level policies\<close>

definition has_active_membership :: "db \<Rightarrow> string \<Rightarrow> string option \<Rightarrow> bool" where
  "has_active_membership d t a \<longleftrightarrow>
     list_ex (\<lambda>m. mem_tenant m = t \<and> Some (mem_account m) = a \<and> mem_active m) (memberships d)"

definition has_tenant_role :: "db \<Rightarrow> string \<Rightarrow> string option \<Rightarrow> member_role list \<Rightarrow> bool" where
  "has_tenant_role d t a roles \<longleftrightarrow>
     list_ex (\<lambda>m. mem_tenant m = t \<and> Some (mem_account m) = a \<and> mem_active m \<and>
                  mem_role m \<in> set roles) (memberships d)"

abbreviation manager_roles :: "member_role list" where
  "manager_roles \<equiv> [Owner, Administrator]"

definition tenant_access :: "session \<Rightarrow> db \<Rightarrow> tenant_row \<Rightarrow> bool" where
  "tenant_access s d r \<longleftrightarrow> se_tenant s = Some (ten_id r) \<and>
     has_active_membership d (ten_id r) (se_account s)"

definition security_event_access :: "session \<Rightarrow> db \<Rightarrow> event_row \<Rightarrow> bool" where
  "security_event_access s d r \<longleftrightarrow> se_tenant s = Some (ev_tenant r) \<and>
     has_active_membership d (ev_tenant r) (se_account s)"

definition site_select :: "session \<Rightarrow> db \<Rightarrow> site_row \<Rightarrow> bool" where
  "site_select s d r \<longleftrightarrow>
     (se_role s = RoleControl \<and> se_tenant s = Some (si_tenant r) \<and>
        has_active_membership d (si_tenant r) (se_account s)) \<or>
     (se_role s = RoleAuth \<and> si_status r = SiteActive)"

definition site_insert :: "session \<Rightarrow> db \<Rightarrow> site_row \<Rightarrow> bool" where
  "site_insert s d r \<longleftrightarrow> se_role s = RoleControl \<and> se_tenant s = Some (si_tenant r) \<and>
     has_tenant_role d (si_tenant r) (se_account s) manager_roles"

definition pairing_access :: "session \<Rightarrow> db \<Rightarrow> attempt_row \<Rightarrow> bool" where
  "pairing_access s d r \<longleftrightarrow> se_role s = RoleControl \<and> se_tenant s = Some (pa_tenant r) \<and>
     Some (pa_initiator r) = se_account s \<and>
     has_tenant_role d (pa_tenant r) (se_account s) manager_roles"

definition grant_access :: "session \<Rightarrow> db \<Rightarrow> grant_row \<Rightarrow> bool" where
  "grant_access s d r \<longleftrightarrow>
     (se_role s = RoleControl \<and> se_tenant s = Some (gr_tenant r) \<and>
        (Some (gr_subject r) = se_account s \<or>
         has_tenant_role d (gr_tenant r) (se_account s) manager_roles)) \<or>
     (se_role s = RoleAuth \<and> gr_status r = GrantActive)"

definition idem_access :: "session \<Rightarrow> db \<Rightarrow> idem_row \<Rightarrow> bool" where
  "idem_access s d r \<longleftrightarrow> se_role s = RoleControl \<and> se_tenant s = Some (im_tenant r) \<and>
     has_active_membership d (im_tenant r) (se_account s)"

lemma has_tenant_role_active:
  "has_tenant_role d t a roles \<Longrightarrow> has_active_membership d t a"
  by (auto simp: has_tenant_role_def has_active_membership_def list_ex_iff)

definition rls_violation :: string where
  "rls_violation = ''row_level_security_violation''"

section \<open>Migrations\<close>

text \<open>
  \<open>migrate\<close> over the files of the migrations directory.  \<open>run\<close> is the execution of one file's
  SQL; the applied migrations are kept with the digest of the file.
\<close>

type_synonym 'd migrated = "'d \<times> (string \<times> string) list"

definition migration_name :: "string \<Rightarrow> bool" where
  "migration_name n \<longleftrightarrow>
     (let digits = takeWhile (char_in digit_class) n; rest = dropWhile (char_in digit_class) n;
          body = take (length rest - 5) (drop 1 rest)
      in digits \<noteq> [] \<and> take 1 rest = ''_'' \<and> 5 < length rest \<and> ends_with rest ''.sql'' \<and>
         list_all (char_in [(97, 122), (48, 57), (95, 95)]) body)"

definition sort_names :: "string list \<Rightarrow> string list" where
  "sort_names = sort_key (map (of_char :: char \<Rightarrow> nat))"

fun apply_migrations ::
  "runtime \<Rightarrow> (string \<Rightarrow> 'd \<Rightarrow> 'd result) \<Rightarrow> (string \<Rightarrow> string) \<Rightarrow> string list \<Rightarrow> 'd migrated \<Rightarrow>
     'd migrated result" where
  "apply_migrations rt run sql [] st = Inr st"
| "apply_migrations rt run sql (n # ns) (d, done) =
     (let sum = hex rt (sha256 rt (sql n)) in
      case map_of done n of
        Some old \<Rightarrow> if old \<noteq> sum then Inl ''migration_checksum_mismatch''
                    else apply_migrations rt run sql ns (d, done)
      | None \<Rightarrow>
          (case run (sql n) d of
             Inl e \<Rightarrow> Inl e
           | Inr d' \<Rightarrow> apply_migrations rt run sql ns (d', done @ [(n, sum)])))"

definition migrate ::
  "runtime \<Rightarrow> (string \<Rightarrow> 'd \<Rightarrow> 'd result) \<Rightarrow> (string \<Rightarrow> string) \<Rightarrow> string list \<Rightarrow> 'd migrated \<Rightarrow>
     unit result \<times> 'd migrated" where
  "migrate rt run sql files st =
     (case apply_migrations rt run sql (sort_names (filter migration_name files)) st of
        Inl e \<Rightarrow> (Inl e, st)
      | Inr st' \<Rightarrow> (Inr (), st'))"

lemma apply_migrations_records:
  "apply_migrations rt run sql ns (d, done) = Inr (d', done') \<Longrightarrow>
     (\<exists>more. done' = done @ more) \<and>
     (\<forall>n\<in>set ns. map_of done' n = Some (hex rt (sha256 rt (sql n))))"
proof (induction ns arbitrary: d "done")
  case (Cons n ns)
  let ?sum = "hex rt (sha256 rt (sql n))"
  show ?case
  proof (cases "map_of done n")
    case None
    with Cons.prems obtain d1 where
      "apply_migrations rt run sql ns (d1, done @ [(n, ?sum)]) = Inr (d', done')"
      by (auto simp: Let_def split: sum.splits)
    note IH = Cons.IH [OF this]
    then obtain more where "done' = (done @ [(n, ?sum)]) @ more" by blast
    with None have "map_of done' n = Some ?sum" by (simp add: map_add_def)
    with IH show ?thesis by auto
  next
    case (Some old)
    with Cons.prems have "old = ?sum"
      and rest: "apply_migrations rt run sql ns (d, done) = Inr (d', done')"
      by (auto simp: Let_def split: if_splits)
    note IH = Cons.IH [OF rest]
    then obtain more where "done' = done @ more" by blast
    with Some \<open>old = ?sum\<close> have "map_of done' n = Some ?sum" by (simp add: map_add_def)
    with IH show ?thesis by auto
  qed
qed simp

lemma apply_migrations_again:
  "\<forall>n\<in>set ns. map_of done n = Some (hex rt (sha256 rt (sql n))) \<Longrightarrow>
     apply_migrations rt run sql ns (d, done) = Inr (d, done)"
  by (induction ns) (auto simp: Let_def)

text \<open>
  A migration run that succeeded has recorded every file; running it again on the same files
  executes nothing and changes nothing.
\<close>

theorem migrate_idempotent:
  assumes "migrate rt run sql files st = (Inr (), st')"
  shows "migrate rt run sql files st' = (Inr (), st')"
proof -
  let ?ns = "sort_names (filter migration_name files)"
  obtain d "done" d' done' where st: "st = (d, done)" "st' = (d', done')"
    by (cases st; cases st')
  with assms have "apply_migrations rt run sql ?ns (d, done) = Inr (d', done')"
    by (auto simp: migrate_def split: sum.splits)
  then have "\<forall>n\<in>set ?ns. map_of done' n = Some (hex rt (sha256 rt (sql n)))"
    by (rule apply_migrations_records [THEN conjunct2])
  then have "apply_migrations rt run sql ?ns (d', done') = Inr (d', done')"
    by (rule apply_migrations_again)
  with st show ?thesis by (simp add: migrate_def)
qed

definition sample_sql :: "string \<Rightarrow> string" where
  "sample_sql n = n @ '' body''"

definition sample_files :: "string list" where
  "sample_files = [''002_b.sql'', ''notes.txt'', ''001_a.sql'']"

theorem migrate_idempotent_witness:
  "migrate sample_runtime (\<lambda>s d. Inr (d @ [s])) sample_sql sample_files
     ([''001_a.sql body'', ''002_b.sql body''],
      [(''001_a.sql'', pad32 ''001_a.sql body''), (''002_b.sql'', pad32 ''002_b.sql body'')]) =
   (Inr (), [''001_a.sql body'', ''002_b.sql body''],
      [(''001_a.sql'', pad32 ''001_a.sql body''), (''002_b.sql'', pad32 ''002_b.sql body'')])"
proof (rule migrate_idempotent)
  show "migrate sample_runtime (\<lambda>s d. Inr (d @ [s])) sample_sql sample_files ([], []) =
   (Inr (), [''001_a.sql body'', ''002_b.sql body''],
      [(''001_a.sql'', pad32 ''001_a.sql body''), (''002_b.sql'', pad32 ''002_b.sql body'')])"
    by code_simp
qed

end
