(* ===== verification/Account_Login.thy ===== *)
theory Account_Login
  imports Database
begin

text \<open>
  Accounts and how a browser signs in to one: the personal workspace, the sessions of
  external identities, the link between an authentication user and an account, and the
  single-use login transactions of \<open>PostgresAccountLoginTransactionStore\<close>.
\<close>

section \<open>Workspaces\<close>

text \<open>\<open>platform.list_current_account_tenants\<close>: home first, then by creation and identifier.\<close>

definition active_tenant :: "db \<Rightarrow> string \<Rightarrow> bool" where
  "active_tenant d t \<longleftrightarrow> list_ex (\<lambda>r. ten_id r = t \<and> ten_status r = TActive) (tenants d)"

definition is_home :: "db \<Rightarrow> string \<Rightarrow> string \<Rightarrow> bool" where
  "is_home d a t \<longleftrightarrow> list_ex (\<lambda>h. home_account h = a \<and> home_tenant h = t) (homes d)"

definition workspace_view :: "db \<Rightarrow> membership_row \<Rightarrow> membership_view" where
  "workspace_view d m = \<lparr>mv_tenant = mem_tenant m, mv_role = mem_role m,
     mv_created = mem_created m, mv_home = is_home d (mem_account m) (mem_tenant m)\<rparr>"

definition workspace_order :: "membership_view \<Rightarrow> nat \<times> int \<times> nat list" where
  "workspace_order v = (if mv_home v then 0 else 1, mv_created v, map of_char (mv_tenant v))"

definition view_before :: "membership_view \<Rightarrow> membership_view \<Rightarrow> bool" where
  "view_before u v \<longleftrightarrow>
     (let (h, c, t) = workspace_order u; (h', c', t') = workspace_order v in
      h < h' \<or> (h = h' \<and> (c < c' \<or> (c = c' \<and> t \<le> t'))))"

fun insert_view :: "membership_view \<Rightarrow> membership_view list \<Rightarrow> membership_view list" where
  "insert_view v [] = [v]"
| "insert_view v (w # ws) = (if view_before v w then v # w # ws else w # insert_view v ws)"

definition list_current_account_tenants :: "session \<Rightarrow> db \<Rightarrow> membership_view list" where
  "list_current_account_tenants s d =
     foldr insert_view (map (workspace_view d)
       (filter (\<lambda>m. Some (mem_account m) = se_account s \<and> mem_active m \<and>
                    active_tenant d (mem_tenant m)) (memberships d))) []"

definition listMemberships :: "string \<Rightarrow> db \<Rightarrow> membership_view list outcome" where
  "listMemberships accountId d =
     withAccountWorkspace accountId (\<lambda>s d. Inr (list_current_account_tenants s d, d)) d"

text \<open>\<open>platform.ensure_personal_workspace\<close>, at transaction time \<open>now\<close>.\<close>

definition ensure_personal_workspace :: "string \<Rightarrow> time \<Rightarrow> membership_view tx" where
  "ensure_personal_workspace proposed now s d =
     (case se_account s of
        None \<Rightarrow> Inl ''account_context_required''
      | Some a \<Rightarrow>
          if \<not> rx id_class 8 128 a then Inl ''account_context_required''
          else if \<not> list_ex (\<lambda>r. acc_id r = a \<and> acc_status r = TActive) (accounts d)
          then Inl ''active_account_required''
          else
            and_then
              (case lookup_by home_account a (homes d) of
                 Some h \<Rightarrow> Inr (home_tenant h, d)
               | None \<Rightarrow>
                   and_then (sql_insert ten_id
                       \<lparr>ten_id = proposed, ten_status = TActive, ten_created = now\<rparr> (tenants d))
                     (\<lambda>ts. and_then (sql_insert (\<lambda>m. (mem_tenant m, mem_account m))
                       \<lparr>mem_tenant = proposed, mem_account = a, mem_role = Owner,
                        mem_active = True, mem_created = now\<rparr> (memberships d))
                     (\<lambda>ms. Inr (proposed, d\<lparr>tenants := ts, memberships := ms,
                        homes := homes d @ [\<lparr>home_account = a, home_tenant = proposed\<rparr>]\<rparr>))))
              (\<lambda>(home, d').
                 case filter (\<lambda>m. mem_account m = a \<and> mem_tenant m = home \<and> mem_active m \<and>
                                  active_tenant d' (mem_tenant m)) (memberships d') of
                   [] \<Rightarrow> Inl ''home_workspace_inactive''
                 | m # _ \<Rightarrow> Inr ((workspace_view d' m)\<lparr>mv_home := True\<rparr>, d')))"

definition ensurePersonalWorkspace ::
  "string \<Rightarrow> string \<Rightarrow> time \<Rightarrow> db \<Rightarrow> membership_view outcome" where
  "ensurePersonalWorkspace accountId uuid now d =
     withAccountWorkspace accountId (ensure_personal_workspace uuid now) d"

section \<open>Sessions of external identities\<close>

record resolved_session =
  rs_account :: string
  rs_time :: int

definition session_live :: "time \<Rightarrow> account_session_row \<Rightarrow> bool" where
  "session_live now r \<longleftrightarrow> as_expires r > now \<and> as_revoked r = None"

definition active_account :: "db \<Rightarrow> string \<Rightarrow> bool" where
  "active_account d a \<longleftrightarrow> list_ex (\<lambda>r. acc_id r = a \<and> acc_status r = TActive) (accounts d)"

definition resolveSession :: "bytes \<Rightarrow> time \<Rightarrow> db \<Rightarrow> resolved_session option outcome" where
  "resolveSession sessionHash now d =
     withSessionReader (\<lambda>s d. Inr (map_option
        (\<lambda>r. \<lparr>rs_account = as_account r, rs_time = as_authenticated r div 1000\<rparr>)
        (first_row (filter (\<lambda>r. as_hash r = sessionHash \<and> session_live now r \<and>
                                active_account d (as_account r)) (account_sessions d))), d)) d"

record session_input =
  sn_candidate :: string
  sn_issuer :: string
  sn_subject_hash :: string
  sn_hash :: bytes
  sn_authenticated :: time
  sn_expires :: time

text \<open>
  \<open>INSERT ... ON CONFLICT DO NOTHING\<close> conflicts on the identifier or on the external identity.
\<close>

definition createSession :: "session_input \<Rightarrow> db \<Rightarrow> string option outcome" where
  "createSession input d =
     withIdentityWriter (\<lambda>s d.
       let conflict = list_ex (\<lambda>r. acc_id r = sn_candidate input \<or>
             (acc_issuer r = Some (sn_issuer input) \<and>
              acc_subject_hash r = Some (sn_subject_hash input))) (accounts d);
           accs = (if conflict then accounts d else accounts d @
             [\<lparr>acc_id = sn_candidate input, acc_status = TActive,
               acc_issuer = Some (sn_issuer input),
               acc_subject_hash = Some (sn_subject_hash input)\<rparr>]);
           d1 = d\<lparr>accounts := accs\<rparr>
       in case first_row (filter (\<lambda>r. acc_issuer r = Some (sn_issuer input) \<and>
                 acc_subject_hash r = Some (sn_subject_hash input)) accs) of
            None \<Rightarrow> Inr (None, d1)
          | Some account \<Rightarrow>
              if acc_status account \<noteq> TActive then Inr (None, d1)
              else and_then (sql_insert_checked (\<lambda>r. as_expires r > as_authenticated r) as_hash
                     \<lparr>as_hash = sn_hash input, as_account = acc_id account,
                      as_issuer = sn_issuer input, as_authenticated = sn_authenticated input,
                      as_expires = sn_expires input, as_revoked = None\<rparr> (account_sessions d1))
                     (\<lambda>rows. Inr (Some (acc_id account), d1\<lparr>account_sessions := rows\<rparr>))) d"

definition revokeSession :: "bytes \<Rightarrow> time \<Rightarrow> db \<Rightarrow> unit outcome" where
  "revokeSession sessionHash now d =
     withIdentityWriter (\<lambda>s d. Inr ((), d\<lparr>account_sessions :=
       sql_update (\<lambda>r. as_hash r = sessionHash)
         (\<lambda>r. r\<lparr>as_revoked := coalesce (as_revoked r) now\<rparr>)
         (account_sessions d)\<rparr>)) d"

section \<open>Links from authentication users to accounts\<close>

record auth_link =
  al_account :: string
  al_home :: string
  al_status :: tenant_status

definition auth_user_id :: "string \<Rightarrow> bool" where
  "auth_user_id u \<longleftrightarrow> \<not> (length u < 1 \<or> length u > 255)"

text \<open>\<open>^account_[A-Za-z0-9_-]{16,120}$\<close>\<close>

definition proposed_account_id :: "string \<Rightarrow> bool" where
  "proposed_account_id a \<longleftrightarrow> starts_with a ''account_'' \<and> rx id_class 16 120 (drop 8 a)"

text \<open>The join of \<open>account_auth_links\<close> and \<open>account_home_tenants\<close>.\<close>

definition linked_home :: "db \<Rightarrow> string \<Rightarrow> (string \<times> string) option" where
  "linked_home d u =
     Option.bind (lookup_by link_user u (links d)) (\<lambda>l.
       map_option (\<lambda>h. (link_account l, home_tenant h))
         (lookup_by home_account (link_account l) (homes d)))"

definition ensure_account_auth_link ::
  "string \<Rightarrow> string \<Rightarrow> string \<Rightarrow> time \<Rightarrow> db \<Rightarrow> ((string \<times> string) \<times> db) result" where
  "ensure_account_auth_link u proposedAccount proposedTenant now d =
     (if \<not> auth_user_id u then Inl ''auth_user_id_invalid''
      else if \<not> proposed_account_id proposedAccount then Inl ''proposed_account_id_invalid''
      else if u \<notin> set (map usr_id (auth_users d)) then Inl ''auth_user_not_found''
      else case linked_home d u of
        Some lk \<Rightarrow> Inr (lk, d)
      | None \<Rightarrow>
          and_then (sql_insert acc_id \<lparr>acc_id = proposedAccount, acc_status = TActive,
                      acc_issuer = None, acc_subject_hash = None\<rparr> (accounts d))
          (\<lambda>accs. and_then (sql_insert ten_id \<lparr>ten_id = proposedTenant, ten_status = TActive,
                      ten_created = now\<rparr> (tenants d))
          (\<lambda>tens. and_then (sql_insert (\<lambda>m. (mem_tenant m, mem_account m))
                      \<lparr>mem_tenant = proposedTenant, mem_account = proposedAccount,
                       mem_role = Owner, mem_active = True, mem_created = now\<rparr> (memberships d))
          (\<lambda>mems. and_then (sql_insert home_account
                      \<lparr>home_account = proposedAccount, home_tenant = proposedTenant\<rparr> (homes d))
          (\<lambda>hms. and_then (sql_insert link_user
                      \<lparr>link_user = u, link_account = proposedAccount\<rparr> (links d))
          (\<lambda>lks. Inr ((proposedAccount, proposedTenant),
             d\<lparr>accounts := accs, tenants := tens, memberships := mems, homes := hms,
               links := lks\<rparr>)))))))"

definition provision :: "string \<Rightarrow> string \<Rightarrow> string \<Rightarrow> time \<Rightarrow> db \<Rightarrow> auth_link outcome" where
  "provision u proposedAccount proposedTenant now d =
     (if length u < 1 \<or> length u > 255 then (Inl ''auth_user_id_invalid'', d)
      else withAccountAuthWriter (\<lambda>s d.
        and_then (ensure_account_auth_link u proposedAccount proposedTenant now d)
          (\<lambda>((account, home), d').
             case lookup_by acc_id account (accounts d') of
               None \<Rightarrow> Inl ''account_auth_bootstrap_failed''
             | Some a \<Rightarrow> Inr (\<lparr>al_account = account, al_home = home,
                              al_status = acc_status a\<rparr>, d'))) d)"

definition resolveLink :: "string \<Rightarrow> db \<Rightarrow> auth_link option outcome" where
  "resolveLink u d =
     (if length u < 1 \<or> length u > 255 then (Inr None, d)
      else withAccountAuthReader (\<lambda>s d. Inr
        (case linked_home d u of
           None \<Rightarrow> None
         | Some (account, home) \<Rightarrow>
             map_option (\<lambda>a. \<lparr>al_account = account, al_home = home, al_status = acc_status a\<rparr>)
               (lookup_by acc_id account (accounts d)), d)) d)"

section \<open>Login transactions\<close>

definition loginTransactionTokenHash :: "runtime \<Rightarrow> string \<Rightarrow> bytes result" where
  "loginTransactionTokenHash rt token =
     (if \<not> rx id_class 43 43 token then Inl ''account_login_transaction_invalid''
      else Inr (sha256 rt token))"

definition loginTransactionCsrfHash :: "runtime \<Rightarrow> string \<Rightarrow> bytes result" where
  "loginTransactionCsrfHash rt csrf =
     (if \<not> rx id_class 43 43 csrf then Inl ''account_login_transaction_invalid''
      else Inr (sha256 rt csrf))"

definition loginTransactionEmailBinding :: "runtime \<Rightarrow> string \<Rightarrow> string \<Rightarrow> bytes result" where
  "loginTransactionEmailBinding rt token email =
     (if length email < 3 \<or> length email > 254 then Inl ''account_login_transaction_invalid''
      else Inr (hmac_sha256 rt token email))"

definition equalDigest :: "bytes \<Rightarrow> bytes \<Rightarrow> bool" where
  "equalDigest left right \<longleftrightarrow> length left = length right \<and> left = right"

lemma equalDigest_iff [simp]: "equalDigest l r \<longleftrightarrow> l = r"
  by (auto simp: equalDigest_def)

text \<open>The CHECKs of \<open>platform.account_login_transactions\<close> on its instants.\<close>

definition login_row_ok :: "login_row \<Rightarrow> bool" where
  "login_row_ok r \<longleftrightarrow> lt_expires r > lt_created r \<and>
     (case lt_consumed r of None \<Rightarrow> True | Some t \<Rightarrow> t \<ge> lt_created r)"

definition one_day :: time where "one_day = 86400000"
definition login_ttl :: time where "login_ttl = 10 * 60000"

record login_transaction =
  lg_token :: string
  lg_return :: string
  lg_expires :: time

record completed_login =
  cp_account :: string
  cp_home :: string
  cp_status :: tenant_status
  cp_return :: string

text \<open>The clean-up of \<open>create\<close>: the hundred oldest rows out of date for a day.\<close>

definition login_stale :: "time \<Rightarrow> login_row \<Rightarrow> bool" where
  "login_stale now r \<longleftrightarrow> lt_expires r < now - one_day \<or>
     (case lt_consumed r of None \<Rightarrow> False | Some t \<Rightarrow> t < now - one_day)"

definition purge_logins :: "time \<Rightarrow> login_row list \<Rightarrow> login_row list" where
  "purge_logins now t =
     (let doomed = map lt_hash (take 100 (sort_key lt_created (filter (login_stale now) t)))
      in sql_delete (\<lambda>r. lt_hash r \<in> set doomed) t)"

definition login_return_path :: "string \<Rightarrow> bool" where
  "login_return_path p \<longleftrightarrow> \<not> (\<not> starts_with p ''/'' \<or> starts_with p ''//'' \<or>
     CHR 0x5C \<in> set p \<or> CHR ''#'' \<in> set p \<or> length p > 2048)"

definition createLogin :: "runtime \<Rightarrow> string \<Rightarrow> string \<Rightarrow> string \<Rightarrow> time \<Rightarrow> db \<Rightarrow>
    login_transaction outcome" where
  "createLogin rt returnPath csrf token now d =
     (if \<not> login_return_path returnPath then (Inl ''account_login_return_invalid'', d)
      else let expiresAt = now + login_ttl in
      withAccountAuthWriter (\<lambda>s d.
        let rows = purge_logins now (login_txs d) in
        and_then (loginTransactionTokenHash rt token) (\<lambda>tokenHash.
        and_then (loginTransactionCsrfHash rt csrf) (\<lambda>csrfHash.
        and_then (sql_insert_checked login_row_ok lt_hash
            \<lparr>lt_hash = tokenHash, lt_return = returnPath, lt_csrf = csrfHash, lt_email = None,
             lt_created = now, lt_expires = expiresAt, lt_consumed = None\<rparr> rows)
        (\<lambda>rows'. Inr (\<lparr>lg_token = token, lg_return = returnPath, lg_expires = expiresAt\<rparr>,
                    d\<lparr>login_txs := rows'\<rparr>))))) d)"

text \<open>
  The checks the three operations on an existing transaction share, in the order of the
  source: the row exists and carries the csrf digest, is not expired, is not consumed.
\<close>

definition open_login :: "bytes \<Rightarrow> bytes \<Rightarrow> time \<Rightarrow> login_row list \<Rightarrow> login_row result" where
  "open_login tokenHash csrfHash now t =
     (case lookup_by lt_hash tokenHash t of
        None \<Rightarrow> Inl ''account_login_transaction_invalid''
      | Some row \<Rightarrow>
          if \<not> equalDigest (lt_csrf row) csrfHash then Inl ''account_login_transaction_invalid''
          else if lt_expires row \<le> now then Inl ''account_login_transaction_expired''
          else if lt_consumed row \<noteq> None then Inl ''account_login_transaction_consumed''
          else Inr row)"

definition bindEmail ::
  "runtime \<Rightarrow> string \<Rightarrow> string \<Rightarrow> string \<Rightarrow> time \<Rightarrow> db \<Rightarrow> unit outcome" where
  "bindEmail rt token csrf email now d =
     (case and_then (loginTransactionTokenHash rt token) (\<lambda>th.
           and_then (loginTransactionCsrfHash rt csrf) (\<lambda>ch.
           and_then (loginTransactionEmailBinding rt token email) (\<lambda>eb. Inr (th, ch, eb)))) of
        Inl e \<Rightarrow> (Inl e, d)
      | Inr (tokenHash, csrfHash, emailBinding) \<Rightarrow>
          withAccountAuthWriter (\<lambda>s d.
            and_then (open_login tokenHash csrfHash now (login_txs d)) (\<lambda>row.
              case lt_email row of
                Some b \<Rightarrow> if \<not> equalDigest b emailBinding
                          then Inl ''account_login_email_mismatch'' else Inr ((), d)
              | None \<Rightarrow> and_then (sql_update_checked login_row_ok (\<lambda>r. lt_hash r = tokenHash)
                          (\<lambda>r. r\<lparr>lt_email := Some emailBinding\<rparr>) (login_txs d))
                          (\<lambda>rows. Inr ((), d\<lparr>login_txs := rows\<rparr>)))) d)"

definition restartLogin ::
  "runtime \<Rightarrow> string \<Rightarrow> string \<Rightarrow> string \<Rightarrow> time \<Rightarrow> db \<Rightarrow> login_transaction outcome" where
  "restartLogin rt token csrf newToken now d =
     (case and_then (loginTransactionTokenHash rt token) (\<lambda>th.
           and_then (loginTransactionCsrfHash rt csrf) (\<lambda>ch. Inr (th, ch))) of
        Inl e \<Rightarrow> (Inl e, d)
      | Inr (oldTokenHash, csrfHash) \<Rightarrow>
          let expiresAt = now + login_ttl in
          withAccountAuthWriter (\<lambda>s d.
            and_then (open_login oldTokenHash csrfHash now (login_txs d)) (\<lambda>row.
            and_then (sql_update_checked login_row_ok (\<lambda>r. lt_hash r = oldTokenHash)
                        (\<lambda>r. r\<lparr>lt_consumed := Some now\<rparr>) (login_txs d)) (\<lambda>rows.
            and_then (loginTransactionTokenHash rt newToken) (\<lambda>newHash.
            and_then (sql_insert_checked login_row_ok lt_hash
                \<lparr>lt_hash = newHash, lt_return = lt_return row, lt_csrf = csrfHash,
                 lt_email = None, lt_created = now, lt_expires = expiresAt,
                 lt_consumed = None\<rparr> rows)
            (\<lambda>rows'. Inr (\<lparr>lg_token = newToken, lg_return = lt_return row,
                         lg_expires = expiresAt\<rparr>, d\<lparr>login_txs := rows'\<rparr>)))))) d)"

text \<open>The email the authentication user has must be the one the transaction is bound to.\<close>

definition bound_email_matches ::
  "runtime \<Rightarrow> string \<Rightarrow> login_row \<Rightarrow> string \<Rightarrow> auth_user_row list \<Rightarrow> unit result" where
  "bound_email_matches rt token row u users =
     (case lt_email row of
        None \<Rightarrow> Inr ()
      | Some binding \<Rightarrow>
          (case lookup_by usr_id u users of
             None \<Rightarrow> Inl ''account_login_email_mismatch''
           | Some usr \<Rightarrow>
               and_then (loginTransactionEmailBinding rt token (usr_email usr)) (\<lambda>eb.
                 if \<not> equalDigest binding eb then Inl ''account_login_email_mismatch''
                 else Inr ())))"

definition completeLogin ::
  "runtime \<Rightarrow> string \<Rightarrow> string \<Rightarrow> string \<Rightarrow> string \<Rightarrow> string \<Rightarrow> time \<Rightarrow> db \<Rightarrow>
     completed_login outcome" where
  "completeLogin rt token csrf u proposedAccount proposedTenant now d =
     (if length u < 1 \<or> length u > 255 then (Inl ''auth_user_id_invalid'', d)
      else case and_then (loginTransactionTokenHash rt token) (\<lambda>th.
                and_then (loginTransactionCsrfHash rt csrf) (\<lambda>ch. Inr (th, ch))) of
        Inl e \<Rightarrow> (Inl e, d)
      | Inr (tokenHash, csrfHash) \<Rightarrow>
          withAccountAuthWriter (\<lambda>s d.
            and_then (open_login tokenHash csrfHash now (login_txs d)) (\<lambda>transaction.
            and_then (bound_email_matches rt token transaction u (auth_users d)) (\<lambda>_.
            and_then (ensure_account_auth_link u proposedAccount proposedTenant now d)
            (\<lambda>((account, home), d').
              case lookup_by acc_id account (accounts d') of
                None \<Rightarrow> Inl ''account_auth_bootstrap_failed''
              | Some a \<Rightarrow>
                  if acc_status a \<noteq> TActive then Inl ''account_auth_bootstrap_failed''
                  else
                    let P = (\<lambda>r. lt_hash r = tokenHash \<and> lt_consumed r = None) in
                    and_then (sql_update_checked login_row_ok P
                                (\<lambda>r. r\<lparr>lt_consumed := Some now\<rparr>) (login_txs d')) (\<lambda>rows.
                    if row_count P (login_txs d') \<noteq> 1
                    then Inl ''account_login_transaction_consumed''
                    else Inr (\<lparr>cp_account = account, cp_home = home, cp_status = acc_status a,
                               cp_return = lt_return transaction\<rparr>,
                              d'\<lparr>login_txs := rows\<rparr>)))))) d)"

section \<open>The store as a machine\<close>

datatype login_op =
    LoginCreate string string string time
  | LoginBind string string string time
  | LoginRestart string string string time
  | LoginComplete string string string string string time

fun login_step :: "runtime \<Rightarrow> login_op \<Rightarrow> db \<Rightarrow> db" where
  "login_step rt (LoginCreate path csrf token now) d = snd (createLogin rt path csrf token now d)"
| "login_step rt (LoginBind token csrf email now) d = snd (bindEmail rt token csrf email now d)"
| "login_step rt (LoginRestart token csrf new now) d = snd (restartLogin rt token csrf new now d)"
| "login_step rt (LoginComplete token csrf u acc ten now) d =
     snd (completeLogin rt token csrf u acc ten now d)"

text \<open>The random token of the operation is not one whose digest is \<open>h\<close>.\<close>

fun login_fresh :: "runtime \<Rightarrow> bytes \<Rightarrow> login_op \<Rightarrow> bool" where
  "login_fresh rt h (LoginCreate path csrf token now) = (sha256 rt token \<noteq> h)"
| "login_fresh rt h (LoginRestart token csrf new now) = (sha256 rt new \<noteq> h)"
| "login_fresh rt h _ = True"

definition login_spent :: "bytes \<Rightarrow> db \<Rightarrow> bool" where
  "login_spent h d \<longleftrightarrow> (\<forall>r\<in>set (login_txs d). lt_hash r = h \<longrightarrow> lt_consumed r \<noteq> None)"

definition login_bound :: "bytes \<Rightarrow> bytes \<Rightarrow> db \<Rightarrow> bool" where
  "login_bound h b d \<longleftrightarrow> (\<forall>r\<in>set (login_txs d). lt_hash r = h \<longrightarrow> lt_email r = Some b)"

lemmas login_op_defs = createLogin_def bindEmail_def restartLogin_def completeLogin_def

lemma open_login_Inr:
  "open_login th ch now t = Inr row \<longleftrightarrow>
     lookup_by lt_hash th t = Some row \<and> lt_csrf row = ch \<and> now < lt_expires row \<and>
     lt_consumed row = None"
  by (auto simp: open_login_def split: option.splits if_splits)

lemma token_hash_Inr:
  "loginTransactionTokenHash rt token = Inr h \<longleftrightarrow> rx id_class 43 43 token \<and> h = sha256 rt token"
  by (auto simp: loginTransactionTokenHash_def)

lemma csrf_hash_Inr:
  "loginTransactionCsrfHash rt csrf = Inr h \<longleftrightarrow> rx id_class 43 43 csrf \<and> h = sha256 rt csrf"
  by (auto simp: loginTransactionCsrfHash_def)

lemma ensure_link_frame [frame_simps]:
  "ensure_account_auth_link u a t now d = Inr (lk, d') \<Longrightarrow>
     login_txs d' = login_txs d \<and> auth_users d' = auth_users d"
  by (auto simp: ensure_account_auth_link_def and_then_Inr split: if_splits option.splits)

text \<open>
  Both invariants speak of the rows with one digest; deletions, insertions of other digests and
  updates that keep the digest and the row property preserve such a statement.
\<close>

definition rows_ok :: "bytes \<Rightarrow> (login_row \<Rightarrow> bool) \<Rightarrow> login_row list \<Rightarrow> bool" where
  "rows_ok h Q t \<longleftrightarrow> (\<forall>r\<in>set t. lt_hash r = h \<longrightarrow> Q r)"

lemma rows_ok_append [simp]: "rows_ok h Q (t @ [r]) \<longleftrightarrow> rows_ok h Q t \<and> (lt_hash r = h \<longrightarrow> Q r)"
  by (auto simp: rows_ok_def)

lemma rows_ok_purge: "rows_ok h Q t \<Longrightarrow> rows_ok h Q (purge_logins now t)"
  by (auto simp: rows_ok_def purge_logins_def Let_def)

lemma rows_ok_update:
  assumes "rows_ok h Q t" and "\<And>r. lt_hash (f r) = lt_hash r"
    and "\<And>r. P r \<Longrightarrow> lt_hash r = h \<Longrightarrow> Q r \<Longrightarrow> Q (f r)"
  shows "rows_ok h Q (sql_update P f t)"
  using assms by (auto simp: rows_ok_def set_sql_update)

lemma login_spent_rows: "login_spent h d = rows_ok h (\<lambda>r. lt_consumed r \<noteq> None) (login_txs d)"
  by (simp add: login_spent_def rows_ok_def)

lemma login_bound_rows: "login_bound h b d = rows_ok h (\<lambda>r. lt_email r = Some b) (login_txs d)"
  by (simp add: login_bound_def rows_ok_def)

lemma rows_ok_lookup: "rows_ok h Q t \<Longrightarrow> lookup_by lt_hash h t = Some r \<Longrightarrow> Q r"
  by (auto simp: rows_ok_def dest: lookup_byD)

lemmas login_simps = tx_succ open_login_Inr
  token_hash_Inr csrf_hash_Inr sql_insert_checked_Inr sql_update_checked_Inr

text \<open>An operation that throws leaves the database unchanged.\<close>

lemma login_rollback:
  "createLogin rt path csrf token now d = (Inl e, d') \<Longrightarrow> d' = d"
  "bindEmail rt token csrf email now d = (Inl e, d') \<Longrightarrow> d' = d"
  "restartLogin rt token csrf new now d = (Inl e, d') \<Longrightarrow> d' = d"
  "completeLogin rt token csrf u acc ten now d = (Inl e, d') \<Longrightarrow> d' = d"
  unfolding login_op_defs with_role_defs
  by (auto simp: case_eq_Pair Let_def dest!: transaction_rollback)

lemma create_rows:
  assumes "rows_ok h Q (login_txs d)" and "sha256 rt token \<noteq> h"
    and "createLogin rt path csrf token now d = (r, d')"
  shows "rows_ok h Q (login_txs d')"
proof (cases r)
  case (Inr x)
  with assms show ?thesis by (auto simp: createLogin_def login_simps rows_ok_purge)
qed (use assms in \<open>auto dest: login_rollback\<close>)

lemma complete_Inr:
  assumes "completeLogin rt token csrf u acc ten now d = (Inr c, d')"
  obtains row d1 usr where
    "open_login (sha256 rt token) (sha256 rt csrf) now (login_txs d) = Inr row"
    "bound_email_matches rt token row u (auth_users d) = Inr ()"
    "ensure_account_auth_link u acc ten now d = Inr ((cp_account c, cp_home c), d1)"
    "lookup_by acc_id (cp_account c) (accounts d1) = Some usr" "acc_status usr = TActive"
    "cp_status c = TActive" "cp_return c = lt_return row" "rx id_class 43 43 token"
    "d' = d1\<lparr>login_txs := sql_update (\<lambda>r. lt_hash r = sha256 rt token \<and> lt_consumed r = None)
        (\<lambda>r. r\<lparr>lt_consumed := Some now\<rparr>) (login_txs d)\<rparr>"
proof -
  from assms obtain row d1 account home usr where *:
    "open_login (sha256 rt token) (sha256 rt csrf) now (login_txs d) = Inr row"
    "bound_email_matches rt token row u (auth_users d) = Inr ()"
    "ensure_account_auth_link u acc ten now d = Inr ((account, home), d1)"
    "lookup_by acc_id account (accounts d1) = Some usr" "acc_status usr = TActive"
    "rx id_class 43 43 token"
    "c = \<lparr>cp_account = account, cp_home = home, cp_status = TActive, cp_return = lt_return row\<rparr>"
    "d' = d1\<lparr>login_txs := sql_update (\<lambda>r. lt_hash r = sha256 rt token \<and> lt_consumed r = None)
        (\<lambda>r. r\<lparr>lt_consumed := Some now\<rparr>) (login_txs d1)\<rparr>"
    unfolding completeLogin_def
    by (clarsimp simp: tx_succ token_hash_Inr csrf_hash_Inr sql_update_checked_Inr)
  from * show thesis using ensure_link_frame [OF *(3)] by (intro that) simp_all
qed

lemma complete_rows:
  assumes "rows_ok h Q (login_txs d)" and "\<And>r. Q r \<Longrightarrow> Q (r\<lparr>lt_consumed := Some now\<rparr>)"
    and "completeLogin rt token csrf u acc ten now d = (r, d')"
  shows "rows_ok h Q (login_txs d')"
proof (cases r)
  case (Inr c)
  with assms show ?thesis by (auto elim!: complete_Inr intro!: rows_ok_update)
qed (use assms in \<open>auto dest: login_rollback\<close>)

lemma restart_rows:
  assumes "rows_ok h Q (login_txs d)" and "sha256 rt new \<noteq> h"
    and "\<And>r. Q r \<Longrightarrow> Q (r\<lparr>lt_consumed := Some now\<rparr>)"
    and "restartLogin rt token csrf new now d = (r, d')"
  shows "rows_ok h Q (login_txs d')"
proof (cases r)
  case (Inr x)
  with assms show ?thesis by (auto simp: restartLogin_def login_simps intro!: rows_ok_update)
qed (use assms in \<open>auto dest: login_rollback\<close>)

lemma bind_rows:
  assumes "rows_ok h Q (login_txs d)"
    and "\<And>r r0 e. Q r \<Longrightarrow> Q r0 \<Longrightarrow> lt_email r0 = None \<Longrightarrow> Q (r\<lparr>lt_email := Some e\<rparr>)"
    and "bindEmail rt token csrf email now d = (r, d')"
  shows "rows_ok h Q (login_txs d')"
proof (cases r)
  case (Inr x)
  have "h = sha256 rt token \<Longrightarrow> lookup_by lt_hash (sha256 rt token) (login_txs d) = Some q \<Longrightarrow> Q q"
    for q using assms(1) by (auto dest: rows_ok_lookup)
  with assms Inr show ?thesis by (auto simp: bindEmail_def login_simps intro!: rows_ok_update)
qed (use assms in \<open>auto dest: login_rollback\<close>)

lemma spent_step:
  "login_spent h d \<Longrightarrow> login_fresh rt h x \<Longrightarrow> login_spent h (login_step rt x d)"
  unfolding login_spent_rows
  by (cases x) (auto elim: create_rows restart_rows complete_rows bind_rows intro: prod.collapse [symmetric])

lemma bound_step:
  "login_bound h b d \<Longrightarrow> login_fresh rt h x \<Longrightarrow> login_bound h b (login_step rt x d)"
  unfolding login_bound_rows
  by (cases x) (auto elim: create_rows restart_rows complete_rows bind_rows intro: prod.collapse [symmetric])

interpretation login_spent: state_machine "login_step rt" "login_fresh rt h" "login_spent h"
  for rt h by unfold_locales (rule spent_step)

interpretation login_bound: state_machine "login_step rt" "login_fresh rt h" "login_bound h b"
  for rt h b by unfold_locales (rule bound_step)

section \<open>What a completed login was\<close>

lemma complete_spends:
  assumes "completeLogin rt token csrf u acc ten now d = (Inr c, d')"
  shows "login_spent (sha256 rt token) d'"
  using assms by (elim complete_Inr) (auto simp: login_spent_def set_sql_update)

lemma spent_not_open:
  "login_spent th d \<Longrightarrow> open_login th ch now (login_txs d) \<noteq> Inr row"
  by (auto simp: open_login_Inr login_spent_def dest: lookup_byD)

lemma spent_fails:
  assumes "login_spent (sha256 rt token) d"
  shows "\<not> is_ok (fst (completeLogin rt token csrf u acc ten now d)) \<and>
     \<not> is_ok (fst (bindEmail rt token csrf email now d)) \<and>
     \<not> is_ok (fst (restartLogin rt token csrf new now d))"
  using spent_not_open [OF assms]
  by (auto simp: is_ok_iff login_op_defs with_role_defs transaction_def and_then_Inr Let_def
      token_hash_Inr csrf_hash_Inr split: if_splits sum.splits option.splits)

lemma ensure_link_home:
  "ensure_account_auth_link u a t now d = Inr (lk, d') \<Longrightarrow> linked_home d' u = Some lk"
  unfolding ensure_account_auth_link_def case_eq_Inr
  by (elim disjE conjE exE)
    (auto simp: and_then_Inr sql_insert_Inr linked_home_def lookup_by_fresh)

lemma bind_bound:
  assumes "bindEmail rt token csrf email now d = (Inr (), d')" and "has_pk lt_hash (login_txs d)"
  shows "login_bound (sha256 rt token) (hmac_sha256 rt token email) d'"
proof -
  have "\<lbrakk>lookup_by lt_hash k (login_txs d) = Some q; r \<in> set (login_txs d); lt_hash r = k\<rbrakk> \<Longrightarrow> r = q"
    for k q r using assms(2) by (auto intro: lookup_by_eq)
  with assms(1) show ?thesis
    by (auto simp: bindEmail_def login_simps loginTransactionEmailBinding_def login_bound_def
        set_sql_update)
qed

section \<open>Sessions as a machine\<close>

datatype session_op =
    SessionCreate session_input
  | SessionRevoke bytes time
  | SessionResolve bytes time

fun session_step :: "session_op \<Rightarrow> db \<Rightarrow> db" where
  "session_step (SessionCreate input) d = snd (createSession input d)"
| "session_step (SessionRevoke h now) d = snd (revokeSession h now d)"
| "session_step (SessionResolve h now) d = snd (resolveSession h now d)"

fun session_fresh :: "bytes \<Rightarrow> session_op \<Rightarrow> bool" where
  "session_fresh h (SessionCreate input) = (sn_hash input \<noteq> h)"
| "session_fresh h _ = True"

definition session_dead :: "bytes \<Rightarrow> db \<Rightarrow> bool" where
  "session_dead h d \<longleftrightarrow> (\<forall>r\<in>set (account_sessions d). as_hash r = h \<longrightarrow> as_revoked r \<noteq> None)"

lemma create_session_rows:
  "createSession input d = (Inr x, d') \<Longrightarrow> account_sessions d' = account_sessions d \<or>
     (\<exists>r. as_hash r = sn_hash input \<and> account_sessions d' = account_sessions d @ [r])"
  unfolding createSession_def
  by (auto simp: tx_succ sql_insert_checked_Inr)

lemma create_session_rollback: "createSession input d = (Inl e, d') \<Longrightarrow> d' = d"
  unfolding createSession_def with_role_defs by (rule transaction_rollback)

lemma session_dead_step:
  assumes "session_dead h d" and "session_fresh h x"
  shows "session_dead h (session_step x d)"
proof (cases x)
  case (SessionCreate input)
  obtain r d' where r: "createSession input d = (r, d')" by fastforce
  show ?thesis
    using assms SessionCreate r create_session_rows [of input d] create_session_rollback [of input d]
    by (cases r) (fastforce simp: session_dead_def)+
qed (use assms in \<open>auto simp: session_dead_def revokeSession_def resolveSession_def with_role_defs
    transaction_def set_sql_update\<close>)

interpretation session_dead: state_machine session_step "session_fresh h" "session_dead h"
  for h by unfold_locales (rule session_dead_step)

lemma revoke_dead: "session_dead h (snd (revokeSession h now d))"
  unfolding session_dead_def revokeSession_def with_role_defs transaction_def
  by (simp add: set_sql_update ball_Un)

lemma dead_unresolved:
  assumes "session_dead h d"
  shows "fst (resolveSession h later d) = Inr None"
proof -
  have "filter (\<lambda>r. as_hash r = h \<and> session_live later r \<and> active_account d (as_account r))
      (account_sessions d) = []"
    using assms by (auto simp: session_dead_def session_live_def filter_empty_conv)
  then show ?thesis by (simp add: resolveSession_def with_role_defs transaction_def)
qed

section \<open>Properties\<close>

text \<open>
  C24. A login transaction is used at most once: after a login completed, and after any further
  operations of the store that draw no token with the same digest, every completion, email
  binding and restart with that token is refused.
\<close>

theorem login_token_single_use:
  assumes "completeLogin rt token csrf u acc ten now d = (Inr c, d')"
    and "list_all (login_fresh rt (sha256 rt token)) ops"
  shows "let e = fold (login_step rt) ops d' in
     \<not> is_ok (fst (completeLogin rt token csrf' u' acc' ten' now' e)) \<and>
     \<not> is_ok (fst (bindEmail rt token csrf' email now' e)) \<and>
     \<not> is_ok (fst (restartLogin rt token csrf' new now' e))"
  unfolding Let_def
  by (intro spent_fails login_spent.run_inv [OF complete_spends [OF assms(1)] assms(2)])

text \<open>An example: one authentication user and one open login transaction bound to her email.\<close>

definition sample_login_db :: db where
  "sample_login_db = empty_db\<lparr>
     auth_users := [\<lparr>usr_id = ''user-1'', usr_email = ''a@b.co''\<rparr>],
     login_txs := [\<lparr>lt_hash = pad32 (sample_token CHR ''T''), lt_return = ''/sites'',
       lt_csrf = pad32 (sample_token CHR ''C''), lt_email = Some (pad32 (''a@b.co'' @ sample_token CHR ''T'')),
       lt_created = 1000, lt_expires = 601000, lt_consumed = None\<rparr>]\<rparr>"

definition sample_account :: string where
  "sample_account = ''account_0123456789abcdef''"

definition sample_complete :: "completed_login outcome" where
  "sample_complete = completeLogin sample_runtime (sample_token CHR ''T'') (sample_token CHR ''C'')
     ''user-1'' sample_account ''tenant-1'' 2000 sample_login_db"

lemma sample_complete_eval:
  "sample_complete = (Inr \<lparr>cp_account = sample_account, cp_home = ''tenant-1'',
      cp_status = TActive, cp_return = ''/sites''\<rparr>, snd sample_complete)"
  by (rule known_outcome) code_simp

theorem login_token_single_use_witness:
  "let e = fold (login_step sample_runtime)
         [LoginCreate ''/'' (sample_token CHR ''C'') (sample_token CHR ''U'') 3000] (snd sample_complete) in
   \<not> is_ok (fst (completeLogin sample_runtime (sample_token CHR ''T'') (sample_token CHR ''C'')
        ''user-1'' sample_account ''tenant-1'' 4000 e)) \<and>
   \<not> is_ok (fst (bindEmail sample_runtime (sample_token CHR ''T'') (sample_token CHR ''C'')
        ''a@b.co'' 4000 e)) \<and>
   \<not> is_ok (fst (restartLogin sample_runtime (sample_token CHR ''T'') (sample_token CHR ''C'')
        (sample_token CHR ''V'') 4000 e))"
  unfolding sample_complete_def
  by (rule login_token_single_use [OF sample_complete_eval [unfolded sample_complete_def]]) code_simp

text \<open>
  C2. A login completes only for an open transaction that carries the browser's csrf digest, has not
  expired and was not consumed; the address bound to it is that of the signed-in user; and the
  account returned is active and is the one linked to the user.
\<close>

theorem complete_login_sound:
  assumes "completeLogin rt token csrf u acc ten now d = (Inr c, d')"
  shows "\<exists>row. lookup_by lt_hash (sha256 rt token) (login_txs d) = Some row \<and>
     lt_csrf row = sha256 rt csrf \<and> now < lt_expires row \<and> lt_consumed row = None \<and>
     cp_return c = lt_return row \<and>
     (\<forall>b. lt_email row = Some b \<longrightarrow>
        (\<exists>usr\<in>set (auth_users d). usr_id usr = u \<and> b = hmac_sha256 rt token (usr_email usr))) \<and>
     linked_home d' u = Some (cp_account c, cp_home c) \<and> active_account d' (cp_account c)"
proof -
  from assms obtain row d1 usr where *:
    "open_login (sha256 rt token) (sha256 rt csrf) now (login_txs d) = Inr row"
    "bound_email_matches rt token row u (auth_users d) = Inr ()"
    "ensure_account_auth_link u acc ten now d = Inr ((cp_account c, cp_home c), d1)"
    "lookup_by acc_id (cp_account c) (accounts d1) = Some usr" "acc_status usr = TActive"
    "cp_return c = lt_return row"
    "d' = d1\<lparr>login_txs := sql_update (\<lambda>r. lt_hash r = sha256 rt token \<and> lt_consumed r = None)
        (\<lambda>r. r\<lparr>lt_consumed := Some now\<rparr>) (login_txs d)\<rparr>"
    by (rule complete_Inr)
  have "\<exists>q\<in>set (auth_users d). usr_id q = u \<and> b = hmac_sha256 rt token (usr_email q)"
    if "lt_email row = Some b" for b
    using *(2) that
    by (auto simp: bound_email_matches_def loginTransactionEmailBinding_def
        split: option.split_asm if_split_asm dest: lookup_byD)
  moreover have "linked_home d1 u = Some (cp_account c, cp_home c)"
    using *(3) by (rule ensure_link_home)
  moreover have "usr \<in> set (accounts d1)" "acc_id usr = cp_account c"
    using *(4) by (auto dest: lookup_byD)
  ultimately show ?thesis
    using *(1,5,6,7)
    by (intro exI [of _ row])
       (auto simp: open_login_Inr linked_home_def active_account_def list_ex_iff)
qed

theorem complete_login_sound_witness:
  "active_account (snd sample_complete) sample_account \<and>
   linked_home (snd sample_complete) ''user-1'' = Some (sample_account, ''tenant-1'')"
  using complete_login_sound [OF sample_complete_eval [unfolded sample_complete_def]]
  by (elim exE conjE) (simp add: sample_complete_def)

text \<open>
  Provisioning is idempotent: once a user is linked, any later call, whatever account and tenant
  it proposes, returns the same account and home and changes no table.
\<close>

theorem ensure_link_idempotent:
  assumes "ensure_account_auth_link u a t now d = Inr (lk, d')" and "proposed_account_id a'"
  shows "ensure_account_auth_link u a' t' now' d' = Inr (lk, d')"
  using ensure_link_home [OF assms(1)] assms ensure_link_frame [OF assms(1)]
  by (auto simp: ensure_account_auth_link_def split: if_split_asm)

theorem ensure_link_idempotent_witness:
  "case ensure_account_auth_link ''user-1'' sample_account ''t1'' 0 sample_login_db of
     Inl e \<Rightarrow> False
   | Inr (lk, d') \<Rightarrow>
       ensure_account_auth_link ''user-1'' ''account_fedcba9876543210'' ''t2'' 5 d' = Inr (lk, d')"
proof -
  have e: "ensure_account_auth_link ''user-1'' sample_account ''t1'' 0 sample_login_db =
      Inr ((sample_account, ''t1''), snd (projr
        (ensure_account_auth_link ''user-1'' sample_account ''t1'' 0 sample_login_db)))"
    by code_simp
  have p: "proposed_account_id ''account_fedcba9876543210''" by code_simp
  show ?thesis by (subst e) (simp add: ensure_link_idempotent [OF e p])
qed

text \<open>
  Once a transaction is bound to an email address, no later operation of the store that draws
  other tokens changes the binding.
\<close>

theorem login_email_stays_bound:
  assumes "bindEmail rt token csrf email now d = (Inr (), d')"
    and "has_pk lt_hash (login_txs d)"
    and "list_all (login_fresh rt (sha256 rt token)) ops"
    and "r \<in> set (login_txs (fold (login_step rt) ops d'))" and "lt_hash r = sha256 rt token"
  shows "lt_email r = Some (hmac_sha256 rt token email)"
proof -
  let ?b = "hmac_sha256 rt token email"
  have "login_bound (sha256 rt token) ?b d'" by (rule bind_bound [OF assms(1,2)])
  then have "login_bound (sha256 rt token) ?b (fold (login_step rt) ops d')"
    using assms(3) by (rule login_bound.run_inv)
  with assms(4,5) show ?thesis by (simp add: login_bound_def)
qed

theorem login_email_stays_bound_witness:
  "lt_email (hd (login_txs (fold (login_step sample_runtime)
      [LoginBind (sample_token CHR ''T'') (sample_token CHR ''C'') ''x@y.zz'' 2500]
      (snd (bindEmail sample_runtime (sample_token CHR ''T'') (sample_token CHR ''C'') ''a@b.co'' 2000
         sample_login_db))))) =
   Some (hmac_sha256 sample_runtime (sample_token CHR ''T'') ''a@b.co'')"
proof (rule login_email_stays_bound [where ops =
    "[LoginBind (sample_token CHR ''T'') (sample_token CHR ''C'') ''x@y.zz'' 2500]" and now = 2000])
  let ?r = "bindEmail sample_runtime (sample_token CHR ''T'') (sample_token CHR ''C'') ''a@b.co'' 2000
     sample_login_db"
  show "?r = (Inr (), snd ?r)" by (rule known_outcome) code_simp
  show "has_pk lt_hash (login_txs sample_login_db)" by code_simp
qed (code_simp)+

text \<open>
  A revoked session of an external identity never resolves again: not at any later instant, and
  not after any further sessions are created or revoked, as long as none reuses its digest.
\<close>

theorem revoked_session_stays_revoked:
  assumes "list_all (session_fresh h) ops"
  shows "fst (resolveSession h later
     (fold session_step ops (snd (revokeSession h now d)))) = Inr None"
proof -
  have "session_dead h (snd (revokeSession h now d))" by (rule revoke_dead)
  then have "session_dead h (fold session_step ops (snd (revokeSession h now d)))"
    using assms by (rule session_dead.run_inv)
  then show ?thesis by (rule dead_unresolved)
qed

theorem revoked_session_stays_revoked_witness:
  "fst (resolveSession ''h1'' 50 (fold session_step
      [SessionCreate \<lparr>sn_candidate = ''account-2'', sn_issuer = ''i'', sn_subject_hash = ''s'',
         sn_hash = ''h2'', sn_authenticated = 10, sn_expires = 100\<rparr>]
      (snd (revokeSession ''h1'' 20 empty_db)))) = Inr None"
  by (rule revoked_session_stays_revoked) code_simp

end
