(* ===== verification/Pairing.thy ===== *)
theory Pairing
  imports Site_Proof Account_Login
begin

text \<open>
  \<open>PairingService\<close> and \<open>GrantService\<close> (packages/pairing) over the repositories they call.  A
  repository is a record of functions on a state; what the services rely on is stated as the
  locales \<open>pairing_store\<close> and \<open>grant_store\<close>, which the PostgreSQL repositories interpret.
\<close>

definition PAIRING_ATTEMPT_TTL_MS :: time where "PAIRING_ATTEMPT_TTL_MS = 10 * 60 * 1000"

definition secretHash :: "runtime \<Rightarrow> string \<Rightarrow> bytes" where
  "secretHash rt secret = sha256 rt secret"

section \<open>Pairing\<close>

record attempt_record =
  ar_tenant :: string
  ar_id :: string
  ar_resource :: string
  ar_verifier :: bytes
  ar_status :: pairing_status
  ar_expires :: time

record 's pairing_repository =
  pr_create :: "attempt_record \<Rightarrow> string \<Rightarrow> string \<Rightarrow> 's \<Rightarrow> unit result \<times> 's"
  pr_find :: "string \<Rightarrow> string \<Rightarrow> 's \<Rightarrow> attempt_record option result \<times> 's"
  pr_mark :: "string \<Rightarrow> string \<Rightarrow> 's \<Rightarrow> bool result \<times> 's"
  pr_fail :: "string \<Rightarrow> string \<Rightarrow> string \<Rightarrow> 's \<Rightarrow> unit result \<times> 's"
  pr_complete :: "attempt_record \<Rightarrow> verified_proof \<Rightarrow> string \<Rightarrow> string \<Rightarrow> 's \<Rightarrow> unit result \<times> 's"

record pairing_service =
  ps_issuer :: string
  ps_pem :: string
  ps_kid :: string

text \<open>
  \<open>^-----BEGIN PUBLIC KEY-----\r?\n[A-Za-z0-9+/=\r\n]+-----END PUBLIC KEY-----\r?\n?$\<close>; the body
  cannot hold a dash, so it is the longest prefix of its class.
\<close>

definition pem_class :: char_class where
  "pem_class = [(65, 90), (97, 122), (48, 57), (43, 43), (47, 47), (61, 61), (13, 13), (10, 10)]"

definition pem_public_key :: "string \<Rightarrow> bool" where
  "pem_public_key pem \<longleftrightarrow>
     (let begin = ''-----BEGIN PUBLIC KEY-----''; end = ''-----END PUBLIC KEY-----'';
          cr = [CHR 0x0D]; nl = [CHR 0x0A];
          rest = drop (length begin) pem;
          rest = (if starts_with rest (cr @ nl) then drop 2 rest
                  else if starts_with rest nl then drop 1 rest else []);
          body = takeWhile (char_in pem_class) rest;
          tail = dropWhile (char_in pem_class) rest
      in starts_with pem begin \<and> body \<noteq> [] \<and> starts_with tail end \<and>
         drop (length end) tail \<in> set [[], cr, nl, cr @ nl])"

definition PairingService :: "string \<Rightarrow> string \<Rightarrow> string \<Rightarrow> pairing_service result" where
  "PairingService issuer pem kid =
     (if \<not> pem_public_key pem \<or> length pem > 8192 then Inl ''platform_signing_key_invalid''
      else if \<not> opaque_id kid then Inl zod_error
      else Inr \<lparr>ps_issuer = issuer, ps_pem = pem, ps_kid = kid\<rparr>)"

definition parse_opaque :: "string \<Rightarrow> string result" where
  "parse_opaque s = (if opaque_id s then Inr s else Inl zod_error)"

lemma parse_opaque_Inr [simp]: "parse_opaque s = Inr t \<longleftrightarrow> opaque_id s \<and> t = s"
  by (auto simp: parse_opaque_def)

record pairing_begin =
  pb_tenant :: string
  pb_attempt :: string
  pb_account :: string
  pb_correlation :: string
  pb_resource :: string
  pb_verifier :: string

definition pairingBegin ::
  "runtime \<Rightarrow> 's pairing_repository \<Rightarrow> time \<Rightarrow> pairing_begin \<Rightarrow> 's \<Rightarrow> (thrown + time) \<times> 's" where
  "pairingBegin rt repo now q s =
     (if \<not> rx id_class 43 128 (pb_verifier q) then (Inl (Plain ''invalid_verifier''), s)
      else
        let expiresAt = now + PAIRING_ATTEMPT_TTL_MS in
        case and_then (parse_opaque (pb_attempt q)) (\<lambda>attempt.
             and_then (parse_opaque (pb_account q)) (\<lambda>account.
             and_then (parse_opaque (pb_correlation q)) (\<lambda>correlation.
             and_then (canonicalizeResource rt (pb_resource q)) (\<lambda>resource.
             Inr (\<lparr>ar_tenant = pb_tenant q, ar_id = attempt, ar_resource = resource,
                   ar_verifier = secretHash rt (pb_verifier q), ar_status = PairPending,
                   ar_expires = expiresAt\<rparr>, account, correlation))))) of
          Inl e \<Rightarrow> (Inl (Plain e), s)
        | Inr (rec, account, correlation) \<Rightarrow>
            (case pr_create repo rec account correlation s of
               (Inl e, s') \<Rightarrow> (Inl (diagnostic StagePersistence PersistenceFailed (Some (Plain e))), s')
             | (Inr _, s') \<Rightarrow> (Inr expiresAt, s')))"

record pairing_verify =
  vf_tenant :: string
  vf_attempt :: string
  vf_verifier :: string
  vf_site :: string
  vf_key :: string

definition state_invalid :: thrown where
  "state_invalid = Diag StageState PairingStateInvalid"

text \<open>The verification of the site and the completion, once the attempt is marked.\<close>

definition verify_marked ::
  "pairing_service \<Rightarrow> 's pairing_repository \<Rightarrow> (site_verification \<Rightarrow> thrown + verified_proof) \<Rightarrow>
     string \<Rightarrow> pairing_verify \<Rightarrow> attempt_record \<Rightarrow> 's \<Rightarrow> (thrown + verified_proof) \<times> 's" where
  "verify_marked ps repo client challenge q a s =
     (case client \<lparr>sq_resource = ar_resource a, sq_platform = ps_issuer ps, sq_tenant = ar_tenant a,
                   sq_attempt = ar_id a, sq_site = vf_site q, sq_pem = ps_pem ps,
                   sq_kid = ps_kid ps, sq_verifier = vf_verifier q, sq_challenge = challenge\<rparr> of
        Inl e \<Rightarrow> (Inl e, s)
      | Inr proof \<Rightarrow>
          (case parse_opaque (vf_site q) of
             Inl e \<Rightarrow> (Inl (diagnostic StagePersistence PersistenceFailed (Some (Plain e))), s)
           | Inr siteId \<Rightarrow>
               (case pr_complete repo a proof siteId (vf_key q) s of
                  (Inl e, s') \<Rightarrow> (Inl (diagnostic StagePersistence PersistenceFailed (Some (Plain e))), s')
                | (Inr _, s') \<Rightarrow> (Inr proof, s'))))"

definition pairingVerify ::
  "runtime \<Rightarrow> pairing_service \<Rightarrow> 's pairing_repository \<Rightarrow>
     (site_verification \<Rightarrow> thrown + verified_proof) \<Rightarrow> time \<Rightarrow> string \<Rightarrow> pairing_verify \<Rightarrow> 's \<Rightarrow>
     (thrown + verified_proof) \<times> 's" where
  "pairingVerify rt ps repo client now challenge q s =
     (case pr_find repo (vf_tenant q) (vf_attempt q) s of
        (Inl e, s1) \<Rightarrow> (Inl (diagnostic StagePersistence PersistenceFailed (Some (Plain e))), s1)
      | (Inr None, s1) \<Rightarrow> (Inl state_invalid, s1)
      | (Inr (Some a), s1) \<Rightarrow>
          if ar_expires a \<le> now then (Inl state_invalid, s1)
          else if \<not> equalDigest (secretHash rt (vf_verifier q)) (ar_verifier a)
          then (Inl state_invalid, s1)
          else (case pr_mark repo (vf_tenant q) (vf_attempt q) s1 of
            (Inl e, s2) \<Rightarrow> (Inl (diagnostic StagePersistence PersistenceFailed (Some (Plain e))), s2)
          | (Inr marked, s2) \<Rightarrow>
              if \<not> marked then (Inl state_invalid, s2)
              else (case verify_marked ps repo client challenge q a s2 of
                (Inr proof, s3) \<Rightarrow> (Inr proof, s3)
              | (Inl e, s3) \<Rightarrow>
                  (case pr_fail repo (vf_tenant q) (vf_attempt q) ''verification_failed'' s3 of
                     (Inl e', s4) \<Rightarrow> (Inl (diagnostic StagePersistence PersistenceFailed None), s4)
                   | (Inr _, s4) \<Rightarrow>
                       (Inl (case e of Diag _ _ \<Rightarrow> e | Plain m \<Rightarrow>
                          diagnostic StageUnknown CodeUnknown (Some e)), s4)))))"

text \<open>
  What the service relies on: the status of an attempt moves only from pending to verifying and
  from verifying to active or failed, and the operations say which move they made.
\<close>

locale pairing_store =
  fixes repo :: "'s pairing_repository"
    and invar :: "'s \<Rightarrow> bool"
    and status :: "'s \<Rightarrow> string \<Rightarrow> string \<Rightarrow> pairing_status option"
  assumes find_frame: "pr_find repo t a s = (found, s') \<Longrightarrow> s' = s"
    and mark_invar: "invar s \<Longrightarrow> pr_mark repo t a s = (marked, s') \<Longrightarrow> invar s'"
    and complete_invar: "invar s \<Longrightarrow> pr_complete repo att p i k s = (done, s') \<Longrightarrow> invar s'"
    and fail_invar: "invar s \<Longrightarrow> pr_fail repo t a m s = (done, s') \<Longrightarrow> invar s'"
    and mark_pending: "invar s \<Longrightarrow> pr_mark repo t a s = (Inr True, s') \<Longrightarrow>
          status s t a = Some PairPending \<and> status s' t a = Some PairVerifying"
    and complete_status: "invar s \<Longrightarrow> pr_complete repo att p i k s = (done, s') \<Longrightarrow>
          status s t a = Some PairVerifying \<Longrightarrow>
          status s' t a = Some PairVerifying \<or> (is_ok done \<and> status s' t a = Some PairActive)"
    and fail_status: "invar s \<Longrightarrow> pr_fail repo t a m s = (Inr (), s') \<Longrightarrow>
          status s t a = Some PairVerifying \<Longrightarrow> status s' t a = Some PairFailed \<or> status s' t a = Some PairVerifying"
begin

lemma marked_status:
  assumes "invar s" and "status s t a = Some PairVerifying"
    and "verify_marked ps repo client ch q att s = (r, s')"
  shows "invar s' \<and> (status s' t a = Some PairVerifying \<or> status s' t a = Some PairActive)"
proof -
  have "s' = s \<or> (\<exists>p i k done. pr_complete repo att p i k s = (done, s'))"
    using assms(3) by (auto simp: verify_marked_def case_eq_Pair)
  then show ?thesis
    using assms(1,2) complete_invar complete_status by blast
qed

text \<open>An attempt that is not pending is never verified, whatever the site would answer.\<close>

lemma verify_needs_pending:
  assumes "invar s" and "status s (vf_tenant q) (vf_attempt q) \<noteq> Some PairPending"
  shows "\<not> is_ok (fst (pairingVerify rt ps repo client now ch q s))"
  using assms mark_pending [OF assms(1)]
  by (auto simp: pairingVerify_def split: sum.splits prod.splits option.splits dest!: find_frame)

text \<open>A verification that succeeded leaves the attempt past pending.\<close>

lemma verified_not_pending:
  assumes "invar s" and "pairingVerify rt ps repo client now ch q s = (Inr p, s')"
  shows "invar s' \<and> status s' (vf_tenant q) (vf_attempt q) \<noteq> Some PairPending"
proof -
  from assms(2) obtain a s1 s2 where f: "pr_find repo (vf_tenant q) (vf_attempt q) s = (Inr (Some a), s1)"
    and m: "pr_mark repo (vf_tenant q) (vf_attempt q) s1 = (Inr True, s2)"
    and v: "verify_marked ps repo client ch q a s2 = (Inr p, s')"
    by (auto simp: pairingVerify_def split: sum.splits prod.splits option.splits if_split_asm)
  have "s1 = s" using find_frame [OF f] .
  with m have "invar s2" "status s2 (vf_tenant q) (vf_attempt q) = Some PairVerifying"
    using assms(1) mark_invar mark_pending by blast+
  from marked_status [OF this v] show ?thesis by auto
qed

lemma verify_at_most_once:
  assumes "invar s" and "pairingVerify rt ps repo client now ch q s = (Inr p, s')"
    and "vf_tenant q' = vf_tenant q" and "vf_attempt q' = vf_attempt q"
  shows "\<not> is_ok (fst (pairingVerify rt ps repo client' later ch' q' s'))"
  using verify_needs_pending verified_not_pending [OF assms(1,2)] assms(3,4) by metis

end

section \<open>Grants\<close>

record pending_grant =
  pg_tenant :: string
  pg_id :: string
  pg_site :: string
  pg_subject :: string
  pg_client :: string
  pg_scopes :: "mcp_scope list"
  pg_resource :: string
  pg_jwk :: json
  pg_challenge :: bytes
  pg_expires :: time
  pg_replay :: bool

record new_grant =
  ng_tenant :: string
  ng_id :: string
  ng_site :: string
  ng_subject :: string
  ng_client :: string
  ng_scopes :: "mcp_scope list"
  ng_resource :: string
  ng_challenge :: bytes
  ng_expires :: time
  ng_version :: string
  ng_key :: string
  ng_digest :: bytes
  ng_created :: time

record created_grant =
  cg_id :: string
  cg_created :: time
  cg_expires :: time

record 's grant_repository =
  gp_create :: "new_grant \<Rightarrow> 's \<Rightarrow> created_grant result \<times> 's"
  gp_find :: "string \<Rightarrow> string \<Rightarrow> string \<Rightarrow> 's \<Rightarrow> pending_grant option result \<times> 's"
  gp_activate :: "string \<Rightarrow> string \<Rightarrow> string \<Rightarrow> string \<Rightarrow> 's \<Rightarrow> unit result \<times> 's"
  gp_deny :: "string \<Rightarrow> string \<Rightarrow> string \<Rightarrow> string \<Rightarrow> 's \<Rightarrow> unit result \<times> 's"
  gp_revoke :: "string \<Rightarrow> string \<Rightarrow> string \<Rightarrow> 's \<Rightarrow> bool result \<times> 's"

record grant_begin =
  gb_tenant :: string
  gb_grant :: string
  gb_site :: string
  gb_subject :: string
  gb_client :: string
  gb_scopes :: "string list"
  gb_resource :: string
  gb_version :: string
  gb_key :: string

definition scopes_json :: "mcp_scope list \<Rightarrow> json" where
  "scopes_json xs = JArr (map (\<lambda>s. JStr (scope_name s)) xs)"

text \<open>The immutable part of a grant request, in the order its digest is taken over.\<close>

definition immutable_input :: "grant_begin \<Rightarrow> mcp_scope list \<Rightarrow> string \<Rightarrow> json" where
  "immutable_input q scopes resource = JObj
     [(''tenantId'', JStr (gb_tenant q)), (''siteId'', JStr (gb_site q)),
      (''subjectId'', JStr (gb_subject q)), (''clientId'', JStr (gb_client q)),
      (''scopes'', scopes_json scopes), (''resource'', JStr resource),
      (''consentVersion'', JStr (gb_version q)), (''idempotencyKey'', JStr (gb_key q))]"

definition parse_rx :: "(string \<Rightarrow> bool) \<Rightarrow> string \<Rightarrow> string result" where
  "parse_rx P s = (if P s then Inr s else Inl zod_error)"

lemma parse_rx_Inr [simp]: "parse_rx P s = Inr t \<longleftrightarrow> P s \<and> t = s"
  by (auto simp: parse_rx_def)

definition consent_request ::
  "string \<Rightarrow> grant_begin \<Rightarrow> mcp_scope list \<Rightarrow> string \<Rightarrow> string \<Rightarrow> created_grant \<Rightarrow> json" where
  "consent_request issuer q scopes resource challenge created = JObj
     [(''kind'', JStr ''consent_request''), (''protocol_version'', JStr ''1''), (''iss'', JStr issuer),
      (''tenant_id'', JStr (gb_tenant q)), (''site_id'', JStr (gb_site q)),
      (''grant_id'', JStr (cg_id created)), (''subject_id'', JStr (gb_subject q)),
      (''client_id'', JStr (gb_client q)), (''aud'', JStr resource), (''resource'', JStr resource),
      (''scope'', scopes_json scopes), (''challenge'', JStr challenge),
      (''iat'', JInt (cg_created created div 1000)), (''exp'', JInt (cg_expires created div 1000))]"

record begun_grant =
  bg_id :: string
  bg_request :: string
  bg_challenge :: string
  bg_expires :: time

definition grant_to_create ::
  "runtime \<Rightarrow> (json \<Rightarrow> string) \<Rightarrow> time \<Rightarrow> grant_begin \<Rightarrow>
     (new_grant \<times> mcp_scope list \<times> string \<times> string) result" where
  "grant_to_create rt challengeFactory now q =
     and_then (parse_or_throw (parse_scope_set (gb_scopes q))) (\<lambda>scopes.
     and_then (canonicalizeResource rt (gb_resource q)) (\<lambda>resource.
     let input = immutable_input q scopes resource in
     and_then (parse_rx (rx id_class 43 43) (challengeFactory input)) (\<lambda>challenge.
     and_then (parse_opaque (gb_grant q)) (\<lambda>grant.
     and_then (parse_opaque (gb_site q)) (\<lambda>site.
     and_then (parse_opaque (gb_subject q)) (\<lambda>subject.
     and_then (parse_rx (rx client_class 8 256) (gb_client q)) (\<lambda>client.
     and_then (parse_rx digits (gb_version q)) (\<lambda>version.
     and_then (parse_rx (rx id_class 16 128) (gb_key q)) (\<lambda>key.
     Inr (\<lparr>ng_tenant = gb_tenant q, ng_id = grant, ng_site = site, ng_subject = subject,
           ng_client = client, ng_scopes = scopes, ng_resource = resource,
           ng_challenge = secretHash rt challenge, ng_expires = now + 2 * 60 * 1000,
           ng_version = version, ng_key = key, ng_digest = sha256 rt (json_stringify input),
           ng_created = now\<rparr>, scopes, resource, challenge))))))))))"

definition grantBegin ::
  "runtime \<Rightarrow> 's grant_repository \<Rightarrow> (json \<Rightarrow> string result) \<Rightarrow> (json \<Rightarrow> string) \<Rightarrow> string \<Rightarrow> time \<Rightarrow>
     grant_begin \<Rightarrow> 's \<Rightarrow> begun_grant result \<times> 's" where
  "grantBegin rt repo sign challengeFactory issuer now q s =
     (case grant_to_create rt challengeFactory now q of
        Inl e \<Rightarrow> (Inl e, s)
      | Inr (new, scopes, resource, challenge) \<Rightarrow>
          (case gp_create repo new s of
             (Inl e, s') \<Rightarrow> (Inl e, s')
           | (Inr created, s') \<Rightarrow>
               (case sign (consent_request issuer q scopes resource challenge created) of
                  Inl e \<Rightarrow> (Inl e, s')
                | Inr request \<Rightarrow>
                    (Inr \<lparr>bg_id = cg_id created, bg_request = request, bg_challenge = challenge,
                          bg_expires = cg_expires created\<rparr>, s'))))"

record grant_complete =
  gc_tenant :: string
  gc_grant :: string
  gc_proof :: string
  gc_challenge :: string
  gc_decision :: proof_decision
  gc_key :: string

definition expected_consent :: "string \<Rightarrow> time \<Rightarrow> grant_complete \<Rightarrow> pending_grant \<Rightarrow> expected_proof" where
  "expected_consent issuer now q g =
     \<lparr>xp_kind = ProofConsent, xp_platform = issuer, xp_tenant = pg_tenant g, xp_resource = pg_resource g,
      xp_challenge = gc_challenge q, xp_attempt = None, xp_site = Some (pg_site g), xp_key_sha = None,
      xp_key_id = None, xp_grant = Some (pg_id g), xp_client = Some (pg_client g),
      xp_subject = Some (pg_subject g), xp_scopes = Some (map scope_name (pg_scopes g)),
      xp_decision = Some (gc_decision q), xp_now = now\<rparr>"

definition grantComplete ::
  "runtime \<Rightarrow> jose \<Rightarrow> 's grant_repository \<Rightarrow> string \<Rightarrow> time \<Rightarrow> grant_complete \<Rightarrow> 's \<Rightarrow>
     (thrown + verified_proof) \<times> 's" where
  "grantComplete rt jo repo issuer now q s =
     (case gp_find repo (gc_tenant q) (gc_grant q) (gc_key q) s of
        (Inl e, s1) \<Rightarrow> (Inl (Plain e), s1)
      | (Inr None, s1) \<Rightarrow> (Inl (Plain ''grant_not_pending''), s1)
      | (Inr (Some g), s1) \<Rightarrow>
          if \<not> pg_replay g \<and> pg_expires g \<le> now then (Inl (Plain ''grant_not_pending''), s1)
          else if \<not> equalDigest (secretHash rt (gc_challenge q)) (pg_challenge g)
          then (Inl (Plain ''consent_challenge_invalid''), s1)
          else (case verifySiteProof rt jo (gc_proof q) (pg_jwk g) (expected_consent issuer now q g) of
            Inl e \<Rightarrow> (Inl e, s1)
          | Inr proof \<Rightarrow>
              (case (if gc_decision q = Approved
                     then gp_activate repo (pg_tenant g) (pg_id g) (gc_key q) (vp_thumbprint proof) s1
                     else gp_deny repo (pg_tenant g) (pg_id g) (gc_key q) (vp_thumbprint proof) s1) of
                 (Inl e, s2) \<Rightarrow> (Inl (Plain e), s2)
               | (Inr _, s2) \<Rightarrow> (Inr proof, s2))))"

text \<open>
  What the grant service relies on: creation is idempotent in the key and the digest; an activation
  turns the pending grant active and records the completion under its key and proof, or found that
  completion recorded and changes nothing; a denial does the same with a revoked grant.
\<close>

locale grant_store =
  fixes repo :: "time \<Rightarrow> 's grant_repository"
    and invar :: "'s \<Rightarrow> bool"
    and status :: "'s \<Rightarrow> string \<Rightarrow> string \<Rightarrow> grant_status option"
    and recorded :: "'s \<Rightarrow> string \<Rightarrow> string \<Rightarrow> string \<Rightarrow> string \<Rightarrow> bool"
  assumes find_same: "gp_find (repo now) t g k s = (found, s') \<Longrightarrow> s' = s"
    and find_ids: "gp_find (repo now) t g k s = (Inr (Some p), s') \<Longrightarrow> pg_tenant p = t \<and> pg_id p = g"
    and activate_status: "invar s \<Longrightarrow> gp_activate (repo now) t g k th s = (Inr (), s') \<Longrightarrow>
          s' = s \<and> recorded s t g k th \<or>
          status s t g = Some GrantPending \<and> status s' t g = Some GrantActive \<and> recorded s' t g k th"
    and deny_status: "invar s \<Longrightarrow> gp_deny (repo now) t g k th s = (Inr (), s') \<Longrightarrow>
          s' = s \<and> recorded s t g k th \<or>
          status s t g = Some GrantPending \<and> status s' t g = Some GrantRevoked \<and> recorded s' t g k th"
    and create_again: "invar s \<Longrightarrow> gp_create (repo now) n s = (Inr c, s') \<Longrightarrow>
          ng_tenant n' = ng_tenant n \<Longrightarrow> ng_key n' = ng_key n \<Longrightarrow> ng_digest n' = ng_digest n \<Longrightarrow>
          gp_create (repo later) n' s' = (Inr c, s')"
begin

lemma begin_again:
  assumes "invar s" and "grantBegin rt (repo now) sign factory issuer now q s = (Inr b, s')"
    and "opaque_id g'"
  shows "grantBegin rt (repo later) sign factory issuer later (q\<lparr>gb_grant := g'\<rparr>) s' = (Inr b, s')"
proof -
  from assms(2) obtain n scopes resource challenge c request where
    n: "grant_to_create rt factory now q = Inr (n, scopes, resource, challenge)"
    and c: "gp_create (repo now) n s = (Inr c, s')"
    and r: "sign (consent_request issuer q scopes resource challenge c) = Inr request"
    and b: "b = \<lparr>bg_id = cg_id c, bg_request = request, bg_challenge = challenge,
        bg_expires = cg_expires c\<rparr>"
    by (auto simp: grantBegin_def case_eq_Pair)
  let ?n = "n\<lparr>ng_id := g', ng_expires := later + 2 * 60 * 1000, ng_created := later\<rparr>"
  have n': "grant_to_create rt factory later (q\<lparr>gb_grant := g'\<rparr>) = Inr (?n, scopes, resource, challenge)"
    using n assms(3) unfolding grant_to_create_def
    by (auto simp: and_then_Inr Let_def immutable_input_def)
  have "gp_create (repo later) ?n s' = (Inr c, s')"
    by (rule create_again [OF assms(1) c]) simp_all
  then show ?thesis
    using n' r b by (simp add: grantBegin_def consent_request_def)
qed

lemma complete_status:
  assumes "invar s" and "grantComplete rt jo (repo now) issuer now q s = (Inr v, s')"
  obtains p where "gp_find (repo now) (gc_tenant q) (gc_grant q) (gc_key q) s = (Inr (Some p), s)"
    "pg_replay p \<or> now < pg_expires p" "secretHash rt (gc_challenge q) = pg_challenge p"
    "verifySiteProof rt jo (gc_proof q) (pg_jwk p) (expected_consent issuer now q p) = Inr v"
    "s' = s \<and> recorded s (gc_tenant q) (gc_grant q) (gc_key q) (vp_thumbprint v) \<or>
     status s (gc_tenant q) (gc_grant q) = Some GrantPending \<and>
     status s' (gc_tenant q) (gc_grant q) =
       Some (if gc_decision q = Approved then GrantActive else GrantRevoked) \<and>
     recorded s' (gc_tenant q) (gc_grant q) (gc_key q) (vp_thumbprint v)"
proof -
  from assms(2) obtain p s1 where
    f: "gp_find (repo now) (gc_tenant q) (gc_grant q) (gc_key q) s = (Inr (Some p), s1)"
    and p: "pg_replay p \<or> now < pg_expires p" "secretHash rt (gc_challenge q) = pg_challenge p"
    "verifySiteProof rt jo (gc_proof q) (pg_jwk p) (expected_consent issuer now q p) = Inr v"
    and w: "(if gc_decision q = Approved
        then gp_activate (repo now) (pg_tenant p) (pg_id p) (gc_key q) (vp_thumbprint v) s1
        else gp_deny (repo now) (pg_tenant p) (pg_id p) (gc_key q) (vp_thumbprint v) s1) = (Inr (), s')"
    unfolding grantComplete_def
    by (clarsimp simp: case_eq_Pair not_le)
  have s1: "s1 = s" using f by (rule find_same)
  have ids: "pg_tenant p = gc_tenant q" "pg_id p = gc_grant q" using find_ids [OF f] by simp_all
  show thesis
    using f p w unfolding s1 ids
    by (intro that [of p]) (auto dest!: activate_status [OF assms(1)] deny_status [OF assms(1)]
        split: if_split_asm)
qed

end

end
