(* ===== verification/Console_Auth.thy ===== *)
theory Console_Auth
  imports Account_Login
begin

text \<open>
  \<open>PostgresConsoleAuthStore\<close>: the handoff from the authentication service to the console and
  the opaque console sessions.  A login transaction is created for a browser secret, authorised
  by an authentication session, and exchanged once for a console session.
\<close>

section \<open>Data\<close>

record console_login =
  cl_request :: string
  cl_browser :: string
  cl_return :: string
  cl_expires :: time

record console_handoff =
  ch_request :: string
  ch_code :: string
  ch_expires :: time

record console_session =
  cn_token :: string
  cn_account :: string
  cn_time :: int
  cn_return :: string
  cn_expires :: time

definition consoleSecretHash :: "runtime \<Rightarrow> string \<Rightarrow> bytes result" where
  "consoleSecretHash rt v =
     (if \<not> rx id_class 43 43 v then Inl ''console_auth_secret_invalid'' else Inr (sha256 rt v))"

definition consoleRequestId :: "string \<Rightarrow> string" where
  "consoleRequestId random = ''console_'' @ random"

definition validConsoleReturnPath :: "string \<Rightarrow> bool" where
  "validConsoleReturnPath v \<longleftrightarrow> length v \<le> 2048 \<and> starts_with v ''/'' \<and> \<not> starts_with v ''//'' \<and>
     CHR 0x5C \<notin> set v \<and> CHR ''#'' \<notin> set v"

text \<open>The CHECKs of the two tables on instants and on the binding.\<close>

definition console_tx_ok :: "console_tx_row \<Rightarrow> bool" where
  "console_tx_ok r \<longleftrightarrow> ct_expires r > ct_created r \<and>
     (case ct_consumed r of None \<Rightarrow> True | Some t \<Rightarrow> t \<ge> ct_created r) \<and>
     (ct_session r = None) = (ct_account r = None) \<and>
     (ct_purpose r = PurposeLogin \<or> ct_code r = None)"

definition console_session_ok :: "console_session_row \<Rightarrow> bool" where
  "console_session_ok r \<longleftrightarrow> cs_expires r > cs_created r \<and> cs_authenticated r \<le> cs_created r \<and>
     (case cs_revoked r of None \<Rightarrow> True | Some t \<Rightarrow> t \<ge> cs_created r)"

definition console_tx_ttl :: time where "console_tx_ttl = 5 * 60000"
definition console_session_ttl :: time where "console_session_ttl = 12 * 60 * 60000"

section \<open>Operations\<close>

definition console_stale :: "time \<Rightarrow> console_tx_row \<Rightarrow> bool" where
  "console_stale now r \<longleftrightarrow> ct_expires r < now - one_day \<or>
     (case ct_consumed r of None \<Rightarrow> False | Some t \<Rightarrow> t < now - one_day)"

definition purge_console :: "time \<Rightarrow> console_tx_row list \<Rightarrow> console_tx_row list" where
  "purge_console now t =
     (let doomed = map ct_id (take 100 (sort_key ct_created (filter (console_stale now) t)))
      in sql_delete (\<lambda>r. ct_id r \<in> set doomed) t)"

definition createConsoleLogin ::
  "runtime \<Rightarrow> string \<Rightarrow> string \<Rightarrow> string \<Rightarrow> time \<Rightarrow> db \<Rightarrow> console_login outcome" where
  "createConsoleLogin rt returnPath random browserSecret now d =
     (if \<not> validConsoleReturnPath returnPath then (Inl ''console_return_path_invalid'', d)
      else
        let requestId = consoleRequestId random; expiresAt = now + console_tx_ttl in
        withAccountAuthWriter (\<lambda>s d.
          let rows = purge_console now (console_txs d) in
          and_then (consoleSecretHash rt browserSecret) (\<lambda>secretHash.
          and_then (sql_insert_checked console_tx_ok ct_id
              \<lparr>ct_id = requestId, ct_purpose = PurposeLogin, ct_secret = secretHash,
               ct_return = returnPath, ct_session = None, ct_account = None, ct_code = None,
               ct_created = now, ct_expires = expiresAt, ct_consumed = None\<rparr> rows)
          (\<lambda>rows'. Inr (\<lparr>cl_request = requestId, cl_browser = browserSecret,
                        cl_return = returnPath, cl_expires = expiresAt\<rparr>,
                      d\<lparr>console_txs := rows'\<rparr>)))) d)"

definition authorizeLogin ::
  "runtime \<Rightarrow> string \<Rightarrow> string \<Rightarrow> string \<Rightarrow> time \<Rightarrow> string \<Rightarrow> time \<Rightarrow> db \<Rightarrow> console_handoff outcome" where
  "authorizeLogin rt requestId authSessionId accountId authExpiresAt code now d =
     withAccountAuthWriter (\<lambda>s d.
       case lookup_by ct_id requestId (console_txs d) of
         None \<Rightarrow> Inl ''console_auth_transaction_invalid''
       | Some row \<Rightarrow>
           if ct_purpose row \<noteq> PurposeLogin then Inl ''console_auth_transaction_invalid''
           else if ct_consumed row \<noteq> None then Inl ''console_auth_transaction_consumed''
           else if ct_expires row \<le> now \<or> authExpiresAt \<le> now
           then Inl ''console_auth_transaction_expired''
           else if (ct_session row \<noteq> None \<and> ct_session row \<noteq> Some authSessionId) \<or>
                   (ct_account row \<noteq> None \<and> ct_account row \<noteq> Some accountId)
           then Inl ''console_auth_transaction_binding_mismatch''
           else
             let expiresAt = min (ct_expires row) authExpiresAt in
             and_then (consoleSecretHash rt code) (\<lambda>codeHash.
             and_then (sql_update_checked console_tx_ok (\<lambda>r. ct_id r = requestId)
                 (\<lambda>r. r\<lparr>ct_session := Some authSessionId, ct_account := Some accountId,
                       ct_code := Some codeHash, ct_expires := expiresAt\<rparr>) (console_txs d))
             (\<lambda>rows. Inr (\<lparr>ch_request = requestId, ch_code = code, ch_expires = expiresAt\<rparr>,
                         d\<lparr>console_txs := rows\<rparr>)))) d"

text \<open>
  The authority of a session: its authentication session, linked to the account, with the
  account's status.
\<close>

definition session_authority ::
  "db \<Rightarrow> string \<Rightarrow> string \<Rightarrow> (auth_session_row \<times> account_row) option" where
  "session_authority d sid account =
     first_row [(s, a). s \<leftarrow> auth_sessions d, l \<leftarrow> links d, a \<leftarrow> accounts d,
       link_user l = ses_user s, acc_id a = link_account l, ses_id s = sid, link_account l = account]"

text \<open>The two secrets of an exchange, compared in order; the second only if the first agrees.\<close>

definition secrets_match ::
  "runtime \<Rightarrow> console_tx_row \<Rightarrow> bytes \<Rightarrow> string \<Rightarrow> string \<Rightarrow> unit result" where
  "secrets_match rt row codeHash browserSecret code =
     and_then (consoleSecretHash rt browserSecret) (\<lambda>bh.
       if \<not> equalDigest (ct_secret row) bh then Inl ''console_auth_transaction_invalid''
       else and_then (consoleSecretHash rt code) (\<lambda>ch.
         if \<not> equalDigest codeHash ch then Inl ''console_auth_transaction_invalid'' else Inr ()))"

definition exchangeLogin ::
  "runtime \<Rightarrow> string \<Rightarrow> string \<Rightarrow> string \<Rightarrow> string \<Rightarrow> time \<Rightarrow> db \<Rightarrow> console_session outcome" where
  "exchangeLogin rt requestId browserSecret code token now d =
     withAccountAuthWriter (\<lambda>s d.
       case lookup_by ct_id requestId (console_txs d) of
         None \<Rightarrow> Inl ''console_auth_transaction_invalid''
       | Some row \<Rightarrow>
         (case (ct_session row, ct_account row, ct_code row) of
            (Some authSession, Some account, Some codeHash) \<Rightarrow>
              if ct_purpose row \<noteq> PurposeLogin then Inl ''console_auth_transaction_invalid''
              else if ct_consumed row \<noteq> None then Inl ''console_auth_transaction_consumed''
              else if ct_expires row \<le> now then Inl ''console_auth_transaction_expired''
              else and_then (secrets_match rt row codeHash browserSecret code) (\<lambda>_.
                case session_authority d authSession account of
                  None \<Rightarrow> Inl ''console_auth_authority_invalid''
                | Some (authority, acc) \<Rightarrow>
                    if acc_status acc \<noteq> TActive \<or> ses_expires authority \<le> now
                    then Inl ''console_auth_authority_invalid''
                    else
                      let expiresAt = min (ses_expires authority) (now + console_session_ttl);
                          P = (\<lambda>r. ct_id r = requestId \<and> ct_consumed r = None) in
                      and_then (consoleSecretHash rt token) (\<lambda>tokenHash.
                      and_then (sql_insert_checked console_session_ok cs_hash
                          \<lparr>cs_hash = tokenHash, cs_account = account, cs_session = authSession,
                           cs_authenticated = ses_created authority, cs_created = now,
                           cs_expires = expiresAt, cs_revoked = None\<rparr> (console_sessions d))
                      (\<lambda>sessions.
                      and_then (sql_update_checked console_tx_ok P
                          (\<lambda>r. r\<lparr>ct_consumed := Some now\<rparr>) (console_txs d)) (\<lambda>rows.
                      if row_count P (console_txs d) \<noteq> 1
                      then Inl ''console_auth_transaction_consumed''
                      else Inr (\<lparr>cn_token = token, cn_account = account,
                                 cn_time = ses_created authority div 1000,
                                 cn_return = ct_return row, cn_expires = expiresAt\<rparr>,
                                d\<lparr>console_sessions := sessions, console_txs := rows\<rparr>)))))
          | _ \<Rightarrow> Inl ''console_auth_transaction_invalid'')) d"

definition console_session_live :: "time \<Rightarrow> console_session_row \<Rightarrow> bool" where
  "console_session_live now r \<longleftrightarrow> cs_expires r > now \<and> cs_revoked r = None"

definition resolveConsoleSession :: "bytes \<Rightarrow> time \<Rightarrow> db \<Rightarrow> resolved_session option outcome" where
  "resolveConsoleSession sessionHash now d =
     withAccountAuthReader (\<lambda>s d. Inr (map_option
        (\<lambda>r. \<lparr>rs_account = cs_account r, rs_time = cs_authenticated r div 1000\<rparr>)
        (first_row (filter (\<lambda>r. cs_hash r = sessionHash \<and> console_session_live now r \<and>
             list_ex (\<lambda>a. ses_id a = cs_session r \<and> ses_expires a > now) (auth_sessions d) \<and>
             active_account d (cs_account r)) (console_sessions d))), d)) d"

definition beginLogout ::
  "bytes \<Rightarrow> string \<Rightarrow> string \<Rightarrow> bytes \<Rightarrow> time \<Rightarrow> db \<Rightarrow> string outcome" where
  "beginLogout sessionHash returnPath random secret now d =
     (if \<not> validConsoleReturnPath returnPath then (Inl ''console_return_path_invalid'', d)
      else let requestId = consoleRequestId random in
      withAccountAuthWriter (\<lambda>s d.
        case first_row (filter (\<lambda>r. cs_hash r = sessionHash \<and> console_session_live now r)
                         (console_sessions d)) of
          None \<Rightarrow> Inl ''console_session_invalid''
        | Some row \<Rightarrow>
            and_then (sql_update_checked console_session_ok (\<lambda>r. cs_hash r = sessionHash)
                (\<lambda>r. r\<lparr>cs_revoked := Some now\<rparr>) (console_sessions d)) (\<lambda>sessions.
            and_then (sql_insert_checked console_tx_ok ct_id
                \<lparr>ct_id = requestId, ct_purpose = PurposeLogout, ct_secret = secret,
                 ct_return = returnPath, ct_session = Some (cs_session row),
                 ct_account = Some (cs_account row), ct_code = None, ct_created = now,
                 ct_expires = now + console_tx_ttl, ct_consumed = None\<rparr> (console_txs d))
            (\<lambda>rows. Inr (requestId,
               d\<lparr>console_sessions := sessions, console_txs := rows\<rparr>)))) d)"

definition validateLogout :: "string \<Rightarrow> string \<Rightarrow> bool \<Rightarrow> time \<Rightarrow> db \<Rightarrow> string outcome" where
  "validateLogout requestId authSessionId consume now d =
     withAccountAuthWriter (\<lambda>s d.
       case first_row (filter (\<lambda>r. ct_id r = requestId \<and> ct_purpose r = PurposeLogout \<and>
                                   ct_session r = Some authSessionId) (console_txs d)) of
         None \<Rightarrow> Inl ''console_auth_transaction_invalid''
       | Some row \<Rightarrow>
           if ct_expires row \<le> now then Inl ''console_auth_transaction_expired''
           else if ct_consumed row \<noteq> None then Inl ''console_auth_transaction_consumed''
           else if \<not> consume then Inr (ct_return row, d)
           else and_then (sql_update_checked console_tx_ok (\<lambda>r. ct_id r = requestId)
                    (\<lambda>r. r\<lparr>ct_consumed := Some now\<rparr>) (console_txs d))
                  (\<lambda>rows. Inr (ct_return row, d\<lparr>console_txs := rows\<rparr>))) d"

definition revokeConsoleSession :: "bytes \<Rightarrow> time \<Rightarrow> db \<Rightarrow> unit outcome" where
  "revokeConsoleSession sessionHash now d =
     withAccountAuthWriter (\<lambda>s d.
       and_then (sql_update_checked console_session_ok (\<lambda>r. cs_hash r = sessionHash)
           (\<lambda>r. r\<lparr>cs_revoked := coalesce (cs_revoked r) now\<rparr>) (console_sessions d))
         (\<lambda>sessions. Inr ((), d\<lparr>console_sessions := sessions\<rparr>))) d"

text \<open>\<open>PostgresAccountRegistry\<close>\<close>

definition isActive :: "string \<Rightarrow> db \<Rightarrow> bool outcome" where
  "isActive accountId d = withAuthorizationService (\<lambda>s d.
     Inr (row_count (\<lambda>_. True) (take 1 (filter (\<lambda>r. acc_id r = accountId \<and> acc_status r = TActive)
            (accounts d))) = 1, d)) d"

section \<open>The store as a machine\<close>

datatype console_op =
    ConsoleCreate string string string time
  | ConsoleAuthorize string string string time string time
  | ConsoleExchange string string string string time
  | ConsoleResolve bytes time
  | ConsoleBeginLogout bytes string string bytes time
  | ConsoleValidateLogout string string bool time
  | ConsoleRevoke bytes time

fun console_step :: "runtime \<Rightarrow> console_op \<Rightarrow> db \<Rightarrow> db" where
  "console_step rt (ConsoleCreate path random secret now) d =
     snd (createConsoleLogin rt path random secret now d)"
| "console_step rt (ConsoleAuthorize rid sid acc exp code now) d =
     snd (authorizeLogin rt rid sid acc exp code now d)"
| "console_step rt (ConsoleExchange rid secret code token now) d =
     snd (exchangeLogin rt rid secret code token now d)"
| "console_step rt (ConsoleResolve h now) d = snd (resolveConsoleSession h now d)"
| "console_step rt (ConsoleBeginLogout h path random secret now) d =
     snd (beginLogout h path random secret now d)"
| "console_step rt (ConsoleValidateLogout rid sid consume now) d =
     snd (validateLogout rid sid consume now d)"
| "console_step rt (ConsoleRevoke h now) d = snd (revokeConsoleSession h now d)"

text \<open>The request an operation creates, and the digest of the session it opens.\<close>

fun draws_request :: "string \<Rightarrow> console_op \<Rightarrow> bool" where
  "draws_request rid (ConsoleCreate path random secret now) = (consoleRequestId random = rid)"
| "draws_request rid (ConsoleBeginLogout h path random secret now) = (consoleRequestId random = rid)"
| "draws_request rid _ = False"

fun draws_session :: "runtime \<Rightarrow> bytes \<Rightarrow> console_op \<Rightarrow> bool" where
  "draws_session rt h (ConsoleExchange rid secret code token now) = (sha256 rt token = h)"
| "draws_session rt h _ = False"

lemmas console_op_defs = createConsoleLogin_def authorizeLogin_def exchangeLogin_def
  resolveConsoleSession_def beginLogout_def validateLogout_def revokeConsoleSession_def

lemma console_rollback:
  "createConsoleLogin rt path random secret now d = (Inl e, d') \<Longrightarrow> d' = d"
  "authorizeLogin rt rid sid acc exp code now d = (Inl e, d') \<Longrightarrow> d' = d"
  "exchangeLogin rt rid secret code token now d = (Inl e, d') \<Longrightarrow> d' = d"
  "resolveConsoleSession h now d = (Inl e, d') \<Longrightarrow> d' = d"
  "beginLogout h path random key now d = (Inl e, d') \<Longrightarrow> d' = d"
  "validateLogout rid sid consume now d = (Inl e, d') \<Longrightarrow> d' = d"
  "revokeConsoleSession h now d = (Inl e, d') \<Longrightarrow> d' = d"
  unfolding console_op_defs with_role_defs
  by (auto simp: case_eq_Pair Let_def dest!: transaction_rollback)

lemma console_hash_Inr:
  "consoleSecretHash rt v = Inr h \<longleftrightarrow> rx id_class 43 43 v \<and> h = sha256 rt v"
  by (auto simp: consoleSecretHash_def)

lemma secrets_match_Inr:
  "secrets_match rt row ch secret code = Inr () \<longleftrightarrow>
     rx id_class 43 43 secret \<and> rx id_class 43 43 code \<and>
     ct_secret row = sha256 rt secret \<and> ch = sha256 rt code"
  by (auto simp: secrets_match_def and_then_Inr console_hash_Inr case_eq_Inr)

lemmas console_simps = tx_succ console_hash_Inr sql_insert_checked_Inr sql_update_checked_Inr

text \<open>What a successful exchange found and wrote.\<close>

lemma exchange_Inr:
  assumes "exchangeLogin rt rid secret code token now d = (Inr c, d')"
  obtains row sid authority acc where
    "lookup_by ct_id rid (console_txs d) = Some row" "ct_purpose row = PurposeLogin"
    "ct_consumed row = None" "now < ct_expires row"
    "ct_session row = Some sid" "ct_account row = Some (cn_account c)"
    "ct_secret row = sha256 rt secret" "ct_code row = Some (sha256 rt code)"
    "session_authority d sid (cn_account c) = Some (authority, acc)"
    "acc_status acc = TActive" "now < ses_expires authority"
    "c = \<lparr>cn_token = token, cn_account = cn_account c, cn_time = ses_created authority div 1000,
         cn_return = ct_return row,
         cn_expires = min (ses_expires authority) (now + console_session_ttl)\<rparr>"
    "let new = \<lparr>cs_hash = sha256 rt token, cs_account = cn_account c, cs_session = sid,
            cs_authenticated = ses_created authority, cs_created = now,
            cs_expires = min (ses_expires authority) (now + console_session_ttl),
            cs_revoked = None\<rparr> in
     console_session_ok new \<and>
     d' = d\<lparr>console_sessions := console_sessions d @ [new],
         console_txs := sql_update (\<lambda>r. ct_id r = rid \<and> ct_consumed r = None)
           (\<lambda>r. r\<lparr>ct_consumed := Some now\<rparr>) (console_txs d)\<rparr>"
proof -
  from assms obtain row sid account authority acc where *:
    "lookup_by ct_id rid (console_txs d) = Some row" "ct_purpose row = PurposeLogin"
    "ct_consumed row = None" "now < ct_expires row"
    "ct_session row = Some sid" "ct_account row = Some account"
    "ct_secret row = sha256 rt secret" "ct_code row = Some (sha256 rt code)"
    "session_authority d sid account = Some (authority, acc)"
    "acc_status acc = TActive" "now < ses_expires authority"
    "c = \<lparr>cn_token = token, cn_account = account, cn_time = ses_created authority div 1000,
         cn_return = ct_return row,
         cn_expires = min (ses_expires authority) (now + console_session_ttl)\<rparr>"
    "let new = \<lparr>cs_hash = sha256 rt token, cs_account = account, cs_session = sid,
            cs_authenticated = ses_created authority, cs_created = now,
            cs_expires = min (ses_expires authority) (now + console_session_ttl),
            cs_revoked = None\<rparr> in
     console_session_ok new \<and>
     d' = d\<lparr>console_sessions := console_sessions d @ [new],
         console_txs := sql_update (\<lambda>r. ct_id r = rid \<and> ct_consumed r = None)
           (\<lambda>r. r\<lparr>ct_consumed := Some now\<rparr>) (console_txs d)\<rparr>"
    unfolding exchangeLogin_def
    by (clarsimp simp: console_simps secrets_match_Inr not_less not_le)
  then show thesis by (intro that [of row sid authority acc]) simp_all
qed

text \<open>
  Invariants of the form ``every row satisfies Q'' survive every operation when Q survives the
  updates the store issues and holds of the rows it inserts.
\<close>

lemma tx_rows_step:
  assumes "\<forall>r\<in>set (console_txs d). Q r"
    and "\<And>r s a c e. Q r \<Longrightarrow> Q (r\<lparr>ct_session := s, ct_account := a, ct_code := c, ct_expires := e\<rparr>)"
    and "\<And>r t. Q r \<Longrightarrow> Q (r\<lparr>ct_consumed := Some t\<rparr>)"
    and "\<And>r. draws_request (ct_id r) x \<Longrightarrow> ct_consumed r = None \<Longrightarrow> Q r"
  shows "\<forall>r\<in>set (console_txs (console_step rt x d)). Q r"
proof (cases x)
  case (ConsoleCreate path random secret now)
  obtain r d' where e: "createConsoleLogin rt path random secret now d = (r, d')" by fastforce
  show ?thesis
    unfolding ConsoleCreate console_step.simps e snd_conv using assms ConsoleCreate e
    by (cases r) (auto simp: createConsoleLogin_def console_simps purge_console_def
        dest: console_rollback transaction_rollback)
next
  case (ConsoleAuthorize rid sid acc exp code now)
  obtain r d' where e: "authorizeLogin rt rid sid acc exp code now d = (r, d')" by fastforce
  show ?thesis
    unfolding ConsoleAuthorize console_step.simps e snd_conv using assms ConsoleAuthorize e
    by (cases r) (auto simp: authorizeLogin_def console_simps set_sql_update
        dest: console_rollback transaction_rollback)
next
  case (ConsoleExchange rid secret code token now)
  obtain r d' where e: "exchangeLogin rt rid secret code token now d = (r, d')" by fastforce
  show ?thesis
    unfolding ConsoleExchange console_step.simps e snd_conv using assms ConsoleExchange e
    by (cases r) (auto simp: Let_def set_sql_update elim!: exchange_Inr dest: console_rollback transaction_rollback)
next
  case (ConsoleResolve h now)
  with assms show ?thesis
    by (simp add: resolveConsoleSession_def with_role_defs transaction_def)
next
  case (ConsoleBeginLogout h path random secret now)
  obtain r d' where e: "beginLogout h path random secret now d = (r, d')" by fastforce
  show ?thesis
    unfolding ConsoleBeginLogout console_step.simps e snd_conv using assms ConsoleBeginLogout e
    by (cases r) (auto simp: beginLogout_def console_simps dest: console_rollback transaction_rollback)
next
  case (ConsoleValidateLogout rid sid consume now)
  obtain r d' where e: "validateLogout rid sid consume now d = (r, d')" by fastforce
  show ?thesis
    unfolding ConsoleValidateLogout console_step.simps e snd_conv using assms ConsoleValidateLogout e
    by (cases r) (auto simp: validateLogout_def console_simps set_sql_update dest: console_rollback transaction_rollback)
next
  case (ConsoleRevoke h now)
  obtain r d' where e: "revokeConsoleSession h now d = (r, d')" by fastforce
  show ?thesis
    unfolding ConsoleRevoke console_step.simps e snd_conv using assms ConsoleRevoke e
    by (cases r) (auto simp: revokeConsoleSession_def console_simps dest: console_rollback transaction_rollback)
qed

text \<open>The digest an operation opens a session under, as the row it inserts.\<close>

lemma session_rows_step:
  assumes "\<forall>r\<in>set (console_sessions d). Q r"
    and "\<And>r t. Q r \<Longrightarrow> console_session_ok (r\<lparr>cs_revoked := Some t\<rparr>) \<Longrightarrow> Q (r\<lparr>cs_revoked := Some t\<rparr>)"
    and "\<And>r. draws_session rt (cs_hash r) x \<Longrightarrow> console_session_ok r \<Longrightarrow>
           cs_expires r \<le> cs_created r + console_session_ttl \<Longrightarrow> Q r"
  shows "\<forall>r\<in>set (console_sessions (console_step rt x d)). Q r"
proof (cases x)
  case (ConsoleCreate path random secret now)
  obtain r d' where e: "createConsoleLogin rt path random secret now d = (r, d')" by fastforce
  show ?thesis
    unfolding ConsoleCreate console_step.simps e snd_conv using assms ConsoleCreate e
    by (cases r) (auto simp: createConsoleLogin_def console_simps dest: console_rollback transaction_rollback)
next
  case (ConsoleAuthorize rid sid acc exp code now)
  obtain r d' where e: "authorizeLogin rt rid sid acc exp code now d = (r, d')" by fastforce
  show ?thesis
    unfolding ConsoleAuthorize console_step.simps e snd_conv using assms ConsoleAuthorize e
    by (cases r) (auto simp: authorizeLogin_def console_simps dest: console_rollback transaction_rollback)
next
  case (ConsoleExchange rid secret code token now)
  obtain r d' where e: "exchangeLogin rt rid secret code token now d = (r, d')" by fastforce
  show ?thesis
    unfolding ConsoleExchange console_step.simps e snd_conv using assms ConsoleExchange e
    by (cases r) (auto simp: Let_def elim!: exchange_Inr dest: console_rollback transaction_rollback)
next
  case (ConsoleResolve h now)
  with assms show ?thesis
    by (simp add: resolveConsoleSession_def with_role_defs transaction_def)
next
  case (ConsoleBeginLogout h path random secret now)
  obtain r d' where e: "beginLogout h path random secret now d = (r, d')" by fastforce
  show ?thesis
    unfolding ConsoleBeginLogout console_step.simps e snd_conv using assms ConsoleBeginLogout e
    by (cases r) (auto simp: beginLogout_def console_simps set_sql_update dest: console_rollback transaction_rollback)
next
  case (ConsoleValidateLogout rid sid consume now)
  obtain r d' where e: "validateLogout rid sid consume now d = (r, d')" by fastforce
  show ?thesis
    unfolding ConsoleValidateLogout console_step.simps e snd_conv using assms ConsoleValidateLogout e
    by (cases r) (auto simp: validateLogout_def console_simps dest: console_rollback transaction_rollback)
next
  case (ConsoleRevoke h now)
  obtain r d' where e: "revokeConsoleSession h now d = (r, d')" by fastforce
  have q: "Q r \<Longrightarrow> console_session_ok (r\<lparr>cs_revoked := coalesce v now\<rparr>) \<Longrightarrow>
      Q (r\<lparr>cs_revoked := coalesce v now\<rparr>)" for r v
    using assms(2) by (cases v) simp_all
  show ?thesis
    unfolding ConsoleRevoke console_step.simps e snd_conv using assms(1) q e
    by (cases r) (auto simp: revokeConsoleSession_def console_simps set_sql_update
        dest: console_rollback transaction_rollback)
qed

definition request_spent :: "string \<Rightarrow> db \<Rightarrow> bool" where
  "request_spent rid d \<longleftrightarrow>
     (\<forall>r\<in>set (console_txs d). ct_id r = rid \<longrightarrow> ct_consumed r \<noteq> None)"

definition console_dead :: "bytes \<Rightarrow> db \<Rightarrow> bool" where
  "console_dead h d \<longleftrightarrow>
     (\<forall>r\<in>set (console_sessions d). cs_hash r = h \<longrightarrow> cs_revoked r \<noteq> None)"

definition sessions_bounded :: "db \<Rightarrow> bool" where
  "sessions_bounded d \<longleftrightarrow> (\<forall>r\<in>set (console_sessions d).
     console_session_ok r \<and> cs_expires r \<le> cs_created r + console_session_ttl)"

interpretation request_spent:
  state_machine "console_step rt" "\<lambda>x. \<not> draws_request rid x" "request_spent rid" for rt rid
  unfolding request_spent_def
  by unfold_locales (rule tx_rows_step, auto)

interpretation console_dead:
  state_machine "console_step rt" "\<lambda>x. \<not> draws_session rt h x" "console_dead h" for rt h
  unfolding console_dead_def
  by unfold_locales (rule session_rows_step, auto)

interpretation sessions_bounded:
  state_machine "console_step rt" "\<lambda>x. True" sessions_bounded for rt
  unfolding sessions_bounded_def
  by unfold_locales (rule session_rows_step, auto)

lemma session_authorityD:
  assumes "session_authority d sid account = Some (s, a)"
  shows "s \<in> set (auth_sessions d) \<and> ses_id s = sid \<and> a \<in> set (accounts d) \<and> acc_id a = account \<and>
     (\<exists>l\<in>set (links d). link_user l = ses_user s \<and> link_account l = account)"
  using first_row_in [OF assms [unfolded session_authority_def]] by (auto split: if_splits)

lemma exchange_spends:
  assumes "exchangeLogin rt rid secret code token now d = (Inr c, d')"
  shows "request_spent rid d'"
  using assms by (elim exchange_Inr) (simp add: request_spent_def ball_sql_update Let_def)

lemma spent_request_fails:
  assumes "request_spent rid d"
  shows "\<not> is_ok (fst (exchangeLogin rt rid secret code token now d)) \<and>
     \<not> is_ok (fst (authorizeLogin rt rid sid acc exp code now d))"
proof -
  have q: "lookup_by ct_id rid (console_txs d) = Some row \<Longrightarrow> ct_consumed row \<noteq> None" for row
    using assms by (auto simp: request_spent_def dest: lookup_byD)
  have "exchangeLogin rt rid secret code token now d \<noteq> (Inr c, d')" for c d'
    using q by (auto elim!: exchange_Inr)
  moreover have "authorizeLogin rt rid sid acc exp code now d \<noteq> (Inr c, d')" for c d'
    using q by (auto simp: authorizeLogin_def tx_succ)
  ultimately show ?thesis by (metis is_ok_iff prod.collapse)
qed

lemma console_dead_unresolved:
  assumes "console_dead h d"
  shows "fst (resolveConsoleSession h later d) = Inr None"
proof -
  have "filter (\<lambda>r. cs_hash r = h \<and> console_session_live later r \<and>
      list_ex (\<lambda>a. ses_id a = cs_session r \<and> ses_expires a > later) (auth_sessions d) \<and>
      active_account d (cs_account r)) (console_sessions d) = []"
    using assms by (auto simp: console_dead_def console_session_live_def filter_empty_conv)
  then show ?thesis by (simp add: resolveConsoleSession_def with_role_defs transaction_def)
qed

lemma logout_kills:
  assumes "beginLogout h path random secret now d = (Inr rid, d')"
  shows "console_dead h d'"
proof -
  have "console_sessions d' =
      sql_update (\<lambda>r. cs_hash r = h) (\<lambda>r. r\<lparr>cs_revoked := Some now\<rparr>) (console_sessions d)"
    using assms by (auto simp: beginLogout_def console_simps)
  then show ?thesis by (simp add: console_dead_def ball_sql_update)
qed

lemma revoke_kills:
  assumes "revokeConsoleSession h now d = (Inr (), d')"
  shows "console_dead h d'"
proof -
  have "console_sessions d' = sql_update (\<lambda>r. cs_hash r = h)
      (\<lambda>r. r\<lparr>cs_revoked := coalesce (cs_revoked r) now\<rparr>) (console_sessions d)"
    using assms by (auto simp: revokeConsoleSession_def console_simps)
  then show ?thesis by (simp add: console_dead_def ball_sql_update)
qed

section \<open>Properties\<close>

text \<open>
  A handoff is exchanged at most once: after an exchange succeeded, and after any further
  operations that draw other request identifiers, the same request can be neither exchanged nor
  authorised again, with whatever secrets.
\<close>

theorem console_handoff_single_use:
  assumes "exchangeLogin rt rid secret code token now d = (Inr c, d')"
    and "list_all (\<lambda>x. \<not> draws_request rid x) ops"
  shows "let e = fold (console_step rt) ops d' in
     \<not> is_ok (fst (exchangeLogin rt rid secret' code' token' now' e)) \<and>
     \<not> is_ok (fst (authorizeLogin rt rid sid acc exp code' now' e))"
  unfolding Let_def
  by (intro spent_request_fails request_spent.run_inv [OF exchange_spends [OF assms(1)] assms(2)])

text \<open>An example: an authorised login transaction of an active account.\<close>

definition sample_console_db :: db where
  "sample_console_db = empty_db\<lparr>
     accounts := [\<lparr>acc_id = ''account-1'', acc_status = TActive, acc_issuer = None,
       acc_subject_hash = None\<rparr>],
     links := [\<lparr>link_user = ''user-1'', link_account = ''account-1''\<rparr>],
     auth_sessions := [\<lparr>ses_id = ''ses-1'', ses_user = ''user-1'', ses_created = 500,
       ses_expires = 90000000\<rparr>],
     console_txs := [\<lparr>ct_id = consoleRequestId ''r1'', ct_purpose = PurposeLogin,
       ct_secret = pad32 (sample_token CHR ''B''), ct_return = ''/sites'',
       ct_session = Some ''ses-1'', ct_account = Some ''account-1'',
       ct_code = Some (pad32 (sample_token CHR ''H'')), ct_created = 1000,
       ct_expires = 301000, ct_consumed = None\<rparr>]\<rparr>"

definition sample_exchange :: "console_session outcome" where
  "sample_exchange = exchangeLogin sample_runtime (consoleRequestId ''r1'') (sample_token CHR ''B'')
     (sample_token CHR ''H'') (sample_token CHR ''S'') 2000 sample_console_db"

lemma sample_exchange_eval:
  "sample_exchange = (Inr \<lparr>cn_token = sample_token CHR ''S'', cn_account = ''account-1'',
      cn_time = 0, cn_return = ''/sites'', cn_expires = 43202000\<rparr>, snd sample_exchange)"
  by (rule known_outcome) code_simp

theorem console_handoff_single_use_witness:
  "let e = fold (console_step sample_runtime)
         [ConsoleCreate ''/'' ''r2'' (sample_token CHR ''D'') 3000] (snd sample_exchange) in
   \<not> is_ok (fst (exchangeLogin sample_runtime (consoleRequestId ''r1'') (sample_token CHR ''B'')
        (sample_token CHR ''H'') (sample_token CHR ''E'') 4000 e)) \<and>
   \<not> is_ok (fst (authorizeLogin sample_runtime (consoleRequestId ''r1'') ''ses-1'' ''account-1''
        90000000 (sample_token CHR ''H'') 4000 e))"
  unfolding sample_exchange_def
  by (rule console_handoff_single_use [OF sample_exchange_eval [unfolded sample_exchange_def]])
     code_simp

text \<open>
  C1. An exchange succeeds only for an authorised, unexpired and unconsumed login transaction whose
  browser secret and handoff code both have the stored digests, while the authentication session
  it is bound to is unexpired and linked to the bound active account; the console session expires
  with that session and twelve hours after the exchange at the latest.
\<close>

theorem console_exchange_sound:
  assumes "exchangeLogin rt rid secret code token now d = (Inr c, d')"
  shows "(\<exists>row. lookup_by ct_id rid (console_txs d) = Some row \<and> ct_purpose row = PurposeLogin \<and>
            ct_consumed row = None \<and> now < ct_expires row \<and>
            ct_secret row = sha256 rt secret \<and> ct_code row = Some (sha256 rt code) \<and>
            ct_account row = Some (cn_account c) \<and> cn_return c = ct_return row \<and>
            (\<exists>a\<in>set (auth_sessions d). Some (ses_id a) = ct_session row \<and> now < ses_expires a \<and>
               cn_expires c \<le> ses_expires a \<and>
               (\<exists>l\<in>set (links d). link_user l = ses_user a \<and> link_account l = cn_account c))) \<and>
         active_account d (cn_account c) \<and> cn_expires c \<le> now + console_session_ttl \<and>
         now < cn_expires c"
proof -
  from assms obtain row sid authority acc where *:
    "lookup_by ct_id rid (console_txs d) = Some row" "ct_purpose row = PurposeLogin"
    "ct_consumed row = None" "now < ct_expires row"
    "ct_session row = Some sid" "ct_account row = Some (cn_account c)"
    "ct_secret row = sha256 rt secret" "ct_code row = Some (sha256 rt code)"
    "acc_status acc = TActive" "now < ses_expires authority"
    and auth: "session_authority d sid (cn_account c) = Some (authority, acc)"
    and c: "c = \<lparr>cn_token = token, cn_account = cn_account c,
         cn_time = ses_created authority div 1000, cn_return = ct_return row,
         cn_expires = min (ses_expires authority) (now + console_session_ttl)\<rparr>"
    by (rule exchange_Inr)
  have e: "cn_expires c = min (ses_expires authority) (now + console_session_ttl)"
    "cn_return c = ct_return row" using arg_cong [OF c, of cn_expires] arg_cong [OF c, of cn_return]
    by simp_all
  from session_authorityD [OF auth] have a: "authority \<in> set (auth_sessions d)" "ses_id authority = sid"
    "acc \<in> set (accounts d)" "acc_id acc = cn_account c"
    "\<exists>l\<in>set (links d). link_user l = ses_user authority \<and> link_account l = cn_account c"
    by blast+
  have "active_account d (cn_account c)"
    using a *(9) by (auto simp: active_account_def list_ex_iff)
  with * e a show ?thesis by (force simp: console_session_ttl_def)
qed

theorem console_exchange_sound_witness:
  "active_account sample_console_db ''account-1'' \<and> (43202000::int) \<le> 2000 + console_session_ttl"
  using console_exchange_sound [OF sample_exchange_eval [unfolded sample_exchange_def]] by simp

text \<open>
  Every console session, after any operations on an initially empty table, was authenticated
  before it was created, expires after its creation and at most twelve hours after it.
\<close>

theorem console_sessions_bounded:
  assumes "console_sessions d = []" and "r \<in> set (console_sessions (fold (console_step rt) ops d))"
  shows "cs_authenticated r \<le> cs_created r \<and> cs_created r < cs_expires r \<and>
     cs_expires r \<le> cs_created r + 43200000"
proof -
  have "sessions_bounded d" using assms(1) by (simp add: sessions_bounded_def)
  then have "sessions_bounded (fold (console_step rt) ops d)"
    by (rule sessions_bounded.run_inv) (simp add: list_all_iff)
  with assms(2) show ?thesis
    by (auto simp: sessions_bounded_def console_session_ok_def console_session_ttl_def)
qed

theorem console_sessions_bounded_witness:
  "let r = hd (console_sessions (fold (console_step sample_runtime)
        [ConsoleExchange (consoleRequestId ''r1'') (sample_token CHR ''B'') (sample_token CHR ''H'')
           (sample_token CHR ''S'') 2000] sample_console_db)) in
   cs_authenticated r \<le> cs_created r \<and> cs_created r < cs_expires r \<and>
   cs_expires r \<le> cs_created r + 43200000"
  unfolding Let_def
  by (rule console_sessions_bounded [where d = sample_console_db and rt = sample_runtime and ops =
        "[ConsoleExchange (consoleRequestId ''r1'') (sample_token CHR ''B'')
           (sample_token CHR ''H'') (sample_token CHR ''S'') 2000]"])
     code_simp+

text \<open>
  A console session that was logged out or revoked never resolves again, whatever operations
  follow, as long as no exchange draws a token with the same digest.
\<close>

theorem console_session_stays_ended:
  assumes "beginLogout h path random secret now d = (Inr rid, d') \<or>
      revokeConsoleSession h now d = (Inr (), d')"
    and "list_all (\<lambda>x. \<not> draws_session rt h x) ops"
  shows "fst (resolveConsoleSession h later (fold (console_step rt) ops d')) = Inr None"
proof -
  have "console_dead h d'" using assms(1) logout_kills revoke_kills by blast
  then show ?thesis
    using assms(2) by (intro console_dead_unresolved console_dead.run_inv)
qed

definition sample_logout :: "string outcome" where
  "sample_logout = beginLogout (pad32 (sample_token CHR ''S'')) ''/bye'' ''r9'' (pad32 ''k'') 5000
     (snd sample_exchange)"

lemma sample_logout_eval: "sample_logout = (Inr (consoleRequestId ''r9''), snd sample_logout)"
  by (rule known_outcome) code_simp

theorem console_session_stays_ended_witness:
  "fst (resolveConsoleSession (pad32 (sample_token CHR ''S'')) 6000
     (fold (console_step sample_runtime) [ConsoleRevoke ''other'' 5500] (snd sample_logout))) = Inr None"
  unfolding sample_logout_def
  by (rule console_session_stays_ended
        [OF disjI1 [OF sample_logout_eval [unfolded sample_logout_def]]]) code_simp

text \<open>
  A logout started by the console is accepted, within five minutes, for the authentication session
  the console session belonged to, answers the path it was started with, and is consumed by the
  call that asks for it.
\<close>

theorem console_logout_roundtrip:
  assumes "beginLogout h path random secret now d = (Inr rid, d')"
    and "cs \<in> set (console_sessions d)" and "cs_hash cs = h" and "has_pk cs_hash (console_sessions d)"
    and "now \<le> later" and "later < now + 300000"
  shows "fst (validateLogout rid (cs_session cs) True later d') = Inr path \<and>
     fst (validateLogout rid (cs_session cs) consume again
       (snd (validateLogout rid (cs_session cs) True later d'))) \<noteq> Inr path'"
proof -
  have key: "r \<in> set (console_sessions d) \<Longrightarrow> cs_hash r = h \<Longrightarrow> r = cs" for r
    using assms(2,3) by (auto intro: pk_inject [OF assms(4)])
  define row where "row = \<lparr>ct_id = rid, ct_purpose = PurposeLogout, ct_secret = secret,
      ct_return = path, ct_session = Some (cs_session cs), ct_account = Some (cs_account cs),
      ct_code = None, ct_created = now, ct_expires = now + console_tx_ttl, ct_consumed = None\<rparr>"
  have d': "console_txs d' = console_txs d @ [row]" "rid \<notin> ct_id ` set (console_txs d)"
    using assms(1) key by (auto simp: beginLogout_def console_simps row_def dest!: first_row_filterD)
  have none: "filter (\<lambda>r. ct_id r = rid \<and> Q r) (console_txs d) = []" for Q
    using d'(2) by (auto simp: filter_empty_conv)
  have out: "\<forall>r\<in>set (console_txs d). ct_id r \<noteq> rid" using d'(2) by auto
  have v: "validateLogout rid (cs_session cs) True later d' =
      (Inr path, d'\<lparr>console_txs := console_txs d @ [row\<lparr>ct_consumed := Some later\<rparr>]\<rparr>)"
    using assms(5,6) out
    by (auto simp: validateLogout_def with_role_defs transaction_def d' none row_def console_tx_ttl_def
        sql_update_checked_def list_all_iff console_tx_ok_def sql_update_none)
  then show ?thesis
    by (auto simp: validateLogout_def with_role_defs transaction_def none row_def case_eq_Inr
        split: if_splits)
qed

theorem console_logout_roundtrip_witness:
  "fst (validateLogout (consoleRequestId ''r9'') ''ses-1'' True 6000 (snd sample_logout)) = Inr ''/bye''"
proof -
  let ?cs = "hd (console_sessions (snd sample_exchange))"
  have "?cs \<in> set (console_sessions (snd sample_exchange))"
    "cs_hash ?cs = pad32 (sample_token CHR ''S'')"
    "has_pk cs_hash (console_sessions (snd sample_exchange))" "cs_session ?cs = ''ses-1''"
    by code_simp+
  with console_logout_roundtrip [OF sample_logout_eval [unfolded sample_logout_def], of ?cs 6000]
  show ?thesis unfolding sample_logout_def by simp
qed

end
