(* ===== verification/Rate_Limit.thy ===== *)
theory Rate_Limit
  imports Console_Auth
begin

text \<open>
  Rate limiting of the authorization service: \<open>RateLimitSubjectCodec\<close>, the counter
  \<open>oauth.consume_rate_limit\<close> of migration 005 and \<open>PostgresOAuthRateLimiter\<close>.
\<close>

section \<open>Subjects\<close>

text \<open>The constructor of the codec; the codec is its key.\<close>

definition RateLimitSubjectCodec :: "bytes \<Rightarrow> bytes result" where
  "RateLimitSubjectCodec key =
     (if length key < 32 then Inl ''rate_limit_hmac_key_required'' else Inr key)"

definition rate_limit_digest :: "runtime \<Rightarrow> bytes \<Rightarrow> string \<Rightarrow> string \<Rightarrow> bytes result" where
  "rate_limit_digest rt key policy subject =
     (if \<not> rx_code policy \<or> length subject < 1 \<or> length subject > 2048
      then Inl ''invalid_rate_limit_subject''
      else Inr (hmac_sha256 rt key (policy @ [CHR 0x00] @ subject)))"

section \<open>Buckets\<close>

definition window_start :: "int \<Rightarrow> time \<Rightarrow> time" where
  "window_start seconds now = now div (1000 * seconds) * (1000 * seconds)"

definition bucket_key :: "bucket_row \<Rightarrow> string \<times> bytes \<times> time" where
  "bucket_key r = (bk_policy r, bk_subject r, bk_window r)"

text \<open>
  \<open>INSERT ... ON CONFLICT DO UPDATE SET counter = counter + 1 WHERE counter < limit RETURNING
  counter\<close>: no row is returned when the bucket is full.
\<close>

definition consume_rate_limit ::
  "string \<Rightarrow> bytes \<Rightarrow> int \<Rightarrow> int \<Rightarrow> time \<Rightarrow> bucket_row list \<Rightarrow> bool \<times> bucket_row list" where
  "consume_rate_limit policy subject limit seconds now t =
     (if \<not> rx_code policy \<or> length subject \<noteq> 32 \<or> limit < 1 \<or> limit > 10000 \<or>
         seconds < 1 \<or> seconds > 3600
      then (False, t)
      else
        let start = window_start seconds now; k = (policy, subject, start) in
        case lookup_by bucket_key k t of
          None \<Rightarrow> (1 \<le> limit, t @ [\<lparr>bk_policy = policy, bk_subject = subject, bk_window = start,
                     bk_counter = 1, bk_expires = start + 2 * seconds * 1000\<rparr>])
        | Some r \<Rightarrow>
            if int (bk_counter r) < limit
            then (int (bk_counter r) + 1 \<le> limit,
                  sql_update (\<lambda>q. bucket_key q = k) (\<lambda>q. q\<lparr>bk_counter := bk_counter q + 1\<rparr>) t)
            else (False, t))"

record rate_policy =
  rp_name :: string
  rp_limit :: int
  rp_seconds :: int

text \<open>
  \<open>PostgresOAuthRateLimiter.allow\<close>.  The limit and the window of a policy are integers here,
  so the test \<open>Number.isInteger\<close> has no branch.
\<close>

definition allow :: "runtime \<Rightarrow> bytes \<Rightarrow> rate_policy \<Rightarrow> string \<Rightarrow> time \<Rightarrow> db \<Rightarrow> bool outcome" where
  "allow rt key policy subject now d =
     (case rate_limit_digest rt key (rp_name policy) subject of
        Inl e \<Rightarrow> (Inl e, d)
      | Inr digest \<Rightarrow>
          withAuthorizationService (\<lambda>s d.
            let (allowed, rows) = consume_rate_limit (rp_name policy) digest (rp_limit policy)
                  (rp_seconds policy) now (buckets d)
            in Inr (allowed, d\<lparr>buckets := rows\<rparr>)) d)"

section \<open>The limiter as a budgeted machine\<close>

text \<open>A request: policy, subject digest, limit, window in seconds, instant.\<close>

datatype rate_request = RateRequest string bytes int int time

fun rate_step :: "rate_request \<Rightarrow> bucket_row list \<Rightarrow> bucket_row list" where
  "rate_step (RateRequest p h l w now) t = snd (consume_rate_limit p h l w now t)"

fun rate_allowed :: "rate_request \<Rightarrow> bucket_row list \<Rightarrow> bool" where
  "rate_allowed (RateRequest p h l w now) t = fst (consume_rate_limit p h l w now t)"

text \<open>Requests for one policy and subject carry that policy's limit and window.\<close>

fun follows_policy :: "string \<Rightarrow> bytes \<Rightarrow> int \<Rightarrow> int \<Rightarrow> rate_request \<Rightarrow> bool" where
  "follows_policy p h l w (RateRequest p' h' l' w' now) \<longleftrightarrow>
     (p' = p \<and> h' = h \<longrightarrow> l' = l \<and> w' = w)"

fun in_window :: "string \<Rightarrow> bytes \<Rightarrow> int \<Rightarrow> time \<Rightarrow> rate_request \<Rightarrow> bool" where
  "in_window p h w start (RateRequest p' h' l' w' now) \<longleftrightarrow>
     p' = p \<and> h' = h \<and> window_start w now = start"

lemma bucket_key_counter [simp]: "bucket_key (q\<lparr>bk_counter := c\<rparr>) = bucket_key q"
  by (simp add: bucket_key_def)

text \<open>What a request does to the bucket of any key.\<close>

lemma consume_lookup:
  assumes "consume_rate_limit p h l w now t = (ok, u)"
  shows "if \<not> ok then lookup_by bucket_key k u = lookup_by bucket_key k t
     else if k \<noteq> (p, h, window_start w now) then lookup_by bucket_key k u = lookup_by bucket_key k t
     else (case lookup_by bucket_key k t of
         None \<Rightarrow> 1 \<le> l \<and> map_option bk_counter (lookup_by bucket_key k u) = Some 1
       | Some r \<Rightarrow> int (bk_counter r) < l \<and>
           map_option bk_counter (lookup_by bucket_key k u) = Some (bk_counter r + 1))"
proof -
  let ?k = "(p, h, window_start w now)"
  from assms consider
      "\<not> ok" "u = t"
    | "ok" "lookup_by bucket_key ?k t = None" "1 \<le> l"
        "u = t @ [\<lparr>bk_policy = p, bk_subject = h, bk_window = window_start w now,
                   bk_counter = 1, bk_expires = window_start w now + 2 * w * 1000\<rparr>]"
    | r where "ok" "lookup_by bucket_key ?k t = Some r" "int (bk_counter r) < l"
        "u = sql_update (\<lambda>q. bucket_key q = ?k) (\<lambda>q. q\<lparr>bk_counter := bk_counter q + 1\<rparr>) t"
  proof (cases "ok")
    case False
    then have "u = t"
      using assms by (auto simp: consume_rate_limit_def Let_def split: if_split_asm option.split_asm)
    with False show ?thesis by (rule that(1))
  next
    case True
    show ?thesis
    proof (cases "lookup_by bucket_key ?k t")
      case None
      with True assms show ?thesis
        by (intro that(2)) (simp_all add: consume_rate_limit_def Let_def split: if_split_asm)
    next
      case (Some r)
      with True assms show ?thesis
        by (intro that(3) [of r]) (simp_all add: consume_rate_limit_def Let_def split: if_split_asm)
    qed
  qed
  then show ?thesis
  proof cases
    case 2
    then show ?thesis by (auto simp: table_simps bucket_key_def split: option.split)
  next
    case 3
    then show ?thesis by (auto simp: lookup_by_update_key split: option.split)
  qed simp
qed

definition rate_counter :: "string \<Rightarrow> bytes \<Rightarrow> time \<Rightarrow> bucket_row list \<Rightarrow> nat" where
  "rate_counter p h start t =
     (case lookup_by bucket_key (p, h, start) t of None \<Rightarrow> 0 | Some r \<Rightarrow> bk_counter r)"

definition remaining :: "string \<Rightarrow> bytes \<Rightarrow> int \<Rightarrow> time \<Rightarrow> bucket_row list \<Rightarrow> nat" where
  "remaining p h l start t = nat (l - int (rate_counter p h start t))"

definition charged_in :: "string \<Rightarrow> bytes \<Rightarrow> int \<Rightarrow> time \<Rightarrow> rate_request \<Rightarrow> bucket_row list \<Rightarrow> bool" where
  "charged_in p h w start x t \<longleftrightarrow> in_window p h w start x \<and> rate_allowed x t"

lemma rate_counter_step:
  "rate_counter p h start (rate_step (RateRequest p' h' l' w' now) t) =
     (if rate_allowed (RateRequest p' h' l' w' now) t \<and> p' = p \<and> h' = h \<and> window_start w' now = start
      then rate_counter p h start t + 1 else rate_counter p h start t) \<and>
   (rate_allowed (RateRequest p' h' l' w' now) t \<and> p' = p \<and> h' = h \<and> window_start w' now = start \<longrightarrow>
      int (rate_counter p h start t) < l')"
proof -
  obtain ok u where e: "consume_rate_limit p' h' l' w' now t = (ok, u)" by fastforce
  from consume_lookup [OF this, of "(p, h, start)"] show ?thesis
    by (auto simp: e rate_counter_def split: if_split_asm option.split_asm)
qed

interpretation limiter:
  budget_machine rate_step "follows_policy p h l w" "\<lambda>_. True" "remaining p h l start"
    "charged_in p h w start"
  for p h l w start
proof unfold_locales
  fix x and t :: "bucket_row list"
  assume a: "follows_policy p h l w x"
  obtain p' h' l' w' now where x: "x = RateRequest p' h' l' w' now" by (cases x)
  note c = rate_counter_step [of p h start p' h' l' w' now t]
  show "remaining p h l start (rate_step x t) \<le> remaining p h l start t"
    using c by (auto simp: x remaining_def simp del: rate_step.simps rate_allowed.simps)
  assume "charged_in p h w start x t"
  with a c show "remaining p h l start (rate_step x t) < remaining p h l start t"
    by (auto simp: x charged_in_def remaining_def simp del: rate_step.simps rate_allowed.simps)
qed simp

text \<open>The number of requests of a run allowed in one window.\<close>

fun allowed_in_window ::
  "string \<Rightarrow> bytes \<Rightarrow> int \<Rightarrow> time \<Rightarrow> rate_request list \<Rightarrow> bucket_row list \<Rightarrow> nat" where
  "allowed_in_window p h w start [] t = 0"
| "allowed_in_window p h w start (x # xs) t =
     (if charged_in p h w start x t then 1 else 0) + allowed_in_window p h w start xs (rate_step x t)"

lemma allowed_is_charges:
  "allowed_in_window p h w start xs t = limiter.charges p h w start xs t"
  by (induction xs arbitrary: t) simp_all

section \<open>Properties\<close>

text \<open>
  However requests are interleaved, and whatever the buckets held before, a policy allows one
  subject at most its limit of requests in a window.
\<close>

theorem rate_limit_per_window:
  assumes "list_all (follows_policy p h l w) xs" and "0 \<le> l"
  shows "int (allowed_in_window p h w start xs t) \<le> l"
proof -
  have "allowed_in_window p h w start xs t + remaining p h l start (fold rate_step xs t)
      \<le> remaining p h l start t"
    unfolding allowed_is_charges by (rule limiter.charges_le_budget [OF TrueI assms(1)])
  then have "allowed_in_window p h w start xs t \<le> remaining p h l start t" by simp
  then show ?thesis using assms(2) by (simp add: remaining_def)
qed

theorem rate_limit_per_window_witness:
  "int (allowed_in_window ''oauth.token'' (pad32 ''a'') 60 0
      (replicate 3 (RateRequest ''oauth.token'' (pad32 ''a'') 2 60 5)) []) \<le> 2"
  by (rule rate_limit_per_window) code_simp+

text \<open>
  A window is exactly its length: it starts on a multiple of the length, contains the instant, and
  a first request in a window is allowed when the policy is well formed.
\<close>

theorem rate_limit_first_allowed:
  assumes "rx_code (rp_name policy)" and "1 \<le> rp_limit policy" and "rp_limit policy \<le> 10000"
    and "1 \<le> rp_seconds policy" and "rp_seconds policy \<le> 3600"
    and "subject \<noteq> []" and "length subject \<le> 2048"
    and "\<And>s. length (hmac_sha256 rt key s) = 32"
    and "\<And>r. r \<in> set (buckets d) \<Longrightarrow> bk_window r + 1000 * rp_seconds policy \<le> now"
  shows "fst (allow rt key policy subject now d) = Inr True"
proof -
  let ?w = "1000 * rp_seconds policy"
  have "now < window_start (rp_seconds policy) now + ?w"
    using assms(4) pos_mod_bound [of ?w now] minus_mod_eq_div_mult [of now ?w]
    unfolding window_start_def by linarith
  then have "lookup_by bucket_key (rp_name policy, h, window_start (rp_seconds policy) now)
      (buckets d) = None" for h
    using assms(9) by (force simp: lookup_by_None bucket_key_def)
  then show ?thesis
    using assms(1-8)
    by (simp add: allow_def rate_limit_digest_def consume_rate_limit_def with_role_defs
        transaction_def Let_def not_less not_le)
qed

theorem rate_limit_first_allowed_witness:
  "fst (allow sample_runtime (pad32 ''k'')
     \<lparr>rp_name = ''oauth.token'', rp_limit = 2, rp_seconds = 60\<rparr> ''1.2.3.4'' 5000 empty_db) = Inr True"
  by (rule rate_limit_first_allowed)
     (simp_all add: rx_code_def rx_def char_in_def sample_runtime_def pad32_def empty_db_def)

end
