(* ===== verification/Revocation.thy ===== *)
theory Revocation
  imports Rate_Limit
begin

text \<open>
  Refresh families, the functions of migration 005 that revoke grants, sites and keys, and the
  outbox of the revocation events they emit (\<open>PostgresRefreshFamilyRepository\<close>,
  \<open>PostgresRevocationOutbox\<close>).  The functions are SECURITY DEFINER: they see every row, and the
  two the control plane calls check the session themselves.
\<close>

section \<open>Events\<close>

definition at_site :: "string \<Rightarrow> string \<Rightarrow> outbox_row \<Rightarrow> bool" where
  "at_site tenant site r \<longleftrightarrow> ob_tenant r = tenant \<and> ob_site r = site"

definition next_sequence :: "string \<Rightarrow> string \<Rightarrow> outbox_row list \<Rightarrow> nat" where
  "next_sequence tenant site t =
     foldr max (map ob_sequence (filter (at_site tenant site) t)) 0 + 1"

definition next_identity :: "outbox_row list \<Rightarrow> nat" where
  "next_identity t = foldr max (map ob_id t) 0 + 1"

definition event_key :: "outbox_row \<Rightarrow> string \<times> string \<times> nat" where
  "event_key r = (ob_tenant r, ob_site r, ob_sequence r)"

definition event_row_of :: "string \<Rightarrow> string \<Rightarrow> string \<Rightarrow> event_type \<Rightarrow> string option \<Rightarrow>
    string option \<Rightarrow> string \<Rightarrow> time \<Rightarrow> outbox_row list \<Rightarrow> outbox_row" where
  "event_row_of tenant site resource type grant key reason now t =
     \<lparr>ob_id = next_identity t, ob_tenant = tenant, ob_site = site, ob_resource = resource,
      ob_sequence = next_sequence tenant site t, ob_type = type, ob_grant = grant, ob_key = key,
      ob_reason = reason, ob_not_before = now, ob_attempts = 0, ob_locked = None,
      ob_delivered = None, ob_error = None\<rparr>"

definition emit_event :: "string \<Rightarrow> string \<Rightarrow> string \<Rightarrow> event_type \<Rightarrow> string option \<Rightarrow>
    string option \<Rightarrow> string \<Rightarrow> time \<Rightarrow> outbox_row list \<Rightarrow> outbox_row list result" where
  "emit_event tenant site resource type grant key reason now t =
     sql_insert event_key (event_row_of tenant site resource type grant key reason now t) t"

definition site_at :: "string \<Rightarrow> string \<Rightarrow> site_row list \<Rightarrow> site_row option" where
  "site_at tenant site t = lookup_by site_key (tenant, site) t"

section \<open>Revoking\<close>

text \<open>The two updates of a live grant: with a fixed reason, and keeping an earlier one.\<close>

definition revoke_grant_row :: "string \<Rightarrow> time \<Rightarrow> grant_row \<Rightarrow> grant_row" where
  "revoke_grant_row reason now g =
     g\<lparr>gr_status := GrantRevoked, gr_revoked := coalesce (gr_revoked g) now,
       gr_reason := Some reason\<rparr>"

definition revoke_refresh_row :: "string \<Rightarrow> time \<Rightarrow> grant_row \<Rightarrow> grant_row" where
  "revoke_refresh_row reason now g =
     g\<lparr>gr_status := GrantRevoked, gr_revoked := coalesce (gr_revoked g) now,
       gr_reason := coalesce (gr_reason g) reason\<rparr>"

text \<open>The text \<open>payload->>'grantId'\<close> of a stored artifact; grant identifiers are strings.\<close>

definition payload_text :: "string \<Rightarrow> json_object \<Rightarrow> string option" where
  "payload_text key obj = (case map_of obj key of Some (JStr s) \<Rightarrow> Some s | _ \<Rightarrow> None)"

definition revoke_refresh_grant :: "string \<Rightarrow> time \<Rightarrow> string \<Rightarrow> db \<Rightarrow> (bool \<times> db) result" where
  "revoke_refresh_grant target now reason d =
     (case lookup_by gr_id target (grants d) of
        None \<Rightarrow> Inr (False, d)
      | Some g \<Rightarrow>
          let P = (\<lambda>r. gr_tenant r = gr_tenant g \<and> gr_id r = gr_id g \<and> grant_live r);
              d1 = d\<lparr>grants := sql_update P (revoke_refresh_row reason now) (grants d),
                     secrets := sql_update (\<lambda>a. sa_model a = ''RefreshToken'' \<and>
                         payload_text ''grantId'' (sa_payload a) = Some target)
                       (\<lambda>a. a\<lparr>sa_expires := Some now\<rparr>) (secrets d)\<rparr>
          in
          if row_count P (grants d) = 0 then Inr (True, d1)
          else case site_at (gr_tenant g) (gr_site g) (sites d) of
            None \<Rightarrow> Inl ''refresh_grant_site_missing''
          | Some s \<Rightarrow>
              Inr (True, d1\<lparr>outbox :=
                (case emit_event (gr_tenant g) (gr_site g) (si_resource s) EvGrant (Some (gr_id g))
                        None reason now (outbox d) of
                   Inl _ \<Rightarrow> outbox d
                 | Inr t \<Rightarrow> t)\<rparr>))"

definition revoke_grant_with_event :: "string \<Rightarrow> string \<Rightarrow> time \<Rightarrow> bool tx" where
  "revoke_grant_with_event tenant target now s d =
     (if Some tenant \<noteq> se_tenant s \<or> \<not> has_active_membership d tenant (se_account s)
      then Inr (False, d)
      else
        let P = (\<lambda>r. gr_tenant r = tenant \<and> gr_id r = target \<and> grant_live r \<and>
               (Some (gr_subject r) = se_account s \<or>
                has_tenant_role d tenant (se_account s) manager_roles))
        in case first_row (filter P (grants d)) of
          None \<Rightarrow> Inr (False, d)
        | Some g \<Rightarrow>
            (case site_at tenant (gr_site g) (sites d) of
               None \<Rightarrow> Inl ''query returned no rows''
             | Some site \<Rightarrow>
                 and_then (emit_event tenant (gr_site g) (si_resource site) EvGrant (Some target)
                    None ''platform_user_revoked'' now (outbox d))
                 (\<lambda>t. Inr (True, d\<lparr>grants := sql_update P
                      (revoke_grant_row ''platform_user_revoked'' now) (grants d), outbox := t\<rparr>))))"

definition disconnect_site_with_event :: "string \<Rightarrow> string \<Rightarrow> time \<Rightarrow> bool tx" where
  "disconnect_site_with_event tenant target now s d =
     (if Some tenant \<noteq> se_tenant s \<or> \<not> has_tenant_role d tenant (se_account s) manager_roles
      then Inr (False, d)
      else
        let P = (\<lambda>r. si_tenant r = tenant \<and> si_id r = target \<and> site_live r) in
        case first_row (filter P (sites d)) of
          None \<Rightarrow> Inr (False, d)
        | Some site \<Rightarrow>
            and_then (emit_event tenant target (si_resource site) EvSite None None
                ''site_disconnected'' now (outbox d))
            (\<lambda>t. Inr (True, d\<lparr>
               sites := sql_update P (\<lambda>r. r\<lparr>si_status := SiteRevoked,
                   si_revoked := coalesce (si_revoked r) now\<rparr>) (sites d),
               grants := sql_update (\<lambda>g. gr_tenant g = tenant \<and> gr_site g = target \<and> grant_live g)
                   (revoke_grant_row ''site_disconnected'' now) (grants d),
               outbox := t\<rparr>)))"

text \<open>One event per active site, in the order of the table.\<close>

fun emit_key_events ::
  "string \<Rightarrow> time \<Rightarrow> site_row list \<Rightarrow> outbox_row list \<Rightarrow> outbox_row list result" where
  "emit_key_events kid now [] t = Inr t"
| "emit_key_events kid now (s # ss) t =
     and_then (emit_event (si_tenant s) (si_id s) (si_resource s) EvKey None (Some kid)
        ''key_revoked'' now t) (emit_key_events kid now ss)"

definition revoke_signing_key :: "string \<Rightarrow> time \<Rightarrow> db \<Rightarrow> (bool \<times> db) result" where
  "revoke_signing_key kid now d =
     (let P = (\<lambda>k. ky_kid k = kid \<and>
            (ky_status k = KeyPublished \<or> ky_status k = KeyActive \<or> ky_status k = KeyRetiring)) in
      if row_count P (signing_keys d) = 0 then Inr (False, d)
      else and_then (emit_key_events kid now
              (filter (\<lambda>s. si_status s = SiteActive) (sites d)) (outbox d))
           (\<lambda>t. Inr (True, d\<lparr>signing_keys := sql_update P
               (\<lambda>k. k\<lparr>ky_status := KeyRevoked, ky_revoke := Some now\<rparr>) (signing_keys d),
               outbox := t\<rparr>)))"

section \<open>Refresh families\<close>

datatype rotation = Rotated | Replay | Denied

definition day :: time where "day = 24 * 60 * 60 * 1000"

definition int4_max :: int where "int4_max = 2147483647"

definition rotate_refresh_family ::
  "string \<Rightarrow> int \<Rightarrow> time \<Rightarrow> db \<Rightarrow> (rotation \<times> db) result" where
  "rotate_refresh_family target expected now d =
     (case lookup_by fam_id target (families d) of
        None \<Rightarrow> Inr (Denied, d)
      | Some f \<Rightarrow>
          if fam_status f \<noteq> FamActive \<or> fam_last_used f + 30 * day \<le> now \<or> fam_absolute f \<le> now
          then Inr (Denied, d)
          else if fam_generation f = expected then
            if fam_generation f + 1 > int4_max then Inl ''integer out of range''
            else Inr (Rotated, d\<lparr>families := sql_update (\<lambda>r. fam_id r = target)
                   (\<lambda>r. r\<lparr>fam_generation := fam_generation r + 1, fam_last_used := now\<rparr>)
                   (families d)\<rparr>)
          else if fam_generation f > expected then
            (case site_at (fam_tenant f) (fam_site f) (sites d) of
               None \<Rightarrow> Inl ''refresh_family_site_missing''
             | Some site \<Rightarrow>
                 and_then (emit_event (fam_tenant f) (fam_site f) (si_resource site) EvGrant
                    (Some (fam_grant f)) None ''refresh_replay'' now (outbox d))
                 (\<lambda>t. Inr (Replay, d\<lparr>
                    families := sql_update (\<lambda>r. fam_id r = target)
                      (\<lambda>r. r\<lparr>fam_status := FamRevoked, fam_revoked := Some now,
                            fam_reason := Some ''refresh_replay''\<rparr>) (families d),
                    grants := sql_update (\<lambda>g. gr_tenant g = fam_tenant f \<and> gr_id g = fam_grant f \<and>
                        grant_live g) (revoke_grant_row ''refresh_replay'' now) (grants d),
                    outbox := t\<rparr>)))
          else Inr (Denied, d))"

record family_input =
  fi_id :: string
  fi_tenant :: string
  fi_site :: string
  fi_grant :: string
  fi_client :: string
  fi_subject :: string
  fi_issued :: time
  fi_absolute :: time

definition createFamily :: "family_input \<Rightarrow> db \<Rightarrow> unit outcome" where
  "createFamily input d =
     (if fi_absolute input - fi_issued input > 90 * day \<or> fi_absolute input \<le> fi_issued input
      then (Inl ''invalid_refresh_family_lifetime'', d)
      else withAuthorizationService (\<lambda>s d.
        and_then (sql_insert fam_id
            \<lparr>fam_id = fi_id input, fam_tenant = fi_tenant input, fam_site = fi_site input,
             fam_grant = fi_grant input, fam_client = fi_client input,
             fam_subject = fi_subject input, fam_status = FamActive, fam_generation = 0,
             fam_last_used = fi_issued input, fam_absolute = fi_absolute input,
             fam_revoked = None, fam_reason = None\<rparr> (families d))
          (\<lambda>t. Inr ((), d\<lparr>families := t\<rparr>))) d)"

text \<open>\<open>rotate\<close>: the cast \<open>$2::integer\<close> refuses what does not fit.\<close>

definition rotateFamily :: "string \<Rightarrow> int \<Rightarrow> time \<Rightarrow> db \<Rightarrow> rotation outcome" where
  "rotateFamily familyId expected now d =
     (if expected < 0 then (Inr Denied, d)
      else withAuthorizationService (\<lambda>s d.
        if expected > int4_max then Inl ''integer out of range''
        else rotate_refresh_family familyId expected now d) d)"

section \<open>The outbox\<close>

definition claimable :: "time \<Rightarrow> outbox_row \<Rightarrow> bool" where
  "claimable now r \<longleftrightarrow> ob_delivered r = None \<and> ob_not_before r \<le> now \<and> ob_attempts r < 20 \<and>
     (case ob_locked r of None \<Rightarrow> True | Some t \<Rightarrow> t < now - 120000)"

definition claim_candidates :: "int \<Rightarrow> time \<Rightarrow> outbox_row list \<Rightarrow> nat list" where
  "claim_candidates limit now t =
     take (nat limit) (sort (map ob_id (filter (claimable now) t)))"

definition claim :: "int \<Rightarrow> time \<Rightarrow> db \<Rightarrow> outbox_row list outcome" where
  "claim limit now d =
     (let boundedLimit = clamp 1 100 limit in
      withAuthorizationService (\<lambda>s d.
        let chosen = claim_candidates boundedLimit now (outbox d);
            rows = sql_update (\<lambda>r. ob_id r \<in> set chosen)
              (\<lambda>r. r\<lparr>ob_locked := Some now, ob_attempts := ob_attempts r + 1\<rparr>) (outbox d)
        in Inr (filter (\<lambda>r. ob_id r \<in> set chosen) rows, d\<lparr>outbox := rows\<rparr>)) d)"

definition markDelivered :: "nat \<Rightarrow> time \<Rightarrow> db \<Rightarrow> unit outcome" where
  "markDelivered rid now d =
     withAuthorizationService (\<lambda>s d. Inr ((), d\<lparr>outbox := sql_update
       (\<lambda>r. ob_id r = rid \<and> ob_delivered r = None)
       (\<lambda>r. r\<lparr>ob_delivered := Some now, ob_locked := None, ob_error := None\<rparr>) (outbox d)\<rparr>)) d"

definition reschedule :: "nat \<Rightarrow> string \<Rightarrow> int \<Rightarrow> time \<Rightarrow> db \<Rightarrow> unit outcome" where
  "reschedule rid errorCode delay now d =
     (let boundedDelay = clamp 1 3600 delay;
          safeCode = (if rx_code errorCode then errorCode else ''delivery_failed'') in
      withAuthorizationService (\<lambda>s d. Inr ((), d\<lparr>outbox := sql_update
        (\<lambda>r. ob_id r = rid \<and> ob_delivered r = None)
        (\<lambda>r. r\<lparr>ob_locked := None, ob_not_before := now + boundedDelay * 1000,
              ob_error := Some safeCode\<rparr>) (outbox d)\<rparr>)) d)"

section \<open>The numbering of events\<close>

definition numbered :: "outbox_row list \<Rightarrow> bool" where
  "numbered t \<longleftrightarrow> (\<forall>tenant site. map ob_sequence (filter (at_site tenant site) t) =
     [1..<Suc (length (filter (at_site tenant site) t))])"

text \<open>What a row says for good: everything but the state of its delivery.\<close>

definition event_identity ::
  "outbox_row \<Rightarrow> nat \<times> (string \<times> string \<times> nat) \<times> string \<times> event_type \<times> string option \<times>
     string option \<times> string" where
  "event_identity r =
     (ob_id r, event_key r, ob_resource r, ob_type r, ob_grant r, ob_key r, ob_reason r)"

definition outbox_ok :: "outbox_row list \<Rightarrow> bool" where
  "outbox_ok t \<longleftrightarrow> numbered t \<and> has_pk ob_id t \<and> (\<forall>r\<in>set t. ob_attempts r \<le> 20)"

text \<open>The statements that change the outbox: an emission, or an update of undelivered rows.\<close>

inductive outbox_evolves :: "outbox_row list \<Rightarrow> outbox_row list \<Rightarrow> bool" where
  same: "outbox_evolves t t"
| emit: "outbox_evolves t u \<Longrightarrow> emit_event tenant site resource type grant key reason now u = Inr v \<Longrightarrow>
     outbox_evolves t v"
| touch: "\<forall>r\<in>set t. P r \<longrightarrow> ob_delivered r = None \<and> ob_attempts r \<le> ob_attempts (f r) \<and>
       ob_attempts (f r) \<le> 20 \<Longrightarrow>
     \<forall>r. event_identity (f r) = event_identity r \<Longrightarrow> outbox_evolves t (sql_update P f t)"

lemma foldr_max_upt: "foldr max [1..<Suc n] 0 = n"
proof -
  have "foldr max [1..<Suc n] b = max n b" for b :: nat
    by (induction n arbitrary: b) auto
  then show ?thesis by simp
qed

lemma numbered_next:
  "numbered t \<Longrightarrow> next_sequence tenant site t = Suc (length (filter (at_site tenant site) t))"
  unfolding next_sequence_def numbered_def by (simp only: foldr_max_upt)

lemma numbered_fresh:
  assumes "numbered t" and "r \<in> set t"
  shows "event_key r \<noteq> (tenant, site, next_sequence tenant site t)"
proof
  assume k: "event_key r = (tenant, site, next_sequence tenant site t)"
  let ?f = "filter (at_site tenant site) t"
  have "r \<in> set ?f" using k assms(2) by (simp add: event_key_def at_site_def)
  then have "ob_sequence r \<in> set (map ob_sequence ?f)" by simp
  also have "map ob_sequence ?f = [1..<Suc (length ?f)]"
    using assms(1) unfolding numbered_def by blast
  finally show False using k assms(1) by (simp add: event_key_def numbered_next)
qed

lemma le_foldr_max: "(x::nat) \<in> set xs \<Longrightarrow> x \<le> foldr max xs b"
  by (induction xs) auto

lemma identity_fresh: "r \<in> set t \<Longrightarrow> ob_id r < next_identity t"
  unfolding next_identity_def by (simp add: le_foldr_max less_Suc_eq_le)

text \<open>The unique index on the sequence never refuses an emission.\<close>

lemma emit_total:
  "numbered t \<Longrightarrow> emit_event tenant site resource type grant key reason now t =
     Inr (t @ [event_row_of tenant site resource type grant key reason now t])"
  using numbered_fresh [of t _ tenant site]
  by (force simp: emit_event_def sql_insert_def event_row_of_def event_key_def)

lemma numbered_append:
  assumes "numbered t"
  shows "numbered (t @ [event_row_of tenant site resource type grant key reason now t])"
  unfolding numbered_def
proof (intro allI)
  fix tn st
  have "map ob_sequence (filter (at_site tn st) t) =
      [1..<Suc (length (filter (at_site tn st) t))]"
    using assms unfolding numbered_def by blast
  then show "map ob_sequence (filter (at_site tn st)
        (t @ [event_row_of tenant site resource type grant key reason now t])) =
      [1..<Suc (length (filter (at_site tn st)
        (t @ [event_row_of tenant site resource type grant key reason now t])))]"
    using numbered_next [OF assms, of tn st]
    by (auto simp: event_row_of_def at_site_def)
qed

lemma filter_update_key:
  "(\<And>r. Q (f r) = Q r) \<Longrightarrow> (\<And>r. g (f r) = g r) \<Longrightarrow>
     map g (filter Q (sql_update P f t)) = map g (filter Q t)"
  by (induction t) auto

lemma outbox_okD: "outbox_ok t \<Longrightarrow> r \<in> set t \<Longrightarrow> ob_attempts r \<le> 20"
  by (simp add: outbox_ok_def)

lemma outbox_ok_emit:
  assumes "outbox_ok t" and "emit_event tenant site resource type grant key reason now t = Inr u"
  shows "outbox_ok u"
proof -
  have u: "u = t @ [event_row_of tenant site resource type grant key reason now t]"
    using assms by (simp add: outbox_ok_def emit_total)
  have "next_identity t \<notin> ob_id ` set t" using identity_fresh [of _ t] by fastforce
  with assms(1) show ?thesis
    unfolding u outbox_ok_def
    by (auto simp: numbered_append has_pk_def) (simp_all add: event_row_of_def)
qed

lemma outbox_ok_touch:
  assumes "outbox_ok t" and "\<forall>r\<in>set t. P r \<longrightarrow> ob_attempts (f r) \<le> 20"
    and "\<forall>r. event_identity (f r) = event_identity r"
  shows "outbox_ok (sql_update P f t)"
proof -
  have k: "ob_id (f r) = ob_id r" "ob_sequence (f r) = ob_sequence r"
    "at_site tenant site (f r) = at_site tenant site r" for r tenant site
    using assms(3) by (simp_all add: event_identity_def event_key_def at_site_def)
  have "map ob_sequence (filter (at_site tenant site) (sql_update P f t)) =
      map ob_sequence (filter (at_site tenant site) t)" for tenant site
    by (rule filter_update_key) (simp_all add: k)
  moreover from arg_cong [OF this, of length]
  have "length (filter (at_site tenant site) (sql_update P f t)) =
      length (filter (at_site tenant site) t)" for tenant site by simp
  ultimately have "numbered (sql_update P f t)"
    using assms(1) by (simp add: outbox_ok_def numbered_def)
  with assms(1,2) show ?thesis
    by (simp add: outbox_ok_def has_pk_update k ball_sql_update)
qed

definition outbox_below :: "outbox_row list \<Rightarrow> outbox_row list \<Rightarrow> bool" where
  "outbox_below t u \<longleftrightarrow> (\<forall>r\<in>set t. \<exists>q\<in>set u. event_identity q = event_identity r \<and>
     ob_attempts r \<le> ob_attempts q \<and> (ob_delivered r \<noteq> None \<longrightarrow> q = r))"

lemma outbox_below_refl: "outbox_below t t"
  by (auto simp: outbox_below_def)

lemma outbox_below_trans: "outbox_below t u \<Longrightarrow> outbox_below u v \<Longrightarrow> outbox_below t v"
  unfolding outbox_below_def
proof
  fix r assume tu: "\<forall>r\<in>set t. \<exists>q\<in>set u. event_identity q = event_identity r \<and>
      ob_attempts r \<le> ob_attempts q \<and> (ob_delivered r \<noteq> None \<longrightarrow> q = r)"
    and uv: "\<forall>r\<in>set u. \<exists>q\<in>set v. event_identity q = event_identity r \<and>
      ob_attempts r \<le> ob_attempts q \<and> (ob_delivered r \<noteq> None \<longrightarrow> q = r)"
    and "r \<in> set t"
  then obtain q where q: "q \<in> set u" "event_identity q = event_identity r"
    "ob_attempts r \<le> ob_attempts q" "ob_delivered r \<noteq> None \<longrightarrow> q = r" by blast
  with uv obtain p where "p \<in> set v" "event_identity p = event_identity q"
    "ob_attempts q \<le> ob_attempts p" "ob_delivered q \<noteq> None \<longrightarrow> p = q" by blast
  with q show "\<exists>q\<in>set v. event_identity q = event_identity r \<and>
      ob_attempts r \<le> ob_attempts q \<and> (ob_delivered r \<noteq> None \<longrightarrow> q = r)"
    by (intro bexI [of _ p]) auto
qed

lemma outbox_evolves_ok:
  "outbox_evolves t u \<Longrightarrow> outbox_ok t \<Longrightarrow> outbox_ok u \<and> outbox_below t u"
proof (induction rule: outbox_evolves.induct)
  case (same t)
  then show ?case by (simp add: outbox_below_refl)
next
  case (emit t u tenant site resource type grant key reason now v)
  then have "outbox_ok v" by (blast intro: outbox_ok_emit)
  moreover have "v = u @ [event_row_of tenant site resource type grant key reason now u]"
    using emit by (simp add: outbox_ok_def emit_total)
  then have "outbox_below u v" by (auto simp: outbox_below_def)
  ultimately show ?case using emit by (blast intro: outbox_below_trans)
next
  case (touch t P f)
  then have "outbox_ok (sql_update P f t)" by (intro outbox_ok_touch) auto
  moreover have "outbox_below t (sql_update P f t)"
    unfolding outbox_below_def set_sql_update
  proof
    fix r assume r: "r \<in> set t"
    show "\<exists>q\<in>(\<lambda>r. if P r then f r else r) ` set t. event_identity q = event_identity r \<and>
        ob_attempts r \<le> ob_attempts q \<and> (ob_delivered r \<noteq> None \<longrightarrow> q = r)"
      by (rule bexI [OF _ imageI [OF r]]) (use touch r in auto)
  qed
  ultimately show ?case by simp
qed

section \<open>Grants only ever die\<close>

definition grant_step :: "grant_row \<Rightarrow> grant_row \<Rightarrow> bool" where
  "grant_step g h \<longleftrightarrow> gr_id h = gr_id g \<and> consent_key h = consent_key g \<and>
     (h = g \<or> (grant_live g \<and> gr_status h = GrantRevoked \<and> gr_revoked h \<noteq> None))"

definition grants_below :: "grant_row list \<Rightarrow> grant_row list \<Rightarrow> bool" where
  "grants_below t u \<longleftrightarrow> list_all2 grant_step t u"

lemma grants_below_refl: "grants_below t t"
  by (simp add: grants_below_def grant_step_def list.rel_refl)

lemma grants_below_trans: "grants_below t u \<Longrightarrow> grants_below u v \<Longrightarrow> grants_below t v"
  unfolding grants_below_def
  by (rule list_all2_trans [of grant_step grant_step grant_step])
     (auto simp: grant_step_def grant_live_def)

lemma grants_below_update:
  assumes "\<And>r. P r \<Longrightarrow> grant_live r" and "\<And>r. gr_id (f r) = gr_id r"
    and "\<And>r. consent_key (f r) = consent_key r"
    and "\<And>r. gr_status (f r) = GrantRevoked \<and> gr_revoked (f r) \<noteq> None"
  shows "grants_below t (sql_update P f t)"
  unfolding grants_below_def
  by (induction t) (auto simp: grant_step_def assms)

lemma revoke_row_facts [simp]:
  "gr_id (revoke_grant_row e now g) = gr_id g" "gr_id (revoke_refresh_row e now g) = gr_id g"
  "consent_key (revoke_grant_row e now g) = consent_key g"
  "consent_key (revoke_refresh_row e now g) = consent_key g"
  "gr_status (revoke_grant_row e now g) = GrantRevoked"
  "gr_status (revoke_refresh_row e now g) = GrantRevoked"
  "gr_revoked (revoke_grant_row e now g) \<noteq> None" "gr_revoked (revoke_refresh_row e now g) \<noteq> None"
  "\<exists>y. gr_revoked (revoke_grant_row e now g) = Some y"
  "\<exists>y. gr_revoked (revoke_refresh_row e now g) = Some y"
  by (simp_all add: revoke_grant_row_def revoke_refresh_row_def consent_key_def)

definition revoking :: "db \<Rightarrow> db \<Rightarrow> bool" where
  "revoking d d' \<longleftrightarrow> grants_below (grants d) (grants d') \<and> outbox_evolves (outbox d) (outbox d')"

lemma revoking_refl: "revoking d d"
  by (simp add: revoking_def grants_below_refl outbox_evolves.same)

lemma emit_one: "emit_event tenant site resource type grant key reason now t = Inr u \<Longrightarrow>
    outbox_evolves t u"
  by (rule outbox_evolves.emit [OF outbox_evolves.same])

lemma revoke_refresh_revoking:
  "revoke_refresh_grant target now reason d = Inr (b, d') \<Longrightarrow> revoking d d'"
  unfolding revoke_refresh_grant_def revoking_def
  by (auto simp: succ_simps row_count_eq_0 sql_update_none grants_below_refl
      intro!: grants_below_update outbox_evolves.same intro: emit_one split: sum.split)

lemma revoke_grant_revoking:
  "revoke_grant_with_event tenant target now s d = Inr (b, d') \<Longrightarrow> revoking d d'"
  unfolding revoke_grant_with_event_def
  by (auto simp: succ_simps revoking_refl)
     (auto simp: revoking_def intro!: grants_below_update emit_one)

lemma disconnect_revoking:
  "disconnect_site_with_event tenant target now s d = Inr (b, d') \<Longrightarrow> revoking d d'"
  unfolding disconnect_site_with_event_def
  by (auto simp: succ_simps revoking_refl)
     (auto simp: revoking_def intro!: grants_below_update emit_one)

lemma emit_key_events_evolves:
  "emit_key_events kid now ss t = Inr u \<Longrightarrow> outbox_evolves t0 t \<Longrightarrow> outbox_evolves t0 u"
  by (induction ss arbitrary: t) (auto simp: and_then_Inr intro: outbox_evolves.emit)

lemma revoke_key_revoking:
  "revoke_signing_key kid now d = Inr (b, d') \<Longrightarrow> revoking d d'"
  unfolding revoke_signing_key_def
  by (auto simp: succ_simps revoking_refl)
     (auto simp: revoking_def grants_below_refl intro: emit_key_events_evolves outbox_evolves.same)

lemma rotate_revoking:
  "rotate_refresh_family target expected now d = Inr (r, d') \<Longrightarrow> revoking d d'"
  unfolding rotate_refresh_family_def
  by (auto simp: succ_simps revoking_refl)
     (auto simp: revoking_def grants_below_refl intro!: grants_below_update emit_one
        outbox_evolves.same)

section \<open>The operations as a machine\<close>

datatype revocation_op =
    OpCreateFamily family_input
  | OpRotate string int time
  | OpRevokeRefresh string time string
  | OpRevokeGrant session string string time
  | OpDisconnect session string string time
  | OpRevokeKey string time
  | OpClaim int time
  | OpDelivered nat time
  | OpReschedule nat string int time

fun revocation_step :: "revocation_op \<Rightarrow> db \<Rightarrow> db" where
  "revocation_step (OpCreateFamily input) d = snd (createFamily input d)"
| "revocation_step (OpRotate f g now) d = snd (rotateFamily f g now d)"
| "revocation_step (OpRevokeRefresh g now reason) d =
     snd (withAuthorizationService (\<lambda>s. revoke_refresh_grant g now reason) d)"
| "revocation_step (OpRevokeGrant s tenant g now) d =
     snd (transaction s (revoke_grant_with_event tenant g now) d)"
| "revocation_step (OpDisconnect s tenant site now) d =
     snd (transaction s (disconnect_site_with_event tenant site now) d)"
| "revocation_step (OpRevokeKey kid now) d =
     snd (withAuthorizationService (\<lambda>s. revoke_signing_key kid now) d)"
| "revocation_step (OpClaim limit now) d = snd (claim limit now d)"
| "revocation_step (OpDelivered i now) d = snd (markDelivered i now d)"
| "revocation_step (OpReschedule i code delay now) d = snd (reschedule i code delay now d)"

lemma claim_chosen:
  assumes "has_pk ob_id t" and "r \<in> set t" and "ob_id r \<in> set (claim_candidates limit now t)"
  shows "claimable now r"
proof -
  obtain q where "q \<in> set t" "claimable now q" "ob_id q = ob_id r"
    using assms(3) by (auto simp: claim_candidates_def dest!: in_set_takeD)
  with pk_inject [OF assms(1) assms(2), of q] show ?thesis by simp
qed

abbreviation chosen :: "int \<Rightarrow> time \<Rightarrow> db \<Rightarrow> nat set" where
  "chosen limit now d \<equiv> set (claim_candidates (clamp 1 100 limit) now (outbox d))"

lemma claim_effect:
  "snd (claim limit now d) = d\<lparr>outbox := sql_update (\<lambda>r. ob_id r \<in> chosen limit now d)
     (\<lambda>r. r\<lparr>ob_locked := Some now, ob_attempts := ob_attempts r + 1\<rparr>) (outbox d)\<rparr>"
  by (simp add: claim_def with_role_defs transaction_def Let_def)

lemma claim_revoking:
  assumes "outbox_ok (outbox d)"
  shows "revoking d (snd (claim limit now d))"
proof -
  have "has_pk ob_id (outbox d)" using assms by (simp add: outbox_ok_def)
  from claim_chosen [OF this] have
    "r \<in> set (outbox d) \<Longrightarrow> ob_id r \<in> chosen limit now d \<Longrightarrow>
       ob_delivered r = None \<and> ob_attempts r + 1 \<le> 20" for r
    by (force simp: claimable_def)
  then show ?thesis
    unfolding revoking_def claim_effect
    by (auto simp: event_identity_def event_key_def grants_below_refl intro!: outbox_evolves.touch)
qed

lemma tx_revoking:
  "(\<And>b d'. op s d = Inr (b, d') \<Longrightarrow> revoking d d') \<Longrightarrow> revoking d (snd (transaction s op d))"
  by (rule transaction_keeps [OF revoking_refl])

lemma step_revoking:
  assumes "outbox_ok (outbox d)"
  shows "revoking d (revocation_step x d)"
proof (cases x)
  case (OpCreateFamily input)
  then show ?thesis
    by (auto simp: createFamily_def with_role_defs revoking_refl and_then_Inr intro!: tx_revoking)
       (simp add: revoking_def grants_below_refl outbox_evolves.same)
next
  case (OpRotate f g now)
  then show ?thesis
    by (auto simp: rotateFamily_def with_role_defs revoking_refl intro!: tx_revoking
        dest: rotate_revoking split: if_split_asm)
next
  case (OpClaim limit now)
  with assms show ?thesis by (simp add: claim_revoking)
next
  case (OpDelivered i now)
  then show ?thesis
    by (auto simp: markDelivered_def with_role_defs transaction_def revoking_def grants_below_refl event_identity_def
        event_key_def intro!: outbox_evolves.touch dest: outbox_okD [OF assms])
next
  case (OpReschedule i code delay now)
  then show ?thesis
    by (auto simp: reschedule_def with_role_defs transaction_def Let_def revoking_def grants_below_refl
        event_identity_def event_key_def intro!: outbox_evolves.touch
        dest: outbox_okD [OF assms])
qed (auto simp: with_role_defs intro!: tx_revoking dest: revoke_refresh_revoking
      revoke_grant_revoking disconnect_revoking revoke_key_revoking)

definition revocation_invar :: "db \<Rightarrow> bool" where
  "revocation_invar d \<longleftrightarrow> outbox_ok (outbox d)"

definition revocation_below :: "db \<Rightarrow> db \<Rightarrow> bool" where
  "revocation_below d d' \<longleftrightarrow> grants_below (grants d) (grants d') \<and> outbox_below (outbox d) (outbox d')"

interpretation revocations:
  monotone_machine revocation_step "\<lambda>_. True" revocation_invar revocation_below
proof unfold_locales
  fix d x
  assume "revocation_invar d"
  then have ok: "outbox_ok (outbox d)" by (simp add: revocation_invar_def)
  then have r: "grants_below (grants d) (grants (revocation_step x d))"
    "outbox_evolves (outbox d) (outbox (revocation_step x d))"
    using step_revoking by (auto simp: revoking_def)
  from outbox_evolves_ok [OF r(2) ok] r(1)
  show "revocation_invar (revocation_step x d)" "revocation_below d (revocation_step x d)"
    by (simp_all add: revocation_invar_def revocation_below_def)
next
  show "revocation_below d d" for d
    by (simp add: revocation_below_def grants_below_refl outbox_below_refl)
next
  show "revocation_below d e \<Longrightarrow> revocation_below e f \<Longrightarrow> revocation_below d f" for d e f
    by (auto simp: revocation_below_def intro: grants_below_trans outbox_below_trans)
qed

text \<open>Claims of one event: each raises its attempts, of which there are twenty.\<close>

definition attempts_left :: "nat \<Rightarrow> db \<Rightarrow> nat" where
  "attempts_left i d =
     (case lookup_by ob_id i (outbox d) of None \<Rightarrow> 20 | Some r \<Rightarrow> 20 - ob_attempts r)"

fun claims_event :: "nat \<Rightarrow> revocation_op \<Rightarrow> db \<Rightarrow> bool" where
  "claims_event i (OpClaim limit now) d =
     (case fst (claim limit now d) of
        Inl e \<Rightarrow> False | Inr claimed \<Rightarrow> i \<in> set (map ob_id claimed))"
| "claims_event i _ d = False"

lemma below_attempts:
  assumes "outbox_below t u" and "has_pk ob_id u"
  shows "(case lookup_by ob_id i u of None \<Rightarrow> 20 | Some r \<Rightarrow> 20 - ob_attempts r)
     \<le> (case lookup_by ob_id i t of None \<Rightarrow> 20 | Some r \<Rightarrow> 20 - ob_attempts r)"
proof (cases "lookup_by ob_id i t")
  case (Some r)
  then have "r \<in> set t" "ob_id r = i" by (auto dest: lookup_byD)
  with assms(1) obtain q where q: "q \<in> set u" "event_identity q = event_identity r"
    "ob_attempts r \<le> ob_attempts q" unfolding outbox_below_def by blast
  then have "ob_id q = i" using \<open>ob_id r = i\<close> by (simp add: event_identity_def)
  with q(1) assms(2) have "lookup_by ob_id i u = Some q" by (auto dest: lookup_by_in)
  with Some q(3) show ?thesis by simp
qed (simp split: option.split)

lemma claim_costs:
  assumes "outbox_ok (outbox d)" and "claims_event i (OpClaim limit now) d"
  shows "attempts_left i (revocation_step (OpClaim limit now) d) < attempts_left i d"
proof -
  have pk: "has_pk ob_id (outbox d)" using assms(1) by (simp add: outbox_ok_def)
  have "i \<in> chosen limit now d"
    using assms(2) by (auto simp: claim_def with_role_defs transaction_def Let_def)
  moreover from this obtain r where r: "r \<in> set (outbox d)" "ob_id r = i"
    by (auto simp: claim_candidates_def dest!: in_set_takeD)
  ultimately have "claimable now r" using claim_chosen [OF pk] by blast
  then have "ob_attempts r < 20" by (simp add: claimable_def)
  moreover have "lookup_by ob_id i (outbox d) = Some r" using lookup_by_in [OF pk r(1)] r(2) by simp
  ultimately show ?thesis
    using \<open>i \<in> chosen limit now d\<close> r(2)
    by (simp add: attempts_left_def claim_effect lookup_by_update)
qed

interpretation claims:
  budget_machine revocation_step "\<lambda>_. True" revocation_invar "attempts_left i" "claims_event i"
  for i
proof unfold_locales
  fix d x
  assume inv: "revocation_invar d"
  have "outbox_below (outbox d) (outbox (revocation_step x d))"
    using revocations.step_below [OF inv] by (simp add: revocation_below_def)
  moreover have "has_pk ob_id (outbox (revocation_step x d))"
    using revocations.step_inv [OF inv] by (simp add: revocation_invar_def outbox_ok_def)
  ultimately show "attempts_left i (revocation_step x d) \<le> attempts_left i d"
    unfolding attempts_left_def by (rule below_attempts)
  assume "claims_event i x d"
  with inv claim_costs show "attempts_left i (revocation_step x d) < attempts_left i d"
    by (cases x) (simp_all add: revocation_invar_def del: revocation_step.simps)
qed

fun claim_count :: "nat \<Rightarrow> revocation_op list \<Rightarrow> db \<Rightarrow> nat" where
  "claim_count i [] d = 0"
| "claim_count i (x # xs) d =
     (if claims_event i x d then 1 else 0) + claim_count i xs (revocation_step x d)"

lemma claim_count_charges: "claim_count i xs d = claims.charges i xs d"
  by (induction xs arbitrary: d) simp_all

section \<open>Families\<close>

definition family_past :: "string \<Rightarrow> int \<Rightarrow> db \<Rightarrow> bool" where
  "family_past f g d \<longleftrightarrow> (\<forall>r\<in>set (families d). fam_id r = f \<longrightarrow> fam_generation r > g)"

fun creates_family :: "string \<Rightarrow> revocation_op \<Rightarrow> bool" where
  "creates_family f (OpCreateFamily input) = (fi_id input = f)"
| "creates_family f _ = False"

text \<open>Only creation and rotation touch the families; a rotation raises a generation or ends a family.\<close>

lemma family_frames:
  "revoke_refresh_grant g now reason d = Inr (b, d') \<Longrightarrow> families d' = families d"
  "revoke_grant_with_event tenant g now s d = Inr (b, d') \<Longrightarrow> families d' = families d"
  "disconnect_site_with_event tenant site now s d = Inr (b, d') \<Longrightarrow> families d' = families d"
  "revoke_signing_key kid now d = Inr (b, d') \<Longrightarrow> families d' = families d"
  by (auto simp: revoke_refresh_grant_def revoke_grant_with_event_def disconnect_site_with_event_def
      revoke_signing_key_def succ_simps)

lemma rotate_families:
  assumes "rotate_refresh_family target expected now d = Inr (r, d')"
  obtains "r = Denied" "families d' = families d"
  | f where "r = Rotated" "lookup_by fam_id target (families d) = Some f" "fam_generation f = expected"
      "families d' = sql_update (\<lambda>r. fam_id r = target)
         (\<lambda>r. r\<lparr>fam_generation := fam_generation r + 1, fam_last_used := now\<rparr>) (families d)"
  | f where "r = Replay" "lookup_by fam_id target (families d) = Some f"
      "families d' = sql_update (\<lambda>r. fam_id r = target)
         (\<lambda>r. r\<lparr>fam_status := FamRevoked, fam_revoked := Some now,
            fam_reason := Some ''refresh_replay''\<rparr>) (families d)"
  using assms unfolding rotate_refresh_family_def
  by (auto simp: succ_simps)

lemma transaction_pure: "snd (transaction s (\<lambda>s d. Inr (v, f s d)) d) = f s d"
  by (simp add: transaction_def)

lemma tx_families:
  "(\<And>b d'. op s d = Inr (b, d') \<Longrightarrow> families d' = families d) \<Longrightarrow>
     families (snd (transaction s op d)) = families d"
  by (rule transaction_keeps [of "\<lambda>e. families e = families d"]) simp_all

lemma past_rotate:
  "family_past f g d \<Longrightarrow> rotate_refresh_family t e now d = Inr (r, d') \<Longrightarrow> family_past f g d'"
  by (erule rotate_families) (auto simp: family_past_def ball_sql_update)

lemma families_untouched:
  "case x of OpCreateFamily _ \<Rightarrow> True | OpRotate _ _ _ \<Rightarrow> True
     | _ \<Rightarrow> families (revocation_step x d) = families d"
  by (cases x)
     (simp_all add: claim_effect with_role_defs tx_families family_frames markDelivered_def
        reschedule_def Let_def transaction_pure)

lemma past_step:
  assumes "family_past f g d" and "\<not> creates_family f x"
  shows "family_past f g (revocation_step x d)"
proof (cases x)
  case (OpCreateFamily input)
  with assms show ?thesis
    by (cases "createFamily input d" rule: prod.exhaust)
       (auto simp: createFamily_def tx_succ sql_insert_Inr family_past_def transaction_def
          split: if_split_asm sum.split_asm)
next
  case (OpRotate t e now)
  have "family_past f g (snd (transaction r (\<lambda>s d. if e > int4_max then Inl ''integer out of range''
      else rotate_refresh_family t e now d) d))" for r
    by (rule transaction_keeps [of "family_past f g", OF assms(1)])
       (auto dest: past_rotate [OF assms(1)] split: if_split_asm)
  with assms OpRotate show ?thesis by (simp add: rotateFamily_def with_role_defs)
qed (use assms families_untouched [of x d] in \<open>simp_all add: family_past_def del: revocation_step.simps\<close>)

interpretation family_past:
  state_machine revocation_step "\<lambda>x. \<not> creates_family f x" "family_past f g" for f g
  by unfold_locales (rule past_step)

section \<open>Properties\<close>

text \<open>An example: one tenant with an owner, an active site, a grant on it and its refresh family.\<close>

definition sample_site :: site_row where
  "sample_site = \<lparr>si_tenant = ''t1'', si_id = ''site-1'', si_resource = ''https://a.example/mcp'',
     si_hostname = ''a.example'', si_status = SiteActive, si_jwk = JNull, si_thumbprint = ''x'',
     si_created = 0, si_revoked = None\<rparr>"

definition sample_grant :: grant_row where
  "sample_grant = \<lparr>gr_tenant = ''t1'', gr_id = ''grant-1'', gr_site = ''site-1'', gr_subject = ''acc-1'',
     gr_client = ''client-1'', gr_scopes = [''mcp:read''], gr_challenge = [], gr_expires = 100,
     gr_status = GrantActive, gr_version = ''1'', gr_created = 0, gr_revoked = None, gr_reason = None\<rparr>"

definition sample_family :: family_row where
  "sample_family = \<lparr>fam_id = ''fam-1'', fam_tenant = ''t1'', fam_site = ''site-1'',
     fam_grant = ''grant-1'', fam_client = ''client-1'', fam_subject = ''acc-1'',
     fam_status = FamActive, fam_generation = 1, fam_last_used = 0, fam_absolute = 90 * day,
     fam_revoked = None, fam_reason = None\<rparr>"

definition sample_revocation_db :: db where
  "sample_revocation_db = empty_db\<lparr>
     memberships := [\<lparr>mem_tenant = ''t1'', mem_account = ''acc-1'', mem_role = Owner,
       mem_active = True, mem_created = 0\<rparr>],
     sites := [sample_site], grants := [sample_grant], families := [sample_family]\<rparr>"

definition sample_session :: session where
  "sample_session = \<lparr>se_role = RoleControl, se_tenant = Some ''t1'', se_account = Some ''acc-1''\<rparr>"

definition sample_ops :: "revocation_op list" where
  "sample_ops = [OpRotate ''fam-1'' 1 1000, OpRotate ''fam-1'' 1 2000, OpClaim 5 2000,
     OpReschedule 1 ''dns.failed'' 4 2000, OpDisconnect sample_session ''t1'' ''site-1'' 3000,
     OpClaim 5 9000, OpDelivered 1 9000]"

text \<open>
  C20. The revocation events of every site are numbered 1, 2, 3, ... without a gap, in the order they
  were emitted, whatever rotations, revocations, claims and deliveries happen in between.
\<close>

theorem outbox_sequences_contiguous:
  assumes "outbox d = []"
  shows "let t = filter (at_site tenant site) (outbox (fold revocation_step ops d)) in
     map ob_sequence t = [1..<Suc (length t)]"
proof -
  have "revocation_invar d" using assms by (simp add: revocation_invar_def outbox_ok_def numbered_def has_pk_def)
  then have "revocation_invar (fold revocation_step ops d)"
    by (rule revocations.run_inv) (simp add: list_all_iff)
  then show ?thesis by (simp add: revocation_invar_def outbox_ok_def numbered_def)
qed

theorem outbox_sequences_contiguous_witness:
  "let t = filter (at_site ''t1'' ''site-1'') (outbox (fold revocation_step sample_ops
       sample_revocation_db)) in
   map ob_sequence t = [1..<Suc (length t)] \<and> length t = 2"
proof -
  have e: "outbox sample_revocation_db = []" by code_simp
  have "length (filter (at_site ''t1'' ''site-1'')
      (outbox (fold revocation_step sample_ops sample_revocation_db))) = 2" by code_simp
  then show ?thesis
    using outbox_sequences_contiguous [OF e, of "''t1''" "''site-1''" sample_ops]
    by (simp add: Let_def)
qed

text \<open>
  C23. Revocation is final: a grant that is not live is never touched again by any of these operations,
  and no operation makes a new live grant.
\<close>

theorem revoked_grant_final:
  assumes "outbox_ok (outbox d)" and "i < length (grants d)"
  shows "(\<not> grant_live (grants d ! i) \<longrightarrow> grants (fold revocation_step ops d) ! i = grants d ! i) \<and>
     length (grants (fold revocation_step ops d)) = length (grants d) \<and>
     (grant_live (grants (fold revocation_step ops d) ! i) \<longrightarrow>
        grants (fold revocation_step ops d) ! i = grants d ! i)"
proof -
  have "revocation_below d (fold revocation_step ops d)"
    by (rule revocations.run_below) (simp_all add: revocation_invar_def assms(1) list_all_iff)
  then have a: "list_all2 grant_step (grants d) (grants (fold revocation_step ops d))"
    by (simp add: revocation_below_def grants_below_def)
  from list_all2_nthD [OF this assms(2)] list_all2_lengthD [OF this] show ?thesis
    by (auto simp: grant_step_def grant_live_def)
qed

theorem revoked_grant_final_witness:
  "grants (fold revocation_step [OpRevokeGrant sample_session ''t1'' ''grant-1'' 5000]
      (fold revocation_step sample_ops sample_revocation_db)) ! 0 =
   grants (fold revocation_step sample_ops sample_revocation_db) ! 0"
proof -
  let ?d = "fold revocation_step sample_ops sample_revocation_db"
  have "revocation_invar ?d"
    by (rule revocations.run_inv)
       (simp_all add: revocation_invar_def outbox_ok_def numbered_def has_pk_def list_all_iff
          sample_revocation_db_def empty_db_def)
  then have "outbox_ok (outbox ?d)" by (simp add: revocation_invar_def)
  moreover have "0 < length (grants ?d)" "\<not> grant_live (grants ?d ! 0)" by code_simp+
  ultimately show ?thesis using revoked_grant_final by blast
qed

text \<open>
  An event is claimed for delivery at most twenty times in any run, however often it is
  rescheduled; once delivered it is never changed or claimed again.
\<close>

theorem event_claim_budget:
  assumes "outbox_ok (outbox d)"
  shows "claim_count i ops d \<le> 20 \<and>
     (\<forall>r\<in>set (outbox d). ob_delivered r \<noteq> None \<longrightarrow>
        r \<in> set (outbox (fold revocation_step ops d)) \<and>
        \<not> claims_event (ob_id r) (OpClaim limit now) (fold revocation_step ops d))"
proof
  have inv: "revocation_invar d" using assms by (simp add: revocation_invar_def)
  have "claim_count i ops d \<le> attempts_left i d"
    unfolding claim_count_charges using claims.charges_le_budget [OF inv, of ops i] by (simp add: list_all_iff)
  also have "\<dots> \<le> 20" by (simp add: attempts_left_def split: option.split)
  finally show "claim_count i ops d \<le> 20" .
  let ?e = "fold revocation_step ops d"
  have below: "outbox_below (outbox d) (outbox ?e)"
    using revocations.run_below [OF inv] by (simp add: revocation_below_def list_all_iff)
  have ok: "has_pk ob_id (outbox ?e)"
    using revocations.run_inv [OF inv, of ops] by (simp add: revocation_invar_def outbox_ok_def list_all_iff)
  show "\<forall>r\<in>set (outbox d). ob_delivered r \<noteq> None \<longrightarrow>
      r \<in> set (outbox ?e) \<and> \<not> claims_event (ob_id r) (OpClaim limit now) ?e"
  proof (intro ballI impI)
    fix r assume "r \<in> set (outbox d)" "ob_delivered r \<noteq> None"
    then have r: "r \<in> set (outbox ?e)" using below by (fastforce simp: outbox_below_def)
    have "ob_id r \<notin> chosen limit now ?e"
      using claim_chosen [OF ok r] \<open>ob_delivered r \<noteq> None\<close> by (auto simp: claimable_def)
    with r show "r \<in> set (outbox ?e) \<and> \<not> claims_event (ob_id r) (OpClaim limit now) ?e"
      by (auto simp: claim_def with_role_defs transaction_def Let_def)
  qed
qed

theorem event_claim_budget_witness:
  "claim_count 1 sample_ops sample_revocation_db \<le> 20 \<and>
   claim_count 1 sample_ops sample_revocation_db = 2"
proof -
  have "outbox_ok (outbox sample_revocation_db)"
    by (simp add: outbox_ok_def numbered_def has_pk_def sample_revocation_db_def empty_db_def)
  moreover have "claim_count 1 sample_ops sample_revocation_db = 2" by code_simp
  ultimately show ?thesis using event_claim_budget by blast
qed

text \<open>
  C8. A refresh generation is rotated at most once: after a successful rotation of generation g, and
  any operations that do not create the family anew, rotating g again never succeeds.
\<close>

theorem refresh_generation_single_use:
  assumes "rotateFamily f g now d = (Inr Rotated, d')" and "has_pk fam_id (families d)"
    and "list_all (\<lambda>x. \<not> creates_family f x) ops"
  shows "fst (rotateFamily f g later (fold revocation_step ops d')) \<noteq> Inr Rotated"
proof -
  have "rotate_refresh_family f g now d = Inr (Rotated, d')"
    using assms(1) by (auto simp: rotateFamily_def tx_succ)
  then have "family_past f g d'"
  proof (rule rotate_families)
    fix r assume r: "lookup_by fam_id f (families d) = Some r" "fam_generation r = g"
      "families d' = sql_update (\<lambda>r. fam_id r = f)
         (\<lambda>r. r\<lparr>fam_generation := fam_generation r + 1, fam_last_used := now\<rparr>) (families d)"
    have "q \<in> set (families d) \<Longrightarrow> fam_id q = f \<Longrightarrow> q = r" for q
      using r(1) assms(2) by (auto intro: lookup_by_eq)
    with r show ?thesis by (auto simp: family_past_def ball_sql_update)
  qed simp_all
  then have past: "family_past f g (fold revocation_step ops d')"
    using assms(3) by (rule family_past.run_inv)
  have "rotate_refresh_family f g later e \<noteq> Inr (Rotated, e')" if "family_past f g e" for e e'
    using that by (auto simp: rotate_refresh_family_def succ_simps family_past_def dest: lookup_byD)
  with past show ?thesis
    by (auto simp: rotateFamily_def with_role_defs transaction_def split: sum.splits)
qed

theorem refresh_generation_single_use_witness:
  "fst (rotateFamily ''fam-1'' 1 4000 (fold revocation_step [OpClaim 5 2000]
      (snd (rotateFamily ''fam-1'' 1 1000 sample_revocation_db)))) \<noteq> Inr Rotated"
proof (rule refresh_generation_single_use)
  show "rotateFamily ''fam-1'' 1 1000 sample_revocation_db =
     (Inr Rotated, snd (rotateFamily ''fam-1'' 1 1000 sample_revocation_db))" by code_simp
qed code_simp+

text \<open>
  C19. Replaying an earlier generation of a family still in use is answered with \<open>replay\<close> and, in the
  same transaction, revokes the family and its grant and emits the event for the site, with the
  next sequence number.
\<close>

theorem refresh_replay_revokes:
  assumes "lookup_by fam_id f (families d) = Some r" and "fam_status r = FamActive"
    and "now < fam_last_used r + 30 * day" and "now < fam_absolute r"
    and "0 \<le> g" and "g < fam_generation r" and "fam_generation r \<le> int4_max"
    and "site_at (fam_tenant r) (fam_site r) (sites d) = Some s" and "outbox_ok (outbox d)"
  shows "\<exists>d' e. rotateFamily f g now d = (Inr Replay, d') \<and>
     (\<forall>q\<in>set (families d'). fam_id q = f \<longrightarrow> fam_status q = FamRevoked) \<and>
     (\<forall>q\<in>set (grants d'). gr_tenant q = fam_tenant r \<and> gr_id q = fam_grant r \<longrightarrow> \<not> grant_live q) \<and>
     outbox d' = outbox d @ [e] \<and> ob_type e = EvGrant \<and> ob_grant e = Some (fam_grant r) \<and>
     ob_resource e = si_resource s \<and> ob_reason e = ''refresh_replay'' \<and>
     ob_sequence e = Suc (length (filter (at_site (fam_tenant r) (fam_site r)) (outbox d)))"
proof -
  have num: "numbered (outbox d)" using assms(9) by (simp add: outbox_ok_def)
  let ?e = "event_row_of (fam_tenant r) (fam_site r) (si_resource s) EvGrant (Some (fam_grant r))
      None ''refresh_replay'' now (outbox d)"
  let ?d = "d\<lparr>families := sql_update (\<lambda>r. fam_id r = f)
        (\<lambda>r. r\<lparr>fam_status := FamRevoked, fam_revoked := Some now,
              fam_reason := Some ''refresh_replay''\<rparr>) (families d),
      grants := sql_update (\<lambda>g. gr_tenant g = fam_tenant r \<and> gr_id g = fam_grant r \<and> grant_live g)
        (revoke_grant_row ''refresh_replay'' now) (grants d),
      outbox := outbox d @ [?e]\<rparr>"
  have "rotateFamily f g now d = (Inr Replay, ?d)"
    using assms(1-8) by (simp add: rotateFamily_def with_role_defs transaction_def
        rotate_refresh_family_def emit_total [OF num] int4_max_def)
  then show ?thesis
    by (intro exI [of _ ?d] exI [of _ ?e] conjI)
       (simp_all add: ball_sql_update grant_live_def numbered_next [OF num] event_row_of_def)
qed

theorem refresh_replay_revokes_witness:
  "\<exists>d'. rotateFamily ''fam-1'' 0 1000 sample_revocation_db = (Inr Replay, d') \<and>
     (\<forall>q\<in>set (grants d'). gr_tenant q = ''t1'' \<and> gr_id q = ''grant-1'' \<longrightarrow> \<not> grant_live q)"
proof -
  have ok: "outbox_ok (outbox sample_revocation_db)"
    by (simp add: outbox_ok_def numbered_def has_pk_def sample_revocation_db_def empty_db_def)
  have l: "lookup_by fam_id ''fam-1'' (families sample_revocation_db) = Some sample_family"
    "site_at (fam_tenant sample_family) (fam_site sample_family) (sites sample_revocation_db) =
       Some sample_site" by code_simp+
  show ?thesis
    using refresh_replay_revokes [OF l(1) _ _ _ _ _ _ l(2) ok, of 1000 0]
    by (fastforce simp: sample_family_def day_def int4_max_def)
qed

text \<open>
  Disconnecting a site succeeds only for an owner or administrator of the tenant the session is
  in; afterwards the site and every grant on it are dead and its event is in the outbox.
\<close>

theorem disconnect_site_effect:
  assumes "disconnect_site_with_event tenant site now s d = Inr (True, d')" and "sites_ok (sites d)"
  shows "se_tenant s = Some tenant \<and> has_tenant_role d tenant (se_account s) [Owner, Administrator] \<and>
     (\<forall>r\<in>set (sites d'). si_tenant r = tenant \<and> si_id r = site \<longrightarrow> si_status r = SiteRevoked) \<and>
     (\<forall>g\<in>set (grants d'). gr_tenant g = tenant \<and> gr_site g = site \<longrightarrow> \<not> grant_live g) \<and>
     (\<exists>e\<in>set (outbox d'). at_site tenant site e \<and> ob_type e = EvSite \<and> e \<notin> set (outbox d))"
proof -
  let ?P = "\<lambda>r. si_tenant r = tenant \<and> si_id r = site \<and> site_live r"
  from assms(1) obtain q t where q: "first_row (filter ?P (sites d)) = Some q"
    and who: "se_tenant s = Some tenant" "has_tenant_role d tenant (se_account s) manager_roles"
    and t: "emit_event tenant site (si_resource q) EvSite None None ''site_disconnected'' now
       (outbox d) = Inr t"
    and d': "d' = d\<lparr>
       sites := sql_update ?P (\<lambda>r. r\<lparr>si_status := SiteRevoked,
           si_revoked := coalesce (si_revoked r) now\<rparr>) (sites d),
       grants := sql_update (\<lambda>g. gr_tenant g = tenant \<and> gr_site g = site \<and> grant_live g)
           (revoke_grant_row ''site_disconnected'' now) (grants d), outbox := t\<rparr>"
    unfolding disconnect_site_with_event_def by (auto simp: succ_simps)
  have q': "q \<in> set (sites d)" "?P q" using first_row_filterD [OF q] by blast+
  have "site_live r" if "r \<in> set (sites d)" "si_tenant r = tenant" "si_id r = site" for r
  proof -
    have "r = q" using assms(2) that q'
      by (intro pk_inject [of site_key "sites d"]) (auto simp: sites_ok_def site_key_def)
    with q' show ?thesis by simp
  qed
  then have "\<forall>r\<in>set (sites d'). si_tenant r = tenant \<and> si_id r = site \<longrightarrow> si_status r = SiteRevoked"
    by (auto simp: d' ball_sql_update)
  moreover have "\<forall>g\<in>set (grants d'). gr_tenant g = tenant \<and> gr_site g = site \<longrightarrow> \<not> grant_live g"
    by (simp add: d' ball_sql_update grant_live_def)
  moreover from t have "\<exists>e\<in>set t. at_site tenant site e \<and> ob_type e = EvSite \<and> e \<notin> set (outbox d)"
    by (auto simp: emit_event_def sql_insert_def event_row_of_def at_site_def split: if_split_asm)
  ultimately show ?thesis using who by (simp add: d')
qed

theorem disconnect_site_effect_witness:
  "case disconnect_site_with_event ''t1'' ''site-1'' 50 sample_session sample_revocation_db of
     Inl e \<Rightarrow> False
   | Inr (b, d') \<Rightarrow> (\<forall>g\<in>set (grants d'). gr_tenant g = ''t1'' \<and> gr_site g = ''site-1'' \<longrightarrow> \<not> grant_live g)"
proof -
  let ?r = "disconnect_site_with_event ''t1'' ''site-1'' 50 sample_session sample_revocation_db"
  have e: "?r = Inr (True, snd (projr ?r))" by code_simp
  have ok: "sites_ok (sites sample_revocation_db)" by code_simp
  show ?thesis
    by (subst e) (use disconnect_site_effect [OF e ok] in simp)
qed

end
