(* ===== verification/Artifacts.thy ===== *)
theory Artifacts
  imports Revocation
begin

text \<open>
  What the OpenID provider stores: \<open>SecretArtifactCodec\<close>, the keyed one-way lookup of bearer
  artifacts, and \<open>PostgresOidcAdapter\<close> over \<open>oauth.provider_artifacts\<close> and
  \<open>oauth.secret_artifacts\<close>.
\<close>

section \<open>Payloads\<close>

text \<open>Assigning a property: in place when the object has the key, at the end otherwise.\<close>

fun obj_set :: "string \<Rightarrow> json \<Rightarrow> json_object \<Rightarrow> json_object" where
  "obj_set k v [] = [(k, v)]"
| "obj_set k v ((k', v') # obj) = (if k' = k then (k, v) # obj else (k', v') # obj_set k v obj)"

definition obj_delete :: "string \<Rightarrow> json_object \<Rightarrow> json_object" where
  "obj_delete k obj = filter (\<lambda>(k', v). k' \<noteq> k) obj"

lemma map_of_obj_set [simp]: "map_of (obj_set k v obj) = (map_of obj)(k \<mapsto> v)"
  by (induction obj) auto

lemma map_of_obj_delete [simp]: "map_of (obj_delete k obj) = (map_of obj)(k := None)"
  unfolding obj_delete_def by (induction obj) auto

text \<open>\<open>payload['tenantId'] ?? payload['tenant_id']\<close>, when it is a non-empty string.\<close>

definition payloadTenantId :: "json_object \<Rightarrow> string option" where
  "payloadTenantId payload =
     (let nullish = (\<lambda>v. v = None \<or> v = Some JNull);
          tenantId = (if nullish (map_of payload ''tenantId'') then map_of payload ''tenant_id''
                      else map_of payload ''tenantId'')
      in case tenantId of Some (JStr s) \<Rightarrow> if length s > 0 then Some s else None | _ \<Rightarrow> None)"

section \<open>The lookup codec\<close>

text \<open>A codec is its keys with their versions, the newest first.\<close>

type_synonym artifact_codec = "(nat \<times> bytes) list"

definition SecretArtifactCodec :: "bytes list \<Rightarrow> artifact_codec result" where
  "SecretArtifactCodec keys =
     (if length keys < 1 \<or> length keys > 2 \<or> list_ex (\<lambda>k. length k < 32) keys
      then Inl ''oauth_artifact_key_rotation_set_required''
      else Inr (map (\<lambda>(i, k). (length keys - i, k)) (enumerate 0 keys)))"

definition codec_current :: "runtime \<Rightarrow> artifact_codec \<Rightarrow> string \<Rightarrow> (nat \<times> bytes) result" where
  "codec_current rt codec value =
     (case codec of
        [] \<Rightarrow> Inl ''invalid_oauth_artifact''
      | (version, key) # _ \<Rightarrow>
          if length value < 8 \<or> length value > 4096 then Inl ''invalid_oauth_artifact''
          else Inr (version, hmac_sha256 rt key value))"

definition codec_candidates :: "runtime \<Rightarrow> artifact_codec \<Rightarrow> string \<Rightarrow> (nat \<times> bytes) list" where
  "codec_candidates rt codec value =
     (if length value < 8 \<or> length value > 4096 then []
      else map (\<lambda>(version, key). (version, hmac_sha256 rt key value)) codec)"

definition codec_matches :: "runtime \<Rightarrow> artifact_codec \<Rightarrow> string \<Rightarrow> nat \<times> bytes \<Rightarrow> bool" where
  "codec_matches rt codec value lookup \<longleftrightarrow>
     list_ex (\<lambda>c. fst c = fst lookup \<and> length (snd c) = length (snd lookup) \<and> snd c = snd lookup)
       (codec_candidates rt codec value)"

definition decodeArtifactKey :: "(string \<Rightarrow> bytes) \<Rightarrow> string \<Rightarrow> bytes result" where
  "decodeArtifactKey decode64 value =
     (if \<not> rx id_class 43 128 value then Inl ''invalid_oauth_artifact_key''
      else let decoded = decode64 value in
        if length decoded < 32 then Inl ''invalid_oauth_artifact_key'' else Inr decoded)"

text \<open>
  \<open>secretArtifactCodecFromEnvironment\<close>: \<open>parse_json\<close> stands for \<open>JSON.parse\<close>, \<open>decode64\<close> for
  \<open>Buffer.from(_, 'base64url')\<close>.
\<close>

fun decode_keys :: "(string \<Rightarrow> bytes) \<Rightarrow> json list \<Rightarrow> bytes list result" where
  "decode_keys decode64 [] = Inr []"
| "decode_keys decode64 (j # js) =
     (case j of
        JStr s \<Rightarrow> and_then (decodeArtifactKey decode64 s) (\<lambda>k.
          and_then (decode_keys decode64 js) (\<lambda>ks. Inr (k # ks)))
      | _ \<Rightarrow> Inl ''invalid_oauth_artifact_key_rotation_set'')"

fun is_jstr :: "json \<Rightarrow> bool" where
  "is_jstr (JStr s) = True"
| "is_jstr _ = False"

definition secretArtifactCodecFromEnvironment ::
  "(string \<Rightarrow> json result) \<Rightarrow> (string \<Rightarrow> bytes) \<Rightarrow> (string \<Rightarrow> string option) \<Rightarrow> artifact_codec result" where
  "secretArtifactCodecFromEnvironment parse_json decode64 environment =
     and_then (parse_json (case environment ''WEPUU_OAUTH_ARTIFACT_KEYS_JSON'' of
         None \<Rightarrow> ''[]'' | Some v \<Rightarrow> v)) (\<lambda>parsed.
       case parsed of
         JArr xs \<Rightarrow> if \<not> list_all is_jstr xs then Inl ''invalid_oauth_artifact_key_rotation_set''
                    else and_then (decode_keys decode64 xs) SecretArtifactCodec
       | _ \<Rightarrow> Inl ''invalid_oauth_artifact_key_rotation_set'')"

definition rateLimitSubjectCodecFromEnvironment ::
  "(string \<Rightarrow> bytes) \<Rightarrow> (string \<Rightarrow> string option) \<Rightarrow> bytes result" where
  "rateLimitSubjectCodecFromEnvironment decode64 environment =
     and_then (decodeArtifactKey decode64 (case environment ''WEPUU_RATE_LIMIT_HMAC_KEY'' of
         None \<Rightarrow> [] | Some v \<Rightarrow> v)) RateLimitSubjectCodec"

definition secretArtifactModels :: "string list" where
  "secretArtifactModels =
     [''AccessToken'', ''AuthorizationCode'', ''BackchannelAuthenticationRequest'', ''DeviceCode'',
      ''InitialAccessToken'', ''PushedAuthorizationRequest'', ''RefreshToken'',
      ''RegistrationAccessToken'']"

definition is_secret :: "string \<Rightarrow> bool" where
  "is_secret model \<longleftrightarrow> model \<in> set secretArtifactModels"

section \<open>The adapter\<close>

text \<open>An adapter: its model, its codec, the key of its rate-limit codec if it has one.\<close>

record adapter =
  ad_model :: string
  ad_codec :: artifact_codec
  ad_rate :: "bytes option"

definition provider_key :: "artifact_row \<Rightarrow> string \<times> string" where
  "provider_key r = (pv_model r, pv_id r)"

definition secret_key :: "secret_row \<Rightarrow> string \<times> nat \<times> bytes" where
  "secret_key r = (sa_model r, sa_version r, sa_hash r)"

definition unexpired :: "time \<Rightarrow> time option \<Rightarrow> bool" where
  "unexpired now e \<longleftrightarrow> (case e of None \<Rightarrow> True | Some t \<Rightarrow> t > now)"

text \<open>\<open>INSERT ... ON CONFLICT (key) DO UPDATE\<close> of every other column.\<close>

definition sql_upsert :: "('r \<Rightarrow> 'k) \<Rightarrow> 'r \<Rightarrow> 'r list \<Rightarrow> 'r list" where
  "sql_upsert key r t =
     (if key r \<in> set (map key t) then sql_update (\<lambda>q. key q = key r) (\<lambda>_. r) t else t @ [r])"

definition upsertArtifact ::
  "runtime \<Rightarrow> adapter \<Rightarrow> string \<Rightarrow> json_object \<Rightarrow> int option \<Rightarrow> time \<Rightarrow> db \<Rightarrow> unit outcome" where
  "upsertArtifact rt ad i payload expiresIn now d =
     (let tenantId = payloadTenantId payload;
          expiresAt = map_option (\<lambda>s. now + s * 1000) expiresIn in
      if \<not> is_secret (ad_model ad) then
        withAuthorizationService (\<lambda>s d. Inr ((), d\<lparr>artifacts := sql_upsert provider_key
          \<lparr>pv_model = ad_model ad, pv_id = i, pv_tenant = tenantId, pv_payload = payload,
           pv_expires = expiresAt\<rparr> (artifacts d)\<rparr>)) d
      else case codec_current rt (ad_codec ad) i of
        Inl e \<Rightarrow> (Inl e, d)
      | Inr lookup \<Rightarrow>
          withAuthorizationService (\<lambda>s d. Inr ((), d\<lparr>secrets := sql_upsert secret_key
            \<lparr>sa_model = ad_model ad, sa_version = fst lookup, sa_hash = snd lookup,
             sa_tenant = tenantId, sa_payload = obj_delete ''jti'' payload,
             sa_expires = expiresAt, sa_consumed = None\<rparr> (secrets d)\<rparr>)) d)"

definition found_secret :: "string \<Rightarrow> secret_row \<Rightarrow> json_object" where
  "found_secret i row =
     (let withJti = obj_set ''jti'' (JStr i) (sa_payload row) in
      case sa_consumed row of
        None \<Rightarrow> withJti | Some t \<Rightarrow> obj_set ''consumed'' (JInt (t div 1000)) withJti)"

fun find_secret ::
  "string \<Rightarrow> string \<Rightarrow> time \<Rightarrow> (nat \<times> bytes) list \<Rightarrow> secret_row list \<Rightarrow> json_object option" where
  "find_secret model i now [] t = None"
| "find_secret model i now (c # cs) t =
     (case first_row (filter (\<lambda>r. secret_key r = (model, fst c, snd c) \<and>
             unexpired now (sa_expires r)) t) of
        Some row \<Rightarrow> Some (found_secret i row)
      | None \<Rightarrow> find_secret model i now cs t)"

definition findArtifact ::
  "runtime \<Rightarrow> adapter \<Rightarrow> string \<Rightarrow> time \<Rightarrow> db \<Rightarrow> json_object option outcome" where
  "findArtifact rt ad i now d =
     (if \<not> is_secret (ad_model ad) then
        withAuthorizationService (\<lambda>s d. Inr (map_option pv_payload (first_row
          (filter (\<lambda>r. provider_key r = (ad_model ad, i) \<and> unexpired now (pv_expires r))
            (artifacts d))), d)) d
      else withAuthorizationService (\<lambda>s d. Inr (find_secret (ad_model ad) i now
        (codec_candidates rt (ad_codec ad) i) (secrets d), d)) d)"

definition destroyArtifact :: "runtime \<Rightarrow> adapter \<Rightarrow> string \<Rightarrow> db \<Rightarrow> unit outcome" where
  "destroyArtifact rt ad i d =
     (if \<not> is_secret (ad_model ad) then
        withAuthorizationService (\<lambda>s d. Inr ((), d\<lparr>artifacts :=
          sql_delete (\<lambda>r. provider_key r = (ad_model ad, i)) (artifacts d)\<rparr>)) d
      else withAuthorizationService (\<lambda>s d. Inr ((), d\<lparr>secrets :=
        fold (\<lambda>c. sql_delete (\<lambda>r. secret_key r = (ad_model ad, fst c, snd c)))
          (codec_candidates rt (ad_codec ad) i) (secrets d)\<rparr>)) d)"

datatype consume_result = Consumed | Missing | RateLimited | Replayed

definition consumable :: "string \<Rightarrow> nat \<times> bytes \<Rightarrow> time \<Rightarrow> secret_row \<Rightarrow> bool" where
  "consumable model c now r \<longleftrightarrow> secret_key r = (model, fst c, snd c) \<and> sa_consumed r = None \<and>
     unexpired now (sa_expires r)"

definition refresh_policy :: string where
  "refresh_policy = ''oauth.refresh_family''"

text \<open>The budget a refresh token's grant has: ten rotations a minute.\<close>

definition refresh_allowed ::
  "runtime \<Rightarrow> bytes option \<Rightarrow> secret_row \<Rightarrow> time \<Rightarrow> db \<Rightarrow> (bool \<times> db) result" where
  "refresh_allowed rt rate row now d =
     (case (map_of (sa_payload row) ''grantId'', rate) of
        (Some (JStr grantId), Some key) \<Rightarrow>
          and_then (rate_limit_digest rt key refresh_policy grantId) (\<lambda>digest.
            let (allowed, rows) = consume_rate_limit refresh_policy digest 10 60 now (buckets d)
            in Inr (allowed, d\<lparr>buckets := rows\<rparr>))
      | _ \<Rightarrow> Inr (False, d))"

fun consume_loop ::
  "runtime \<Rightarrow> adapter \<Rightarrow> time \<Rightarrow> (nat \<times> bytes) list \<Rightarrow> db \<Rightarrow> (consume_result option \<times> db) result" where
  "consume_loop rt ad now [] d = Inr (None, d)"
| "consume_loop rt ad now (c # cs) d =
     (let P = consumable (ad_model ad) c now;
          update = (\<lambda>d. let rows = sql_update P (\<lambda>r. r\<lparr>sa_consumed := Some now\<rparr>) (secrets d) in
            if row_count P (secrets d) = 1 then Inr (Some Consumed, d\<lparr>secrets := rows\<rparr>)
            else consume_loop rt ad now cs (d\<lparr>secrets := rows\<rparr>))
      in if ad_model ad = ''RefreshToken'' then
           (if row_count P (secrets d) \<noteq> 1 then consume_loop rt ad now cs d
            else case first_row (filter P (secrets d)) of
              None \<Rightarrow> consume_loop rt ad now cs d
            | Some row \<Rightarrow> and_then (refresh_allowed rt (ad_rate ad) row now d) (\<lambda>(allowed, d1).
                if \<not> allowed then Inr (Some RateLimited, d1) else update d1))
         else update d)"

fun replay_loop ::
  "string \<Rightarrow> time \<Rightarrow> (nat \<times> bytes) list \<Rightarrow> db \<Rightarrow> (consume_result \<times> db) result" where
  "replay_loop model now [] d = Inr (Missing, d)"
| "replay_loop model now (c # cs) d =
     (case Option.bind (first_row (filter (\<lambda>r. secret_key r = (model, fst c, snd c) \<and>
             sa_consumed r \<noteq> None) (secrets d)))
           (\<lambda>r. payload_text ''grantId'' (sa_payload r)) of
        Some grantId \<Rightarrow> and_then (revoke_refresh_grant grantId now ''refresh_replay'' d)
          (\<lambda>(_, d1). Inr (Replayed, d1))
      | None \<Rightarrow> replay_loop model now cs d)"

fun consume_outcome :: "consume_result \<Rightarrow> unit result" where
  "consume_outcome RateLimited = Inl ''refresh_family_rate_limited''"
| "consume_outcome Replayed = Inl ''invalid_grant''"
| "consume_outcome Consumed = Inr ()"
| "consume_outcome Missing = Inl ''oauth_artifact_already_consumed''"

lemma consume_outcome_Inr: "consume_outcome r = Inr u \<longleftrightarrow> r = Consumed"
  by (cases r) simp_all

text \<open>
  \<open>consume\<close>.  The transaction of a secret artifact commits also when it answers that the artifact
  is replayed or rate limited; the exception is thrown after it.
\<close>

definition consumeArtifact :: "runtime \<Rightarrow> adapter \<Rightarrow> string \<Rightarrow> time \<Rightarrow> db \<Rightarrow> unit outcome" where
  "consumeArtifact rt ad i now d =
     (if \<not> is_secret (ad_model ad) then
        let P = (\<lambda>r. provider_key r = (ad_model ad, i) \<and> map_of (pv_payload r) ''consumed'' = None)
        in (case withAuthorizationService (\<lambda>s d. Inr (row_count P (artifacts d) = 1,
               d\<lparr>artifacts := sql_update P (\<lambda>r. r\<lparr>pv_payload :=
                  obj_set ''consumed'' (JInt (now div 1000)) (pv_payload r)\<rparr>) (artifacts d)\<rparr>)) d of
              (Inl e, d') \<Rightarrow> (Inl e, d')
            | (Inr updated, d') \<Rightarrow>
                if \<not> updated then (Inl ''oauth_artifact_already_consumed'', d') else (Inr (), d'))
      else
        let candidates = codec_candidates rt (ad_codec ad) i in
        case withAuthorizationService (\<lambda>s d.
            and_then (consume_loop rt ad now candidates d) (\<lambda>(result, d1).
              case result of
                Some r \<Rightarrow> Inr (r, d1)
              | None \<Rightarrow> if ad_model ad = ''RefreshToken''
                        then replay_loop (ad_model ad) now candidates d1
                        else Inr (Missing, d1))) d of
          (Inl e, d') \<Rightarrow> (Inl e, d')
        | (Inr result, d') \<Rightarrow> (consume_outcome result, d'))"

definition findSecondary ::
  "adapter \<Rightarrow> string \<Rightarrow> string \<Rightarrow> time \<Rightarrow> db \<Rightarrow> json_object option outcome" where
  "findSecondary ad field value now d =
     (if is_secret (ad_model ad) then (Inr None, d)
      else withAuthorizationService (\<lambda>s d. Inr (map_option pv_payload (first_row
        (filter (\<lambda>r. pv_model r = ad_model ad \<and> payload_text field (pv_payload r) = Some value \<and>
                     unexpired now (pv_expires r)) (artifacts d))), d)) d)"

definition findByUid :: "adapter \<Rightarrow> string \<Rightarrow> time \<Rightarrow> db \<Rightarrow> json_object option outcome" where
  "findByUid ad uid = findSecondary ad ''uid'' uid"

definition findByUserCode :: "adapter \<Rightarrow> string \<Rightarrow> time \<Rightarrow> db \<Rightarrow> json_object option outcome" where
  "findByUserCode ad userCode = findSecondary ad ''userCode'' userCode"

definition revokeByGrantId :: "adapter \<Rightarrow> string \<Rightarrow> string \<Rightarrow> time \<Rightarrow> db \<Rightarrow> unit outcome" where
  "revokeByGrantId ad reason grantId now d =
     withAuthorizationService (\<lambda>s d.
       and_then (if ad_model ad = ''RefreshToken'' then revoke_refresh_grant grantId now reason d
                 else Inr (False, d))
         (\<lambda>(_, d1). Inr ((), d1\<lparr>
            secrets := sql_delete (\<lambda>r. payload_text ''grantId'' (sa_payload r) = Some grantId)
              (secrets d1),
            artifacts := sql_delete (\<lambda>r. payload_text ''grantId'' (pv_payload r) = Some grantId)
              (artifacts d1)\<rparr>))) d"

section \<open>Lemmas\<close>

lemma upsert_filter:
  assumes "has_pk key t"
  shows "filter (\<lambda>q. key q = key r) (sql_upsert key r t) = [r]"
proof (cases "key r \<in> key ` set t")
  case True
  from assms True have "filter (\<lambda>q. key q = key r) (sql_update (\<lambda>q. key q = key r) (\<lambda>_. r) t) = [r]"
  proof (induction t)
    case (Cons q t)
    show ?case
    proof (cases "key q = key r")
      case True
      with Cons.prems have "\<forall>p\<in>set t. key p \<noteq> key r"
        by (simp add: has_pk_def) (metis image_eqI)
      with True show ?thesis by (simp add: sql_update_none filter_empty_conv)
    next
      case False
      with Cons show ?thesis by (auto simp: has_pk_def)
    qed
  qed simp
  with True show ?thesis by (simp add: sql_upsert_def)
next
  case False
  then have "filter (\<lambda>q. key q = key r) t = []"
    by (simp add: filter_empty_conv) (metis image_eqI)
  with False show ?thesis by (simp add: sql_upsert_def)
qed

lemma upsert_other:
  "k \<noteq> key r \<Longrightarrow> filter (\<lambda>q. key q = k \<and> Q q) (sql_upsert key r t) = filter (\<lambda>q. key q = k \<and> Q q) t"
proof -
  assume k: "k \<noteq> key r"
  have "filter (\<lambda>q. key q = k \<and> Q q) (sql_update (\<lambda>q. key q = key r) (\<lambda>_. r) t) =
      filter (\<lambda>q. key q = k \<and> Q q) t"
    using k by (induction t) auto
  with k show ?thesis by (simp add: sql_upsert_def)
qed

lemma upsert_found:
  assumes "has_pk key t" and "Q r"
  shows "first_row (filter (\<lambda>q. key q = key r \<and> Q q) (sql_upsert key r t)) = Some r"
proof -
  have "filter (\<lambda>q. key q = key r \<and> Q q) (sql_upsert key r t) =
      filter Q (filter (\<lambda>q. key q = key r) (sql_upsert key r t))" by (simp add: conj_commute)
  with assms show ?thesis by (simp add: upsert_filter)
qed

text \<open>The stored rows an identifier may denote: those under one of its candidate digests.\<close>

definition own_rows :: "runtime \<Rightarrow> adapter \<Rightarrow> string \<Rightarrow> secret_row list \<Rightarrow> secret_row list" where
  "own_rows rt ad i t = filter (\<lambda>r. \<exists>c\<in>set (codec_candidates rt (ad_codec ad) i).
     secret_key r = (ad_model ad, fst c, snd c)) t"

lemma loop_spent:
  assumes "\<forall>r\<in>set (secrets d). \<forall>c\<in>set cs. \<not> consumable (ad_model ad) c now r"
  shows "consume_loop rt ad now cs d = Inr (None, d)"
  using assms
proof (induction cs)
  case (Cons c cs)
  then have n: "\<forall>r\<in>set (secrets d). \<not> consumable (ad_model ad) c now r" by simp
  then have "row_count (consumable (ad_model ad) c now) (secrets d) = 0" by (simp add: row_count_eq_0)
  with Cons n show ?case
    by (cases "ad_model ad = ''RefreshToken''") (simp_all add: Let_def sql_update_none)
qed simp

text \<open>A successful loop consumed the one row of one candidate.\<close>

lemma refresh_allowed_secrets:
  "refresh_allowed rt rate row now d = Inr (b, d1) \<Longrightarrow> secrets d1 = secrets d"
  by (cases rate; cases "map_of (sa_payload row) ''grantId''"; cases "the (map_of (sa_payload row) ''grantId'')")
     (auto simp: refresh_allowed_def and_then_Inr Let_def case_eq_Inr)

lemma loop_consumed:
  "has_pk secret_key (secrets d) \<Longrightarrow> consume_loop rt ad now cs d = Inr (Some Consumed, d') \<Longrightarrow>
     \<exists>c\<in>set cs. row_count (consumable (ad_model ad) c now) (secrets d) = 1 \<and>
       secrets d' = sql_update (consumable (ad_model ad) c now) (\<lambda>r. r\<lparr>sa_consumed := Some now\<rparr>) (secrets d)"
proof (induction cs arbitrary: d)
  case (Cons c cs)
  let ?P = "consumable (ad_model ad) c now"
  show ?case
  proof (cases "row_count ?P (secrets d) = 1")
    case True
    then obtain row where row: "filter ?P (secrets d) = [row]"
      by (auto simp: row_count_def length_Suc_conv)
    have "secrets d' = sql_update ?P (\<lambda>r. r\<lparr>sa_consumed := Some now\<rparr>) (secrets d)"
    proof (cases "ad_model ad = ''RefreshToken''")
      case rt: True
      from Cons.prems(2) True row rt obtain d1 where
        "refresh_allowed rt (ad_rate ad) row now d = Inr (True, d1)"
        "Inr (Some Consumed, d') = (if row_count ?P (secrets d1) = 1
            then Inr (Some Consumed, d1\<lparr>secrets := sql_update ?P (\<lambda>r. r\<lparr>sa_consumed := Some now\<rparr>) (secrets d1)\<rparr>)
            else consume_loop rt ad now cs (d1\<lparr>secrets := sql_update ?P (\<lambda>r. r\<lparr>sa_consumed := Some now\<rparr>) (secrets d1)\<rparr>))"
        by (auto simp: Let_def and_then_Inr split: if_split_asm)
      with True show ?thesis by (auto dest!: refresh_allowed_secrets)
    qed (use Cons.prems True in \<open>auto simp: Let_def\<close>)
    with True show ?thesis by auto
  next
    case False
    have "row_count ?P (secrets d) \<le> 1"
      by (rule row_count_pk [OF Cons.prems(1), of _ "(ad_model ad, fst c, snd c)"])
         (simp add: consumable_def)
    with False have "row_count ?P (secrets d) = 0" by linarith
    then have "\<forall>r\<in>set (secrets d). \<not> ?P r" by (simp add: row_count_eq_0)
    then have "consume_loop rt ad now cs d = Inr (Some Consumed, d')"
      using Cons.prems(2) False by (cases "ad_model ad = ''RefreshToken''")
        (simp_all add: Let_def sql_update_none)
    with Cons.IH [OF Cons.prems(1)] show ?thesis by auto
  qed
qed simp

lemma consume_secret:
  assumes "is_secret (ad_model ad)" and "consumeArtifact rt ad i now d = (Inr (), d')"
    and "has_pk secret_key (secrets d)" and "own_rows rt ad i (secrets d) = [r]"
  shows "sa_consumed r = None \<and> own_rows rt ad i (secrets d') = [r\<lparr>sa_consumed := Some now\<rparr>]"
proof -
  let ?cs = "codec_candidates rt (ad_codec ad) i"
  have replay: "replay_loop m now cs e \<noteq> Inr (Consumed, e')" for m cs e e'
    by (induction cs) (auto simp: and_then_Inr split: option.split)
  from assms(1,2) have "consume_loop rt ad now ?cs d = Inr (Some Consumed, d')"
    by (auto simp: consumeArtifact_def tx_succ consume_outcome_Inr replay)
  from loop_consumed [OF assms(3) this] obtain c where c: "c \<in> set ?cs"
    "row_count (consumable (ad_model ad) c now) (secrets d) = 1"
    "secrets d' = sql_update (consumable (ad_model ad) c now) (\<lambda>r. r\<lparr>sa_consumed := Some now\<rparr>)
       (secrets d)" by blast
  from row_count_pos [OF c(2)] obtain q where q: "q \<in> set (secrets d)"
    "consumable (ad_model ad) c now q" by blast
  with c(1) have "q \<in> set (own_rows rt ad i (secrets d))"
    by (auto simp: own_rows_def consumable_def)
  with assms(4) have "q = r" by simp
  have "own_rows rt ad i (secrets d') =
      sql_update (consumable (ad_model ad) c now) (\<lambda>r. r\<lparr>sa_consumed := Some now\<rparr>)
        (own_rows rt ad i (secrets d))"
    unfolding own_rows_def c(3) by (rule filter_sql_update) (simp add: secret_key_def)
  with assms(4) q(2) \<open>q = r\<close> show ?thesis by (simp add: consumable_def)
qed

lemma spent_consume_fails:
  assumes "is_secret (ad_model ad)" and "\<forall>r\<in>set (own_rows rt ad i (secrets d)). sa_consumed r \<noteq> None"
  shows "\<not> is_ok (fst (consumeArtifact rt ad i now d))"
proof -
  let ?cs = "codec_candidates rt (ad_codec ad) i"
  have replay: "replay_loop m now cs e \<noteq> Inr (Consumed, e')" for m cs e e'
    by (induction cs) (auto simp: and_then_Inr split: option.split)
  have "consume_loop rt ad now ?cs d = Inr (None, d)"
    by (rule loop_spent) (use assms(2) in \<open>auto simp: own_rows_def consumable_def\<close>)
  with assms(1) replay show ?thesis
    by (auto simp: is_ok_iff consumeArtifact_def with_role_defs transaction_def consume_outcome_Inr
        split: sum.split_asm if_split_asm)
qed

lemma revoke_refresh_effect:
  assumes "lookup_by gr_id g (grants d) = Some gr" and "grant_live gr" and "grants_ok (grants d)"
    and "site_at (gr_tenant gr) (gr_site gr) (sites d) = Some s" and "numbered (outbox d)"
  obtains d' where "revoke_refresh_grant g now reason d = Inr (True, d')"
    "\<forall>q\<in>set (grants d'). gr_id q = g \<longrightarrow> \<not> grant_live q"
    "\<forall>a\<in>set (secrets d'). sa_model a = ''RefreshToken'' \<and>
       payload_text ''grantId'' (sa_payload a) = Some g \<longrightarrow> sa_expires a = Some now"
    "outbox d' = outbox d @ [event_row_of (gr_tenant gr) (gr_site gr) (si_resource s) EvGrant
       (Some g) None reason now (outbox d)]"
proof -
  have g: "gr \<in> set (grants d)" "gr_id gr = g" using assms(1) by (auto dest: lookup_byD)
  have key: "q \<in> set (grants d) \<Longrightarrow> gr_id q = g \<Longrightarrow> q = gr" for q
    using assms(1,3) by (auto simp: grants_ok_def intro: lookup_by_eq)
  let ?P = "\<lambda>r. gr_tenant r = gr_tenant gr \<and> gr_id r = gr_id gr \<and> grant_live r"
  have "row_count ?P (grants d) \<noteq> 0" using g assms(2) by (auto simp: row_count_eq_0)
  moreover define d' where "d' = d\<lparr>grants := sql_update ?P (revoke_refresh_row reason now) (grants d),
        secrets := sql_update (\<lambda>a. sa_model a = ''RefreshToken'' \<and>
            payload_text ''grantId'' (sa_payload a) = Some g) (\<lambda>a. a\<lparr>sa_expires := Some now\<rparr>) (secrets d),
        outbox := outbox d @ [event_row_of (gr_tenant gr) (gr_site gr) (si_resource s) EvGrant
          (Some g) None reason now (outbox d)]\<rparr>"
  ultimately have "revoke_refresh_grant g now reason d = Inr (True, d')"
    using assms(1,4) g(2) emit_total [OF assms(5)] by (simp add: revoke_refresh_grant_def Let_def)
  moreover have "\<forall>q\<in>set (grants d'). gr_id q = g \<longrightarrow> \<not> grant_live q"
    using key g(2) by (simp add: d'_def ball_sql_update grant_live_def)
  moreover have "\<forall>a\<in>set (secrets d'). sa_model a = ''RefreshToken'' \<and>
       payload_text ''grantId'' (sa_payload a) = Some g \<longrightarrow> sa_expires a = Some now"
    by (simp add: d'_def ball_sql_update) blast
  moreover have "outbox d' = outbox d @ [event_row_of (gr_tenant gr) (gr_site gr) (si_resource s) EvGrant
       (Some g) None reason now (outbox d)]" by (simp add: d'_def)
  ultimately show thesis by (rule that)
qed

lemma first_row_unique:
  assumes "r \<in> set t" and "\<forall>q\<in>set t. q = r"
  shows "first_row t = Some r"
proof (cases t)
  case (Cons q u)
  with assms(2) have "q = r" by auto
  with Cons show ?thesis by simp
qed (use assms(1) in simp)

lemma replay_found:
  assumes "own_rows rt ad i (secrets d) = [r]" and "sa_consumed r \<noteq> None"
    and "map_of (sa_payload r) ''grantId'' = Some (JStr g)"
    and "cs = codec_candidates rt (ad_codec ad) i"
  shows "replay_loop (ad_model ad) now cs d =
     and_then (revoke_refresh_grant g now ''refresh_replay'' d) (\<lambda>(_, d1). Inr (Replayed, d1))"
proof -
  have r: "r \<in> set (secrets d)" "\<exists>c\<in>set cs. secret_key r = (ad_model ad, fst c, snd c)"
    using arg_cong [OF assms(1), of set] assms(4) by (auto simp: own_rows_def)
  have only: "q = r" if "q \<in> set (secrets d)" "c \<in> set cs" "secret_key q = (ad_model ad, fst c, snd c)"
    for q c
    using that assms(4) arg_cong [OF assms(1), of set] by (auto simp: own_rows_def)
  have loop: "\<forall>c\<in>set xs. \<forall>q\<in>set (secrets d). secret_key q = (ad_model ad, fst c, snd c) \<longrightarrow> q = r \<Longrightarrow>
      \<exists>c\<in>set xs. secret_key r = (ad_model ad, fst c, snd c) \<Longrightarrow>
      replay_loop (ad_model ad) now xs d =
        and_then (revoke_refresh_grant g now ''refresh_replay'' d) (\<lambda>(_, d1). Inr (Replayed, d1))" for xs
  proof (induction xs)
    case (Cons c xs)
    let ?f = "filter (\<lambda>q. secret_key q = (ad_model ad, fst c, snd c) \<and> sa_consumed q \<noteq> None) (secrets d)"
    show ?case
    proof (cases "secret_key r = (ad_model ad, fst c, snd c)")
      case True
      then have "r \<in> set ?f" using r(1) assms(2) by simp
      moreover have "\<forall>q\<in>set ?f. q = r" using Cons.prems(1) by simp
      ultimately have "first_row ?f = Some r" by (rule first_row_unique)
      then show ?thesis by (simp add: payload_text_def assms(3))
    next
      case False
      then have "?f = []" using Cons.prems(1) by (auto simp: filter_empty_conv)
      then have "first_row ?f = None" by simp
      with Cons False show ?thesis by simp
    qed
  qed simp
  show ?thesis by (rule loop [OF _ r(2)], intro ballI impI, rule only)
qed

section \<open>Properties\<close>

text \<open>
  What is stored under an identifier is found under it until it expires: the payload as it was
  for a plain artifact, and for a secret one the payload with the identifier as its jti.
\<close>

theorem artifact_roundtrip:
  assumes "upsertArtifact rt ad i payload expiresIn now d = (Inr (), d')"
    and "has_pk provider_key (artifacts d)" and "has_pk secret_key (secrets d)"
    and "case expiresIn of None \<Rightarrow> True | Some s \<Rightarrow> later < now + s * 1000"
  shows "\<exists>p. fst (findArtifact rt ad i later d') = Inr (Some p) \<and>
     map_of p = (if is_secret (ad_model ad) then (map_of payload)(''jti'' \<mapsto> JStr i)
                 else map_of payload)"
proof -
  have exp: "unexpired later (map_option (\<lambda>s. now + s * 1000) expiresIn)"
    using assms(4) by (simp add: unexpired_def split: option.splits)
  show ?thesis
  proof (cases "is_secret (ad_model ad)")
    case False
    let ?r = "\<lparr>pv_model = ad_model ad, pv_id = i, pv_tenant = payloadTenantId payload,
      pv_payload = payload, pv_expires = map_option (\<lambda>s. now + s * 1000) expiresIn\<rparr>"
    have "artifacts d' = sql_upsert provider_key ?r (artifacts d)"
      using assms(1) False by (auto simp: upsertArtifact_def tx_succ)
    moreover have "first_row (filter (\<lambda>r. provider_key r = (ad_model ad, i) \<and>
        unexpired later (pv_expires r)) (sql_upsert provider_key ?r (artifacts d))) = Some ?r"
      using upsert_found [OF assms(2), of "\<lambda>r. unexpired later (pv_expires r)" ?r] exp
      by (simp add: provider_key_def)
    ultimately show ?thesis
      using False by (simp add: findArtifact_def with_role_defs transaction_def)
  next
    case True
    from assms(1) True obtain v k cs where c: "ad_codec ad = (v, k) # cs" "8 \<le> length i" "length i \<le> 4096"
      and s: "secrets d' = sql_upsert secret_key
        \<lparr>sa_model = ad_model ad, sa_version = v, sa_hash = hmac_sha256 rt k i,
         sa_tenant = payloadTenantId payload, sa_payload = obj_delete ''jti'' payload,
         sa_expires = map_option (\<lambda>s. now + s * 1000) expiresIn, sa_consumed = None\<rparr> (secrets d)"
      by (auto simp: upsertArtifact_def codec_current_def tx_succ)
    let ?r = "\<lparr>sa_model = ad_model ad, sa_version = v, sa_hash = hmac_sha256 rt k i,
         sa_tenant = payloadTenantId payload, sa_payload = obj_delete ''jti'' payload,
         sa_expires = map_option (\<lambda>s. now + s * 1000) expiresIn, sa_consumed = None\<rparr>"
    have "first_row (filter (\<lambda>r. secret_key r = (ad_model ad, v, hmac_sha256 rt k i) \<and>
        unexpired later (sa_expires r)) (secrets d')) = Some ?r"
      using upsert_found [OF assms(3), of "\<lambda>r. unexpired later (sa_expires r)" ?r] exp
      by (simp add: secret_key_def s)
    then have "fst (findArtifact rt ad i later d') = Inr (Some (found_secret i ?r))"
      using True c by (simp add: findArtifact_def with_role_defs transaction_def codec_candidates_def)
    with True show ?thesis by (auto simp: found_secret_def)
  qed
qed

definition sample_codec :: artifact_codec where
  "sample_codec = [(1, pad32 ''k'')]"

definition sample_adapter :: adapter where
  "sample_adapter = \<lparr>ad_model = ''RefreshToken'', ad_codec = sample_codec, ad_rate = Some (pad32 ''r'')\<rparr>"

definition sample_payload :: json_object where
  "sample_payload = [(''jti'', JStr ''x''), (''grantId'', JStr ''grant-1'')]"

definition sample_stored :: db where
  "sample_stored = snd (upsertArtifact sample_runtime sample_adapter ''token-0001'' sample_payload
     (Some 60) 1000 sample_revocation_db)"

lemma sample_stored_eval:
  "upsertArtifact sample_runtime sample_adapter ''token-0001'' sample_payload (Some 60) 1000
     sample_revocation_db = (Inr (), sample_stored)"
  by code_simp

theorem artifact_roundtrip_witness:
  "\<exists>p. fst (findArtifact sample_runtime sample_adapter ''token-0001'' 5000 sample_stored) = Inr (Some p) \<and>
     map_of p ''jti'' = Some (JStr ''token-0001'') \<and> map_of p ''grantId'' = Some (JStr ''grant-1'')"
proof -
  have "has_pk provider_key (artifacts sample_revocation_db)" "has_pk secret_key (secrets sample_revocation_db)"
    by code_simp+
  moreover have "is_secret (ad_model sample_adapter)" by code_simp
  ultimately show ?thesis
    using artifact_roundtrip [OF sample_stored_eval, of 5000] by (auto simp: sample_payload_def)
qed

lemma upsert_kept:
  assumes "has_pk key t"
  shows "filter (\<lambda>q. key q = key r \<and> Q q) (sql_upsert key r t) = (if Q r then [r] else [])"
proof -
  have "filter (\<lambda>q. key q = key r \<and> Q q) (sql_upsert key r t) =
      filter Q (filter (\<lambda>q. key q = key r) (sql_upsert key r t))" by (simp add: conj_commute)
  with assms show ?thesis by (simp add: upsert_filter)
qed

lemma candidate_versions:
  assumes "SecretArtifactCodec ks = Inr c" and "8 \<le> length i" and "length i \<le> 4096"
  shows "(v, h) \<in> set (codec_candidates rt c i) \<longleftrightarrow> (\<exists>n<length ks. v = length ks - n \<and> h = hmac_sha256 rt (ks ! n) i)"
proof -
  have "codec_candidates rt c i = map (\<lambda>(n, key). (length ks - n, hmac_sha256 rt key i)) (enumerate 0 ks)"
    using assms by (auto simp: SecretArtifactCodec_def codec_candidates_def split: if_split_asm)
  moreover have "set (enumerate 0 ks) = (\<lambda>n. (n, ks ! n)) ` {..<length ks}"
    by (auto simp: in_set_enumerate_eq image_iff)
  ultimately show ?thesis by auto
qed

lemma find_secret_one:
  assumes "\<And>c. c \<in> set cs \<Longrightarrow> filter (\<lambda>r. secret_key r = (model, fst c, snd c) \<and> unexpired now (sa_expires r)) t =
      (if c = c0 \<and> ok then [row] else [])"
  shows "find_secret model i now cs t = (if c0 \<in> set cs \<and> ok then Some (found_secret i row) else None)"
  using assms by (induction cs) auto

lemma stored_artifact_found:
  assumes "SecretArtifactCodec (k # ks) = Inr c"
    and "is_secret model" and "has_pk secret_key (secrets d)"
    and "\<forall>r\<in>set (secrets d). sa_model r = model \<longrightarrow> (sa_version r, sa_hash r) \<notin> set (codec_candidates rt c' i)"
    and "upsertArtifact rt \<lparr>ad_model = model, ad_codec = c, ad_rate = rate\<rparr> i payload expiresIn now d = (Inr (), d')"
  shows "fst (findArtifact rt \<lparr>ad_model = model, ad_codec = c', ad_rate = rate\<rparr> i later d') =
     Inr (if (Suc (length ks), hmac_sha256 rt k i) \<in> set (codec_candidates rt c' i)
             \<and> unexpired later (map_option (\<lambda>s. now + s * 1000) expiresIn)
          then Some (obj_set ''jti'' (JStr i) (obj_delete ''jti'' payload)) else None)"
proof -
  have c: "\<exists>rest. c = (Suc (length ks), k) # rest"
    using assms(1) by (auto simp: SecretArtifactCodec_def split: if_split_asm)
  let ?r = "\<lparr>sa_model = model, sa_version = Suc (length ks), sa_hash = hmac_sha256 rt k i,
       sa_tenant = payloadTenantId payload, sa_payload = obj_delete ''jti'' payload,
       sa_expires = map_option (\<lambda>s. now + s * 1000) expiresIn, sa_consumed = None\<rparr>"
  let ?live = "\<lambda>r. unexpired later (sa_expires r)"
  have s: "secrets d' = sql_upsert secret_key ?r (secrets d)"
    using assms(2,5) c by (auto simp: upsertArtifact_def codec_current_def tx_succ)
  have "find_secret model i later (codec_candidates rt c' i) (secrets d') =
      (if (Suc (length ks), hmac_sha256 rt k i) \<in> set (codec_candidates rt c' i) \<and> ?live ?r
       then Some (found_secret i ?r) else None)"
  proof (rule find_secret_one)
    fix x assume x: "x \<in> set (codec_candidates rt c' i)"
    have none: "filter (\<lambda>r. secret_key r = (model, fst x, snd x) \<and> ?live r) (secrets d) = []"
      using assms(4) x by (auto simp: filter_empty_conv secret_key_def)
    show "filter (\<lambda>r. secret_key r = (model, fst x, snd x) \<and> ?live r) (secrets d') =
        (if x = (Suc (length ks), hmac_sha256 rt k i) \<and> ?live ?r then [?r] else [])"
    proof (cases "x = (Suc (length ks), hmac_sha256 rt k i)")
      case True
      then have "(model, fst x, snd x) = secret_key ?r" by (simp add: secret_key_def)
      with True upsert_kept [OF assms(3), of ?r ?live] show ?thesis by (simp add: s)
    next
      case False
      then have "(model, fst x, snd x) \<noteq> secret_key ?r" by (auto simp: secret_key_def prod_eq_iff)
      with none False show ?thesis by (simp add: s upsert_other)
    qed
  qed
  then show ?thesis
    using assms(2) by (simp add: findArtifact_def with_role_defs transaction_def found_secret_def)
qed

lemma upsert_length:
  assumes "upsertArtifact rt \<lparr>ad_model = model, ad_codec = c, ad_rate = rate\<rparr> i payload expiresIn now d = (Inr (), d')"
    and "is_secret model"
  shows "8 \<le> length i" "length i \<le> 4096"
  using assms by (auto simp: upsertArtifact_def codec_current_def split: list.splits prod.splits if_splits)



text \<open>
  Dropping the old key at the end of a rotation, or starting the next rotation, loses what the
  remaining key stored: it was version 2 of its set and is version 1 of the new one.
\<close>

theorem rotation_completion_loses_artifacts:
  assumes "SecretArtifactCodec [n, old] = Inr c" and "SecretArtifactCodec ks' = Inr c'"
    and "ks' = [n] \<or> ks' = [z, n] \<and> hmac_sha256 rt n i \<noteq> hmac_sha256 rt z i"
    and "is_secret model" and "secrets d = []"
    and "upsertArtifact rt \<lparr>ad_model = model, ad_codec = c, ad_rate = rate\<rparr> i payload expiresIn now d = (Inr (), d')"
  shows "fst (findArtifact rt \<lparr>ad_model = model, ad_codec = c', ad_rate = rate\<rparr> i later d') = Inr None"
proof -
  have "has_pk secret_key (secrets d)" using assms(5) by (simp add: has_pk_def)
  moreover have "\<forall>r\<in>set (secrets d). sa_model r = model \<longrightarrow> (sa_version r, sa_hash r) \<notin> set (codec_candidates rt c' i)"
    using assms(5) by simp
  moreover have "(Suc (length [old]), hmac_sha256 rt n i) \<notin> set (codec_candidates rt c' i)"
    using assms(3) unfolding candidate_versions [OF assms(2) upsert_length [OF assms(6,4)]] by (auto simp: less_Suc_eq)
  ultimately show ?thesis
    using stored_artifact_found [OF assms(1,4) _ _ assms(6)] by simp
qed

lemma dropped_companion_example:
  "fst (findArtifact sample_runtime \<lparr>ad_model = ''AccessToken'', ad_codec = [(1, pad32 ''n'')], ad_rate = None\<rparr>
     ''token-0001'' 9
     (snd (upsertArtifact sample_runtime \<lparr>ad_model = ''AccessToken'', ad_codec = [(2, pad32 ''n''), (1, pad32 ''k'')],
        ad_rate = None\<rparr> ''token-0001'' sample_payload None 0 empty_db))) = Inr None"
  by code_simp

text \<open>
  A secret artifact is consumed at most once: after a successful consumption every further one,
  at any time, is refused.
\<close>

theorem artifact_consumed_once:
  assumes "is_secret (ad_model ad)" and "consumeArtifact rt ad i now d = (Inr (), d')"
    and "has_pk secret_key (secrets d)" and "own_rows rt ad i (secrets d) = [r]"
  shows "\<not> is_ok (fst (consumeArtifact rt ad i later d'))"
  by (rule spent_consume_fails [OF assms(1)]) (use consume_secret [OF assms] in simp)

definition sample_consumed :: db where
  "sample_consumed = snd (consumeArtifact sample_runtime sample_adapter ''token-0001'' 2000 sample_stored)"

lemma sample_consumed_eval:
  "consumeArtifact sample_runtime sample_adapter ''token-0001'' 2000 sample_stored = (Inr (), sample_consumed)"
  by code_simp

lemma sample_own:
  "own_rows sample_runtime sample_adapter ''token-0001'' (secrets sample_stored) = [hd (secrets sample_stored)]"
  "own_rows sample_runtime sample_adapter ''token-0001'' (secrets sample_consumed) = [hd (secrets sample_consumed)]"
  by code_simp+

theorem artifact_consumed_once_witness:
  "\<not> is_ok (fst (consumeArtifact sample_runtime sample_adapter ''token-0001'' 3000 sample_consumed))"
  by (rule artifact_consumed_once [OF _ sample_consumed_eval _ sample_own(1)]) code_simp+

text \<open>
  C25. Presenting a consumed refresh token again is refused as \<open>invalid_grant\<close> and, although the call
  throws, commits the revocation of its grant: the grant is dead, every refresh token of the grant
  is expired, and the event for the site is in the outbox.
\<close>

theorem refresh_token_replay_revokes:
  assumes "ad_model ad = ''RefreshToken''" and "own_rows rt ad i (secrets d) = [r]"
    and "sa_consumed r \<noteq> None" and "map_of (sa_payload r) ''grantId'' = Some (JStr g)"
    and "lookup_by gr_id g (grants d) = Some gr" and "grant_live gr" and "grants_ok (grants d)"
    and "site_at (gr_tenant gr) (gr_site gr) (sites d) = Some s" and "outbox_ok (outbox d)"
  shows "\<exists>d' e. consumeArtifact rt ad i now d = (Inl ''invalid_grant'', d') \<and>
     (\<forall>q\<in>set (grants d'). gr_id q = g \<longrightarrow> \<not> grant_live q) \<and>
     (\<forall>a\<in>set (secrets d'). sa_model a = ''RefreshToken'' \<and>
        payload_text ''grantId'' (sa_payload a) = Some g \<longrightarrow> sa_expires a = Some now) \<and>
     outbox d' = outbox d @ [e] \<and> ob_reason e = ''refresh_replay'' \<and> ob_grant e = Some g"
proof -
  let ?cs = "codec_candidates rt (ad_codec ad) i"
  have sec: "is_secret (ad_model ad)" using assms(1) by (simp add: is_secret_def secretArtifactModels_def)
  have "\<forall>q\<in>set (own_rows rt ad i (secrets d)). sa_consumed q \<noteq> None" using assms(2,3) by simp
  then have loop: "consume_loop rt ad now ?cs d = Inr (None, d)"
    by (intro loop_spent) (auto simp: own_rows_def consumable_def)
  have num: "numbered (outbox d)" using assms(9) by (simp add: outbox_ok_def)
  obtain d' where d': "revoke_refresh_grant g now ''refresh_replay'' d = Inr (True, d')"
    "\<forall>q\<in>set (grants d'). gr_id q = g \<longrightarrow> \<not> grant_live q"
    "\<forall>a\<in>set (secrets d'). sa_model a = ''RefreshToken'' \<and>
       payload_text ''grantId'' (sa_payload a) = Some g \<longrightarrow> sa_expires a = Some now"
    "outbox d' = outbox d @ [event_row_of (gr_tenant gr) (gr_site gr) (si_resource s) EvGrant
       (Some g) None ''refresh_replay'' now (outbox d)]"
    by (rule revoke_refresh_effect [OF assms(5-8) num, of now "''refresh_replay''"])
  have "consumeArtifact rt ad i now d = (Inl ''invalid_grant'', d')"
    using sec assms(1) loop replay_found [OF assms(2-4) refl, of now] d'(1)
    by (simp add: consumeArtifact_def with_role_defs transaction_def)
  with d'(2-4) show ?thesis by (auto simp: event_row_of_def)
qed

theorem refresh_token_replay_revokes_witness:
  "\<exists>d'. consumeArtifact sample_runtime sample_adapter ''token-0001'' 3000 sample_consumed =
       (Inl ''invalid_grant'', d') \<and> (\<forall>q\<in>set (grants d'). gr_id q = ''grant-1'' \<longrightarrow> \<not> grant_live q)"
proof -
  have "outbox sample_consumed = []" by code_simp
  then have "outbox_ok (outbox sample_consumed)" by (simp add: outbox_ok_def numbered_def has_pk_def)
  moreover have "ad_model sample_adapter = ''RefreshToken''"
    "sa_consumed (hd (secrets sample_consumed)) \<noteq> None"
    "map_of (sa_payload (hd (secrets sample_consumed))) ''grantId'' = Some (JStr ''grant-1'')"
    "lookup_by gr_id ''grant-1'' (grants sample_consumed) = Some sample_grant" "grant_live sample_grant"
    "grants_ok (grants sample_consumed)"
    "site_at (gr_tenant sample_grant) (gr_site sample_grant) (sites sample_consumed) = Some sample_site"
    by code_simp+
  ultimately show ?thesis
    using refresh_token_replay_revokes [OF _ sample_own(2), of "''grant-1''" sample_grant sample_site 3000]
    by blast
qed

end
