(* ===== verification/Pairing_Store.thy ===== *)
theory Pairing_Store
  imports Pairing Artifacts
begin

text \<open>
  \<open>PostgresPairingRepository\<close> and \<open>PostgresGrantRepository\<close>: the repositories of the pairing
  package over the tables of the platform schema, under the row-level policies of the control
  role.  \<open>now\<close> is the time of the transaction.
\<close>

section \<open>Attempts\<close>

definition attempt_key :: "attempt_row \<Rightarrow> string \<times> string" where
  "attempt_key r = (pa_tenant r, pa_id r)"

definition idem_key :: "idem_row \<Rightarrow> string \<times> string \<times> string" where
  "idem_key r = (im_tenant r, im_operation r, im_key r)"

definition createAttempt ::
  "runtime \<Rightarrow> tenant_context \<Rightarrow> time \<Rightarrow> attempt_record \<Rightarrow> string \<Rightarrow> string \<Rightarrow> db \<Rightarrow> unit outcome" where
  "createAttempt rt ctx now rec account correlation d =
     withTenant rt ctx (\<lambda>s d.
       let row = \<lparr>pa_tenant = ar_tenant rec, pa_id = ar_id rec, pa_initiator = account,
              pa_resource = ar_resource rec, pa_verifier = ar_verifier rec, pa_status = PairPending,
              pa_expires = ar_expires rec, pa_consumed = None, pa_site = None, pa_failure = None,
              pa_correlation = correlation\<rparr>
       in if \<not> pairing_access s d row then Inl rls_violation
          else and_then (sql_insert_checked (\<lambda>r. pa_expires r > now) attempt_key row (attempts d))
            (\<lambda>t. Inr ((), d\<lparr>attempts := t\<rparr>))) d"

definition findAttemptForUpdate ::
  "runtime \<Rightarrow> tenant_context \<Rightarrow> string \<Rightarrow> string \<Rightarrow> db \<Rightarrow> attempt_record option outcome" where
  "findAttemptForUpdate rt ctx tenantId attemptId d =
     withTenant rt ctx (\<lambda>s d. Inr (map_option
       (\<lambda>r. \<lparr>ar_tenant = pa_tenant r, ar_id = pa_id r, ar_resource = pa_resource r,
             ar_verifier = pa_verifier r, ar_status = pa_status r, ar_expires = pa_expires r\<rparr>)
       (first_row (filter (\<lambda>r. pairing_access s d r \<and> attempt_key r = (tenantId, attemptId) \<and>
          (pa_status r = PairPending \<or> pa_status r = PairVerifying)) (attempts d))), d)) d"

definition markVerifying ::
  "runtime \<Rightarrow> tenant_context \<Rightarrow> time \<Rightarrow> string \<Rightarrow> string \<Rightarrow> db \<Rightarrow> bool outcome" where
  "markVerifying rt ctx now tenantId attemptId d =
     withTenant rt ctx (\<lambda>s d.
       let P = (\<lambda>r. pairing_access s d r \<and> attempt_key r = (tenantId, attemptId) \<and>
              pa_status r = PairPending \<and> pa_expires r > now)
       in Inr (row_count P (attempts d) = 1,
               d\<lparr>attempts := sql_update P (\<lambda>r. r\<lparr>pa_status := PairVerifying\<rparr>) (attempts d)\<rparr>)) d"

definition failAttempt ::
  "runtime \<Rightarrow> tenant_context \<Rightarrow> string \<Rightarrow> string \<Rightarrow> string \<Rightarrow> db \<Rightarrow> unit outcome" where
  "failAttempt rt ctx tenantId attemptId reason d =
     withTenant rt ctx (\<lambda>s d. Inr ((), d\<lparr>attempts := sql_update
       (\<lambda>r. pairing_access s d r \<and> attempt_key r = (tenantId, attemptId) \<and>
            pa_status r = PairVerifying)
       (\<lambda>r. r\<lparr>pa_status := PairFailed, pa_failure := Some (take 64 reason)\<rparr>) (attempts d)\<rparr>)) d"

definition one_day_after :: "time \<Rightarrow> time" where
  "one_day_after now = now + 24 * 60 * 60 * 1000"

text \<open>The record of a finished operation, visible to the session and found by its key.\<close>

definition prior_record ::
  "session \<Rightarrow> db \<Rightarrow> string \<Rightarrow> string \<Rightarrow> string \<Rightarrow> idem_row option" where
  "prior_record s d tenant operation key =
     first_row (filter (\<lambda>r. idem_access s d r \<and> idem_key r = (tenant, operation, key)) (idems d))"

definition insert_idem :: "session \<Rightarrow> idem_row \<Rightarrow> db \<Rightarrow> db result" where
  "insert_idem s row d =
     (if \<not> idem_access s d row then Inl rls_violation
      else and_then (sql_insert idem_key row (idems d)) (\<lambda>t. Inr (d\<lparr>idems := t\<rparr>)))"

definition pairing_digest :: "runtime \<Rightarrow> attempt_record \<Rightarrow> verified_proof \<Rightarrow> string \<Rightarrow> bytes" where
  "pairing_digest rt rec proof siteId =
     sha256 rt (ar_id rec @ [CHR 0x00] @ siteId @ [CHR 0x00] @ vp_thumbprint proof)"

text \<open>The statements of \<open>complete\<close> when no record of the key exists.\<close>

definition pairing_completion ::
  "runtime \<Rightarrow> time \<Rightarrow> attempt_record \<Rightarrow> verified_proof \<Rightarrow> string \<Rightarrow> string \<Rightarrow> unit tx" where
  "pairing_completion rt now rec proof siteId key s d =
     and_then (hostname_of rt (ar_resource rec)) (\<lambda>hostname.
     let site = \<lparr>si_tenant = ar_tenant rec, si_id = siteId, si_resource = ar_resource rec,
           si_hostname = hostname, si_status = SiteActive, si_jwk = jwk_json (vp_jwk proof),
           si_thumbprint = vp_thumbprint proof, si_created = now, si_revoked = None\<rparr>
     in if \<not> site_insert s d site then Inl rls_violation
     else and_then (insert_site site (sites d)) (\<lambda>st.
       let P = (\<lambda>r. pairing_access s d r \<and> attempt_key r = (ar_tenant rec, ar_id rec) \<and>
              pa_status r = PairVerifying \<and> pa_expires r > now);
           d1 = d\<lparr>sites := st, attempts := sql_update P (\<lambda>r. r\<lparr>pa_status := PairActive,
              pa_consumed := Some now, pa_site := Some siteId\<rparr>) (attempts d)\<rparr>
       in if row_count P (attempts d) \<noteq> 1 then Inl ''pairing_replay''
       else and_then (insert_idem s
           \<lparr>im_tenant = ar_tenant rec, im_operation = ''pairing.complete'', im_key = key,
            im_digest = pairing_digest rt rec proof siteId, im_reference = siteId,
            im_expires = one_day_after now\<rparr> d1)
         (\<lambda>d2. Inr ((), d2))))"

definition completePairing ::
  "runtime \<Rightarrow> tenant_context \<Rightarrow> time \<Rightarrow> attempt_record \<Rightarrow> verified_proof \<Rightarrow> string \<Rightarrow> string \<Rightarrow> db \<Rightarrow>
     unit outcome" where
  "completePairing rt ctx now rec proof siteId key d =
     (let requestDigest = pairing_digest rt rec proof siteId
      in withTenant rt ctx (\<lambda>s d.
        case prior_record s d (ar_tenant rec) ''pairing.complete'' key of
          Some prior \<Rightarrow>
            if im_digest prior \<noteq> requestDigest \<or> im_reference prior \<noteq> siteId
            then Inl ''idempotency_conflict'' else Inr ((), d)
        | None \<Rightarrow> pairing_completion rt now rec proof siteId key s d) d)"

definition postgres_pairing ::
  "runtime \<Rightarrow> tenant_context \<Rightarrow> time \<Rightarrow> db pairing_repository" where
  "postgres_pairing rt ctx now =
     \<lparr>pr_create = createAttempt rt ctx now, pr_find = findAttemptForUpdate rt ctx,
      pr_mark = markVerifying rt ctx now, pr_fail = failAttempt rt ctx,
      pr_complete = completePairing rt ctx now\<rparr>"

section \<open>Grants\<close>

text \<open>The pairs the join of \<open>createPending\<close> finds: the record of the key and the grant it names.\<close>

definition created_join ::
  "session \<Rightarrow> db \<Rightarrow> string \<Rightarrow> string \<Rightarrow> (idem_row \<times> grant_row) list" where
  "created_join s d t k =
     [(i, g). i \<leftarrow> idems d, g \<leftarrow> grants d, idem_access s d i \<and> grant_access s d g,
        gr_tenant g = im_tenant i \<and> gr_id g = im_reference i, idem_key i = (t, ''grant.create'', k)]"

text \<open>The rows a new grant request inserts, and the statements that insert them.\<close>

definition pending_row :: "new_grant \<Rightarrow> string \<Rightarrow> grant_row" where
  "pending_row rec site =
     \<lparr>gr_tenant = ng_tenant rec, gr_id = ng_id rec, gr_site = site, gr_subject = ng_subject rec,
      gr_client = ng_client rec, gr_scopes = map scope_name (ng_scopes rec),
      gr_challenge = ng_challenge rec, gr_expires = ng_expires rec, gr_status = GrantPending,
      gr_version = ng_version rec, gr_created = ng_created rec, gr_revoked = None, gr_reason = None\<rparr>"

definition creation_record :: "time \<Rightarrow> new_grant \<Rightarrow> idem_row" where
  "creation_record now rec =
     \<lparr>im_tenant = ng_tenant rec, im_operation = ''grant.create'', im_key = ng_key rec,
      im_digest = ng_digest rec, im_reference = ng_id rec, im_expires = one_day_after now\<rparr>"

definition create_grant :: "time \<Rightarrow> new_grant \<Rightarrow> created_grant tx" where
  "create_grant now rec s d =
     (case first_row (filter (\<lambda>r. site_select s d r \<and> site_key r = (ng_tenant rec, ng_site rec) \<and>
             si_resource r = ng_resource rec \<and> si_status r = SiteActive) (sites d)) of
        None \<Rightarrow> Inl ''active_site_not_found''
      | Some site \<Rightarrow>
          let row = pending_row rec (si_id site) in
          if \<not> grant_access s d row then Inl rls_violation
          else and_then (insert_grant row (grants d)) (\<lambda>gt.
            and_then (insert_idem s (creation_record now rec) (d\<lparr>grants := gt\<rparr>))
            (\<lambda>d2. Inr (\<lparr>cg_id = ng_id rec, cg_created = ng_created rec,
                       cg_expires = ng_expires rec\<rparr>, d2))))"

definition createPending ::
  "runtime \<Rightarrow> tenant_context \<Rightarrow> time \<Rightarrow> new_grant \<Rightarrow> db \<Rightarrow> created_grant outcome" where
  "createPending rt ctx now rec d =
     withTenant rt ctx (\<lambda>s d.
       case first_row (created_join s d (ng_tenant rec) (ng_key rec)) of
         Some (prior, g) \<Rightarrow>
           if im_digest prior \<noteq> ng_digest rec then Inl ''idempotency_conflict''
           else Inr (\<lparr>cg_id = im_reference prior, cg_created = gr_created g,
                      cg_expires = gr_expires g\<rparr>, d)
       | None \<Rightarrow> create_grant now rec s d) d"

text \<open>The completion joined to a grant by the left join of \<open>findPending\<close>.\<close>

definition completion_of :: "session \<Rightarrow> db \<Rightarrow> string \<Rightarrow> grant_row \<Rightarrow> idem_row option" where
  "completion_of s d key g =
     first_row (filter (\<lambda>i. idem_access s d i \<and> im_tenant i = gr_tenant g \<and>
        im_operation i = ''grant.complete'' \<and> im_key i = key \<and> im_reference i = gr_id g) (idems d))"

definition findPending ::
  "runtime \<Rightarrow> tenant_context \<Rightarrow> string \<Rightarrow> string \<Rightarrow> string \<Rightarrow> db \<Rightarrow> pending_grant option outcome" where
  "findPending rt ctx tenantId grantId key d =
     withTenant rt ctx (\<lambda>s d.
       case first_row [(g, x). g \<leftarrow> grants d, x \<leftarrow> sites d, grant_access s d g \<and> site_select s d x,
              si_tenant x = gr_tenant g \<and> si_id x = gr_site g,
              gr_tenant g = tenantId \<and> gr_id g = grantId,
              gr_status g = GrantPending \<or> completion_of s d key g \<noteq> None,
              si_status x = SiteActive] of
         None \<Rightarrow> Inr (None, d)
       | Some (g, x) \<Rightarrow>
           and_then (parse_or_throw (parse_scope_set (gr_scopes g))) (\<lambda>scopes.
           Inr (Some \<lparr>pg_tenant = gr_tenant g, pg_id = gr_id g, pg_site = gr_site g,
              pg_subject = gr_subject g, pg_client = gr_client g, pg_scopes = scopes,
              pg_resource = si_resource x, pg_jwk = si_jwk x, pg_challenge = gr_challenge g,
              pg_expires = gr_expires g, pg_replay = (completion_of s d key g \<noteq> None)\<rparr>, d))) d"

text \<open>\<open>activate\<close> and \<open>deny\<close> differ in the update of the pending grant.\<close>

definition finish_grant ::
  "(grant_row \<Rightarrow> grant_row) \<Rightarrow> runtime \<Rightarrow> tenant_context \<Rightarrow> time \<Rightarrow> string \<Rightarrow> string \<Rightarrow> string \<Rightarrow>
     string \<Rightarrow> db \<Rightarrow> unit outcome" where
  "finish_grant f rt ctx now tenantId grantId key thumbprint d =
     (let digest = sha256 rt (grantId @ [CHR 0x00] @ thumbprint) in
      withTenant rt ctx (\<lambda>s d.
        case prior_record s d tenantId ''grant.complete'' key of
          Some prior \<Rightarrow>
            if im_digest prior \<noteq> digest \<or> im_reference prior \<noteq> grantId
            then Inl ''idempotency_conflict'' else Inr ((), d)
        | None \<Rightarrow>
            let P = (\<lambda>g. grant_access s d g \<and> grant_key g = (tenantId, grantId) \<and>
                   gr_status g = GrantPending \<and> gr_expires g > now)
            in if row_count P (grants d) \<noteq> 1 then Inl ''grant_completion_replay''
            else and_then (insert_idem s
                \<lparr>im_tenant = tenantId, im_operation = ''grant.complete'', im_key = key,
                 im_digest = digest, im_reference = grantId, im_expires = one_day_after now\<rparr>
                (d\<lparr>grants := sql_update P f (grants d)\<rparr>))
              (\<lambda>d2. Inr ((), d2))) d)"

definition activateGrant ::
  "runtime \<Rightarrow> tenant_context \<Rightarrow> time \<Rightarrow> string \<Rightarrow> string \<Rightarrow> string \<Rightarrow> string \<Rightarrow> db \<Rightarrow> unit outcome" where
  "activateGrant rt ctx now = finish_grant (\<lambda>g. g\<lparr>gr_status := GrantActive\<rparr>) rt ctx now"

definition denyGrant ::
  "runtime \<Rightarrow> tenant_context \<Rightarrow> time \<Rightarrow> string \<Rightarrow> string \<Rightarrow> string \<Rightarrow> string \<Rightarrow> db \<Rightarrow> unit outcome" where
  "denyGrant rt ctx now = finish_grant (\<lambda>g. g\<lparr>gr_status := GrantRevoked, gr_revoked := Some now,
     gr_reason := Some ''consent_denied''\<rparr>) rt ctx now"

definition revokeGrant ::
  "runtime \<Rightarrow> tenant_context \<Rightarrow> time \<Rightarrow> string \<Rightarrow> string \<Rightarrow> string \<Rightarrow> db \<Rightarrow> bool outcome" where
  "revokeGrant rt ctx now tenantId grantId reason d =
     withTenant rt ctx (\<lambda>s d.
       let P = (\<lambda>g. grant_access s d g \<and> grant_key g = (tenantId, grantId) \<and> grant_live g)
       in Inr (row_count P (grants d) = 1, d\<lparr>grants := sql_update P
            (\<lambda>g. g\<lparr>gr_status := GrantRevoked, gr_revoked := Some now,
                  gr_reason := Some (take 64 reason)\<rparr>) (grants d)\<rparr>)) d"

definition postgres_grants :: "runtime \<Rightarrow> tenant_context \<Rightarrow> time \<Rightarrow> db grant_repository" where
  "postgres_grants rt ctx now =
     \<lparr>gp_create = createPending rt ctx now, gp_find = findPending rt ctx,
      gp_activate = activateGrant rt ctx now, gp_deny = denyGrant rt ctx now,
      gp_revoke = revokeGrant rt ctx now\<rparr>"

section \<open>The stores keep their contracts\<close>

definition attempt_status :: "db \<Rightarrow> string \<Rightarrow> string \<Rightarrow> pairing_status option" where
  "attempt_status d t a = map_option pa_status (lookup_by attempt_key (t, a) (attempts d))"

definition grant_status_of :: "db \<Rightarrow> string \<Rightarrow> string \<Rightarrow> grant_status option" where
  "grant_status_of d t g = map_option gr_status (lookup_by grant_key (t, g) (grants d))"

definition attempts_invar :: "db \<Rightarrow> bool" where
  "attempts_invar d \<longleftrightarrow> has_pk attempt_key (attempts d)"

lemma withTenant_Pair:
  "withTenant rt ctx op d = (r, d') \<longleftrightarrow>
     (case parse_tenant_context rt ctx of
        Inl e \<Rightarrow> r = Inl e \<and> d' = d
      | Inr c \<Rightarrow> transaction \<lparr>se_role = RoleControl, se_tenant = Some (ctx_tenant c),
           se_account = Some (ctx_account c)\<rparr> op d = (r, d'))"
  by (auto simp: withTenant_def split: sum.split)

lemma withTenant_rollback: "withTenant rt ctx op d = (Inl e, d') \<Longrightarrow> d' = d"
  by (auto simp: withTenant_Pair dest: transaction_rollback split: sum.split_asm)

text \<open>What a tenant transaction that succeeded saw: some session of the control role.\<close>

lemma withTenant_Inr:
  assumes "withTenant rt ctx op d = (Inr a, d')"
  obtains s where "se_role s = RoleControl" "se_tenant s = Some (ctx_tenant ctx)"
    "se_account s = Some (ctx_account ctx)" "op s d = Inr (a, d')"
  by (rule that [of "\<lparr>se_role = RoleControl, se_tenant = Some (ctx_tenant ctx),
       se_account = Some (ctx_account ctx)\<rparr>"])
     (use assms in \<open>auto simp: withTenant_Pair transaction_Inr parse_tenant_context_def
        split: sum.split_asm if_split_asm\<close>)

lemma attempt_key_status [simp]:
  "attempt_key (r\<lparr>pa_status := x\<rparr>) = attempt_key r"
  "attempt_key (r\<lparr>pa_status := x, pa_failure := y\<rparr>) = attempt_key r"
  "attempt_key (r\<lparr>pa_status := x, pa_consumed := z, pa_site := w\<rparr>) = attempt_key r"
  by (simp_all add: attempt_key_def)

text \<open>The one row an update of a keyed table changed.\<close>

lemma keyed_update:
  assumes "row_count P t = 1" and "has_pk key t" and "\<And>r. P r \<Longrightarrow> key r = k"
    and "\<And>r. key (f r) = key r"
  obtains r where "P r" "lookup_by key k t = Some r" "lookup_by key k (sql_update P f t) = Some (f r)"
proof -
  from row_count_pos [OF assms(1)] obtain r where "r \<in> set t" "P r" by blast
  moreover from this have "lookup_by key k t = Some r" using lookup_by_in [OF assms(2)] assms(3) by metis
  ultimately show thesis by (intro that [of r]) (simp_all add: lookup_by_update assms(4))
qed

lemma mark_effect:
  assumes "markVerifying rt ctx now t a d = (Inr True, d')" and "attempts_invar d"
  shows "attempt_status d t a = Some PairPending \<and> attempt_status d' t a = Some PairVerifying"
proof -
  from assms(1) obtain s where s: "row_count (\<lambda>r. pairing_access s d r \<and> attempt_key r = (t, a) \<and>
        pa_status r = PairPending \<and> pa_expires r > now) (attempts d) = 1"
    "attempts d' = sql_update (\<lambda>r. pairing_access s d r \<and> attempt_key r = (t, a) \<and>
        pa_status r = PairPending \<and> pa_expires r > now) (\<lambda>r. r\<lparr>pa_status := PairVerifying\<rparr>) (attempts d)"
    unfolding markVerifying_def by (auto simp: Let_def elim!: withTenant_Inr)
  show ?thesis
    by (rule keyed_update [OF s(1), of attempt_key "(t, a)" "\<lambda>r. r\<lparr>pa_status := PairVerifying\<rparr>"])
       (use assms(2) s(2) in \<open>auto simp: attempts_invar_def attempt_status_def\<close>)
qed

lemma mark_keys:
  "markVerifying rt ctx now t a d = (r, d') \<Longrightarrow> map attempt_key (attempts d') = map attempt_key (attempts d)"
  by (cases r) (auto simp: markVerifying_def map_key_update Let_def dest: withTenant_rollback elim!: withTenant_Inr)

lemma fail_keys:
  "failAttempt rt ctx t a m d = (r, d') \<Longrightarrow> map attempt_key (attempts d') = map attempt_key (attempts d)"
  by (cases r) (auto simp: failAttempt_def map_key_update Let_def dest: withTenant_rollback elim!: withTenant_Inr)

text \<open>A completion changes at most the one verifying attempt, and only to active.\<close>

lemma complete_effect:
  assumes "completePairing rt ctx now rec p i k d = (Inr (), d')"
  shows "d' = d \<or> (\<exists>s. attempts d' = sql_update (\<lambda>r. pairing_access s d r \<and>
        attempt_key r = (ar_tenant rec, ar_id rec) \<and> pa_status r = PairVerifying \<and> pa_expires r > now)
      (\<lambda>r. r\<lparr>pa_status := PairActive, pa_consumed := Some now, pa_site := Some i\<rparr>) (attempts d))"
  using assms unfolding completePairing_def Let_def
proof (rule withTenant_Inr)
  fix s
  assume "(case prior_record s d (ar_tenant rec) ''pairing.complete'' k of
        Some prior \<Rightarrow>
          if im_digest prior \<noteq> pairing_digest rt rec p i \<or> im_reference prior \<noteq> i
          then Inl ''idempotency_conflict'' else Inr ((), d)
      | None \<Rightarrow> pairing_completion rt now rec p i k s d) = Inr ((), d')"
  then show ?thesis
    unfolding pairing_completion_def
    by (auto simp: succ_simps insert_idem_def)
qed

lemma complete_cases:
  assumes "completePairing rt ctx now rec p i k d = (r, d')"
  shows "d' = d \<or> (r = Inr () \<and> (\<exists>P. (\<forall>r. P r \<longrightarrow> pa_status r = PairVerifying) \<and>
     attempts d' = sql_update P
      (\<lambda>r. r\<lparr>pa_status := PairActive, pa_consumed := Some now, pa_site := Some i\<rparr>) (attempts d)))"
proof (cases r)
  case (Inl e)
  with assms show ?thesis unfolding completePairing_def Let_def by (auto dest: withTenant_rollback)
next
  case (Inr u)
  then have "completePairing rt ctx now rec p i k d = (Inr (), d')" using assms by simp
  from complete_effect [OF this] show ?thesis
  proof (elim disjE exE)
    fix s assume "attempts d' = sql_update (\<lambda>r. pairing_access s d r \<and>
        attempt_key r = (ar_tenant rec, ar_id rec) \<and> pa_status r = PairVerifying \<and> pa_expires r > now)
      (\<lambda>r. r\<lparr>pa_status := PairActive, pa_consumed := Some now, pa_site := Some i\<rparr>) (attempts d)"
    then show ?thesis using Inr by (intro disjI2 conjI exI) auto
  qed simp
qed

interpretation postgres_pairing:
  pairing_store "postgres_pairing rt ctx now" attempts_invar attempt_status
  for rt ctx now
proof unfold_locales
  fix d :: db and t a d' found
  assume "pr_find (postgres_pairing rt ctx now) t a d = (found, d')"
  then show "d' = d"
    by (cases found) (auto simp: postgres_pairing_def findAttemptForUpdate_def
        dest: withTenant_rollback elim!: withTenant_Inr)
next
  fix d :: db and t a d' marked
  assume "attempts_invar d" "pr_mark (postgres_pairing rt ctx now) t a d = (marked, d')"
  then show "attempts_invar d'"
    using mark_keys by (simp add: postgres_pairing_def attempts_invar_def has_pk_def)
next
  fix d :: db and att p i k d' "done"
  assume "attempts_invar d" "pr_complete (postgres_pairing rt ctx now) att p i k d = (done, d')"
  then show "attempts_invar d'"
    using complete_cases [of rt ctx now att p i k d "done" d']
    by (auto simp: postgres_pairing_def attempts_invar_def intro!: has_pk_update)
next
  fix d :: db and t a m d' "done"
  assume "attempts_invar d" "pr_fail (postgres_pairing rt ctx now) t a m d = (done, d')"
  then show "attempts_invar d'"
    using fail_keys by (simp add: postgres_pairing_def attempts_invar_def has_pk_def)
next
  fix d :: db and t a d'
  assume "attempts_invar d" "pr_mark (postgres_pairing rt ctx now) t a d = (Inr True, d')"
  then show "attempt_status d t a = Some PairPending \<and> attempt_status d' t a = Some PairVerifying"
    by (auto simp: postgres_pairing_def dest: mark_effect)
next
  fix d :: db and att p i k d' "done" t a
  assume "pr_complete (postgres_pairing rt ctx now) att p i k d = (done, d')"
    and st: "attempt_status d t a = Some PairVerifying"
  then have "d' = d \<or> (done = Inr () \<and> (\<exists>P. (\<forall>r. P r \<longrightarrow> pa_status r = PairVerifying) \<and>
     attempts d' = sql_update P
      (\<lambda>r. r\<lparr>pa_status := PairActive, pa_consumed := Some now, pa_site := Some i\<rparr>) (attempts d)))"
    by (auto simp: postgres_pairing_def dest: complete_cases)
  with st show "attempt_status d' t a = Some PairVerifying \<or>
      (is_ok done \<and> attempt_status d' t a = Some PairActive)"
    by (auto simp: attempt_status_def lookup_by_update split: if_splits)
next
  fix d :: db and t a m d'
  assume "pr_fail (postgres_pairing rt ctx now) t a m d = (Inr (), d')"
    and st: "attempt_status d t a = Some PairVerifying"
  then show "attempt_status d' t a = Some PairFailed \<or> attempt_status d' t a = Some PairVerifying"
    unfolding postgres_pairing_def pairing_repository.simps failAttempt_def
    by (elim withTenant_Inr) (auto simp: attempt_status_def lookup_by_update split: if_splits)
qed

section \<open>The grant store\<close>

definition grants_invar :: "db \<Rightarrow> bool" where
  "grants_invar d \<longleftrightarrow> has_pk grant_key (grants d) \<and> has_pk idem_key (idems d)"

text \<open>The record of a completion: the key, the grant, and the digest of the grant and the site's key.\<close>

definition completion_recorded :: "runtime \<Rightarrow> db \<Rightarrow> string \<Rightarrow> string \<Rightarrow> string \<Rightarrow> string \<Rightarrow> bool" where
  "completion_recorded rt d t g k th \<longleftrightarrow> (\<exists>r\<in>set (idems d). idem_key r = (t, ''grant.complete'', k)
     \<and> im_reference r = g \<and> im_digest r = sha256 rt (g @ [CHR 0x00] @ th))"

lemma finish_effect:
  assumes "finish_grant f rt ctx now t g k th d = (Inr (), d')"
    and "\<And>r. grant_key (f r) = grant_key r" and "has_pk grant_key (grants d)"
  shows "d' = d \<and> completion_recorded rt d t g k th \<or> grant_status_of d t g = Some GrantPending \<and>
     (\<exists>r. grant_status_of d' t g = Some (gr_status (f r))) \<and> completion_recorded rt d' t g k th"
proof -
  from assms(1) have "d' = d \<and> completion_recorded rt d t g k th \<or>
     completion_recorded rt d' t g k th \<and> (\<exists>s. row_count (\<lambda>r. grant_access s d r \<and> grant_key r = (t, g) \<and> gr_status r = GrantPending \<and>
          gr_expires r > now) (grants d) = 1 \<and>
       grants d' = sql_update (\<lambda>r. grant_access s d r \<and> grant_key r = (t, g) \<and>
          gr_status r = GrantPending \<and> gr_expires r > now) f (grants d))"
    unfolding finish_grant_def Let_def
    by (elim withTenant_Inr) (auto simp: succ_simps insert_idem_def sql_insert_Inr completion_recorded_def
      prior_record_def idem_key_def dest!: first_row_filterD)
  then show ?thesis
  proof (elim disjE conjE exE)
    fix s
    assume recorded: "completion_recorded rt d' t g k th"
      and c: "row_count (\<lambda>r. grant_access s d r \<and> grant_key r = (t, g) \<and> gr_status r = GrantPending \<and>
          gr_expires r > now) (grants d) = 1"
      and u: "grants d' = sql_update (\<lambda>r. grant_access s d r \<and> grant_key r = (t, g) \<and>
          gr_status r = GrantPending \<and> gr_expires r > now) f (grants d)"
    show ?thesis
      by (rule keyed_update [OF c, of grant_key "(t, g)" f])
         (use assms(2,3) u recorded in \<open>auto simp: grant_status_of_def\<close>)
  qed simp
qed

lemma set_created_join:
  "set (created_join s d t k) = {(i, g). i \<in> set (idems d) \<and> g \<in> set (grants d) \<and>
     idem_access s d i \<and> grant_access s d g \<and> grant_key g = (im_tenant i, im_reference i) \<and>
     idem_key i = (t, ''grant.create'', k)}"
  unfolding created_join_def by (auto simp: grant_key_def split: if_splits)

lemma access_frames [simp]:
  "idem_access s (d\<lparr>grants := x\<rparr>) r = idem_access s d r"
  "idem_access s (d\<lparr>grants := x, idems := y\<rparr>) r = idem_access s d r"
  "grant_access s (d\<lparr>grants := x, idems := y\<rparr>) g = grant_access s d g"
  by (simp_all add: idem_access_def grant_access_def has_tenant_role_def has_active_membership_def)

lemma created_join_unique:
  assumes "(i, g) \<in> set (created_join s d t k)" and "grants_invar d"
  shows "first_row (created_join s d t k) = Some (i, g)"
proof (rule first_row_unique [OF assms(1)], intro ballI)
  fix x assume x: "x \<in> set (created_join s d t k)"
  obtain j h where [simp]: "x = (j, h)" by (cases x)
  have "j = i" using x assms
    by (intro pk_inject [of idem_key "idems d"]) (auto simp: set_created_join grants_invar_def)
  moreover from this have "h = g" using x assms
    by (intro pk_inject [of grant_key "grants d"]) (auto simp: set_created_join grants_invar_def)
  ultimately show "x = (i, g)" by simp
qed

lemma create_grant_Inr:
  assumes "create_grant now n s d = Inr (c, d')"
  obtains site where "c = \<lparr>cg_id = ng_id n, cg_created = ng_created n, cg_expires = ng_expires n\<rparr>"
    "grant_access s d (pending_row n site)" "idem_access s d (creation_record now n)"
    "d' = d\<lparr>grants := grants d @ [pending_row n site], idems := idems d @ [creation_record now n]\<rparr>"
    "ng_id n \<notin> gr_id ` set (grants d)" "idem_key (creation_record now n) \<notin> idem_key ` set (idems d)"
proof -
  have k: "gr_id (pending_row n site) = ng_id n" for site by (simp add: pending_row_def)
  from assms show thesis
    unfolding create_grant_def Let_def
    by (auto simp: and_then_Inr case_eq_Inr insert_idem_def insert_grant_def sql_insert_Inr k
        intro: that)
qed

lemma create_new:
  assumes "createPending rt ctx now n d = (Inr c, d')" and "grants_invar d"
  obtains s i g where "parse_tenant_context rt ctx = Inr ctx"
    "s = \<lparr>se_role = RoleControl, se_tenant = Some (ctx_tenant ctx), se_account = Some (ctx_account ctx)\<rparr>"
    "(i, g) \<in> set (created_join s d' (ng_tenant n) (ng_key n))" "im_digest i = ng_digest n"
    "c = \<lparr>cg_id = im_reference i, cg_created = gr_created g, cg_expires = gr_expires g\<rparr>"
    "grants_invar d'"
proof -
  let ?s = "\<lparr>se_role = RoleControl, se_tenant = Some (ctx_tenant ctx), se_account = Some (ctx_account ctx)\<rparr>"
  let ?j = "created_join ?s d (ng_tenant n) (ng_key n)"
  from assms(1) have p: "parse_tenant_context rt ctx = Inr ctx"
    by (auto simp: createPending_def withTenant_Pair parse_tenant_context_def split: sum.split_asm if_split_asm)
  show thesis
  proof (cases "first_row ?j")
    case (Some x)
    obtain i g where x: "x = (i, g)" by (cases x)
    have "(i, g) \<in> set ?j" using first_row_in [OF Some] x by simp
    moreover have "im_digest i = ng_digest n" "d' = d"
      "c = \<lparr>cg_id = im_reference i, cg_created = gr_created g, cg_expires = gr_expires g\<rparr>"
      using assms(1) p Some x
      by (auto simp: createPending_def withTenant_Pair transaction_Inr split: if_split_asm)
    ultimately show thesis using p assms(2) by (intro that [of ?s i g]) simp_all
  next
    case None
    have "create_grant now n ?s d = Inr (c, d')"
      using assms(1) p None by (simp add: createPending_def withTenant_Pair transaction_Inr)
    then obtain site where n:
      "c = \<lparr>cg_id = ng_id n, cg_created = ng_created n, cg_expires = ng_expires n\<rparr>"
      "grant_access ?s d (pending_row n site)" "idem_access ?s d (creation_record now n)"
      "d' = d\<lparr>grants := grants d @ [pending_row n site], idems := idems d @ [creation_record now n]\<rparr>"
      "ng_id n \<notin> gr_id ` set (grants d)" "idem_key (creation_record now n) \<notin> idem_key ` set (idems d)"
      by (rule create_grant_Inr)
    have "grants_invar d'"
      using assms(2) n(5,6) by (auto simp: n(4) grants_invar_def has_pk_def grant_key_def pending_row_def)
    moreover have "(creation_record now n, pending_row n site) \<in>
        set (created_join ?s d' (ng_tenant n) (ng_key n))"
      using n(2,3) unfolding n(4) set_created_join
      by (simp add: grant_key_def idem_key_def pending_row_def creation_record_def)
    ultimately show thesis using p n(1)
      by (intro that [of ?s "creation_record now n" "pending_row n site"])
         (simp_all add: creation_record_def pending_row_def)
  qed
qed

lemma create_twice:
  assumes "createPending rt ctx now n d = (Inr c, d')" and "grants_invar d"
    and "ng_tenant n' = ng_tenant n" and "ng_key n' = ng_key n" and "ng_digest n' = ng_digest n"
  shows "createPending rt ctx later n' d' = (Inr c, d')"
proof -
  obtain s i g where *: "parse_tenant_context rt ctx = Inr ctx"
    "s = \<lparr>se_role = RoleControl, se_tenant = Some (ctx_tenant ctx), se_account = Some (ctx_account ctx)\<rparr>"
    "(i, g) \<in> set (created_join s d' (ng_tenant n) (ng_key n))" "im_digest i = ng_digest n"
    "c = \<lparr>cg_id = im_reference i, cg_created = gr_created g, cg_expires = gr_expires g\<rparr>"
    "grants_invar d'"
    by (rule create_new [OF assms(1,2)])
  from created_join_unique [OF *(3,6)] * assms(3-5) show ?thesis
    by (simp add: createPending_def withTenant_Pair transaction_Inr)
qed

interpretation postgres_grants:
  grant_store "postgres_grants rt ctx" grants_invar grant_status_of "completion_recorded rt"
  for rt ctx
proof unfold_locales
  fix now t g k and d :: db and found d'
  assume "gp_find (postgres_grants rt ctx now) t g k d = (found, d')"
  then show "d' = d"
    unfolding postgres_grants_def grant_repository.simps findPending_def
    by (cases found) (auto simp: succ_simps dest: withTenant_rollback elim!: withTenant_Inr)
next
  fix now t g k and d :: db and p d'
  assume "gp_find (postgres_grants rt ctx now) t g k d = (Inr (Some p), d')"
  then show "pg_tenant p = t \<and> pg_id p = g"
    unfolding postgres_grants_def grant_repository.simps findPending_def
    by (auto simp: succ_simps dest!: first_row_in elim!: withTenant_Inr split: if_splits)
next
  fix now t g k th and d d' :: db
  assume "grants_invar d" "gp_activate (postgres_grants rt ctx now) t g k th d = (Inr (), d')"
  then show "d' = d \<and> completion_recorded rt d t g k th \<or> grant_status_of d t g = Some GrantPending
      \<and> grant_status_of d' t g = Some GrantActive \<and> completion_recorded rt d' t g k th"
    using finish_effect [of "\<lambda>g. g\<lparr>gr_status := GrantActive\<rparr>" rt ctx now t g k th d d']
    by (simp add: postgres_grants_def activateGrant_def grant_key_def grants_invar_def)
next
  fix now t g k th and d d' :: db
  assume "grants_invar d" "gp_deny (postgres_grants rt ctx now) t g k th d = (Inr (), d')"
  then show "d' = d \<and> completion_recorded rt d t g k th \<or> grant_status_of d t g = Some GrantPending
      \<and> grant_status_of d' t g = Some GrantRevoked \<and> completion_recorded rt d' t g k th"
    using finish_effect [of "\<lambda>g. g\<lparr>gr_status := GrantRevoked, gr_revoked := Some now,
        gr_reason := Some ''consent_denied''\<rparr>" rt ctx now t g k th d d']
    by (simp add: postgres_grants_def denyGrant_def grant_key_def grants_invar_def)
next
  fix now later c and n n' :: new_grant and d d' :: db
  assume "grants_invar d" "gp_create (postgres_grants rt ctx now) n d = (Inr c, d')"
    "ng_tenant n' = ng_tenant n" "ng_key n' = ng_key n" "ng_digest n' = ng_digest n"
  then show "gp_create (postgres_grants rt ctx later) n' d' = (Inr c, d')"
    by (simp add: postgres_grants_def create_twice)
qed

section \<open>Properties\<close>

text \<open>An example: an owner, a pending pairing attempt, an active site and a pending grant.\<close>

definition sample_ctx :: tenant_context where
  "sample_ctx = \<lparr>ctx_tenant = replicate 36 CHR ''1'', ctx_account = ''account-1'', ctx_correlation = ''corr-0001''\<rparr>"

definition sample_pairing_db :: db where
  "sample_pairing_db = empty_db\<lparr>
     memberships := [\<lparr>mem_tenant = replicate 36 CHR ''1'', mem_account = ''account-1'', mem_role = Owner,
       mem_active = True, mem_created = 0\<rparr>],
     attempts := [\<lparr>pa_tenant = replicate 36 CHR ''1'', pa_id = ''attempt-01'', pa_initiator = ''account-1'',
       pa_resource = ''https://a.example/mcp'', pa_verifier = pad32 (sample_token CHR ''v''),
       pa_status = PairPending, pa_expires = 600000, pa_consumed = None, pa_site = None,
       pa_failure = None, pa_correlation = ''corr-0001''\<rparr>]\<rparr>"

definition sample_verify :: pairing_verify where
  "sample_verify = \<lparr>vf_tenant = replicate 36 CHR ''1'', vf_attempt = ''attempt-01'',
     vf_verifier = sample_token CHR ''v'', vf_site = ''site-0001'', vf_key = ''idempotency-key-1''\<rparr>"

definition sample_service :: pairing_service where
  "sample_service = \<lparr>ps_issuer = ''https://p.example/'', ps_pem = ''pem'', ps_kid = ''kid-00001''\<rparr>"

definition sample_pairing :: "(thrown + verified_proof) \<times> db" where
  "sample_pairing = pairingVerify sample_runtime sample_service
     (postgres_pairing sample_runtime sample_ctx 1000) (\<lambda>q. sample_verified) 1000 (sample_token CHR ''c'')
     sample_verify sample_pairing_db"

lemma sample_pairing_eval: "sample_pairing = (Inr (projr sample_verified), snd sample_pairing)"
  by (rule known_outcome) code_simp

text \<open>
  C5. A pairing attempt is verified at most once: after a verification succeeded, any later one for
  the same attempt fails, whoever asks, whatever secret and key it brings and whatever the site
  would answer.
\<close>

theorem pairing_verified_once:
  assumes "pairingVerify rt ps (postgres_pairing rt ctx now) client now ch q d = (Inr p, d')"
    and "has_pk attempt_key (attempts d)"
    and "vf_tenant q' = vf_tenant q" and "vf_attempt q' = vf_attempt q"
  shows "\<not> is_ok (fst (pairingVerify rt ps (postgres_pairing rt ctx' later) client' later ch' q' d'))"
proof -
  have "attempts_invar d" using assms(2) by (simp add: attempts_invar_def)
  from postgres_pairing.verified_not_pending [OF this assms(1)] show ?thesis
    using assms(3,4) by (intro postgres_pairing.verify_needs_pending) simp_all
qed

theorem pairing_verified_once_witness:
  "\<not> is_ok (fst (pairingVerify sample_runtime sample_service
     (postgres_pairing sample_runtime sample_ctx 2000) (\<lambda>q. sample_verified) 2000 (sample_token CHR ''d'')
     (sample_verify\<lparr>vf_key := ''idempotency-key-2''\<rparr>) (snd sample_pairing)))"
  unfolding sample_pairing_def
  by (rule pairing_verified_once [OF sample_pairing_eval [unfolded sample_pairing_def]]) code_simp+

text \<open>
  A pairing that completes for the first time makes an active site of the resource the attempt was
  begun for, with the key that signed the proof; the caller manages the tenant; the attempt is
  used up; and no two live sites share a resource.
\<close>

theorem pairing_creates_site:
  assumes "completePairing rt ctx now rec p i k d = (Inr (), d')" and "sites_ok (sites d)"
    and "\<forall>m\<in>set (idems d). idem_key m \<noteq> (ar_tenant rec, ''pairing.complete'', k)"
  shows "sites_ok (sites d') \<and>
     has_tenant_role d (ar_tenant rec) (Some (ctx_account ctx)) [Owner, Administrator] \<and>
     ar_tenant rec = ctx_tenant ctx \<and>
     (\<exists>x\<in>set (sites d'). si_id x = i \<and> si_tenant x = ar_tenant rec \<and> si_status x = SiteActive \<and>
        si_resource x = ar_resource rec \<and> si_thumbprint x = vp_thumbprint p) \<and>
     (\<exists>a\<in>set (attempts d'). attempt_key a = (ar_tenant rec, ar_id rec) \<and> pa_status a = PairActive \<and>
        pa_initiator a = ctx_account ctx \<and> pa_site a = Some i)"
  using assms(1) unfolding completePairing_def Let_def
proof (rule withTenant_Inr)
  fix s
  assume s: "se_role s = RoleControl" "se_tenant s = Some (ctx_tenant ctx)"
      "se_account s = Some (ctx_account ctx)"
    and r: "(case prior_record s d (ar_tenant rec) ''pairing.complete'' k of
        Some prior \<Rightarrow>
          if im_digest prior \<noteq> pairing_digest rt rec p i \<or> im_reference prior \<noteq> i
          then Inl ''idempotency_conflict'' else Inr ((), d)
      | None \<Rightarrow> pairing_completion rt now rec p i k s d) = Inr ((), d')"
  have none: "prior_record s d (ar_tenant rec) ''pairing.complete'' k = None"
    using assms(3) by (auto simp: prior_record_def filter_empty_conv)
  let ?P = "\<lambda>r. pairing_access s d r \<and> attempt_key r = (ar_tenant rec, ar_id rec) \<and>
      pa_status r = PairVerifying \<and> pa_expires r > now"
  from r none obtain hostname st where c:
    "site_insert s d \<lparr>si_tenant = ar_tenant rec, si_id = i, si_resource = ar_resource rec,
       si_hostname = hostname, si_status = SiteActive, si_jwk = jwk_json (vp_jwk p),
       si_thumbprint = vp_thumbprint p, si_created = now, si_revoked = None\<rparr>"
    "insert_site \<lparr>si_tenant = ar_tenant rec, si_id = i, si_resource = ar_resource rec,
       si_hostname = hostname, si_status = SiteActive, si_jwk = jwk_json (vp_jwk p),
       si_thumbprint = vp_thumbprint p, si_created = now, si_revoked = None\<rparr> (sites d) = Inr st"
    "row_count ?P (attempts d) = 1" "sites d' = st"
    "attempts d' = sql_update ?P (\<lambda>r. r\<lparr>pa_status := PairActive, pa_consumed := Some now,
       pa_site := Some i\<rparr>) (attempts d)"
    unfolding pairing_completion_def by (auto simp: succ_simps insert_idem_def)
  from row_count_pos [OF c(3)] obtain a where a: "a \<in> set (attempts d)" "?P a" by blast
  have "\<exists>x\<in>set st. si_id x = i \<and> si_tenant x = ar_tenant rec \<and> si_status x = SiteActive \<and>
      si_resource x = ar_resource rec \<and> si_thumbprint x = vp_thumbprint p"
    using c(2) by (auto simp: insert_site_def sql_insert_Inr split: if_split_asm)
  moreover have "\<exists>b\<in>set (attempts d'). attempt_key b = (ar_tenant rec, ar_id rec) \<and>
      pa_status b = PairActive \<and> pa_initiator b = ctx_account ctx \<and> pa_site b = Some i"
    unfolding c(5) set_sql_update
    by (rule bexI [OF _ imageI [OF a(1)]]) (use a(2) s(3) in \<open>simp add: pairing_access_def\<close>)
  ultimately show ?thesis
    using c(1,2,4) s assms(2) by (simp add: insert_site_ok site_insert_def)
qed

definition sample_verifying :: db where
  "sample_verifying = sample_pairing_db\<lparr>attempts := map (\<lambda>r. r\<lparr>pa_status := PairVerifying\<rparr>)
     (attempts sample_pairing_db)\<rparr>"

definition sample_record :: attempt_record where
  "sample_record = \<lparr>ar_tenant = replicate 36 CHR ''1'', ar_id = ''attempt-01'', ar_resource = ''https://a.example/mcp'',
     ar_verifier = pad32 (sample_token CHR ''v''), ar_status = PairVerifying, ar_expires = 600000\<rparr>"

theorem pairing_creates_site_witness:
  "\<exists>x\<in>set (sites (snd (completePairing sample_runtime sample_ctx 1000 sample_record (projr sample_verified)
      ''site-0001'' ''idempotency-key-1'' sample_verifying))). si_status x = SiteActive \<and>
      si_resource x = ar_resource sample_record"
proof -
  let ?r = "completePairing sample_runtime sample_ctx 1000 sample_record (projr sample_verified)
      ''site-0001'' ''idempotency-key-1'' sample_verifying"
  have "?r = (Inr (), snd ?r)" by (rule known_outcome) code_simp
  moreover have "sites_ok (sites sample_verifying)" by code_simp
  moreover have "\<forall>m\<in>set (idems sample_verifying).
      idem_key m \<noteq> (ar_tenant sample_record, ''pairing.complete'', ''idempotency-key-1'')" by code_simp
  ultimately show ?thesis using pairing_creates_site by blast
qed

text \<open>
  Beginning a grant is idempotent: repeating the request with the same idempotency key, later and
  with another proposed identifier, changes nothing and returns the same grant, challenge, expiry
  and signed request.
\<close>

theorem grant_begin_idempotent:
  assumes "grantBegin rt (postgres_grants rt ctx now) sign factory issuer now q d = (Inr b, d')"
    and "has_pk grant_key (grants d)" and "has_pk idem_key (idems d)" and "opaque_id g'"
  shows "grantBegin rt (postgres_grants rt ctx later) sign factory issuer later
     (q\<lparr>gb_grant := g'\<rparr>) d' = (Inr b, d')"
  by (rule postgres_grants.begin_again) (use assms in \<open>simp_all add: grants_invar_def\<close>)

definition sample_site_row :: site_row where
  "sample_site_row = \<lparr>si_tenant = replicate 36 CHR ''1'', si_id = ''site-0001'',
     si_resource = ''https://a.example/mcp'', si_hostname = ''a.example'', si_status = SiteActive,
     si_jwk = jwk_json sample_jwk, si_thumbprint = ''thumb'', si_created = 0, si_revoked = None\<rparr>"

definition sample_begin :: grant_begin where
  "sample_begin = \<lparr>gb_tenant = replicate 36 CHR ''1'', gb_grant = ''grant-0001'', gb_site = ''site-0001'',
     gb_subject = ''account-1'', gb_client = ''client-01'', gb_scopes = [''mcp:read''],
     gb_resource = ''https://a.example/mcp'', gb_version = ''1'', gb_key = ''idempotency-key-3''\<rparr>"

definition sample_begun :: "begun_grant result \<times> db" where
  "sample_begun = grantBegin sample_runtime (postgres_grants sample_runtime sample_ctx 1000)
     (\<lambda>j. Inr ''signed'') (\<lambda>j. sample_token CHR ''c'') ''https://p.example/'' 1000 sample_begin
     (sample_pairing_db\<lparr>sites := [sample_site_row]\<rparr>)"

lemma sample_begun_eval: "sample_begun = (Inr (projr (fst sample_begun)), snd sample_begun)"
  by (rule ok_outcome) code_simp

theorem grant_begin_idempotent_witness:
  "grantBegin sample_runtime (postgres_grants sample_runtime sample_ctx 5000) (\<lambda>j. Inr ''signed'')
     (\<lambda>j. sample_token CHR ''c'') ''https://p.example/'' 5000 (sample_begin\<lparr>gb_grant := ''grant-0002''\<rparr>)
     (snd sample_begun) = sample_begun"
proof -
  have "has_pk grant_key (grants (sample_pairing_db\<lparr>sites := [sample_site_row]\<rparr>))"
    "has_pk idem_key (idems (sample_pairing_db\<lparr>sites := [sample_site_row]\<rparr>))" "opaque_id ''grant-0002''"
    by code_simp+
  from grant_begin_idempotent [OF sample_begun_eval [unfolded sample_begun_def] this, of 5000]
  show ?thesis using sample_begun_eval unfolding sample_begun_def by simp
qed

text \<open>
  C7. A consent is recorded only on a proof of the site for exactly this grant: the stored key of the
  site verified its signature, its challenge has the stored digest, and its claims name this platform
  as issuer, the resource as audience, and the tenant, site, subject, client, scopes and decision of
  the grant.  Then the grant was pending and is active or revoked as decided, and the completion is
  recorded under its key with the digest of the grant and the site's key; or a completion with this
  key, grant and site key was recorded before, whatever its decision, and nothing changes.
\<close>

theorem grant_complete_sound:
  assumes "grantComplete rt jo (postgres_grants rt ctx now) issuer now q d = (Inr v, d')"
    and "has_pk grant_key (grants d)" and "has_pk idem_key (idems d)"
  shows "\<exists>g key payload j. fst (findPending rt ctx (gc_tenant q) (gc_grant q) (gc_key q) d) = Inr (Some g) \<and>
     sha256 rt (gc_challenge q) = pg_challenge g \<and> (pg_replay g \<or> now < pg_expires g) \<and>
     SitePublicJwkSchema (pg_jwk g) = Some (vp_jwk v) \<and> importJWK jo (vp_jwk v) = Some key \<and>
     compactVerify jo (gc_proof q) key = Some payload \<and> parse_json jo payload = Some j \<and>
     SiteProofClaimsSchema rt j = Some (vp_claims v) \<and>
     (let c = vp_claims v in pc_kind c = ProofConsent \<and> pc_platform c = issuer \<and>
        pc_challenge c = gc_challenge q \<and> pc_resource c = pg_resource g \<and> pc_aud c = Some (pg_resource g) \<and>
        pc_grant c = Some (pg_id g) \<and> pc_subject c = Some (pg_subject g) \<and>
        pc_client c = Some (pg_client g) \<and> pc_site c = Some (pg_site g) \<and>
        pc_decision c = Some (gc_decision q) \<and> pc_tenant c = pg_tenant g \<and>
        granted_scopes c = map scope_name (pg_scopes g) \<and> now div 1000 < pc_exp c) \<and>
     (d' = d \<and> completion_recorded rt d (gc_tenant q) (gc_grant q) (gc_key q) (vp_thumbprint v) \<or>
      grant_status_of d (gc_tenant q) (gc_grant q) = Some GrantPending \<and>
      grant_status_of d' (gc_tenant q) (gc_grant q) =
        Some (if gc_decision q = Approved then GrantActive else GrantRevoked) \<and>
      completion_recorded rt d' (gc_tenant q) (gc_grant q) (gc_key q) (vp_thumbprint v))"
proof -
  have inv: "grants_invar d" using assms(2,3) by (simp add: grants_invar_def)
  obtain g where g: "gp_find (postgres_grants rt ctx now) (gc_tenant q) (gc_grant q) (gc_key q) d = (Inr (Some g), d)"
    "pg_replay g \<or> now < pg_expires g" "secretHash rt (gc_challenge q) = pg_challenge g"
    and v: "verifySiteProof rt jo (gc_proof q) (pg_jwk g) (expected_consent issuer now q g) = Inr v"
    and st: "d' = d \<and> completion_recorded rt d (gc_tenant q) (gc_grant q) (gc_key q) (vp_thumbprint v) \<or>
      grant_status_of d (gc_tenant q) (gc_grant q) = Some GrantPending \<and>
      grant_status_of d' (gc_tenant q) (gc_grant q) =
        Some (if gc_decision q = Approved then GrantActive else GrantRevoked) \<and>
      completion_recorded rt d' (gc_tenant q) (gc_grant q) (gc_key q) (vp_thumbprint v)"
    by (rule postgres_grants.complete_status [OF inv assms(1)])
  from v obtain key payload j where k: "importJWK jo (vp_jwk v) = Some key"
    "compactVerify jo (gc_proof q) key = Some payload" "parse_json jo payload = Some j"
    "SiteProofClaimsSchema rt j = Some (vp_claims v)" "SitePublicJwkSchema (pg_jwk g) = Some (vp_jwk v)"
    and c: "check_claims rt (vp_claims v) (expected_consent issuer now q g) = Inr ()"
    unfolding verify_iff by blast
  show ?thesis
    by (rule exI [of _ g], rule exI [of _ key], rule exI [of _ payload], rule exI [of _ j])
      (use g st k c [unfolded check_claims_iff] in
        \<open>simp add: Let_def expected_consent_def postgres_grants_def secretHash_def\<close>)
qed

definition sample_consent_json :: json where
  "sample_consent_json = JObj
     [(''kind'', JStr ''consent''), (''protocol_version'', JStr ''1''), (''iss'', JStr ''a.example''),
      (''platform_issuer'', JStr ''https://p.example/''), (''tenant_id'', JStr (replicate 36 CHR ''1'')),
      (''site_id'', JStr ''site-0001''), (''grant_id'', JStr ''grant-0001''),
      (''subject_id'', JStr ''account-1''), (''client_id'', JStr ''client-01''),
      (''resource'', JStr ''https://a.example/mcp''), (''aud'', JStr ''https://a.example/mcp''),
      (''scope'', JArr [JStr ''mcp:read'']), (''decision'', JStr ''approved''),
      (''challenge'', JStr (sample_token CHR ''c'')), (''iat'', JInt 100), (''exp'', JInt 160)]"

definition sample_consent_jose :: jose where
  "sample_consent_jose = sample_jose\<lparr>parse_json := (\<lambda>s. Some sample_consent_json)\<rparr>"

definition sample_completion :: grant_complete where
  "sample_completion = \<lparr>gc_tenant = replicate 36 CHR ''1'', gc_grant = ''grant-0001'', gc_proof = ''jws'',
     gc_challenge = sample_token CHR ''c'', gc_decision = Approved, gc_key = ''idempotency-key-4''\<rparr>"

definition sample_pending :: grant_row where
  "sample_pending = \<lparr>gr_tenant = replicate 36 CHR ''1'', gr_id = ''grant-0001'', gr_site = ''site-0001'',
     gr_subject = ''account-1'', gr_client = ''client-01'', gr_scopes = [''mcp:read''],
     gr_challenge = pad32 (sample_token CHR ''c''), gr_expires = 121000, gr_status = GrantPending,
     gr_version = ''1'', gr_created = 1000, gr_revoked = None, gr_reason = None\<rparr>"

definition sample_grant_db :: db where
  "sample_grant_db = sample_pairing_db\<lparr>sites := [sample_site_row], grants := [sample_pending]\<rparr>"

definition sample_completed :: "(thrown + verified_proof) \<times> db" where
  "sample_completed = grantComplete sample_runtime sample_consent_jose
     (postgres_grants sample_runtime sample_ctx 120000) ''https://p.example/'' 120000 sample_completion
     sample_grant_db"

lemma sample_completed_eval: "sample_completed = (Inr (projr (fst sample_completed)), snd sample_completed)"
  by (rule ok_outcome) code_simp

theorem grant_complete_sound_witness:
  "grant_status_of (snd sample_completed) (replicate 36 CHR ''1'') ''grant-0001'' = Some GrantActive"
proof -
  have "has_pk grant_key (grants sample_grant_db)" "has_pk idem_key (idems sample_grant_db)"
    by code_simp+
  from grant_complete_sound [OF sample_completed_eval [unfolded sample_completed_def] this]
  have "completion_recorded sample_runtime sample_grant_db (gc_tenant sample_completion) (gc_grant sample_completion)
        (gc_key sample_completion) (vp_thumbprint (projr (fst sample_completed))) \<or>
      grant_status_of (snd sample_completed) (gc_tenant sample_completion) (gc_grant sample_completion) =
        Some (if gc_decision sample_completion = Approved then GrantActive else GrantRevoked)"
    unfolding sample_completed_def by blast
  moreover have "idems sample_grant_db = []"
    by (simp add: sample_grant_db_def sample_pairing_db_def empty_db_def)
  moreover have "gc_tenant sample_completion = replicate 36 CHR ''1''"
    "gc_grant sample_completion = ''grant-0001''" "gc_decision sample_completion = Approved"
    by (simp_all only: sample_completion_def grant_complete.simps)
  ultimately show ?thesis by (simp add: completion_recorded_def)
qed

end
