(* ===== verification/Directory.thy ===== *)
theory Directory
  imports Revocation Json_Text
begin

text \<open>
  Security audit events (package security-audit) and the repositories a tenant's members read
  with: tenants, sites, grants and the events themselves, each a query inside the transaction of
  the caller and so under the row-level policies of its session.
\<close>

section \<open>Audit events\<close>

definition SecurityEventNameSchema :: "string list" where
  "SecurityEventNameSchema =
     [''account.authentication_denied'', ''tenant.access_denied'', ''oauth.authorization_denied'',
      ''oauth.code_replay_detected'', ''oauth.refresh_replay_detected'', ''oauth.token_issued'',
      ''key.signing_failed'', ''key.rotation_observed'', ''pairing.started'', ''pairing.verified'',
      ''pairing.denied'', ''grant.created'', ''grant.revoked'', ''site.disconnected'']"

definition SecurityOutcomeSchema :: "(string \<times> audit_outcome) list" where
  "SecurityOutcomeSchema =
     [(''success'', AuditSuccess), (''denied'', AuditDenied), (''error'', AuditError)]"

definition SecurityReasonSchema :: "string list" where
  "SecurityReasonSchema =
     [''none'', ''identity_missing'', ''membership_missing'', ''tenant_context_missing'',
      ''binding_mismatch'', ''replay'', ''kms_unavailable'', ''invalid_input'',
      ''unsafe_event_rejected'', ''ssrf_blocked'', ''proof_invalid'', ''expired'',
      ''idempotency_conflict'', ''site_suspended'', ''consent_denied'']"

record audit_event =
  au_occurred :: string
  au_name :: string
  au_outcome :: audit_outcome
  au_reason :: string
  au_correlation :: string
  au_tenant :: "string option"
  au_site :: "string option"
  au_client :: "string option"
  au_grant :: "string option"
  au_actor :: "string option"
  au_service :: string
  au_version :: string
  au_duration :: "string option"

definition audit_keys :: "string list" where
  "audit_keys = [''occurredAt'', ''eventName'', ''outcome'', ''reason'', ''correlationId'',
     ''tenantId'', ''siteId'', ''clientId'', ''grantId'', ''actorId'', ''service'',
     ''serviceVersion'', ''durationBucket'']"

definition semantic_version :: "string \<Rightarrow> bool" where
  "semantic_version s \<longleftrightarrow>
     (case split_on CHR ''.'' s of [a, b, c] \<Rightarrow> digits a \<and> digits b \<and> digits c | _ \<Rightarrow> False)"

definition SecurityAuditEventSchema :: "runtime \<Rightarrow> json \<Rightarrow> audit_event option" where
  "SecurityAuditEventSchema rt j =
     Option.bind (z_object audit_keys (Some j)) (\<lambda>obj.
     Option.bind (z_str (zod_datetime rt) (map_of obj ''occurredAt'')) (\<lambda>occurred.
     Option.bind (z_str (\<lambda>s. s \<in> set SecurityEventNameSchema) (map_of obj ''eventName'')) (\<lambda>name.
     Option.bind (z_enum SecurityOutcomeSchema (map_of obj ''outcome'')) (\<lambda>outcome.
     Option.bind (z_str (\<lambda>s. s \<in> set SecurityReasonSchema) (map_of obj ''reason'')) (\<lambda>reason.
     Option.bind (z_str opaque_id (map_of obj ''correlationId'')) (\<lambda>correlation.
     Option.bind (z_optional (z_str (zod_uuid rt)) (map_of obj ''tenantId'')) (\<lambda>tenant.
     Option.bind (z_optional (z_str opaque_id) (map_of obj ''siteId'')) (\<lambda>site.
     Option.bind (z_optional (z_str opaque_id) (map_of obj ''clientId'')) (\<lambda>client.
     Option.bind (z_optional (z_str opaque_id) (map_of obj ''grantId'')) (\<lambda>grant.
     Option.bind (z_optional (z_str opaque_id) (map_of obj ''actorId'')) (\<lambda>actor.
     Option.bind (z_str (\<lambda>s. s = ''authorization-service'' \<or> s = ''control-api'')
       (map_of obj ''service'')) (\<lambda>service.
     Option.bind (z_str semantic_version (map_of obj ''serviceVersion'')) (\<lambda>version.
     Option.bind (z_optional (z_str (\<lambda>s. s \<in> set [''lt10ms'', ''lt100ms'', ''lt1s'', ''gte1s'']))
       (map_of obj ''durationBucket'')) (\<lambda>duration.
     Some \<lparr>au_occurred = occurred, au_name = name, au_outcome = outcome, au_reason = reason,
       au_correlation = correlation, au_tenant = tenant, au_site = site, au_client = client,
       au_grant = grant, au_actor = actor, au_service = service, au_version = version,
       au_duration = duration\<rparr>))))))))))))))"

definition validateSecurityEvent :: "runtime \<Rightarrow> json \<Rightarrow> audit_event result" where
  "validateSecurityEvent rt j = parse_or_throw (SecurityAuditEventSchema rt j)"

text \<open>The event as an object again: the members that are present, in the order of the schema.\<close>

definition outcome_name :: "audit_outcome \<Rightarrow> string" where
  "outcome_name out = (case out of AuditSuccess \<Rightarrow> ''success'' | AuditDenied \<Rightarrow> ''denied'' | AuditError \<Rightarrow> ''error'')"

definition opt_member :: "string \<Rightarrow> string option \<Rightarrow> json_object" where
  "opt_member k v = (case v of None \<Rightarrow> [] | Some s \<Rightarrow> [(k, JStr s)])"

definition audit_json :: "audit_event \<Rightarrow> json" where
  "audit_json e = JObj
     ([(''occurredAt'', JStr (au_occurred e)), (''eventName'', JStr (au_name e)),
       (''outcome'', JStr (outcome_name (au_outcome e))), (''reason'', JStr (au_reason e)),
       (''correlationId'', JStr (au_correlation e))] @ opt_member ''tenantId'' (au_tenant e) @
      opt_member ''siteId'' (au_site e) @ opt_member ''clientId'' (au_client e) @
      opt_member ''grantId'' (au_grant e) @ opt_member ''actorId'' (au_actor e) @
      [(''service'', JStr (au_service e)), (''serviceVersion'', JStr (au_version e))] @
      opt_member ''durationBucket'' (au_duration e))"

text \<open>\<open>JsonLineAuditSink.write\<close>: the sink is the list of the lines written.\<close>

definition writeLine :: "runtime \<Rightarrow> json \<Rightarrow> string list \<Rightarrow> unit result \<times> string list" where
  "writeLine rt event lines =
     (case validateSecurityEvent rt event of
        Inl e \<Rightarrow> (Inl e, lines)
      | Inr safe \<Rightarrow> (Inr (), lines @ [json_stringify (audit_json safe)]))"

text \<open>
  \<open>PostgresSecurityAuditSink.write\<close>; \<open>instant\<close> is the database's reading of the time stamp.  The
  writer's policy lets it insert for the tenant of its session only.
\<close>

definition next_event :: "event_row list \<Rightarrow> nat" where
  "next_event t = foldr max (map ev_id t) 0 + 1"

definition event_row_from :: "(string \<Rightarrow> time) \<Rightarrow> string \<Rightarrow> audit_event \<Rightarrow> event_row list \<Rightarrow> event_row" where
  "event_row_from instant tenant e t =
     \<lparr>ev_tenant = tenant, ev_id = next_event t, ev_occurred = instant (au_occurred e),
      ev_name = au_name e, ev_outcome = au_outcome e, ev_reason = au_reason e,
      ev_correlation = au_correlation e, ev_actor = au_actor e, ev_site = au_site e,
      ev_client = au_client e, ev_grant = au_grant e, ev_service = au_service e,
      ev_version = au_version e, ev_duration = au_duration e\<rparr>"

definition writeEvent :: "runtime \<Rightarrow> (string \<Rightarrow> time) \<Rightarrow> json \<Rightarrow> db \<Rightarrow> unit outcome" where
  "writeEvent rt instant input d =
     (case validateSecurityEvent rt input of
        Inl e \<Rightarrow> (Inl e, d)
      | Inr event \<Rightarrow>
          (case au_tenant event of
             None \<Rightarrow> (Inl ''tenant_context_required_for_durable_audit'', d)
           | Some tenant \<Rightarrow>
               withAuditWriter tenant (\<lambda>s d.
                 if se_tenant s \<noteq> Some tenant then Inl rls_violation
                 else Inr ((), d\<lparr>events := events d @ [event_row_from instant tenant event (events d)]\<rparr>)) d))"

section \<open>Reading\<close>

definition findTenant :: "string \<Rightarrow> tenant_view option tx" where
  "findTenant tenantId s d =
     Inr (map_option (\<lambda>r. \<lparr>tv_id = ten_id r, tv_status = ten_status r, tv_created = ten_created r\<rparr>)
       (first_row (filter (\<lambda>r. tenant_access s d r \<and> ten_id r = tenantId) (tenants d))), d)"

record event_view =
  vw_id :: nat
  vw_occurred :: time
  vw_name :: string
  vw_outcome :: audit_outcome
  vw_reason :: string
  vw_correlation :: string
  vw_service :: string

definition event_view_of :: "event_row \<Rightarrow> event_view" where
  "event_view_of r = \<lparr>vw_id = ev_id r, vw_occurred = ev_occurred r, vw_name = ev_name r,
     vw_outcome = ev_outcome r, vw_reason = ev_reason r, vw_correlation = ev_correlation r,
     vw_service = ev_service r\<rparr>"

text \<open>The rows a member sees, newest first: \<open>ORDER BY occurred_at DESC, id DESC\<close>.\<close>

definition visible_events :: "session \<Rightarrow> db \<Rightarrow> audit_outcome option \<Rightarrow> event_row list" where
  "visible_events s d outcome =
     rev (sort_key ev_occurred (sort_key ev_id (filter (\<lambda>r. security_event_access s d r \<and>
       (case outcome of None \<Rightarrow> True | Some v \<Rightarrow> ev_outcome r = v)) (events d))))"

definition listEvents :: "int \<Rightarrow> int \<Rightarrow> audit_outcome option \<Rightarrow> event_view list tx" where
  "listEvents limit offset outcome s d =
     (let safeLimit = clamp 1 100 limit; safeOffset = clamp 0 10000 offset in
      Inr (map event_view_of (take (nat safeLimit) (drop (nat safeOffset) (visible_events s d outcome))), d))"

definition site_view_of :: "site_row \<Rightarrow> site_view" where
  "site_view_of r = \<lparr>sv_id = si_id r, sv_tenant = si_tenant r, sv_resource = si_resource r,
     sv_hostname = si_hostname r, sv_status = si_status r, sv_created = si_created r\<rparr>"

definition findActiveSite :: "string \<Rightarrow> string \<Rightarrow> site_view option tx" where
  "findActiveSite tenantId siteId s d =
     Inr (map_option site_view_of (first_row (filter (\<lambda>r. site_select s d r \<and> si_tenant r = tenantId \<and>
       si_id r = siteId \<and> si_status r = SiteActive) (sites d))), d)"

text \<open>Identifiers are ordered by their code units.\<close>

abbreviation text_key :: "string \<Rightarrow> nat list" where
  "text_key \<equiv> map of_char"

definition listSites :: "site_view list tx" where
  "listSites s d =
     Inr (map site_view_of (sort_key si_created (sort_key (\<lambda>r. text_key (si_id r))
       (filter (\<lambda>r. site_select s d r \<and> si_status r \<noteq> SiteDeleted) (sites d)))), d)"

definition disconnectSite :: "string \<Rightarrow> string \<Rightarrow> time \<Rightarrow> bool tx" where
  "disconnectSite tenantId siteId now s d = disconnect_site_with_event tenantId siteId now s d"

definition grant_view_of :: "grant_row \<Rightarrow> grant_view option" where
  "grant_view_of r = map_option (\<lambda>scopes. \<lparr>gv_id = gr_id r, gv_tenant = gr_tenant r,
     gv_site = gr_site r, gv_subject = gr_subject r, gv_client = gr_client r, gv_scopes = scopes,
     gv_status = gr_status r, gv_version = gr_version r, gv_created = gr_created r\<rparr>)
     (parse_scope_set (gr_scopes r))"

definition listGrants :: "grant_view list tx" where
  "listGrants s d =
     and_then (parse_or_throw (z_all grant_view_of
       (sort_key gr_created (sort_key (\<lambda>r. text_key (gr_id r))
         (filter (grant_access s d) (grants d))))))
     (\<lambda>views. Inr (views, d))"

definition revokeGrantView :: "string \<Rightarrow> string \<Rightarrow> time \<Rightarrow> bool tx" where
  "revokeGrantView tenantId grantId now s d = revoke_grant_with_event tenantId grantId now s d"

section \<open>What a reader sees\<close>

lemma set_visible_events:
  "set (visible_events s d outcome) = {r \<in> set (events d). security_event_access s d r \<and>
     (case outcome of None \<Rightarrow> True | Some v \<Rightarrow> ev_outcome r = v)}"
  by (simp add: visible_events_def)

lemma writeEvent_Inr:
  "writeEvent rt instant j d = (Inr (), d') \<longleftrightarrow>
     (\<exists>e t. SecurityAuditEventSchema rt j = Some e \<and> au_tenant e = Some t \<and>
        d' = d\<lparr>events := events d @ [event_row_from instant t e (events d)]\<rparr>)"
  by (auto simp: writeEvent_def validateSecurityEvent_def withAuditWriter_def transaction_def
      role_session_def parse_or_throw_def split: sum.splits option.splits)

text \<open>A write for one tenant is invisible to the sessions of every other.\<close>

lemma visible_events_other:
  assumes "ev_tenant r = t" and "se_tenant s \<noteq> Some t"
  shows "visible_events s (d\<lparr>events := events d @ [r]\<rparr>) outcome = visible_events s d outcome"
  using assms by (simp add: visible_events_def security_event_access_def has_active_membership_def)

lemma listEvents_page:
  assumes "1 \<le> l" and "l \<le> 100" and "int i * l \<le> 10000"
  shows "fst (projr (listEvents l (int i * l) outcome s d)) =
     map event_view_of (take (nat l) (drop (i * nat l) (visible_events s d outcome)))"
  using assms by (simp add: listEvents_def Let_def clamp_id nat_mult_distrib)

lemma take_page: "take (Suc k * l) xs = take (k * l) xs @ take l (drop (k * l) xs)"
  by (metis add.commute mult_Suc take_add)

text \<open>
  C28. An audit event that is written is read by the members of its tenant and by nobody else: the lists
  of every session in another tenant, or of an account that is not a member, stay as they were, and
  a member's list gains exactly this event.
\<close>

theorem audit_event_isolated:
  assumes "writeEvent rt instant j d = (Inr (), d')"
  shows "\<exists>e t row. validateSecurityEvent rt j = Inr e \<and> au_tenant e = Some t \<and>
     ev_name row = au_name e \<and> ev_outcome row = au_outcome e \<and> ev_tenant row = t \<and>
     (if se_tenant s = Some t \<and> has_active_membership d t (se_account s)
      then set (visible_events s d' None) = insert row (set (visible_events s d None))
      else visible_events s d' None = visible_events s d None)"
proof -
  from assms obtain e t where e: "SecurityAuditEventSchema rt j = Some e" "au_tenant e = Some t"
    and d': "d' = d\<lparr>events := events d @ [event_row_from instant t e (events d)]\<rparr>"
    by (auto simp: writeEvent_Inr)
  let ?row = "event_row_from instant t e (events d)"
  have row: "ev_name ?row = au_name e" "ev_outcome ?row = au_outcome e" "ev_tenant ?row = t"
    by (simp_all add: event_row_from_def)
  show ?thesis
  proof (intro exI conjI)
    show "validateSecurityEvent rt j = Inr e" using e by (simp add: validateSecurityEvent_def)
    show "if se_tenant s = Some t \<and> has_active_membership d t (se_account s)
      then set (visible_events s d' None) = insert ?row (set (visible_events s d None))
      else visible_events s d' None = visible_events s d None"
    proof (cases "se_tenant s = Some t")
      case True
      then have a: "\<And>r. security_event_access s d' r = security_event_access s d r"
        and b: "security_event_access s d ?row = has_active_membership d t (se_account s)"
        by (simp_all add: security_event_access_def has_active_membership_def d' row)
      show ?thesis
      proof (cases "has_active_membership d t (se_account s)")
        case True
        then show ?thesis
          using \<open>se_tenant s = Some t\<close> by (auto simp: set_visible_events a b) (auto simp: d')
      next
        case False
        then show ?thesis using a b by (simp add: visible_events_def) (simp add: d')
      qed
    next
      case False
      then show ?thesis using row(3) by (simp add: d' visible_events_other)
    qed
  qed (use e row in simp_all)
qed

text \<open>The values the schema accepts, member by member.\<close>

definition audit_ok :: "runtime \<Rightarrow> audit_event \<Rightarrow> bool" where
  "audit_ok rt e \<longleftrightarrow> zod_datetime rt (au_occurred e) \<and> au_name e \<in> set SecurityEventNameSchema \<and>
     au_reason e \<in> set SecurityReasonSchema \<and> opaque_id (au_correlation e) \<and>
     pred_option (zod_uuid rt) (au_tenant e) \<and> pred_option opaque_id (au_site e) \<and>
     pred_option opaque_id (au_client e) \<and> pred_option opaque_id (au_grant e) \<and>
     pred_option opaque_id (au_actor e) \<and>
     (au_service e = ''authorization-service'' \<or> au_service e = ''control-api'') \<and>
     semantic_version (au_version e) \<and>
     pred_option (\<lambda>s. s \<in> set [''lt10ms'', ''lt100ms'', ''lt1s'', ''gte1s'']) (au_duration e)"

lemma z_optional_str_ok: "z_optional (z_str P) j = Some w \<Longrightarrow> pred_option P w"
  by (auto simp: z_optional_def split: option.splits)

lemma z_optional_str_back: "pred_option P v \<Longrightarrow> z_optional (z_str P) (map_option JStr v) = Some v"
  by (cases v) (auto simp: z_optional_def)

lemma audit_schema_ok:
  assumes "SecurityAuditEventSchema rt j = Some e"
  shows "audit_ok rt e"
  using assms unfolding SecurityAuditEventSchema_def bind_eq_Some_conv z_str_Some
  by (elim exE conjE) (auto simp: audit_ok_def simp del: set_simps dest!: z_optional_str_ok)

lemma map_of_opt_member:
  "map_of (opt_member k v @ r) x = (if x = k then (case v of None \<Rightarrow> map_of r x | Some s \<Rightarrow> Some (JStr s)) else map_of r x)"
  "map_of (opt_member k v) x = (if x = k then map_option JStr v else None)"
  by (simp_all add: opt_member_def split: option.split)

lemma audit_keys_json: "z_object audit_keys (Some (audit_json e)) = Some (case audit_json e of JObj obj \<Rightarrow> obj)"
proof -
  have k: "P k \<Longrightarrow> list_all (\<lambda>kv. P (fst kv)) (opt_member k v)" for P k v
    by (simp add: opt_member_def split: option.split)
  have names: "''occurredAt'' \<in> set audit_keys"
    "''eventName'' \<in> set audit_keys"
    "''outcome'' \<in> set audit_keys"
    "''reason'' \<in> set audit_keys"
    "''correlationId'' \<in> set audit_keys"
    "''tenantId'' \<in> set audit_keys"
    "''siteId'' \<in> set audit_keys"
    "''clientId'' \<in> set audit_keys"
    "''grantId'' \<in> set audit_keys"
    "''actorId'' \<in> set audit_keys"
    "''service'' \<in> set audit_keys"
    "''serviceVersion'' \<in> set audit_keys"
    "''durationBucket'' \<in> set audit_keys"
    by (simp_all add: audit_keys_def)
  show ?thesis
    by (simp add: z_object_def strict_keys_def audit_json_def names k [of "\<lambda>x. x \<in> set audit_keys"])
qed

lemma outcome_back: "z_enum SecurityOutcomeSchema (Some (JStr (outcome_name out))) = Some out"
  by (cases out) (simp_all add: z_enum_def SecurityOutcomeSchema_def outcome_name_def)

lemma audit_json_back:
  assumes "audit_ok rt e"
  shows "SecurityAuditEventSchema rt (audit_json e) = Some e"
proof -
  have c: "(case v of None \<Rightarrow> None | Some s \<Rightarrow> Some (JStr s)) = map_option JStr v" for v
    by (cases v) simp_all
  have s: "P s \<Longrightarrow> z_str P (Some (JStr s)) = Some s" for P s by simp
  show ?thesis
    using assms unfolding SecurityAuditEventSchema_def audit_keys_json audit_ok_def
    by (simp add: audit_json_def map_of_opt_member c s outcome_back z_optional_str_back del: set_simps map_of_append cong: option.case_cong)
qed

text \<open>
  A line the sink writes is the event again: parsing the object of a validated event gives back
  that event.
\<close>

theorem audit_event_roundtrip:
  assumes "validateSecurityEvent rt j = Inr e"
  shows "validateSecurityEvent rt (audit_json e) = Inr e"
  using assms by (simp add: validateSecurityEvent_def audit_schema_ok audit_json_back)

definition sample_audit :: json where
  "sample_audit = JObj [(''occurredAt'', JStr ''2026-01-01''), (''eventName'', JStr ''grant.revoked''),
     (''outcome'', JStr ''success''), (''reason'', JStr ''none''), (''correlationId'', JStr ''corr-0001''),
     (''tenantId'', JStr ''t1''), (''service'', JStr ''control-api''), (''serviceVersion'', JStr ''1.0.0'')]"

theorem audit_event_roundtrip_witness:
  "\<exists>e. validateSecurityEvent (sample_runtime\<lparr>zod_uuid := \<lambda>s. True\<rparr>) (audit_json e) = Inr e"
proof -
  have "is_ok (validateSecurityEvent (sample_runtime\<lparr>zod_uuid := \<lambda>s. True\<rparr>) sample_audit)"
    by code_simp
  then obtain e where "validateSecurityEvent (sample_runtime\<lparr>zod_uuid := \<lambda>s. True\<rparr>) sample_audit = Inr e"
    by (auto simp: is_ok_iff)
  from audit_event_roundtrip [OF this] show ?thesis by blast
qed

text \<open>
  Reading the events page by page neither loses nor repeats one: for a page size within the bounds,
  the first pages put together are the beginning of the list, newest first, as far as the largest
  offset.
\<close>

theorem event_pages_partition:
  assumes "1 \<le> l" and "l \<le> 100" and "int k * l \<le> 10000 + l"
  shows "concat (map (\<lambda>i. fst (projr (listEvents l (int i * l) outcome s d))) [0..<k]) =
     map event_view_of (take (k * nat l) (visible_events s d outcome))"
  using assms(3)
proof (induction k)
  case (Suc k)
  from Suc.prems have k: "int k * l \<le> 10000" by (simp add: algebra_simps)
  with assms(1) have "concat (map (\<lambda>i. fst (projr (listEvents l (int i * l) outcome s d))) [0..<k]) =
      map event_view_of (take (k * nat l) (visible_events s d outcome))" by (intro Suc.IH) simp
  with listEvents_page [OF assms(1,2) k] show ?case
    by (simp add: take_page del: mult_Suc)
qed simp

definition sample_written :: "unit outcome" where
  "sample_written = writeEvent (sample_runtime\<lparr>zod_uuid := \<lambda>s. True\<rparr>) (\<lambda>s. 7) sample_audit sample_revocation_db"

theorem audit_event_isolated_witness:
  "\<exists>row. ev_name row = ''grant.revoked'' \<and> set (visible_events sample_session (snd sample_written) None) = {row}"
proof -
  let ?rt = "sample_runtime\<lparr>zod_uuid := \<lambda>s. True\<rparr>"
  have w: "writeEvent ?rt (\<lambda>s. 7) sample_audit sample_revocation_db = (Inr (), snd sample_written)"
    by code_simp
  have v: "map_sum id (\<lambda>e. (au_name e, au_tenant e)) (validateSecurityEvent ?rt sample_audit) =
      Inr (''grant.revoked'', Some ''t1'')" by code_simp
  have m: "has_active_membership sample_revocation_db ''t1'' (se_account sample_session)"
    "se_tenant sample_session = Some ''t1''" "visible_events sample_session sample_revocation_db None = []"
    by code_simp+
  obtain e t row where "validateSecurityEvent ?rt sample_audit = Inr e" "au_tenant e = Some t"
      "ev_name row = au_name e"
    and "if se_tenant sample_session = Some t \<and>
           has_active_membership sample_revocation_db t (se_account sample_session)
         then set (visible_events sample_session (snd sample_written) None) =
           insert row (set (visible_events sample_session sample_revocation_db None))
         else visible_events sample_session (snd sample_written) None =
           visible_events sample_session sample_revocation_db None"
    using audit_event_isolated [OF w, of sample_session] by blast
  with v m show ?thesis by auto
qed

theorem event_pages_partition_witness:
  "concat (map (\<lambda>i. fst (projr (listEvents 2 (int i * 2) None sample_session sample_revocation_db))) [0..<3]) =
     map event_view_of (take (3 * nat 2) (visible_events sample_session sample_revocation_db None))"
  by (rule event_pages_partition) simp_all

end
