(* ===== verification/Deletion.thy ===== *)
theory Deletion
  imports Directory
begin

text \<open>
  The deletion of an account, a tenant or a site (\<open>DataLifecycleService\<close> and the functions of
  migration 007): a job first revokes everything that gives access, waits six minutes, and then
  purges the rows.  The functions run as the owner and see every row.
\<close>

section \<open>Scopes and reports\<close>

datatype deletion_scope = AccountScope string | TenantScope string | SiteScope string string

fun deletionScopeArgs :: "deletion_scope \<Rightarrow> scope_kind \<times> string \<times> string option" where
  "deletionScopeArgs (AccountScope accountId) = (ScopeAccount, accountId, None)"
| "deletionScopeArgs (TenantScope tenantId) = (ScopeTenant, tenantId, Some tenantId)"
| "deletionScopeArgs (SiteScope tenantId siteId) = (ScopeSite, siteId, Some tenantId)"

datatype report_status = ReportWaiting | ReportComplete | ReportFailed

record deletion_report =
  dr_job :: string
  dr_kind :: scope_kind
  dr_scope :: string
  dr_status :: report_status
  dr_safe_after :: "string option"
  dr_completed :: "string option"
  dr_failure :: "string option"
  dr_counts :: json_object

definition kind_names :: "(string \<times> scope_kind) list" where
  "kind_names = [(''account'', ScopeAccount), (''tenant'', ScopeTenant), (''site'', ScopeSite)]"

definition report_names :: "(string \<times> report_status) list" where
  "report_names = [(''waiting'', ReportWaiting), (''complete'', ReportComplete), (''failed'', ReportFailed)]"

definition parseDeletionReport :: "json \<Rightarrow> deletion_report result" where
  "parseDeletionReport value =
     (case value of
        JObj record \<Rightarrow>
          (case (z_str (\<lambda>_. True) (map_of record ''jobId''), z_enum kind_names (map_of record ''scopeKind''),
                 z_str (\<lambda>_. True) (map_of record ''scopeId''), z_enum report_names (map_of record ''status''),
                 map_of record ''counts'') of
             (Some job, Some kind, Some scope, Some status, Some (JObj counts)) \<Rightarrow>
               Inr \<lparr>dr_job = job, dr_kind = kind, dr_scope = scope, dr_status = status,
                    dr_safe_after = payload_text ''safeAfter'' record,
                    dr_completed = payload_text ''completedAt'' record,
                    dr_failure = payload_text ''failureCode'' record, dr_counts = counts\<rparr>
           | _ \<Rightarrow> Inl ''deletion_report_invalid'')
      | _ \<Rightarrow> Inl ''deletion_report_invalid'')"

section \<open>Beginning a job\<close>

definition job_class :: char_class where "job_class = id_class"
definition object_class :: char_class where "object_class = [(46, 46), (58, 58)] @ id_class"

definition tombstone_key :: "tombstone_row \<Rightarrow> string \<times> string \<times> string" where
  "tombstone_key r = (tb_job r, tb_kind r, tb_object r)"

text \<open>\<open>INSERT ... ON CONFLICT DO NOTHING\<close>\<close>

fun add_tombstones :: "tombstone_row list \<Rightarrow> tombstone_row list \<Rightarrow> tombstone_row list" where
  "add_tombstones [] t = t"
| "add_tombstones (r # rs) t =
     add_tombstones rs (if tombstone_key r \<in> set (map tombstone_key t) then t else t @ [r])"

definition grant_stones :: "string \<Rightarrow> (grant_row \<Rightarrow> bool) \<Rightarrow> db \<Rightarrow> tombstone_row list" where
  "grant_stones job P d = map (\<lambda>g. \<lparr>tb_job = job, tb_kind = ''grant'', tb_object = gr_id g,
     tb_tenant = Some (gr_tenant g)\<rparr>) (filter P (grants d))"

definition deletion_stones :: "string \<Rightarrow> scope_kind \<Rightarrow> string \<Rightarrow> string \<Rightarrow> db \<Rightarrow> tombstone_row list" where
  "deletion_stones job kind scope tenant d =
     (case kind of
        ScopeAccount \<Rightarrow>
          \<lparr>tb_job = job, tb_kind = ''account'', tb_object = scope, tb_tenant = None\<rparr>
          # map (\<lambda>m. \<lparr>tb_job = job, tb_kind = ''membership'',
                tb_object = mem_tenant m @ '':'' @ mem_account m, tb_tenant = Some (mem_tenant m)\<rparr>)
              (filter (\<lambda>m. mem_account m = scope) (memberships d))
          @ grant_stones job (\<lambda>g. gr_subject g = scope) d
      | ScopeTenant \<Rightarrow>
          \<lparr>tb_job = job, tb_kind = ''tenant'', tb_object = tenant, tb_tenant = Some tenant\<rparr>
          # map (\<lambda>r. \<lparr>tb_job = job, tb_kind = ''site'', tb_object = si_id r, tb_tenant = Some (si_tenant r)\<rparr>)
              (filter (\<lambda>r. si_tenant r = tenant) (sites d))
          @ grant_stones job (\<lambda>g. gr_tenant g = tenant) d
      | ScopeSite \<Rightarrow>
          \<lparr>tb_job = job, tb_kind = ''site'', tb_object = scope, tb_tenant = Some tenant\<rparr>
          # grant_stones job (\<lambda>g. gr_tenant g = tenant \<and> gr_site g = scope) d)"

definition owns_alone :: "string \<Rightarrow> db \<Rightarrow> bool" where
  "owns_alone account d \<longleftrightarrow> list_ex (\<lambda>owned. mem_account owned = account \<and> mem_role owned = Owner \<and>
     mem_active owned \<and> \<not> list_ex (\<lambda>m. mem_tenant m = mem_tenant owned \<and> mem_account m \<noteq> account \<and>
       mem_role m = Owner \<and> mem_active m) (memberships d)) (memberships d)"

definition deletion_subject :: "scope_kind \<Rightarrow> string \<Rightarrow> string \<Rightarrow> db \<Rightarrow> unit result" where
  "deletion_subject kind scope tenant d =
     (case kind of
        ScopeAccount \<Rightarrow>
          if \<not> list_ex (\<lambda>a. acc_id a = scope) (accounts d) then Inl ''deletion_subject_missing''
          else if owns_alone scope d then Inl ''deletion_owner_transfer_required'' else Inr ()
      | ScopeTenant \<Rightarrow>
          if scope \<noteq> tenant \<or> \<not> list_ex (\<lambda>t. ten_id t = tenant) (tenants d)
          then Inl ''deletion_subject_missing'' else Inr ()
      | ScopeSite \<Rightarrow>
          if \<not> list_ex (\<lambda>r. si_tenant r = tenant \<and> si_id r = scope) (sites d)
          then Inl ''deletion_subject_missing'' else Inr ())"

definition begin_deletion_job ::
  "string \<Rightarrow> scope_kind \<Rightarrow> string \<Rightarrow> string option \<Rightarrow> string \<Rightarrow> db \<Rightarrow> (string \<times> db) result" where
  "begin_deletion_job job kind scope tenant requestedBy d =
     (if \<not> rx job_class 16 128 job \<or> \<not> rx object_class 8 256 scope \<or> \<not> rx job_class 8 128 requestedBy
      then Inl ''deletion_request_invalid''
      else if (kind = ScopeAccount) \<noteq> (tenant = None) then Inl ''deletion_scope_invalid''
      else if lookup_by dj_id job (deletion_jobs d) \<noteq> None then Inr (job, d)
      else and_then (deletion_subject kind scope (case tenant of None \<Rightarrow> [] | Some t \<Rightarrow> t) d) (\<lambda>_.
        Inr (job, d\<lparr>
          deletion_jobs := deletion_jobs d @ [\<lparr>dj_id = job, dj_kind = kind, dj_scope = scope,
            dj_tenant = tenant, dj_requested_by = requestedBy, dj_status = JobPending,
            dj_safe_after = None, dj_completed = None, dj_failure = None, dj_counts = []\<rparr>],
          tombstones := add_tombstones
            (deletion_stones job kind scope (case tenant of None \<Rightarrow> [] | Some t \<Rightarrow> t) d) (tombstones d)\<rparr>)))"

text \<open>\<open>DataLifecycleService.begin\<close>; \<open>uuid\<close> is the random identifier without its hyphens.\<close>

definition beginDeletion :: "deletion_scope \<Rightarrow> string \<Rightarrow> string \<Rightarrow> db \<Rightarrow> (string \<times> deletion_scope) outcome" where
  "beginDeletion scope requestedBy uuid d =
     (let (kind, scopeId, tenantId) = deletionScopeArgs scope; jobId = ''deletion_'' @ uuid in
      withAuthorizationService (\<lambda>s d.
        and_then (begin_deletion_job jobId kind scopeId tenantId requestedBy d)
          (\<lambda>(_, d'). Inr ((jobId, scope), d'))) d)"

section \<open>Revoking\<close>

text \<open>An insertion \<open>ON CONFLICT DO NOTHING\<close> into the outbox; \<open>clock\<close> is the database's \<open>now()\<close>.\<close>

definition emit_or_keep :: "string \<Rightarrow> string \<Rightarrow> string \<Rightarrow> event_type \<Rightarrow> string option \<Rightarrow> string \<Rightarrow> time \<Rightarrow>
    outbox_row list \<Rightarrow> outbox_row list" where
  "emit_or_keep tenant site resource type grant reason clock t =
     (case emit_event tenant site resource type grant None reason clock t of Inl _ \<Rightarrow> t | Inr u \<Rightarrow> u)"

definition account_grant_step :: "time \<Rightarrow> time \<Rightarrow> grant_row \<Rightarrow> db \<times> nat \<Rightarrow> db \<times> nat" where
  "account_grant_step clock now g dn =
     (let d = fst dn; n = snd dn;
          d1 = d\<lparr>grants := sql_update (\<lambda>r. gr_tenant r = gr_tenant g \<and> gr_id r = gr_id g)
                 (revoke_grant_row ''account_deleted'' now) (grants d)\<rparr> in
      case site_at (gr_tenant g) (gr_site g) (sites d) of
        None \<Rightarrow> (d1, n)
      | Some site \<Rightarrow> (d1\<lparr>outbox := emit_or_keep (gr_tenant g) (gr_site g) (si_resource site) EvGrant
            (Some (gr_id g)) ''account_deleted'' clock (outbox d)\<rparr>, n + 1))"

definition delete_account_access :: "time \<Rightarrow> time \<Rightarrow> string \<Rightarrow> db \<Rightarrow> db \<times> nat" where
  "delete_account_access clock now account d =
     (let d1 = d\<lparr>
        account_sessions := sql_update (\<lambda>r. as_account r = account \<and> as_revoked r = None)
          (\<lambda>r. r\<lparr>as_revoked := Some now\<rparr>) (account_sessions d),
        memberships := sql_update (\<lambda>m. mem_account m = account \<and> mem_active m)
          (\<lambda>m. m\<lparr>mem_active := False\<rparr>) (memberships d),
        accounts := sql_update (\<lambda>a. acc_id a = account) (\<lambda>a. a\<lparr>acc_status := TDeleted\<rparr>) (accounts d)\<rparr>
      in fold (account_grant_step clock now)
           (filter (\<lambda>g. gr_subject g = account \<and> gr_status g \<noteq> GrantRevoked) (grants d)) (d1, 0))"

definition site_step :: "time \<Rightarrow> time \<Rightarrow> site_row \<Rightarrow> db \<times> nat \<Rightarrow> db \<times> nat" where
  "site_step clock now r dn =
     (let d = fst dn in
      (d\<lparr>sites := sql_update (\<lambda>q. si_tenant q = si_tenant r \<and> si_id q = si_id r)
           (\<lambda>q. q\<lparr>si_status := SiteRevoked, si_revoked := coalesce (si_revoked q) now\<rparr>) (sites d),
         outbox := emit_or_keep (si_tenant r) (si_id r) (si_resource r) EvSite None ''deletion_requested''
           clock (outbox d),
         grants := sql_update (\<lambda>g. gr_tenant g = si_tenant r \<and> gr_site g = si_id r \<and>
             gr_status g \<noteq> GrantRevoked) (revoke_grant_row ''deletion_requested'' now) (grants d)\<rparr>,
       snd dn + 1))"

definition in_scope :: "scope_kind \<Rightarrow> string \<Rightarrow> string \<Rightarrow> bool" where
  "in_scope kind scope site \<longleftrightarrow> kind = ScopeTenant \<or> site = scope"

definition delete_site_access :: "time \<Rightarrow> time \<Rightarrow> scope_kind \<Rightarrow> string \<Rightarrow> string \<Rightarrow> db \<Rightarrow> db \<times> nat" where
  "delete_site_access clock now kind scope tenant d =
     (let (d1, n) = fold (site_step clock now) (filter (\<lambda>r. si_tenant r = tenant \<and>
            in_scope kind scope (si_id r) \<and> si_status r \<noteq> SiteDeleted) (sites d)) (d, 0) in
      (d1\<lparr>families := sql_update (\<lambda>f. fam_tenant f = tenant \<and> fam_status f = FamActive \<and>
             in_scope kind scope (fam_site f))
            (\<lambda>f. f\<lparr>fam_status := FamRevoked, fam_revoked := coalesce (fam_revoked f) now,
                   fam_reason := Some ''deletion_requested''\<rparr>) (families d1),
          tenants := (if kind = ScopeTenant
            then sql_update (\<lambda>t. ten_id t = tenant) (\<lambda>t. t\<lparr>ten_status := TDeleted\<rparr>) (tenants d1)
            else tenants d1)\<rparr>, n))"

section \<open>Purging\<close>

definition deleted_grants :: "string \<Rightarrow> db \<Rightarrow> string set" where
  "deleted_grants job d =
     tb_object ` set (filter (\<lambda>t. tb_job t = job \<and> tb_kind t = ''grant'') (tombstones d))"

definition of_grants :: "string set \<Rightarrow> json_object \<Rightarrow> bool" where
  "of_grants G payload \<longleftrightarrow> (case payload_text ''grantId'' payload of None \<Rightarrow> False | Some g \<Rightarrow> g \<in> G)"

text \<open>
  \<open>DELETE FROM platform.accounts\<close>: homes, links and the console's rows cascade; a pairing attempt
  the account initiated is a foreign key without a cascade and refuses the deletion.
\<close>

definition delete_account_row :: "string \<Rightarrow> db \<Rightarrow> db result" where
  "delete_account_row account d =
     (if list_ex (\<lambda>a. acc_id a = account) (accounts d) \<and> list_ex (\<lambda>p. pa_initiator p = account) (attempts d)
      then Inl ''23503''
      else Inr (d\<lparr>accounts := sql_delete (\<lambda>a. acc_id a = account) (accounts d),
             homes := sql_delete (\<lambda>h. home_account h = account) (homes d),
             links := sql_delete (\<lambda>l. link_account l = account) (links d),
             console_txs := sql_delete (\<lambda>c. ct_account c = Some account) (console_txs d),
             console_sessions := sql_delete (\<lambda>c. cs_account c = account) (console_sessions d)\<rparr>))"

definition purge_account :: "string \<Rightarrow> string \<Rightarrow> db \<Rightarrow> db result" where
  "purge_account job account d =
     (let G = deleted_grants job d in
      delete_account_row account (d\<lparr>
        secrets := sql_delete (\<lambda>a. of_grants G (sa_payload a)) (secrets d),
        artifacts := sql_delete (\<lambda>a. of_grants G (pv_payload a)) (artifacts d),
        families := sql_delete (\<lambda>f. fam_grant f \<in> G) (families d),
        outbox := sql_delete (\<lambda>e. \<exists>g\<in>G. ob_grant e = Some g) (outbox d),
        idems := sql_delete (\<lambda>m. im_reference m \<in> G) (idems d),
        grants := sql_delete (\<lambda>g. gr_subject g = account) (grants d),
        account_sessions := sql_delete (\<lambda>r. as_account r = account) (account_sessions d),
        memberships := sql_delete (\<lambda>m. mem_account m = account) (memberships d)\<rparr>))"

definition purge_tenant :: "scope_kind \<Rightarrow> string \<Rightarrow> string \<Rightarrow> string \<Rightarrow> db \<Rightarrow> db" where
  "purge_tenant kind job scope tenant d =
     (let G = deleted_grants job d;
          d1 = d\<lparr>
            secrets := sql_delete (\<lambda>a. (kind = ScopeTenant \<and> sa_tenant a = Some tenant) \<or>
                of_grants G (sa_payload a)) (secrets d),
            artifacts := sql_delete (\<lambda>a. (kind = ScopeTenant \<and> pv_tenant a = Some tenant) \<or>
                of_grants G (pv_payload a)) (artifacts d),
            families := sql_delete (\<lambda>f. fam_tenant f = tenant \<and> in_scope kind scope (fam_site f)) (families d),
            outbox := sql_delete (\<lambda>e. ob_tenant e = tenant \<and> in_scope kind scope (ob_site e)) (outbox d),
            attempts := sql_delete (\<lambda>p. pa_tenant p = tenant \<and>
                (kind = ScopeTenant \<or> pa_site p = Some scope)) (attempts d),
            idems := sql_delete (\<lambda>m. im_tenant m = tenant \<and> (kind = ScopeTenant \<or>
                im_reference m = scope \<or> im_reference m \<in> G)) (idems d),
            grants := sql_delete (\<lambda>g. gr_tenant g = tenant \<and> in_scope kind scope (gr_site g)) (grants d)\<rparr>
      in if kind = ScopeTenant
         then d1\<lparr>sites := sql_delete (\<lambda>r. si_tenant r = tenant) (sites d1),
                 events := sql_delete (\<lambda>e. ev_tenant e = tenant) (events d1),
                 memberships := sql_delete (\<lambda>m. mem_tenant m = tenant) (memberships d1),
                 homes := sql_delete (\<lambda>h. home_tenant h = tenant) (homes d1),
                 tenants := sql_delete (\<lambda>t. ten_id t = tenant) (tenants d1)\<rparr>
         else d1\<lparr>sites := sql_delete (\<lambda>r. si_tenant r = tenant \<and> si_id r = scope) (sites d1)\<rparr>)"

section \<open>Advancing\<close>

text \<open>The reports, as \<open>jsonb_build_object\<close> makes them; \<open>ts\<close> prints a time stamp.\<close>

definition kind_text :: "scope_kind \<Rightarrow> string" where
  "kind_text k = (case k of ScopeAccount \<Rightarrow> ''account'' | ScopeTenant \<Rightarrow> ''tenant'' | ScopeSite \<Rightarrow> ''site'')"

definition time_json :: "(time \<Rightarrow> string) \<Rightarrow> time option \<Rightarrow> json" where
  "time_json ts t = (case t of None \<Rightarrow> JNull | Some v \<Rightarrow> JStr (ts v))"

definition job_fields :: "job_row \<Rightarrow> string \<Rightarrow> json_object" where
  "job_fields j status = [(''jobId'', JStr (dj_id j)), (''scopeKind'', JStr (kind_text (dj_kind j))),
     (''scopeId'', JStr (dj_scope j)), (''status'', JStr status)]"

definition waiting_report :: "(time \<Rightarrow> string) \<Rightarrow> job_row \<Rightarrow> json" where
  "waiting_report ts j = JObj (job_fields j ''waiting'' @
     [(''safeAfter'', time_json ts (dj_safe_after j)), (''counts'', JObj (dj_counts j))])"

definition complete_report :: "(time \<Rightarrow> string) \<Rightarrow> job_row \<Rightarrow> json" where
  "complete_report ts j = JObj (job_fields j ''complete'' @
     [(''safeAfter'', time_json ts (dj_safe_after j)), (''completedAt'', time_json ts (dj_completed j)),
      (''counts'', JObj (dj_counts j))])"

definition failed_report :: "job_row \<Rightarrow> json" where
  "failed_report j = JObj (job_fields j ''failed'' @
     [(''failureCode'', (case dj_failure j of None \<Rightarrow> JNull | Some c \<Rightarrow> JStr c)),
      (''counts'', JObj (dj_counts j))])"

definition put_job :: "job_row \<Rightarrow> db \<Rightarrow> db" where
  "put_job j d = d\<lparr>deletion_jobs := sql_update (\<lambda>r. dj_id r = dj_id j) (\<lambda>_. j) (deletion_jobs d)\<rparr>"

definition tenant_of :: "job_row \<Rightarrow> string" where
  "tenant_of j = (case dj_tenant j of None \<Rightarrow> [] | Some t \<Rightarrow> t)"

definition revoke_phase :: "(time \<Rightarrow> string) \<Rightarrow> time \<Rightarrow> time \<Rightarrow> job_row \<Rightarrow> db \<Rightarrow> json \<times> db" where
  "revoke_phase ts clock now j d =
     (let (d1, events) = (if dj_kind j = ScopeAccount then delete_account_access clock now (dj_scope j) d
             else delete_site_access clock now (dj_kind j) (dj_scope j) (tenant_of j) d);
          revoked = (if dj_kind j = ScopeAccount
             then row_count (\<lambda>r. as_account r = dj_scope j \<and> as_revoked r = None) (account_sessions d) else 0);
          j' = j\<lparr>dj_status := JobWaiting, dj_safe_after := Some (now + 360000),
                 dj_counts := [(''revokedSessions'', JInt (int revoked)), (''revocationEvents'', JInt (int events))]\<rparr>
      in (waiting_report ts j', put_job j' d1))"

definition purge_phase :: "(time \<Rightarrow> string) \<Rightarrow> time \<Rightarrow> job_row \<Rightarrow> db \<Rightarrow> (json \<times> db) result" where
  "purge_phase ts now j d =
     and_then (if dj_kind j = ScopeAccount then purge_account (dj_id j) (dj_scope j) d
               else Inr (purge_tenant (dj_kind j) (dj_id j) (dj_scope j) (tenant_of j) d))
       (\<lambda>d1. let j' = j\<lparr>dj_status := JobComplete, dj_completed := Some now,
                 dj_counts := [(''deleted'', JBool True), (''outboxPurged'', JBool True)]\<rparr>
             in Inr (complete_report ts j', put_job j' d1))"

definition advance_body :: "(time \<Rightarrow> string) \<Rightarrow> time \<Rightarrow> string \<Rightarrow> time \<Rightarrow> db \<Rightarrow> (json \<times> db) result" where
  "advance_body ts clock job now d =
     (case lookup_by dj_id job (deletion_jobs d) of
        None \<Rightarrow> Inl ''P0002''
      | Some j \<Rightarrow>
          (case dj_status j of
             JobComplete \<Rightarrow> Inr (complete_report ts j, d)
           | JobFailed \<Rightarrow> Inr (failed_report j, d)
           | JobPending \<Rightarrow> Inr (revoke_phase ts clock now j d)
           | JobWaiting \<Rightarrow>
               if (case dj_safe_after j of None \<Rightarrow> True | Some t \<Rightarrow> now < t)
               then Inr (waiting_report ts j, d)
               else purge_phase ts now j d))"

text \<open>\<open>EXCEPTION WHEN OTHERS\<close>: what the body did is undone and the job marked failed.\<close>

definition advance_deletion_job :: "(time \<Rightarrow> string) \<Rightarrow> time \<Rightarrow> string \<Rightarrow> time \<Rightarrow> db \<Rightarrow> json \<times> db" where
  "advance_deletion_job ts clock job now d =
     (case advance_body ts clock job now d of
        Inr r \<Rightarrow> r
      | Inl sqlstate \<Rightarrow>
          (JObj [(''jobId'', JStr job), (''status'', JStr ''failed''), (''failureCode'', JStr sqlstate)],
           d\<lparr>deletion_jobs := sql_update (\<lambda>r. dj_id r = job)
               (\<lambda>r. r\<lparr>dj_status := JobFailed, dj_failure := Some sqlstate\<rparr>) (deletion_jobs d)\<rparr>))"

definition advanceDeletion :: "(time \<Rightarrow> string) \<Rightarrow> time \<Rightarrow> string \<Rightarrow> time \<Rightarrow> db \<Rightarrow> deletion_report outcome" where
  "advanceDeletion ts clock jobId observedAt d =
     (if \<not> rx job_class 16 128 jobId then (Inl ''deletion_job_invalid'', d)
      else withAuthorizationService (\<lambda>s d.
        let (report, d') = advance_deletion_job ts clock jobId observedAt d in
        and_then (parseDeletionReport report) (\<lambda>r. Inr (r, d'))) d)"

section \<open>What the steps do\<close>

lemma emit_always:
  "emit_event tenant site resource type grant key reason now t =
     Inr (t @ [event_row_of tenant site resource type grant key reason now t])"
proof -
  have "event_key r \<noteq> event_key (event_row_of tenant site resource type grant key reason now t)"
    if "r \<in> set t" for r
  proof
    assume k: "event_key r = event_key (event_row_of tenant site resource type grant key reason now t)"
    then have c: "ob_tenant r = tenant" "ob_site r = site" by (simp_all add: event_key_def event_row_of_def)
    have "ob_sequence r \<in> set (map ob_sequence (filter (at_site tenant site) t))"
      using that c by (simp add: at_site_def)
    then have "ob_sequence r < next_sequence tenant site t"
      unfolding next_sequence_def by (simp only: le_foldr_max less_Suc_eq_le Suc_eq_plus1 [symmetric])
    with k show False by (simp add: event_key_def event_row_of_def)
  qed
  then show ?thesis by (force simp: emit_event_def sql_insert_def)
qed

lemma emit_or_keep_eq: "emit_or_keep tenant site resource type grant reason clock t =
    t @ [event_row_of tenant site resource type grant None reason clock t]"
  by (simp add: emit_or_keep_def emit_always)

lemma sql_update_twice:
  assumes "\<And>r. f (f r) = f r" and "\<And>r. P (f r) = P r"
  shows "sql_update P f (sql_update Q f t) = sql_update (\<lambda>r. Q r \<or> P r) f t"
  by (induction t) (auto simp: assms)

lemma sql_update_guarded:
  assumes "\<And>r. \<not> live (f r)" and "\<And>r. P (f r) = P r"
  shows "sql_update (\<lambda>r. P r \<and> live r) f (sql_update (\<lambda>r. Q r \<and> live r) f t) =
     sql_update (\<lambda>r. (Q r \<or> P r) \<and> live r) f t"
  by (induction t) (auto simp: assms)

lemma sql_update_cong_pred: "(\<And>r. P r = Q r) \<Longrightarrow> sql_update P f t = sql_update Q f t"
  by (simp add: sql_update_def)

definition kill_site :: "time \<Rightarrow> site_row \<Rightarrow> site_row" where
  "kill_site now q = q\<lparr>si_status := SiteRevoked, si_revoked := coalesce (si_revoked q) now\<rparr>"

lemma kill_site_facts [simp]:
  "kill_site now (kill_site now q) = kill_site now q" "site_key (kill_site now q) = site_key q"
  "si_tenant (kill_site now q) = si_tenant q" "si_id (kill_site now q) = si_id q"
  "si_status (kill_site now q) = SiteRevoked" "si_resource (kill_site now q) = si_resource q"
  by (simp_all add: kill_site_def site_key_def coalesce_def split: option.split)

lemma revoke_row_site [simp]:
  "gr_tenant (revoke_grant_row e now g) = gr_tenant g" "gr_site (revoke_grant_row e now g) = gr_site g"
  "gr_subject (revoke_grant_row e now g) = gr_subject g"
  by (simp_all add: revoke_grant_row_def)

text \<open>The event of one site, and the effect of a whole loop over sites.\<close>

definition site_event :: "site_row \<Rightarrow> outbox_row \<Rightarrow> bool" where
  "site_event r e \<longleftrightarrow> at_site (si_tenant r) (si_id r) e \<and> ob_resource e = si_resource r \<and>
     ob_type e = EvSite \<and> ob_reason e = ''deletion_requested'' \<and> ob_delivered e = None"

lemma site_step_eq:
  "site_step clock now r (d, n) =
     (d\<lparr>sites := sql_update (\<lambda>q. site_key q \<in> {site_key r}) (kill_site now) (sites d),
        outbox := outbox d @ [event_row_of (si_tenant r) (si_id r) (si_resource r) EvSite None None
           ''deletion_requested'' clock (outbox d)],
        grants := sql_update (\<lambda>g. (gr_tenant g, gr_site g) \<in> {site_key r} \<and> gr_status g \<noteq> GrantRevoked)
           (revoke_grant_row ''deletion_requested'' now) (grants d)\<rparr>, n + 1)"
  by (simp add: site_step_def emit_or_keep_eq site_key_def kill_site_def [abs_def])

lemma fold_site_step:
  "\<exists>es. fold (site_step clock now) rs (d, n) =
     (d\<lparr>sites := sql_update (\<lambda>q. site_key q \<in> site_key ` set rs) (kill_site now) (sites d),
        outbox := outbox d @ es,
        grants := sql_update (\<lambda>g. (gr_tenant g, gr_site g) \<in> site_key ` set rs \<and> gr_status g \<noteq> GrantRevoked)
           (revoke_grant_row ''deletion_requested'' now) (grants d)\<rparr>, n + length rs) \<and>
     list_all2 site_event rs es"
proof (induction rs arbitrary: d n)
  case Nil
  show ?case by (simp add: sql_update_none)
next
  case (Cons r rs)
  let ?e = "event_row_of (si_tenant r) (si_id r) (si_resource r) EvSite None None ''deletion_requested'' clock (outbox d)"
  have e: "site_event r ?e" by (simp add: site_event_def event_row_of_def at_site_def)
  obtain es where es: "list_all2 site_event rs es"
    "fold (site_step clock now) rs (site_step clock now r (d, n)) =
     (d\<lparr>sites := sql_update (\<lambda>q. site_key q \<in> site_key ` set rs) (kill_site now)
          (sql_update (\<lambda>q. site_key q \<in> {site_key r}) (kill_site now) (sites d)),
        outbox := (outbox d @ [?e]) @ es,
        grants := sql_update (\<lambda>g. (gr_tenant g, gr_site g) \<in> site_key ` set rs \<and> gr_status g \<noteq> GrantRevoked)
           (revoke_grant_row ''deletion_requested'' now)
           (sql_update (\<lambda>g. (gr_tenant g, gr_site g) \<in> {site_key r} \<and> gr_status g \<noteq> GrantRevoked)
             (revoke_grant_row ''deletion_requested'' now) (grants d))\<rparr>, n + 1 + length rs)"
    using Cons.IH [of "fst (site_step clock now r (d, n))" "n + 1"] by (auto simp: site_step_eq)
  show ?case
    using e es by (intro exI [of _ "?e # es"])
      (simp add: sql_update_twice sql_update_guarded)
qed

lemma put_job_lookup:
  assumes "dj_id j = k" and "lookup_by dj_id k (deletion_jobs d) = Some i"
  shows "lookup_by dj_id k (deletion_jobs (put_job j d)) = Some j"
proof -
  have "lookup_by dj_id k (sql_update (\<lambda>r. dj_id r = k) (\<lambda>_. j) t) =
      map_option (\<lambda>_. j) (lookup_by dj_id k t)" for t
    using assms(1) by (induction t) (auto simp: table_simps)
  with assms show ?thesis by (simp add: put_job_def)
qed

lemma put_job_frame [frame_simps]:
  "sites (put_job j d) = sites d" "outbox (put_job j d) = outbox d" "grants (put_job j d) = grants d"
  "families (put_job j d) = families d" "tenants (put_job j d) = tenants d"
  "memberships (put_job j d) = memberships d" "attempts (put_job j d) = attempts d"
  "idems (put_job j d) = idems d" "events (put_job j d) = events d" "homes (put_job j d) = homes d"
  "secrets (put_job j d) = secrets d" "artifacts (put_job j d) = artifacts d"
  by (simp_all add: put_job_def)

lemma revoke_phase_site:
  "dj_kind j \<noteq> ScopeAccount \<Longrightarrow> \<exists>j'. snd (revoke_phase ts clock now j d) =
     put_job j' (fst (delete_site_access clock now (dj_kind j) (dj_scope j) (tenant_of j) d))"
  unfolding revoke_phase_def Let_def split_beta by auto

lemma account_grant_jobs [simp]:
  "deletion_jobs (fst (account_grant_step clock now g dn)) = deletion_jobs (fst dn)"
  by (simp add: account_grant_step_def Let_def split: option.split)

lemma fold_account_jobs: "deletion_jobs (fst (fold (account_grant_step clock now) gs dn)) = deletion_jobs (fst dn)"
  by (induction gs arbitrary: dn) simp_all

lemma revoke_phase_jobs:
  "snd (revoke_phase ts clock now j d) = d' \<Longrightarrow> lookup_by dj_id (dj_id j) (deletion_jobs d) = Some j \<Longrightarrow>
     \<exists>j'. lookup_by dj_id (dj_id j) (deletion_jobs d') = Some j' \<and> dj_status j' = JobWaiting \<and>
       dj_safe_after j' = Some (now + 360000) \<and> dj_kind j' = dj_kind j \<and> dj_tenant j' = dj_tenant j"
proof -
  assume d': "snd (revoke_phase ts clock now j d) = d'" and j: "lookup_by dj_id (dj_id j) (deletion_jobs d) = Some j"
  have a: "deletion_jobs (fst (delete_account_access clock now acc d)) = deletion_jobs d" for acc
    by (simp add: delete_account_access_def fold_account_jobs)
  have b: "deletion_jobs (fst (delete_site_access clock now kind scope tenant d)) = deletion_jobs d" for kind scope tenant
    using fold_site_step [of clock now "filter (\<lambda>r. si_tenant r = tenant \<and> in_scope kind scope (si_id r) \<and>
        si_status r \<noteq> SiteDeleted) (sites d)" d 0]
    by (auto simp: delete_site_access_def)
  obtain d1 n where r: "(if dj_kind j = ScopeAccount then delete_account_access clock now (dj_scope j) d
      else delete_site_access clock now (dj_kind j) (dj_scope j) (tenant_of j) d) = (d1, n)"
    by fastforce
  then have "deletion_jobs d1 = deletion_jobs d"
    using a b by (metis fst_conv)
  with d' r j show ?thesis
    by (auto simp: revoke_phase_def Let_def put_job_lookup [where i = j])
qed

section \<open>Reports that parse\<close>

lemma kind_back [simp]: "z_enum kind_names (Some (JStr (kind_text k))) = Some k"
  by (cases k) (simp_all add: z_enum_def kind_names_def kind_text_def)

lemma report_back [simp]:
  "z_enum report_names (Some (JStr ''waiting'')) = Some ReportWaiting"
  "z_enum report_names (Some (JStr ''complete'')) = Some ReportComplete"
  "z_enum report_names (Some (JStr ''failed'')) = Some ReportFailed"
  by (simp_all add: z_enum_def report_names_def)

lemma z_str_any [simp]: "z_str (\<lambda>_. True) (Some (JStr s)) = Some s" by simp

lemma parse_reports:
  "map_sum id dr_status (parseDeletionReport (waiting_report ts j)) = Inr ReportWaiting"
  "map_sum id dr_status (parseDeletionReport (complete_report ts j)) = Inr ReportComplete"
  "map_sum id dr_status (parseDeletionReport (failed_report j)) = Inr ReportFailed"
  "parseDeletionReport (JObj [(''jobId'', a), (''status'', b), (''failureCode'', c)]) = Inl ''deletion_report_invalid''"
  by (simp_all add: parseDeletionReport_def waiting_report_def complete_report_def failed_report_def
      job_fields_def del: z_str_Some) (simp add: z_enum_def split: option.split)

lemma map_sum_Inr: "map_sum id f x = Inr y \<longleftrightarrow> (\<exists>z. x = Inr z \<and> f z = y)"
  by (cases x) auto

lemma parse_reportE:
  "parseDeletionReport (waiting_report ts j) = Inr r \<Longrightarrow> dr_status r = ReportWaiting"
  "parseDeletionReport (complete_report ts j) = Inr r \<Longrightarrow> dr_status r = ReportComplete"
  using parse_reports(1,2) [of ts j] by simp_all

text \<open>
  The control flow of a call: an exception of the body is answered with a report that does not
  parse, so the call throws and the transaction, the failure mark included, is rolled back.
\<close>

lemma advance_throws:
  assumes "advance_body ts clock job now d = Inl e"
  shows "\<exists>x. advanceDeletion ts clock job now d = (Inl x, d)"
  using assms by (simp add: advanceDeletion_def advance_deletion_job_def with_role_defs transaction_def
      parse_reports)

lemma advance_answers:
  assumes "advance_body ts clock job now d = Inr (report, d')" and "rx job_class 16 128 job"
    and "parseDeletionReport report = Inr r"
  shows "advanceDeletion ts clock job now d = (Inr r, d')"
  using assms by (simp add: advanceDeletion_def advance_deletion_job_def with_role_defs transaction_def)

lemma advance_Inr:
  assumes "advanceDeletion ts clock job now d = (Inr r, d')"
  obtains report where "rx job_class 16 128 job" and "advance_body ts clock job now d = Inr (report, d')"
    and "parseDeletionReport report = Inr r"
proof (cases "advance_body ts clock job now d")
  case (Inl e)
  with advance_throws [OF Inl] assms show thesis by auto
next
  case (Inr p)
  with assms that [of "fst p"] show thesis
    by (cases p) (auto simp: advanceDeletion_def advance_deletion_job_def with_role_defs transaction_Inr
        and_then_Inr split: if_splits)
qed

section \<open>Properties\<close>

text \<open>Example jobs on the example of the theory Revocation.\<close>

definition sample_job :: "scope_kind \<Rightarrow> string \<Rightarrow> string option \<Rightarrow> job_status \<Rightarrow> time option \<Rightarrow> job_row" where
  "sample_job kind scope tenant status safe = \<lparr>dj_id = ''deletion_00000001'', dj_kind = kind, dj_scope = scope,
     dj_tenant = tenant, dj_requested_by = ''account-2'', dj_status = status, dj_safe_after = safe,
     dj_completed = None, dj_failure = None, dj_counts = []\<rparr>"

definition sample_deletion_db :: "job_row \<Rightarrow> db" where
  "sample_deletion_db j = sample_revocation_db\<lparr>
     tenants := [\<lparr>ten_id = ''t1'', ten_status = TActive, ten_created = 0\<rparr>], deletion_jobs := [j]\<rparr>"

abbreviation sample_job_id :: string where "sample_job_id \<equiv> ''deletion_00000001''"

text \<open>
  Nothing is purged before the tokens in circulation have run out: a job that was revoked at one
  instant completes six minutes later at the earliest.
\<close>

theorem deletion_waits:
  assumes "lookup_by dj_id job (deletion_jobs d) = Some j" and "dj_status j = JobPending"
    and "advanceDeletion ts clock job t d = (Inr r, d')"
    and "advanceDeletion ts clock' job u d' = (Inr r', d'')"
  shows "dr_status r = ReportWaiting \<and> (dr_status r' = ReportComplete \<longrightarrow> t + 360000 \<le> u)"
proof -
  have id: "dj_id j = job" using assms(1) by (rule lookup_byD [THEN conjunct2])
  obtain report where b: "advance_body ts clock job t d = Inr (report, d')"
    and p: "parseDeletionReport report = Inr r" by (rule advance_Inr [OF assms(3)])
  from b assms(1,2) have rp: "revoke_phase ts clock t j d = (report, d')" by (simp add: advance_body_def)
  then have "\<exists>j'. report = waiting_report ts j'"
    by (auto simp: revoke_phase_def Let_def split: prod.splits)
  with p have r: "dr_status r = ReportWaiting" by (auto dest: parse_reportE)
  obtain j' where j': "lookup_by dj_id job (deletion_jobs d') = Some j'" "dj_status j' = JobWaiting"
    "dj_safe_after j' = Some (t + 360000)"
    using revoke_phase_jobs [of ts clock t j d d'] rp assms(1) id by auto
  obtain report' where b': "advance_body ts clock' job u d' = Inr (report', d'')"
    and p': "parseDeletionReport report' = Inr r'" by (rule advance_Inr [OF assms(4)])
  have "t + 360000 \<le> u" if "dr_status r' = ReportComplete"
  proof (rule ccontr)
    assume "\<not> t + 360000 \<le> u"
    with b' j' have "report' = waiting_report ts j'" by (simp add: advance_body_def)
    with p' that show False by (auto dest: parse_reportE)
  qed
  with r show ?thesis by simp
qed

definition sample_tenant_job :: job_row where
  "sample_tenant_job = sample_job ScopeTenant ''t1'' (Some ''t1'') JobPending None"

definition sample_revoked :: "deletion_report outcome" where
  "sample_revoked = advanceDeletion (\<lambda>_. ''now'') 5 sample_job_id 1000 (sample_deletion_db sample_tenant_job)"

definition sample_purged :: "deletion_report outcome" where
  "sample_purged = advanceDeletion (\<lambda>_. ''now'') 6 sample_job_id 361000 (snd sample_revoked)"

lemma sample_revoked_eval:
  "is_ok (fst sample_revoked)" "is_ok (fst sample_purged)"
  "case fst sample_purged of Inl _ \<Rightarrow> False | Inr r \<Rightarrow> dr_status r = ReportComplete"
  by code_simp+

lemma sample_tenant_lookup:
  "lookup_by dj_id sample_job_id (deletion_jobs (sample_deletion_db sample_tenant_job)) = Some sample_tenant_job"
  "dj_status sample_tenant_job = JobPending" "dj_kind sample_tenant_job = ScopeTenant"
  "dj_tenant sample_tenant_job = Some ''t1''"
  by code_simp+

theorem deletion_waits_witness:
  "dr_status (projr (fst sample_revoked)) = ReportWaiting \<and> (1000 + 360000 :: time) \<le> 361000"
  using deletion_waits [OF sample_tenant_lookup(1,2)
      ok_outcome [OF sample_revoked_eval(1), unfolded sample_revoked_def]
      ok_outcome [OF sample_revoked_eval(2), unfolded sample_purged_def sample_revoked_def]]
    sample_revoked_eval(2,3)
  by (auto simp: is_ok_iff sample_revoked_def [symmetric] sample_purged_def [symmetric])

text \<open>
  C18. Advancing the job of a tenant cuts off all access in one transaction: its sites and grants are no
  longer live, no refresh family of it is active, the tenant is marked deleted, and every site has a
  new event in the outbox.
\<close>

theorem deletion_revokes_tenant:
  assumes "lookup_by dj_id job (deletion_jobs d) = Some j" and "dj_status j = JobPending"
    and "dj_kind j = ScopeTenant" and "dj_tenant j = Some t"
    and "advanceDeletion ts clock job now d = (Inr r, d')"
    and "\<forall>g\<in>set (grants d). gr_tenant g = t \<longrightarrow>
      (\<exists>q\<in>set (sites d). site_key q = (t, gr_site g) \<and> si_status q \<noteq> SiteDeleted)"
  shows "(\<forall>q\<in>set (sites d'). si_tenant q = t \<longrightarrow> \<not> site_live q) \<and>
     (\<forall>g\<in>set (grants d'). gr_tenant g = t \<longrightarrow> \<not> grant_live g) \<and>
     (\<forall>f\<in>set (families d'). fam_tenant f = t \<longrightarrow> fam_status f \<noteq> FamActive) \<and>
     (\<forall>x\<in>set (tenants d'). ten_id x = t \<longrightarrow> ten_status x = TDeleted) \<and>
     (\<exists>es. outbox d' = outbox d @ es \<and>
        list_all2 site_event (filter (\<lambda>q. si_tenant q = t \<and> si_status q \<noteq> SiteDeleted) (sites d)) es)"
proof -
  let ?rs = "filter (\<lambda>q. si_tenant q = t \<and> si_status q \<noteq> SiteDeleted) (sites d)"
  obtain report where "advance_body ts clock job now d = Inr (report, d')"
    by (rule advance_Inr [OF assms(5)])
  with assms(1,2) have rp: "revoke_phase ts clock now j d = (report, d')" by (simp add: advance_body_def)
  obtain es where es: "list_all2 site_event ?rs es"
    and f: "fold (site_step clock now) ?rs (d, 0) =
     (d\<lparr>sites := sql_update (\<lambda>q. site_key q \<in> site_key ` set ?rs) (kill_site now) (sites d),
        outbox := outbox d @ es,
        grants := sql_update (\<lambda>g. (gr_tenant g, gr_site g) \<in> site_key ` set ?rs \<and> gr_status g \<noteq> GrantRevoked)
           (revoke_grant_row ''deletion_requested'' now) (grants d)\<rparr>, length ?rs)"
    using fold_site_step [of clock now ?rs d 0] by auto
  let ?ss = "sql_update (\<lambda>q. site_key q \<in> site_key ` set ?rs) (kill_site now) (sites d)"
  let ?gs = "sql_update (\<lambda>g. (gr_tenant g, gr_site g) \<in> site_key ` set ?rs \<and> gr_status g \<noteq> GrantRevoked)
           (revoke_grant_row ''deletion_requested'' now) (grants d)"
  let ?fs = "sql_update (\<lambda>f. fam_tenant f = t \<and> fam_status f = FamActive)
            (\<lambda>f. f\<lparr>fam_status := FamRevoked, fam_revoked := coalesce (fam_revoked f) now,
                   fam_reason := Some ''deletion_requested''\<rparr>) (families d)"
  let ?ts = "sql_update (\<lambda>x. ten_id x = t) (\<lambda>x. x\<lparr>ten_status := TDeleted\<rparr>) (tenants d)"
  have "delete_site_access clock now ScopeTenant (dj_scope j) t d =
      (d\<lparr>sites := ?ss, outbox := outbox d @ es, grants := ?gs, families := ?fs, tenants := ?ts\<rparr>, length ?rs)"
    unfolding delete_site_access_def in_scope_def using f by simp
  moreover obtain j' where "d' = put_job j' (fst (delete_site_access clock now ScopeTenant (dj_scope j) t d))"
    using revoke_phase_site [of j ts clock now d] assms(3,4) rp by (auto simp: tenant_of_def)
  ultimately have d': "sites d' = ?ss" "outbox d' = outbox d @ es" "grants d' = ?gs"
    "families d' = ?fs" "tenants d' = ?ts" by (simp_all only: put_job_frame fst_conv) simp_all
  have "\<forall>q\<in>set (sites d'). si_tenant q = t \<longrightarrow> \<not> site_live q"
    unfolding d' by (auto simp: set_sql_update site_live_def)
  moreover have "\<forall>g\<in>set (grants d'). gr_tenant g = t \<longrightarrow> \<not> grant_live g"
  proof -
    have "(t, gr_site g) \<in> site_key ` set ?rs" if "g \<in> set (grants d)" "gr_tenant g = t" for g
      using assms(6) that by (force simp: site_key_def)
    then show ?thesis unfolding d' by (auto simp: set_sql_update grant_live_def)
  qed
  moreover have "\<forall>f\<in>set ?fs. fam_tenant f = t \<longrightarrow> fam_status f \<noteq> FamActive"
    "\<forall>x\<in>set ?ts. ten_id x = t \<longrightarrow> ten_status x = TDeleted"
    by (simp_all add: ball_sql_update)
  ultimately show ?thesis using d'(2,4,5) es by simp
qed

theorem deletion_revokes_tenant_witness:
  "(\<forall>q\<in>set (sites (snd sample_revoked)). si_tenant q = ''t1'' \<longrightarrow> \<not> site_live q) = True \<and>
   map si_id (sites (snd sample_revoked)) = [''site-1''] \<and> length (outbox (snd sample_revoked)) = 1"
proof -
  have g: "\<forall>g\<in>set (grants (sample_deletion_db sample_tenant_job)). gr_tenant g = ''t1'' \<longrightarrow>
      (\<exists>q\<in>set (sites (sample_deletion_db sample_tenant_job)).
         site_key q = (''t1'', gr_site g) \<and> si_status q \<noteq> SiteDeleted)" by code_simp
  have n: "map si_id (sites (snd sample_revoked)) = [''site-1'']"
    "outbox (sample_deletion_db sample_tenant_job) = []"
    "length (filter (\<lambda>q. si_tenant q = ''t1'' \<and> si_status q \<noteq> SiteDeleted)
       (sites (sample_deletion_db sample_tenant_job))) = 1"
    by code_simp+
  show ?thesis
    using deletion_revokes_tenant [OF sample_tenant_lookup
        ok_outcome [OF sample_revoked_eval(1), unfolded sample_revoked_def] g] n
    by (auto simp: sample_revoked_def [symmetric] dest: list_all2_lengthD)
qed

lemma complete_purges:
  assumes "lookup_by dj_id job (deletion_jobs d) = Some j" and "dj_status j = JobWaiting"
    and "advanceDeletion ts clock job now d = (Inr r, d')" and "dr_status r = ReportComplete"
  obtains report where "purge_phase ts now j d = Inr (report, d')"
proof -
  obtain report where b: "advance_body ts clock job now d = Inr (report, d')"
    and p: "parseDeletionReport report = Inr r" by (rule advance_Inr [OF assms(3)])
  have "report \<noteq> waiting_report ts j" using p assms(4) by (auto dest: parse_reportE)
  with b assms(1,2) that [of report] show thesis by (auto simp: advance_body_def split: if_splits)
qed

text \<open>
  When the job of a tenant completes, no row of the tenant is left in any table: sites, grants,
  refresh families, events to send, pairing attempts, idempotency records, audit events,
  memberships, homes, stored artifacts and the tenant itself.
\<close>

theorem deletion_purges_tenant:
  assumes "lookup_by dj_id job (deletion_jobs d) = Some j" and "dj_status j = JobWaiting"
    and "dj_kind j = ScopeTenant" and "dj_tenant j = Some t"
    and "advanceDeletion ts clock job now d = (Inr r, d')" and "dr_status r = ReportComplete"
  shows "list_all (\<lambda>x. si_tenant x \<noteq> t) (sites d') \<and> list_all (\<lambda>x. gr_tenant x \<noteq> t) (grants d') \<and>
     list_all (\<lambda>x. fam_tenant x \<noteq> t) (families d') \<and> list_all (\<lambda>x. ob_tenant x \<noteq> t) (outbox d') \<and>
     list_all (\<lambda>x. pa_tenant x \<noteq> t) (attempts d') \<and> list_all (\<lambda>x. im_tenant x \<noteq> t) (idems d') \<and>
     list_all (\<lambda>x. ev_tenant x \<noteq> t) (events d') \<and> list_all (\<lambda>x. mem_tenant x \<noteq> t) (memberships d') \<and>
     list_all (\<lambda>x. home_tenant x \<noteq> t) (homes d') \<and> list_all (\<lambda>x. sa_tenant x \<noteq> Some t) (secrets d') \<and>
     list_all (\<lambda>x. pv_tenant x \<noteq> Some t) (artifacts d') \<and> list_all (\<lambda>x. ten_id x \<noteq> t) (tenants d')"
proof -
  obtain report where "purge_phase ts now j d = Inr (report, d')"
    by (rule complete_purges [OF assms(1,2,5,6)])
  then obtain j' where "d' = put_job j' (purge_tenant ScopeTenant (dj_id j) (dj_scope j) t d)"
    using assms(3,4) by (auto simp: purge_phase_def Let_def tenant_of_def)
  then show ?thesis
    by (simp add: frame_simps) (simp add: purge_tenant_def in_scope_def Let_def list_all_iff)
qed

theorem deletion_purges_tenant_witness:
  "list_all (\<lambda>x. gr_tenant x \<noteq> ''t1'') (grants (snd sample_purged)) \<and>
   map gr_tenant (grants (snd sample_revoked)) = [''t1'']"
proof -
  have n: "map gr_tenant (grants (snd sample_revoked)) = [''t1'']"
    "map_option (\<lambda>j. (dj_status j, dj_kind j, dj_tenant j))
       (lookup_by dj_id sample_job_id (deletion_jobs (snd sample_revoked))) =
     Some (JobWaiting, ScopeTenant, Some ''t1'')"
    by code_simp+
  then obtain j where j: "lookup_by dj_id sample_job_id (deletion_jobs (snd sample_revoked)) = Some j"
    "dj_status j = JobWaiting" "dj_kind j = ScopeTenant" "dj_tenant j = Some ''t1''" by auto
  have "dr_status (projr (fst sample_purged)) = ReportComplete"
    using sample_revoked_eval(2,3) by (auto simp: is_ok_iff)
  from deletion_purges_tenant [OF j ok_outcome [OF sample_revoked_eval(2), unfolded sample_purged_def]
      this [unfolded sample_purged_def]] n(1) show ?thesis
    by (simp add: sample_purged_def)
qed

text \<open>A job that is called again and again, at the given instants.\<close>

definition advance_all :: "(time \<Rightarrow> string) \<Rightarrow> time \<Rightarrow> string \<Rightarrow> time list \<Rightarrow> db \<Rightarrow> db" where
  "advance_all ts clock job us d = fold (\<lambda>u d. snd (advanceDeletion ts clock job u d)) us d"

definition job_at :: "string \<Rightarrow> db \<Rightarrow> job_row option" where
  "job_at job d = lookup_by dj_id job (deletion_jobs d)"

lemma advance_decides:
  assumes "rx job_class 16 128 job" and "advance_body ts clock job now d = Inr (report, d')"
    and "is_ok (parseDeletionReport report)"
  shows "snd (advanceDeletion ts clock job now d) = d'"
  using advance_answers [OF assms(2,1)] assms(3) by (auto simp: is_ok_iff)

lemma reports_parse:
  "is_ok (parseDeletionReport (waiting_report ts j))" "is_ok (parseDeletionReport (complete_report ts j))"
  using parse_reports(1,2) [of ts j] by (auto simp: is_ok_iff map_sum_Inr)

lemma complete_stays:
  assumes "rx job_class 16 128 job" and "job_at job d = Some j" and "dj_status j = JobComplete"
  shows "advance_all ts clock job us d = d"
proof -
  have "snd (advanceDeletion ts clock job u d) = d" for u
    by (rule advance_decides [OF assms(1) _ reports_parse(2)])
       (use assms(2,3) in \<open>simp add: advance_body_def job_at_def\<close>)
  then show ?thesis unfolding advance_all_def by (induction us) simp_all
qed

lemma purge_jobs [simp]: "deletion_jobs (purge_tenant kind job scope tenant d) = deletion_jobs d"
  by (simp add: purge_tenant_def Let_def)

lemma waiting_step:
  assumes "rx job_class 16 128 job" and "job_at job d = Some j" and "dj_status j = JobWaiting"
    and "dj_safe_after j = Some safe" and "dj_kind j \<noteq> ScopeAccount"
  shows "u < safe \<Longrightarrow> snd (advanceDeletion ts clock job u d) = d"
    and "safe \<le> u \<Longrightarrow> \<exists>j'. job_at job (snd (advanceDeletion ts clock job u d)) = Some j' \<and> dj_status j' = JobComplete"
proof -
  have id: "dj_id j = job" using assms(2) unfolding job_at_def by (rule lookup_byD [THEN conjunct2])
  show "snd (advanceDeletion ts clock job u d) = d" if "u < safe"
    by (rule advance_decides [OF assms(1) _ reports_parse(1)])
       (use assms(2-4) that in \<open>simp add: advance_body_def job_at_def\<close>)
  show "\<exists>j'. job_at job (snd (advanceDeletion ts clock job u d)) = Some j' \<and> dj_status j' = JobComplete" if "safe \<le> u"
  proof -
    let ?j = "j\<lparr>dj_status := JobComplete, dj_completed := Some u,
        dj_counts := [(''deleted'', JBool True), (''outboxPurged'', JBool True)]\<rparr>"
    let ?d = "put_job ?j (purge_tenant (dj_kind j) (dj_id j) (dj_scope j) (tenant_of j) d)"
    have "advance_body ts clock job u d = Inr (complete_report ts ?j, ?d)"
      using assms(2-5) that by (simp add: advance_body_def job_at_def purge_phase_def Let_def)
    from advance_decides [OF assms(1) this reports_parse(2)]
    have "job_at job (snd (advanceDeletion ts clock job u d)) = Some ?j"
      using assms(2) id by (simp add: job_at_def put_job_lookup [where i = j])
    then show ?thesis by simp
  qed
qed

lemma waiting_ends:
  assumes "rx job_class 16 128 job" and "job_at job d = Some j" and "dj_status j = JobWaiting"
    and "dj_safe_after j = Some safe" and "dj_kind j \<noteq> ScopeAccount" and "\<exists>u\<in>set us. safe \<le> u"
  shows "\<exists>j'. job_at job (advance_all ts clock job us d) = Some j' \<and> dj_status j' = JobComplete"
  using assms(6)
proof (induction us)
  case (Cons u us)
  let ?d = "snd (advanceDeletion ts clock job u d)"
  have split: "advance_all ts clock job (u # us) d = advance_all ts clock job us ?d"
    by (simp add: advance_all_def)
  show ?case
  proof (cases "safe \<le> u")
    case True
    from waiting_step(2) [OF assms(1-5) True] obtain j' where "job_at job ?d = Some j'" "dj_status j' = JobComplete"
      by blast
    with complete_stays [OF assms(1) this] show ?thesis by (simp add: split)
  next
    case False
    with waiting_step(1) [OF assms(1-5)] have "?d = d" by simp
    moreover from Cons.prems False have "\<exists>u\<in>set us. safe \<le> u" by auto
    ultimately show ?thesis using Cons.IH by (simp add: split)
  qed
qed simp

text \<open>
  C37. The deletion of a tenant or of a site terminates: once a pending job has been called, however often
  and whenever it is called afterwards, one call six minutes later or more leaves it complete, and a
  complete job is not touched by any further call.
\<close>

theorem deletion_terminates:
  assumes "rx job_class 16 128 job" and "lookup_by dj_id job (deletion_jobs d) = Some j"
    and "dj_status j = JobPending" and "dj_kind j \<noteq> ScopeAccount" and "\<exists>u\<in>set us. t + 360000 \<le> u"
  shows "\<exists>j'. lookup_by dj_id job (deletion_jobs (advance_all ts clock job (t # us) d)) = Some j' \<and>
     dj_status j' = JobComplete \<and>
     advance_all ts clock job vs (advance_all ts clock job (t # us) d) = advance_all ts clock job (t # us) d"
proof -
  have id: "dj_id j = job" using assms(2) by (rule lookup_byD [THEN conjunct2])
  let ?d = "snd (advanceDeletion ts clock job t d)"
  have b: "advance_body ts clock job t d = Inr (revoke_phase ts clock t j d)"
    using assms(2,3) by (simp add: advance_body_def)
  have "\<exists>i. fst (revoke_phase ts clock t j d) = waiting_report ts i"
    by (auto simp: revoke_phase_def Let_def split: prod.splits)
  then have d: "?d = snd (revoke_phase ts clock t j d)"
    using b by (intro advance_decides [OF assms(1), of _ _ _ _ "fst (revoke_phase ts clock t j d)"])
      (auto simp: reports_parse)
  from revoke_phase_jobs [OF d [symmetric]] assms(2,4) id obtain j1 where
    "job_at job ?d = Some j1" "dj_status j1 = JobWaiting" "dj_safe_after j1 = Some (t + 360000)" "dj_kind j1 \<noteq> ScopeAccount"
    unfolding job_at_def by auto
  from waiting_ends [OF assms(1) this assms(5)] obtain j' where
    "job_at job (advance_all ts clock job us ?d) = Some j'" "dj_status j' = JobComplete" by blast
  with complete_stays [OF assms(1) this] show ?thesis
    by (auto simp: advance_all_def job_at_def)
qed

theorem deletion_terminates_witness:
  "\<exists>j'. lookup_by dj_id sample_job_id (deletion_jobs (advance_all (\<lambda>_. ''now'') 5 sample_job_id [1000, 2000, 361000]
       (sample_deletion_db sample_tenant_job))) = Some j' \<and> dj_status j' = JobComplete"
proof -
  have "rx job_class 16 128 sample_job_id" by code_simp
  from deletion_terminates [OF this sample_tenant_lookup(1,2), of "[2000, 361000]" 1000 "\<lambda>_. ''now''" 5 "[]"]
  show ?thesis using sample_tenant_lookup(3) by auto
qed

text \<open>
  C35. An account that ever initiated a pairing attempt cannot be purged while the attempt is on record:
  once the job may complete, every call throws and changes nothing, and no call reports completion.
\<close>

theorem account_deletion_blocked:
  assumes "lookup_by dj_id job (deletion_jobs d) = Some j" and "dj_status j = JobWaiting"
    and "dj_kind j = ScopeAccount" and "a \<in> set (accounts d)" and "acc_id a = dj_scope j"
    and "p \<in> set (attempts d)" and "pa_initiator p = dj_scope j" and "dj_safe_after j = Some t"
  shows "(t \<le> now \<longrightarrow> (\<exists>e. advanceDeletion ts clock job now d = (Inl e, d))) \<and>
     (\<forall>r d'. advanceDeletion ts clock job now d = (Inr r, d') \<longrightarrow> dr_status r \<noteq> ReportComplete)"
proof -
  have e: "purge_phase ts now j d = Inl ''23503''"
    using assms(3-7) by (auto simp: purge_phase_def purge_account_def delete_account_row_def Let_def list_ex_iff)
  have "\<exists>e. advanceDeletion ts clock job now d = (Inl e, d)" if "t \<le> now"
    by (rule advance_throws) (use assms(1,2,8) e that in \<open>simp add: advance_body_def\<close>)
  moreover have "dr_status r \<noteq> ReportComplete" if "advanceDeletion ts clock job now d = (Inr r, d')" for r d'
    using complete_purges [OF assms(1,2) that] e by fastforce
  ultimately show ?thesis by blast
qed

definition sample_blocked_job :: job_row where
  "sample_blocked_job = sample_job ScopeAccount ''acc-1'' None JobWaiting (Some 361000)"

definition sample_blocked_db :: db where
  "sample_blocked_db = (sample_deletion_db sample_blocked_job)\<lparr>
     accounts := [\<lparr>acc_id = ''acc-1'', acc_status = TDeleted, acc_issuer = None, acc_subject_hash = None\<rparr>],
     attempts := [\<lparr>pa_tenant = ''t1'', pa_id = ''attempt-01'', pa_initiator = ''acc-1'',
       pa_resource = ''https://a.example/mcp'', pa_verifier = [], pa_status = PairActive, pa_expires = 0,
       pa_consumed = None, pa_site = None, pa_failure = None, pa_correlation = ''corr-0001''\<rparr>]\<rparr>"

theorem account_deletion_blocked_witness:
  "\<exists>e. advanceDeletion (\<lambda>_. ''then'') 361000 sample_job_id 361000 sample_blocked_db = (Inl e, sample_blocked_db)"
proof -
  have "lookup_by dj_id sample_job_id (deletion_jobs sample_blocked_db) = Some sample_blocked_job"
    "dj_status sample_blocked_job = JobWaiting" "dj_kind sample_blocked_job = ScopeAccount"
    "hd (accounts sample_blocked_db) \<in> set (accounts sample_blocked_db)"
    "acc_id (hd (accounts sample_blocked_db)) = dj_scope sample_blocked_job"
    "hd (attempts sample_blocked_db) \<in> set (attempts sample_blocked_db)"
    "pa_initiator (hd (attempts sample_blocked_db)) = dj_scope sample_blocked_job"
    "dj_safe_after sample_blocked_job = Some 361000"
    by code_simp+
  note account_deletion_blocked [OF this, of 361000 "\<lambda>_. ''then''" 361000]
  then show ?thesis by simp
qed

lemma next_sequence_bound:
  assumes "0 < m" and "\<And>q. q \<in> set t \<Longrightarrow> at_site tenant site q \<Longrightarrow> ob_sequence q < m"
  shows "next_sequence tenant site t \<le> m"
proof -
  have "foldr max xs 0 < m" if "\<forall>x\<in>set xs. x < m" for xs
    using that assms(1) by (induction xs) auto
  then have "foldr max (map ob_sequence (filter (at_site tenant site) t)) 0 < m"
    using assms(2) by simp
  then show ?thesis by (simp add: next_sequence_def)
qed

text \<open>
  C36. Purging an account takes its grants' events out of the outbox, delivered or not, and with them the
  memory of the sequence: when the newest events of a site were about such grants, the next event of
  that site is numbered no higher than one that was already sent.
\<close>

theorem account_purge_reuses_sequence:
  assumes "lookup_by dj_id job (deletion_jobs d) = Some j" and "dj_status j = JobWaiting"
    and "dj_kind j = ScopeAccount"
    and "advanceDeletion ts clock job now d = (Inr r, d')" and "dr_status r = ReportComplete"
    and "e \<in> set (outbox d)" and "0 < ob_sequence e"
    and "\<And>q. q \<in> set (outbox d) \<Longrightarrow> at_site (ob_tenant e) (ob_site e) q \<Longrightarrow> ob_sequence e \<le> ob_sequence q \<Longrightarrow>
      \<exists>g\<in>deleted_grants (dj_id j) d. ob_grant q = Some g"
  shows "next_sequence (ob_tenant e) (ob_site e) (outbox d') \<le> ob_sequence e"
proof (rule next_sequence_bound [OF assms(7)])
  fix q assume q: "q \<in> set (outbox d')" "at_site (ob_tenant e) (ob_site e) q"
  obtain report where "purge_phase ts now j d = Inr (report, d')"
    by (rule complete_purges [OF assms(1,2,4,5)])
  then obtain j' d1 where "d' = put_job j' d1" "purge_account (dj_id j) (dj_scope j) d = Inr d1"
    using assms(3) by (auto simp: purge_phase_def Let_def and_then_Inr)
  then have "outbox d' = sql_delete (\<lambda>e. \<exists>g\<in>deleted_grants (dj_id j) d. ob_grant e = Some g) (outbox d)"
    by (auto simp: purge_account_def delete_account_row_def Let_def frame_simps split: if_splits)
  with q assms(8) [of q] show "ob_sequence q < ob_sequence e" by (auto simp: not_le [symmetric])
qed

definition sample_reuse_job :: job_row where
  "sample_reuse_job = sample_job ScopeAccount ''acc-1'' None JobWaiting (Some 361000)"

text \<open>The revocation of the account's grant was delivered as event 1 of the site.\<close>

definition sample_sent :: outbox_row where
  "sample_sent = (event_row_of ''t1'' ''site-1'' ''https://a.example/mcp'' EvGrant (Some ''grant-1'') None
     ''account_deleted'' 5 [])\<lparr>ob_delivered := Some 9\<rparr>"

definition sample_reuse_db :: db where
  "sample_reuse_db = (sample_deletion_db sample_reuse_job)\<lparr>outbox := [sample_sent],
     tombstones := [\<lparr>tb_job = sample_job_id, tb_kind = ''grant'', tb_object = ''grant-1'', tb_tenant = Some ''t1''\<rparr>]\<rparr>"

definition sample_reuse :: "deletion_report outcome" where
  "sample_reuse = advanceDeletion (\<lambda>_. ''now'') 6 sample_job_id 361000 sample_reuse_db"

theorem account_purge_reuses_sequence_witness:
  "next_sequence ''t1'' ''site-1'' (outbox (snd sample_reuse)) \<le> 1 \<and>
   next_sequence ''t1'' ''site-1'' (outbox sample_reuse_db) = 2"
proof -
  have c: "lookup_by dj_id sample_job_id (deletion_jobs sample_reuse_db) = Some sample_reuse_job"
    "dj_status sample_reuse_job = JobWaiting" "dj_kind sample_reuse_job = ScopeAccount"
    by code_simp+
  have k: "is_ok (fst sample_reuse)"
    "case fst sample_reuse of Inl _ \<Rightarrow> False | Inr r \<Rightarrow> dr_status r = ReportComplete"
    "sample_sent \<in> set (outbox sample_reuse_db)" "0 < ob_sequence sample_sent"
    "\<forall>q\<in>set (outbox sample_reuse_db). \<exists>g\<in>deleted_grants (dj_id sample_reuse_job) sample_reuse_db. ob_grant q = Some g"
    "ob_tenant sample_sent = ''t1'' \<and> ob_site sample_sent = ''site-1'' \<and> ob_sequence sample_sent = 1"
    "next_sequence ''t1'' ''site-1'' (outbox sample_reuse_db) = 2"
    by code_simp+
  have "dr_status (projr (fst sample_reuse)) = ReportComplete" using k(1,2) by (auto simp: is_ok_iff)
  from account_purge_reuses_sequence [OF c ok_outcome [OF k(1), unfolded sample_reuse_def]
      this [unfolded sample_reuse_def] k(3,4)] k(5-7)
  show ?thesis by (simp add: sample_reuse_def)
qed


end
