(* ===== verification/Signing_Keys.thy ===== *)
theory Signing_Keys
  imports Revocation
begin

text \<open>
  The life of a signing key (\<open>PostgresSigningKeyRepository\<close> and \<open>oauth.activate_signing_key\<close> as
  migration 009 leaves it): published, after twenty minutes active, retiring when the next key is
  activated, and revoked at the end.
\<close>

section \<open>Operations\<close>

record key_record =
  kr_kid :: string
  kr_provider :: custody_provider
  kr_reference :: string
  kr_jwk :: json
  kr_status :: key_status

definition key_record_of :: "key_row \<Rightarrow> key_record" where
  "key_record_of r = \<lparr>kr_kid = ky_kid r, kr_provider = ky_provider r, kr_reference = ky_reference r,
     kr_jwk = ky_jwk r, kr_status = ky_status r\<rparr>"

definition usable_key :: "time \<Rightarrow> key_row \<Rightarrow> bool" where
  "usable_key now r \<longleftrightarrow> ky_status r \<noteq> KeyRevoked \<and> ky_publish r \<le> now \<and>
     (ky_status r \<noteq> KeyActive \<or> (case ky_activate r of None \<Rightarrow> False | Some t \<Rightarrow> t \<le> now)) \<and>
     (ky_status r \<noteq> KeyRetiring \<or> (case ky_retire r of None \<Rightarrow> True | Some t \<Rightarrow> now < t))"

definition status_order :: "key_status \<Rightarrow> nat" where
  "status_order s = (case s of KeyActive \<Rightarrow> 0 | KeyPublished \<Rightarrow> 1 | _ \<Rightarrow> 2)"

definition usable_keys :: "time \<Rightarrow> key_row list \<Rightarrow> key_row list" where
  "usable_keys now t = sort_key (\<lambda>r. status_order (ky_status r)) (sort_key ky_publish
     (sort_key (\<lambda>r. map of_char (ky_kid r) :: nat list) (filter (usable_key now) t)))"

definition loadUsable :: "time \<Rightarrow> db \<Rightarrow> (key_record \<times> key_record list) outcome" where
  "loadUsable now d =
     withAuthorizationService (\<lambda>s d.
       let records = map key_record_of (usable_keys now (signing_keys d)) in
       case filter (\<lambda>r. kr_status r = KeyActive) records of
         [active] \<Rightarrow> Inr ((active, filter (\<lambda>r. kr_status r \<noteq> KeyActive) records), d)
       | _ \<Rightarrow> Inl ''single_active_signing_key_required'') d"

definition isActiveKey :: "string \<Rightarrow> time \<Rightarrow> db \<Rightarrow> bool outcome" where
  "isActiveKey kid now d =
     withAuthorizationService (\<lambda>s d. Inr (list_ex (\<lambda>r. ky_kid r = kid \<and> ky_status r = KeyActive \<and>
       (case ky_activate r of None \<Rightarrow> False | Some t \<Rightarrow> t \<le> now) \<and> ky_revoke r = None) (signing_keys d), d)) d"

record publish_input =
  pi_kid :: string
  pi_reference :: string
  pi_jwk :: json
  pi_provider :: "custody_provider option"
  pi_published :: "time option"

text \<open>The CHECKs on the identifier and on the public JWK, which refuses every private member.\<close>

definition json_text :: "string \<Rightarrow> json \<Rightarrow> string option" where
  "json_text k j = (case j of JObj obj \<Rightarrow> payload_text k obj | _ \<Rightarrow> None)"

definition json_has :: "string \<Rightarrow> json \<Rightarrow> bool" where
  "json_has k j \<longleftrightarrow> (case j of JObj obj \<Rightarrow> map_of obj k \<noteq> None | _ \<Rightarrow> False)"

definition private_members :: "string list" where
  "private_members = [''d'', ''p'', ''q'', ''dp'', ''dq'', ''qi'', ''oth'']"

definition key_row_ok :: "key_row \<Rightarrow> bool" where
  "key_row_ok r \<longleftrightarrow> rx id_class 8 128 (ky_kid r) \<and> json_text ''kty'' (ky_jwk r) = Some ''RSA'' \<and>
     json_text ''alg'' (ky_jwk r) = Some ''RS256'' \<and> json_text ''use'' (ky_jwk r) = Some ''sig'' \<and>
     \<not> list_ex (\<lambda>m. json_has m (ky_jwk r)) private_members"

definition publishKey :: "publish_input \<Rightarrow> time \<Rightarrow> db \<Rightarrow> unit outcome" where
  "publishKey input now d =
     withAuthorizationService (\<lambda>s d.
       and_then (sql_insert_checked key_row_ok ky_kid
           \<lparr>ky_kid = pi_kid input,
            ky_provider = (case pi_provider input of None \<Rightarrow> LocalPkcs8 | Some p \<Rightarrow> p),
            ky_reference = pi_reference input, ky_jwk = pi_jwk input, ky_status = KeyPublished,
            ky_publish = (case pi_published input of None \<Rightarrow> now | Some t \<Rightarrow> t),
            ky_activate = None, ky_retire = None, ky_revoke = None\<rparr> (signing_keys d))
         (\<lambda>t. Inr ((), d\<lparr>signing_keys := t\<rparr>))) d"

definition activatable :: "string \<Rightarrow> time \<Rightarrow> key_row \<Rightarrow> bool" where
  "activatable kid now r \<longleftrightarrow> ky_kid r = kid \<and> ky_status r = KeyPublished \<and>
     ky_provider r = LocalPkcs8 \<and> ky_publish r \<le> now - 1200000"

definition retire_row :: "time \<Rightarrow> key_row \<Rightarrow> key_row" where
  "retire_row now r = r\<lparr>ky_status := KeyRetiring, ky_retire := Some (now + 1200000)\<rparr>"

definition activate_row :: "time \<Rightarrow> key_row \<Rightarrow> key_row" where
  "activate_row now r = r\<lparr>ky_status := KeyActive, ky_activate := Some now\<rparr>"

definition activate_signing_key :: "string \<Rightarrow> time \<Rightarrow> key_row list \<Rightarrow> bool \<times> key_row list" where
  "activate_signing_key kid now t =
     (let current = map_option ky_kid (first_row (filter (\<lambda>r. ky_status r = KeyActive) t)) in
      if current = Some kid then (False, t)
      else if \<not> list_ex (activatable kid now) t then (False, t)
      else
        let t1 = (case current of
              None \<Rightarrow> t
            | Some c \<Rightarrow> sql_update (\<lambda>r. ky_kid r = c \<and> ky_status r = KeyActive) (retire_row now) t);
            P = (\<lambda>r. ky_kid r = kid \<and> ky_status r = KeyPublished)
        in (row_count P t1 \<noteq> 0, sql_update P (activate_row now) t1))"

definition activateKey :: "string \<Rightarrow> time \<Rightarrow> db \<Rightarrow> bool outcome" where
  "activateKey kid observedAt d =
     withAuthorizationService (\<lambda>s d.
       let (changed, t) = activate_signing_key kid observedAt (signing_keys d)
       in Inr (changed, d\<lparr>signing_keys := t\<rparr>)) d"

definition revokeKey :: "string \<Rightarrow> time \<Rightarrow> db \<Rightarrow> bool outcome" where
  "revokeKey kid observedAt d = withAuthorizationService (\<lambda>s. revoke_signing_key kid observedAt) d"

definition retireKey :: "string \<Rightarrow> time \<Rightarrow> db \<Rightarrow> bool outcome" where
  "retireKey kid observedAt d =
     withAuthorizationService (\<lambda>s d.
       let P = (\<lambda>r. ky_kid r = kid \<and> ky_status r = KeyRetiring \<and>
              (case ky_retire r of None \<Rightarrow> False | Some t \<Rightarrow> t \<le> observedAt))
       in Inr (row_count P (signing_keys d) = 1, d\<lparr>signing_keys := sql_update P
            (\<lambda>r. r\<lparr>ky_status := KeyRevoked, ky_revoke := Some observedAt\<rparr>) (signing_keys d)\<rparr>)) d"

section \<open>The life of a key\<close>

datatype key_op =
    KeyPublish publish_input time
  | KeyActivate string time
  | KeyRevoke string time
  | KeyRetire string time

fun key_step :: "key_op \<Rightarrow> db \<Rightarrow> db" where
  "key_step (KeyPublish input now) d = snd (publishKey input now d)"
| "key_step (KeyActivate kid now) d = snd (activateKey kid now d)"
| "key_step (KeyRevoke kid now) d = snd (revokeKey kid now d)"
| "key_step (KeyRetire kid now) d = snd (retireKey kid now d)"

text \<open>
  The invariant: identifiers are unique, the rows satisfy the CHECKs, at most one key is active, and
  an active key was published at least twenty minutes before its activation.
\<close>

definition single_active :: "key_row list \<Rightarrow> bool" where
  "single_active t \<longleftrightarrow> (\<forall>r\<in>set t. \<forall>q\<in>set t. ky_status r = KeyActive \<and> ky_status q = KeyActive \<longrightarrow>
     ky_kid r = ky_kid q)"

definition soaked :: "key_row \<Rightarrow> bool" where
  "soaked r \<longleftrightarrow> (ky_status r = KeyActive \<longrightarrow> ky_provider r = LocalPkcs8 \<and>
       (case ky_activate r of None \<Rightarrow> False | Some t \<Rightarrow> ky_publish r + 1200000 \<le> t)) \<and>
     (ky_status r \<noteq> KeyRevoked \<longrightarrow> ky_revoke r = None)"

definition keys_ok :: "key_row list \<Rightarrow> bool" where
  "keys_ok t \<longleftrightarrow> has_pk ky_kid t \<and> list_all key_row_ok t \<and> single_active t \<and> list_all soaked t"

text \<open>A key only moves forward, and keeps what it was published with.\<close>

definition key_rank :: "key_status \<Rightarrow> nat" where
  "key_rank s = (case s of KeyPublished \<Rightarrow> 0 | KeyActive \<Rightarrow> 1 | KeyRetiring \<Rightarrow> 2 | KeyRevoked \<Rightarrow> 3)"

definition key_forward :: "key_row \<Rightarrow> key_row \<Rightarrow> bool" where
  "key_forward r q \<longleftrightarrow> ky_kid q = ky_kid r \<and> ky_jwk q = ky_jwk r \<and> ky_reference q = ky_reference r \<and>
     ky_provider q = ky_provider r \<and> ky_publish q = ky_publish r \<and>
     key_rank (ky_status r) \<le> key_rank (ky_status q) \<and> (ky_status r = KeyRevoked \<longrightarrow> q = r)"

definition keys_below :: "db \<Rightarrow> db \<Rightarrow> bool" where
  "keys_below d d' \<longleftrightarrow> (\<forall>r\<in>set (signing_keys d). \<exists>q\<in>set (signing_keys d'). key_forward r q)"

lemma key_forward_refl: "key_forward r r"
  by (simp add: key_forward_def)

lemma key_forward_trans: "key_forward r q \<Longrightarrow> key_forward q p \<Longrightarrow> key_forward r p"
  by (auto simp: key_forward_def)

text \<open>An update of live rows that moves each of them forward.\<close>

lemma keys_forward_update:
  assumes "\<And>r. r \<in> set t \<Longrightarrow> P r \<Longrightarrow> key_forward r (f r)" and "r \<in> set t"
  shows "\<exists>q\<in>set (sql_update P f t). key_forward r q"
  using assms by (intro bexI [of _ "if P r then f r else r"]) (auto simp: set_sql_update key_forward_refl)

lemma row_facts [simp]:
  "ky_kid (retire_row now r) = ky_kid r" "ky_kid (activate_row now r) = ky_kid r"
  "ky_status (retire_row now r) = KeyRetiring" "ky_status (activate_row now r) = KeyActive"
  "key_row_ok (activate_row now r) = key_row_ok r"
  by (simp_all add: retire_row_def activate_row_def key_row_ok_def)

text \<open>Leaving the active state is harmless.\<close>

lemma keys_ok_leave:
  assumes "keys_ok t"
    and "\<And>r. ky_kid (f r) = ky_kid r \<and> ky_jwk (f r) = ky_jwk r \<and> ky_status (f r) \<noteq> KeyActive"
    and "\<And>r. P r \<Longrightarrow> soaked r \<Longrightarrow> soaked (f r)"
  shows "keys_ok (sql_update P f t)"
proof -
  have "key_row_ok (f r) = key_row_ok r" "ky_kid (f r) = ky_kid r" for r
    using assms(2) [of r] by (simp_all add: key_row_ok_def)
  moreover have "ky_status r = KeyActive \<Longrightarrow> r \<in> set t" if "r \<in> set (sql_update P f t)" for r
    using that assms(2) by (auto simp: set_sql_update)
  then have "single_active (sql_update P f t)"
    using assms(1) unfolding keys_ok_def single_active_def by blast
  ultimately show ?thesis
    using assms(1,3) by (simp add: keys_ok_def has_pk_update list_all_iff ball_sql_update)
qed

lemma active_unique:
  "keys_ok t \<Longrightarrow> r \<in> set t \<Longrightarrow> q \<in> set t \<Longrightarrow> ky_status r = KeyActive \<Longrightarrow> ky_status q = KeyActive \<Longrightarrow> q = r"
  unfolding keys_ok_def single_active_def by (metis pk_inject)

lemma filter_unique:
  assumes "distinct t" and "r \<in> set t" and "Q r" and "\<And>q. q \<in> set t \<Longrightarrow> Q q \<Longrightarrow> q = r"
  shows "filter Q t = [r]"
proof -
  have "filter Q t = filter (\<lambda>q. q = r) t" using assms(3,4) by (auto intro: filter_cong)
  also have "\<dots> = [r]" using assms(1,2) by (induction t) (auto simp: filter_empty_conv)
  finally show ?thesis .
qed

lemma distinct_keys: "keys_ok t \<Longrightarrow> distinct t"
  by (simp add: keys_ok_def has_pk_def distinct_map)

lemma revoke_signing_key_Inr:
  assumes "revoke_signing_key kid now d = Inr (b, d')"
  obtains "b = False" "d' = d"
  | P where "b = True" "\<And>r. P r \<longleftrightarrow> ky_kid r = kid \<and> ky_status r \<noteq> KeyRevoked" "\<exists>r\<in>set (signing_keys d). P r"
      "signing_keys d' = sql_update P (\<lambda>k. k\<lparr>ky_status := KeyRevoked, ky_revoke := Some now\<rparr>) (signing_keys d)"
proof -
  let ?P = "\<lambda>k. ky_kid k = kid \<and>
            (ky_status k = KeyPublished \<or> ky_status k = KeyActive \<or> ky_status k = KeyRetiring)"
  have P: "?P r \<longleftrightarrow> ky_kid r = kid \<and> ky_status r \<noteq> KeyRevoked" for r
    by (cases "ky_status r") simp_all
  show thesis
  proof (cases "row_count ?P (signing_keys d) = 0")
    case True
    with assms that(1) show thesis by (simp add: revoke_signing_key_def Let_def)
  next
    case False
    then have "\<exists>r\<in>set (signing_keys d). ?P r" unfolding row_count_eq_0 by blast
    moreover from False assms have "b = True" "signing_keys d' =
        sql_update ?P (\<lambda>k. k\<lparr>ky_status := KeyRevoked, ky_revoke := Some now\<rparr>) (signing_keys d)"
      by (auto simp: revoke_signing_key_def Let_def and_then_Inr simp del: sql_update_simps)
    ultimately show thesis using that(2) [of ?P] P by blast
  qed
qed

lemma activate_effect:
  assumes "activate_signing_key kid now t = (b, u)" and "keys_ok t"
  shows "(b = False \<and> u = t) \<or>
     (b = True \<and> list_ex (activatable kid now) t \<and> u = sql_update (\<lambda>r. ky_kid r = kid) (activate_row now)
        (sql_update (\<lambda>r. ky_status r = KeyActive) (retire_row now) t))"
proof (cases "b = False \<and> u = t")
  case False
  let ?c = "map_option ky_kid (first_row (filter (\<lambda>r. ky_status r = KeyActive) t))"
  define t1 where "t1 = (case ?c of None \<Rightarrow> t
      | Some c \<Rightarrow> sql_update (\<lambda>r. ky_kid r = c \<and> ky_status r = KeyActive) (retire_row now) t)"
  have t1: "t1 = sql_update (\<lambda>r. ky_status r = KeyActive) (retire_row now) t"
  proof (cases ?c)
    case None
    then have "\<forall>r\<in>set t. ky_status r \<noteq> KeyActive" by (simp add: filter_empty_conv)
    then have "sql_update (\<lambda>r. ky_status r = KeyActive) (retire_row now) t = t" by (rule sql_update_none)
    with None show ?thesis by (simp add: t1_def)
  next
    case (Some c)
    then obtain r where "r \<in> set t" "ky_status r = KeyActive" "ky_kid r = c"
      by (auto dest: first_row_filterD)
    then have "\<forall>q\<in>set t. ky_status q = KeyActive \<longrightarrow> ky_kid q = c"
      using assms(2) unfolding keys_ok_def single_active_def by blast
    then have "\<And>q. q \<in> set t \<Longrightarrow> (ky_kid q = c \<and> ky_status q = KeyActive) = (ky_status q = KeyActive)"
      by blast
    then have "sql_update (\<lambda>r. ky_kid r = c \<and> ky_status r = KeyActive) (retire_row now) t =
        sql_update (\<lambda>r. ky_status r = KeyActive) (retire_row now) t" by (simp add: sql_update_def)
    with Some show ?thesis by (simp only: t1_def option.case)
  qed
  from False assms(1) have a: "list_ex (activatable kid now) t"
    and b: "b = (row_count (\<lambda>r. ky_kid r = kid \<and> ky_status r = KeyPublished) t1 \<noteq> 0)"
    and u: "u = sql_update (\<lambda>r. ky_kid r = kid \<and> ky_status r = KeyPublished) (activate_row now) t1"
    by (auto simp: activate_signing_key_def Let_def t1_def split: if_splits)
  from a obtain k where k: "k \<in> set t" "ky_kid k = kid" "ky_status k = KeyPublished"
    by (auto simp: list_ex_iff activatable_def)
  have one: "r = k" if "r \<in> set t" "ky_kid r = kid" for r
    using assms(2) k that by (auto simp: keys_ok_def intro: pk_inject)
  have kt: "k \<in> set t1"
    unfolding t1 set_sql_update using k by (intro image_eqI [of _ _ k]) simp_all
  have "ky_status r = KeyPublished" if r: "r \<in> set t1" "ky_kid r = kid" for r
  proof -
    obtain q where q: "q \<in> set t" "r = (if ky_status q = KeyActive then retire_row now q else q)"
      using r(1) by (auto simp: t1 set_sql_update)
    have "ky_kid q = kid" using q(2) r(2) by (simp split: if_splits)
    then have "q = k" by (rule one [OF q(1)])
    with q(2) k show ?thesis by simp
  qed
  then have "\<And>r. r \<in> set t1 \<Longrightarrow> (ky_kid r = kid \<and> ky_status r = KeyPublished) = (ky_kid r = kid)" by blast
  then have "u = sql_update (\<lambda>r. ky_kid r = kid) (activate_row now) t1" by (simp add: u sql_update_def)
  moreover have b using kt k unfolding b row_count_eq_0 by blast
  ultimately have "b = True \<and> u = sql_update (\<lambda>r. ky_kid r = kid) (activate_row now) t1" by simp
  with a show ?thesis by (simp add: t1)
qed simp

lemma keys_ok_activate:
  assumes "activate_signing_key kid now t = (b, u)" and "keys_ok t"
  shows "keys_ok u \<and> (\<forall>r\<in>set t. \<exists>q\<in>set u. key_forward r q)"
  using activate_effect [OF assms]
proof
  assume *: "b = True \<and> list_ex (activatable kid now) t \<and> u = sql_update (\<lambda>r. ky_kid r = kid) (activate_row now)
        (sql_update (\<lambda>r. ky_status r = KeyActive) (retire_row now) t)"
  let ?t1 = "sql_update (\<lambda>r. ky_status r = KeyActive) (retire_row now) t"
  from * obtain k where k: "k \<in> set t" "activatable kid now k" by (auto simp: list_ex_iff)
  have one: "r = k" if "r \<in> set t" "ky_kid r = kid" for r
    using assms(2) k that by (auto simp: keys_ok_def activatable_def intro: pk_inject)
  have t1: "keys_ok ?t1" using assms(2) by (rule keys_ok_leave) (simp_all add: retire_row_def soaked_def)
  have none: "\<forall>r\<in>set ?t1. ky_status r \<noteq> KeyActive" by (auto simp: set_sql_update)
  have only: "\<forall>r\<in>set ?t1. ky_kid r = kid \<longrightarrow> r = k"
  proof
    fix r assume "r \<in> set ?t1"
    then obtain q where q: "q \<in> set t" "r = (if ky_status q = KeyActive then retire_row now q else q)"
      by (auto simp: set_sql_update)
    have "ky_status k = KeyPublished" using k by (simp add: activatable_def)
    then show "ky_kid r = kid \<longrightarrow> r = k"
      using q one [OF q(1)] by (cases "ky_status q = KeyActive") auto
  qed
  have "keys_ok u"
    unfolding keys_ok_def single_active_def
  proof (intro conjI)
    show "has_pk ky_kid u" using * t1 by (simp add: keys_ok_def has_pk_update)
    show "list_all key_row_ok u"
      using * t1 by (simp add: keys_ok_def list_all_iff ball_sql_update)
    show "\<forall>r\<in>set u. \<forall>q\<in>set u. ky_status r = KeyActive \<and> ky_status q = KeyActive \<longrightarrow> ky_kid r = ky_kid q"
    proof -
      have "\<forall>r\<in>set u. ky_status r = KeyActive \<longrightarrow> ky_kid r = kid"
        using * none by (simp add: ball_sql_update)
      then show ?thesis by metis
    qed
    have "soaked k" using assms(2) k by (simp add: keys_ok_def list_all_iff)
    then have "soaked (activate_row now k)"
      using k by (simp add: soaked_def activate_row_def activatable_def)
    then show "list_all soaked u"
      using * t1 only by (auto simp: keys_ok_def list_all_iff set_sql_update)
  qed
  moreover have "\<exists>q\<in>set u. key_forward r q" if r: "r \<in> set t" for r
  proof -
    have "\<exists>q\<in>set ?t1. key_forward r q"
      by (rule keys_forward_update [OF _ r]) (auto simp: key_forward_def retire_row_def key_rank_def)
    then obtain q where q: "q \<in> set ?t1" "key_forward r q" by blast
    have "\<exists>p\<in>set u. key_forward q p"
      unfolding * [THEN conjunct2, THEN conjunct2]
    proof (rule keys_forward_update [OF _ q(1)])
      fix p assume "p \<in> set ?t1" "ky_kid p = kid"
      with only k show "key_forward p (activate_row now p)"
        by (auto simp: key_forward_def activate_row_def activatable_def key_rank_def)
    qed
    with q show ?thesis by (blast intro: key_forward_trans)
  qed
  ultimately show ?thesis by blast
next
  assume "b = False \<and> u = t"
  then show ?thesis using assms(2) by (auto intro: key_forward_refl)
qed

lemma keys_ok_kill:
  assumes "keys_ok t" and "\<And>r. r \<in> set t \<Longrightarrow> P r \<Longrightarrow> ky_status r \<noteq> KeyRevoked"
    and "\<And>r. f r = r\<lparr>ky_status := KeyRevoked, ky_revoke := Some now\<rparr>"
  shows "keys_ok (sql_update P f t) \<and> (\<forall>r\<in>set t. \<exists>q\<in>set (sql_update P f t). key_forward r q)"
proof
  show "keys_ok (sql_update P f t)" using assms(1) by (rule keys_ok_leave) (simp_all add: assms(3) soaked_def)
  show "\<forall>r\<in>set t. \<exists>q\<in>set (sql_update P f t). key_forward r q"
    using assms(2) by (intro ballI keys_forward_update)
      (auto simp: assms(3) key_forward_def key_rank_def split: key_status.split)
qed

lemma publish_keeps:
  assumes "keys_ok (signing_keys d)"
  shows "keys_ok (signing_keys (snd (publishKey input now d))) \<and> keys_below d (snd (publishKey input now d))"
proof (cases "publishKey input now d")
  case (Pair r d')
  show ?thesis
  proof (cases r)
    case (Inl e)
    with Pair have "d' = d" by (simp add: publishKey_def with_role_defs transaction_rollback)
    with Pair assms show ?thesis by (auto simp: keys_below_def intro: key_forward_refl)
  next
    case (Inr u)
    then have "publishKey input now d = (Inr (), d')" using Pair by simp
    then obtain k where k: "signing_keys d' = signing_keys d @ [k]" "ky_status k = KeyPublished"
      "ky_revoke k = None" "key_row_ok k" "ky_kid k \<notin> ky_kid ` set (signing_keys d)"
      by (auto simp: publishKey_def tx_succ sql_insert_checked_Inr)
    have "x \<in> set (signing_keys d)" if "x \<in> set (signing_keys d @ [k])" "ky_status x = KeyActive" for x
      using that k(2) by auto
    then have "single_active (signing_keys d @ [k])"
      using assms unfolding keys_ok_def single_active_def by blast
    then have "keys_ok (signing_keys d')"
      using assms k(2-5) unfolding k(1) keys_ok_def by (simp add: has_pk_def soaked_def)
    then show ?thesis using Pair k(1) by (auto simp: keys_below_def intro: key_forward_refl)
  qed
qed

lemma key_step_keeps:
  assumes "keys_ok (signing_keys d)"
  shows "keys_ok (signing_keys (key_step x d)) \<and> keys_below d (key_step x d)"
proof (cases x)
  case (KeyPublish input now)
  then show ?thesis using publish_keeps [OF assms] by simp
next
  case (KeyActivate kid now)
  obtain b u where bu: "activate_signing_key kid now (signing_keys d) = (b, u)" by fastforce
  then have "key_step x d = d\<lparr>signing_keys := u\<rparr>"
    by (simp add: KeyActivate activateKey_def with_role_defs transaction_def)
  with keys_ok_activate [OF bu assms] show ?thesis by (simp add: keys_below_def)
next
  case (KeyRevoke kid now)
  obtain r d' where rd: "revokeKey kid now d = (r, d')" by fastforce
  show ?thesis
  proof (cases "d' = d")
    case True
    then show ?thesis using assms KeyRevoke rd by (auto simp: keys_below_def intro: key_forward_refl)
  next
    case False
    then obtain b where "revoke_signing_key kid now d = Inr (b, d')"
      using rd by (auto simp: revokeKey_def with_role_defs transaction_def split: sum.splits)
    then show ?thesis
    proof (rule revoke_signing_key_Inr)
      fix P assume P: "\<And>r. P r \<longleftrightarrow> ky_kid r = kid \<and> ky_status r \<noteq> KeyRevoked"
        "signing_keys d' = sql_update P (\<lambda>k. k\<lparr>ky_status := KeyRevoked, ky_revoke := Some now\<rparr>) (signing_keys d)"
      have "\<And>r. P r \<Longrightarrow> ky_status r \<noteq> KeyRevoked" using P(1) by blast
      from keys_ok_kill [OF assms this, of P "\<lambda>k. k\<lparr>ky_status := KeyRevoked, ky_revoke := Some now\<rparr>" now] P(2) rd
      show ?thesis by (simp add: KeyRevoke keys_below_def)
    qed (use False in simp)
  qed
next
  case (KeyRetire kid now)
  let ?P = "\<lambda>r. ky_kid r = kid \<and> ky_status r = KeyRetiring \<and>
              (case ky_retire r of None \<Rightarrow> False | Some t \<Rightarrow> t \<le> now)"
  let ?f = "\<lambda>r. r\<lparr>ky_status := KeyRevoked, ky_revoke := Some now\<rparr>"
  have "key_step x d = d\<lparr>signing_keys := sql_update ?P ?f (signing_keys d)\<rparr>"
    by (simp add: KeyRetire retireKey_def with_role_defs transaction_def Let_def)
  moreover have "keys_ok (sql_update ?P ?f (signing_keys d)) \<and>
      (\<forall>r\<in>set (signing_keys d). \<exists>q\<in>set (sql_update ?P ?f (signing_keys d)). key_forward r q)"
    by (rule keys_ok_kill [OF assms]) auto
  ultimately show ?thesis by (simp add: keys_below_def)
qed

interpretation key_life: monotone_machine key_step "\<lambda>_. True" "\<lambda>d. keys_ok (signing_keys d)" keys_below
proof unfold_locales
  show "keys_below d d" for d by (auto simp: keys_below_def intro: key_forward_refl)
  show "keys_below d e \<Longrightarrow> keys_below e f \<Longrightarrow> keys_below d f" for d e f
    unfolding keys_below_def by (meson key_forward_trans)
qed (use key_step_keeps in auto)

section \<open>Properties\<close>

text \<open>An example: two keys published one after the other, the first activated.\<close>

definition sample_publish :: "string \<Rightarrow> publish_input" where
  "sample_publish kid = \<lparr>pi_kid = kid, pi_reference = ''slot'', pi_jwk = JObj [(''kty'', JStr ''RSA''),
     (''alg'', JStr ''RS256''), (''use'', JStr ''sig'')], pi_provider = None, pi_published = None\<rparr>"

definition sample_key_ops :: "key_op list" where
  "sample_key_ops = [KeyPublish (sample_publish ''key-0001'') 0, KeyActivate ''key-0001'' 1200000,
     KeyPublish (sample_publish ''key-0002'') 2000000]"

definition sample_keys_db :: db where
  "sample_keys_db = fold key_step sample_key_ops empty_db"

definition sample_active_key :: key_row where
  "sample_active_key = hd (signing_keys sample_keys_db)"

lemma sample_keys_facts:
  "keys_ok (signing_keys empty_db)" "keys_ok (signing_keys sample_keys_db)"
  "sample_active_key \<in> set (signing_keys sample_keys_db)" "ky_status sample_active_key = KeyActive"
  "usable_key 4000000 sample_active_key" "ky_kid sample_active_key = ''key-0001''"
  by code_simp+

lemma loadUsable_Inr:
  "loadUsable now d = (Inr (a, v), d') \<Longrightarrow>
     kr_status a = KeyActive \<and> (\<forall>k\<in>set v. kr_status k \<noteq> KeyActive) \<and>
     (\<exists>r\<in>set (signing_keys d). usable_key now r \<and> key_record_of r = a) \<and>
     (\<forall>k\<in>set v. \<exists>r\<in>set (signing_keys d). usable_key now r \<and> key_record_of r = k)"
proof -
  assume l: "loadUsable now d = (Inr (a, v), d')"
  let ?rs = "map key_record_of (usable_keys now (signing_keys d))"
  from l have f: "filter (\<lambda>r. kr_status r = KeyActive) ?rs = [a]"
    and v: "v = filter (\<lambda>r. kr_status r \<noteq> KeyActive) ?rs"
    by (auto simp: loadUsable_def tx_succ)
  have "set ?rs = key_record_of ` {r \<in> set (signing_keys d). usable_key now r}"
    by (simp add: usable_keys_def)
  moreover have "a \<in> set ?rs" "kr_status a = KeyActive"
    using arg_cong [OF f, of set] by auto
  ultimately show ?thesis using v by auto
qed

text \<open>
  C13. However keys are published, activated, revoked and retired, at most one is active at any moment,
  and it was published at least twenty minutes before it was activated, so that every site that
  refreshes the key set in that time knows it.
\<close>

theorem single_active_signing_key:
  assumes "keys_ok (signing_keys d)" and "r \<in> set (signing_keys (fold key_step ops d))"
    and "ky_status r = KeyActive"
  shows "(\<exists>t. ky_activate r = Some t \<and> ky_publish r + 20 * 60000 \<le> t) \<and>
     filter (\<lambda>q. ky_status q = KeyActive) (signing_keys (fold key_step ops d)) = [r]"
proof -
  have ok: "keys_ok (signing_keys (fold key_step ops d))"
    by (rule key_life.run_inv [OF assms(1)]) (simp add: list_all_iff)
  then have "soaked r" using assms(2) by (simp add: keys_ok_def list_all_iff)
  then have "\<exists>t. ky_activate r = Some t \<and> ky_publish r + 20 * 60000 \<le> t"
    using assms(3) by (auto simp: soaked_def split: option.splits)
  moreover have "filter (\<lambda>q. ky_status q = KeyActive) (signing_keys (fold key_step ops d)) = [r]"
    using assms(2,3) active_unique [OF ok assms(2) _ assms(3)]
    by (intro filter_unique [OF distinct_keys [OF ok]]) blast+
  ultimately show ?thesis by blast
qed

theorem single_active_signing_key_witness:
  "filter (\<lambda>q. ky_status q = KeyActive) (signing_keys sample_keys_db) = [sample_active_key]"
  using single_active_signing_key [OF sample_keys_facts(1) sample_keys_facts(3)[unfolded sample_keys_db_def]
    sample_keys_facts(4)] by (simp add: sample_keys_db_def)

text \<open>
  Revocation of a key is final: whatever is done afterwards, the key neither signs nor verifies.
\<close>

theorem revoked_key_unusable:
  assumes "revokeKey kid now d = (Inr True, d')" and "keys_ok (signing_keys d)"
    and "r \<in> set (signing_keys (fold key_step ops d'))" and "ky_kid r = kid"
  shows "\<not> usable_key later r \<and> fst (isActiveKey kid later (fold key_step ops d')) = Inr False"
proof -
  let ?e = "fold key_step ops d'"
  have d': "d' = key_step (KeyRevoke kid now) d" using assms(1) by simp
  have ok': "keys_ok (signing_keys d')" using key_step_keeps [OF assms(2)] d' by blast
  have ok: "keys_ok (signing_keys ?e)" and below: "keys_below d' ?e"
    using key_life.run_inv [OF ok'] key_life.run_below [OF ok'] by (simp_all add: list_all_iff)
  have "revoke_signing_key kid now d = Inr (True, d')"
    using assms(1) by (auto simp: revokeKey_def tx_succ)
  then have "\<exists>q\<in>set (signing_keys d'). ky_kid q = kid \<and> ky_status q = KeyRevoked"
  proof (rule revoke_signing_key_Inr)
    fix P assume P: "\<And>r. P r \<longleftrightarrow> ky_kid r = kid \<and> ky_status r \<noteq> KeyRevoked" "\<exists>r\<in>set (signing_keys d). P r"
      "signing_keys d' = sql_update P (\<lambda>k. k\<lparr>ky_status := KeyRevoked, ky_revoke := Some now\<rparr>) (signing_keys d)"
    then obtain r where r: "r \<in> set (signing_keys d)" "P r" by blast
    then have "ky_kid r = kid" using P(1) by blast
    then show ?thesis
      unfolding P(3) set_sql_update using r
      by (intro bexI [of _ "r\<lparr>ky_status := KeyRevoked, ky_revoke := Some now\<rparr>"]) (auto intro!: image_eqI [of _ _ r])
  qed simp
  then obtain q where q: "q \<in> set (signing_keys d')" "ky_kid q = kid" "ky_status q = KeyRevoked" by blast
  with below obtain p where p: "p \<in> set (signing_keys ?e)" "key_forward q p"
    unfolding keys_below_def by blast
  then have "p = q" using q(3) by (simp add: key_forward_def)
  have "x = q" if "x \<in> set (signing_keys ?e)" "ky_kid x = kid" for x
    using ok p \<open>p = q\<close> q(2) that unfolding keys_ok_def by (metis pk_inject)
  then have "ky_status x = KeyRevoked" if "x \<in> set (signing_keys ?e)" "ky_kid x = kid" for x
    using that q(3) by blast
  with assms(3,4) show ?thesis
    by (auto simp: usable_key_def isActiveKey_def with_role_defs transaction_def list_ex_iff)
qed

theorem revoked_key_unusable_witness:
  "fst (isActiveKey ''key-0001'' 5000000
     (fold key_step [KeyActivate ''key-0001'' 5000000] (snd (revokeKey ''key-0001'' 3000000 sample_keys_db)))) =
   Inr False"
proof -
  let ?d = "snd (revokeKey ''key-0001'' 3000000 sample_keys_db)"
  let ?e = "fold key_step [KeyActivate ''key-0001'' 5000000] ?d"
  have "fst (revokeKey ''key-0001'' 3000000 sample_keys_db) = Inr True"
    "hd (signing_keys ?e) \<in> set (signing_keys ?e)" "ky_kid (hd (signing_keys ?e)) = ''key-0001''"
    by code_simp+
  then show ?thesis
    using revoked_key_unusable [of "''key-0001''" 3000000 sample_keys_db ?d] sample_keys_facts(2)
    by (metis prod.collapse)
qed

text \<open>
  A rotation keeps verification working: for twenty minutes after a key was activated, the key that
  was active before is still usable, as a key to verify with, and the new one signs.
\<close>

theorem rotation_overlap:
  assumes "activateKey kid now d = (Inr True, d')" and "keys_ok (signing_keys d)"
    and "c \<in> set (signing_keys d)" and "ky_status c = KeyActive" and "usable_key now c"
    and "now \<le> later" and "later < now + 20 * 60000"
  shows "\<exists>q\<in>set (signing_keys d'). ky_kid q = ky_kid c \<and> ky_jwk q = ky_jwk c \<and>
       usable_key later q \<and> ky_status q = KeyRetiring \<and> fst (isActiveKey kid later d') = Inr True"
proof -
  obtain u where u: "activate_signing_key kid now (signing_keys d) = (True, u)" and d': "d' = d\<lparr>signing_keys := u\<rparr>"
    using assms(1) by (auto simp: activateKey_def tx_succ)
  let ?t1 = "sql_update (\<lambda>r. ky_status r = KeyActive) (retire_row now) (signing_keys d)"
  from activate_effect [OF u assms(2)] have ex: "list_ex (activatable kid now) (signing_keys d)"
    and eq: "u = sql_update (\<lambda>r. ky_kid r = kid) (activate_row now) ?t1" by auto
  from ex obtain k where k: "k \<in> set (signing_keys d)" "ky_kid k = kid" "ky_status k = KeyPublished"
    by (auto simp: list_ex_iff activatable_def)
  have ck: "ky_kid c \<noteq> kid"
    using assms(2-4) k pk_inject [of ky_kid "signing_keys d" c k] by (auto simp: keys_ok_def)
  have q: "retire_row now c \<in> set u"
    unfolding eq set_sql_update image_image by (rule image_eqI [of _ _ c]) (use assms(3,4) ck in simp_all)
  have a: "activate_row now k \<in> set u"
    unfolding eq set_sql_update image_image by (rule image_eqI [of _ _ k]) (use k in simp_all)
  have "soaked k" using assms(2) k(1) by (simp add: keys_ok_def list_all_iff)
  then have "fst (isActiveKey kid later d') = Inr True"
    using a k assms(6)
    by (auto simp: isActiveKey_def with_role_defs transaction_def d' list_ex_iff soaked_def activate_row_def
        intro!: bexI [of _ "activate_row now k"])
  moreover have "usable_key later (retire_row now c)"
    using assms(4-7) by (simp add: usable_key_def retire_row_def)
  ultimately show ?thesis
    using q d' by (intro bexI [of _ "retire_row now c"]) (simp_all add: retire_row_def)
qed

theorem rotation_overlap_witness:
  "\<exists>q\<in>set (signing_keys (snd (activateKey ''key-0002'' 4000000 sample_keys_db))).
     ky_kid q = ''key-0001'' \<and> usable_key 5000000 q"
proof -
  have "activateKey ''key-0002'' 4000000 sample_keys_db =
      (Inr True, snd (activateKey ''key-0002'' 4000000 sample_keys_db))"
    by (rule prod_eqI) (code_simp, simp)
  from rotation_overlap [OF this sample_keys_facts(2,3,4,5), of 5000000] sample_keys_facts(6)
  show ?thesis by auto
qed

end
