(* ===== verification/Host_Files.thy ===== *)
theory Host_Files
  imports Json_Text
begin

text \<open>
  What the packages read from the host: files as \<open>lstat\<close> and \<open>readFile\<close> see them, and the process
  environment.  The file system and the environment are arguments of the definitions that read them.
\<close>

record file_info =
  fi_file :: bool
  fi_symlink :: bool
  fi_size :: nat
  fi_mode :: nat
  fi_owner :: nat
  fi_text :: string

definition strip_newline :: "string \<Rightarrow> string" where
  "strip_newline s =
     (if ends_with s [CHR 0x0D, CHR 0x0A] then take (length s - 2) s
      else if ends_with s [CHR 0x0A] then take (length s - 1) s else s)"

type_synonym file_system = "string \<Rightarrow> file_info option"
type_synonym environment = "string \<Rightarrow> string option"

definition is_absolute :: "string \<Rightarrow> bool" where
  "is_absolute p \<longleftrightarrow> starts_with p ''/''"

text \<open>An address that is an exact https origin: \<open>new URL\<close> of it has nothing but a host and a port.\<close>

definition origin_only :: "url \<Rightarrow> bool" where
  "origin_only u \<longleftrightarrow> \<not> (url_protocol u \<noteq> ''https:'' \<or> url_username u \<noteq> [] \<or> url_password u \<noteq> [] \<or>
     url_pathname u \<noteq> ''/'' \<or> url_search u \<noteq> [] \<or> url_hash u \<noteq> [])"

end
