(* ===== verification/OAuth_Clients.thy ===== *)
theory OAuth_Clients
  imports Revocation Host_Files
begin

text \<open>
  What the authorization server looks up in the database: the resources it protects, the public
  clients with the two maintenance clients of the acceptance environments, and the consent that
  stands behind a token (\<open>PostgresResourceRegistry\<close>, \<open>PostgresOAuthClientRepository\<close>,
  \<open>PostgresGrantClaimsResolver\<close>, \<open>PostgresAuthorizationGrantRepository\<close>).
\<close>

section \<open>Resources\<close>

definition resolveResource :: "string \<Rightarrow> db \<Rightarrow> (string \<times> string list) option outcome" where
  "resolveResource resource d =
     withAuthorizationService (\<lambda>s d.
       let rows = take 2 (filter (\<lambda>r. site_select s d r \<and> si_resource r = resource \<and>
             si_status r = SiteActive) (sites d)) in
       Inr ((case rows of
          [row] \<Rightarrow> Some (si_resource row, [''mcp:read'', ''mcp:content.write'', ''mcp:media.write'',
              ''mcp:taxonomy.write'', ''mcp:seo.write''])
        | _ \<Rightarrow> None), d)) d"

section \<open>Clients\<close>

fun json_strings :: "json list \<Rightarrow> string list option" where
  "json_strings [] = Some []"
| "json_strings (JStr s # js) = map_option ((#) s) (json_strings js)"
| "json_strings (_ # js) = None"

definition client_redirects :: "client_row \<Rightarrow> (string \<times> string list) result" where
  "client_redirects r =
     (case cl_redirects r of
        JArr [] \<Rightarrow> Inl ''invalid_oauth_client_metadata''
      | JArr xs \<Rightarrow> (case json_strings xs of
            None \<Rightarrow> Inl ''invalid_oauth_client_metadata'' | Some uris \<Rightarrow> Inr (cl_id r, uris))
      | _ \<Rightarrow> Inl ''invalid_oauth_client_metadata'')"

fun map_result :: "('a \<Rightarrow> 'b result) \<Rightarrow> 'a list \<Rightarrow> 'b list result" where
  "map_result f [] = Inr []"
| "map_result f (x # xs) = and_then (f x) (\<lambda>y. and_then (map_result f xs) (\<lambda>ys. Inr (y # ys)))"

definition loadActivePublicClients :: "db \<Rightarrow> (string \<times> string list) list outcome" where
  "loadActivePublicClients d =
     withAuthorizationService (\<lambda>s d.
       and_then (map_result client_redirects (sort_key (\<lambda>r. map of_char (cl_id r) :: nat list)
           (filter (\<lambda>r. cl_status r = ClActive) (clients d))))
         (\<lambda>loaded. Inr (loaded, d))) d"

definition P3A_LIFECYCLE_TEST_CLIENT_ID :: string where
  "P3A_LIFECYCLE_TEST_CLIENT_ID = ''wepuu-e2e-lifecycle''"
definition P3A_LIFECYCLE_TEST_REDIRECT_URI :: string where
  "P3A_LIFECYCLE_TEST_REDIRECT_URI = ''http://127.0.0.1/callback''"
definition P3B1_CODEX_CLIENT_ID :: string where
  "P3B1_CODEX_CLIENT_ID = ''wepuu-e2e-codex''"
definition P3B1_CODEX_STABLE_REDIRECT_URI :: string where
  "P3B1_CODEX_STABLE_REDIRECT_URI = ''http://127.0.0.1/callback''"
definition P3B1_CODEX_BASELINE_METADATA_DIGEST :: string where
  "P3B1_CODEX_BASELINE_METADATA_DIGEST = ''sha256:e2e-loopback-20261009''"

definition exactStringArray :: "json \<Rightarrow> string list \<Rightarrow> bool" where
  "exactStringArray value expected \<longleftrightarrow> value = JArr (map JStr expected)"

definition client_metadata_digest :: "runtime \<Rightarrow> string \<Rightarrow> string list \<Rightarrow> string" where
  "client_metadata_digest rt clientId redirectUris = hex rt (sha256 rt (json_stringify (JObj
     [(''client_id'', JStr clientId), (''redirect_uris'', JArr (map JStr redirectUris)),
      (''token_endpoint_auth_method'', JStr ''none''), (''code_challenge_method'', JStr ''S256'')])))"

definition p3aLifecycleClientMetadataDigest :: "runtime \<Rightarrow> string" where
  "p3aLifecycleClientMetadataDigest rt =
     client_metadata_digest rt P3A_LIFECYCLE_TEST_CLIENT_ID [P3A_LIFECYCLE_TEST_REDIRECT_URI]"

definition p3b1CodexClientMetadataDigest :: "runtime \<Rightarrow> string list \<Rightarrow> string" where
  "p3b1CodexClientMetadataDigest rt redirectUris =
     client_metadata_digest rt P3B1_CODEX_CLIENT_ID redirectUris"

definition lifecycle_row_ok :: "runtime \<Rightarrow> client_row \<Rightarrow> bool" where
  "lifecycle_row_ok rt r \<longleftrightarrow> cl_mode r = ''pre-registered'' \<and>
     exactStringArray (cl_redirects r) [P3A_LIFECYCLE_TEST_REDIRECT_URI] \<and>
     cl_digest r = p3aLifecycleClientMetadataDigest rt"

definition provisionP3aLifecycleTestClient :: "runtime \<Rightarrow> db \<Rightarrow> bool outcome" where
  "provisionP3aLifecycleTestClient rt d =
     withAuthorizationService (\<lambda>s d.
       case lookup_by cl_id P3A_LIFECYCLE_TEST_CLIENT_ID (clients d) of
         Some row \<Rightarrow>
           if \<not> lifecycle_row_ok rt row \<or> cl_status row \<noteq> ClActive then Inl ''p3a_lifecycle_client_conflict''
           else Inr (False, d)
       | None \<Rightarrow>
           and_then (sql_insert cl_id \<lparr>cl_id = P3A_LIFECYCLE_TEST_CLIENT_ID, cl_mode = ''pre-registered'',
               cl_redirects = JArr [JStr P3A_LIFECYCLE_TEST_REDIRECT_URI],
               cl_digest = p3aLifecycleClientMetadataDigest rt, cl_status = ClActive\<rparr> (clients d))
             (\<lambda>t. Inr (True, d\<lparr>clients := t\<rparr>))) d"

definition suspendP3aLifecycleTestClient :: "runtime \<Rightarrow> db \<Rightarrow> bool outcome" where
  "suspendP3aLifecycleTestClient rt d =
     withAuthorizationService (\<lambda>s d.
       case lookup_by cl_id P3A_LIFECYCLE_TEST_CLIENT_ID (clients d) of
         None \<Rightarrow> Inr (False, d)
       | Some row \<Rightarrow>
           if \<not> lifecycle_row_ok rt row then Inl ''p3a_lifecycle_client_conflict''
           else if cl_status row \<noteq> ClActive then Inr (False, d)
           else
             let P = (\<lambda>r. cl_id r = P3A_LIFECYCLE_TEST_CLIENT_ID \<and> cl_status r = ClActive)
             in Inr (row_count P (clients d) = 1,
                  d\<lparr>clients := sql_update P (\<lambda>r. r\<lparr>cl_status := ClSuspended\<rparr>) (clients d)\<rparr>)) d"

section \<open>The callback of the desktop client\<close>

definition callback_prefix :: string where
  "callback_prefix = ''http://127.0.0.1/callback/''"

definition validateP3b1CodexDesktopCallbackUri :: "runtime \<Rightarrow> string \<Rightarrow> string result" where
  "validateP3b1CodexDesktopCallbackUri rt v =
     (if length v > 256 \<or> \<not> starts_with v callback_prefix \<or> \<not> rx id_class 8 64 (drop (length callback_prefix) v)
      then Inl ''p3b1_codex_callback_invalid''
      else case parse_url rt v of
        None \<Rightarrow> Inl ''p3b1_codex_callback_invalid''
      | Some u \<Rightarrow>
          if url_href u \<noteq> v \<or> url_protocol u \<noteq> ''http:'' \<or> url_hostname u \<noteq> ''127.0.0.1'' \<or>
             url_port u \<noteq> [] \<or> url_username u \<noteq> [] \<or> url_password u \<noteq> [] \<or>
             url_search u \<noteq> [] \<or> url_hash u \<noteq> []
          then Inl ''p3b1_codex_callback_invalid'' else Inr v)"

definition one_line :: "string \<Rightarrow> bool" where
  "one_line s \<longleftrightarrow> strip_newline s \<noteq> [] \<and> CHR 0x0D \<notin> set (strip_newline s) \<and>
     CHR 0x0A \<notin> set (strip_newline s)"

definition readP3b1CodexDesktopCallbackFile ::
  "runtime \<Rightarrow> (string \<Rightarrow> file_info option) \<Rightarrow> string \<Rightarrow> bool \<Rightarrow> string result" where
  "readP3b1CodexDesktopCallbackFile rt fs filePath production =
     (if \<not> starts_with filePath ''/'' \<or> (production \<and> \<not> starts_with filePath ''/run/secrets/'')
      then Inl ''p3b1_codex_callback_file_invalid''
      else case fs filePath of
        None \<Rightarrow> Inl ''ENOENT''
      | Some f \<Rightarrow>
          if \<not> fi_file f \<or> fi_symlink f \<or> fi_size f < 1 \<or> fi_size f > 300
          then Inl ''p3b1_codex_callback_file_invalid''
          else if production \<and> fi_mode f mod 64 \<noteq> 0 then Inl ''p3b1_codex_callback_file_permissions''
          else if \<not> one_line (fi_text f) then Inl ''p3b1_codex_callback_file_invalid''
          else validateP3b1CodexDesktopCallbackUri rt (strip_newline (fi_text f)))"

datatype callback_operation = Register | Remove

record callback_update =
  cu_changed :: bool
  cu_redirects :: nat
  cu_metadata :: string
  cu_callback :: string

definition baseline_client :: "client_row \<Rightarrow> bool" where
  "baseline_client r \<longleftrightarrow> exactStringArray (cl_redirects r) [P3B1_CODEX_STABLE_REDIRECT_URI] \<and>
     cl_digest r = P3B1_CODEX_BASELINE_METADATA_DIGEST"

definition registered_client :: "runtime \<Rightarrow> string \<Rightarrow> client_row \<Rightarrow> bool" where
  "registered_client rt callback r \<longleftrightarrow>
     exactStringArray (cl_redirects r) [P3B1_CODEX_STABLE_REDIRECT_URI, callback] \<and>
     cl_digest r = p3b1CodexClientMetadataDigest rt [P3B1_CODEX_STABLE_REDIRECT_URI, callback]"

definition set_callback :: "runtime \<Rightarrow> callback_operation \<Rightarrow> string \<Rightarrow> client_row \<Rightarrow> client_row" where
  "set_callback rt oper callback r =
     (case oper of
        Register \<Rightarrow> r\<lparr>cl_redirects := JArr (map JStr [P3B1_CODEX_STABLE_REDIRECT_URI, callback]),
           cl_digest := p3b1CodexClientMetadataDigest rt [P3B1_CODEX_STABLE_REDIRECT_URI, callback]\<rparr>
      | Remove \<Rightarrow> r\<lparr>cl_redirects := JArr (map JStr [P3B1_CODEX_STABLE_REDIRECT_URI]),
           cl_digest := P3B1_CODEX_BASELINE_METADATA_DIGEST\<rparr>)"

definition change_callback :: "runtime \<Rightarrow> string \<Rightarrow> callback_operation \<Rightarrow> bool tx" where
  "change_callback rt callback oper s d =
     (case lookup_by cl_id P3B1_CODEX_CLIENT_ID (clients d) of
        None \<Rightarrow> Inl ''p3b1_codex_client_conflict''
      | Some row \<Rightarrow>
          if cl_mode row \<noteq> ''pre-registered'' \<or> cl_status row \<noteq> ClActive then Inl ''p3b1_codex_client_conflict''
          else if \<not> baseline_client row \<and> \<not> registered_client rt callback row
          then Inl ''p3b1_codex_client_conflict''
          else if (oper = Register \<and> registered_client rt callback row) \<or> (oper = Remove \<and> baseline_client row)
          then Inr (False, d)
          else
            let P = (\<lambda>r. cl_id r = P3B1_CODEX_CLIENT_ID) in
            if row_count P (clients d) \<noteq> 1 then Inl ''p3b1_codex_client_update_failed''
            else Inr (True, d\<lparr>clients := sql_update P (set_callback rt oper callback) (clients d)\<rparr>))"

definition updateP3b1CodexDesktopCallback ::
  "runtime \<Rightarrow> string \<Rightarrow> callback_operation \<Rightarrow> db \<Rightarrow> callback_update outcome" where
  "updateP3b1CodexDesktopCallback rt callbackUri oper d =
     (case validateP3b1CodexDesktopCallbackUri rt callbackUri of
        Inl e \<Rightarrow> (Inl e, d)
      | Inr callback \<Rightarrow>
          (case withAuthorizationService (change_callback rt callback oper) d of
             (Inl e, d') \<Rightarrow> (Inl e, d')
           | (Inr changed, d') \<Rightarrow>
               (Inr \<lparr>cu_changed = changed, cu_redirects = (case oper of Register \<Rightarrow> 2 | Remove \<Rightarrow> 1),
                  cu_metadata = (case oper of
                      Register \<Rightarrow> p3b1CodexClientMetadataDigest rt [P3B1_CODEX_STABLE_REDIRECT_URI, callback]
                    | Remove \<Rightarrow> P3B1_CODEX_BASELINE_METADATA_DIGEST),
                  cu_callback = hex rt (sha256 rt callback)\<rparr>, d')))"

section \<open>Consents behind tokens\<close>

text \<open>The join of the grants and sites the authorization service may see.\<close>

definition active_consents :: "session \<Rightarrow> db \<Rightarrow> (grant_row \<times> site_row) list" where
  "active_consents s d = filter (\<lambda>(g, r). grant_access s d g \<and> site_select s d r \<and>
     si_tenant r = gr_tenant g \<and> si_id r = gr_site g \<and>
     gr_status g = GrantActive \<and> si_status r = SiteActive) (List.product (grants d) (sites d))"

record claims_binding =
  cb_grant :: "string option"
  cb_client :: "string option"
  cb_resource :: "string option"

definition opt_matches :: "string option \<Rightarrow> string \<Rightarrow> bool" where
  "opt_matches v x \<longleftrightarrow> (case v of None \<Rightarrow> True | Some y \<Rightarrow> x = y)"

text \<open>The answer is the tenant, the site and the grant.\<close>

definition resolveClaims :: "string \<Rightarrow> claims_binding \<Rightarrow> db \<Rightarrow> (string \<times> string \<times> string) option outcome" where
  "resolveClaims subjectId binding d =
     withAuthorizationService (\<lambda>s d.
       let rows = take 2 (filter (\<lambda>(g, r). gr_subject g = subjectId \<and> opt_matches (cb_grant binding) (gr_id g) \<and>
             opt_matches (cb_client binding) (gr_client g) \<and> opt_matches (cb_resource binding) (si_resource r))
             (active_consents s d)) in
       Inr ((case rows of [(g, r)] \<Rightarrow> Some (gr_tenant g, gr_site g, gr_id g) | _ \<Rightarrow> None), d)) d"

record grant_binding =
  ab_tenant :: string
  ab_site :: string
  ab_grant :: string
  ab_subject :: string
  ab_client :: string
  ab_resource :: string
  ab_scopes :: "mcp_scope list"

definition scope_rank :: "string \<Rightarrow> int" where
  "scope_rank s = index_of (map scope_name MCP_SCOPE_ORDER) s"

definition requested_scopes :: "string list \<Rightarrow> string list" where
  "requested_scopes scopes = sort_key scope_rank (dedup scopes)"

definition resolveExact ::
  "string \<Rightarrow> string \<Rightarrow> string \<Rightarrow> string list \<Rightarrow> db \<Rightarrow> grant_binding option outcome" where
  "resolveExact subjectId clientId resource scopes d =
     (let requested = requested_scopes scopes in
      if length requested = 0 then (Inr None, d)
      else withAuthorizationService (\<lambda>s d.
        case take 2 (filter (\<lambda>(g, r). gr_subject g = subjectId \<and> gr_client g = clientId \<and>
            si_resource r = resource \<and> gr_scopes g = requested) (active_consents s d)) of
          [] \<Rightarrow> Inr (None, d)
        | [(g, r)] \<Rightarrow>
            (case parse_scope_set (gr_scopes g) of
               None \<Rightarrow> Inl zod_error
             | Some parsed \<Rightarrow> Inr (Some \<lparr>ab_tenant = gr_tenant g, ab_site = gr_site g, ab_grant = gr_id g,
                 ab_subject = gr_subject g, ab_client = gr_client g, ab_resource = si_resource r,
                 ab_scopes = parsed\<rparr>, d))
        | _ \<Rightarrow> Inl ''authorization_grant_ambiguous'') d)"

section \<open>A request finds its consent\<close>

definition consent_of :: "db \<Rightarrow> grant_row \<Rightarrow> site_row \<Rightarrow> bool" where
  "consent_of d g r \<longleftrightarrow> g \<in> set (grants d) \<and> r \<in> set (sites d) \<and>
     si_tenant r = gr_tenant g \<and> si_id r = gr_site g \<and>
     gr_status g = GrantActive \<and> si_status r = SiteActive"

definition binding_of :: "grant_row \<Rightarrow> site_row \<Rightarrow> mcp_scope list \<Rightarrow> grant_binding" where
  "binding_of g r parsed = \<lparr>ab_tenant = gr_tenant g, ab_site = gr_site g, ab_grant = gr_id g,
     ab_subject = gr_subject g, ab_client = gr_client g, ab_resource = si_resource r,
     ab_scopes = parsed\<rparr>"

definition canonical_grants :: "grant_row list \<Rightarrow> bool" where
  "canonical_grants t \<longleftrightarrow> list_all (\<lambda>g. parse_scope_set (gr_scopes g) \<noteq> None) t"

lemma set_active_consents:
  "set (active_consents (role_session RoleAuth) d) = {(g, r). consent_of d g r}"
  by (auto simp: active_consents_def consent_of_def grant_access_def site_select_def role_session_def)

lemma consent_sites_unique:
  "sites_ok (sites d) \<Longrightarrow> consent_of d g r \<Longrightarrow> consent_of d g' r' \<Longrightarrow>
     si_resource r = si_resource r' \<Longrightarrow> r = r'"
  by (rule live_site_unique [of "sites d"]) (simp_all add: consent_of_def site_live_def)

lemma consent_grants_unique:
  "grants_ok (grants d) \<Longrightarrow> consent_of d g r \<Longrightarrow> consent_of d g' r \<Longrightarrow>
     gr_subject g = gr_subject g' \<Longrightarrow> gr_client g = gr_client g' \<Longrightarrow> g = g'"
  by (rule live_consent_unique [of "grants d"]) (simp_all add: consent_of_def grant_live_def consent_key_def)

lemma consents_unique:
  assumes "sites_ok (sites d)" "grants_ok (grants d)" "consent_of d g r" "consent_of d g' r'"
    and "gr_subject g = gr_subject g'" "gr_client g = gr_client g'" "si_resource r = si_resource r'"
  shows "(g, r) = (g', r')"
proof -
  have "r = r'" using assms(1,3,4,7) by (rule consent_sites_unique)
  moreover have "g = g'"
    by (rule consent_grants_unique [OF assms(2,3)]) (use assms \<open>r = r'\<close> in simp_all)
  ultimately show ?thesis by simp
qed

lemma active_consents_distinct:
  "sites_ok (sites d) \<Longrightarrow> grants_ok (grants d) \<Longrightarrow> distinct (active_consents s d)"
  by (auto simp: active_consents_def sites_ok_def grants_ok_def has_pk_def distinct_map
    intro!: distinct_filter distinct_product)

lemma filter_at_most_one:
  assumes "distinct xs" and "\<And>x y. x \<in> set xs \<Longrightarrow> y \<in> set xs \<Longrightarrow> P x \<Longrightarrow> P y \<Longrightarrow> x = y"
  obtains "filter P xs = []" | x where "filter P xs = [x]"
proof (cases "filter P xs")
  case (Cons x ys)
  have "distinct (x # ys)" unfolding Cons [symmetric] using assms(1) by (rule distinct_filter)
  moreover have "y = x" if "y \<in> set ys" for y
  proof -
    have "y \<in> set (filter P xs)" "x \<in> set (filter P xs)" using that Cons by simp_all
    then show ?thesis using assms(2) by simp
  qed
  ultimately have "ys = []" by (cases ys) auto
  with Cons that(2) show thesis by simp
qed (use that in simp)

text \<open>Stored scopes are canonical, so a request names them exactly when the sets agree.\<close>

lemma scope_rank_name [simp]: "scope_rank (scope_name s) = scope_index s"
  by (cases s) (simp_all add: scope_rank_def MCP_SCOPE_ORDER_def MCP_SCOPE_NAMES_def Let_def)

lemma sorted_requested: "sorted (map scope_rank (requested_scopes scopes))"
  by (simp add: requested_scopes_def)

lemma requested_scopes_eq:
  assumes "parse_scope_set names = Some xs"
  shows "names = requested_scopes scopes \<longleftrightarrow> set names = set scopes"
proof
  assume "set names = set scopes"
  from assms have names: "names = map scope_name xs" and ok: "mcp_scope_set xs"
    by (simp_all add: parse_scope_set_Some)
  from ok have sorted: "sorted_wrt (<) xs" by (simp add: mcp_scope_set_def scope_order_valid_iff)
  have "set names \<union> set (requested_scopes scopes) = scope_name ` set xs"
    using \<open>set names = set scopes\<close> by (simp add: requested_scopes_def names)
  then have inj: "inj_on scope_rank (set names \<union> set (requested_scopes scopes))"
    by (simp add: inj_on_def)
  have "distinct xs" using sorted by (simp add: strict_sorted_iff)
  then have d1: "distinct (map scope_rank names)" by (simp add: names distinct_map inj_on_def comp_def)
  have s1: "sorted (map scope_rank names)"
    using sorted by (auto simp: names sorted_wrt_map comp_def less_mcp_scope_def
      elim!: sorted_wrt_mono_rel [rotated])
  have "inj_on scope_rank (set (requested_scopes scopes))" using inj by (rule inj_on_subset) simp
  then have d2: "distinct (map scope_rank (requested_scopes scopes))"
    by (simp add: distinct_map requested_scopes_def)
  show "names = requested_scopes scopes"
    by (rule map_sorted_distinct_set_unique [OF inj s1 d1 sorted_requested d2])
      (use \<open>set names = set scopes\<close> in \<open>simp add: requested_scopes_def\<close>)
qed (simp add: requested_scopes_def)

lemma resolve_exact_answer:
  assumes "sites_ok (sites d)" and "grants_ok (grants d)" and "canonical_grants (grants d)"
  shows "\<exists>answer. resolveExact subject client resource scopes d = (Inr answer, d) \<and>
    (\<forall>b. answer = Some b \<longleftrightarrow> (\<exists>g r parsed. consent_of d g r \<and> gr_subject g = subject \<and>
       gr_client g = client \<and> si_resource r = resource \<and> set (gr_scopes g) = set scopes \<and>
       parse_scope_set (gr_scopes g) = Some parsed \<and> b = binding_of g r parsed))"
proof -
  let ?req = "requested_scopes scopes" and ?cs = "active_consents (role_session RoleAuth) d"
  let ?P = "\<lambda>(g, r). gr_subject g = subject \<and> gr_client g = client \<and> si_resource r = resource \<and> gr_scopes g = ?req"
  let ?R = "\<lambda>b. \<exists>g r parsed. consent_of d g r \<and> gr_subject g = subject \<and>
       gr_client g = client \<and> si_resource r = resource \<and> set (gr_scopes g) = set scopes \<and>
       parse_scope_set (gr_scopes g) = Some parsed \<and> b = binding_of g r parsed"
  have R: "?R b \<longleftrightarrow> (\<exists>g r parsed. (g, r) \<in> set (filter ?P ?cs) \<and>
      parse_scope_set (gr_scopes g) = Some parsed \<and> b = binding_of g r parsed)" for b
    by (auto simp: set_active_consents requested_scopes_eq; metis requested_scopes_eq)
  show ?thesis
  proof (cases "length ?req = 0")
    case True
    then have "\<not> ?R b" for b
      unfolding R by (auto simp: parse_scope_set_def mcp_scope_set_def)
    with True show ?thesis by (simp add: resolveExact_def)
  next
    case False
    then have step: "resolveExact subject client resource scopes d =
      withAuthorizationService (\<lambda>s d. case take 2 (filter ?P (active_consents s d)) of
          [] \<Rightarrow> Inr (None, d)
        | [(g, r)] \<Rightarrow>
            (case parse_scope_set (gr_scopes g) of
               None \<Rightarrow> Inl zod_error | Some parsed \<Rightarrow> Inr (Some (binding_of g r parsed), d))
        | _ \<Rightarrow> Inl ''authorization_grant_ambiguous'') d"
      unfolding resolveExact_def Let_def binding_of_def by simp
    show ?thesis
    proof (rule filter_at_most_one [of ?cs ?P])
      show "distinct ?cs" using assms by (simp add: active_consents_distinct)
    next
      fix x y assume *: "x \<in> set ?cs" "y \<in> set ?cs" "?P x" "?P y"
      obtain g r g' r' where xy: "x = (g, r)" "y = (g', r')" by (cases x; cases y)
      show "x = y" unfolding xy
        by (rule consents_unique [OF assms(1,2)]) (use * in \<open>simp_all add: xy set_active_consents\<close>)
    next
      assume "filter ?P ?cs = []"
      then show ?thesis by (simp only: step R) (simp add: withAuthorizationService_def transaction_def)
    next
      fix x assume one: "filter ?P ?cs = [x]"
      obtain g r where x: "x = (g, r)" by (cases x)
      have "x \<in> set ?cs" using arg_cong [OF one, of set] by auto
      then have "g \<in> set (grants d)" by (simp add: x set_active_consents consent_of_def)
      with assms(3) obtain parsed where p: "parse_scope_set (gr_scopes g) = Some parsed"
        by (auto simp: canonical_grants_def list_all_iff)
      have R': "?R b \<longleftrightarrow> b = binding_of g r parsed" for b unfolding R one by (simp add: x p)
      show ?thesis
        by (simp only: step R') (auto simp: withAuthorizationService_def transaction_def one x p)
    qed
  qed
qed

text \<open>
  A token request finds its consent exactly: while the unique indexes hold and the stored scope
  sets are canonical, the answer is never ambiguous and the database is unchanged; it is a binding
  precisely when one active grant of an active site has that subject, client and resource and the
  same set of scopes as the request, in whatever order and with whatever repetitions.
\<close>

theorem resolve_exact_complete:
  assumes "sites_ok (sites d)" and "grants_ok (grants d)" and "canonical_grants (grants d)"
  shows "\<exists>answer. resolveExact subject client resource scopes d = (Inr answer, d) \<and>
    (\<forall>b. answer = Some b \<longleftrightarrow> (\<exists>g r parsed. consent_of d g r \<and> gr_subject g = subject \<and>
       gr_client g = client \<and> si_resource r = resource \<and> set (gr_scopes g) = set scopes \<and>
       parse_scope_set (gr_scopes g) = Some parsed \<and> b = binding_of g r parsed))"
  using assms by (rule resolve_exact_answer)

definition matching_consents :: "db \<Rightarrow> string \<Rightarrow> claims_binding \<Rightarrow> (grant_row \<times> site_row) set" where
  "matching_consents d subject binding = {(g, r). consent_of d g r \<and> gr_subject g = subject \<and>
     opt_matches (cb_grant binding) (gr_id g) \<and> opt_matches (cb_client binding) (gr_client g) \<and>
     opt_matches (cb_resource binding) (si_resource r)}"

lemma resolve_claims_matching:
  assumes "resolveClaims subject binding d = (Inr (Some (t, i, grant)), d')"
  shows "d' = d \<and> (\<exists>g r. matching_consents d subject binding = {(g, r)} \<and>
    t = gr_tenant g \<and> i = gr_site g \<and> grant = gr_id g)"
proof -
  let ?P = "\<lambda>(g, r). gr_subject g = subject \<and> opt_matches (cb_grant binding) (gr_id g) \<and>
             opt_matches (cb_client binding) (gr_client g) \<and> opt_matches (cb_resource binding) (si_resource r)"
  let ?xs = "filter ?P (active_consents (role_session RoleAuth) d)"
  from assms obtain g r where "d' = d" and two: "take 2 ?xs = [(g, r)]"
    and ans: "t = gr_tenant g" "i = gr_site g" "grant = gr_id g"
    by (auto simp: resolveClaims_def withAuthorizationService_def transaction_Inr Let_def split: list.splits)
  from two have "?xs = [(g, r)]" by (cases ?xs; cases "tl ?xs") simp_all
  then have "set ?xs = {(g, r)}" by simp
  then have "matching_consents d subject binding = {(g, r)}"
    by (simp add: set_active_consents matching_consents_def) (auto simp: set_eq_iff)
  with \<open>d' = d\<close> ans show ?thesis by blast
qed

text \<open>
  What a token's grant claims resolve to: an active consent of the subject in an active site that
  agrees with every part of the binding the caller gave, and the only one that does.
\<close>

theorem resolve_claims_sound:
  assumes "resolveClaims subject binding d = (Inr (Some (t, i, grant)), d')"
  shows "d' = d \<and> (\<exists>g r. matching_consents d subject binding = {(g, r)} \<and>
    t = gr_tenant g \<and> i = gr_site g \<and> grant = gr_id g)"
  using assms by (rule resolve_claims_matching)

section \<open>Maintenance of the acceptance clients\<close>

lemma client_update_unique:
  assumes "has_pk cl_id t" and "lookup_by cl_id k t = Some row"
  shows "row_count (\<lambda>r. cl_id r = k) t = 1"
proof -
  have "row_count (\<lambda>r. cl_id r = k) t \<noteq> 0"
    using lookup_byD [OF assms(2)] by (auto simp: row_count_eq_0)
  moreover have "row_count (\<lambda>r. cl_id r = k) t \<le> 1" using assms(1) by (rule row_count_pk) simp
  ultimately show ?thesis by simp
qed

lemma set_callback_id [simp]: "cl_id (set_callback rt oper cb r) = cl_id r"
  by (simp add: set_callback_def split: callback_operation.split)

lemma sql_update_undo:
  "(\<And>r. r \<in> set t \<Longrightarrow> P r \<Longrightarrow> P (g r) \<and> f (g r) = r) \<Longrightarrow> sql_update P f (sql_update P g t) = t"
  by (induction t) auto

lemma registered_after [simp]:
  "registered_client rt cb (set_callback rt Register cb r)"
  "\<not> baseline_client (set_callback rt Register cb r)"
  "cl_mode (set_callback rt oper cb r) = cl_mode r" "cl_status (set_callback rt oper cb r) = cl_status r"
  by (simp_all add: registered_client_def baseline_client_def set_callback_def exactStringArray_def
    split: callback_operation.split)

lemma remove_registered:
  "baseline_client r \<Longrightarrow> set_callback rt Remove cb (set_callback rt Register cb r) = r"
  by (simp add: set_callback_def baseline_client_def exactStringArray_def)

text \<open>
  Registering a desktop callback that was not yet registered is idempotent, and removing it
  afterwards restores the database to what it was.
\<close>

theorem callback_roundtrip:
  assumes pk: "has_pk cl_id (clients d)"
    and reg: "updateP3b1CodexDesktopCallback rt uri Register d = (Inr u, d1)" and "cu_changed u"
  shows "updateP3b1CodexDesktopCallback rt uri Register d1 = (Inr (u\<lparr>cu_changed := False\<rparr>), d1) \<and>
    (\<exists>u'. updateP3b1CodexDesktopCallback rt uri Remove d1 = (Inr u', d) \<and> cu_changed u')"
proof -
  let ?P = "\<lambda>r. cl_id r = P3B1_CODEX_CLIENT_ID"
  from reg \<open>cu_changed u\<close> obtain cb where cb: "validateP3b1CodexDesktopCallbackUri rt uri = Inr cb"
    and step: "change_callback rt cb Register (role_session RoleAuth) d = Inr (True, d1)"
    and u: "u = \<lparr>cu_changed = True, cu_redirects = 2,
        cu_metadata = p3b1CodexClientMetadataDigest rt [P3B1_CODEX_STABLE_REDIRECT_URI, cb],
        cu_callback = hex rt (sha256 rt cb)\<rparr>"
    by (auto simp: updateP3b1CodexDesktopCallback_def tx_succ split: sum.splits prod.splits)
  from step obtain row where row: "lookup_by cl_id P3B1_CODEX_CLIENT_ID (clients d) = Some row"
    and ok: "cl_mode row = ''pre-registered''" "cl_status row = ClActive" "baseline_client row"
    and d1: "d1 = d\<lparr>clients := sql_update ?P (set_callback rt Register cb) (clients d)\<rparr>"
    by (auto simp: change_callback_def succ_simps)
  have row1: "lookup_by cl_id P3B1_CODEX_CLIENT_ID (clients d1) = Some (set_callback rt Register cb row)"
    by (simp add: d1 lookup_by_update_key row)
  have pk1: "has_pk cl_id (clients d1)" using pk by (simp add: d1 has_pk_update)
  have again: "change_callback rt cb Register (role_session RoleAuth) d1 = Inr (False, d1)"
    using ok by (simp add: change_callback_def row1)
  have "sql_update ?P (set_callback rt Remove cb)
      (sql_update ?P (set_callback rt Register cb) (clients d)) = clients d"
  proof (rule sql_update_undo)
    fix r assume "r \<in> set (clients d)" "?P r"
    then have "r = row" using lookup_by_eq [OF row pk] by simp
    with ok \<open>?P r\<close> show "?P (set_callback rt Register cb r) \<and>
      set_callback rt Remove cb (set_callback rt Register cb r) = r"
      by (simp add: remove_registered)
  qed
  then have undo: "sql_update ?P (set_callback rt Remove cb) (clients d1) = clients d"
    by (simp add: d1)
  have "change_callback rt cb Remove (role_session RoleAuth) d1 =
      Inr (True, d1\<lparr>clients := sql_update ?P (set_callback rt Remove cb) (clients d1)\<rparr>)"
    using ok client_update_unique [OF pk1 row1] by (simp add: change_callback_def row1)
  then have "change_callback rt cb Remove (role_session RoleAuth) d1 = Inr (True, d)"
    by (simp add: undo) (simp add: d1)
  with again show ?thesis
    by (simp add: updateP3b1CodexDesktopCallback_def cb withAuthorizationService_def transaction_def u)
qed

text \<open>
  The lifecycle client is provisioned once and suspended for good: provisioning again finds it and
  changes nothing, suspending it changes it once, and after that provisioning is refused as a
  conflict and a second suspension reports no change.
\<close>

theorem lifecycle_client_suspension_final:
  assumes pk: "has_pk cl_id (clients d)" and prov: "provisionP3aLifecycleTestClient rt d = (Inr b, d1)"
  shows "provisionP3aLifecycleTestClient rt d1 = (Inr False, d1) \<and>
    (\<exists>d2. suspendP3aLifecycleTestClient rt d1 = (Inr True, d2) \<and>
       provisionP3aLifecycleTestClient rt d2 = (Inl ''p3a_lifecycle_client_conflict'', d2) \<and>
       suspendP3aLifecycleTestClient rt d2 = (Inr False, d2))"
proof -
  let ?K = "P3A_LIFECYCLE_TEST_CLIENT_ID"
  let ?P = "\<lambda>r. cl_id r = ?K \<and> cl_status r = ClActive"
  from prov pk obtain row where row: "lookup_by cl_id ?K (clients d1) = Some row"
    and ok: "lifecycle_row_ok rt row" "cl_status row = ClActive" and pk1: "has_pk cl_id (clients d1)"
    by (auto simp: provisionP3aLifecycleTestClient_def tx_succ lifecycle_row_ok_def
      exactStringArray_def sql_insert_Inr lookup_by_append lookup_by_Cons has_pk_def)
  have first: "provisionP3aLifecycleTestClient rt d1 = (Inr False, d1)"
    using ok by (simp add: provisionP3aLifecycleTestClient_def withAuthorizationService_def
      transaction_def row)
  let ?t = "sql_update ?P (\<lambda>r. r\<lparr>cl_status := ClSuspended\<rparr>) (clients d1)"
  have "row_count ?P (clients d1) \<noteq> 0"
    using lookup_byD [OF row] ok by (auto simp: row_count_eq_0)
  moreover have "row_count ?P (clients d1) \<le> 1" using pk1 by (rule row_count_pk) simp
  ultimately have one: "row_count ?P (clients d1) = 1" by simp
  have second: "suspendP3aLifecycleTestClient rt d1 = (Inr True, d1\<lparr>clients := ?t\<rparr>)"
    using ok one by (simp add: suspendP3aLifecycleTestClient_def withAuthorizationService_def
      transaction_def row)
  have row2: "lookup_by cl_id ?K ?t = Some (row\<lparr>cl_status := ClSuspended\<rparr>)"
    using lookup_byD [OF row] ok by (simp add: lookup_by_update row)
  have "lifecycle_row_ok rt (row\<lparr>cl_status := ClSuspended\<rparr>)" using ok by (simp add: lifecycle_row_ok_def)
  then have "provisionP3aLifecycleTestClient rt (d1\<lparr>clients := ?t\<rparr>) =
      (Inl ''p3a_lifecycle_client_conflict'', d1\<lparr>clients := ?t\<rparr>)"
    and "suspendP3aLifecycleTestClient rt (d1\<lparr>clients := ?t\<rparr>) = (Inr False, d1\<lparr>clients := ?t\<rparr>)"
    by (simp_all add: provisionP3aLifecycleTestClient_def suspendP3aLifecycleTestClient_def
      withAuthorizationService_def transaction_def row2)
  with first second show ?thesis by blast
qed

section \<open>Examples\<close>

definition consent_db :: db where
  "consent_db = empty_db\<lparr>
     sites := [\<lparr>si_tenant = ''tenant-0001'', si_id = ''site-0001'', si_resource = ''https://blog.example/mcp'',
        si_hostname = ''blog.example'', si_status = SiteActive, si_jwk = JNull, si_thumbprint = ''thumb'',
        si_created = 0, si_revoked = None\<rparr>],
     grants := [\<lparr>gr_tenant = ''tenant-0001'', gr_id = ''grant-0001'', gr_site = ''site-0001'',
        gr_subject = ''account-0001'', gr_client = ''client-0001'', gr_scopes = [''mcp:read'', ''mcp:seo.write''],
        gr_challenge = ''digest'', gr_expires = 1000, gr_status = GrantActive, gr_version = ''1'',
        gr_created = 0, gr_revoked = None, gr_reason = None\<rparr>]\<rparr>"

definition loopback_parse_url :: "string \<Rightarrow> url option" where
  "loopback_parse_url s = (if starts_with s callback_prefix
     then Some \<lparr>url_href = s, url_protocol = ''http:'', url_username = [], url_password = [],
       url_hostname = ''127.0.0.1'', url_port = [], url_pathname = drop 16 s, url_search = [],
       url_hash = [], url_origin = take 16 s\<rparr> else None)"

definition loopback_runtime :: runtime where
  "loopback_runtime = sample_runtime\<lparr>parse_url := loopback_parse_url\<rparr>"

definition baseline_db :: db where
  "baseline_db = empty_db\<lparr>clients := [\<lparr>cl_id = P3B1_CODEX_CLIENT_ID, cl_mode = ''pre-registered'',
     cl_redirects = JArr [JStr P3B1_CODEX_STABLE_REDIRECT_URI],
     cl_digest = P3B1_CODEX_BASELINE_METADATA_DIGEST, cl_status = ClActive\<rparr>]\<rparr>"

definition sample_callback :: string where
  "sample_callback = ''http://127.0.0.1/callback/desktop-0001''"

definition registered_state :: "callback_update outcome" where
  "registered_state = updateP3b1CodexDesktopCallback loopback_runtime sample_callback Register baseline_db"

definition provisioned_state :: "bool outcome" where
  "provisioned_state = provisionP3aLifecycleTestClient sample_runtime baseline_db"

theorem resolve_exact_complete_witness:
  "\<exists>answer. resolveExact ''account-0001'' ''client-0001'' ''https://blog.example/mcp''
      [''mcp:seo.write'', ''mcp:read''] consent_db = (Inr answer, consent_db) \<and>
    answer = Some (binding_of (hd (grants consent_db)) (hd (sites consent_db)) [McpRead, McpSeoWrite])"
proof -
  have "sites_ok (sites consent_db)" "grants_ok (grants consent_db)" "canonical_grants (grants consent_db)"
    by code_simp+
  from resolve_exact_complete [OF this, of "''account-0001''" "''client-0001''" "''https://blog.example/mcp''"
      "[''mcp:seo.write'', ''mcp:read'']"]
  obtain answer where *: "resolveExact ''account-0001'' ''client-0001'' ''https://blog.example/mcp''
      [''mcp:seo.write'', ''mcp:read''] consent_db = (Inr answer, consent_db)"
    and iff: "\<And>b. answer = Some b \<longleftrightarrow> (\<exists>g r parsed. consent_of consent_db g r \<and>
       gr_subject g = ''account-0001'' \<and> gr_client g = ''client-0001'' \<and>
       si_resource r = ''https://blog.example/mcp'' \<and>
       set (gr_scopes g) = set [''mcp:seo.write'', ''mcp:read''] \<and>
       parse_scope_set (gr_scopes g) = Some parsed \<and> b = binding_of g r parsed)" by blast
  have "consent_of consent_db (hd (grants consent_db)) (hd (sites consent_db))"
    by (simp add: consent_of_def consent_db_def)
  moreover have "parse_scope_set (gr_scopes (hd (grants consent_db))) = Some [McpRead, McpSeoWrite]" by code_simp
  ultimately have "answer = Some (binding_of (hd (grants consent_db)) (hd (sites consent_db)) [McpRead, McpSeoWrite])"
    by (intro iff [THEN iffD2] exI conjI) (auto simp: consent_db_def)
  with * show ?thesis by blast
qed

theorem resolve_claims_sound_witness:
  "\<exists>g. consent_of consent_db g (hd (sites consent_db)) \<and> gr_id g = ''grant-0001''"
proof -
  have "resolveClaims ''account-0001'' \<lparr>cb_grant = None, cb_client = Some ''client-0001'', cb_resource = None\<rparr>
      consent_db = (Inr (Some (''tenant-0001'', ''site-0001'', ''grant-0001'')), consent_db)"
    by code_simp
  from resolve_claims_sound [OF this, THEN conjunct2] obtain g r where
    "matching_consents consent_db ''account-0001''
       \<lparr>cb_grant = None, cb_client = Some ''client-0001'', cb_resource = None\<rparr> = {(g, r)}"
    and "gr_id g = ''grant-0001''" by metis
  then have "consent_of consent_db g r" "gr_id g = ''grant-0001''"
    by (auto simp: matching_consents_def set_eq_iff)
  moreover from this have "r = hd (sites consent_db)" by (simp add: consent_of_def consent_db_def)
  ultimately show ?thesis by blast
qed

theorem callback_roundtrip_witness:
  "\<exists>u'. updateP3b1CodexDesktopCallback loopback_runtime sample_callback Remove (snd registered_state) =
      (Inr u', baseline_db) \<and> cu_changed u'"
proof -
  have ok: "is_ok (fst registered_state)" and changed: "cu_changed (projr (fst registered_state))"
    by code_simp+
  have pk: "has_pk cl_id (clients baseline_db)" by (simp add: baseline_db_def has_pk_def)
  show ?thesis
    by (rule callback_roundtrip [OF pk ok_outcome [OF ok, unfolded registered_state_def], THEN conjunct2,
        folded registered_state_def]) (rule changed)
qed

theorem lifecycle_client_suspension_final_witness:
  "\<exists>d2. suspendP3aLifecycleTestClient sample_runtime (snd provisioned_state) = (Inr True, d2) \<and>
     provisionP3aLifecycleTestClient sample_runtime d2 = (Inl ''p3a_lifecycle_client_conflict'', d2)"
proof -
  have ok: "is_ok (fst provisioned_state)" by code_simp
  have "has_pk cl_id (clients baseline_db)" by (simp add: baseline_db_def has_pk_def)
  from lifecycle_client_suspension_final [OF this ok_outcome [OF ok, unfolded provisioned_state_def]]
  show ?thesis by (auto simp: provisioned_state_def)
qed

end
