(* ===== verification/OAuth_Provider.thy ===== *)
theory OAuth_Provider
  imports OAuth_Clients Console_Auth Key_Custody
begin

text \<open>
  The policies packages/oauth-provider hands to oidc-provider: which stored grant may answer a
  request, which loopback ports a native client may use, how long refresh tokens live, which keys
  sign, and what an access token says.  The provider itself is a parameter: its grant store, its
  client store and the tokens it asks about are arguments.
\<close>

section \<open>Diagnostics\<close>

definition OAuthScopeSchema :: "string list" where
  "OAuthScopeSchema = [''openid'', ''offline_access'', ''mcp:read'', ''mcp:content.write'',
     ''mcp:media.write'', ''mcp:taxonomy.write'', ''mcp:seo.write'']"

definition oidcScopes :: "string list" where
  "oidcScopes = [''openid'', ''offline_access'']"

definition mcpScopes :: "string list" where
  "mcpScopes = [''mcp:read'', ''mcp:content.write'', ''mcp:media.write'', ''mcp:taxonomy.write'', ''mcp:seo.write'']"

datatype grant_stage =
    AtInteraction | AtBinding | AtGrantLoad | AtConsentPlan | AtGrantSave | AtInteractionFinish

datatype grant_code =
    BindingMismatch | AccountMismatch | ClientMismatch | ResourceMismatch | ScopeMismatch
  | ProviderMissing | LookupFailed | SaveFailed | FinishFailed | UnknownCode

datatype provider_error = GrantDiagnosticError grant_stage grant_code | OtherError string

definition fallback_code :: "grant_stage \<Rightarrow> grant_code" where
  "fallback_code stage = (case stage of AtBinding \<Rightarrow> LookupFailed | AtGrantLoad \<Rightarrow> LookupFailed
     | AtGrantSave \<Rightarrow> SaveFailed | AtInteractionFinish \<Rightarrow> FinishFailed | _ \<Rightarrow> UnknownCode)"

text \<open>What is logged of a failure: the instant, the stage and the category.\<close>

definition grantFailureDiagnostic ::
  "provider_error \<Rightarrow> grant_stage \<Rightarrow> time \<Rightarrow> time \<times> grant_stage \<times> grant_code" where
  "grantFailureDiagnostic error fallbackStage now =
     (case error of
        GrantDiagnosticError stage category \<Rightarrow> (now, stage, category)
      | OtherError _ \<Rightarrow> (now, fallbackStage, fallback_code fallbackStage))"

section \<open>Loading an existing grant\<close>

definition scopeSet :: "string list \<Rightarrow> string" where
  "scopeSet value = join_with '' '' (sort_strings (dedup value))"

definition words :: "string \<Rightarrow> string list" where
  "words s = filter (\<lambda>w. w \<noteq> []) (split_on CHR 0x20 s)"

definition exact_resource :: "url \<Rightarrow> bool" where
  "exact_resource u \<longleftrightarrow> \<not> (url_protocol u \<noteq> ''https:'' \<or> url_username u \<noteq> [] \<or> url_password u \<noteq> [] \<or>
     url_hash u \<noteq> [] \<or> url_search u \<noteq> [] \<or> (url_port u \<noteq> [] \<and> url_port u \<noteq> ''443''))"

definition assertExactResource :: "runtime \<Rightarrow> string \<Rightarrow> string result" where
  "assertExactResource rt value =
     (case parse_url rt value of
        None \<Rightarrow> Inl ''Invalid URL''
      | Some u \<Rightarrow> if \<not> exact_resource u then Inl ''invalid_target'' else Inr (url_href u))"

text \<open>The part of the provider's context the loader reads.\<close>

record load_context =
  lx_account :: "string option"
  lx_client :: "string option"
  lx_resource :: "json option"
  lx_scope :: "json option"
  lx_submitted :: "string option"

record exact_binding =
  xb_grant :: string
  xb_subject :: string
  xb_client :: string
  xb_resource :: string
  xb_scopes :: "string list"

record provider_grant =
  pg_jti :: "string option"
  pg_account :: "string option"
  pg_client :: "string option"
  pg_resources :: "(string \<times> string) list"
  pg_oidc_scope :: string
  pg_oidc_claims :: "string list"
  pg_rar :: bool

definition mismatch :: "grant_code \<Rightarrow> provider_error + 'a" where
  "mismatch code = Inl (GrantDiagnosticError AtGrantLoad code)"

definition looked_up :: "'a result \<Rightarrow> provider_error + 'a" where
  "looked_up r = (case r of Inl _ \<Rightarrow> mismatch LookupFailed | Inr x \<Rightarrow> Inr x)"

definition single_resource :: "json option \<Rightarrow> string option" where
  "single_resource raw = (case raw of
     Some (JStr s) \<Rightarrow> Some s | Some (JArr [JStr s]) \<Rightarrow> Some s | _ \<Rightarrow> None)"

text \<open>What the request asks for: account, client, resource and the scopes of the protocol.\<close>

definition load_request ::
  "runtime \<Rightarrow> load_context \<Rightarrow> provider_error + (string \<times> string \<times> string \<times> string list)" where
  "load_request rt x =
     (case lx_client x of None \<Rightarrow> mismatch ClientMismatch | Some clientId \<Rightarrow>
      case lx_account x of None \<Rightarrow> mismatch AccountMismatch | Some accountId \<Rightarrow>
      case single_resource (lx_resource x) of None \<Rightarrow> mismatch ResourceMismatch | Some resource \<Rightarrow>
      if assertExactResource rt resource \<noteq> Inr resource then mismatch ResourceMismatch else
      case lx_scope x of
        Some (JStr rawScope) \<Rightarrow>
          let requested = words rawScope; scopes = filter (\<lambda>s. s \<in> set mcpScopes) requested in
          if list_ex (\<lambda>s. s \<notin> set (mcpScopes @ [''openid'', ''offline_access''])) requested
          then mismatch ScopeMismatch
          else if length scopes = 0 then mismatch ScopeMismatch
          else Inr (accountId, clientId, resource, scopes)
      | _ \<Rightarrow> mismatch ScopeMismatch)"

definition check_binding ::
  "exact_binding \<Rightarrow> string \<Rightarrow> string \<Rightarrow> string \<Rightarrow> string list \<Rightarrow> provider_error + unit" where
  "check_binding b accountId clientId resource scopes =
     (if xb_subject b \<noteq> accountId then mismatch AccountMismatch
      else if xb_client b \<noteq> clientId then mismatch ClientMismatch
      else if xb_resource b \<noteq> resource then mismatch ResourceMismatch
      else if scopeSet (xb_scopes b) \<noteq> scopeSet scopes then mismatch ScopeMismatch
      else Inr ())"

definition resource_scope :: "provider_grant \<Rightarrow> string \<Rightarrow> string" where
  "resource_scope g resource = (case map_of (pg_resources g) resource of None \<Rightarrow> [] | Some s \<Rightarrow> s)"

definition check_grant ::
  "provider_grant \<Rightarrow> exact_binding \<Rightarrow> string \<Rightarrow> string \<Rightarrow> string \<Rightarrow> provider_error + unit" where
  "check_grant g b accountId clientId resource =
     (if pg_jti g \<noteq> Some (xb_grant b) then mismatch BindingMismatch
      else if pg_account g \<noteq> Some accountId then mismatch AccountMismatch
      else if pg_client g \<noteq> Some clientId then mismatch ClientMismatch
      else if map fst (pg_resources g) \<noteq> [resource] then mismatch ResourceMismatch
      else if scopeSet (words (resource_scope g resource)) \<noteq> scopeSet (xb_scopes b) \<or>
          list_ex (\<lambda>s. s \<notin> set [''openid'', ''offline_access'']) (words (pg_oidc_scope g)) \<or>
          list_ex (\<lambda>c. c \<noteq> ''sub'') (pg_oidc_claims g) \<or> pg_rar g
      then mismatch ScopeMismatch
      else Inr ())"

text \<open>
  \<open>createResourceGrantLoader\<close> over the account registry, the resolver of exact grants and the
  provider's store; a call of theirs that throws is \<open>Inl\<close>.
\<close>

definition createResourceGrantLoader ::
  "runtime \<Rightarrow> (string \<Rightarrow> bool result) \<Rightarrow>
     (string \<Rightarrow> string \<Rightarrow> string \<Rightarrow> string list \<Rightarrow> exact_binding option result) \<Rightarrow>
     (string \<Rightarrow> provider_grant option result) \<Rightarrow> load_context \<Rightarrow> provider_error + provider_grant option" where
  "createResourceGrantLoader rt active resolver findGrant x =
     and_then (load_request rt x) (\<lambda>(accountId, clientId, resource, scopes).
     and_then (looked_up (active accountId)) (\<lambda>ok.
     if \<not> ok then mismatch AccountMismatch else
     and_then (looked_up (resolver accountId clientId resource (dedup scopes))) (\<lambda>binding.
     if (case lx_submitted x of None \<Rightarrow> False
         | Some submitted \<Rightarrow> map_option xb_grant binding \<noteq> Some submitted)
     then mismatch BindingMismatch else
     case binding of
       None \<Rightarrow> Inr None
     | Some b \<Rightarrow>
         and_then (check_binding b accountId clientId resource scopes) (\<lambda>_.
         and_then (looked_up (findGrant (xb_grant b))) (\<lambda>found.
         case found of
           None \<Rightarrow> if lx_submitted x \<noteq> None then mismatch ProviderMissing else Inr None
         | Some g \<Rightarrow> and_then (check_grant g b accountId clientId resource) (\<lambda>_. Inr (Some g)))))))"

section \<open>Native loopback redirects\<close>

definition loopback_base :: "url \<Rightarrow> bool" where
  "loopback_base u \<longleftrightarrow> url_protocol u = ''http:'' \<and> url_hostname u = ''127.0.0.1'' \<and> url_port u = [] \<and>
     url_username u = [] \<and> url_password u = [] \<and> url_hash u = []"

definition nativeLoopbackRedirectMatches :: "runtime \<Rightarrow> string \<Rightarrow> string \<Rightarrow> bool" where
  "nativeLoopbackRedirectMatches rt registered candidate =
     (case (parse_url rt registered, parse_url rt candidate) of
        (Some expected, Some observed) \<Rightarrow>
          loopback_base expected \<and> url_protocol observed = url_protocol expected \<and>
          url_hostname observed = url_hostname expected \<and> url_port observed \<noteq> [] \<and>
          url_username observed = [] \<and> url_password observed = [] \<and>
          url_pathname observed = url_pathname expected \<and> url_search observed = url_search expected \<and>
          url_hash observed = []
      | _ \<Rightarrow> False)"

definition dynamicVariants :: "runtime \<Rightarrow> string list \<Rightarrow> string list" where
  "dynamicVariants rt uris =
     filter (\<lambda>current. list_ex (\<lambda>registered. nativeLoopbackRedirectMatches rt registered current) uris) uris"

definition admit_redirect :: "runtime \<Rightarrow> string \<Rightarrow> string list \<Rightarrow> bool \<times> string list" where
  "admit_redirect rt redirectUri uris =
     (if redirectUri \<in> set uris then (True, uris)
      else if \<not> list_ex (\<lambda>registered. nativeLoopbackRedirectMatches rt registered redirectUri) uris
      then (False, uris)
      else
        let pushed = uris @ [redirectUri]; variants = dynamicVariants rt pushed in
        (True, if length variants > 8
          then (case variants of [] \<Rightarrow> pushed | oldest # _ \<Rightarrow> remove1 oldest pushed) else pushed))"

text \<open>The provider's clients, by identifier: the redirect addresses of each.\<close>

definition allowRegisteredNativeLoopbackPort ::
  "runtime \<Rightarrow> string option \<Rightarrow> string option \<Rightarrow> (string \<Rightarrow> string list option) \<Rightarrow>
     bool \<times> (string \<Rightarrow> string list option)" where
  "allowRegisteredNativeLoopbackPort rt clientId redirectUri store =
     (case (clientId, redirectUri) of
        (Some c, Some r) \<Rightarrow>
          (case store c of
             None \<Rightarrow> (False, store)
           | Some uris \<Rightarrow> (let (ok, uris') = admit_redirect rt r uris in (ok, store(c := Some uris'))))
      | _ \<Rightarrow> (False, store))"

section \<open>Lifetimes\<close>

definition refreshInactivitySeconds :: int where "refreshInactivitySeconds = 30 * 24 * 60 * 60"
definition refreshAbsoluteSeconds :: int where "refreshAbsoluteSeconds = 90 * 24 * 60 * 60"

definition refreshTokenTtl :: "json option \<Rightarrow> int \<Rightarrow> int" where
  "refreshTokenTtl iiat nowSeconds =
     (let initialIssuedAt = (case iiat of
            Some (JInt n) \<Rightarrow> if safe_integer n then n else nowSeconds | _ \<Rightarrow> nowSeconds);
          absoluteRemaining = initialIssuedAt + refreshAbsoluteSeconds - nowSeconds in
      if absoluteRemaining \<le> 0 then 1 else min refreshInactivitySeconds absoluteRemaining)"

section \<open>The configuration\<close>

definition assertHttpsUrl :: "runtime \<Rightarrow> string \<Rightarrow> string \<Rightarrow> string result" where
  "assertHttpsUrl rt value label =
     (case parse_url rt value of
        None \<Rightarrow> Inl ''Invalid URL''
      | Some u \<Rightarrow>
          if url_protocol u \<noteq> ''https:'' \<or> url_username u \<noteq> [] \<or> url_password u \<noteq> [] \<or> url_hash u \<noteq> []
          then Inl (''invalid_'' @ label)
          else Inr (if ends_with (url_href u) ''/'' then take (length (url_href u) - 1) (url_href u) else url_href u))"

text \<open>
  A key the provider is given: the custody key signs through the custody, the others refuse to sign.
\<close>

datatype external_key =
    CustodyExternalSigningKey key_descriptor "bytes \<Rightarrow> bytes result"
  | PublicExternalSigningKey key_descriptor

fun external_kid :: "external_key \<Rightarrow> string" where
  "external_kid (CustodyExternalSigningKey d s) = kd_kid d"
| "external_kid (PublicExternalSigningKey d) = kd_kid d"

fun external_sign :: "external_key \<Rightarrow> bytes \<Rightarrow> bytes result" where
  "external_sign (CustodyExternalSigningKey d s) data = s data"
| "external_sign (PublicExternalSigningKey d) data = Inl ''verification_only_key''"

record client_metadata =
  cm_id :: string
  cm_redirects :: "string list"
  cm_responses :: "string list"
  cm_grants :: "string list"
  cm_auth :: string

definition client_metadata_of :: "string \<times> string list \<Rightarrow> client_metadata" where
  "client_metadata_of c = \<lparr>cm_id = fst c, cm_redirects = snd c, cm_responses = [''code''],
     cm_grants = [''authorization_code'', ''refresh_token''], cm_auth = ''none''\<rparr>"

record provider_config =
  pv_issuer :: string
  pv_keys :: "external_key list"
  pv_clients :: "client_metadata list"
  pv_scopes :: "string list"
  pv_pkce :: bool
  pv_rotate :: bool
  pv_tolerance :: int
  pv_ttl :: "(string \<times> int) list"
  pv_cookie_keys :: "string list"

text \<open>\<open>custody\<close> is the key the custody describes and its signing function.\<close>

definition createAuthorizationProvider ::
  "runtime \<Rightarrow> string \<Rightarrow> string list \<Rightarrow> key_descriptor result \<times> (bytes \<Rightarrow> bytes result) \<Rightarrow>
     key_descriptor list \<Rightarrow> (string \<times> string list) list \<Rightarrow> provider_config result" where
  "createAuthorizationProvider rt issuerInput cookieKeys custody verification clientDefs =
     and_then (assertHttpsUrl rt issuerInput ''issuer'') (\<lambda>issuer.
     if length cookieKeys < 2 \<or> list_ex (\<lambda>k. length k < 32) cookieKeys
     then Inl ''cookie_key_rotation_set_required''
     else and_then (fst custody) (\<lambda>descriptor.
       let keys = CustodyExternalSigningKey descriptor (snd custody) # map PublicExternalSigningKey verification;
           keyIds = map external_kid keys in
       if length (dedup keyIds) \<noteq> length keyIds then Inl ''duplicate_signing_kid''
       else Inr \<lparr>pv_issuer = issuer, pv_keys = keys, pv_clients = map client_metadata_of clientDefs,
         pv_scopes = oidcScopes, pv_pkce = True, pv_rotate = True, pv_tolerance = 60,
         pv_ttl = [(''AccessToken'', 300), (''AuthorizationCode'', 90), (''Interaction'', 300),
           (''Session'', 600), (''Grant'', 7776000), (''IdToken'', 300)],
         pv_cookie_keys = cookieKeys\<rparr>))"

record resource_server =
  rs_scope :: string
  rs_audience :: string
  rs_format :: string

definition getResourceServerInfo ::
  "runtime \<Rightarrow> (string \<Rightarrow> (string \<times> string list) option result) \<Rightarrow> string \<Rightarrow> resource_server result" where
  "getResourceServerInfo rt registry resourceIndicator =
     and_then (assertExactResource rt resourceIndicator) (\<lambda>exactResource.
     and_then (registry exactResource) (\<lambda>policy.
     case policy of
       None \<Rightarrow> Inl ''invalid_target''
     | Some (resource, scopes) \<Rightarrow>
         if resource \<noteq> exactResource then Inl ''invalid_target''
         else Inr \<lparr>rs_scope = join_with '' '' scopes, rs_audience = exactResource, rs_format = ''jwt''\<rparr>))"

record token_info =
  tk_kind :: string
  tk_account :: "string option"
  tk_grant :: "string option"
  tk_client :: "string option"
  tk_resource :: "string option"
  tk_scope :: "string option"

record token_claims =
  tc_nbf :: int
  tc_client :: "string option"
  tc_scope :: "string option"
  tc_tenant :: string
  tc_site :: string
  tc_grant :: string

definition extraTokenClaims ::
  "(string \<Rightarrow> claims_binding \<Rightarrow> (string \<times> string \<times> string) option result) \<Rightarrow> time \<Rightarrow> token_info \<Rightarrow>
     token_claims option result" where
  "extraTokenClaims resolver now token =
     (if tk_kind token \<noteq> ''AccessToken'' then Inr None
      else case tk_account token of
        None \<Rightarrow> Inl ''access_denied''
      | Some accountId \<Rightarrow>
          and_then (resolver accountId \<lparr>cb_grant = tk_grant token, cb_client = tk_client token,
              cb_resource = tk_resource token\<rparr>) (\<lambda>claims.
          case claims of
            None \<Rightarrow> Inl ''access_denied''
          | Some (tenant, site, grant) \<Rightarrow>
              Inr (Some \<lparr>tc_nbf = now div 1000, tc_client = tk_client token, tc_scope = tk_scope token,
                tc_tenant = tenant, tc_site = site, tc_grant = grant\<rparr>)))"

definition findAccount :: "(string \<Rightarrow> bool result) \<Rightarrow> string \<Rightarrow> string option result" where
  "findAccount active accountId =
     and_then (active accountId) (\<lambda>ok. Inr (if ok then Some accountId else None))"

definition interaction_url :: "string \<Rightarrow> string" where
  "interaction_url uid = ''/interaction/'' @ uid"

definition DenyAllResourceRegistry :: "string \<Rightarrow> (string \<times> string list) option result" where
  "DenyAllResourceRegistry resource = Inr None"

definition DenyAllGrantClaimsResolver ::
  "string \<Rightarrow> claims_binding \<Rightarrow> (string \<times> string \<times> string) option result" where
  "DenyAllGrantClaimsResolver accountId binding = Inr None"

definition DenyAllAccountRegistry :: "string \<Rightarrow> bool result" where
  "DenyAllAccountRegistry accountId = Inr False"

section \<open>Sets of scopes as text\<close>

definition is_word :: "string \<Rightarrow> bool" where
  "is_word w \<longleftrightarrow> w \<noteq> [] \<and> CHR 0x20 \<notin> set w"

lemma split_on_word: "c \<notin> set w \<Longrightarrow> split_on c (w @ c # s) = w # split_on c s"
  by (induction w) auto

lemma split_on_last: "c \<notin> set w \<Longrightarrow> split_on c w = [w]"
  by (induction w) auto

lemma split_on_join: "\<forall>w\<in>set ws. c \<notin> set w \<Longrightarrow> ws \<noteq> [] \<Longrightarrow> split_on c (join_with [c] ws) = ws"
proof (induction ws)
  case (Cons w ws)
  then show ?case by (cases ws) (simp_all add: split_on_word split_on_last)
qed simp

lemma words_join: "\<forall>w\<in>set ws. is_word w \<Longrightarrow> words (join_with '' '' ws) = ws"
  by (cases ws) (auto simp: words_def split_on_join is_word_def filter_id_conv)

lemma split_on_free: "w \<in> set (split_on c s) \<Longrightarrow> c \<notin> set w"
  by (induction s arbitrary: w) (auto split: if_splits list.splits)

lemma words_are_words: "w \<in> set (words s) \<Longrightarrow> is_word w"
  by (auto simp: words_def is_word_def dest: split_on_free)

lemma scopeSet_inject:
  assumes "\<forall>w\<in>set a. is_word w" "\<forall>w\<in>set b. is_word w" and "scopeSet a = scopeSet b"
  shows "set a = set b"
proof -
  have "words (scopeSet a) = sort_strings (dedup a)" "words (scopeSet b) = sort_strings (dedup b)"
    unfolding scopeSet_def by (rule words_join; use assms in simp)+
  with assms(3) have "set (sort_strings (dedup a)) = set (sort_strings (dedup b))" by simp
  then show ?thesis by simp
qed

lemma mcp_words: "w \<in> set mcpScopes \<Longrightarrow> is_word w"
  by (auto simp: mcpScopes_def is_word_def)

lemma scope_name_word: "is_word (scope_name s)"
  by (cases s) (simp_all add: is_word_def)

section \<open>A loaded grant is exact\<close>

lemma mismatch_simps [simp]: "mismatch c \<noteq> Inr x" "Inr x \<noteq> mismatch c"
  by (simp_all add: mismatch_def)

lemma looked_up_Inr [simp]: "looked_up r = Inr x \<longleftrightarrow> r = Inr x"
  by (cases r) (simp_all add: looked_up_def)

lemma load_request_Inr:
  assumes "load_request rt x = Inr (accountId, clientId, resource, scopes)"
  shows "lx_account x = Some accountId \<and> lx_client x = Some clientId \<and>
    single_resource (lx_resource x) = Some resource \<and> assertExactResource rt resource = Inr resource \<and>
    scopes \<noteq> [] \<and> set scopes \<subseteq> set mcpScopes \<and>
    (\<exists>raw. lx_scope x = Some (JStr raw) \<and> scopes = filter (\<lambda>s. s \<in> set mcpScopes) (words raw))"
  using assms unfolding load_request_def Let_def
  by (auto split: option.splits json.splits if_splits)

lemma check_binding_Inr:
  "check_binding b a c r scopes = Inr () \<longleftrightarrow> xb_subject b = a \<and> xb_client b = c \<and> xb_resource b = r \<and>
     scopeSet (xb_scopes b) = scopeSet scopes"
  by (auto simp: check_binding_def)

lemma check_grant_Inr:
  "check_grant g b a c r = Inr () \<longleftrightarrow> pg_jti g = Some (xb_grant b) \<and> pg_account g = Some a \<and>
     pg_client g = Some c \<and> map fst (pg_resources g) = [r] \<and>
     scopeSet (words (resource_scope g r)) = scopeSet (xb_scopes b) \<and>
     set (words (pg_oidc_scope g)) \<subseteq> {''openid'', ''offline_access''} \<and>
     set (pg_oidc_claims g) \<subseteq> {''sub''} \<and> \<not> pg_rar g"
  by (auto simp: check_grant_def list_ex_iff)

lemma grant_loader_checks:
  assumes "createResourceGrantLoader rt active resolver findGrant x = Inr (Some g)"
  shows "\<exists>accountId clientId resource scopes b. load_request rt x = Inr (accountId, clientId, resource, scopes) \<and>
    active accountId = Inr True \<and> resolver accountId clientId resource (dedup scopes) = Inr (Some b) \<and>
    findGrant (xb_grant b) = Inr (Some g) \<and>
    check_binding b accountId clientId resource scopes = Inr () \<and>
    check_grant g b accountId clientId resource = Inr () \<and>
    lx_submitted x \<in> {None, pg_jti g}"
proof -
  let ?found = "\<lambda>b accountId clientId resource. and_then (looked_up (findGrant (xb_grant b))) (\<lambda>found.
         case found of
           None \<Rightarrow> if lx_submitted x \<noteq> None then mismatch ProviderMissing else Inr None
         | Some g \<Rightarrow> and_then (check_grant g b accountId clientId resource) (\<lambda>_. Inr (Some g)))"
  from assms obtain p where "load_request rt x = Inr p" unfolding createResourceGrantLoader_def and_then_Inr by blast
  moreover obtain accountId clientId resource scopes where "p = (accountId, clientId, resource, scopes)" by (cases p)
  ultimately have req: "load_request rt x = Inr (accountId, clientId, resource, scopes)" by simp
  note step = assms [unfolded createResourceGrantLoader_def req and_then_simps prod.case]
  then obtain ok where "active accountId = Inr ok" unfolding and_then_Inr looked_up_Inr by blast
  with step have act: "active accountId = Inr True" by (cases ok) (simp_all add: looked_up_def)
  note step = step [unfolded act looked_up_def sum.case and_then_simps simp_thms if_False, folded looked_up_def]
  then obtain binding where res: "resolver accountId clientId resource (dedup scopes) = Inr binding"
    unfolding and_then_Inr by (auto simp: succ_simps)
  note step = step [unfolded res looked_up_def sum.case and_then_simps, folded looked_up_def]
  then have sub: "(case lx_submitted x of None \<Rightarrow> False
         | Some submitted \<Rightarrow> map_option xb_grant binding \<noteq> Some submitted) = False"
    by (cases "case lx_submitted x of None \<Rightarrow> False
         | Some submitted \<Rightarrow> map_option xb_grant binding \<noteq> Some submitted") simp_all
  from step [unfolded sub if_False] have rest: "(case binding of None \<Rightarrow> Inr None
     | Some b \<Rightarrow> and_then (check_binding b accountId clientId resource scopes)
         (\<lambda>_. ?found b accountId clientId resource)) = Inr (Some g)" .
  from rest obtain b where b: "binding = Some b" "check_binding b accountId clientId resource scopes = Inr ()"
    "findGrant (xb_grant b) = Inr (Some g)" "check_grant g b accountId clientId resource = Inr ()"
    by (auto simp: and_then_Inr split: option.splits if_splits)
  then have "pg_jti g = Some (xb_grant b)" by (simp add: check_grant_Inr)
  with sub b(1) have "lx_submitted x \<in> {None, pg_jti g}" by (auto split: option.splits)
  with req act res b show ?thesis by blast
qed

text \<open>
  A stored grant answers a request only when it is exactly what the request asks for: the account is
  active, the resolver named this grant for the account, the client, the resource and the scopes,
  the stored grant carries the same four and nothing else, and an identifier submitted by the
  interaction is this one.
\<close>

theorem grant_loader_exact:
  assumes "createResourceGrantLoader rt active resolver findGrant x = Inr (Some g)"
  shows "\<exists>accountId clientId resource scopes b. load_request rt x = Inr (accountId, clientId, resource, scopes) \<and>
    active accountId = Inr True \<and> resolver accountId clientId resource (dedup scopes) = Inr (Some b) \<and>
    findGrant (xb_grant b) = Inr (Some g) \<and>
    check_binding b accountId clientId resource scopes = Inr () \<and>
    check_grant g b accountId clientId resource = Inr () \<and>
    lx_submitted x \<in> {None, pg_jti g}"
  using assms by (rule grant_loader_checks)

text \<open>The resolver of the authorization service, on the state of the database.\<close>

definition exact_of :: "grant_binding \<Rightarrow> exact_binding" where
  "exact_of b = \<lparr>xb_grant = ab_grant b, xb_subject = ab_subject b, xb_client = ab_client b,
     xb_resource = ab_resource b, xb_scopes = map scope_name (ab_scopes b)\<rparr>"

definition database_resolver ::
  "db \<Rightarrow> string \<Rightarrow> string \<Rightarrow> string \<Rightarrow> string list \<Rightarrow> exact_binding option result" where
  "database_resolver d subject client resource scopes =
     (case fst (resolveExact subject client resource scopes d) of
        Inl e \<Rightarrow> Inl e | Inr b \<Rightarrow> Inr (map_option exact_of b))"

text \<open>
  C10. With the resolver of the database, a grant the provider may reuse always stands on a consent: an
  active grant of an active site for that account, client and resource, with exactly the scopes the
  stored grant carries, which are exactly the ones requested.
\<close>

theorem loaded_grant_has_consent:
  assumes ok: "sites_ok (sites d)" "grants_ok (grants d)" "canonical_grants (grants d)"
    and loaded: "createResourceGrantLoader rt active (database_resolver d) findGrant x = Inr (Some g)"
  shows "\<exists>gr r raw. consent_of d gr r \<and> pg_jti g = Some (gr_id gr) \<and> pg_account g = Some (gr_subject gr) \<and>
    lx_account x = Some (gr_subject gr) \<and> lx_client x = Some (gr_client gr) \<and>
    single_resource (lx_resource x) = Some (si_resource r) \<and> lx_scope x = Some (JStr raw) \<and>
    set (words (resource_scope g (si_resource r))) = set (gr_scopes gr) \<and>
    set (gr_scopes gr) = set (words raw) \<inter> set mcpScopes"
proof -
  from grant_loader_checks [OF loaded] obtain accountId clientId resource scopes b
    where req: "load_request rt x = Inr (accountId, clientId, resource, scopes)"
    and res: "database_resolver d accountId clientId resource (dedup scopes) = Inr (Some b)"
    and cb: "check_binding b accountId clientId resource scopes = Inr ()"
    and cg: "check_grant g b accountId clientId resource = Inr ()" by blast
  from load_request_Inr [OF req] obtain raw where raw: "lx_scope x = Some (JStr raw)"
    "scopes = filter (\<lambda>s. s \<in> set mcpScopes) (words raw)" and sub: "set scopes \<subseteq> set mcpScopes"
    and parts: "lx_account x = Some accountId" "lx_client x = Some clientId"
      "single_resource (lx_resource x) = Some resource" by blast
  from res obtain ab where ab: "fst (resolveExact accountId clientId resource (dedup scopes) d) = Inr (Some ab)"
    and b: "b = exact_of ab" by (auto simp: database_resolver_def split: sum.splits)
  from resolve_exact_answer [OF ok, of accountId clientId resource "dedup scopes"] ab
  obtain gr r parsed where consent: "consent_of d gr r"
    and who: "gr_subject gr = accountId" "gr_client gr = clientId" "si_resource r = resource"
    and set: "set (gr_scopes gr) = set scopes" and parsed: "parse_scope_set (gr_scopes gr) = Some parsed"
    and bind: "ab = binding_of gr r parsed" by auto
  have scopes_b: "xb_scopes b = gr_scopes gr"
    using parsed by (simp add: b bind exact_of_def binding_of_def parse_scope_set_Some)
  have "set (words (resource_scope g resource)) = set (xb_scopes b)"
  proof (rule scopeSet_inject)
    show "\<forall>w\<in>set (xb_scopes b). is_word w" using sub mcp_words by (auto simp: scopes_b set)
    show "scopeSet (words (resource_scope g resource)) = scopeSet (xb_scopes b)"
      using cg by (simp add: check_grant_Inr)
  qed (simp add: words_are_words)
  moreover have "pg_jti g = Some (gr_id gr)" "pg_account g = Some accountId"
    using cg by (simp_all add: check_grant_Inr b bind exact_of_def binding_of_def)
  ultimately show ?thesis
    using consent who set parts raw by (auto simp: scopes_b intro!: exI [of _ gr] exI [of _ r])
qed

section \<open>The ports of a native client are bounded\<close>

definition is_variant :: "runtime \<Rightarrow> string list \<Rightarrow> string \<Rightarrow> bool" where
  "is_variant rt uris u \<longleftrightarrow> list_ex (\<lambda>registered. nativeLoopbackRedirectMatches rt registered u) uris"

lemma dynamicVariants_eq: "dynamicVariants rt uris = filter (is_variant rt uris) uris"
  by (simp add: dynamicVariants_def is_variant_def [abs_def])

text \<open>An address with a port matches a registered one without; it is never matched against itself.\<close>

lemma variant_not_base:
  "nativeLoopbackRedirectMatches rt registered u \<Longrightarrow> \<not> nativeLoopbackRedirectMatches rt u v"
  by (auto simp: nativeLoopbackRedirectMatches_def loopback_base_def split: option.splits)

lemma is_variant_append:
  "is_variant rt uris u \<Longrightarrow> is_variant rt (uris @ [u]) v \<longleftrightarrow> is_variant rt uris v"
  by (auto simp: is_variant_def list_ex_iff dest: variant_not_base)

lemma is_variant_remove:
  "is_variant rt uris u \<Longrightarrow> is_variant rt (remove1 u uris) v \<longleftrightarrow> is_variant rt uris v"
  unfolding is_variant_def list_ex_iff
  by (metis in_set_remove1 notin_set_remove1 variant_not_base)

definition fixed_redirects :: "runtime \<Rightarrow> string list \<Rightarrow> string set" where
  "fixed_redirects rt uris = {u \<in> set uris. \<not> is_variant rt uris u}"

lemma admit_redirect_step:
  assumes "length (dynamicVariants rt uris) \<le> 8" and "admit_redirect rt r uris = (ok, uris')"
  shows "length (dynamicVariants rt uris') \<le> 8 \<and> fixed_redirects rt uris \<subseteq> fixed_redirects rt uris' \<and>
    (if ok then r \<in> set uris' else uris' = uris \<and> r \<notin> set uris \<and> \<not> is_variant rt uris r)"
proof (cases "r \<in> set uris \<or> \<not> is_variant rt uris r")
  case True
  with assms show ?thesis by (auto simp: admit_redirect_def is_variant_def split: if_splits)
next
  case False
  then have new: "r \<notin> set uris" "is_variant rt uris r" by simp_all
  let ?pushed = "uris @ [r]"
  have same: "is_variant rt ?pushed v \<longleftrightarrow> is_variant rt uris v" for v
    using new(2) by (rule is_variant_append)
  have variants: "dynamicVariants rt ?pushed = dynamicVariants rt uris @ [r]"
    unfolding dynamicVariants_eq using new by (simp add: same cong: filter_cong)
  have step: "admit_redirect rt r uris = (True, if length (dynamicVariants rt ?pushed) > 8
      then (case dynamicVariants rt ?pushed of [] \<Rightarrow> ?pushed | oldest # _ \<Rightarrow> remove1 oldest ?pushed) else ?pushed)"
    using new by (simp add: admit_redirect_def is_variant_def Let_def)
  show ?thesis
  proof (cases "length (dynamicVariants rt ?pushed) > 8")
    case False
    with step assms(2) same show ?thesis by (auto simp: fixed_redirects_def)
  next
    case True
    then obtain oldest rest where old: "dynamicVariants rt uris = oldest # rest"
      using variants by (cases "dynamicVariants rt uris") auto
    then have "oldest \<in> set (dynamicVariants rt uris)" by simp
    then have o: "oldest \<in> set uris" "is_variant rt ?pushed oldest" by (auto simp: dynamicVariants_eq same)
    with True step assms(2) variants old have uris': "ok" "uris' = remove1 oldest ?pushed" by auto
    have same': "is_variant rt uris' v \<longleftrightarrow> is_variant rt uris v" for v
      unfolding uris' by (simp add: is_variant_remove [OF o(2)] same)
    have "dynamicVariants rt uris' = remove1 oldest (filter (is_variant rt uris) ?pushed)"
      unfolding dynamicVariants_eq uris'(2) filter_remove1 [symmetric]
      by (rule filter_cong [OF refl]) (use same' uris'(2) in simp)
    also have "filter (is_variant rt uris) ?pushed = (oldest # rest) @ [r]"
      using old new by (simp add: dynamicVariants_eq)
    finally have "dynamicVariants rt uris' = rest @ [r]" by simp
    moreover have "r \<in> set uris'" using new(1) o(1) by (auto simp: uris' remove1_append)
    moreover have "fixed_redirects rt uris \<subseteq> fixed_redirects rt uris'"
    proof
      fix u assume u: "u \<in> fixed_redirects rt uris"
      then have "u \<noteq> oldest" using o(2) by (auto simp: fixed_redirects_def same)
      with u show "u \<in> fixed_redirects rt uris'"
        using same' by (auto simp: fixed_redirects_def uris'(2) remove1_append)
    qed
    ultimately show ?thesis using assms(1) old uris'(1) by simp
  qed
qed

text \<open>Requests, each naming a client and a redirect address.\<close>

type_synonym client_store = "string \<Rightarrow> string list option"

definition redirect_step :: "runtime \<Rightarrow> string option \<times> string option \<Rightarrow> client_store \<Rightarrow> client_store" where
  "redirect_step rt x store = snd (allowRegisteredNativeLoopbackPort rt (fst x) (snd x) store)"

definition ports_bounded :: "runtime \<Rightarrow> string \<Rightarrow> client_store \<Rightarrow> bool" where
  "ports_bounded rt c store \<longleftrightarrow>
     (case store c of None \<Rightarrow> False | Some uris \<Rightarrow> length (dynamicVariants rt uris) \<le> 8)"

definition keeps_fixed :: "runtime \<Rightarrow> string \<Rightarrow> client_store \<Rightarrow> client_store \<Rightarrow> bool" where
  "keeps_fixed rt c a b \<longleftrightarrow> (case (a c, b c) of
     (Some uris, Some uris') \<Rightarrow> fixed_redirects rt uris \<subseteq> fixed_redirects rt uris'
   | (x, y) \<Rightarrow> x = None)"

lemma redirect_step_cases:
  "redirect_step rt x store c = store c \<or>
     (\<exists>r uris. store c = Some uris \<and> redirect_step rt x store c = Some (snd (admit_redirect rt r uris)))"
  by (auto simp: redirect_step_def allowRegisteredNativeLoopbackPort_def
    split: option.split prod.split) (metis snd_conv)

interpretation redirects: monotone_machine "redirect_step rt" "\<lambda>_. True" "ports_bounded rt c" "keeps_fixed rt c"
  for rt c
proof unfold_locales
  fix x and st :: client_store
  assume inv: "ports_bounded rt c st"
  then obtain uris where uris: "st c = Some uris" "length (dynamicVariants rt uris) \<le> 8"
    by (auto simp: ports_bounded_def split: option.splits)
  have "ports_bounded rt c (redirect_step rt x st) \<and> keeps_fixed rt c st (redirect_step rt x st)"
    using redirect_step_cases [of rt x st c]
  proof
    assume "redirect_step rt x st c = st c"
    with uris show ?thesis by (simp add: ports_bounded_def keeps_fixed_def)
  next
    assume "\<exists>r uris. st c = Some uris \<and> redirect_step rt x st c = Some (snd (admit_redirect rt r uris))"
    then obtain r where r: "redirect_step rt x st c = Some (snd (admit_redirect rt r uris))" using uris by auto
    from admit_redirect_step [OF uris(2), of r] uris show ?thesis
      by (cases "admit_redirect rt r uris") (simp add: ports_bounded_def keeps_fixed_def r)
  qed
  then show "ports_bounded rt c (redirect_step rt x st)" "keeps_fixed rt c st (redirect_step rt x st)" by simp_all
next
  fix a b d :: client_store
  show "keeps_fixed rt c a a" by (simp add: keeps_fixed_def split: option.split)
  show "keeps_fixed rt c a b \<Longrightarrow> keeps_fixed rt c b d \<Longrightarrow> keeps_fixed rt c a d"
    by (auto simp: keeps_fixed_def split: option.splits)
qed

text \<open>
  However many authorization requests arrive with whatever ports, a client holds at most eight
  addresses that were admitted for their port alone, and no registered address is ever lost.
\<close>

theorem loopback_ports_bounded:
  assumes "store c = Some uris" and "length (dynamicVariants rt uris) \<le> 8"
  shows "\<exists>uris'. fold (redirect_step rt) requests store c = Some uris' \<and>
    length (dynamicVariants rt uris') \<le> 8 \<and> fixed_redirects rt uris \<subseteq> fixed_redirects rt uris'"
proof -
  have inv: "ports_bounded rt c store" using assms by (simp add: ports_bounded_def)
  have all: "list_all (\<lambda>_. True) requests" by (simp add: list_all_iff)
  show ?thesis
    using redirects.run_inv [OF inv all] redirects.run_below [OF inv all] assms(1)
    by (auto simp: ports_bounded_def keeps_fixed_def split: option.splits)
qed

section \<open>Lifetimes, keys and claims\<close>

text \<open>
  A refresh token never lives longer than thirty days, and never past ninety days after the family
  was first issued, save that a token already past them is given one second.
\<close>

theorem refresh_ttl_bounds:
  assumes "safe_integer issued"
  shows "1 \<le> refreshTokenTtl (Some (JInt issued)) now \<and>
    refreshTokenTtl (Some (JInt issued)) now \<le> 30 * 86400 \<and>
    now + refreshTokenTtl (Some (JInt issued)) now \<le> max (issued + 90 * 86400) (now + 1)"
  using assms by (auto simp: refreshTokenTtl_def Let_def refreshInactivitySeconds_def refreshAbsoluteSeconds_def)

text \<open>
  C34. A configured provider signs with one key only: the identifiers of its keys differ, the custody's
  key comes first, every other key refuses to sign, and no cookie key is short.
\<close>

theorem provider_single_signer:
  assumes "createAuthorizationProvider rt issuer cookieKeys (Inr descriptor, sign) verification clientDefs = Inr p"
  shows "distinct (map external_kid (pv_keys p)) \<and>
    (\<exists>others. pv_keys p = CustodyExternalSigningKey descriptor sign # others \<and>
       (\<forall>k\<in>set others. external_sign k data = Inl ''verification_only_key'')) \<and>
    2 \<le> length (pv_cookie_keys p) \<and> (\<forall>k\<in>set (pv_cookie_keys p). 32 \<le> length k)"
proof -
  let ?keys = "CustodyExternalSigningKey descriptor sign # map PublicExternalSigningKey verification"
  from assms have len: "length (dedup (map external_kid ?keys)) = length (map external_kid ?keys)"
    and p: "pv_keys p = ?keys" "pv_cookie_keys p = cookieKeys"
    and cookies: "\<not> length cookieKeys < 2" "\<not> list_ex (\<lambda>k. length k < 32) cookieKeys"
    by (auto simp: createAuthorizationProvider_def succ_simps simp del: dedup.simps)
  from len have "distinct (map external_kid ?keys)"
    by (metis card_distinct distinct_card distinct_dedup set_dedup)
  moreover have "\<forall>k\<in>set (map PublicExternalSigningKey verification). external_sign k data = Inl ''verification_only_key''"
    by auto
  moreover have "2 \<le> length cookieKeys" "\<forall>k\<in>set cookieKeys. 32 \<le> length k"
    using cookies by (auto simp: list_ex_iff not_less)
  ultimately show ?thesis unfolding p by blast
qed

text \<open>
  C26. The claims of an access token name the tenant, site and grant of an active consent of its account
  that agrees with the grant, client and resource the token carries, and that is the only such one.
\<close>

theorem access_token_claims_bound:
  assumes "extraTokenClaims (\<lambda>s b. fst (resolveClaims s b d)) now token = Inr (Some c)"
  shows "\<exists>account g r. tk_account token = Some account \<and>
    matching_consents d account \<lparr>cb_grant = tk_grant token, cb_client = tk_client token,
      cb_resource = tk_resource token\<rparr> = {(g, r)} \<and>
    tc_tenant c = gr_tenant g \<and> tc_site c = gr_site g \<and> tc_grant c = gr_id g \<and> tc_nbf c = now div 1000"
proof -
  from assms obtain account t i grant where acc: "tk_account token = Some account"
    and res: "fst (resolveClaims account \<lparr>cb_grant = tk_grant token, cb_client = tk_client token,
      cb_resource = tk_resource token\<rparr> d) = Inr (Some (t, i, grant))"
    and c: "tc_tenant c = t" "tc_site c = i" "tc_grant c = grant" "tc_nbf c = now div 1000"
    by (auto simp: extraTokenClaims_def and_then_Inr split: if_splits option.splits)
  then have "resolveClaims account \<lparr>cb_grant = tk_grant token, cb_client = tk_client token,
      cb_resource = tk_resource token\<rparr> d = (Inr (Some (t, i, grant)), snd (resolveClaims account
      \<lparr>cb_grant = tk_grant token, cb_client = tk_client token, cb_resource = tk_resource token\<rparr> d))"
    by (simp add: prod_eq_iff)
  from resolve_claims_matching [OF this] acc c show ?thesis by blast
qed

section \<open>Examples\<close>

definition sample_context :: load_context where
  "sample_context = \<lparr>lx_account = Some ''account-0001'', lx_client = Some ''client-0001'',
     lx_resource = Some (JArr [JStr ''https://blog.example/mcp'']),
     lx_scope = Some (JStr ''openid mcp:seo.write mcp:read''), lx_submitted = Some ''grant-0001''\<rparr>"

definition stored_grant :: provider_grant where
  "stored_grant = \<lparr>pg_jti = Some ''grant-0001'', pg_account = Some ''account-0001'', pg_client = Some ''client-0001'',
     pg_resources = [(''https://blog.example/mcp'', ''mcp:read mcp:seo.write'')], pg_oidc_scope = ''openid'',
     pg_oidc_claims = [''sub''], pg_rar = False\<rparr>"

definition sample_binding :: exact_binding where
  "sample_binding = \<lparr>xb_grant = ''grant-0001'', xb_subject = ''account-0001'', xb_client = ''client-0001'',
     xb_resource = ''https://blog.example/mcp'', xb_scopes = [''mcp:read'', ''mcp:seo.write'']\<rparr>"

lemma sample_request_ok: "load_request sample_runtime sample_context =
   Inr (''account-0001'', ''client-0001'', ''https://blog.example/mcp'', [''mcp:seo.write'', ''mcp:read''])"
  by code_simp

lemma sample_checks:
  "check_binding sample_binding ''account-0001'' ''client-0001'' ''https://blog.example/mcp'' [''mcp:seo.write'', ''mcp:read''] = Inr ()"
  "check_grant stored_grant sample_binding ''account-0001'' ''client-0001'' ''https://blog.example/mcp'' = Inr ()"
  by code_simp+

lemma sample_load:
  assumes "resolver ''account-0001'' ''client-0001'' ''https://blog.example/mcp'' [''mcp:seo.write'', ''mcp:read''] =
    Inr (Some sample_binding)"
  shows "createResourceGrantLoader sample_runtime (\<lambda>a. Inr True) resolver (\<lambda>i. Inr (Some stored_grant)) sample_context =
    Inr (Some stored_grant)"
proof -
  have sub: "lx_submitted sample_context = Some (xb_grant sample_binding)"
    by (simp add: sample_context_def sample_binding_def)
  have "dedup [''mcp:seo.write'', ''mcp:read''] = [''mcp:seo.write'', ''mcp:read'']" by code_simp
  with assms sub sample_checks show ?thesis
    by (simp add: createResourceGrantLoader_def sample_request_ok looked_up_def)
qed

theorem grant_loader_exact_witness:
  "\<exists>a c r scopes b. load_request sample_runtime sample_context = Inr (a, c, r, scopes) \<and>
    check_grant stored_grant b a c r = Inr () \<and> lx_submitted sample_context \<in> {None, pg_jti stored_grant}"
proof -
  have "createResourceGrantLoader sample_runtime (\<lambda>a. Inr True) (\<lambda>a c r s. Inr (Some sample_binding))
      (\<lambda>i. Inr (Some stored_grant)) sample_context = Inr (Some stored_grant)"
    by (rule sample_load) simp
  from grant_loader_exact [OF this] show ?thesis by blast
qed

lemma consent_db_resolver:
  "database_resolver consent_db ''account-0001'' ''client-0001'' ''https://blog.example/mcp''
     [''mcp:seo.write'', ''mcp:read''] = Inr (Some sample_binding)"
proof -
  have "fst (resolveExact ''account-0001'' ''client-0001'' ''https://blog.example/mcp''
     [''mcp:seo.write'', ''mcp:read''] consent_db) =
    Inr (Some (binding_of (hd (grants consent_db)) (hd (sites consent_db)) [McpRead, McpSeoWrite]))"
    by code_simp
  then show ?thesis
    by (simp add: database_resolver_def exact_of_def binding_of_def sample_binding_def consent_db_def)
qed

theorem loaded_grant_has_consent_witness:
  "\<exists>gr r. consent_of consent_db gr r \<and> pg_jti stored_grant = Some (gr_id gr)"
proof -
  have ok: "sites_ok (sites consent_db)" "grants_ok (grants consent_db)" "canonical_grants (grants consent_db)"
    by code_simp+
  have "createResourceGrantLoader sample_runtime (\<lambda>a. Inr True) (database_resolver consent_db)
      (\<lambda>i. Inr (Some stored_grant)) sample_context = Inr (Some stored_grant)"
    by (rule sample_load) (rule consent_db_resolver)
  from loaded_grant_has_consent [OF ok this] show ?thesis by blast
qed

definition port_parse_url :: "string \<Rightarrow> url option" where
  "port_parse_url s = (if starts_with s ''http://127.0.0.1:'' then
     Some \<lparr>url_href = s, url_protocol = ''http:'', url_username = [], url_password = [],
       url_hostname = ''127.0.0.1'', url_port = takeWhile (\<lambda>c. c \<noteq> CHR ''/'') (drop 17 s),
       url_pathname = dropWhile (\<lambda>c. c \<noteq> CHR ''/'') (drop 17 s), url_search = [], url_hash = [],
       url_origin = takeWhile (\<lambda>c. c \<noteq> CHR ''/'') (drop 7 s)\<rparr>
     else loopback_parse_url s)"

definition port_runtime :: runtime where
  "port_runtime = sample_runtime\<lparr>parse_url := port_parse_url\<rparr>"

definition native_store :: client_store where
  "native_store = [''codex'' \<mapsto> [sample_callback]]"

theorem loopback_ports_bounded_witness:
  "\<exists>uris'. fold (redirect_step port_runtime)
      [(Some ''codex'', Some ''http://127.0.0.1:7777/callback/desktop-0001'')] native_store ''codex'' = Some uris' \<and>
    length (dynamicVariants port_runtime uris') \<le> 8 \<and>
    fixed_redirects port_runtime [sample_callback] \<subseteq> fixed_redirects port_runtime uris'"
proof (rule loopback_ports_bounded)
  show "native_store ''codex'' = Some [sample_callback]" by (simp add: native_store_def)
  show "length (dynamicVariants port_runtime [sample_callback]) \<le> 8"
    using length_filter_le [of _ "[sample_callback]"] unfolding dynamicVariants_def
    by (rule order_trans) simp
qed

theorem refresh_ttl_bounds_witness: "refreshTokenTtl (Some (JInt 0)) 100 \<le> 30 * 86400"
  using refresh_ttl_bounds [of 0 100] by (simp add: safe_integer_def)

definition sample_provider :: "provider_config result" where
  "sample_provider = createAuthorizationProvider sample_runtime ''https://auth.example/''
     [replicate 32 CHR ''a'', replicate 32 CHR ''b'']
     (Inr \<lparr>kd_kid = ''key-00000001'', kd_key = sample_public, kd_jwk = []\<rparr>, \<lambda>m. Inr m)
     [\<lparr>kd_kid = ''key-00000002'', kd_key = sample_public, kd_jwk = []\<rparr>] [(''client-0001'', [sample_callback])]"

theorem provider_single_signer_witness: "distinct (map external_kid (pv_keys (projr sample_provider)))"
proof -
  have "assertHttpsUrl sample_runtime ''https://auth.example/'' ''issuer'' = Inr ''https://auth.example''" by code_simp
  then have "is_ok sample_provider" by (simp add: sample_provider_def createAuthorizationProvider_def Let_def)
  then obtain p where p: "sample_provider = Inr p" by (auto simp: is_ok_iff)
  from provider_single_signer [OF p [unfolded sample_provider_def]] show ?thesis by (simp add: p)
qed

definition sample_access_token :: token_info where
  "sample_access_token = \<lparr>tk_kind = ''AccessToken'', tk_account = Some ''account-0001'', tk_grant = Some ''grant-0001'',
     tk_client = Some ''client-0001'', tk_resource = Some ''https://blog.example/mcp'', tk_scope = Some ''mcp:read''\<rparr>"

theorem access_token_claims_bound_witness:
  "\<exists>account g r. tk_account sample_access_token = Some account \<and>
    matching_consents consent_db account \<lparr>cb_grant = tk_grant sample_access_token,
      cb_client = tk_client sample_access_token, cb_resource = tk_resource sample_access_token\<rparr> = {(g, r)}"
proof -
  have "extraTokenClaims (\<lambda>s b. fst (resolveClaims s b consent_db)) 5000 sample_access_token =
      Inr (Some \<lparr>tc_nbf = 5, tc_client = Some ''client-0001'', tc_scope = Some ''mcp:read'',
        tc_tenant = ''tenant-0001'', tc_site = ''site-0001'', tc_grant = ''grant-0001''\<rparr>)"
    by code_simp
  from access_token_claims_bound [OF this] show ?thesis by blast
qed

end
