(* ===== verification/Revocation_Worker.thy ===== *)
theory Revocation_Worker
  imports Revocation Key_Custody
begin

text \<open>
  The worker of the authorization service that takes revocation events from the outbox, signs them
  and delivers them to the connector of the site (apps/authorization-service/revocation-worker.ts).
\<close>

section \<open>Errors of a delivery\<close>

text \<open>
  What a failed delivery throws: the worker's own failure with its code, a diagnostic of the pairing
  package, an error of the platform with a string code and a message, an error without a code, or
  something that is no error.
\<close>

datatype delivery_error =
    DeliveryFailure string
  | Diagnostic diag_stage diag_code
  | CodedError string string
  | PlainError string
  | NoError

fun diag_text :: "diag_code \<Rightarrow> string" where
  "diag_text DnsFailed = ''dns.failed''"
| "diag_text DestinationUnsafe = ''destination.unsafe''"
| "diag_text NetworkFailed = ''network.failed''"
| "diag_text NetworkTimeout = ''network.timeout''"
| "diag_text TlsFailed = ''tls.failed''"
| "diag_text Http401 = ''http.401''"
| "diag_text Http403 = ''http.403''"
| "diag_text Http429 = ''http.429''"
| "diag_text Http4xx = ''http.4xx''"
| "diag_text Http5xx = ''http.5xx''"
| "diag_text HttpOther = ''http.other''"
| "diag_text ContentTypeInvalid = ''response.content_type_invalid''"
| "diag_text TooLarge = ''response.too_large''"
| "diag_text JsonInvalid = ''response.json_invalid''"
| "diag_text SchemaInvalid = ''response.schema_invalid''"
| "diag_text KeyInvalid = ''proof.key_invalid''"
| "diag_text SignatureInvalid = ''proof.signature_invalid''"
| "diag_text HeaderInvalid = ''proof.header_invalid''"
| "diag_text ClaimsInvalid = ''proof.claims_invalid''"
| "diag_text PairingStateInvalid = ''pairing.state_invalid''"
| "diag_text TenantAccessDenied = ''pairing.tenant_access_denied''"
| "diag_text PersistenceFailed = ''pairing.persistence_failed''"
| "diag_text CodeUnknown = ''unknown''"

definition tlsErrorCodes :: "string list" where
  "tlsErrorCodes =
     [''CERT_HAS_EXPIRED'', ''DEPTH_ZERO_SELF_SIGNED_CERT'', ''ERR_TLS_CERT_ALTNAME_INVALID'',
      ''SELF_SIGNED_CERT_IN_CHAIN'', ''UNABLE_TO_GET_ISSUER_CERT_LOCALLY'',
      ''UNABLE_TO_VERIFY_LEAF_SIGNATURE'']"

definition error_code_of :: "string option \<Rightarrow> string \<Rightarrow> string" where
  "error_code_of code message =
     (if code = Some ''ENOTFOUND'' \<or> code = Some ''EAI_AGAIN'' then ''dns.failed''
      else if code = Some ''ETIMEDOUT'' \<or> code = Some ''UND_ERR_CONNECT_TIMEOUT'' then ''network.timeout''
      else if list_ex (\<lambda>c. code = Some c) tlsErrorCodes then ''tls.failed''
      else if message = ''unsafe_destination'' then ''destination.unsafe''
      else ''network.failed'')"

text \<open>A diagnostic error has its code as its message too.\<close>

definition revocationErrorCode :: "delivery_error \<Rightarrow> string" where
  "revocationErrorCode e =
     (case e of
        DeliveryFailure code \<Rightarrow> code
      | Diagnostic stage code \<Rightarrow> error_code_of (Some (diag_text code)) (diag_text code)
      | CodedError code message \<Rightarrow> error_code_of (Some code) message
      | PlainError message \<Rightarrow> error_code_of None message
      | NoError \<Rightarrow> ''network.failed'')"

definition thrown_by :: "thrown \<Rightarrow> delivery_error" where
  "thrown_by e = (case e of Diag s c \<Rightarrow> Diagnostic s c | Plain m \<Rightarrow> PlainError m)"

section \<open>Delivery\<close>

text \<open>\<open>new URL(path, origin)\<close> replaces the path.\<close>

definition revocationEndpoint :: "runtime \<Rightarrow> string \<Rightarrow> (string \<times> string) result" where
  "revocationEndpoint rt resource =
     and_then (canonicalizeResource rt resource) (\<lambda>canonical.
       case parse_url rt canonical of
         None \<Rightarrow> Inl ''Invalid URL''
       | Some parsed \<Rightarrow>
           if url_pathname parsed \<noteq> ''/wp-json/wp-auto/mcp'' then Inl ''resource_path_not_supported''
           else Inr (url_hostname parsed, url_origin parsed @ ''/wp-json/wp-auto/v1/revocations''))"

text \<open>
  The pinned request as the events of the socket: the promise is settled by the first of them.
\<close>

datatype delivery_event = Answered int | Expired | Failed delivery_error

definition settle_delivery :: "delivery_event \<Rightarrow> delivery_error + unit" where
  "settle_delivery ev =
     (case ev of
        Answered status \<Rightarrow>
          if status = 204 then Inr () else Inl (DeliveryFailure (''http.'' @ show_int status))
      | Expired \<Rightarrow> Inl (CodedError ''ETIMEDOUT'' ''revocation_delivery_timeout'')
      | Failed e \<Rightarrow> Inl e)"

definition sendPinnedHttpsRequest ::
  "net \<Rightarrow> (string \<Rightarrow> string \<Rightarrow> string \<Rightarrow> delivery_event) \<Rightarrow> string \<Rightarrow> string \<Rightarrow> string \<Rightarrow> delivery_error + unit" where
  "sendPinnedHttpsRequest n socket endpoint body pinned =
     (case createPinnedAddressLookup n pinned of
        Inl e \<Rightarrow> Inl (PlainError e)
      | Inr _ \<Rightarrow> settle_delivery (socket endpoint body pinned))"

definition sendRevocation ::
  "runtime \<Rightarrow> net \<Rightarrow> (string \<Rightarrow> delivery_error + string list) \<Rightarrow>
     (string \<Rightarrow> string \<Rightarrow> string \<Rightarrow> delivery_error + unit) \<Rightarrow> string \<Rightarrow> string \<Rightarrow> delivery_error + unit" where
  "sendRevocation rt n resolver request resource compactJws =
     (if utf8_length compactJws > 16 * 1024 then Inl (PlainError ''revocation_event_too_large'')
      else case revocationEndpoint rt resource of
        Inl e \<Rightarrow> Inl (PlainError e)
      | Inr (hostname, endpoint) \<Rightarrow>
          and_then (resolver hostname) (\<lambda>addresses.
            case addresses of
              [] \<Rightarrow> Inl (PlainError ''unsafe_destination'')
            | pinned # _ \<Rightarrow>
                if \<not> isPublicAddress n pinned then Inl (PlainError ''unsafe_destination'')
                else request endpoint compactJws pinned))"

text \<open>The resolver and the request the constructor falls back to.\<close>

definition default_resolver ::
  "net \<Rightarrow> (string \<Rightarrow> string list option) \<Rightarrow> (string \<Rightarrow> string list option) \<Rightarrow> string \<Rightarrow>
     delivery_error + string list" where
  "default_resolver n resolve4 resolve6 hostname =
     (case resolvePublicAddresses n resolve4 resolve6 hostname of
        Inl e \<Rightarrow> Inl (thrown_by e) | Inr xs \<Rightarrow> Inr xs)"

section \<open>The worker\<close>

text \<open>
  \<open>wk_send\<close> is the delivery; \<open>wk_sign\<close> the signer, over the record to sign and the instant;
  \<open>wk_clock\<close> gives the instant at which a record of the run is handled.
\<close>

record worker =
  wk_issuer :: string
  wk_sign :: "revocation_event \<Rightarrow> time \<Rightarrow> string result"
  wk_send :: "string \<Rightarrow> string \<Rightarrow> delivery_error + unit"
  wk_clock :: "outbox_row \<Rightarrow> time"

definition strip_slash :: "string \<Rightarrow> string" where
  "strip_slash s = (if ends_with s ''/'' then take (length s - 1) s else s)"

definition worker_issuer :: "runtime \<Rightarrow> string \<Rightarrow> string result" where
  "worker_issuer rt issuer =
     (case parse_url rt issuer of None \<Rightarrow> Inl ''Invalid URL'' | Some u \<Rightarrow> Inr (strip_slash (url_href u)))"

definition event_of :: "string \<Rightarrow> outbox_row \<Rightarrow> revocation_event" where
  "event_of issuer r =
     \<lparr>rv_issuer = issuer, rv_resource = ob_resource r, rv_tenant = ob_tenant r, rv_site = ob_site r,
      rv_sequence = int (ob_sequence r), rv_type = ob_type r, rv_grant = ob_grant r, rv_token = None,
      rv_key = ob_key r, rv_reason = ob_reason r\<rparr>"

definition retry_delay :: "nat \<Rightarrow> int" where
  "retry_delay n = min 3600 (2 ^ min n 11)"

text \<open>One record: what is written to the outbox, and whether the event was delivered.\<close>

definition handle_record :: "worker \<Rightarrow> outbox_row \<Rightarrow> db \<Rightarrow> bool outcome" where
  "handle_record w r d =
     (let now = wk_clock w r; defer = (\<lambda>code d.
            case reschedule (ob_id r) code (retry_delay (ob_attempts r)) now d of
              (Inl e, d') \<Rightarrow> (Inl e, d') | (Inr _, d') \<Rightarrow> (Inr False, d')) in
      case wk_sign w (event_of (wk_issuer w) r) now of
        Inl _ \<Rightarrow> defer ''signing.failed'' d
      | Inr compact \<Rightarrow>
          (case wk_send w (ob_resource r) compact of
             Inl e \<Rightarrow> defer (revocationErrorCode e) d
           | Inr _ \<Rightarrow>
               (case markDelivered (ob_id r) now d of
                  (Inl e, d') \<Rightarrow> defer (revocationErrorCode (PlainError e)) d'
                | (Inr _, d') \<Rightarrow> (Inr True, d'))))"

text \<open>The totals: delivered, deferred.\<close>

fun handle_records :: "worker \<Rightarrow> outbox_row list \<Rightarrow> nat \<times> nat \<Rightarrow> db \<Rightarrow> (nat \<times> nat) outcome" where
  "handle_records w [] counts d = (Inr counts, d)"
| "handle_records w (r # rs) (delivered, deferred) d =
     (case handle_record w r d of
        (Inl e, d') \<Rightarrow> (Inl e, d')
      | (Inr True, d') \<Rightarrow> handle_records w rs (delivered + 1, deferred) d'
      | (Inr False, d') \<Rightarrow> handle_records w rs (delivered, deferred + 1) d')"

definition runOnce :: "worker \<Rightarrow> int \<Rightarrow> time \<Rightarrow> db \<Rightarrow> (nat \<times> nat) outcome" where
  "runOnce w limit now d =
     (case claim limit now d of
        (Inl e, d') \<Rightarrow> (Inl e, d')
      | (Inr records, d') \<Rightarrow> handle_records w records (0, 0) d')"

section \<open>A run settles every record it claimed\<close>

text \<open>The code a record's attempt fails with, \<open>None\<close> when the event was delivered.\<close>

definition attempt_code :: "worker \<Rightarrow> outbox_row \<Rightarrow> string option" where
  "attempt_code w r =
     (case wk_sign w (event_of (wk_issuer w) r) (wk_clock w r) of
        Inl _ \<Rightarrow> Some ''signing.failed''
      | Inr compact \<Rightarrow>
          (case wk_send w (ob_resource r) compact of Inl e \<Rightarrow> Some (revocationErrorCode e) | Inr _ \<Rightarrow> None))"

definition settle_row :: "worker \<Rightarrow> outbox_row \<Rightarrow> outbox_row \<Rightarrow> outbox_row" where
  "settle_row w r q =
     (case attempt_code w r of
        None \<Rightarrow> q\<lparr>ob_delivered := Some (wk_clock w r), ob_locked := None, ob_error := None\<rparr>
      | Some code \<Rightarrow> q\<lparr>ob_locked := None, ob_not_before := wk_clock w r + retry_delay (ob_attempts r) * 1000,
          ob_error := Some (if rx_code code then code else ''delivery_failed'')\<rparr>)"

lemma settle_row_id [simp]: "ob_id (settle_row w r q) = ob_id q"
  by (simp add: settle_row_def split: option.split)

lemma retry_delay_bounds: "1 \<le> retry_delay n" "retry_delay n \<le> 2048"
proof -
  have "(2::int) ^ min n 11 \<le> 2 ^ 11" by (rule power_increasing) simp_all
  then show "1 \<le> retry_delay n" "retry_delay n \<le> 2048" by (simp_all add: retry_delay_def)
qed

definition open_record :: "nat \<Rightarrow> outbox_row \<Rightarrow> bool" where
  "open_record rid q \<longleftrightarrow> ob_id q = rid \<and> ob_delivered q = None"

lemma handle_record_eq:
  "handle_record w r d = (Inr (attempt_code w r = None),
     d\<lparr>outbox := sql_update (open_record (ob_id r)) (settle_row w r) (outbox d)\<rparr>)"
proof -
  have c [simp]: "clamp 1 3600 (retry_delay n) = retry_delay n" for n
    using retry_delay_bounds [of n] by (simp add: clamp_def)
  note defs = handle_record_def Let_def reschedule_def markDelivered_def withAuthorizationService_def
    transaction_def open_record_def [abs_def] settle_row_def [abs_def] attempt_code_def
  show ?thesis
  proof (cases "wk_sign w (event_of (wk_issuer w) r) (wk_clock w r)")
    case (Inl e)
    then show ?thesis by (simp add: defs)
  next
    case (Inr compact)
    then show ?thesis by (cases "wk_send w (ob_resource r) compact") (simp_all add: defs)
  qed
qed

definition settle_step :: "worker \<Rightarrow> outbox_row \<Rightarrow> outbox_row \<Rightarrow> outbox_row" where
  "settle_step w r q = (if open_record (ob_id r) q then settle_row w r q else q)"

lemma settle_step_id [simp]: "ob_id (settle_step w r q) = ob_id q"
  by (simp add: settle_step_def)

lemma fold_settle_id [simp]: "ob_id (fold (settle_step w) rs q) = ob_id q"
  by (induction rs arbitrary: q) simp_all

lemma handle_records_eq:
  "handle_records w rs (a, b) d =
     (Inr (a + length (filter (\<lambda>r. attempt_code w r = None) rs),
           b + length (filter (\<lambda>r. attempt_code w r \<noteq> None) rs)),
      d\<lparr>outbox := map (fold (settle_step w) rs) (outbox d)\<rparr>)"
proof (induction rs arbitrary: a b d)
  case (Cons r rs)
  have step: "sql_update (open_record (ob_id r)) (settle_row w r) t = map (settle_step w r) t" for t
    by (simp add: sql_update_def settle_step_def)
  show ?case
    by (cases "attempt_code w r") (simp_all add: handle_record_eq Cons step comp_def)
qed simp

lemma fold_settle_other: "ob_id q \<notin> ob_id ` set rs \<Longrightarrow> fold (settle_step w) rs q = q"
  by (induction rs) (auto simp: settle_step_def open_record_def)

lemma fold_settle_member:
  "distinct (map ob_id rs) \<Longrightarrow> q \<in> set rs \<Longrightarrow> ob_delivered q = None \<Longrightarrow>
     fold (settle_step w) rs q = settle_row w q q"
proof (induction rs)
  case (Cons r rs)
  show ?case
  proof (cases "q = r")
    case True
    with Cons.prems have "settle_step w r q = settle_row w q q" by (simp add: settle_step_def open_record_def)
    with Cons.prems True show ?thesis by (simp add: fold_settle_other)
  next
    case False
    with Cons.prems have rs: "q \<in> set rs" by simp
    then have "ob_id q \<in> ob_id ` set rs" by simp
    with Cons.prems have "ob_id q \<noteq> ob_id r" by auto
    then have "settle_step w r q = q" by (simp add: settle_step_def open_record_def)
    with Cons rs show ?thesis by simp
  qed
qed simp

lemma claim_eq:
  "claim limit now d =
     (let ids = claim_candidates (clamp 1 100 limit) now (outbox d);
          rows = sql_update (\<lambda>r. ob_id r \<in> set ids)
            (\<lambda>r. r\<lparr>ob_locked := Some now, ob_attempts := ob_attempts r + 1\<rparr>) (outbox d)
      in (Inr (filter (\<lambda>r. ob_id r \<in> set ids) rows), d\<lparr>outbox := rows\<rparr>))"
  by (simp add: claim_def Let_def withAuthorizationService_def transaction_def)

lemma claimed_undelivered:
  assumes "has_pk ob_id (outbox d)" and "ob_id r \<in> set (claim_candidates l now (outbox d))" and "r \<in> set (outbox d)"
  shows "claimable now r"
proof -
  from assms(2) obtain q where "q \<in> set (outbox d)" "claimable now q" "ob_id q = ob_id r"
    by (auto simp: claim_candidates_def dest!: in_set_takeD)
  with pk_inject [OF assms(1)] assms(3) show ?thesis by metis
qed

lemma claim_records:
  assumes "has_pk ob_id (outbox d)" and "claim limit now d = (Inr records, d1)"
  shows "distinct (map ob_id records) \<and> (\<forall>q\<in>set (outbox d1). q \<in> set records \<longleftrightarrow> ob_id q \<in> ob_id ` set records) \<and>
    (\<forall>q\<in>set records. ob_delivered q = None) \<and> has_pk ob_id (outbox d1)"
proof -
  let ?chosen = "claim_candidates (clamp 1 100 limit) now (outbox d)"
  from assms(2) have d1: "outbox d1 = sql_update (\<lambda>r. ob_id r \<in> set ?chosen)
            (\<lambda>r. r\<lparr>ob_locked := Some now, ob_attempts := ob_attempts r + 1\<rparr>) (outbox d)"
    and records: "records = filter (\<lambda>r. ob_id r \<in> set ?chosen) (outbox d1)"
    by (auto simp: claim_eq Let_def)
  have pk1: "has_pk ob_id (outbox d1)" using assms(1) by (simp add: d1 has_pk_update)
  moreover have "distinct (map ob_id records)"
    using pk1 by (simp add: records has_pk_def distinct_map_filter)
  moreover have "ob_delivered q = None" if "q \<in> set records" for q
  proof -
    from that have "q \<in> set (outbox d1)" and ids: "ob_id q \<in> set ?chosen" by (simp_all add: records)
    then obtain r where r: "r \<in> set (outbox d)" "ob_id r = ob_id q" "ob_delivered q = ob_delivered r"
      by (auto simp: d1 set_sql_update split: if_splits)
    have "claimable now r" by (rule claimed_undelivered [OF assms(1)]) (use ids r in simp_all)
    with r(3) show ?thesis by (simp add: claimable_def)
  qed
  ultimately show ?thesis by (auto simp: records)
qed

text \<open>
  C16. A run always returns, and it is the claim followed by settling each claimed record on its own: a
  record whose event was signed and accepted is marked delivered, every other one is unlocked and
  due again after two to the power of its attempts in seconds, 2048 at most; rows that were not
  claimed are untouched, and the totals are the numbers of the two kinds.
\<close>

theorem worker_run_settles:
  assumes "has_pk ob_id (outbox d)" and "claim limit now d = (Inr records, d1)"
  shows "runOnce w limit now d =
    (Inr (length (filter (\<lambda>r. attempt_code w r = None) records),
          length (filter (\<lambda>r. attempt_code w r \<noteq> None) records)),
     d1\<lparr>outbox := map (\<lambda>q. if q \<in> set records then settle_row w q q else q) (outbox d1)\<rparr>)"
proof -
  note c = claim_records [OF assms]
  have "map (fold (settle_step w) records) (outbox d1) =
      map (\<lambda>q. if q \<in> set records then settle_row w q q else q) (outbox d1)"
    using c by (intro map_cong) (simp_all add: fold_settle_member fold_settle_other)
  then show ?thesis by (simp add: runOnce_def assms(2) handle_records_eq)
qed

section \<open>Progress\<close>

fun drain :: "worker \<Rightarrow> int \<Rightarrow> time \<Rightarrow> nat \<Rightarrow> db \<Rightarrow> db" where
  "drain w limit now 0 d = d"
| "drain w limit now (Suc n) d = drain w limit now n (snd (runOnce w limit now d))"

definition all_accepted :: "worker \<Rightarrow> db \<Rightarrow> bool" where
  "all_accepted w d \<longleftrightarrow> (\<forall>r\<in>set (outbox d). \<forall>now. \<exists>compact.
     wk_sign w (event_of (wk_issuer w) r) now = Inr compact \<and> wk_send w (ob_resource r) compact = Inr ())"

text \<open>With every event accepted, a run delivers the records it chose and leaves the others.\<close>

definition accept_row :: "worker \<Rightarrow> nat list \<Rightarrow> time \<Rightarrow> outbox_row \<Rightarrow> outbox_row" where
  "accept_row w ids now r =
     (if ob_id r \<in> set ids then
        let q = r\<lparr>ob_locked := Some now, ob_attempts := ob_attempts r + 1\<rparr> in
        q\<lparr>ob_delivered := Some (wk_clock w q), ob_locked := None, ob_error := None\<rparr>
      else r)"

lemma accept_row_simps [simp]:
  "ob_id (accept_row w ids now r) = ob_id r" "ob_resource (accept_row w ids now r) = ob_resource r"
  "event_of i (accept_row w ids now r) = event_of i r"
  by (simp_all add: accept_row_def Let_def event_of_def)

lemma accepted_code:
  "all_accepted w d \<Longrightarrow> r \<in> set (outbox d) \<Longrightarrow> event_of (wk_issuer w) q = event_of (wk_issuer w) r \<Longrightarrow>
     ob_resource q = ob_resource r \<Longrightarrow> attempt_code w q = None"
proof -
  assume "all_accepted w d" "r \<in> set (outbox d)"
  then obtain compact where "wk_sign w (event_of (wk_issuer w) r) (wk_clock w q) = Inr compact"
    "wk_send w (ob_resource r) compact = Inr ()" unfolding all_accepted_def by blast
  moreover assume "event_of (wk_issuer w) q = event_of (wk_issuer w) r" "ob_resource q = ob_resource r"
  ultimately show ?thesis by (simp add: attempt_code_def)
qed

lemma run_accepts:
  assumes pk: "has_pk ob_id (outbox d)" and all: "all_accepted w d"
  shows "outbox (snd (runOnce w limit now d)) =
    map (accept_row w (claim_candidates (clamp 1 100 limit) now (outbox d)) now) (outbox d)"
proof -
  let ?chosen = "claim_candidates (clamp 1 100 limit) now (outbox d)"
  let ?lock = "\<lambda>r. r\<lparr>ob_locked := Some now, ob_attempts := ob_attempts r + 1\<rparr>"
  obtain records d1 where claim: "claim limit now d = (Inr records, d1)" by (simp add: claim_eq Let_def)
  then have d1: "outbox d1 = map (\<lambda>r. if ob_id r \<in> set ?chosen then ?lock r else r) (outbox d)"
    and records: "records = filter (\<lambda>r. ob_id r \<in> set ?chosen) (outbox d1)"
    by (auto simp: claim_eq Let_def sql_update_def)
  have "outbox (snd (runOnce w limit now d)) =
      map (\<lambda>q. if q \<in> set records then settle_row w q q else q) (outbox d1)"
    unfolding worker_run_settles [OF pk claim] by simp
  also have "\<dots> = map (accept_row w ?chosen now) (outbox d)"
    unfolding d1 map_map comp_def
  proof (rule map_cong [OF refl])
    fix r assume r: "r \<in> set (outbox d)"
    let ?q = "if ob_id r \<in> set ?chosen then ?lock r else r"
    have q: "?q \<in> set (outbox d1)" using r by (auto simp: d1)
    have "attempt_code w ?q = None"
      by (rule accepted_code [OF all r]) (simp_all add: event_of_def)
    then have "settle_row w ?q ?q = ?q\<lparr>ob_delivered := Some (wk_clock w ?q), ob_locked := None, ob_error := None\<rparr>"
      by (simp add: settle_row_def)
    moreover have "?q \<in> set records \<longleftrightarrow> ob_id r \<in> set ?chosen" using q by (simp add: records)
    ultimately show "(if ?q \<in> set records then settle_row w ?q ?q else ?q) = accept_row w ?chosen now r"
      by (cases "ob_id r \<in> set ?chosen") (simp_all add: accept_row_def Let_def)
  qed
  finally show ?thesis .
qed

definition pending :: "time \<Rightarrow> db \<Rightarrow> nat" where
  "pending now d = length (filter (claimable now) (outbox d))"

lemma filter_map_less:
  "(\<And>r. P (f r) \<Longrightarrow> P r) \<Longrightarrow> \<exists>r\<in>set t. P r \<and> \<not> P (f r) \<Longrightarrow>
     length (filter P (map f t)) < length (filter P t)"
proof (induction t)
  case (Cons r t)
  have le: "length (filter P (map f t)) \<le> length (filter P t)"
    using Cons.prems(1) by (induction t) (auto intro: le_SucI)
  from Cons le show ?case by (cases "P (f r)") (auto simp: less_Suc_eq_le)
qed simp

lemma accept_unclaimable: "claimable n (accept_row w ids now r) \<Longrightarrow> ob_id r \<notin> set ids \<and> claimable n r"
  by (auto simp: accept_row_def claimable_def Let_def split: if_splits)

lemma run_progress:
  assumes pk: "has_pk ob_id (outbox d)" and all: "all_accepted w d" and "pending now d \<le> Suc n"
  shows "pending now (snd (runOnce w limit now d)) \<le> n"
proof -
  let ?chosen = "claim_candidates (clamp 1 100 limit) now (outbox d)"
  note run = run_accepts [OF pk all, of limit now]
  show ?thesis
  proof (cases "filter (claimable now) (outbox d)")
    case Nil
    then have "?chosen = []" by (simp add: claim_candidates_def)
    then have "outbox (snd (runOnce w limit now d)) = outbox d"
      unfolding run by (simp add: accept_row_def [abs_def])
    with Nil show ?thesis by (simp add: pending_def)
  next
    case (Cons r0 rest)
    let ?due = "sort (map ob_id (filter (claimable now) (outbox d)))"
    have "?due \<noteq> []" "1 \<le> nat (clamp 1 100 limit)" using Cons clamp_bounds [of 1 100 limit] by auto
    then obtain i where i: "i \<in> set ?chosen"
      by (cases ?due; cases "nat (clamp 1 100 limit)") (auto simp: claim_candidates_def)
    then obtain r where r: "r \<in> set (outbox d)" "claimable now r" "ob_id r = i"
      by (auto simp: claim_candidates_def dest!: in_set_takeD)
    have "pending now (snd (runOnce w limit now d)) < pending now d"
      unfolding pending_def run
      by (rule filter_map_less) (use r i in \<open>auto dest: accept_unclaimable\<close>)
    with assms(3) show ?thesis by simp
  qed
qed

lemma run_keeps:
  assumes "has_pk ob_id (outbox d)" and "all_accepted w d"
  shows "has_pk ob_id (outbox (snd (runOnce w limit now d))) \<and> all_accepted w (snd (runOnce w limit now d))"
  using assms(1) assms(2) [unfolded all_accepted_def] unfolding all_accepted_def run_accepts [OF assms]
  by (simp add: has_pk_def comp_def)

lemma drain_delivers:
  assumes "has_pk ob_id (outbox d)" and "all_accepted w d" and "pending now d \<le> n"
    and "r \<in> set (outbox d)" and "claimable now r \<or> ob_delivered r \<noteq> None"
  shows "\<exists>q\<in>set (outbox (drain w limit now n d)). ob_id q = ob_id r \<and> ob_delivered q \<noteq> None"
  using assms
proof (induction n arbitrary: d r)
  case 0
  then have "\<not> claimable now r" by (auto simp: pending_def filter_empty_conv)
  with 0 show ?case by auto
next
  case (Suc n)
  let ?chosen = "claim_candidates (clamp 1 100 limit) now (outbox d)"
  let ?r = "accept_row w ?chosen now r"
  have member: "?r \<in> set (outbox (snd (runOnce w limit now d)))"
    unfolding run_accepts [OF Suc.prems(1,2)] using Suc.prems(4) by simp
  have "claimable now ?r \<or> ob_delivered ?r \<noteq> None"
    using Suc.prems(5) by (auto simp: accept_row_def Let_def)
  with Suc.IH [OF _ _ run_progress [OF Suc.prems(1-3)] member] run_keeps [OF Suc.prems(1,2)]
  show ?case by simp
qed

text \<open>
  C27. While signing and delivery work, the outbox drains: after as many runs as events were due, every
  one of them has been delivered, whatever the bound on a run.
\<close>

theorem worker_drains:
  assumes "has_pk ob_id (outbox d)" and "all_accepted w d" and "r \<in> set (outbox d)" and "claimable now r"
  shows "\<exists>q\<in>set (outbox (drain w limit now (pending now d) d)). ob_id q = ob_id r \<and> ob_delivered q \<noteq> None"
  using drain_delivers [OF assms(1,2) order_refl assms(3)] assms(4) by blast

text \<open>
  Events of one site can overtake one another: when a run claims two events and only the later one
  is accepted, the later is marked delivered while the earlier waits for its next attempt.
\<close>

theorem event_overtaken:
  assumes "has_pk ob_id (outbox d)" and "claim limit now d = (Inr records, d1)"
    and "r1 \<in> set records" "r2 \<in> set records" and "at_site t i r1" "at_site t i r2"
    and "ob_sequence r1 < ob_sequence r2" and "attempt_code w r1 = Some code" "attempt_code w r2 = None"
  shows "\<exists>q1\<in>set (outbox (snd (runOnce w limit now d))). \<exists>q2\<in>set (outbox (snd (runOnce w limit now d))).
    at_site t i q1 \<and> at_site t i q2 \<and> ob_sequence q1 < ob_sequence q2 \<and>
    ob_delivered q1 = None \<and> ob_delivered q2 \<noteq> None"
proof -
  have in_d1: "q \<in> set (outbox d1)" if "q \<in> set records" for q
    using that assms(2) by (auto simp: claim_eq Let_def)
  have final: "settle_row w q q \<in> set (outbox (snd (runOnce w limit now d)))" if "q \<in> set records" for q
    unfolding worker_run_settles [OF assms(1,2)] using in_d1 [OF that] that by force
  have "ob_delivered r1 = None" using claim_records [OF assms(1,2)] assms(3) by blast
  then show ?thesis
    using assms(5-9) by (intro bexI [OF _ final [OF assms(3)]] bexI [OF _ final [OF assms(4)]])
      (simp add: settle_row_def at_site_def)
qed

section \<open>Destinations\<close>

text \<open>
  The worker contacts public addresses only: how a request to any other address would be answered
  has no influence on a delivery.
\<close>

theorem worker_contacts_public_only:
  assumes "\<And>endpoint body address. isPublicAddress n address \<Longrightarrow>
     request endpoint body address = request' endpoint body address"
  shows "sendRevocation rt n resolver request resource compact =
    sendRevocation rt n resolver request' resource compact"
  unfolding sendRevocation_def
  by (auto simp: assms and_then_def split: sum.split prod.split list.split)

text \<open>
  A name that does not resolve, or resolves to a forbidden address, is recorded as a network
  failure: the worker's own codes for the two are never stored with the resolver it uses.
\<close>

theorem resolution_failure_recorded_as_network:
  assumes "utf8_length compact \<le> 16 * 1024" and "revocationEndpoint rt resource = Inr (hostname, endpoint)"
    and "resolvePublicAddresses n resolve4 resolve6 hostname = Inl e"
  shows "\<exists>err. sendRevocation rt n (default_resolver n resolve4 resolve6) request resource compact = Inl err \<and>
    revocationErrorCode err = ''network.failed''"
proof -
  have "e = Diag StageDestination DestinationUnsafe \<or> e = Diag StageDns DnsFailed"
    using assms(3) by (auto simp: resolvePublicAddresses_def diagnostic_def Let_def split: if_splits)
  then have "revocationErrorCode (thrown_by e) = ''network.failed''"
    by (auto simp: thrown_by_def revocationErrorCode_def error_code_of_def tlsErrorCodes_def)
  with assms show ?thesis by (simp add: sendRevocation_def default_resolver_def)
qed

section \<open>Examples\<close>

text \<open>Two events of one site, a worker with the signer of key custody, and two deliveries.\<close>

definition site_event :: "nat \<Rightarrow> outbox_row" where
  "site_event n = \<lparr>ob_id = n, ob_tenant = replicate 36 CHR ''1'', ob_site = ''site-0001'',
     ob_resource = ''https://a.example/wp-json/wp-auto/mcp'', ob_sequence = n, ob_type = EvGrant,
     ob_grant = Some (''grant-000'' @ show_nat n), ob_key = None, ob_reason = ''grant_revoked'', ob_not_before = 0,
     ob_attempts = 0, ob_locked = None, ob_delivered = None, ob_error = None\<rparr>"

definition worker_db :: db where
  "worker_db = empty_db\<lparr>outbox := [site_event 1, site_event 2]\<rparr>"

definition signing_crypto :: crypto where
  "signing_crypto = sample_crypto\<lparr>signJwt := (\<lambda>h p k. Some (json_stringify (JObj p)))\<rparr>"

definition sample_worker :: "(string \<Rightarrow> string \<Rightarrow> delivery_error + unit) \<Rightarrow> worker" where
  "sample_worker send = \<lparr>wk_issuer = ''https://auth.example'',
     wk_sign = signRevocation sample_runtime signing_crypto sample_holder, wk_send = send, wk_clock = (\<lambda>r. 2000)\<rparr>"

definition sample_claim :: "outbox_row list outcome" where
  "sample_claim = claim 20 1000 worker_db"

lemma sample_claim_ok:
  "claim 20 1000 worker_db = (Inr (projr (fst sample_claim)), snd sample_claim)"
proof -
  have "is_ok (fst sample_claim)" by (simp add: sample_claim_def claim_eq Let_def)
  from ok_outcome [OF this, unfolded sample_claim_def] show ?thesis by (simp add: sample_claim_def)
qed

lemma worker_db_pk: "has_pk ob_id (outbox worker_db)"
  by (simp add: worker_db_def has_pk_def site_event_def)

lemma site_event_signs: "n \<in> {1, 2} \<Longrightarrow> \<exists>compact. wk_sign (sample_worker send)
     (event_of (wk_issuer (sample_worker send)) (site_event n)) now = Inr compact"
proof -
  assume n: "n \<in> {1, 2}"
  have "RevocationEventSchema sample_runtime (event_of ''https://auth.example'' (site_event 1))"
    and "RevocationEventSchema sample_runtime (event_of ''https://auth.example'' (site_event 2))" by code_simp+
  with n show ?thesis by (auto simp: sample_worker_def signRevocation_def signing_crypto_def)
qed

theorem worker_run_settles_witness:
  "fst (runOnce (sample_worker (\<lambda>r c. Inl (DeliveryFailure ''http.503''))) 20 1000 worker_db) =
    Inr (length (filter (\<lambda>r. attempt_code (sample_worker (\<lambda>r c. Inl (DeliveryFailure ''http.503''))) r = None)
           (projr (fst sample_claim))),
         length (filter (\<lambda>r. attempt_code (sample_worker (\<lambda>r c. Inl (DeliveryFailure ''http.503''))) r \<noteq> None)
           (projr (fst sample_claim))))"
  unfolding worker_run_settles [OF worker_db_pk sample_claim_ok] by simp

theorem worker_drains_witness:
  "\<exists>q\<in>set (outbox (drain (sample_worker (\<lambda>r c. Inr ())) 1 1000 (pending 1000 worker_db) worker_db)).
     ob_id q = ob_id (site_event 2) \<and> ob_delivered q \<noteq> None"
proof (rule worker_drains [OF worker_db_pk])
  show "all_accepted (sample_worker (\<lambda>r c. Inr ())) worker_db"
    using site_event_signs by (auto simp: all_accepted_def worker_db_def sample_worker_def)
  show "site_event 2 \<in> set (outbox worker_db)" by (simp add: worker_db_def)
  show "claimable 1000 (site_event 2)" by (simp add: claimable_def site_event_def)
qed

text \<open>A signer that fails for the first event only.\<close>

definition partial_worker :: worker where
  "partial_worker = (sample_worker (\<lambda>r c. Inr ()))\<lparr>wk_sign := (\<lambda>e now.
     if rv_sequence e = 1 then Inl ''key_custody_unavailable'' else Inr ''jws'')\<rparr>"

definition claimed_event :: "nat \<Rightarrow> outbox_row" where
  "claimed_event n = (site_event n)\<lparr>ob_locked := Some 1000, ob_attempts := 1\<rparr>"

lemma claimed_events: "n \<in> {1, 2} \<Longrightarrow> claimed_event n \<in> set (projr (fst sample_claim))"
proof -
  have "ob_id ` set (projr (fst sample_claim)) = {1, 2}" by code_simp
  then have "{1, 2} \<subseteq> set (map ob_id (projr (fst sample_claim)))" by simp
  moreover have "projr (fst sample_claim) = [claimed_event 1, claimed_event 2]"
  proof -
    have "claim_candidates (clamp 1 100 20) 1000 (outbox worker_db) = [1, 2]" by code_simp
    then show ?thesis
      by (simp add: sample_claim_def claim_eq Let_def worker_db_def site_event_def claimed_event_def)
  qed
  ultimately show "n \<in> {1, 2} \<Longrightarrow> claimed_event n \<in> set (projr (fst sample_claim))" by auto
qed

theorem event_overtaken_witness:
  "\<exists>q1\<in>set (outbox (snd (runOnce partial_worker 20 1000 worker_db))).
   \<exists>q2\<in>set (outbox (snd (runOnce partial_worker 20 1000 worker_db))).
    at_site (replicate 36 CHR ''1'') ''site-0001'' q1 \<and> at_site (replicate 36 CHR ''1'') ''site-0001'' q2 \<and>
    ob_sequence q1 < ob_sequence q2 \<and> ob_delivered q1 = None \<and> ob_delivered q2 \<noteq> None"
proof (rule event_overtaken [OF worker_db_pk sample_claim_ok])
  show "claimed_event 1 \<in> set (projr (fst sample_claim))" "claimed_event 2 \<in> set (projr (fst sample_claim))"
    by (rule claimed_events, simp)+
  show "attempt_code partial_worker (claimed_event 1) = Some ''signing.failed''"
    "attempt_code partial_worker (claimed_event 2) = None"
    by (simp_all add: attempt_code_def partial_worker_def sample_worker_def event_of_def claimed_event_def site_event_def)
qed (simp_all add: at_site_def claimed_event_def site_event_def)

theorem worker_contacts_public_only_witness:
  "sendRevocation sample_runtime sample_net (\<lambda>h. Inr [''10.0.0.1'']) (\<lambda>e b a. Inl NoError)
     ''https://a.example/wp-json/wp-auto/mcp'' ''jws'' =
   sendRevocation sample_runtime sample_net (\<lambda>h. Inr [''10.0.0.1''])
     (\<lambda>e b a. if isPublicAddress sample_net a then Inl NoError else Inr ())
     ''https://a.example/wp-json/wp-auto/mcp'' ''jws''"
  by (rule worker_contacts_public_only) simp

theorem resolution_failure_recorded_as_network_witness:
  "\<exists>err. sendRevocation sample_runtime sample_net (default_resolver sample_net (\<lambda>h. None) (\<lambda>h. None))
      (\<lambda>e b a. Inr ()) ''https://a.example/wp-json/wp-auto/mcp'' ''jws'' = Inl err \<and>
    revocationErrorCode err = ''network.failed''"
proof (rule resolution_failure_recorded_as_network)
  show "revocationEndpoint sample_runtime ''https://a.example/wp-json/wp-auto/mcp'' =
      Inr (''a.example'', ''https://a.example/wp-json/wp-auto/v1/revocations'')" by code_simp
  show "utf8_length ''jws'' \<le> 16 * 1024" by code_simp
  show "resolvePublicAddresses sample_net (\<lambda>h. None) (\<lambda>h. None) ''a.example'' =
      Inl (Diag StageDns DnsFailed)"
    by code_simp
qed

end
