(* ===== verification/Otp_Quota.thy ===== *)
theory Otp_Quota
  imports Console_Auth "HOL-Library.Multiset"
begin

text \<open>
  The send quota of email codes: \<open>PostgresOtpSendQuota\<close> over the table of migration 015.  Every
  method runs in one statement or under one advisory lock, so it is one step here; the clock of
  the database is an argument, in milliseconds.
\<close>

section \<open>Limits\<close>

record otp_limits =
  ol_recipient_hour :: int
  ol_recipient_day :: int
  ol_global_day :: int

definition DEFAULT_OTP_SEND_LIMITS :: otp_limits where
  "DEFAULT_OTP_SEND_LIMITS =
     \<lparr>ol_recipient_hour = 3, ol_recipient_day = 6, ol_global_day = 100\<rparr>"

text \<open>The limits are integers here, so the test \<open>Number.isInteger\<close> has no branch.\<close>

definition validateOtpSendLimits :: "otp_limits \<Rightarrow> otp_limits result" where
  "validateOtpSendLimits limits =
     (if list_ex (\<lambda>(value, max). value < 1 \<or> value > max)
          [(ol_recipient_hour limits, 20), (ol_recipient_day limits, 100), (ol_global_day limits, 10000)]
      then Inl ''otp_send_limits_invalid''
      else if ol_recipient_day limits < ol_recipient_hour limits then Inl ''otp_send_limits_invalid''
      else Inr limits)"

record otp_quota =
  oq_key :: bytes
  oq_limits :: otp_limits

definition PostgresOtpSendQuota :: "bytes \<Rightarrow> otp_limits \<Rightarrow> otp_quota result" where
  "PostgresOtpSendQuota key limits =
     (if length key \<noteq> 32 then Inl ''otp_send_key_invalid''
      else and_then (validateOtpSendLimits limits) (\<lambda>l. Inr \<lparr>oq_key = key, oq_limits = l\<rparr>))"

section \<open>Reservations\<close>

datatype otp_dimension = RecipientHour | RecipientDay | GlobalDay
datatype otp_reservation = Allowed string | Refused otp_dimension int

definition hour :: time where "hour = 3600000"

definition otp_recipient_of :: "runtime \<Rightarrow> otp_quota \<Rightarrow> string \<Rightarrow> bytes" where
  "otp_recipient_of rt q email =
     hmac_sha256 rt (oq_key q) (''wepuu:otp-send:v1'' @ [CHR 0x00] @ email)"

definition otp_window :: "(otp_row \<Rightarrow> bool) \<Rightarrow> time \<Rightarrow> time \<Rightarrow> otp_row list \<Rightarrow> time list" where
  "otp_window P w now t =
     map otp_reserved (sort_key otp_reserved (filter (\<lambda>r. P r \<and> otp_reserved r > now - w) t))"

text \<open>The three rules: the dimension, the instants that count, the limit and the window.\<close>

type_synonym otp_rule = "otp_dimension \<times> time list \<times> int \<times> time"

definition otp_rules :: "otp_limits \<Rightarrow> bytes \<Rightarrow> time \<Rightarrow> otp_row list \<Rightarrow> otp_rule list" where
  "otp_rules l recipient now t =
     (let mine = (\<lambda>r. otp_recipient r = recipient) in
      [(RecipientHour, otp_window mine hour now t, ol_recipient_hour l, hour),
       (RecipientDay, otp_window mine one_day now t, ol_recipient_day l, one_day),
       (GlobalDay, otp_window (\<lambda>r. True) one_day now t, ol_global_day l, one_day)])"

definition ceil_seconds :: "time \<Rightarrow> int" where
  "ceil_seconds ms = - ((- ms) div 1000)"

definition retry_after :: "time list \<Rightarrow> int \<Rightarrow> time \<Rightarrow> time \<Rightarrow> int" where
  "retry_after ts limit w now =
     max 1 (ceil_seconds (ts ! (length ts - nat limit) + w - now))"

text \<open>The longest wait wins; the first rule wins a tie.\<close>

fun longer :: "(otp_dimension \<times> int) option \<Rightarrow> otp_dimension \<times> int \<Rightarrow> otp_dimension \<times> int" where
  "longer None x = x"
| "longer (Some old) x = (if snd x > snd old then x else old)"

fun deny :: "time \<Rightarrow> otp_rule list \<Rightarrow> (otp_dimension \<times> int) option \<Rightarrow> (otp_dimension \<times> int) option" where
  "deny now [] denied = denied"
| "deny now ((dimension, ts, limit, w) # rules) denied =
     (if int (length ts) < limit then deny now rules denied
      else deny now rules (Some (longer denied (dimension, retry_after ts limit w now))))"

definition otp_row_ok :: "otp_row \<Rightarrow> bool" where
  "otp_row_ok r \<longleftrightarrow> length (otp_recipient r) = 32 \<and>
     (case otp_attempted r of None \<Rightarrow> otp_result r = OtpReserved | Some a \<Rightarrow> a \<ge> otp_reserved r)"

definition purge_otp :: "time \<Rightarrow> otp_row list \<Rightarrow> otp_row list" where
  "purge_otp now t = sql_delete (\<lambda>r. otp_reserved r \<le> now - 48 * hour) t"

text \<open>\<open>id\<close> is the value of \<open>randomUUID\<close>; any failure is rolled back.\<close>

definition reserveOtp ::
  "runtime \<Rightarrow> otp_quota \<Rightarrow> string \<Rightarrow> string \<Rightarrow> time \<Rightarrow> db \<Rightarrow> otp_reservation outcome" where
  "reserveOtp rt q rid email now d =
     (let recipient = otp_recipient_of rt q email; kept = purge_otp now (otp_rows d) in
      case deny now (otp_rules (oq_limits q) recipient now kept) None of
        Some (dimension, seconds) \<Rightarrow> (Inr (Refused dimension seconds), d\<lparr>otp_rows := kept\<rparr>)
      | None \<Rightarrow>
          (case sql_insert_checked otp_row_ok otp_id \<lparr>otp_id = rid, otp_recipient = recipient,
              otp_reserved = now, otp_attempted = None, otp_result = OtpReserved\<rparr> kept of
             Inl _ \<Rightarrow> (Inl ''otp_send_storage_unavailable'', d)
           | Inr rows \<Rightarrow> (Inr (Allowed rid), d\<lparr>otp_rows := rows\<rparr>)))"

definition otp_claimable :: "string \<Rightarrow> time \<Rightarrow> otp_row \<Rightarrow> bool" where
  "otp_claimable rid now r \<longleftrightarrow> otp_id r = rid \<and> otp_attempted r = None \<and>
     otp_result r = OtpReserved \<and> otp_reserved r > now - 60000"

definition claimOtp :: "string \<Rightarrow> time \<Rightarrow> db \<Rightarrow> bool outcome" where
  "claimOtp rid now d =
     (Inr (row_count (otp_claimable rid now) (otp_rows d) = 1),
      d\<lparr>otp_rows := sql_update (otp_claimable rid now)
         (\<lambda>r. r\<lparr>otp_attempted := Some (max now (otp_reserved r))\<rparr>) (otp_rows d)\<rparr>)"

definition otp_open :: "string \<Rightarrow> otp_row \<Rightarrow> bool" where
  "otp_open rid r \<longleftrightarrow> otp_id r = rid \<and> otp_attempted r \<noteq> None \<and> otp_result r = OtpReserved"

definition finishOtp :: "string \<Rightarrow> otp_outcome \<Rightarrow> db \<Rightarrow> unit outcome" where
  "finishOtp rid result d =
     (if row_count (otp_open rid) (otp_rows d) \<noteq> 1 then Inl ''otp_send_outcome_not_saved'' else Inr (),
      d\<lparr>otp_rows := sql_update (otp_open rid) (\<lambda>r. r\<lparr>otp_result := result\<rparr>) (otp_rows d)\<rparr>)"

text \<open>\<open>writable\<close> is the answer of \<open>has_table_privilege\<close>.\<close>

definition remainingOtp :: "otp_quota \<Rightarrow> bool \<Rightarrow> time \<Rightarrow> db \<Rightarrow> int outcome" where
  "remainingOtp q writable now d =
     (if \<not> writable then Inl ''otp_send_storage_unavailable''
      else Inr (max 0 (ol_global_day (oq_limits q) -
        int (row_count (\<lambda>r. otp_reserved r > now - one_day) (otp_rows d)))), d)"

section \<open>When a rule refuses\<close>

lemma otp_window_length:
  "length (otp_window P w now t) = length (filter (\<lambda>r. P r \<and> otp_reserved r > now - w) t)"
  by (simp add: otp_window_def)

lemma otp_window_sorted [simp]: "sorted (otp_window P w now t)"
  by (simp add: otp_window_def)

lemma longer_ge: "snd x \<le> snd (longer denied x)" "denied = Some y \<Longrightarrow> snd y \<le> snd (longer denied x)"
  by (cases denied; simp)+

lemma longer_cases: "longer denied x = x \<or> denied = Some (longer denied x)"
  by (cases denied) simp_all

lemma deny_grows: "deny now rules (Some x) = Some y \<Longrightarrow> snd x \<le> snd y"
proof (induction now rules "Some x" arbitrary: x rule: deny.induct)
  case (2 now d ts l w rules)
  let ?z = "longer (Some x) (d, retry_after ts l w now)"
  show ?case
  proof (cases "int (length ts) < l")
    case False
    with 2 have "snd ?z \<le> snd y" by simp
    then show ?thesis using longer_ge(2) [of "Some x" x "(d, retry_after ts l w now)"] by simp
  qed (use 2 in simp)
qed simp

lemma deny_not_None: "deny now rules (Some x) \<noteq> None"
  by (induction now rules "Some x" arbitrary: x rule: deny.induct) simp_all

lemma deny_None:
  "deny now rules None = None \<longleftrightarrow> (\<forall>(dim, ts, limit, w)\<in>set rules. int (length ts) < limit)"
  by (induction rules) (auto simp: deny_not_None split: if_splits)

lemma deny_covers:
  "deny now rules denied = Some y \<Longrightarrow> (dim, ts, limit, w) \<in> set rules \<Longrightarrow>
     limit \<le> int (length ts) \<Longrightarrow> retry_after ts limit w now \<le> snd y"
proof (induction now rules denied rule: deny.induct)
  case (2 now d ts' l w' rules denied)
  show ?case
  proof (cases "(d, ts', l, w') = (dim, ts, limit, w)")
    case True
    with 2 have "snd (longer denied (dim, retry_after ts limit w now)) \<le> snd y"
      by (intro deny_grows [of now rules]) simp
    then show ?thesis using longer_ge(1) [of "(dim, retry_after ts limit w now)" denied] by simp
  qed (use 2 in \<open>auto split: if_splits\<close>)
qed simp

lemma deny_attained:
  "deny now rules denied = Some y \<Longrightarrow> denied = Some y \<or>
     (\<exists>ts limit w. (fst y, ts, limit, w) \<in> set rules \<and> limit \<le> int (length ts) \<and>
        snd y = retry_after ts limit w now)"
proof (induction now rules denied rule: deny.induct)
  case (2 now d ts l w rules denied)
  show ?case
  proof (cases "int (length ts) < l")
    case False
    with 2 consider "longer denied (d, retry_after ts l w now) = y" |
        ts' l' w' where "(fst y, ts', l', w') \<in> set rules" "l' \<le> int (length ts')"
        "snd y = retry_after ts' l' w' now"
      by auto
    then show ?thesis
    proof cases
      case 1
      have "denied = Some y \<or> y = (d, retry_after ts l w now)"
        using longer_cases [of denied "(d, retry_after ts l w now)"] by (auto simp: 1)
      with False show ?thesis by fastforce
    qed fastforce
  qed (use 2 in auto)
qed simp

lemma ceil_seconds_bounds: "ms \<le> 1000 * ceil_seconds ms" "1000 * ceil_seconds ms < ms + 1000"
  unfolding ceil_seconds_def using div_mult_mod_eq [of "- ms" 1000] pos_mod_bound [of 1000 "- ms"]
    pos_mod_sign [of 1000 "- ms"] by linarith+

text \<open>The number of entries of a sorted list above a bound, seen from one of its positions.\<close>

lemma sorted_above_few:
  assumes "sorted es" "k < length es" "es ! k \<le> c"
  shows "length (filter (\<lambda>x. c < x) es) < length es - k"
proof -
  have "x \<le> c" if "x \<in> set (take (Suc k) es)" for x
  proof -
    from that assms(2) obtain i where "i \<le> k" "x = es ! i" by (auto simp: in_set_conv_nth less_Suc_eq_le)
    with assms have "x \<le> es ! k" by (simp add: sorted_nth_mono)
    with assms(3) show ?thesis by simp
  qed
  then have "filter (\<lambda>x. c < x) (take (Suc k) es) = []" by (fastforce simp: filter_empty_conv)
  then have "filter (\<lambda>x. c < x) es = filter (\<lambda>x. c < x) (drop (Suc k) es)"
    by (metis append_Nil append_take_drop_id filter_append)
  then have "length (filter (\<lambda>x. c < x) es) \<le> length es - Suc k"
    using length_filter_le [of "\<lambda>x. c < x" "drop (Suc k) es"] by simp
  with assms(2) show ?thesis by simp
qed

lemma sorted_above_many:
  assumes "sorted es" "k < length es" "c < es ! k"
  shows "length es - k \<le> length (filter (\<lambda>x. c < x) es)"
proof -
  have "c < x" if "x \<in> set (drop k es)" for x
  proof -
    from that obtain i where "i < length (drop k es)" "x = drop k es ! i" by (auto simp: in_set_conv_nth)
    then have "es ! k \<le> x" using assms(1) by (simp add: sorted_nth_mono)
    with assms(3) show ?thesis by simp
  qed
  then have "filter (\<lambda>x. c < x) (drop k es) = drop k es" by (simp add: filter_id_conv)
  moreover have "filter (\<lambda>x. c < x) es = filter (\<lambda>x. c < x) (take k es) @ filter (\<lambda>x. c < x) (drop k es)"
    by (metis append_take_drop_id filter_append)
  ultimately show ?thesis by simp
qed

lemma otp_window_later:
  assumes "now \<le> now'"
  shows "otp_window P w now' t = filter (\<lambda>x. now' - w < x) (otp_window P w now t)"
proof -
  have "filter (\<lambda>r. P r \<and> otp_reserved r > now' - w) t =
      filter (\<lambda>r. now' - w < otp_reserved r) (filter (\<lambda>r. P r \<and> otp_reserved r > now - w) t)"
    using assms by (auto intro!: filter_cong)
  then show ?thesis by (simp add: otp_window_def filter_sort filter_map comp_def)
qed

text \<open>With the limit reached, the rule keeps refusing until the release leaves the window.\<close>

lemma release_exact:
  assumes "1 \<le> limit" "limit \<le> int (length (otp_window P w now t))" "now \<le> now'"
  defines "release \<equiv> otp_window P w now t ! (length (otp_window P w now t) - nat limit)"
  shows "int (length (otp_window P w now' t)) < limit \<longleftrightarrow> release + w \<le> now'"
proof -
  let ?es = "otp_window P w now t"
  let ?k = "length ?es - nat limit"
  have k: "?k < length ?es" "int (length ?es - ?k) = limit" using assms(1,2) by linarith+
  have later: "otp_window P w now' t = filter (\<lambda>x. now' - w < x) ?es"
    using assms(3) by (rule otp_window_later)
  show ?thesis
  proof (cases "release + w \<le> now'")
    case True
    then have "?es ! ?k \<le> now' - w" by (simp add: release_def)
    from sorted_above_few [OF otp_window_sorted k(1) this] k(2) True show ?thesis by (simp add: later)
  next
    case False
    then have "now' - w < ?es ! ?k" by (simp add: release_def)
    from sorted_above_many [OF otp_window_sorted k(1) this] k(2) False show ?thesis by (simp add: later)
  qed
qed

lemma otp_window_purge:
  "n \<le> now \<Longrightarrow> w \<le> 48 * hour \<Longrightarrow> otp_window P w now (purge_otp n t) = otp_window P w now t"
  unfolding otp_window_def purge_otp_def sql_delete_def filter_filter
  by (rule arg_cong [where f = "\<lambda>xs. map otp_reserved (sort_key otp_reserved xs)"])
    (auto intro!: filter_cong)

lemma otp_rules_purge: "n \<le> now \<Longrightarrow> otp_rules l h now (purge_otp n t) = otp_rules l h now t"
  by (simp add: otp_rules_def otp_window_purge hour_def one_day_def Let_def)

lemma quota_limits:
  assumes "PostgresOtpSendQuota key limits = Inr q"
  shows "oq_key q = key" "1 \<le> ol_recipient_hour (oq_limits q)" "1 \<le> ol_recipient_day (oq_limits q)"
    "1 \<le> ol_global_day (oq_limits q)"
  using assms by (auto simp: PostgresOtpSendQuota_def validateOtpSendLimits_def succ_simps not_less)

lemma otp_rules_set:
  "rule \<in> set (otp_rules l h now t) \<longleftrightarrow>
     (\<exists>(dim, P, limit, w)\<in>{(RecipientHour, \<lambda>r. otp_recipient r = h, ol_recipient_hour l, hour),
        (RecipientDay, \<lambda>r. otp_recipient r = h, ol_recipient_day l, one_day),
        (GlobalDay, \<lambda>r. True, ol_global_day l, one_day)}. rule = (dim, otp_window P w now t, limit, w))"
  by (auto simp: otp_rules_def Let_def)

lemma reserve_refused_iff:
  "fst (reserveOtp rt q rid email now d) = Inr (Refused dim s) \<longleftrightarrow>
     deny now (otp_rules (oq_limits q) (otp_recipient_of rt q email) now (otp_rows d)) None = Some (dim, s)"
  by (auto simp: reserveOtp_def Let_def otp_rules_purge split: option.split sum.split)

lemma reserve_refused_db:
  "reserveOtp rt q rid email now d = (Inr (Refused dim s), d') \<Longrightarrow>
     d' = d\<lparr>otp_rows := purge_otp now (otp_rows d)\<rparr>"
  by (auto simp: reserveOtp_def Let_def split: option.splits sum.splits)

text \<open>At the time to wait every window has room, and until a second before it one of them has none.\<close>

lemma windows_have_room:
  assumes quota: "PostgresOtpSendQuota key limits = Inr q"
    and deny: "deny now (otp_rules (oq_limits q) h now t) None = Some (dim, s)" and s1: "1 \<le> s"
  shows "deny (now + 1000 * s) (otp_rules (oq_limits q) h (now + 1000 * s) t) None = None"
proof -
  let ?rules = "\<lambda>n. otp_rules (oq_limits q) h n t"
  have "int (length ts') < limit'" if "(dim', ts', limit', w') \<in> set (?rules (now + 1000 * s))" for dim' ts' limit' w'
  proof -
    from that obtain P where ts': "ts' = otp_window P w' (now + 1000 * s) t"
      and r: "(dim', otp_window P w' now t, limit', w') \<in> set (?rules now)" and "1 \<le> limit'"
      using quota_limits [OF quota] by (fastforce simp: otp_rules_set)
    show ?thesis
    proof (cases "int (length (otp_window P w' now t)) < limit'")
      case True
      have "length ts' \<le> length (otp_window P w' now t)"
        unfolding ts' using s1 by (subst otp_window_later [of now]) simp_all
      with True show ?thesis by simp
    next
      case False
      with deny_covers [OF deny r] have "retry_after (otp_window P w' now t) limit' w' now \<le> s" by simp
      with ceil_seconds_bounds(1) [of "otp_window P w' now t ! (length (otp_window P w' now t) - nat limit') + w' - now"]
      have "otp_window P w' now t ! (length (otp_window P w' now t) - nat limit') + w' \<le> now + 1000 * s"
        by (simp add: retry_after_def)
      with release_exact [of limit' P w' now t "now + 1000 * s"] False \<open>1 \<le> limit'\<close> s1
      show ?thesis by (simp add: ts')
    qed
  qed
  then show ?thesis unfolding deny_None by auto
qed

lemma windows_stay_full:
  assumes quota: "PostgresOtpSendQuota key limits = Inr q"
    and deny: "deny now (otp_rules (oq_limits q) h now t) None = Some (dim, s)"
    and e: "0 \<le> e" "e \<le> 1000 * (s - 1)"
  shows "deny (now + e) (otp_rules (oq_limits q) h (now + e) t) None \<noteq> None"
proof -
  from deny_attained [OF deny] obtain ts limit w where at: "(dim, ts, limit, w) \<in> set (otp_rules (oq_limits q) h now t)"
    and full: "limit \<le> int (length ts)" and s: "s = retry_after ts limit w now" by auto
  from at obtain P where ts: "ts = otp_window P w now t" and "1 \<le> limit"
    and r: "(dim, otp_window P w (now + e) t, limit, w) \<in> set (otp_rules (oq_limits q) h (now + e) t)"
    using quota_limits [OF quota] by (fastforce simp: otp_rules_set)
  have "ts ! (length ts - nat limit) \<in> set ts" using full \<open>1 \<le> limit\<close> by (intro nth_mem) simp
  then have "now < ts ! (length ts - nat limit) + w" by (auto simp: ts otp_window_def)
  with e ceil_seconds_bounds(2) [of "ts ! (length ts - nat limit) + w - now"]
  have "now + e < ts ! (length ts - nat limit) + w"
    by (simp add: s retry_after_def max_def split: if_splits)
  with release_exact [of limit P w now t "now + e"] full \<open>1 \<le> limit\<close> e
  have "\<not> int (length (otp_window P w (now + e) t)) < limit" by (simp add: ts)
  with r show ?thesis unfolding deny_None by blast
qed

text \<open>
  C30. A refusal names the exact wait: with no other reservation in between, the same recipient is
  refused at every instant up to one second before the wait is over and allowed when it is over.
\<close>

theorem otp_retry_after_exact:
  assumes quota: "PostgresOtpSendQuota key limits = Inr q"
    and refused: "reserveOtp rt q rid email now d = (Inr (Refused dim s), d')"
    and digest: "\<And>m. length (hmac_sha256 rt key m) = 32" and fresh: "rid' \<notin> otp_id ` set (otp_rows d)"
  shows "1 \<le> s \<and> fst (reserveOtp rt q rid' email (now + 1000 * s) d') = Inr (Allowed rid') \<and>
    (0 \<le> e \<and> e \<le> 1000 * (s - 1) \<longrightarrow>
       (\<exists>dim' s'. fst (reserveOtp rt q rid' email (now + e) d') = Inr (Refused dim' s')))"
proof -
  let ?rules = "\<lambda>n. otp_rules (oq_limits q) (otp_recipient_of rt q email) n (otp_rows d)"
  have deny: "deny now (?rules now) None = Some (dim, s)"
    using refused reserve_refused_iff [of rt q rid email now d dim s] by simp
  have d': "d' = d\<lparr>otp_rows := purge_otp now (otp_rows d)\<rparr>" using refused by (rule reserve_refused_db)
  have s1: "1 \<le> s" using deny_attained [OF deny] by (auto simp: retry_after_def)
  have "rid' \<notin> otp_id ` set (purge_otp (now + 1000 * s) (purge_otp now (otp_rows d)))"
    using fresh by (auto simp: purge_otp_def)
  with windows_have_room [OF quota deny s1]
  have "fst (reserveOtp rt q rid' email (now + 1000 * s) d') = Inr (Allowed rid')"
    using s1 digest by (simp add: reserveOtp_def d' otp_rules_purge sql_insert_checked_def sql_insert_def
      otp_row_ok_def otp_recipient_of_def quota_limits(1) [OF quota])
  moreover have "\<exists>dim' s'. fst (reserveOtp rt q rid' email (now + e) d') = Inr (Refused dim' s')"
    if e: "0 \<le> e" "e \<le> 1000 * (s - 1)"
    using windows_stay_full [OF quota deny e] e(1) by (auto simp: reserve_refused_iff d' otp_rules_purge)
  ultimately show ?thesis using s1 by blast
qed

definition sample_limits :: otp_limits where
  "sample_limits = \<lparr>ol_recipient_hour = 1, ol_recipient_day = 2, ol_global_day = 5\<rparr>"

definition sample_quota :: otp_quota where
  "sample_quota = \<lparr>oq_key = pad32 ''k'', oq_limits = sample_limits\<rparr>"

definition sample_otp_db :: db where
  "sample_otp_db = empty_db\<lparr>otp_rows := [\<lparr>otp_id = ''r1'', otp_recipient = otp_recipient_of sample_runtime
     sample_quota ''a@b.example'', otp_reserved = 1000, otp_attempted = None, otp_result = OtpReserved\<rparr>]\<rparr>"

lemma sample_quota_ok: "PostgresOtpSendQuota (pad32 ''k'') sample_limits = Inr sample_quota"
  by code_simp

theorem otp_retry_after_exact_witness:
  "fst (reserveOtp sample_runtime sample_quota ''r2'' ''a@b.example'' (2500 + 1000 * 3599)
     (snd (reserveOtp sample_runtime sample_quota ''r2'' ''a@b.example'' 2500 sample_otp_db))) = Inr (Allowed ''r2'')"
proof -
  have "fst (reserveOtp sample_runtime sample_quota ''r2'' ''a@b.example'' 2500 sample_otp_db) =
      Inr (Refused RecipientHour 3599)" by code_simp
  then have refused: "reserveOtp sample_runtime sample_quota ''r2'' ''a@b.example'' 2500 sample_otp_db =
      (Inr (Refused RecipientHour 3599),
       snd (reserveOtp sample_runtime sample_quota ''r2'' ''a@b.example'' 2500 sample_otp_db))"
    by (simp add: prod_eq_iff)
  have "length (hmac_sha256 sample_runtime (pad32 ''k'') m) = 32" for m
    by (simp add: sample_runtime_def pad32_def)
  moreover have "''r2'' \<notin> otp_id ` set (otp_rows sample_otp_db)" by (simp add: sample_otp_db_def)
  ultimately show ?thesis
    using otp_retry_after_exact [OF sample_quota_ok refused] by blast
qed

section \<open>Runs\<close>

text \<open>
  A run of the quota: each operation comes some time after the one before, and the log keeps the
  recipient and the instant of every reservation that was allowed, purged or not.
\<close>

datatype otp_op =
    OtpReserve string string nat
  | OtpClaim string nat
  | OtpFinish string otp_outcome

record otp_run =
  or_clock :: time
  or_db :: db
  or_log :: "(bytes \<times> time) list"

definition logged :: "otp_reservation result \<Rightarrow> bytes \<Rightarrow> time \<Rightarrow> (bytes \<times> time) list" where
  "logged r recipient now = (case r of Inr (Allowed rid) \<Rightarrow> [(recipient, now)] | _ \<Rightarrow> [])"

fun otp_step :: "runtime \<Rightarrow> otp_quota \<Rightarrow> otp_op \<Rightarrow> otp_run \<Rightarrow> otp_run" where
  "otp_step rt q (OtpReserve rid email elapsed) st =
     (let now = or_clock st + int elapsed; r = reserveOtp rt q rid email now (or_db st) in
      \<lparr>or_clock = now, or_db = snd r,
       or_log = or_log st @ logged (fst r) (otp_recipient_of rt q email) now\<rparr>)"
| "otp_step rt q (OtpClaim rid elapsed) st =
     (let now = or_clock st + int elapsed in
      st\<lparr>or_clock := now, or_db := snd (claimOtp rid now (or_db st))\<rparr>)"
| "otp_step rt q (OtpFinish rid result) st = st\<lparr>or_db := snd (finishOtp rid result (or_db st))\<rparr>"

definition sent_between :: "(bytes \<Rightarrow> bool) \<Rightarrow> time \<Rightarrow> time \<Rightarrow> (bytes \<times> time) list \<Rightarrow> nat" where
  "sent_between P lo hi log = length (filter (\<lambda>(h, x). P h \<and> lo < x \<and> x \<le> hi) log)"

definition sent :: "otp_row \<Rightarrow> bytes \<times> time" where
  "sent r = (otp_recipient r, otp_reserved r)"

definition recent :: "time \<Rightarrow> (bytes \<times> time) list \<Rightarrow> (bytes \<times> time) list" where
  "recent now log = filter (\<lambda>e. snd e > now - one_day) log"

definition within_limits :: "otp_limits \<Rightarrow> (bytes \<times> time) list \<Rightarrow> bool" where
  "within_limits l log \<longleftrightarrow> (\<forall>h t.
     int (sent_between (\<lambda>h'. h' = h) (t - hour) t log) \<le> ol_recipient_hour l \<and>
     int (sent_between (\<lambda>h'. h' = h) (t - one_day) t log) \<le> ol_recipient_day l \<and>
     int (sent_between (\<lambda>h'. True) (t - one_day) t log) \<le> ol_global_day l)"

definition otp_invar :: "otp_limits \<Rightarrow> otp_run \<Rightarrow> bool" where
  "otp_invar l st \<longleftrightarrow> (\<forall>e\<in>set (or_log st). snd e \<le> or_clock st) \<and>
     recent (or_clock st) (map sent (otp_rows (or_db st))) = recent (or_clock st) (or_log st) \<and>
     within_limits l (or_log st)"

lemma recent_later: "n \<le> m \<Longrightarrow> recent m (recent n log) = recent m log"
  by (auto simp: recent_def intro!: filter_cong)

lemma recent_eq_later:
  assumes "recent n xs = recent n ys" and "n \<le> m"
  shows "recent m xs = recent m ys"
proof -
  have "recent m (recent n xs) = recent m (recent n ys)" by (simp add: assms(1))
  then show ?thesis by (simp only: recent_later [OF assms(2)])
qed

lemma recent_append [simp]: "recent now (xs @ ys) = recent now xs @ recent now ys"
  by (simp add: recent_def)

lemma recent_purge: "recent now (map sent (purge_otp now t)) = recent now (map sent t)"
  by (auto simp: recent_def purge_otp_def sql_delete_def sent_def filter_map comp_def hour_def
    one_day_def intro!: filter_cong arg_cong [where f = "map sent"])

lemma map_sent_update:
  "(\<And>r. sent (f r) = sent r) \<Longrightarrow> map sent (sql_update P f t) = map sent t"
  by (rule map_key_update)

text \<open>What a rule counts is what the log holds in its window.\<close>

lemma otp_window_count:
  assumes "recent now (map sent t) = recent now log" "\<forall>e\<in>set log. snd e \<le> now" "w \<le> one_day"
  shows "length (otp_window (\<lambda>r. P (otp_recipient r)) w now t) = sent_between P (now - w) now log"
proof -
  have "filter (\<lambda>(h, x). P h \<and> now - w < x \<and> x \<le> now) log =
      filter (\<lambda>(h, x). P h \<and> now - w < x) (recent now log)"
    using assms(2,3) unfolding recent_def filter_filter by (intro filter_cong) auto
  also have "\<dots> = filter (\<lambda>(h, x). P h \<and> now - w < x) (recent now (map sent t))" by (simp only: assms(1))
  also have "\<dots> = filter (\<lambda>(h, x). P h \<and> now - w < x) (map sent t)"
    using assms(3) unfolding recent_def filter_filter by (intro filter_cong) (auto simp: sent_def)
  also have "\<dots> = map sent (filter (\<lambda>r. P (otp_recipient r) \<and> otp_reserved r > now - w) t)"
    by (simp add: filter_map comp_def sent_def)
  finally show ?thesis by (simp add: sent_between_def otp_window_length)
qed

lemma sent_between_append:
  assumes "\<forall>e\<in>set log. snd e \<le> now" and "int (sent_between P (now - w) now log) < limit"
    and "int (sent_between P (t - w) t log) \<le> limit"
  shows "int (sent_between P (t - w) t (log @ [(h, now)])) \<le> limit"
proof (cases "t < now")
  case True
  with assms(3) show ?thesis by (simp add: sent_between_def)
next
  case False
  then have "filter (\<lambda>(h, x). P h \<and> t - w < x \<and> x \<le> t) log =
      filter (\<lambda>e. t - w < snd e) (filter (\<lambda>(h, x). P h \<and> now - w < x \<and> x \<le> now) log)"
    using assms(1) unfolding filter_filter by (intro filter_cong) auto
  then have "sent_between P (t - w) t log \<le> sent_between P (now - w) now log"
    by (simp only: sent_between_def length_filter_le)
  with assms(2) show ?thesis by (simp add: sent_between_def)
qed

lemma reserve_keeps_limits:
  assumes "otp_invar (oq_limits q) st" and now: "now = or_clock st + int elapsed"
    and "fst (reserveOtp rt q rid email now (or_db st)) = Inr (Allowed rid')"
  shows "within_limits (oq_limits q) (or_log st @ [(otp_recipient_of rt q email, now)])"
proof -
  let ?l = "oq_limits q" and ?t = "otp_rows (or_db st)" and ?h = "otp_recipient_of rt q email"
  from assms(3) have "deny now (otp_rules ?l ?h now ?t) None = None"
    by (auto simp: reserveOtp_def Let_def otp_rules_purge split: option.splits sum.splits)
  then have r: "\<And>dim ts limit w. (dim, ts, limit, w) \<in> set (otp_rules ?l ?h now ?t) \<Longrightarrow> int (length ts) < limit"
    unfolding deny_None by auto
  have later: "recent now (map sent ?t) = recent now (or_log st)"
    by (rule recent_eq_later [of "or_clock st"]) (use assms(1) in \<open>simp_all add: otp_invar_def now\<close>)
  have past: "\<forall>e\<in>set (or_log st). snd e \<le> now"
    using assms(1) by (auto simp: otp_invar_def now)
  note count = otp_window_count [OF later past]
  have room: "int (sent_between (\<lambda>h'. h' = ?h) (now - hour) now (or_log st)) < ol_recipient_hour ?l"
    "int (sent_between (\<lambda>h'. h' = ?h) (now - one_day) now (or_log st)) < ol_recipient_day ?l"
    "int (sent_between (\<lambda>h'. True) (now - one_day) now (or_log st)) < ol_global_day ?l"
    using r [of RecipientHour] r [of RecipientDay] r [of GlobalDay]
    by (simp_all add: otp_rules_set count [symmetric] hour_def one_day_def)
  have old: "within_limits ?l (or_log st)" using assms(1) by (simp add: otp_invar_def)
  have other: "sent_between (\<lambda>h'. h' = h) lo hi (or_log st @ [(?h, now)]) = sent_between (\<lambda>h'. h' = h) lo hi (or_log st)"
    if "h \<noteq> ?h" for h lo hi using that by (simp add: sent_between_def)
  show ?thesis
    unfolding within_limits_def
  proof (intro allI conjI)
    fix h t
    show "int (sent_between (\<lambda>h'. h' = h) (t - hour) t (or_log st @ [(?h, now)])) \<le> ol_recipient_hour ?l"
      using old sent_between_append [OF past room(1)] by (cases "h = ?h") (simp_all add: other within_limits_def)
    show "int (sent_between (\<lambda>h'. h' = h) (t - one_day) t (or_log st @ [(?h, now)])) \<le> ol_recipient_day ?l"
      using old sent_between_append [OF past room(2)] by (cases "h = ?h") (simp_all add: other within_limits_def)
    show "int (sent_between (\<lambda>h'. True) (t - one_day) t (or_log st @ [(?h, now)])) \<le> ol_global_day ?l"
      using old sent_between_append [OF past room(3)] by (simp add: within_limits_def)
  qed
qed

lemma otp_step_invar:
  assumes "otp_invar (oq_limits q) st"
  shows "otp_invar (oq_limits q) (otp_step rt q x st)"
proof (cases x)
  case (OtpReserve rid email elapsed)
  let ?now = "or_clock st + int elapsed" and ?d = "or_db st" and ?h = "otp_recipient_of rt q email"
  let ?kept = "purge_otp ?now (otp_rows ?d)"
  have same: "recent ?now (map sent ?kept) = recent ?now (or_log st)"
    unfolding recent_purge
    by (rule recent_eq_later [of "or_clock st"]) (use assms in \<open>simp_all add: otp_invar_def\<close>)
  have past: "\<forall>e\<in>set (or_log st). snd e \<le> ?now" using assms by (auto simp: otp_invar_def)
  obtain r d' where res: "reserveOtp rt q rid email ?now ?d = (r, d')" by fastforce
  show ?thesis
  proof (cases "\<exists>rid'. r = Inr (Allowed rid')")
    case True
    then obtain rid' where rid': "r = Inr (Allowed rid')" by blast
    with res have rows: "map sent (otp_rows d') = map sent ?kept @ [(?h, ?now)]"
      by (auto simp: reserveOtp_def Let_def sql_insert_checked_Inr sent_def split: option.splits sum.splits)
    from res rid' have "fst (reserveOtp rt q rid email ?now ?d) = Inr (Allowed rid')" by simp
    then have "within_limits (oq_limits q) (or_log st @ [(?h, ?now)])"
      by (rule reserve_keeps_limits [OF assms refl])
    with same past show ?thesis
      by (simp add: OtpReserve res rid' logged_def otp_invar_def rows Let_def)
  next
    case False
    then have "logged r ?h ?now = []" by (auto simp: logged_def split: sum.split otp_reservation.split)
    moreover from False res have "otp_rows d' = ?kept \<or> otp_rows d' = otp_rows ?d"
      by (auto simp: reserveOtp_def Let_def split: option.splits sum.splits)
    ultimately show ?thesis
      using same past assms recent_purge [of ?now "otp_rows ?d"] by (auto simp: OtpReserve res otp_invar_def Let_def)
  qed
next
  case (OtpClaim rid elapsed)
  have "recent (or_clock st + int elapsed) (map sent (otp_rows (or_db st))) =
      recent (or_clock st + int elapsed) (or_log st)"
    by (rule recent_eq_later [of "or_clock st"]) (use assms in \<open>simp_all add: otp_invar_def\<close>)
  then show ?thesis
    using assms by (auto simp: OtpClaim otp_invar_def claimOtp_def map_sent_update sent_def Let_def)
next
  case (OtpFinish rid result)
  then show ?thesis
    using assms by (simp add: otp_invar_def finishOtp_def map_sent_update sent_def)
qed

interpretation otp: state_machine "otp_step rt q" "\<lambda>_. True" "otp_invar (oq_limits q)" for rt q
  by unfold_locales (rule otp_step_invar)

text \<open>The claims of one reservation that are answered with success.\<close>

fun claims_send :: "string \<Rightarrow> otp_op \<Rightarrow> otp_run \<Rightarrow> bool" where
  "claims_send rid (OtpClaim rid' elapsed) st \<longleftrightarrow>
     rid' = rid \<and> fst (claimOtp rid' (or_clock st + int elapsed) (or_db st)) = Inr True"
| "claims_send rid x st \<longleftrightarrow> False"

fun reserves_id :: "string \<Rightarrow> otp_op \<Rightarrow> bool" where
  "reserves_id rid (OtpReserve rid' email elapsed) \<longleftrightarrow> rid' = rid"
| "reserves_id rid x \<longleftrightarrow> False"

definition unclaimed :: "string \<Rightarrow> otp_row \<Rightarrow> bool" where
  "unclaimed rid r \<longleftrightarrow> otp_id r = rid \<and> otp_attempted r = None"

lemma row_count_append [simp]: "row_count P (t @ u) = row_count P t + row_count P u"
  by (simp add: row_count_def)

lemma row_count_update_le:
  "(\<And>r. Q r \<Longrightarrow> P (f r) \<Longrightarrow> P r) \<Longrightarrow> row_count P (sql_update Q f t) \<le> row_count P t"
  by (induction t) (auto simp: row_count_def)

lemma row_count_update_less:
  "(\<And>r. Q r \<Longrightarrow> P r \<and> \<not> P (f r)) \<Longrightarrow> row_count Q t \<noteq> 0 \<Longrightarrow>
     row_count P (sql_update Q f t) < row_count P t"
proof (induction t)
  case (Cons r t)
  have le: "row_count P (sql_update Q f t) \<le> row_count P t"
    by (rule row_count_update_le)  (use Cons.prems(1) in blast)
  from Cons le show ?case by (cases "Q r") (auto simp: row_count_def)
qed (simp add: row_count_def)

lemma row_count_purge: "row_count P (purge_otp now t) \<le> row_count P t"
  by (induction t) (auto simp: row_count_def purge_otp_def sql_delete_def)

lemma unclaimed_reserve:
  assumes "rid' \<noteq> rid"
  shows "row_count (unclaimed rid) (otp_rows (snd (reserveOtp rt q rid' email now d))) \<le>
    row_count (unclaimed rid) (otp_rows d)"
proof -
  have new: "row_count (unclaimed rid) [\<lparr>otp_id = rid', otp_recipient = h, otp_reserved = now,
      otp_attempted = None, otp_result = OtpReserved\<rparr>] = 0" for h
    using assms by (simp add: row_count_def unclaimed_def)
  show ?thesis
    using row_count_purge [of "unclaimed rid" now "otp_rows d"]
    by (auto simp: reserveOtp_def Let_def new sql_insert_checked_def sql_insert_def split: option.split)
qed

lemma unclaimed_claim:
  "row_count (unclaimed rid) (otp_rows (snd (claimOtp rid' now d))) \<le> row_count (unclaimed rid) (otp_rows d)"
  "fst (claimOtp rid now d) = Inr True \<Longrightarrow>
     row_count (unclaimed rid) (otp_rows (snd (claimOtp rid now d))) < row_count (unclaimed rid) (otp_rows d)"
proof -
  let ?t = "otp_rows d" and ?f = "\<lambda>r. r\<lparr>otp_attempted := Some (max now (otp_reserved r))\<rparr>"
  have "row_count (unclaimed rid) (sql_update (otp_claimable rid' now) ?f ?t) \<le> row_count (unclaimed rid) ?t"
    by (rule row_count_update_le) (simp add: unclaimed_def)
  then show "row_count (unclaimed rid) (otp_rows (snd (claimOtp rid' now d))) \<le> row_count (unclaimed rid) ?t"
    by (simp add: claimOtp_def)
  assume "fst (claimOtp rid now d) = Inr True"
  then have "row_count (unclaimed rid) (sql_update (otp_claimable rid now) ?f ?t) < row_count (unclaimed rid) ?t"
    by (intro row_count_update_less) (auto simp: unclaimed_def otp_claimable_def claimOtp_def)
  then show "row_count (unclaimed rid) (otp_rows (snd (claimOtp rid now d))) < row_count (unclaimed rid) ?t"
    by (simp add: claimOtp_def)
qed

lemma unclaimed_finish:
  "row_count (unclaimed rid) (otp_rows (snd (finishOtp rid' res d))) \<le> row_count (unclaimed rid) (otp_rows d)"
  using row_count_update_le [of "otp_open rid'" "unclaimed rid" "\<lambda>r. r\<lparr>otp_result := res\<rparr>" "otp_rows d"]
  by (simp add: finishOtp_def unclaimed_def)

interpretation otp_claim: budget_machine "otp_step rt q" "\<lambda>x. \<not> reserves_id rid x" "\<lambda>_. True"
    "\<lambda>st. row_count (unclaimed rid) (otp_rows (or_db st))" "claims_send rid" for rt q rid
proof unfold_locales
  fix st x
  assume "\<not> reserves_id rid x"
  then show "row_count (unclaimed rid) (otp_rows (or_db (otp_step rt q x st))) \<le>
      row_count (unclaimed rid) (otp_rows (or_db st))"
    by (cases x) (simp_all add: Let_def unclaimed_reserve unclaimed_claim(1) unclaimed_finish)
  assume "claims_send rid x st"
  then show "row_count (unclaimed rid) (otp_rows (or_db (otp_step rt q x st))) <
      row_count (unclaimed rid) (otp_rows (or_db st))"
    by (cases x) (auto simp: Let_def intro: unclaimed_claim(2))
qed simp

fun send_claims :: "runtime \<Rightarrow> otp_quota \<Rightarrow> string \<Rightarrow> otp_op list \<Rightarrow> otp_run \<Rightarrow> nat" where
  "send_claims rt q rid [] st = 0"
| "send_claims rt q rid (x # xs) st =
     (if claims_send rid x st then 1 else 0) + send_claims rt q rid xs (otp_step rt q x st)"

lemma send_claims_charges: "send_claims rt q rid xs st = otp_claim.charges rt q rid xs st"
  by (induction xs arbitrary: st) simp_all

section \<open>The mails of a run\<close>

text \<open>
  A mail goes out when a claim succeeds.  It is listed with its recipient, the instant its
  reservation was made and the instant of the claim.
\<close>

type_synonym otp_mail = "bytes \<times> time \<times> time"

fun mails_of :: "otp_op \<Rightarrow> otp_run \<Rightarrow> otp_mail list" where
  "mails_of (OtpClaim rid elapsed) st =
     (let now = or_clock st + int elapsed in
      if fst (claimOtp rid now (or_db st)) = Inr True
      then map (\<lambda>r. (otp_recipient r, otp_reserved r, now)) (filter (otp_claimable rid now) (otp_rows (or_db st)))
      else [])"
| "mails_of x st = []"

fun otp_mails :: "runtime \<Rightarrow> otp_quota \<Rightarrow> otp_op list \<Rightarrow> otp_run \<Rightarrow> otp_mail list" where
  "otp_mails rt q [] st = []"
| "otp_mails rt q (x # xs) st = mails_of x st @ otp_mails rt q xs (otp_step rt q x st)"

definition mail_key :: "otp_mail \<Rightarrow> bytes \<times> time" where
  "mail_key m = (fst m, fst (snd m))"

text \<open>The reservations still open to a claim, and the times of what is stored.\<close>

definition open_rows :: "otp_run \<Rightarrow> otp_row list" where
  "open_rows st = filter (\<lambda>r. otp_attempted r = None) (otp_rows (or_db st))"

definition clocked :: "otp_run \<Rightarrow> bool" where
  "clocked st \<longleftrightarrow> (\<forall>r\<in>set (otp_rows (or_db st)). otp_reserved r \<le> or_clock st)"

lemma claim_moves:
  assumes "\<And>r. P r \<Longrightarrow> otp_attempted r = None"
  shows "mset (map sent (filter P t)) +
      mset (map sent (filter (\<lambda>r. otp_attempted r = None) (sql_update P (\<lambda>r. r\<lparr>otp_attempted := Some (f r)\<rparr>) t))) =
    mset (map sent (filter (\<lambda>r. otp_attempted r = None) t))"
  using assms by (induction t) auto

lemma mail_step:
  "mset (map mail_key (mails_of x st)) + mset (map sent (open_rows (otp_step rt q x st))) + mset (or_log st) \<subseteq>#
     mset (map sent (open_rows st)) + mset (or_log (otp_step rt q x st))"
proof (cases x)
  case (OtpReserve rid email elapsed)
  have "mset (map sent (filter (\<lambda>r. otp_attempted r = None) (purge_otp now t))) \<subseteq>#
      mset (map sent (filter (\<lambda>r. otp_attempted r = None) t))" for now t
    unfolding mset_map mset_filter purge_otp_def sql_delete_def
    by (intro image_mset_subseteq_mono multiset_filter_mono multiset_filter_subset)
  then show ?thesis
    by (auto simp: OtpReserve open_rows_def Let_def reserveOtp_def sql_insert_checked_def sql_insert_def logged_def sent_def
      split: option.split simp del: mset_map)
next
  case (OtpClaim rid elapsed)
  let ?P = "otp_claimable rid (or_clock st + int elapsed)" and ?t = "otp_rows (or_db st)"
  have "mset (map sent (filter ?P ?t)) + mset (map sent (open_rows (otp_step rt q x st))) = mset (map sent (open_rows st))"
    unfolding OtpClaim open_rows_def using claim_moves [of ?P ?t] by (simp add: Let_def claimOtp_def otp_claimable_def)
  moreover have "mset (map mail_key (mails_of x st)) \<subseteq># mset (map sent (filter ?P ?t))"
    by (simp add: OtpClaim Let_def mail_key_def comp_def sent_def [abs_def] del: mset_map mset_filter)
  moreover have "or_log (otp_step rt q x st) = or_log st" by (simp add: OtpClaim Let_def)
  ultimately show ?thesis by (metis add_right_mono subset_mset.add_right_mono)
next
  case (OtpFinish rid result)
  have "filter (\<lambda>r. otp_attempted r = None) (sql_update (otp_open rid) f t) = filter (\<lambda>r. otp_attempted r = None) t"
    if "\<And>r. otp_attempted (f r) = otp_attempted r" for f t
    using that by (induction t) (auto simp: otp_open_def)
  then show ?thesis by (simp add: OtpFinish open_rows_def finishOtp_def)
qed

lemma mails_reserved:
  "mset (map mail_key (otp_mails rt q xs st)) + mset (or_log st) \<subseteq>#
     mset (map sent (open_rows st)) + mset (or_log (fold (otp_step rt q) xs st))"
proof (induction xs arbitrary: st)
  case (Cons x xs)
  from Cons [of "otp_step rt q x st"] mail_step [of x st rt q] show ?case
    by (simp add: subseteq_mset_def) (smt (verit, best) add.assoc add.commute add_le_mono1 le_trans add_le_cancel_right)
qed simp

lemma clocked_step: "clocked st \<Longrightarrow> clocked (otp_step rt q x st)"
  by (cases x) (auto simp: clocked_def Let_def reserveOtp_def claimOtp_def finishOtp_def purge_otp_def
    sql_insert_checked_def sql_insert_def set_sql_update split: option.splits if_splits)

lemma mail_times:
  "clocked st \<Longrightarrow> m \<in> set (otp_mails rt q xs st) \<Longrightarrow>
     fst (snd m) \<le> snd (snd m) \<and> snd (snd m) < fst (snd m) + 60000"
proof (induction xs arbitrary: st)
  case (Cons x xs)
  have "fst (snd m) \<le> snd (snd m) \<and> snd (snd m) < fst (snd m) + 60000" if "m \<in> set (mails_of x st)"
    using that Cons.prems(1) by (cases x) (auto simp: Let_def clocked_def otp_claimable_def split: if_splits)
  with Cons clocked_step [OF Cons.prems(1)] show ?case by auto
qed simp

definition mailed_between :: "(bytes \<Rightarrow> bool) \<Rightarrow> time \<Rightarrow> time \<Rightarrow> otp_mail list \<Rightarrow> nat" where
  "mailed_between P lo hi ms = length (filter (\<lambda>(h, r, a). P h \<and> lo < a \<and> a \<le> hi) ms)"

lemma mailed_reserved:
  assumes "clocked st" and "open_rows st = []" and "or_log st = []"
  shows "mailed_between P (lo + 60000) hi (otp_mails rt q xs st) \<le>
    sent_between P lo hi (or_log (fold (otp_step rt q) xs st))"
proof -
  let ?ms = "otp_mails rt q xs st" and ?in = "\<lambda>e. P (fst e) \<and> lo < snd e \<and> snd e \<le> hi"
  let ?log = "or_log (fold (otp_step rt q) xs st)"
  have "filter (\<lambda>(h, r, a). P h \<and> lo + 60000 < a \<and> a \<le> hi) ?ms =
      filter (\<lambda>(h, r, a). lo + 60000 < a \<and> a \<le> hi) (filter (\<lambda>m. ?in (mail_key m)) ?ms)"
    unfolding filter_filter by (intro filter_cong refl) (auto simp: mail_key_def dest!: mail_times [OF assms(1)])
  then have "mailed_between P (lo + 60000) hi ?ms \<le> length (filter (\<lambda>m. ?in (mail_key m)) ?ms)"
    unfolding mailed_between_def by (simp only: length_filter_le)
  also have "\<dots> = length (filter ?in (map mail_key ?ms))" by (simp add: filter_map comp_def)
  also have "\<dots> \<le> length (filter ?in ?log)"
  proof -
    have "mset (map mail_key ?ms) \<subseteq># mset ?log" using mails_reserved [of rt q xs st] assms(2,3) by simp
    from size_mset_mono [OF multiset_filter_mono [OF this, of ?in]]
    show ?thesis by (simp only: mset_filter [symmetric] size_mset)
  qed
  finally show ?thesis by (simp add: sent_between_def case_prod_unfold)
qed

section \<open>Properties of runs\<close>

text \<open>
  C17. Whatever operations run in whatever order, no more send requests of a recipient are allowed in any
  hour or any day than the hourly and the daily limit, and no more of all recipients in any day than the
  global limit; the windows may start at any instant and purged rows still count.  A mail goes out up
  to a minute after its request was allowed, so the mails themselves keep to the same limits in any 59
  minutes and in any day less a minute.
\<close>

theorem otp_send_limits_hold:
  assumes "PostgresOtpSendQuota key limits = Inr q" and "otp_rows d = []"
    and "st = \<lparr>or_clock = start, or_db = d, or_log = []\<rparr>"
  shows "within_limits (oq_limits q) (or_log (fold (otp_step rt q) ops st)) \<and> (\<forall>h t.
     int (mailed_between (\<lambda>h'. h' = h) (t - hour + 60000) t (otp_mails rt q ops st)) \<le> ol_recipient_hour (oq_limits q) \<and>
     int (mailed_between (\<lambda>h'. h' = h) (t - one_day + 60000) t (otp_mails rt q ops st)) \<le> ol_recipient_day (oq_limits q) \<and>
     int (mailed_between (\<lambda>h'. True) (t - one_day + 60000) t (otp_mails rt q ops st)) \<le> ol_global_day (oq_limits q))"
proof -
  have "otp_invar (oq_limits q) st"
    using quota_limits [OF assms(1)] assms(2,3) by (simp add: otp_invar_def within_limits_def sent_between_def)
  then have "otp_invar (oq_limits q) (fold (otp_step rt q) ops st)"
    by (rule otp.run_inv) (simp add: list_all_iff)
  then have ok: "within_limits (oq_limits q) (or_log (fold (otp_step rt q) ops st))" by (simp add: otp_invar_def)
  have "clocked st" "open_rows st = []" "or_log st = []" using assms(2,3) by (simp_all add: clocked_def open_rows_def)
  note mailed = mailed_reserved [OF this, of _ _ _ rt q ops]
  have "int (mailed_between P (t - w + 60000) t (otp_mails rt q ops st)) \<le> limit"
    if "int (sent_between P (t - w) t (or_log (fold (otp_step rt q) ops st))) \<le> limit" for P t w limit
    using mailed [of P "t - w" t] that by linarith
  then show ?thesis using ok unfolding within_limits_def by blast
qed

theorem otp_send_limits_hold_witness:
  "int (mailed_between (\<lambda>h'. h' = otp_recipient_of sample_runtime sample_quota ''a@b.example'') (3000 - hour + 60000) 3000
     (otp_mails sample_runtime sample_quota
        [OtpReserve ''r1'' ''a@b.example'' 5, OtpReserve ''r2'' ''a@b.example'' 5, OtpClaim ''r1'' 7]
        \<lparr>or_clock = 0, or_db = empty_db, or_log = []\<rparr>)) \<le> 1"
proof -
  have "oq_limits sample_quota = sample_limits" "ol_recipient_hour sample_limits = 1"
    by (simp_all add: sample_quota_def sample_limits_def)
  moreover have "otp_rows empty_db = []" by (simp add: empty_db_def)
  ultimately show ?thesis using otp_send_limits_hold [OF sample_quota_ok _ refl] by metis
qed

text \<open>
  A reservation is claimed at most once, so a code is handed to the mail provider at most once per
  reservation, however claims, outcomes and other reservations are interleaved.
\<close>

theorem otp_claimed_at_most_once:
  assumes "has_pk otp_id (otp_rows (or_db st))" and "list_all (\<lambda>x. \<not> reserves_id rid x) ops"
  shows "send_claims rt q rid ops st \<le> 1"
proof -
  have "send_claims rt q rid ops st + row_count (unclaimed rid) (otp_rows (or_db (fold (otp_step rt q) ops st)))
      \<le> row_count (unclaimed rid) (otp_rows (or_db st))"
    unfolding send_claims_charges using assms(2) by (intro otp_claim.charges_le_budget) simp_all
  moreover have "row_count (unclaimed rid) (otp_rows (or_db st)) \<le> 1"
    using assms(1) by (rule row_count_pk) (simp add: unclaimed_def)
  ultimately show ?thesis by simp
qed

theorem otp_claimed_at_most_once_witness:
  "send_claims sample_runtime sample_quota ''r1'' [OtpClaim ''r1'' 1, OtpFinish ''r1'' OtpAccepted, OtpClaim ''r1'' 1]
     \<lparr>or_clock = 1000, or_db = sample_otp_db, or_log = []\<rparr> \<le> 1"
  by (rule otp_claimed_at_most_once) (simp_all add: sample_otp_db_def has_pk_def)

text \<open>
  An outcome is recorded once: the reservation must have been claimed, and after a final outcome
  both a second outcome and a second claim are refused.
\<close>

theorem otp_outcome_recorded_once:
  assumes pk: "has_pk otp_id (otp_rows d)" and fin: "finishOtp rid res d = (Inr (), d')" and "res \<noteq> OtpReserved"
  shows "(\<exists>r\<in>set (otp_rows d). otp_id r = rid \<and> otp_attempted r \<noteq> None \<and> otp_result r = OtpReserved) \<and>
    fst (finishOtp rid res' d') = Inl ''otp_send_outcome_not_saved'' \<and>
    fst (claimOtp rid now d') = Inr False"
proof -
  from fin have one: "row_count (otp_open rid) (otp_rows d) = 1"
    and d': "d' = d\<lparr>otp_rows := sql_update (otp_open rid) (\<lambda>r. r\<lparr>otp_result := res\<rparr>) (otp_rows d)\<rparr>"
    by (auto simp: finishOtp_def split: if_splits)
  from row_count_pos [OF one] obtain k where k: "k \<in> set (otp_rows d)" "otp_open rid k" by blast
  have only: "r = k" if "r \<in> set (otp_rows d)" "otp_id r = rid" for r
    using pk_inject [OF pk that(1) k(1)] that(2) k(2) by (simp add: otp_open_def)
  have final: "otp_attempted r \<noteq> None \<and> otp_result r = res" if r: "r \<in> set (otp_rows d')" "otp_id r = rid" for r
  proof -
    from r(1) obtain r0 where r0: "r0 \<in> set (otp_rows d)"
      "r = (if otp_open rid r0 then r0\<lparr>otp_result := res\<rparr> else r0)"
      by (auto simp: d' set_sql_update)
    then have "otp_id r0 = rid" using r(2) by (simp split: if_splits)
    with only r0 k(2) show ?thesis by (auto simp: otp_open_def)
  qed
  then have "row_count (otp_open rid) (otp_rows d') = 0" "row_count (otp_claimable rid now) (otp_rows d') = 0"
    using assms(3) by (auto simp: row_count_eq_0 otp_open_def otp_claimable_def)
  then show ?thesis using k by (auto simp: finishOtp_def claimOtp_def otp_open_def)
qed

definition claimed_otp_db :: db where
  "claimed_otp_db = snd (claimOtp ''r1'' 1500 sample_otp_db)"

theorem otp_outcome_recorded_once_witness:
  "fst (claimOtp ''r1'' 2000 (snd (finishOtp ''r1'' OtpAccepted claimed_otp_db))) = Inr False"
proof -
  have "fst (finishOtp ''r1'' OtpAccepted claimed_otp_db) = Inr ()" by code_simp
  then have fin: "finishOtp ''r1'' OtpAccepted claimed_otp_db = (Inr (), snd (finishOtp ''r1'' OtpAccepted claimed_otp_db))"
    by (simp add: prod_eq_iff)
  have "has_pk otp_id (otp_rows claimed_otp_db)"
    by (simp add: claimed_otp_db_def claimOtp_def sample_otp_db_def has_pk_def)
  from otp_outcome_recorded_once [OF this fin] show ?thesis by simp
qed

end
