(* ===== verification/Account_Auth.thy ===== *)
theory Account_Auth
  imports Otp_Quota Host_Files
begin

text \<open>
  The account authentication package: how an email address is normalised, how codes are sent
  through the quota, the secrets and the options handed to Better Auth, and the configuration read
  from the environment.  Better Auth and Resend are parameters: the hooks they call are definitions,
  what they answer are arguments.
\<close>

section \<open>Text\<close>

text \<open>
  White space, \<open>trim\<close> and \<open>toLowerCase\<close> on code units below 256, which \<open>normalize('NFC')\<close> leaves as
  they are.
\<close>

definition is_space :: "char \<Rightarrow> bool" where
  "is_space c \<longleftrightarrow> (let n = of_char c :: nat in (9 \<le> n \<and> n \<le> 13) \<or> n = 32 \<or> n = 160)"

definition trim :: "string \<Rightarrow> string" where
  "trim s = rev (dropWhile is_space (rev (dropWhile is_space s)))"

definition lower_latin :: "char \<Rightarrow> char" where
  "lower_latin c = (let n = of_char c :: nat in
     if (65 \<le> n \<and> n \<le> 90) \<or> (192 \<le> n \<and> n \<le> 222 \<and> n \<noteq> 215) then char_of (n + 32) else c)"

definition EmailSchema :: "runtime \<Rightarrow> string \<Rightarrow> bool" where
  "EmailSchema rt s \<longleftrightarrow> zod_email rt s \<and> length s \<le> 254"

definition DeliveryIdSchema :: "string \<Rightarrow> bool" where
  "DeliveryIdSchema s \<longleftrightarrow> rx id_class 16 128 s"

definition normalizeAccountEmail :: "runtime \<Rightarrow> string \<Rightarrow> string result" where
  "normalizeAccountEmail rt input =
     (let e = map lower_latin (trim input) in if EmailSchema rt e then Inr e else Inl zod_error)"

section \<open>Senders\<close>

datatype delivery_outcome = Accepted | Rejected | Unknown

definition recorded :: "delivery_outcome \<Rightarrow> otp_outcome" where
  "recorded out = (case out of Accepted \<Rightarrow> OtpAccepted | Rejected \<Rightarrow> OtpRejected | Unknown \<Rightarrow> OtpUnknown)"

definition bracketed_address :: "string \<Rightarrow> string option" where
  "bracketed_address t =
     (let name = takeWhile (\<lambda>c. c \<noteq> CHR ''<'') t; rest = drop (length name) t;
          address = butlast (drop 1 rest) in
      if 3 \<le> length rest \<and> last rest = CHR ''>'' \<and> CHR ''<'' \<notin> set address \<and> CHR ''>'' \<notin> set address \<and>
         (name = [] \<or> 2 \<le> length name \<and> CHR ''>'' \<notin> set name \<and> is_space (last name))
      then Some address else None)"

definition validatedSender :: "runtime \<Rightarrow> string \<Rightarrow> string result" where
  "validatedSender rt input =
     (if length input > 320 \<or> CHR 0x0D \<in> set input \<or> CHR 0x0A \<in> set input then Inl ''resend_sender_invalid''
      else
        let address = (case bracketed_address (trim input) of None \<Rightarrow> trim input | Some a \<Rightarrow> a) in
        if EmailSchema rt address then Inr (trim input) else Inl zod_error)"

record resend_sender =
  rn_from :: string
  rn_reply :: "string option"

definition ResendOtpEmailSender :: "runtime \<Rightarrow> string \<Rightarrow> string \<Rightarrow> string option \<Rightarrow> resend_sender result" where
  "ResendOtpEmailSender rt apiKey from_input replyTo =
     (if length apiKey < 16 then Inl ''resend_api_key_invalid''
      else and_then (validatedSender rt from_input) (\<lambda>sender.
        case replyTo of
          None \<Rightarrow> Inr \<lparr>rn_from = sender, rn_reply = None\<rparr>
        | Some r \<Rightarrow> if EmailSchema rt r then Inr \<lparr>rn_from = sender, rn_reply = Some r\<rparr> else Inl zod_error))"

record mail =
  ml_from :: string
  ml_to :: string
  ml_subject :: string
  ml_text :: string
  ml_html :: string
  ml_reply :: "string option"
  ml_idempotency :: "string option"

text \<open>What Resend answers: an error with its status, data with an identifier, or it throws.\<close>

datatype resend_answer = ResendError "int option" | ResendData "string option" | ResendThrows

definition mail_of :: "resend_sender \<Rightarrow> string \<Rightarrow> string \<Rightarrow> string option \<Rightarrow> mail" where
  "mail_of s email otp key = \<lparr>ml_from = rn_from s, ml_to = email, ml_subject = ''Your WePuu verification code'',
     ml_text = ''Your WePuu verification code is '' @ otp @
       ''. It expires in 5 minutes. If you did not request this code, you can ignore this email.'',
     ml_html = ''<div style=\"font-family:system-ui,sans-serif;color:#17242e\"><h1>Verify your email</h1><p>Use this code to sign in to WePuu:</p><p style=\"font-size:32px;font-weight:700;letter-spacing:8px\">'' @ otp @
       ''</p><p>This code expires in 5 minutes. If you did not request it, you can ignore this email.</p></div>'',
     ml_reply = rn_reply s, ml_idempotency = key\<rparr>"

definition resendSend ::
  "runtime \<Rightarrow> (mail \<Rightarrow> resend_answer) \<Rightarrow> resend_sender \<Rightarrow> string \<Rightarrow> string \<Rightarrow> string option \<Rightarrow> delivery_outcome" where
  "resendSend rt resend s email otp key =
     (if \<not> EmailSchema rt email then Unknown
      else case resend (mail_of s email otp key) of
        ResendError (Some status) \<Rightarrow> if 400 \<le> status \<and> status < 500 then Rejected else Unknown
      | ResendError None \<Rightarrow> Unknown
      | ResendData (Some i) \<Rightarrow> if trim i \<noteq> [] then Accepted else Unknown
      | ResendData None \<Rightarrow> Unknown
      | ResendThrows \<Rightarrow> Unknown)"

datatype email_sender = MockOtpEmailSender | ResendSender resend_sender

section \<open>Secrets\<close>

record account_secret =
  sc_version :: int
  sc_value :: string

definition secret_ok :: "account_secret \<Rightarrow> bool" where
  "secret_ok s \<longleftrightarrow> safe_integer (sc_version s) \<and> sc_version s > 0 \<and> 32 \<le> length (sc_value s)"

definition SecretKeyringSchema :: "account_secret list \<Rightarrow> bool" where
  "SecretKeyringSchema ss \<longleftrightarrow> 1 \<le> length ss \<and> list_all secret_ok ss"

definition validateSecrets :: "account_secret list \<Rightarrow> account_secret list result" where
  "validateSecrets input =
     (if \<not> SecretKeyringSchema input then Inl zod_error
      else if \<not> distinct (map sc_version input) then Inl ''account_auth_secret_version_duplicate''
      else Inr (sort_key (\<lambda>s. - sc_version s) input))"

definition secret_schema :: "account_secret schema" where
  "secret_schema j =
     Option.bind (z_object [''version'', ''value''] j) (\<lambda>obj.
     Option.bind (z_int (\<lambda>n. n > 0) (map_of obj ''version'')) (\<lambda>v.
     Option.bind (z_str (\<lambda>s. 32 \<le> length s) (map_of obj ''value'')) (\<lambda>s.
     Some \<lparr>sc_version = v, sc_value = s\<rparr>)))"

definition secret_file_schema :: "json \<Rightarrow> account_secret list option" where
  "secret_file_schema j = Option.bind (z_object [''secrets''] (Some j)) (\<lambda>obj.
     z_array secret_schema (\<lambda>xs. 1 \<le> length xs) (map_of obj ''secrets''))"

definition loadProtectedFile :: "file_system \<Rightarrow> string \<Rightarrow> bool \<Rightarrow> nat option \<Rightarrow> string result" where
  "loadProtectedFile fs path production expectedUid =
     (case fs path of
        None \<Rightarrow> Inl ''ENOENT''
      | Some f \<Rightarrow>
          if \<not> fi_file f \<or> fi_symlink f then Inl ''account_auth_secret_file_invalid''
          else if production \<and> fi_mode f mod 64 \<noteq> 0 then Inl ''account_auth_secret_file_permissions_invalid''
          else if production \<and> (case expectedUid of None \<Rightarrow> False | Some u \<Rightarrow> fi_owner f \<noteq> u)
          then Inl ''account_auth_secret_file_owner_invalid''
          else Inr (fi_text f))"

definition loadAccountAuthSecrets ::
  "(string \<Rightarrow> json option) \<Rightarrow> file_system \<Rightarrow> string \<Rightarrow> bool \<Rightarrow> nat option \<Rightarrow> account_secret list result" where
  "loadAccountAuthSecrets parse fs path production expectedUid =
     and_then (loadProtectedFile fs path production expectedUid) (\<lambda>text.
       case parse text of
         None \<Rightarrow> Inl ''SyntaxError''
       | Some j \<Rightarrow> and_then (parse_or_throw (secret_file_schema j)) validateSecrets)"

section \<open>Options of Better Auth\<close>

definition json_put :: "string \<Rightarrow> json \<Rightarrow> json_object \<Rightarrow> json_object" where
  "json_put k v obj =
     (if k \<in> fst ` set obj then map (\<lambda>(k', v'). (k', if k' = k then v else v')) obj else obj @ [(k, v)])"

definition unencrypted_token :: "json option \<Rightarrow> bool" where
  "unencrypted_token j \<longleftrightarrow> (case j of Some (JStr t) \<Rightarrow> t \<noteq> [] \<and> \<not> starts_with t ''$ba$'' | _ \<Rightarrow> False)"

definition protectedProviderAccount :: "json_object \<Rightarrow> json_object result" where
  "protectedProviderAccount account =
     (if list_ex (\<lambda>f. unencrypted_token (map_of account f)) [''accessToken'', ''refreshToken'']
      then Inl ''account_auth_unencrypted_provider_token'' else Inr (json_put ''idToken'' JNull account))"

record security_options =
  op_expires :: int
  op_refresh_disabled :: bool
  op_refresh_deferred :: bool
  op_cookie_cache :: bool
  op_encrypt_tokens :: bool
  op_linking :: bool
  op_implicit_linking_disabled :: bool
  op_different_emails :: bool
  op_unlink_all :: bool
  op_trusted :: "string list"
  op_identifier :: string
  op_delete_user :: bool
  op_before_create :: "json_object \<Rightarrow> json_object result"
  op_before_update :: "json_object \<Rightarrow> json_object result"
  op_secure_cookies :: bool
  op_default_attributes :: json_object
  op_cookie_name :: string
  op_cookie_attributes :: json_object

definition cookie_attributes :: json_object where
  "cookie_attributes = [(''secure'', JBool True), (''httpOnly'', JBool True), (''sameSite'', JStr ''lax''),
     (''path'', JStr ''/'')]"

definition accountAuthSecurityOptions :: security_options where
  "accountAuthSecurityOptions =
     \<lparr>op_expires = 43200, op_refresh_disabled = True, op_refresh_deferred = True, op_cookie_cache = False,
      op_encrypt_tokens = True, op_linking = True, op_implicit_linking_disabled = True,
      op_different_emails = False, op_unlink_all = False, op_trusted = [], op_identifier = ''hashed'',
      op_delete_user = False, op_before_create = protectedProviderAccount,
      op_before_update = protectedProviderAccount, op_secure_cookies = False,
      op_default_attributes = cookie_attributes, op_cookie_name = ''__Host-wepuu_session'',
      op_cookie_attributes = cookie_attributes\<rparr>"

definition exactHttpsOrigin :: "runtime \<Rightarrow> string \<Rightarrow> string result" where
  "exactHttpsOrigin rt input =
     (case parse_url rt input of
        None \<Rightarrow> Inl ''Invalid URL''
      | Some u \<Rightarrow>
          if \<not> origin_only u then Inl ''account_auth_public_origin_invalid'' else Inr (url_origin u))"

record auth_rates =
  ra_send_window :: int
  ra_send_max :: int
  ra_verify_window :: int
  ra_verify_max :: int

definition defaultRateLimit :: auth_rates where
  "defaultRateLimit = \<lparr>ra_send_window = 60, ra_send_max = 1, ra_verify_window = 300, ra_verify_max = 5\<rparr>"

datatype auth_role = AuthWriter | AuthReader

record send_protection =
  sp_key :: bytes
  sp_limits :: "otp_limits option"
  sp_enabled :: "bool option"

record auth_options =
  ao_origin :: string
  ao_secrets :: "account_secret list"
  ao_sender :: email_sender
  ao_rates :: "auth_rates option"
  ao_role :: "auth_role option"
  ao_protection :: "send_protection option"
  ao_quota :: "otp_quota option"

record auth_config =
  cf_origin :: string
  cf_secrets :: "account_secret list"
  cf_sender :: email_sender
  cf_rates :: auth_rates
  cf_role :: "auth_role option"
  cf_enabled :: "bool option"
  cf_quota :: "otp_quota option"

definition auth_quota :: "auth_options \<Rightarrow> otp_quota option result" where
  "auth_quota opts =
     (case ao_quota opts of
        Some q \<Rightarrow> Inr (Some q)
      | None \<Rightarrow>
          (case ao_protection opts of
             None \<Rightarrow> Inr None
           | Some p \<Rightarrow>
               and_then (PostgresOtpSendQuota (sp_key p)
                   (case sp_limits p of None \<Rightarrow> DEFAULT_OTP_SEND_LIMITS | Some l \<Rightarrow> l)) (\<lambda>q. Inr (Some q))))"

definition createAccountAuth :: "runtime \<Rightarrow> auth_options \<Rightarrow> auth_config result" where
  "createAccountAuth rt opts =
     and_then (exactHttpsOrigin rt (ao_origin opts)) (\<lambda>publicOrigin.
     and_then (validateSecrets (ao_secrets opts)) (\<lambda>secrets.
     and_then (auth_quota opts) (\<lambda>quota.
     if (case ao_sender opts of MockOtpEmailSender \<Rightarrow> False | ResendSender _ \<Rightarrow> True) \<and> quota = None
     then Inl ''otp_send_protection_required''
     else Inr \<lparr>cf_origin = publicOrigin, cf_secrets = secrets, cf_sender = ao_sender opts,
       cf_rates = (case ao_rates opts of None \<Rightarrow> defaultRateLimit | Some r \<Rightarrow> r), cf_role = ao_role opts,
       cf_enabled = Option.bind (ao_protection opts) sp_enabled, cf_quota = quota\<rparr>)))"

section \<open>Sending a code\<close>

datatype limited_by = ByQuota otp_dimension | ByAddress

datatype send_event =
    SendAttempt
  | SendOutcome delivery_outcome
  | SendLimited limited_by
  | SendStorageFailed

datatype api_error = ServiceUnavailable | BadRequest | TooManyRequests int

text \<open>What one request carries between the hook and the delivery (\<open>AsyncLocalStorage\<close>).\<close>

record send_state =
  ss_origin :: "string option"
  ss_delivery :: "string option"
  ss_reservation :: "string option"
  ss_email :: "string option"
  ss_limited :: bool

text \<open>The mails handed to the sender: address, code and idempotency key.\<close>

record auth_state =
  at_db :: db
  at_events :: "send_event list"
  at_deliveries :: "(string \<times> delivery_outcome \<times> time) list"
  at_mails :: "(string \<times> string \<times> string option) list"

definition send_path :: string where
  "send_path = ''/email-otp/send-verification-otp''"

definition observe :: "send_event \<Rightarrow> auth_state \<Rightarrow> auth_state" where
  "observe e a = a\<lparr>at_events := at_events a @ [e]\<rparr>"

definition send_body :: "json \<Rightarrow> string option" where
  "send_body body =
     Option.bind (z_object [''email'', ''type''] (Some body)) (\<lambda>obj.
     Option.bind (z_str (\<lambda>_. True) (map_of obj ''email'')) (\<lambda>email.
     Option.bind (z_literal ''sign-in'' (map_of obj ''type'')) (\<lambda>_. Some email)))"

text \<open>
  The hook before a request: \<open>None\<close> lets it pass as it is, \<open>Some\<close> replaces its body.  \<open>rid\<close> is what
  \<open>randomUUID\<close> returns, \<open>st\<close> the state of the request if there is one.
\<close>

definition beforeSend ::
  "runtime \<Rightarrow> auth_config \<Rightarrow> string \<Rightarrow> json \<Rightarrow> string \<Rightarrow> time \<Rightarrow> send_state option \<Rightarrow> auth_state \<Rightarrow>
     (api_error + json option) \<times> send_state option \<times> auth_state" where
  "beforeSend rt cfg path body rid now st a =
     (if path \<noteq> send_path then (Inr None, st, a)
      else if cf_role cfg = Some AuthReader \<or> cf_enabled cfg = Some False then (Inl ServiceUnavailable, st, a)
      else case cf_quota cfg of
        None \<Rightarrow> (Inr None, st, a)
      | Some q \<Rightarrow>
          (case (st, send_body body) of
             (Some state, Some raw) \<Rightarrow>
               if ss_origin state \<noteq> Some (cf_origin cfg) \<or>
                  (case ss_delivery state of None \<Rightarrow> True | Some i \<Rightarrow> \<not> DeliveryIdSchema i)
               then (Inl BadRequest, st, a)
               else (case normalizeAccountEmail rt raw of
                 Inl _ \<Rightarrow> (Inl BadRequest, st, a)
               | Inr email \<Rightarrow>
                   (case reserveOtp rt q rid email now (at_db a) of
                      (Inl _, d) \<Rightarrow> (Inl ServiceUnavailable, st, observe SendStorageFailed (a\<lparr>at_db := d\<rparr>))
                    | (Inr (Refused dimension seconds), d) \<Rightarrow>
                        (Inl (TooManyRequests seconds), Some (state\<lparr>ss_limited := True\<rparr>),
                         observe (SendLimited (ByQuota dimension)) (a\<lparr>at_db := d\<rparr>))
                    | (Inr (Allowed reservation), d) \<Rightarrow>
                        (Inr (Some (JObj [(''email'', JStr email), (''type'', JStr ''sign-in'')])),
                         Some (state\<lparr>ss_email := Some email, ss_reservation := Some reservation\<rparr>),
                         a\<lparr>at_db := d\<rparr>)))
           | _ \<Rightarrow> (Inl BadRequest, st, a)))"

text \<open>\<open>deliver\<close> is the sender; \<open>None\<close> when it throws.\<close>

definition hand_over ::
  "(string \<Rightarrow> string \<Rightarrow> string option \<Rightarrow> delivery_outcome option) \<Rightarrow> string \<Rightarrow> string \<Rightarrow> string option \<Rightarrow>
     auth_state \<Rightarrow> delivery_outcome \<times> auth_state" where
  "hand_over deliver email otp key a =
     (let outcome = (case deliver email otp key of None \<Rightarrow> Unknown | Some r \<Rightarrow> r);
          sent = (observe SendAttempt a)\<lparr>at_mails := at_mails a @ [(email, otp, key)]\<rparr>
      in (outcome, observe (SendOutcome outcome) sent))"

definition record_outcome :: "otp_quota option \<Rightarrow> string option \<Rightarrow> delivery_outcome \<Rightarrow> auth_state \<Rightarrow> auth_state" where
  "record_outcome quota reservation outcome a =
     (case (quota, reservation) of
        (Some q, Some rid) \<Rightarrow>
          (case finishOtp rid (recorded outcome) (at_db a) of
             (Inl _, d) \<Rightarrow> observe SendStorageFailed (a\<lparr>at_db := d\<rparr>)
           | (Inr _, d) \<Rightarrow> a\<lparr>at_db := d\<rparr>)
      | _ \<Rightarrow> a)"

definition remember_delivery :: "string \<Rightarrow> delivery_outcome \<Rightarrow> time \<Rightarrow> auth_state \<Rightarrow> auth_state" where
  "remember_delivery i outcome now a =
     a\<lparr>at_deliveries := (i, outcome, now + 60000) #
        filter (\<lambda>(k, r, expires). expires > now \<and> k \<noteq> i) (at_deliveries a)\<rparr>"

definition claim_reservation ::
  "runtime \<Rightarrow> otp_quota option \<Rightarrow> send_state option \<Rightarrow> string \<Rightarrow> time \<Rightarrow> auth_state \<Rightarrow> unit result \<times> auth_state" where
  "claim_reservation rt quota st email now a =
     (case quota of
        None \<Rightarrow> (Inr (), a)
      | Some q \<Rightarrow>
          (case Option.bind st ss_reservation of
             None \<Rightarrow> (Inl ''otp_send_reservation_missing'', a)
           | Some rid \<Rightarrow>
               (case normalizeAccountEmail rt email of
                  Inl e \<Rightarrow> (Inl e, a)
                | Inr normal \<Rightarrow>
                    if Option.bind st ss_email \<noteq> Some normal then (Inl ''otp_send_reservation_missing'', a)
                    else (case claimOtp rid now (at_db a) of
                      (Inr True, d) \<Rightarrow> (Inr (), a\<lparr>at_db := d\<rparr>)
                    | (_, d) \<Rightarrow> (Inl ''otp_send_unavailable'', observe SendStorageFailed (a\<lparr>at_db := d\<rparr>))))))"

definition sendVerificationOTP ::
  "runtime \<Rightarrow> auth_config \<Rightarrow> (string \<Rightarrow> string \<Rightarrow> string option \<Rightarrow> delivery_outcome option) \<Rightarrow>
     string \<Rightarrow> string \<Rightarrow> string \<Rightarrow> string option \<Rightarrow> time \<Rightarrow> send_state option \<Rightarrow> auth_state \<Rightarrow>
     unit result \<times> auth_state" where
  "sendVerificationOTP rt cfg deliver email otp type header now st a =
     (if type \<noteq> ''sign-in'' then (Inl ''otp_delivery_type_invalid'', a)
      else case header of
        None \<Rightarrow> (Inl ''otp_delivery_context_missing'', a)
      | Some deliveryId \<Rightarrow>
          if \<not> DeliveryIdSchema deliveryId then (Inl ''otp_delivery_context_missing'', a)
          else (case claim_reservation rt (cf_quota cfg) st email now a of
            (Inl e, a') \<Rightarrow> (Inl e, a')
          | (Inr _, a') \<Rightarrow>
              let reservation = Option.bind st ss_reservation;
                  (outcome, handed) = hand_over deliver email otp reservation a';
                  done' = remember_delivery deliveryId outcome now
                    (record_outcome (cf_quota cfg) reservation outcome handed)
              in (if outcome = Rejected then Inl ''otp_delivery_rejected'' else Inr (), done')))"

definition takeDeliveryOutcome :: "string \<Rightarrow> auth_state \<Rightarrow> delivery_outcome option \<times> auth_state" where
  "takeDeliveryOutcome i a =
     (map_option fst (map_of (at_deliveries a) i),
      a\<lparr>at_deliveries := filter (\<lambda>(k, r). k \<noteq> i) (at_deliveries a)\<rparr>)"

text \<open>What \<open>handle\<close> reports after Better Auth answered.\<close>

definition observe_response :: "int \<Rightarrow> string \<Rightarrow> send_state option \<Rightarrow> auth_state \<Rightarrow> auth_state" where
  "observe_response status pathname st a =
     (if status = 429 \<and> map_option ss_limited st \<noteq> Some True \<and> pathname = ''/api/auth'' @ send_path
      then observe (SendLimited ByAddress) a else a)"

section \<open>The environment\<close>

text \<open>\<open>number\<close> is \<open>Number\<close> of a string, when that is an integer.\<close>

definition boundedInteger ::
  "(string \<Rightarrow> int option) \<Rightarrow> environment \<Rightarrow> string \<Rightarrow> int \<Rightarrow> int \<Rightarrow> int \<Rightarrow> int result" where
  "boundedInteger number env name fallback minimum maximum =
     (case env name of
        None \<Rightarrow> Inr fallback
      | Some value \<Rightarrow>
          if value = [] then Inr fallback
          else (case number value of
            None \<Rightarrow> Inl (name @ ''_invalid'')
          | Some parsed \<Rightarrow> if parsed < minimum \<or> parsed > maximum then Inl (name @ ''_invalid'') else Inr parsed))"

definition env_origin :: "runtime \<Rightarrow> environment \<Rightarrow> string option result" where
  "env_origin rt env =
     (case (env ''WEPUU_AUTH_PUBLIC_ORIGIN'', env ''WEPUU_CONTROL_PUBLIC_ORIGIN'') of
        (Some x, Some y) \<Rightarrow>
          and_then (exactHttpsOrigin rt x) (\<lambda>ox. and_then (exactHttpsOrigin rt y) (\<lambda>oy.
            if ox \<noteq> oy then Inl ''account_auth_public_origin_conflict'' else Inr (Some x)))
      | (Some x, None) \<Rightarrow> Inr (Some x)
      | (None, y) \<Rightarrow> Inr y)"

definition env_sender ::
  "runtime \<Rightarrow> file_system \<Rightarrow> environment \<Rightarrow> bool \<Rightarrow> nat option \<Rightarrow> auth_role \<Rightarrow> email_sender result" where
  "env_sender rt fs env production uid role =
     (let mode = (case env ''WEPUU_EMAIL_DELIVERY'' of None \<Rightarrow> ''mock'' | Some m \<Rightarrow> m) in
      if mode \<noteq> ''mock'' \<and> mode \<noteq> ''resend'' then Inl zod_error
      else if production \<and> role = AuthWriter \<and> mode \<noteq> ''resend'' then Inl ''production_email_delivery_required''
      else if mode = ''resend'' \<and> role = AuthWriter then
        (case (env ''WEPUU_RESEND_API_KEY_FILE'', env ''WEPUU_RESEND_FROM'') of
           (Some apiKeyFile, Some sender) \<Rightarrow>
             and_then (loadProtectedFile fs apiKeyFile production uid) (\<lambda>text.
             and_then (ResendOtpEmailSender rt (trim text) sender
                 (case env ''WEPUU_RESEND_REPLY_TO'' of None \<Rightarrow> None | Some r \<Rightarrow> if r = [] then None else Some r))
               (\<lambda>s. Inr (ResendSender s)))
         | _ \<Rightarrow> Inl ''resend_environment_incomplete'')
      else Inr MockOtpEmailSender)"

definition env_limits :: "(string \<Rightarrow> int option) \<Rightarrow> environment \<Rightarrow> otp_limits result" where
  "env_limits number env =
     and_then (boundedInteger number env ''WEPUU_EMAIL_OTP_RECIPIENT_HOURLY_MAX'' 3 1 20) (\<lambda>h.
     and_then (boundedInteger number env ''WEPUU_EMAIL_OTP_RECIPIENT_DAILY_MAX'' 6 1 100) (\<lambda>d.
     and_then (boundedInteger number env ''WEPUU_EMAIL_OTP_GLOBAL_DAILY_MAX'' 100 1 10000) (\<lambda>g.
     validateOtpSendLimits \<lparr>ol_recipient_hour = h, ol_recipient_day = d, ol_global_day = g\<rparr>)))"

text \<open>\<open>decode\<close> and \<open>base64url\<close> are the two directions of the encoding.\<close>

definition env_protection ::
  "runtime \<Rightarrow> (string \<Rightarrow> bytes) \<Rightarrow> (string \<Rightarrow> int option) \<Rightarrow> file_system \<Rightarrow> environment \<Rightarrow> bool \<Rightarrow> nat option \<Rightarrow>
     auth_role \<Rightarrow> send_protection option result" where
  "env_protection rt decode number fs env production uid role =
     (if role \<noteq> AuthWriter then Inr None
      else case env ''WEPUU_EMAIL_OTP_LIMIT_HMAC_KEY_FILE'' of
        None \<Rightarrow> Inl ''otp_send_key_file_required''
      | Some keyFile \<Rightarrow>
          and_then (loadProtectedFile fs keyFile production uid) (\<lambda>text.
          let value = trim text; key = decode value;
              enabled = (case env ''WEPUU_EMAIL_OTP_SEND_ENABLED'' of None \<Rightarrow> ''true'' | Some e \<Rightarrow> e) in
          if length key \<noteq> 32 \<or> base64url rt key \<noteq> value then Inl ''otp_send_key_invalid''
          else if enabled \<noteq> ''true'' \<and> enabled \<noteq> ''false'' then Inl ''otp_send_enabled_invalid''
          else and_then (env_limits number env) (\<lambda>l.
            Inr (Some \<lparr>sp_key = key, sp_limits = Some l, sp_enabled = Some (enabled = ''true'')\<rparr>))))"

definition env_rates :: "(string \<Rightarrow> int option) \<Rightarrow> environment \<Rightarrow> auth_rates result" where
  "env_rates number env =
     and_then (boundedInteger number env ''WEPUU_EMAIL_OTP_SEND_WINDOW_SECONDS'' 60 10 3600) (\<lambda>sw.
     and_then (boundedInteger number env ''WEPUU_EMAIL_OTP_SEND_MAX'' 1 1 10) (\<lambda>sm.
     and_then (boundedInteger number env ''WEPUU_EMAIL_OTP_VERIFY_WINDOW_SECONDS'' 300 10 3600) (\<lambda>vw.
     and_then (boundedInteger number env ''WEPUU_EMAIL_OTP_VERIFY_MAX'' 5 1 20) (\<lambda>vm.
     Inr \<lparr>ra_send_window = sw, ra_send_max = sm, ra_verify_window = vw, ra_verify_max = vm\<rparr>))))"

text \<open>\<open>writable\<close> and \<open>now\<close> are what the check of the remaining budget finds.\<close>

definition accountAuthFromEnvironment ::
  "runtime \<Rightarrow> (string \<Rightarrow> json option) \<Rightarrow> (string \<Rightarrow> bytes) \<Rightarrow> (string \<Rightarrow> int option) \<Rightarrow> file_system \<Rightarrow>
     nat option \<Rightarrow> environment \<Rightarrow> auth_role \<Rightarrow> bool \<Rightarrow> time \<Rightarrow> db \<Rightarrow> auth_config result" where
  "accountAuthFromEnvironment rt parse decode number fs uid env role writable now d =
     and_then (env_origin rt env) (\<lambda>origin.
     case (env ''WEPUU_DATABASE_URL'', origin, env ''WEPUU_ACCOUNT_AUTH_SECRETS_FILE'') of
       (Some databaseUrl, Some publicOrigin, Some secretFile) \<Rightarrow>
         let production = env ''NODE_ENV'' = Some ''production'' in
         and_then (env_sender rt fs env production uid role) (\<lambda>sender.
         and_then (env_protection rt decode number fs env production uid role) (\<lambda>protection.
         and_then (loadAccountAuthSecrets parse fs secretFile production uid) (\<lambda>loaded.
         and_then (env_rates number env) (\<lambda>rates.
         and_then (createAccountAuth rt \<lparr>ao_origin = publicOrigin, ao_secrets = loaded, ao_sender = sender,
             ao_rates = Some rates, ao_role = Some role, ao_protection = protection, ao_quota = None\<rparr>) (\<lambda>cfg.
         case cf_quota cfg of
           None \<Rightarrow> Inr cfg
         | Some q \<Rightarrow>
             (case fst (remainingOtp q writable now d) of
                Inl _ \<Rightarrow> Inl ''otp_send_storage_unavailable'' | Inr _ \<Rightarrow> Inr cfg))))))
     | _ \<Rightarrow> Inl ''account_auth_environment_incomplete'')"

section \<open>Runs of requests\<close>

text \<open>
  Requests begin with their headers, pass the hook, and deliver, in any order and any number of
  times.  \<open>uuid\<close> is the stream of identifiers; the log keeps each reservation with its address.
\<close>

datatype auth_op =
    BeginRequest nat "string option" "string option"
  | RunHook nat string json nat
  | Deliver nat string string string "string option" nat

record auth_run =
  ru_auth :: auth_state
  ru_requests :: "nat \<Rightarrow> send_state option"
  ru_next :: nat
  ru_clock :: time
  ru_log :: "(string \<times> string) list"

definition reserved_by :: "api_error + json option \<Rightarrow> send_state option \<Rightarrow> (string \<times> string) list" where
  "reserved_by r st = (case (r, Option.bind st ss_reservation, Option.bind st ss_email) of
     (Inr (Some body), Some rid, Some e) \<Rightarrow> [(rid, e)] | _ \<Rightarrow> [])"

fun auth_step ::
  "runtime \<Rightarrow> auth_config \<Rightarrow> (nat \<Rightarrow> string) \<Rightarrow> (string \<Rightarrow> string \<Rightarrow> string option \<Rightarrow> delivery_outcome option) \<Rightarrow>
     auth_op \<Rightarrow> auth_run \<Rightarrow> auth_run" where
  "auth_step rt cfg uuid deliver (BeginRequest q origin header) u =
     u\<lparr>ru_requests := (ru_requests u)(q := Some \<lparr>ss_origin = origin, ss_delivery = header,
        ss_reservation = None, ss_email = None, ss_limited = False\<rparr>)\<rparr>"
| "auth_step rt cfg uuid deliver (RunHook q path body elapsed) u =
     (let now = ru_clock u + int elapsed;
          (r, st, a) = beforeSend rt cfg path body (uuid (ru_next u)) now (ru_requests u q) (ru_auth u)
      in u\<lparr>ru_auth := a, ru_requests := (ru_requests u)(q := st), ru_next := ru_next u + 1,
           ru_clock := now, ru_log := ru_log u @ reserved_by r st\<rparr>)"
| "auth_step rt cfg uuid deliver (Deliver q email otp type header elapsed) u =
     (let now = ru_clock u + int elapsed in
      u\<lparr>ru_auth := snd (sendVerificationOTP rt cfg deliver email otp type header now (ru_requests u q) (ru_auth u)),
        ru_clock := now\<rparr>)"

definition spent :: "string \<Rightarrow> otp_row list \<Rightarrow> bool" where
  "spent rid t \<longleftrightarrow> (\<forall>r\<in>set t. otp_id r = rid \<longrightarrow> otp_attempted r \<noteq> None)"

text \<open>How the table moves: keys stay keys, identifiers are old or new, what is spent stays spent.\<close>

definition otp_later :: "string set \<Rightarrow> otp_row list \<Rightarrow> otp_row list \<Rightarrow> bool" where
  "otp_later new t u \<longleftrightarrow> (has_pk otp_id t \<longrightarrow> has_pk otp_id u) \<and>
     otp_id ` set u \<subseteq> otp_id ` set t \<union> new \<and> (\<forall>rid. rid \<notin> new \<longrightarrow> spent rid t \<longrightarrow> spent rid u)"

lemma otp_later_refl [simp]: "otp_later new t t"
  by (simp add: otp_later_def)

lemma otp_later_update:
  "(\<And>r. otp_id (f r) = otp_id r) \<Longrightarrow> (\<And>r. otp_attempted r \<noteq> None \<Longrightarrow> otp_attempted (f r) \<noteq> None) \<Longrightarrow>
     otp_later new t (sql_update P f t)"
  unfolding otp_later_def spent_def ball_sql_update
  by (auto simp: has_pk_update set_sql_update image_image)

lemma otp_later_delete: "otp_later new t (sql_delete P t)"
  by (auto simp: otp_later_def spent_def has_pk_delete)

lemma reserve_later: "otp_later {rid} (otp_rows d) (otp_rows (snd (reserveOtp rt q rid email now d)))"
proof -
  have purge: "otp_later {rid} (otp_rows d) (purge_otp now (otp_rows d))"
    unfolding purge_otp_def by (rule otp_later_delete)
  then have "otp_later {rid} (otp_rows d) u"
    if "sql_insert_checked otp_row_ok otp_id \<lparr>otp_id = rid, otp_recipient = h, otp_reserved = now,
        otp_attempted = None, otp_result = OtpReserved\<rparr> (purge_otp now (otp_rows d)) = Inr u" for h u
    using that by (auto simp: otp_later_def sql_insert_checked_Inr has_pk_def spent_def)
  with purge show ?thesis by (auto simp: reserveOtp_def Let_def split: option.split sum.split)
qed

lemma claim_later: "otp_later new (otp_rows d) (otp_rows (snd (claimOtp rid now d)))"
  by (simp add: claimOtp_def otp_later_update)

lemma claim_spends:
  assumes "has_pk otp_id (otp_rows d)" and "fst (claimOtp rid now d) = Inr True"
  shows "\<not> spent rid (otp_rows d) \<and> spent rid (otp_rows (snd (claimOtp rid now d)))"
proof -
  from assms(2) have "row_count (otp_claimable rid now) (otp_rows d) = 1" by (simp add: claimOtp_def)
  from row_count_pos [OF this] obtain k where k: "k \<in> set (otp_rows d)" "otp_claimable rid now k" by blast
  have "r = k" if "r \<in> set (otp_rows d)" "otp_id r = rid" for r
    using pk_inject [OF assms(1) that(1) k(1)] that(2) k(2) by (simp add: otp_claimable_def)
  with k show ?thesis
    by (auto simp: spent_def claimOtp_def set_sql_update otp_claimable_def)
qed

lemma finish_later: "otp_later new (otp_rows d) (otp_rows (snd (finishOtp rid result d)))"
  by (simp add: finishOtp_def otp_later_update)

lemma observe_simps [simp]:
  "at_db (observe e a) = at_db a" "at_mails (observe e a) = at_mails a"
  by (simp_all add: observe_def)

lemma before_send_step:
  assumes "beforeSend rt cfg path body rid now st a = (r, st', a')"
  shows "at_mails a' = at_mails a \<and> otp_later {rid} (otp_rows (at_db a)) (otp_rows (at_db a')) \<and>
    (map_option (\<lambda>s. (ss_reservation s, ss_email s)) st' = map_option (\<lambda>s. (ss_reservation s, ss_email s)) st \<or>
     (\<exists>s e body'. r = Inr (Some body') \<and> st' = Some s \<and> ss_reservation s = Some rid \<and> ss_email s = Some e))"
proof (cases "path = send_path \<and> \<not> (cf_role cfg = Some AuthReader \<or> cf_enabled cfg = Some False) \<and>
    (\<exists>q state raw email. cf_quota cfg = Some q \<and> st = Some state \<and> send_body body = Some raw \<and>
      \<not> (ss_origin state \<noteq> Some (cf_origin cfg) \<or>
         (case ss_delivery state of None \<Rightarrow> True | Some i \<Rightarrow> \<not> DeliveryIdSchema i)) \<and>
      normalizeAccountEmail rt raw = Inr email)")
  case False
  with assms have "a' = a \<and> st' = st"
    unfolding beforeSend_def by (auto split: if_splits option.splits sum.splits)
  then show ?thesis by simp
next
  case True
  then obtain q state raw email where t: "path = send_path" "\<not> (cf_role cfg = Some AuthReader \<or> cf_enabled cfg = Some False)"
    "cf_quota cfg = Some q" "st = Some state" "send_body body = Some raw"
    "\<not> (ss_origin state \<noteq> Some (cf_origin cfg) \<or>
         (case ss_delivery state of None \<Rightarrow> True | Some i \<Rightarrow> \<not> DeliveryIdSchema i))"
    "normalizeAccountEmail rt raw = Inr email" by blast
  obtain x d where x: "reserveOtp rt q rid email now (at_db a) = (x, d)" by fastforce
  have later: "otp_later {rid} (otp_rows (at_db a)) (otp_rows d)"
    using reserve_later [of rid "at_db a" rt q email now] by (simp add: x)
  have rid: "rid' = rid" if "x = Inr (Allowed rid')" for rid'
    using x that by (auto simp: reserveOtp_def Let_def split: option.splits sum.splits)
  have step: "(r, st', a') = (case (x, d) of
                      (Inl _, d) \<Rightarrow> (Inl ServiceUnavailable, st, observe SendStorageFailed (a\<lparr>at_db := d\<rparr>))
                    | (Inr (Refused dimension seconds), d) \<Rightarrow>
                        (Inl (TooManyRequests seconds), Some (state\<lparr>ss_limited := True\<rparr>),
                         observe (SendLimited (ByQuota dimension)) (a\<lparr>at_db := d\<rparr>))
                    | (Inr (Allowed reservation), d) \<Rightarrow>
                        (Inr (Some (JObj [(''email'', JStr email), (''type'', JStr ''sign-in'')])),
                         Some (state\<lparr>ss_email := Some email, ss_reservation := Some reservation\<rparr>),
                         a\<lparr>at_db := d\<rparr>))"
    unfolding assms [symmetric] beforeSend_def using t by (simp add: x)
  show ?thesis
  proof (cases x)
    case (Inl e)
    with step later show ?thesis by simp
  next
    case (Inr v)
    with step later rid t(4) show ?thesis by (cases v) simp_all
  qed
qed

lemma record_outcome_step:
  "at_mails (record_outcome quota res outcome a) = at_mails a \<and>
   otp_later new (otp_rows (at_db a)) (otp_rows (at_db (record_outcome quota res outcome a)))"
proof (cases "(quota, res)")
  case (Pair x y)
  show ?thesis
  proof (cases "x = None \<or> y = None")
    case False
    then obtain q rid where "quota = Some q" "res = Some rid" using Pair by auto
    with finish_later [of new "at_db a" rid "recorded outcome"] show ?thesis
      by (simp add: record_outcome_def split: prod.split sum.split) auto
  qed (use Pair in \<open>auto simp: record_outcome_def split: option.split\<close>)
qed

lemma otp_later_trans: "otp_later new t u \<Longrightarrow> otp_later new u v \<Longrightarrow> otp_later new t v"
  unfolding otp_later_def by blast

lemma claim_reservation_step:
  assumes "claim_reservation rt (Some q) st email now a = (r, a')" and pk: "has_pk otp_id (otp_rows (at_db a))"
  shows "at_mails a' = at_mails a \<and> otp_later {} (otp_rows (at_db a)) (otp_rows (at_db a')) \<and>
    (r = Inr () \<longrightarrow> (\<exists>s rid e. st = Some s \<and> ss_reservation s = Some rid \<and> ss_email s = Some e \<and>
       normalizeAccountEmail rt email = Inr e \<and> \<not> spent rid (otp_rows (at_db a)) \<and>
       spent rid (otp_rows (at_db a'))))"
proof (cases "\<exists>s rid e. st = Some s \<and> ss_reservation s = Some rid \<and> ss_email s = Some e \<and>
    normalizeAccountEmail rt email = Inr e")
  case False
  with assms(1) show ?thesis
    by (auto simp: claim_reservation_def split: option.splits sum.splits if_splits Option.bind_splits)
next
  case True
  then obtain s rid e where t: "st = Some s" "ss_reservation s = Some rid" "ss_email s = Some e"
    "normalizeAccountEmail rt email = Inr e" by blast
  obtain x d where x: "claimOtp rid now (at_db a) = (x, d)" by fastforce
  have later: "otp_later {} (otp_rows (at_db a)) (otp_rows d)"
    using claim_later [of "{}" "at_db a" rid now] by (simp add: x)
  have "\<exists>b. x = Inr b" using x by (auto simp: claimOtp_def)
  then obtain b where b: "x = Inr b" by blast
  show ?thesis
  proof (cases b)
    case True
    with claim_spends [OF pk, of rid now] x b t later assms(1) show ?thesis
      by (auto simp: claim_reservation_def)
  next
    case False
    with x b t later assms(1) show ?thesis by (auto simp: claim_reservation_def)
  qed
qed

lemma hand_over_step:
  "snd (hand_over deliver email otp key a) = a' \<Longrightarrow>
     at_db a' = at_db a \<and> at_mails a' = at_mails a @ [(email, otp, key)]"
  by (auto simp: hand_over_def Let_def)

lemma remember_simps [simp]:
  "at_db (remember_delivery i out now a) = at_db a" "at_mails (remember_delivery i out now a) = at_mails a"
  by (simp_all add: remember_delivery_def)

lemma send_step:
  assumes quota: "cf_quota cfg = Some q" and pk: "has_pk otp_id (otp_rows (at_db a))"
    and "sendVerificationOTP rt cfg deliver email otp type header now st a = (r, a')"
  shows "otp_later {} (otp_rows (at_db a)) (otp_rows (at_db a')) \<and>
    (at_mails a' = at_mails a \<or>
     (\<exists>s rid e. st = Some s \<and> ss_reservation s = Some rid \<and> ss_email s = Some e \<and>
        normalizeAccountEmail rt email = Inr e \<and> at_mails a' = at_mails a @ [(email, otp, Some rid)] \<and>
        \<not> spent rid (otp_rows (at_db a)) \<and> spent rid (otp_rows (at_db a'))))"
proof (cases "type = ''sign-in'' \<and> (\<exists>i. header = Some i \<and> DeliveryIdSchema i)")
  case False
  with assms(3) show ?thesis by (auto simp: sendVerificationOTP_def split: option.splits if_splits)
next
  case True
  then obtain i where i: "type = ''sign-in''" "header = Some i" "DeliveryIdSchema i" by blast
  obtain x b where c: "claim_reservation rt (Some q) st email now a = (x, b)" by fastforce
  note claim = claim_reservation_step [OF c pk]
  show ?thesis
  proof (cases x)
    case (Inl e)
    with assms(3) i quota c claim show ?thesis by (simp add: sendVerificationOTP_def)
  next
    case (Inr y)
    with claim obtain s rid e where t: "st = Some s" "ss_reservation s = Some rid" "ss_email s = Some e"
      "normalizeAccountEmail rt email = Inr e" "\<not> spent rid (otp_rows (at_db a))"
      "spent rid (otp_rows (at_db b))" by auto
    obtain outcome h where h: "hand_over deliver email otp (Some rid) b = (outcome, h)" by fastforce
    have a': "a' = remember_delivery i outcome now (record_outcome (Some q) (Some rid) outcome h)"
      using assms(3) i quota c Inr t by (simp add: sendVerificationOTP_def h)
    from hand_over_step [of deliver email otp "Some rid" b h] h
    have hb: "at_db h = at_db b" "at_mails h = at_mails b @ [(email, otp, Some rid)]" by simp_all
    have fin: "otp_later {} (otp_rows (at_db b)) (otp_rows (at_db a'))" "at_mails a' = at_mails h"
      using record_outcome_step [of "Some q" "Some rid" outcome h "{}"] by (simp_all add: a' hb)
    have "spent rid (otp_rows (at_db a'))" using fin(1) t(6) by (simp add: otp_later_def)
    moreover have "otp_later {} (otp_rows (at_db a)) (otp_rows (at_db a'))"
      using claim fin(1) otp_later_trans by blast
    ultimately show ?thesis using t fin(2) hb(2) claim by auto
  qed
qed

section \<open>Every mail has its own reservation\<close>

definition mail_backed :: "runtime \<Rightarrow> (string \<times> string) list \<Rightarrow> otp_row list \<Rightarrow> string \<times> string \<times> string option \<Rightarrow> bool" where
  "mail_backed rt log t m \<longleftrightarrow> (case m of (email, otp, key) \<Rightarrow>
     \<exists>rid e. key = Some rid \<and> normalizeAccountEmail rt email = Inr e \<and> (rid, e) \<in> set log \<and> spent rid t)"

definition request_logged :: "(string \<times> string) list \<Rightarrow> send_state option \<Rightarrow> bool" where
  "request_logged log st \<longleftrightarrow> (\<forall>s rid. st = Some s \<longrightarrow> ss_reservation s = Some rid \<longrightarrow>
     (\<exists>e. ss_email s = Some e \<and> (rid, e) \<in> set log))"

definition auth_invar :: "runtime \<Rightarrow> (nat \<Rightarrow> string) \<Rightarrow> auth_run \<Rightarrow> bool" where
  "auth_invar rt uuid u \<longleftrightarrow>
     has_pk otp_id (otp_rows (at_db (ru_auth u))) \<and>
     otp_id ` set (otp_rows (at_db (ru_auth u))) \<subseteq> uuid ` {..<ru_next u} \<and>
     fst ` set (ru_log u) \<subseteq> uuid ` {..<ru_next u} \<and>
     (\<forall>q. request_logged (ru_log u) (ru_requests u q)) \<and>
     (\<forall>m\<in>set (at_mails (ru_auth u)). mail_backed rt (ru_log u) (otp_rows (at_db (ru_auth u))) m) \<and>
     distinct (map (\<lambda>m. snd (snd m)) (at_mails (ru_auth u)))"

lemma mail_backed_later:
  "mail_backed rt log t m \<Longrightarrow> otp_later new t u \<Longrightarrow> fst ` set log \<inter> new = {} \<Longrightarrow> set log \<subseteq> set log' \<Longrightarrow>
     mail_backed rt log' u m"
  by (fastforce simp: mail_backed_def otp_later_def split: prod.splits)

lemma request_logged_more: "request_logged log st \<Longrightarrow> set log \<subseteq> set log' \<Longrightarrow> request_logged log' st"
  by (fastforce simp: request_logged_def)

lemma request_logged_same:
  "request_logged log st \<Longrightarrow>
     map_option (\<lambda>s. (ss_reservation s, ss_email s)) st' = map_option (\<lambda>s. (ss_reservation s, ss_email s)) st \<Longrightarrow>
     request_logged log st' \<and> set (reserved_by r st') \<subseteq> set log"
  by (cases st; cases st')
    (auto simp: request_logged_def reserved_by_def split: sum.split option.split dest!: sym [of "Some _"])

lemma hook_invar:
  assumes "auth_invar rt uuid u" and inj: "inj uuid"
  shows "auth_invar rt uuid (auth_step rt cfg uuid deliver (RunHook q path body elapsed) u)"
proof -
  let ?id = "uuid (ru_next u)" and ?now = "ru_clock u + int elapsed"
  let ?t = "otp_rows (at_db (ru_auth u))" and ?ids = "uuid ` {..<ru_next u}"
  obtain r st a where b: "beforeSend rt cfg path body ?id ?now (ru_requests u q) (ru_auth u) = (r, st, a)"
    by (metis prod_cases3)
  let ?log = "ru_log u @ reserved_by r st"
  have inv: "has_pk otp_id ?t" "otp_id ` set ?t \<subseteq> ?ids" "fst ` set (ru_log u) \<subseteq> ?ids"
    "request_logged (ru_log u) (ru_requests u q')"
    "\<forall>m\<in>set (at_mails (ru_auth u)). mail_backed rt (ru_log u) ?t m"
    "distinct (map (\<lambda>m. snd (snd m)) (at_mails (ru_auth u)))" for q'
    using assms(1) by (simp_all add: auth_invar_def)
  from before_send_step [OF b] have mails: "at_mails a = at_mails (ru_auth u)"
    and later: "otp_later {?id} ?t (otp_rows (at_db a))"
    and st: "map_option (\<lambda>s. (ss_reservation s, ss_email s)) st =
        map_option (\<lambda>s. (ss_reservation s, ss_email s)) (ru_requests u q) \<or>
      (\<exists>s e body'. r = Inr (Some body') \<and> st = Some s \<and> ss_reservation s = Some ?id \<and> ss_email s = Some e)" by blast+
  have fresh: "?id \<notin> ?ids" using inj by (auto dest: injD)
  have more: "?ids \<union> {?id} \<subseteq> uuid ` {..<Suc (ru_next u)}" by (auto simp: lessThan_Suc)
  have rows: "has_pk otp_id (otp_rows (at_db a))" "otp_id ` set (otp_rows (at_db a)) \<subseteq> uuid ` {..<Suc (ru_next u)}"
    using later inv(1,2) more unfolding otp_later_def by blast+
  have "fst ` set (reserved_by r st) \<subseteq> ?ids \<union> {?id} \<and> request_logged ?log st"
    using st
  proof
    assume same: "map_option (\<lambda>s. (ss_reservation s, ss_email s)) st =
        map_option (\<lambda>s. (ss_reservation s, ss_email s)) (ru_requests u q)"
    from request_logged_same [OF inv(4) this, of r] have "request_logged (ru_log u) st"
      and sub: "set (reserved_by r st) \<subseteq> set (ru_log u)" by simp_all
    from image_mono [OF sub, of fst] inv(3) request_logged_more [OF this(1), of ?log] show ?thesis by auto
  next
    assume "\<exists>s e body'. r = Inr (Some body') \<and> st = Some s \<and> ss_reservation s = Some ?id \<and> ss_email s = Some e"
    then show ?thesis by (auto simp: reserved_by_def request_logged_def)
  qed
  then have log: "fst ` set ?log \<subseteq> uuid ` {..<Suc (ru_next u)}" and req: "request_logged ?log st"
    unfolding set_append image_Un using inv(3) more by blast+
  have "fst ` set (ru_log u) \<inter> {?id} = {}" using contra_subsetD [OF inv(3) fresh] by simp
  then have backed: "\<forall>m\<in>set (at_mails a). mail_backed rt ?log (otp_rows (at_db a)) m"
    unfolding mails using inv(5) mail_backed_later [OF _ later, of rt "ru_log u" _ ?log] by simp
  have "request_logged ?log (ru_requests u q')" for q'
    using inv(4) by (rule request_logged_more) simp
  with rows log req backed inv(6) show ?thesis
    by (simp add: auth_invar_def b mails Let_def)
qed

lemma deliver_invar:
  assumes "auth_invar rt uuid u" and quota: "cf_quota cfg = Some qu"
  shows "auth_invar rt uuid (auth_step rt cfg uuid deliver (Deliver q email otp type header elapsed) u)"
proof -
  let ?now = "ru_clock u + int elapsed" and ?t = "otp_rows (at_db (ru_auth u))"
  obtain r a where s: "sendVerificationOTP rt cfg deliver email otp type header ?now (ru_requests u q) (ru_auth u) = (r, a)"
    by fastforce
  have inv: "has_pk otp_id ?t" "otp_id ` set ?t \<subseteq> uuid ` {..<ru_next u}" "fst ` set (ru_log u) \<subseteq> uuid ` {..<ru_next u}"
    "request_logged (ru_log u) (ru_requests u q')"
    "\<forall>m\<in>set (at_mails (ru_auth u)). mail_backed rt (ru_log u) ?t m"
    "distinct (map (\<lambda>m. snd (snd m)) (at_mails (ru_auth u)))" for q'
    using assms(1) by (simp_all add: auth_invar_def)
  note step = send_step [OF quota inv(1) s]
  then have later: "otp_later {} ?t (otp_rows (at_db a))" by blast
  have rows: "has_pk otp_id (otp_rows (at_db a))" "otp_id ` set (otp_rows (at_db a)) \<subseteq> uuid ` {..<ru_next u}"
    using later inv(1,2) unfolding otp_later_def by blast+
  have old: "\<forall>m\<in>set (at_mails (ru_auth u)). mail_backed rt (ru_log u) (otp_rows (at_db a)) m"
    using inv(5) mail_backed_later [OF _ later, of rt "ru_log u" _ "ru_log u"] by auto
  have "(\<forall>m\<in>set (at_mails a). mail_backed rt (ru_log u) (otp_rows (at_db a)) m) \<and>
      distinct (map (\<lambda>m. snd (snd m)) (at_mails a))"
    using step [THEN conjunct2]
  proof
    assume "at_mails a = at_mails (ru_auth u)"
    with old inv(6) show ?thesis by simp
  next
    assume "\<exists>s rid e. ru_requests u q = Some s \<and> ss_reservation s = Some rid \<and> ss_email s = Some e \<and>
        normalizeAccountEmail rt email = Inr e \<and> at_mails a = at_mails (ru_auth u) @ [(email, otp, Some rid)] \<and>
        \<not> spent rid ?t \<and> spent rid (otp_rows (at_db a))"
    then obtain s rid e where t: "ru_requests u q = Some s" "ss_reservation s = Some rid" "ss_email s = Some e"
      "normalizeAccountEmail rt email = Inr e" "at_mails a = at_mails (ru_auth u) @ [(email, otp, Some rid)]"
      "\<not> spent rid ?t" "spent rid (otp_rows (at_db a))" by blast
    have "(rid, e) \<in> set (ru_log u)" using inv(4) [of q] t(1-3) by (auto simp: request_logged_def)
    moreover have "Some rid \<notin> (\<lambda>m. snd (snd m)) ` set (at_mails (ru_auth u))"
    proof
      assume "Some rid \<in> (\<lambda>m. snd (snd m)) ` set (at_mails (ru_auth u))"
      then obtain email' otp' where "(email', otp', Some rid) \<in> set (at_mails (ru_auth u))" by auto
      with inv(5) have "spent rid ?t" by (fastforce simp: mail_backed_def)
      with t(6) show False by simp
    qed
    ultimately show ?thesis using t old inv(6) by (auto simp: mail_backed_def)
  qed
  with rows inv(3,4) show ?thesis by (simp add: auth_invar_def s Let_def)
qed

lemma auth_step_invar:
  assumes "cf_quota cfg = Some qu" and "inj uuid" and "auth_invar rt uuid u"
  shows "auth_invar rt uuid (auth_step rt cfg uuid deliver x u)"
proof (cases x)
  case (BeginRequest q origin header)
  with assms(3) show ?thesis by (simp add: auth_invar_def request_logged_def)
next
  case (RunHook q path body elapsed)
  with hook_invar [OF assms(3,2)] show ?thesis by simp
next
  case (Deliver q email otp type header elapsed)
  with deliver_invar [OF assms(3,1)] show ?thesis by simp
qed

interpretation codes: state_machine "auth_step rt cfg uuid deliver" "\<lambda>_. True"
    "\<lambda>u. cf_quota cfg \<noteq> None \<and> inj uuid \<and> auth_invar rt uuid u" for rt cfg uuid deliver
  by unfold_locales (auto intro: auth_step_invar)

definition start_run :: "auth_state \<Rightarrow> time \<Rightarrow> auth_run" where
  "start_run a now = \<lparr>ru_auth = a, ru_requests = (\<lambda>_. None), ru_next = 0, ru_clock = now, ru_log = []\<rparr>"

lemma start_invar: "otp_rows (at_db a) = [] \<Longrightarrow> at_mails a = [] \<Longrightarrow> auth_invar rt uuid (start_run a now)"
  by (simp add: auth_invar_def start_run_def request_logged_def has_pk_def)

section \<open>Addresses and configuration\<close>

lemma dropWhile_trimmed: "s \<noteq> [] \<Longrightarrow> \<not> P (hd s) \<Longrightarrow> dropWhile P s = s"
  by (cases s) simp_all

lemma trim_hd: "trim s \<noteq> [] \<Longrightarrow> \<not> is_space (hd (trim s)) \<and> \<not> is_space (last (trim s))"
proof -
  assume ne: "trim s \<noteq> []"
  let ?d = "dropWhile is_space s" and ?r = "dropWhile is_space (rev (dropWhile is_space s))"
  from ne have r: "?r \<noteq> []" by (simp add: trim_def)
  then have d: "?d \<noteq> []" by (metis dropWhile.simps(1) rev.simps(1))
  have "\<not> is_space (hd ?r)" using r by (rule hd_dropWhile)
  moreover have "last ?r = hd ?d"
    using r d by (metis append_Nil2 last_appendR last_rev rev_is_Nil_conv takeWhile_dropWhile_id)
  moreover have "\<not> is_space (hd ?d)" using d by (rule hd_dropWhile)
  ultimately show ?thesis using r by (simp add: trim_def hd_rev last_rev)
qed

lemma lower_latin_space [simp]: "is_space (lower_latin c) \<longleftrightarrow> is_space c"
proof (cases "(65 \<le> (of_char c :: nat) \<and> (of_char c :: nat) \<le> 90) \<or>
    (192 \<le> (of_char c :: nat) \<and> (of_char c :: nat) \<le> 222 \<and> (of_char c :: nat) \<noteq> 215)")
  case True
  then have "(of_char (char_of ((of_char c :: nat) + 32) :: char) :: nat) = of_char c + 32"
    by (auto simp: of_char_of)
  with True show ?thesis by (auto simp: lower_latin_def is_space_def Let_def)
qed (auto simp: lower_latin_def Let_def)

lemma lower_latin_idem [simp]: "lower_latin (lower_latin c) = lower_latin c"
proof (cases "(65 \<le> (of_char c :: nat) \<and> (of_char c :: nat) \<le> 90) \<or>
    (192 \<le> (of_char c :: nat) \<and> (of_char c :: nat) \<le> 222 \<and> (of_char c :: nat) \<noteq> 215)")
  case True
  then have "(of_char (char_of ((of_char c :: nat) + 32) :: char) :: nat) = of_char c + 32"
    by (auto simp: of_char_of)
  with True show ?thesis by (auto simp: lower_latin_def Let_def)
qed (auto simp: lower_latin_def Let_def)

lemma trim_trimmed: "(s \<noteq> [] \<Longrightarrow> \<not> is_space (hd s) \<and> \<not> is_space (last s)) \<Longrightarrow> trim s = s"
  by (cases "s = []") (simp_all add: trim_def dropWhile_trimmed hd_rev)

lemma normalize_idem: "trim (map lower_latin (trim s)) = map lower_latin (trim s)"
  by (rule trim_trimmed) (use trim_hd [of s] in \<open>auto simp: hd_map last_map\<close>)

lemma loaded_quota:
  assumes "createAccountAuth rt opts = Inr cfg" and "ao_quota opts = None" and "ao_protection opts = Some p"
  shows "cf_sender cfg = ao_sender opts \<and> cf_role cfg = ao_role opts \<and>
    (\<exists>q. cf_quota cfg = Some q \<and> length (oq_key q) = 32 \<and> validateOtpSendLimits (oq_limits q) = Inr (oq_limits q)) \<and>
    exactHttpsOrigin rt (ao_origin opts) = Inr (cf_origin cfg)"
proof -
  from assms(1) obtain publicOrigin ss quota where o: "exactHttpsOrigin rt (ao_origin opts) = Inr publicOrigin"
    and quota: "auth_quota opts = Inr quota"
    and cfg: "cfg = \<lparr>cf_origin = publicOrigin, cf_secrets = ss, cf_sender = ao_sender opts,
       cf_rates = (case ao_rates opts of None \<Rightarrow> defaultRateLimit | Some r \<Rightarrow> r), cf_role = ao_role opts,
       cf_enabled = Option.bind (ao_protection opts) sp_enabled, cf_quota = quota\<rparr>"
    unfolding createAccountAuth_def by (auto simp: succ_simps)
  from quota assms(2,3) obtain q where q: "quota = Some q" and mk: "\<exists>l. PostgresOtpSendQuota (sp_key p) l = Inr q"
    by (auto simp: auth_quota_def and_then_Inr)
  from mk have "length (oq_key q) = 32 \<and> validateOtpSendLimits (oq_limits q) = Inr (oq_limits q)"
    by (auto simp: PostgresOtpSendQuota_def and_then_Inr validateOtpSendLimits_def split: if_splits)
  with o q show ?thesis by (simp add: cfg)
qed

section \<open>Properties\<close>

text \<open>
  C12. A code is mailed only on a reservation of its own: however requests begin, pass the hook and ask
  for deliveries, no two mails carry the same reservation, and each was reserved for the address it
  is sent to.
\<close>

theorem mail_needs_reservation:
  assumes "cf_quota cfg \<noteq> None" and "inj uuid" and "otp_rows (at_db a) = []" and "at_mails a = []"
    and u: "u = fold (auth_step rt cfg uuid deliver) ops (start_run a now)"
  shows "distinct (map (\<lambda>m. snd (snd m)) (at_mails (ru_auth u))) \<and>
    (\<forall>(email, otp, key)\<in>set (at_mails (ru_auth u)). \<exists>rid e. key = Some rid \<and>
       normalizeAccountEmail rt email = Inr e \<and> (rid, e) \<in> set (ru_log u))"
proof -
  have "cf_quota cfg \<noteq> None \<and> inj uuid \<and> auth_invar rt uuid (start_run a now)"
    using assms(1,2) start_invar [OF assms(3,4)] by simp
  then have "auth_invar rt uuid u"
    unfolding u by (rule codes.run_inv [THEN conjunct2, THEN conjunct2]) (simp add: list_all_iff)
  then show ?thesis by (auto simp: auth_invar_def mail_backed_def)
qed

text \<open>
  Normalising an address twice is normalising it once, so the reservation and the delivery of one
  request agree on who the recipient is.
\<close>

theorem normalize_email_idempotent:
  assumes "normalizeAccountEmail rt input = Inr e"
  shows "normalizeAccountEmail rt e = Inr e"
  using assms by (auto simp: normalizeAccountEmail_def Let_def normalize_idem comp_def split: if_splits)

text \<open>
  The secrets handed to Better Auth are the ones given, newest first with no version twice; so a
  secret that was current stays readable after a newer one is added.
\<close>

theorem secrets_ordered:
  assumes "validateSecrets input = Inr out"
  shows "sorted_wrt (\<lambda>a b. sc_version a > sc_version b) out \<and> set out = set input \<and> out \<noteq> [] \<and>
    (\<forall>s\<in>set out. 32 \<le> length (sc_value s) \<and> 0 < sc_version s)"
proof -
  from assms have ok: "SecretKeyringSchema input" "distinct (map sc_version input)"
    and out: "out = sort_key (\<lambda>s. - sc_version s) input"
    by (auto simp: validateSecrets_def split: if_splits)
  have "sorted (map (\<lambda>s. - sc_version s) out)" by (simp add: out)
  moreover have "distinct (map (\<lambda>s. - sc_version s) out)"
    using ok(2) by (auto simp: out distinct_map inj_on_def)
  ultimately have "sorted_wrt (<) (map (\<lambda>s. - sc_version s) out)" by (simp add: strict_sorted_iff)
  then have "sorted_wrt (\<lambda>a b. sc_version a > sc_version b) out" by (simp add: sorted_wrt_map)
  moreover have "out \<noteq> []"
    using ok(1) unfolding out SecretKeyringSchema_def length_greater_0_conv [symmetric] length_sort by (cases input) simp_all
  ultimately show ?thesis
    using ok(1) by (simp add: out SecretKeyringSchema_def list_all_iff secret_ok_def)
qed

text \<open>
  In production the writer always mails through Resend and never without a quota: its key has 32
  bytes, its limits are within their bounds, and the origin is an exact https origin.
\<close>

theorem production_writer_protected:
  assumes "accountAuthFromEnvironment rt parse decode number fs uid env AuthWriter writable now d = Inr cfg"
    and "env ''NODE_ENV'' = Some ''production''"
  shows "(\<exists>s. cf_sender cfg = ResendSender s) \<and> cf_role cfg = Some AuthWriter \<and>
    (\<exists>q. cf_quota cfg = Some q \<and> length (oq_key q) = 32 \<and>
       validateOtpSendLimits (oq_limits q) = Inr (oq_limits q)) \<and>
    (\<exists>origin. exactHttpsOrigin rt origin = Inr (cf_origin cfg))"
proof -
  from assms(1) obtain publicOrigin sender protection loaded rates
    where sender: "env_sender rt fs env True uid AuthWriter = Inr sender"
    and protection: "env_protection rt decode number fs env True uid AuthWriter = Inr protection"
    and create: "createAccountAuth rt \<lparr>ao_origin = publicOrigin, ao_secrets = loaded, ao_sender = sender,
             ao_rates = Some rates, ao_role = Some AuthWriter, ao_protection = protection, ao_quota = None\<rparr> = Inr cfg"
    unfolding accountAuthFromEnvironment_def using assms(2)
    by (auto simp: succ_simps)
  have "\<exists>s. sender = ResendSender s"
    using sender by (auto simp: env_sender_def Let_def succ_simps split: if_splits option.splits)
  moreover have "\<exists>p. protection = Some p"
    using protection by (auto simp: env_protection_def Let_def succ_simps)
  ultimately obtain s p where sp: "sender = ResendSender s" "protection = Some p" by blast
  from loaded_quota [OF create] sp show ?thesis by auto
qed

section \<open>Examples\<close>

definition sample_auth_config :: auth_config where
  "sample_auth_config = \<lparr>cf_origin = ''https://a.example'', cf_secrets = [], cf_sender = MockOtpEmailSender,
     cf_rates = defaultRateLimit, cf_role = Some AuthWriter, cf_enabled = Some True,
     cf_quota = Some sample_quota\<rparr>"

definition sample_uuid :: "nat \<Rightarrow> string" where
  "sample_uuid n = replicate n CHR ''u''"

definition sample_auth_ops :: "auth_op list" where
  "sample_auth_ops =
     [BeginRequest 0 (Some ''https://a.example'') (Some ''delivery-0000-0001''),
      RunHook 0 send_path (JObj [(''email'', JStr '' A@b.example ''), (''type'', JStr ''sign-in'')]) 5,
      Deliver 0 ''a@b.example'' ''123456'' ''sign-in'' (Some ''delivery-0000-0001'') 5,
      Deliver 0 ''a@b.example'' ''123456'' ''sign-in'' (Some ''delivery-0000-0001'') 5]"

definition sample_auth_run :: auth_run where
  "sample_auth_run = fold (auth_step sample_runtime sample_auth_config sample_uuid (\<lambda>_ _ _. Some Accepted))
     sample_auth_ops (start_run \<lparr>at_db = empty_db, at_events = [], at_deliveries = [], at_mails = []\<rparr> 1000)"

lemma sample_mails: "at_mails (ru_auth sample_auth_run) = [(''a@b.example'', ''123456'', Some [])]"
  by code_simp

theorem mail_needs_reservation_witness:
  "at_mails (ru_auth sample_auth_run) \<noteq> [] \<and>
   distinct (map (\<lambda>m. snd (snd m)) (at_mails (ru_auth sample_auth_run)))"
proof -
  have "cf_quota sample_auth_config \<noteq> None" "inj sample_uuid"
    by (auto simp: sample_auth_config_def sample_uuid_def inj_def dest: arg_cong [where f = length])
  from mail_needs_reservation [OF this _ _ sample_auth_run_def] sample_mails show ?thesis
    by (simp add: empty_db_def)
qed

theorem normalize_email_idempotent_witness:
  "normalizeAccountEmail sample_runtime ''a@b.example'' = Inr ''a@b.example''"
proof -
  have "normalizeAccountEmail sample_runtime '' A@B.example '' = Inr ''a@b.example''" by code_simp
  then show ?thesis by (rule normalize_email_idempotent)
qed

definition sample_secrets :: "account_secret list" where
  "sample_secrets = [\<lparr>sc_version = 1, sc_value = replicate 32 CHR ''s''\<rparr>,
     \<lparr>sc_version = 2, sc_value = replicate 32 CHR ''t''\<rparr>]"

theorem secrets_ordered_witness:
  "sorted_wrt (\<lambda>a b. sc_version a > sc_version b) (rev sample_secrets)"
proof -
  have "validateSecrets sample_secrets = Inr (rev sample_secrets)" by code_simp
  from secrets_ordered [OF this] show ?thesis by blast
qed

definition sample_host :: file_system where
  "sample_host p = map_option (\<lambda>text. \<lparr>fi_file = True, fi_symlink = False, fi_size = 10, fi_mode = 384,
     fi_owner = 7, fi_text = text\<rparr>)
     (map_of [(''/s/secrets'', ''{}''), (''/s/resend'', replicate 16 CHR ''r''), (''/s/hmac'', pad32 ''k'')] p)"

definition sample_host_env :: environment where
  "sample_host_env = map_of
     [(''NODE_ENV'', ''production''), (''WEPUU_DATABASE_URL'', ''postgres''),
      (''WEPUU_AUTH_PUBLIC_ORIGIN'', ''https://a.example''), (''WEPUU_ACCOUNT_AUTH_SECRETS_FILE'', ''/s/secrets''),
      (''WEPUU_EMAIL_DELIVERY'', ''resend''), (''WEPUU_RESEND_API_KEY_FILE'', ''/s/resend''),
      (''WEPUU_RESEND_FROM'', ''WePuu <code@a.example>''), (''WEPUU_EMAIL_OTP_LIMIT_HMAC_KEY_FILE'', ''/s/hmac'')]"

definition sample_secret_json :: json where
  "sample_secret_json = JObj [(''secrets'', JArr [JObj [(''version'', JInt 1),
     (''value'', JStr (replicate 32 CHR ''s''))]])]"

definition sample_loaded :: "auth_config result" where
  "sample_loaded = accountAuthFromEnvironment sample_runtime (\<lambda>_. Some sample_secret_json) id (\<lambda>_. None)
     sample_host (Some 7) sample_host_env AuthWriter True 1000 empty_db"

lemma sample_loaded_ok: "is_ok sample_loaded"
  by code_simp

theorem production_writer_protected_witness:
  "cf_role (projr sample_loaded) = Some AuthWriter \<and> cf_sender (projr sample_loaded) \<noteq> MockOtpEmailSender"
proof -
  have "accountAuthFromEnvironment sample_runtime (\<lambda>_. Some sample_secret_json) id (\<lambda>_. None)
     sample_host (Some 7) sample_host_env AuthWriter True 1000 empty_db = Inr (projr sample_loaded)"
    using sample_loaded_ok by (auto simp: is_ok_iff sample_loaded_def)
  from production_writer_protected [OF this] show ?thesis by (auto simp: sample_host_env_def)
qed

end
