(* ===== verification/Platform_UI.thy ===== *)
theory Platform_UI
  imports Directory Host_Files
begin

text \<open>
  The public deployment configuration, its readiness report, and the pages
  (packages/platform-ui).  Pages are their UTF-8 bytes.  The style sheet is not modelled.
\<close>

lemma ok_value: "is_ok r \<Longrightarrow> r = Inr (projr r)"
  by (cases r) simp_all

section \<open>Configuration\<close>

datatype deployment_mode = ModeLocal | ModeTest | ModeStaging | ModeProduction

record deployment_config =
  dp_mode :: deployment_mode
  dp_product :: string
  dp_origin :: string
  dp_legal :: string
  dp_terms :: "string option"
  dp_privacy :: "string option"
  dp_support :: "string option"
  dp_status :: "string option"
  dp_region :: string
  dp_proxies :: "string list"
  dp_version :: string
  dp_revision :: string
  dp_identity :: string
  dp_retention :: string
  dp_compatibility :: string

definition DeploymentModeSchema :: "string \<Rightarrow> deployment_mode result" where
  "DeploymentModeSchema m =
     (if m = ''local'' then Inr ModeLocal else if m = ''test'' then Inr ModeTest
      else if m = ''staging'' then Inr ModeStaging else if m = ''production'' then Inr ModeProduction
      else Inl zod_error)"

definition publicHttpsOrigin :: "runtime \<Rightarrow> string \<Rightarrow> string result" where
  "publicHttpsOrigin rt v =
     (case parse_url rt v of
        None \<Rightarrow> Inl ''Invalid URL''
      | Some u \<Rightarrow> if \<not> origin_only u then Inl ''public_origin_invalid'' else Inr (url_origin u))"

text \<open>\<open>is_ip\<close> is \<open>isIP\<close> of node:net, \<open>number\<close> is \<open>Number\<close> of a string when that is an integer.\<close>

definition proxy_cidr_ok :: "(string \<Rightarrow> nat) \<Rightarrow> (string \<Rightarrow> int option) \<Rightarrow> string \<Rightarrow> bool" where
  "proxy_cidr_ok is_ip number v =
     (case split_on CHR ''/'' v of
        [address] \<Rightarrow> is_ip address \<noteq> 0
      | [address, prefix] \<Rightarrow> is_ip address \<noteq> 0 \<and>
          (case number prefix of None \<Rightarrow> False
           | Some n \<Rightarrow> 0 \<le> n \<and> n \<le> (if is_ip address = 4 then 32 else 128))
      | _ \<Rightarrow> False)"

definition parseTrustedProxyCidrs ::
  "(string \<Rightarrow> json option) \<Rightarrow> (string \<Rightarrow> nat) \<Rightarrow> (string \<Rightarrow> int option) \<Rightarrow> string option \<Rightarrow> string list result" where
  "parseTrustedProxyCidrs parse is_ip number serialized =
     (case serialized of
        None \<Rightarrow> Inr []
      | Some text \<Rightarrow>
          if text = [] then Inr []
          else case parse text of
            None \<Rightarrow> Inl ''SyntaxError''
          | Some j \<Rightarrow>
              and_then (parse_or_throw (z_array (z_str (\<lambda>s. 1 \<le> length s \<and> length s \<le> 64))
                  (\<lambda>xs. length xs \<le> 32) (Some j))) (\<lambda>vs.
              if list_all (proxy_cidr_ok is_ip number) vs then Inr vs else Inl ''trusted_proxy_cidr_invalid''))"

definition optionalHttps :: "runtime \<Rightarrow> environment \<Rightarrow> string \<Rightarrow> string option result" where
  "optionalHttps rt env name =
     (case env name of
        None \<Rightarrow> Inr None
      | Some v \<Rightarrow>
          if v = [] then Inr None
          else if zod_url rt v \<and> (case parse_url rt v of None \<Rightarrow> False | Some u \<Rightarrow> url_protocol u = ''https:'')
          then Inr (Some v) else Inl zod_error)"

definition env_text :: "environment \<Rightarrow> string \<Rightarrow> string \<Rightarrow> nat \<Rightarrow> string result" where
  "env_text env name fallback maximum =
     (let v = (case env name of None \<Rightarrow> fallback | Some v \<Rightarrow> v)
      in if 1 \<le> length v \<and> length v \<le> maximum then Inr v else Inl zod_error)"

definition release_version :: "string \<Rightarrow> bool" where
  "release_version s \<longleftrightarrow>
     (let core = takeWhile (\<lambda>c. c \<noteq> CHR ''-'') s; rest = drop (length core) s
      in semantic_version core \<and>
         (rest = [] \<or> 2 \<le> length rest \<and>
           list_all (char_in [(48, 57), (65, 90), (97, 122), (46, 46), (45, 45)]) (tl rest)))"

definition release_revision :: "string \<Rightarrow> bool" where
  "release_revision s \<longleftrightarrow> rx [(48, 57), (97, 102)] 7 64 s"

definition calendar_date :: "string \<Rightarrow> bool" where
  "calendar_date s \<longleftrightarrow> (case split_on CHR ''-'' s of
     [y, m, d] \<Rightarrow> rx digit_class 4 4 y \<and> rx digit_class 2 2 m \<and> rx digit_class 2 2 d | _ \<Rightarrow> False)"

definition calendar_month :: "string \<Rightarrow> bool" where
  "calendar_month s \<longleftrightarrow> (case split_on CHR ''-'' s of
     [y, m] \<Rightarrow> rx digit_class 4 4 y \<and> rx digit_class 2 2 m | _ \<Rightarrow> False)"

definition placeholderHost :: "(string \<Rightarrow> nat) \<Rightarrow> string \<Rightarrow> bool" where
  "placeholderHost is_ip h \<longleftrightarrow> h = ''localhost'' \<or> is_ip h \<noteq> 0 \<or> h = ''example.test'' \<or>
     ends_with h ''.example.test'' \<or> ends_with h ''.test'' \<or> ends_with h ''.example'' \<or> ends_with h ''.invalid''"

definition release_url :: "runtime \<Rightarrow> (string \<Rightarrow> nat) \<Rightarrow> string option \<Rightarrow> bool" where
  "release_url rt is_ip v \<longleftrightarrow> (case Option.bind v (parse_url rt) of
     None \<Rightarrow> False | Some u \<Rightarrow> \<not> placeholderHost is_ip (url_hostname u))"

definition env_given :: "environment \<Rightarrow> string \<Rightarrow> nat \<Rightarrow> bool" where
  "env_given env name minimum \<longleftrightarrow> (case env name of None \<Rightarrow> False | Some v \<Rightarrow> minimum \<le> length v)"

definition is_release :: "deployment_mode \<Rightarrow> bool" where
  "is_release m \<longleftrightarrow> m = ModeStaging \<or> m = ModeProduction"

text \<open>What a staging or production deployment must have set.\<close>

definition release_complete :: "runtime \<Rightarrow> (string \<Rightarrow> nat) \<Rightarrow> environment \<Rightarrow> deployment_config \<Rightarrow> bool" where
  "release_complete rt is_ip env c \<longleftrightarrow>
     list_all (release_url rt is_ip) [Some (dp_origin c), dp_terms c, dp_privacy c, dp_support c, dp_status c] \<and>
     dp_legal c \<noteq> ''Provider details pending'' \<and> dp_region c \<noteq> ''Not selected'' \<and> dp_proxies c \<noteq> [] \<and>
     release_version (dp_version c) \<and> release_revision (dp_revision c) \<and>
     dp_identity c \<noteq> ''Identity provider pending'' \<and> calendar_date (dp_retention c) \<and>
     calendar_month (dp_compatibility c) \<and>
     env_given env ''WEPUU_SIGNING_KEYRING_FILE'' 1 \<and> env_given env ''WEPUU_SIGNING_KEY_SLOT'' 1"

definition configured_origin :: "runtime \<Rightarrow> environment \<Rightarrow> string option result" where
  "configured_origin rt env =
     (case (env ''WEPUU_APP_PUBLIC_ORIGIN'', env ''WEPUU_CONTROL_PUBLIC_ORIGIN'') of
        (Some a, Some b) \<Rightarrow>
          and_then (publicHttpsOrigin rt a) (\<lambda>x. and_then (publicHttpsOrigin rt b) (\<lambda>y.
            if x \<noteq> y then Inl ''app_public_origin_conflict'' else Inr (Some a)))
      | (Some a, None) \<Rightarrow> Inr (Some a)
      | (None, b) \<Rightarrow> Inr b)"

definition public_origin :: "runtime \<Rightarrow> string option \<Rightarrow> string option \<Rightarrow> string result" where
  "public_origin rt required configured =
     and_then (publicHttpsOrigin rt (case required of Some r \<Rightarrow> r | None \<Rightarrow>
         (case configured of Some c \<Rightarrow> c | None \<Rightarrow> ''https://platform.example.test''))) (\<lambda>origin.
     case (required, configured) of
       (Some r, Some c) \<Rightarrow>
         and_then (publicHttpsOrigin rt c) (\<lambda>y. if origin \<noteq> y then Inl ''public_origin_mismatch'' else Inr origin)
     | _ \<Rightarrow> Inr origin)"

definition loadPublicDeploymentConfig ::
  "runtime \<Rightarrow> (string \<Rightarrow> json option) \<Rightarrow> (string \<Rightarrow> nat) \<Rightarrow> (string \<Rightarrow> int option) \<Rightarrow> environment \<Rightarrow>
     string option \<Rightarrow> deployment_config result" where
  "loadPublicDeploymentConfig rt parse is_ip number env requiredPublicOrigin =
     and_then (DeploymentModeSchema (case env ''WEPUU_DEPLOYMENT_MODE'' of None \<Rightarrow> ''local'' | Some m \<Rightarrow> m)) (\<lambda>mode.
     and_then (configured_origin rt env) (\<lambda>configured.
     and_then (public_origin rt requiredPublicOrigin configured) (\<lambda>origin.
     and_then (optionalHttps rt env ''WEPUU_TERMS_URL'') (\<lambda>terms.
     and_then (optionalHttps rt env ''WEPUU_PRIVACY_URL'') (\<lambda>privacy.
     and_then (optionalHttps rt env ''WEPUU_SUPPORT_URL'') (\<lambda>support.
     and_then (optionalHttps rt env ''WEPUU_STATUS_URL'') (\<lambda>status.
     and_then (env_text env ''WEPUU_PRODUCT_NAME'' ''WePuu Platform'' 80) (\<lambda>product.
     and_then (env_text env ''WEPUU_LEGAL_PROVIDER_NAME'' ''Provider details pending'' 160) (\<lambda>legal.
     and_then (env_text env ''WEPUU_DATA_REGION_LABEL'' ''Not selected'' 120) (\<lambda>region.
     and_then (parseTrustedProxyCidrs parse is_ip number (env ''WEPUU_TRUSTED_PROXY_CIDRS_JSON'')) (\<lambda>proxies.
     and_then (env_text env ''WEPUU_RELEASE_VERSION'' ''0.5.0-preview'' 64) (\<lambda>version.
     and_then (env_text env ''WEPUU_RELEASE_REVISION'' ''uncommitted'' 64) (\<lambda>revision.
     and_then (env_text env ''WEPUU_IDENTITY_PROVIDER_LABEL'' ''Identity provider pending'' 120) (\<lambda>identity.
     and_then (env_text env ''WEPUU_RETENTION_POLICY_VERSION'' ''Policy pending'' 64) (\<lambda>retention.
     and_then (env_text env ''WEPUU_COMPATIBILITY_MATRIX_VERSION'' ''2026-10-preview'' 64) (\<lambda>compatibility.
     let c = \<lparr>dp_mode = mode, dp_product = product, dp_origin = origin, dp_legal = legal, dp_terms = terms,
           dp_privacy = privacy, dp_support = support, dp_status = status, dp_region = region,
           dp_proxies = proxies, dp_version = version, dp_revision = revision, dp_identity = identity,
           dp_retention = retention, dp_compatibility = compatibility\<rparr> in
     if is_release mode \<and> \<not> release_complete rt is_ip env c then Inl ''public_deployment_config_incomplete''
     else if is_release mode \<and> \<not> env_given env ''WEPUU_OPERATIONS_METRICS_TOKEN'' 32
     then Inl ''public_deployment_operations_token_required''
     else Inr c))))))))))))))))"

section \<open>Readiness\<close>

datatype readiness_id = CheckRelease | CheckLegal | CheckIdentity | CheckResidency | CheckProxy | CheckSigning

record readiness_check =
  rc_id :: readiness_id
  rc_label :: string
  rc_ready :: bool
  rc_detail :: string

definition email_delivery_ready :: "environment \<Rightarrow> bool" where
  "email_delivery_ready env \<longleftrightarrow> env ''WEPUU_EMAIL_DELIVERY'' = Some ''mock'' \<or>
     env ''WEPUU_EMAIL_DELIVERY'' = Some ''resend'' \<and>
       env_given env ''WEPUU_RESEND_API_KEY_FILE'' 1 \<and> env_given env ''WEPUU_RESEND_FROM'' 1"

definition readiness :: "readiness_id \<Rightarrow> string \<Rightarrow> bool \<Rightarrow> string \<Rightarrow> string \<Rightarrow> readiness_check" where
  "readiness i label ok yes no = \<lparr>rc_id = i, rc_label = label, rc_ready = ok, rc_detail = (if ok then yes else no)\<rparr>"

definition evaluateDeploymentReadiness :: "deployment_config \<Rightarrow> environment \<Rightarrow> bool \<times> readiness_check list" where
  "evaluateDeploymentReadiness c env =
     (let checks =
       [readiness CheckRelease ''Release identity'' (release_version (dp_version c) \<and> release_revision (dp_revision c))
          ''Version and immutable revision are fixed.'' ''Set a semantic version and immutable Git revision.'',
        readiness CheckLegal ''Public policies'' (dp_legal c \<noteq> ''Provider details pending'' \<and> dp_terms c \<noteq> None \<and>
            dp_privacy c \<noteq> None \<and> dp_support c \<noteq> None \<and> dp_status c \<noteq> None)
          ''Provider, policy, support and status links are configured.''
          ''Final provider and HTTPS policy links are still required.'',
        readiness CheckIdentity ''Account identity'' (dp_identity c \<noteq> ''Identity provider pending'' \<and>
            env_given env ''WEPUU_ACCOUNT_AUTH_SECRETS_FILE'' 1 \<and> email_delivery_ready env)
          ''Better Auth Email OTP and protected Session secrets are configured.''
          ''Configure Email OTP delivery and protected Better Auth Session secrets.'',
        readiness CheckResidency ''Residency and retention'' (dp_region c \<noteq> ''Not selected'' \<and> calendar_date (dp_retention c))
          ''Region and retention policy version are fixed.''
          ''Choose a data region and publish a retention policy version.'',
        readiness CheckProxy ''Trusted proxy boundary'' (dp_proxies c \<noteq> [])
          ''Explicit proxy CIDRs are configured.'' ''No trusted proxy CIDR has been selected.'',
        readiness CheckSigning ''Local signing custody'' (env_given env ''WEPUU_SIGNING_KEYRING_FILE'' 1 \<and>
            env_given env ''WEPUU_SIGNING_KEY_SLOT'' 1)
          ''A protected local PKCS#8 key slot is configured.''
          ''Configure the protected signing keyring and active key slot.'']
      in (list_all rc_ready checks, checks))"

section \<open>Pages\<close>

definition UI_CSP :: string where
  "UI_CSP = ''default-src 'none'; style-src 'self'; script-src 'self'; img-src 'self' data:; connect-src 'self'; form-action 'self'; frame-ancestors 'none'; base-uri 'none''  @ [CHR 0x27]"

definition replace_all :: "char \<Rightarrow> string \<Rightarrow> string \<Rightarrow> string" where
  "replace_all c r s = concat (map (\<lambda>x. if x = c then r else [x]) s)"

definition escapeHtml :: "string \<Rightarrow> string" where
  "escapeHtml value =
     replace_all CHR 0x27 ''&#39;'' (replace_all CHR 0x22 ''&quot;'' (replace_all CHR ''>'' ''&gt;''
       (replace_all CHR ''<'' ''&lt;'' (replace_all CHR ''&'' ''&amp;'' value))))"

definition hex_upper :: "nat \<Rightarrow> char" where
  "hex_upper n = (if n < 10 then char_of (48 + n) else char_of (55 + n))"

text \<open>The unreserved characters of \<open>encodeURIComponent\<close>; every other byte is a percent escape.\<close>

definition uri_unreserved :: char_class where
  "uri_unreserved = [(65, 90), (97, 122), (48, 57), (45, 46), (95, 95), (33, 33), (126, 126), (39, 42)]"

definition encodeURIComponent :: "string \<Rightarrow> string" where
  "encodeURIComponent s = concat (map (\<lambda>c. if char_in uri_unreserved c then [c]
     else let n = of_char c :: nat in [CHR ''%'', hex_upper (n div 16), hex_upper (n mod 16)]) s)"

definition page_head :: "string \<Rightarrow> string" where
  "page_head title = ''<!doctype html><html lang=\"en\"><head><meta charset=\"utf-8\"><meta name=\"viewport\" content=\"width=device-width,initial-scale=1\"><title>'' @
     title @ ''</title><link rel=\"stylesheet\" href=\"/assets/wepuu-v1.css\"></head>''"

record interaction_page =
  ip_title :: string
  ip_heading :: string
  ip_message :: string
  ip_content :: string

definition renderInteractionPage :: "interaction_page \<Rightarrow> string" where
  "renderInteractionPage p = page_head (escapeHtml (ip_title p)) @
     ''<body class=\"interaction\"><main class=\"interaction-card\"><p class=\"eyebrow\">Secure connection</p><h1>'' @
     escapeHtml (ip_heading p) @ ''</h1><p class=\"lede\">'' @ escapeHtml (ip_message p) @ ''</p>'' @
     ip_content p @ ''</main></body></html>''"

datatype shell_tab =
    TabOverview | TabSites | TabGrants | TabActivity | TabCompatibility | TabReadiness | TabAccount

record shell_options =
  sh_title :: string
  sh_eyebrow :: string
  sh_active :: shell_tab
  sh_tenant :: "string option"
  sh_deployment :: deployment_config
  sh_body :: string

definition optionalLink :: "string option \<Rightarrow> string \<Rightarrow> string" where
  "optionalLink url label = (case url of None \<Rightarrow> []
     | Some u \<Rightarrow> ''<a href=\"'' @ escapeHtml u @ ''\" rel=\"noreferrer\">'' @ escapeHtml label @ ''</a>'')"

definition shell_link :: "shell_tab \<Rightarrow> shell_tab \<times> string \<times> string \<Rightarrow> string" where
  "shell_link active x = (case x of (key, href, label) \<Rightarrow>
     ''<a href=\"'' @ href @ [CHR 0x22] @ (if active = key then '' aria-current=\"page\"'' else []) @ ''>'' @
     label @ ''</a>'')"

definition shell_tabs :: "string option \<Rightarrow> (shell_tab \<times> string \<times> string) list" where
  "shell_tabs tenantPath =
     (case tenantPath of None \<Rightarrow> [] | Some p \<Rightarrow>
        [(TabOverview, p, ''Overview''), (TabSites, p @ ''/sites'', ''Sites''),
         (TabGrants, p @ ''/grants'', ''Grants''), (TabActivity, p @ ''/activity'', ''Activity'')]) @
     [(TabCompatibility, ''/app/compatibility'', ''Compatibility''),
      (TabReadiness, ''/app/readiness'', ''Readiness''), (TabAccount, ''/app/account'', ''Account'')]"

definition middle_dot :: string where
  "middle_dot = [CHR 0x20, CHR 0xC2, CHR 0xB7, CHR 0x20]"

definition renderShell :: "shell_options \<Rightarrow> string" where
  "renderShell x =
     (let dep = sh_deployment x;
          tenantPath = map_option (\<lambda>t. ''/app/tenants/'' @ encodeURIComponent t) (sh_tenant x);
          nav = concat (map (shell_link (sh_active x)) (shell_tabs tenantPath));
          preview = (if dp_mode dep = ModeLocal \<or> dp_mode dep = ModeTest
            then ''<span class=\"preview\">Preview configuration</span>'' else []) in
      page_head (escapeHtml (sh_title x) @ middle_dot @ escapeHtml (dp_product dep)) @
      ''<body><a class=\"skip-link\" href=\"#main\">Skip to content</a><div class=\"app-shell\"><aside class=\"side\"><div class=\"brand\"><span class=\"brand-word\"><b aria-hidden=\"true\">W</b>'' @
      escapeHtml (dp_product dep) @ ''</span></div><nav aria-label=\"Primary\">'' @ nav @
      ''</nav><div class=\"side-meta\">Control plane only<br>MCP data travels direct</div></aside><div class=\"page\"><header class=\"topbar\"><div class=\"tenant-label\">'' @
      (case sh_tenant x of None \<Rightarrow> ''Platform account'' | Some t \<Rightarrow> ''Workspace '' @ escapeHtml (take 8 t)) @
      ''</div>'' @ preview @ ''</header><main class=\"content\" id=\"main\"><p class=\"eyebrow\">'' @
      escapeHtml (sh_eyebrow x) @ ''</p>'' @ sh_body x @ ''<footer class=\"footer\"><span>'' @
      escapeHtml (dp_legal dep) @ ''</span><span>Data region: '' @ escapeHtml (dp_region dep) @ ''</span>'' @
      optionalLink (dp_terms dep) ''Terms'' @ optionalLink (dp_privacy dep) ''Privacy'' @
      optionalLink (dp_support dep) ''Support'' @ optionalLink (dp_status dep) ''Status'' @
      ''</footer></main></div></div></body></html>'')"

section \<open>Escaped text is inert\<close>

text \<open>What a browser reads: the five entities stand for their characters.\<close>

definition escape_char :: "char \<Rightarrow> string" where
  "escape_char c = (if c = CHR ''&'' then ''&amp;'' else if c = CHR ''<'' then ''&lt;''
     else if c = CHR ''>'' then ''&gt;'' else if c = CHR 0x22 then ''&quot;''
     else if c = CHR 0x27 then ''&#39;'' else [c])"

lemma replace_all_append [simp]: "replace_all c r (a @ b) = replace_all c r a @ replace_all c r b"
  by (simp add: replace_all_def)

lemma replace_all_simps [simp]:
  "replace_all c r [] = []" "replace_all c r (x # xs) = (if x = c then r else [x]) @ replace_all c r xs"
  by (simp_all add: replace_all_def)

lemma escapeHtml_append [simp]: "escapeHtml (a @ b) = escapeHtml a @ escapeHtml b"
  by (simp add: escapeHtml_def)

lemma escapeHtml_char: "escapeHtml [c] = escape_char c"
  by (simp add: escapeHtml_def escape_char_def)

lemma escapeHtml_eq: "escapeHtml s = concat (map escape_char s)"
proof (induction s)
  case (Cons c s)
  have "escapeHtml (c # s) = escapeHtml [c] @ escapeHtml s"
    using escapeHtml_append [of "[c]" s] by simp
  with Cons escapeHtml_char show ?case by simp
qed (simp add: escapeHtml_def)

definition markup_char :: "char \<Rightarrow> bool" where
  "markup_char c \<longleftrightarrow> c = CHR ''<'' \<or> c = CHR ''>'' \<or> c = CHR 0x22 \<or> c = CHR 0x27"

fun html_text :: "string \<Rightarrow> string" where
  "html_text [] = []"
| "html_text (c # s) =
     (if c \<noteq> CHR ''&'' then c # html_text s
      else if starts_with s ''amp;'' then CHR ''&'' # html_text (drop 4 s)
      else if starts_with s ''lt;'' then CHR ''<'' # html_text (drop 3 s)
      else if starts_with s ''gt;'' then CHR ''>'' # html_text (drop 3 s)
      else if starts_with s ''quot;'' then CHR 0x22 # html_text (drop 5 s)
      else if starts_with s ''#39;'' then CHR 0x27 # html_text (drop 4 s)
      else c # html_text s)"

lemma markup_escape_char: "filter markup_char (escape_char c) = []"
  by (simp add: escape_char_def markup_char_def)

lemma markup_escape [simp]: "filter markup_char (escapeHtml s) = []"
  by (induction s) (simp_all add: escapeHtml_eq markup_escape_char)

lemma html_text_escape_char: "html_text (escape_char c @ s) = c # html_text s"
  by (simp add: escape_char_def starts_with_def)

lemma html_text_escape: "html_text (escapeHtml s) = s"
  by (induction s) (simp_all add: escapeHtml_eq html_text_escape_char)

lemma release_url_given: "release_url rt is_ip v \<Longrightarrow> \<exists>u. v = Some u"
  by (cases v) (simp_all add: release_url_def)

section \<open>Properties\<close>

text \<open>
  Whatever the texts, the markup of an interaction page is that of its template and its content:
  angle brackets and quotes come from nowhere else.
\<close>

theorem interaction_page_inert:
  "filter markup_char (renderInteractionPage p) =
   filter markup_char (renderInteractionPage \<lparr>ip_title = [], ip_heading = [], ip_message = [],
     ip_content = ip_content p\<rparr>)"
  by (simp only: renderInteractionPage_def page_head_def filter_append markup_escape interaction_page.simps)

text \<open>Escaped text reads back as the text, and what it is made of is no markup.\<close>

theorem escape_html_roundtrip:
  "html_text (escapeHtml s) = s \<and> filter markup_char (escapeHtml s) = []"
  by (simp add: html_text_escape)

text \<open>
  A staging or production configuration that loads is ready in every check of the readiness report
  but the account identity, which also depends on secrets and mail.
\<close>

theorem loaded_release_ready:
  assumes "loadPublicDeploymentConfig rt parse is_ip number env origin = Inr c" and "is_release (dp_mode c)"
  shows "filter (\<lambda>k. \<not> rc_ready k \<and> rc_id k \<noteq> CheckIdentity) (snd (evaluateDeploymentReadiness c env)) = []"
proof -
  have "release_complete rt is_ip env c"
    using assms unfolding loadPublicDeploymentConfig_def by (auto simp: succ_simps split: if_splits)
  then show ?thesis
    by (auto simp: release_complete_def evaluateDeploymentReadiness_def readiness_def Let_def
      dest!: release_url_given)
qed

section \<open>Examples\<close>

definition sample_release_env :: environment where
  "sample_release_env = map_of
     [(''WEPUU_DEPLOYMENT_MODE'', ''production''), (''WEPUU_APP_PUBLIC_ORIGIN'', ''https://app.wepuu.com''),
      (''WEPUU_TERMS_URL'', ''https://wepuu.com/terms''), (''WEPUU_PRIVACY_URL'', ''https://wepuu.com/privacy''),
      (''WEPUU_SUPPORT_URL'', ''https://wepuu.com/support''), (''WEPUU_STATUS_URL'', ''https://status.wepuu.com/''),
      (''WEPUU_LEGAL_PROVIDER_NAME'', ''WePuu''), (''WEPUU_DATA_REGION_LABEL'', ''EU''),
      (''WEPUU_TRUSTED_PROXY_CIDRS_JSON'', ''[]''), (''WEPUU_RELEASE_VERSION'', ''1.0.0-rc.1''),
      (''WEPUU_RELEASE_REVISION'', ''0123abc''), (''WEPUU_IDENTITY_PROVIDER_LABEL'', ''Email''),
      (''WEPUU_RETENTION_POLICY_VERSION'', ''2026-10-01''), (''WEPUU_COMPATIBILITY_MATRIX_VERSION'', ''2026-10''),
      (''WEPUU_SIGNING_KEYRING_FILE'', ''/s/keys''), (''WEPUU_SIGNING_KEY_SLOT'', ''main''),
      (''WEPUU_OPERATIONS_METRICS_TOKEN'', replicate 32 CHR ''m'')]"

definition sample_deployment :: "deployment_config result" where
  "sample_deployment = loadPublicDeploymentConfig sample_runtime
     (\<lambda>_. Some (JArr [JStr ''10.0.0.0/8''])) (\<lambda>h. if h = ''10.0.0.0'' then 4 else 0) (\<lambda>_. Some 8)
     sample_release_env None"

lemma sample_deployment_ok:
  "is_ok sample_deployment" "is_release (dp_mode (projr sample_deployment))"
  "fst (evaluateDeploymentReadiness (projr sample_deployment) sample_release_env) = False"
  by code_simp+

theorem loaded_release_ready_witness:
  "filter (\<lambda>k. \<not> rc_ready k \<and> rc_id k \<noteq> CheckIdentity)
     (snd (evaluateDeploymentReadiness (projr sample_deployment) sample_release_env)) = []"
proof (rule loaded_release_ready [OF _ sample_deployment_ok(2)])
  show "loadPublicDeploymentConfig sample_runtime (\<lambda>_. Some (JArr [JStr ''10.0.0.0/8'']))
      (\<lambda>h. if h = ''10.0.0.0'' then 4 else 0) (\<lambda>_. Some 8) sample_release_env None =
    Inr (projr sample_deployment)"
    unfolding sample_deployment_def [symmetric] by (rule ok_value [OF sample_deployment_ok(1)])
qed

end
