(* ===== verification/Http.thy ===== *)
theory Http
  imports Host_Files Machines
begin

text \<open>
  What the two services read of a request and write of a response.  \<open>new URL(request.url, base)\<close> is
  the request's path and its query; bodies are lists of chunks.
\<close>

section \<open>Requests and responses\<close>

text \<open>Header names are in lower case, each with its one value.\<close>

record http_request =
  rq_method :: string
  rq_path :: string
  rq_query :: "(string \<times> string) list"
  rq_headers :: "(string \<times> string) list"
  rq_remote :: "string option"
  rq_chunks :: "string list"

record http_response =
  rs_status :: int
  rs_headers :: "(string \<times> string) list"
  rs_body :: string

definition header :: "string \<Rightarrow> http_request \<Rightarrow> string option" where
  "header name rq = map_of (rq_headers rq) name"

definition no_store :: "string \<times> string" where
  "no_store = (''cache-control'', ''no-store'')"

definition json_answer :: "int \<Rightarrow> string \<Rightarrow> http_response" where
  "json_answer status body = \<lparr>rs_status = status,
     rs_headers = [(''content-type'', ''application/json''), no_store], rs_body = body\<rparr>"

definition see_other :: "string \<Rightarrow> http_response" where
  "see_other location = \<lparr>rs_status = 303, rs_headers = [(''location'', location), no_store], rs_body = []\<rparr>"

section \<open>Forms\<close>

definition hex_value :: "char \<Rightarrow> nat option" where
  "hex_value c = (let n = of_char c :: nat in
     if 48 \<le> n \<and> n \<le> 57 then Some (n - 48) else if 65 \<le> n \<and> n \<le> 70 then Some (n - 55)
     else if 97 \<le> n \<and> n \<le> 102 then Some (n - 87) else None)"

fun percent_decode :: "string \<Rightarrow> string" where
  "percent_decode (c # a # b # s) =
     (case (c = CHR ''%'', hex_value a, hex_value b) of
        (True, Some h, Some l) \<Rightarrow> char_of (16 * h + l) # percent_decode s
      | _ \<Rightarrow> c # percent_decode (a # b # s))"
| "percent_decode s = s"

definition form_decode :: "string \<Rightarrow> string" where
  "form_decode s = percent_decode (map (\<lambda>c. if c = CHR ''+'' then CHR '' '' else c) s)"

definition form_pair :: "string \<Rightarrow> string \<times> string" where
  "form_pair s = (let name = takeWhile (\<lambda>c. c \<noteq> CHR ''='') s
     in (form_decode name, form_decode (drop (length name + 1) s)))"

text \<open>\<open>new URLSearchParams(body)\<close> and its \<open>get\<close>.\<close>

definition parse_form :: "string \<Rightarrow> (string \<times> string) list" where
  "parse_form body = map form_pair (filter (\<lambda>s. s \<noteq> []) (split_on CHR ''&'' body))"

text \<open>The chunks of a body, refused as soon as more than \<open>limit\<close> characters have arrived.\<close>

fun read_chunks :: "nat \<Rightarrow> string \<Rightarrow> string \<Rightarrow> string list \<Rightarrow> string result" where
  "read_chunks limit too_large body [] = Inr body"
| "read_chunks limit too_large body (chunk # chunks) =
     (if length (body @ chunk) > limit then Inl too_large
      else read_chunks limit too_large (body @ chunk) chunks)"

lemma read_chunks_small:
  "length (body @ concat chunks) \<le> limit \<Longrightarrow> read_chunks limit e body chunks = Inr (body @ concat chunks)"
  by (induction chunks arbitrary: body) (auto simp: add.assoc)

text \<open>How a body is cut into chunks does not matter.\<close>

lemma read_chunks_one:
  "read_chunks limit e [] chunks = (if length (concat chunks) \<le> limit then Inr (concat chunks) else Inl e)"
proof (cases "length (concat chunks) \<le> limit")
  case True
  with read_chunks_small [of "[]" chunks limit e] show ?thesis by simp
next
  case False
  have "read_chunks limit e body chunks = Inl e" if "length (body @ concat chunks) > limit" "length body \<le> limit" for body
    using that by (induction chunks arbitrary: body) (auto simp: add.assoc)
  from this [of "[]"] False show ?thesis by simp
qed

end
