(* ===== verification/Authorization_Rules.thy ===== *)
theory Authorization_Rules
  imports OAuth_Provider Account_Auth Platform_UI Rate_Limit Http
begin

text \<open>
  The rules of the authorization service that need no state: why a grant is revoked, the policy of
  the consent page, what an interaction asks for, the form token, header and error rules, and the
  plan of a consent (apps/authorization-service/src/server.ts).
\<close>

section \<open>Why a grant is revoked\<close>

text \<open>What the service reads of the provider's context; \<open>pr_consumed\<close> is that of the refresh token.\<close>

record provider_context =
  pr_route :: "json option"
  pr_params :: "json_object option"
  pr_consumed :: "json option"

definition providerGrantRevocationReason :: "provider_context option \<Rightarrow> string" where
  "providerGrantRevocationReason context =
     (case context of
        None \<Rightarrow> ''token_revoked''
      | Some c \<Rightarrow>
          if pr_route c = Some (JStr ''token'') \<and>
             Option.bind (pr_params c) (\<lambda>ps. map_of ps ''grant_type'') = Some (JStr ''refresh_token'') \<and>
             (case pr_consumed c of Some (JInt n) \<Rightarrow> safe_integer n \<and> n > 0 | _ \<Rightarrow> False)
          then ''refresh_replay'' else ''token_revoked'')"

text \<open>\<open>run\<close> stores the context for what \<open>callback\<close> calls; \<open>resolve\<close> reads it.\<close>

definition createGrantRevocationContext :: "provider_context \<Rightarrow> (string \<Rightarrow> 'a) \<Rightarrow> 'a" where
  "createGrantRevocationContext context callback = callback (providerGrantRevocationReason (Some context))"

section \<open>The policy of the consent page\<close>

text \<open>\<open>String.replace\<close> with a string: the first occurrence, and the patterns of the replacement.\<close>

fun find_text :: "string \<Rightarrow> string \<Rightarrow> (string \<times> string) option" where
  "find_text pat [] = (if pat = [] then Some ([], []) else None)"
| "find_text pat (c # s) =
     (if starts_with (c # s) pat then Some ([], drop (length pat) (c # s))
      else map_option (\<lambda>(before, after). (c # before, after)) (find_text pat s))"

fun expand_pattern :: "string \<Rightarrow> string \<Rightarrow> string \<Rightarrow> string \<Rightarrow> string" where
  "expand_pattern before pat after (c # d # s) =
     (if c \<noteq> CHR ''$'' then c # expand_pattern before pat after (d # s)
      else if d = CHR ''$'' then CHR ''$'' # expand_pattern before pat after s
      else if d = CHR ''&'' then pat @ expand_pattern before pat after s
      else if d = CHR 0x60 then before @ expand_pattern before pat after s
      else if d = CHR 0x27 then after @ expand_pattern before pat after s
      else c # expand_pattern before pat after (d # s))"
| "expand_pattern before pat after s = s"

definition js_replace :: "string \<Rightarrow> string \<Rightarrow> string \<Rightarrow> string" where
  "js_replace pat replacement s =
     (case find_text pat s of
        None \<Rightarrow> s
      | Some (before, after) \<Rightarrow> before @ expand_pattern before pat after replacement @ after)"

definition INTERACTION_REFERRER_POLICY :: string where
  "INTERACTION_REFERRER_POLICY = ''strict-origin''"

definition CONSENT_SUBMISSION_SCRIPT :: string where
  "CONSENT_SUBMISSION_SCRIPT = join_with [CHR 0x0A]
     [''(() => {'',
      ''  for (const form of document.querySelectorAll('form[data-wepuu-consent]')) {'',
      ''    form.addEventListener('submit', (event) => {'',
      ''      if (form.dataset.submitting === 'true') {'',
      ''        event.preventDefault();'',
      ''        return;'',
      ''      }'',
      ''      const submitter = event.submitter;'',
      ''      if (!(submitter instanceof HTMLButtonElement)'',
      ''          || submitter.name !== 'decision'' @ [CHR 0x27],
      ''          || (submitter.value !== 'approve' && submitter.value !== 'deny')) {'',
      ''        event.preventDefault();'',
      ''        return;'',
      ''      }'',
      ''      const decision = document.createElement('input');'',
      ''      decision.type = 'hidden';'',
      ''      decision.name = 'decision';'',
      ''      decision.value = submitter.value;'',
      ''      form.append(decision);'',
      ''      form.dataset.submitting = 'true';'',
      ''      for (const button of form.querySelectorAll('button[type=\"submit\"]')) {'',
      ''        button.setAttribute('aria-disabled', 'true');'',
      ''      }'',
      ''      const status = form.querySelector('[data-wepuu-submit-status]');'',
      ''      if (status instanceof HTMLElement) status.hidden = false;'',
      ''    });'',
      ''  }'',
      ''})();'']"

text \<open>\<open>b64\<close> is the base64 of a digest.\<close>

definition CONSENT_INTERACTION_CSP :: "runtime \<Rightarrow> (bytes \<Rightarrow> string) \<Rightarrow> string" where
  "CONSENT_INTERACTION_CSP rt b64 =
     js_replace (''script-src 'self'' @ [CHR 0x27])
       (''script-src 'self' 'sha256-'' @ b64 (sha256 rt CONSENT_SUBMISSION_SCRIPT) @ [CHR 0x27]) UI_CSP"

definition consentInteractionCsp :: "runtime \<Rightarrow> (bytes \<Rightarrow> string) \<Rightarrow> json option \<Rightarrow> string option" where
  "consentInteractionCsp rt b64 redirectUri =
     (case redirectUri of
        Some (JStr uri) \<Rightarrow>
          (case parse_url rt uri of
             None \<Rightarrow> None
           | Some target \<Rightarrow>
               let allowed = url_protocol target = ''https:'' \<or>
                     url_protocol target = ''http:'' \<and> url_hostname target = ''127.0.0.1'' \<and> url_port target \<noteq> [] in
               if \<not> allowed \<or> url_username target \<noteq> [] \<or> url_password target \<noteq> [] \<or> url_hash target \<noteq> []
               then None
               else Some (js_replace (''form-action 'self'' @ [CHR 0x27])
                 (''form-action 'self' '' @ url_origin target) (CONSENT_INTERACTION_CSP rt b64)))
      | _ \<Rightarrow> None)"

section \<open>What an interaction asks for\<close>

definition interactionScopes :: "json_object \<Rightarrow> string list option" where
  "interactionScopes params =
     (case map_of params ''scope'' of
        Some (JStr v) \<Rightarrow>
          let scopes = sort_key scope_rank (dedup (filter (\<lambda>s. s \<in> set mcpScopes) (split_on CHR '' '' v)))
          in if scopes = [] then None else Some scopes
      | _ \<Rightarrow> None)"

definition interactionResource :: "json_object \<Rightarrow> string option" where
  "interactionResource params =
     (case map_of params ''resource'' of
        Some (JStr resource) \<Rightarrow> Some resource
      | Some (JArr (JStr first # rest)) \<Rightarrow>
          if length rest \<le> 3 \<and> list_all (\<lambda>candidate. candidate = JStr first) rest then Some first else None
      | _ \<Rightarrow> None)"

definition normalizeAuthorizationResources :: "(string \<times> string) list \<Rightarrow> bool \<times> (string \<times> string) list" where
  "normalizeAuthorizationResources query =
     (case map snd (filter (\<lambda>(k, v). k = ''resource'') query) of
        [] \<Rightarrow> (True, query)
      | [resource] \<Rightarrow> (0 < length resource, query)
      | first # rest \<Rightarrow>
          if length first = 0 \<or> length rest > 3 \<or> \<not> list_all (\<lambda>r. r = first) rest then (False, query)
          else (True, filter (\<lambda>(k, v). k \<noteq> ''resource'') query @ [(''resource'', first)]))"

section \<open>The form token\<close>

record csrf_payload =
  cr_uid :: string
  cr_account :: string
  cr_grant :: string
  cr_expires :: int
  cr_nonce :: string

definition csrf_json :: "csrf_payload \<Rightarrow> json" where
  "csrf_json p = JObj [(''uid'', JStr (cr_uid p)), (''accountId'', JStr (cr_account p)),
     (''grantId'', JStr (cr_grant p)), (''expiresAt'', JInt (cr_expires p)), (''nonce'', JStr (cr_nonce p))]"

definition CsrfPayloadSchema :: "json \<Rightarrow> csrf_payload option" where
  "CsrfPayloadSchema j =
     Option.bind (z_object [''uid'', ''accountId'', ''grantId'', ''expiresAt'', ''nonce''] (Some j)) (\<lambda>obj.
     Option.bind (z_str (\<lambda>s. 8 \<le> length s \<and> length s \<le> 256) (map_of obj ''uid'')) (\<lambda>uid.
     Option.bind (z_str (\<lambda>s. 8 \<le> length s \<and> length s \<le> 128) (map_of obj ''accountId'')) (\<lambda>account.
     Option.bind (z_str (\<lambda>s. 8 \<le> length s \<and> length s \<le> 128) (map_of obj ''grantId'')) (\<lambda>grant.
     Option.bind (z_int (\<lambda>n. n > 0) (map_of obj ''expiresAt'')) (\<lambda>expires.
     Option.bind (z_str (rx id_class 32 32) (map_of obj ''nonce'')) (\<lambda>nonce.
     Some \<lparr>cr_uid = uid, cr_account = account, cr_grant = grant, cr_expires = expires, cr_nonce = nonce\<rparr>))))))"

definition signCsrf :: "runtime \<Rightarrow> csrf_payload \<Rightarrow> string \<Rightarrow> string" where
  "signCsrf rt payload key =
     (let encoded = base64url rt (json_stringify (csrf_json payload))
      in encoded @ ''.'' @ base64url rt (hmac_sha256 rt key encoded))"

text \<open>\<open>decode\<close> is \<open>Buffer.from(_, 'base64url')\<close>, \<open>parse\<close> is \<open>JSON.parse\<close>.\<close>

definition verifyCsrf ::
  "runtime \<Rightarrow> (string \<Rightarrow> bytes) \<Rightarrow> (string \<Rightarrow> json option) \<Rightarrow> string \<Rightarrow> string \<Rightarrow> time \<Rightarrow> csrf_payload option" where
  "verifyCsrf rt decode parse value key now =
     (case split_on CHR ''.'' value of
        [encoded, signature] \<Rightarrow>
          if hmac_sha256 rt key encoded \<noteq> decode signature then None
          else Option.bind (Option.bind (parse (decode encoded)) CsrfPayloadSchema) (\<lambda>parsed.
            if cr_expires parsed > now div 1000 then Some parsed else None)
      | _ \<Rightarrow> None)"

section \<open>Refusals and failures\<close>

datatype rejection =
    InvalidParameters | UnsupportedPrompt | MethodOrContentType | OriginMissing | OriginNull
  | OriginUnexpected | AccountInactive | CsrfBindingMismatch | ConsentBootstrapInvalid

definition interactionSubmissionHeaderRejection ::
  "string \<Rightarrow> string option \<Rightarrow> string option \<Rightarrow> string \<Rightarrow> (int \<times> rejection) option" where
  "interactionSubmissionHeaderRejection verb contentType origin expectedOrigin =
     (if verb \<noteq> ''POST'' \<or>
         map_option (\<lambda>t. hd (split_on CHR '';'' t)) contentType \<noteq> Some ''application/x-www-form-urlencoded''
      then Some (405, MethodOrContentType)
      else case origin of
        None \<Rightarrow> Some (403, OriginMissing)
      | Some o' \<Rightarrow>
          if o' = ''null'' then Some (403, OriginNull)
          else if o' \<noteq> expectedOrigin then Some (403, OriginUnexpected) else None)"

text \<open>What is thrown, as far as it is logged: an \<open>Error\<close> with its name, and three members.\<close>

record thrown_value =
  tv_name :: "string option"
  tv_code :: "json option"
  tv_oauth :: "json option"
  tv_description :: "json option"

datatype session_failure =
    RequestExpired | CookieMissing | InteractionNotFound | SessionNotFound | PrincipalChanged
  | CookieMismatch | SessionMismatch

definition oauthSessionFailureReasons :: "(string \<times> session_failure) list" where
  "oauthSessionFailureReasons =
     [(''authorization request has expired'', RequestExpired),
      (''interaction session id cookie not found'', CookieMissing),
      (''interaction session not found'', InteractionNotFound),
      (''session not found'', SessionNotFound),
      (''session principal changed'', PrincipalChanged),
      (''authorization session and cookie identifier mismatch'', CookieMismatch),
      (''interaction session and authentication session mismatch'', SessionMismatch)]"

record safe_failure =
  sf_name :: string
  sf_code :: "string option"
  sf_oauth :: "string option"
  sf_reason :: "session_failure option"

fun led_by :: "char_class \<Rightarrow> char_class \<Rightarrow> nat \<Rightarrow> nat \<Rightarrow> string \<Rightarrow> bool" where
  "led_by first cls lo hi [] = False"
| "led_by first cls lo hi (c # s) = (char_in first c \<and> rx cls lo hi s)"

definition text_matching :: "(string \<Rightarrow> bool) \<Rightarrow> json option \<Rightarrow> string option" where
  "text_matching P j = (case j of Some (JStr s) \<Rightarrow> if P s then Some s else None | _ \<Rightarrow> None)"

definition safeOAuthFailure :: "thrown_value \<Rightarrow> safe_failure" where
  "safeOAuthFailure e =
     \<lparr>sf_name = (case tv_name e of
        Some n \<Rightarrow> if led_by [(65, 90), (97, 122)] alnum_class 0 63 n then n else ''UnknownError''
      | None \<Rightarrow> ''UnknownError''),
      sf_code = text_matching (led_by upper_class [(65, 90), (48, 57), (95, 95)] 1 63) (tv_code e),
      sf_oauth = text_matching (led_by lower_class [(97, 122), (48, 57), (95, 95)] 1 63) (tv_oauth e),
      sf_reason = (if tv_name e = Some ''SessionNotFound''
        then Option.bind (text_matching (\<lambda>_. True) (tv_description e)) (map_of oauthSessionFailureReasons)
        else None)\<rparr>"

definition authorizationErrorDiagnostic :: "thrown_value \<Rightarrow> string \<times> safe_failure" where
  "authorizationErrorDiagnostic e = (''oauth.authorization_error'', safeOAuthFailure e)"

definition serverErrorDiagnostic :: "thrown_value \<Rightarrow> string \<times> safe_failure" where
  "serverErrorDiagnostic e = (''oauth.server_error'', safeOAuthFailure e)"

datatype resume_stage = InteractionEnded | AuthorizationAccepted | AuthorizationSuccess

definition oauthResumeStageDiagnostic :: "resume_stage \<Rightarrow> string" where
  "oauthResumeStageDiagnostic stage = ''oauth.'' @ (case stage of
     InteractionEnded \<Rightarrow> ''interaction_ended'' | AuthorizationAccepted \<Rightarrow> ''authorization_accepted''
   | AuthorizationSuccess \<Rightarrow> ''authorization_success'')"

section \<open>Consent\<close>

datatype interaction_result =
    LoginResult string int
  | AccessDenied
  | ConsentResult "string option"

definition consentInteractionResult :: "string option \<Rightarrow> string \<Rightarrow> interaction_result" where
  "consentInteractionResult existingGrantId savedGrantId =
     ConsentResult (if existingGrantId = None then Some savedGrantId else None)"

definition consentBootstrapLocation :: "string \<Rightarrow> string" where
  "consentBootstrapLocation request = ''/v1/consent/start#request='' @ encodeURIComponent request"

definition oauthConsentBootstrapMatches :: "bootstrap_claims \<Rightarrow> string \<Rightarrow> string \<Rightarrow> string \<Rightarrow> string list \<Rightarrow> bool" where
  "oauthConsentBootstrapMatches input uid clientId resource scopes \<longleftrightarrow>
     bc_uid input = uid \<and> bc_client input = clientId \<and> bc_resource input = resource \<and>
     length (bc_scopes input) = length scopes \<and> list_all (\<lambda>(a, b). a = b) (zip (bc_scopes input) scopes)"

record consent_plan =
  cp_existing :: "string option"
  cp_oidc_scopes :: "string list"
  cp_oidc_claims :: "string list"
  cp_resource_scopes :: "(string \<times> string list) list"

definition plan_error :: "grant_code \<Rightarrow> provider_error + 'a" where
  "plan_error code = Inl (GrantDiagnosticError AtConsentPlan code)"

fun json_texts :: "json list \<Rightarrow> string list option" where
  "json_texts [] = Some []"
| "json_texts (JStr s # js) =
     (if 1 \<le> length s \<and> length s \<le> 128 then map_option (\<lambda>ss. s # ss) (json_texts js) else None)"
| "json_texts (j # js) = None"

definition boundedStringArray :: "json option \<Rightarrow> provider_error + string list option" where
  "boundedStringArray value =
     (case value of
        None \<Rightarrow> Inr None
      | Some (JArr xs) \<Rightarrow>
          if length xs = 0 \<or> length xs > 32 then plan_error ScopeMismatch
          else (case json_texts xs of None \<Rightarrow> plan_error ScopeMismatch | Some ss \<Rightarrow> Inr (Some (dedup ss)))
      | _ \<Rightarrow> plan_error ScopeMismatch)"

definition missing_list :: "string list \<Rightarrow> json option \<Rightarrow> provider_error + string list" where
  "missing_list permitted value =
     and_then (boundedStringArray value) (\<lambda>found.
       let xs = (case found of None \<Rightarrow> [] | Some ss \<Rightarrow> ss) in
       if list_ex (\<lambda>x. x \<notin> set permitted) xs then plan_error ScopeMismatch else Inr xs)"

definition missing_resources ::
  "string \<Rightarrow> string list \<Rightarrow> json option \<Rightarrow> provider_error + (string \<times> string list) list" where
  "missing_resources resource scopes value =
     (case value of
        None \<Rightarrow> Inr []
      | Some (JObj [(name, v)]) \<Rightarrow>
          if name \<noteq> resource then plan_error ResourceMismatch
          else and_then (missing_list scopes (Some v)) (\<lambda>missing. Inr [(resource, missing)])
      | _ \<Rightarrow> plan_error ResourceMismatch)"

definition consentGrantUpdatePlan ::
  "json option \<Rightarrow> string \<Rightarrow> string \<Rightarrow> string list \<Rightarrow> json_object \<Rightarrow> provider_error + consent_plan" where
  "consentGrantUpdatePlan providerGrantId platformGrantId resource scopes promptDetails =
     (if \<not> (providerGrantId = None \<or> providerGrantId = Some (JStr platformGrantId)) then plan_error BindingMismatch
      else if map_of promptDetails ''rar'' \<noteq> None then plan_error ScopeMismatch
      else and_then (missing_list [''openid'', ''offline_access''] (map_of promptDetails ''missingOIDCScope'')) (\<lambda>oidc.
        and_then (missing_list [''sub''] (map_of promptDetails ''missingOIDCClaims'')) (\<lambda>claims.
        and_then (missing_resources resource scopes (map_of promptDetails ''missingResourceScopes'')) (\<lambda>missing.
        Inr \<lparr>cp_existing = (if providerGrantId = None then None else Some platformGrantId),
          cp_oidc_scopes = oidc, cp_oidc_claims = claims, cp_resource_scopes = missing\<rparr>))))"

section \<open>Where a request comes from\<close>

definition requestSource :: "http_request \<Rightarrow> string" where
  "requestSource rq =
     (let remote = (case rq_remote rq of None \<Rightarrow> ''unknown'' | Some r \<Rightarrow> r);
          first = map_option (\<lambda>f. hd (split_on CHR '','' f)) (header ''x-forwarded-for'' rq) in
      case (remote \<in> {''127.0.0.1'', ''::1'', ''::ffff:127.0.0.1''}, first) of
        (True, Some f) \<Rightarrow> if length (trim f) \<le> 64 then trim f else take 64 remote
      | _ \<Rightarrow> take 64 remote)"

definition endpointPolicy :: "string \<Rightarrow> string \<Rightarrow> rate_policy option" where
  "endpointPolicy verb path =
     (if verb = ''GET'' \<and> path = ''/auth''
      then Some \<lparr>rp_name = ''oauth.authorize'', rp_limit = 20, rp_seconds = 300\<rparr>
      else if verb = ''POST'' \<and> path = ''/token''
      then Some \<lparr>rp_name = ''oauth.token'', rp_limit = 30, rp_seconds = 60\<rparr>
      else if verb = ''POST'' \<and> path = ''/token/revocation''
      then Some \<lparr>rp_name = ''oauth.revoke'', rp_limit = 30, rp_seconds = 60\<rparr>
      else None)"

section \<open>Configuration\<close>

record service_config =
  sv_issuer :: string
  sv_database :: string
  sv_host :: string
  sv_port :: int
  sv_cookie_keys :: "string list"

definition ServiceConfigSchema :: "runtime \<Rightarrow> service_config \<Rightarrow> bool" where
  "ServiceConfigSchema rt c \<longleftrightarrow> zod_url rt (sv_issuer c) \<and> starts_with (sv_issuer c) ''https://'' \<and>
     1 \<le> length (sv_database c) \<and> 1 \<le> length (sv_host c) \<and> 1 \<le> sv_port c \<and> sv_port c \<le> 65535 \<and>
     2 \<le> length (sv_cookie_keys c) \<and> list_all (\<lambda>k. 32 \<le> length k) (sv_cookie_keys c)"

text \<open>\<open>number\<close> is \<open>Number\<close> of a string when that is an integer.\<close>

definition authorizationServiceConfigFromEnvironment ::
  "runtime \<Rightarrow> (string \<Rightarrow> json option) \<Rightarrow> (string \<Rightarrow> int option) \<Rightarrow> environment \<Rightarrow> service_config result" where
  "authorizationServiceConfigFromEnvironment rt parse number env =
     (case parse (case env ''WEPUU_COOKIE_KEYS_JSON'' of None \<Rightarrow> ''[]'' | Some v \<Rightarrow> v) of
        None \<Rightarrow> Inl ''SyntaxError''
      | Some j \<Rightarrow>
          (case (env ''WEPUU_ISSUER'', env ''WEPUU_DATABASE_URL'',
                 number (case env ''WEPUU_AUTH_PORT'' of None \<Rightarrow> ''3001'' | Some p \<Rightarrow> p),
                 z_array (z_str (\<lambda>k. 32 \<le> length k)) (\<lambda>ks. 2 \<le> length ks) (Some j)) of
             (Some issuer, Some database, Some port, Some keys) \<Rightarrow>
               let c = \<lparr>sv_issuer = issuer, sv_database = database,
                 sv_host = (case env ''WEPUU_AUTH_HOST'' of None \<Rightarrow> ''127.0.0.1'' | Some h \<Rightarrow> h),
                 sv_port = port, sv_cookie_keys = keys\<rparr> in
               if ServiceConfigSchema rt c then Inr c else Inl zod_error
           | _ \<Rightarrow> Inl zod_error))"

end
