(* ===== verification/Authorization_Service.thy ===== *)
theory Authorization_Service
  imports Authorization_Rules Artifacts Signing_Keys Revocation_Worker
begin

text \<open>
  The authorization service (apps/authorization-service/src/server.ts): how it starts from its
  environment and the database, and how it answers a request.  \<open>oidc-provider\<close> and Better Auth are
  the functions of \<open>provider_library\<close>; what the service hands to them is recorded, in order.
\<close>

section \<open>Start\<close>

text \<open>The runtime of the process: libraries, files and parsers.\<close>

record service_host =
  ah_runtime :: runtime
  ah_crypto :: crypto
  ah_files :: file_system
  ah_uid :: nat
  ah_parse :: "string \<Rightarrow> json option"
  ah_decode :: "string \<Rightarrow> bytes"
  ah_number :: "string \<Rightarrow> int option"
  ah_is_ip :: "string \<Rightarrow> nat"
  ah_base64 :: "bytes \<Rightarrow> string"
  ah_styles :: string

record authorization_service =
  az_config :: service_config
  az_origin :: string
  az_deployment :: deployment_config
  az_accounts :: auth_config
  az_kid :: string
  az_custody :: local_custody
  az_bootstrap_signer :: key_holder
  az_bootstrap_verifier :: key_holder
  az_rate_key :: bytes
  az_codec :: artifact_codec
  az_provider :: provider_config
  az_revocation_signer :: key_holder
  az_issuer :: string

definition jwk_members :: "json \<Rightarrow> json_object" where
  "jwk_members j = (case j of JObj obj \<Rightarrow> obj | _ \<Rightarrow> [])"

definition verification_descriptor :: "crypto \<Rightarrow> key_record \<Rightarrow> key_descriptor result" where
  "verification_descriptor cr r =
     (if kr_status r = KeyActive then Inl ''multiple_active_signing_keys''
      else signingKeyDescriptorFromPublicJwk cr (jwk_members (kr_jwk r)) (kr_provider r \<noteq> AwsKms))"

text \<open>\<open>active\<close> is what \<open>signingKeys.isActive\<close> answers when the key is used.\<close>

definition guardedSign :: "crypto \<Rightarrow> local_custody \<Rightarrow> bool result \<Rightarrow> bytes \<Rightarrow> bytes result" where
  "guardedSign cr custody active data =
     and_then active (\<lambda>ok. if ok then custodySign cr custody data else Inl ''signing_key_not_active'')"

definition guardedRevocationSign ::
  "runtime \<Rightarrow> crypto \<Rightarrow> key_holder \<Rightarrow> bool result \<Rightarrow> revocation_event \<Rightarrow> time \<Rightarrow> string result" where
  "guardedRevocationSign rt cr signer active event now =
     and_then active (\<lambda>ok. if ok then signRevocation rt cr signer event now else Inl ''signing_key_not_active'')"

definition parsed :: "(string \<Rightarrow> json option) \<Rightarrow> string \<Rightarrow> json result" where
  "parsed parse s = (case parse s of None \<Rightarrow> Inl ''SyntaxError'' | Some j \<Rightarrow> Inr j)"

text \<open>The signing keys of the service: the active custody and the descriptors that only verify.\<close>

definition signing_custody ::
  "service_host \<Rightarrow> environment \<Rightarrow> time \<Rightarrow> db \<Rightarrow> (string \<times> local_custody \<times> key_descriptor list) result" where
  "signing_custody h env now d =
     and_then (fst (loadUsable now d)) (\<lambda>(active, verification).
     if kr_provider active \<noteq> LocalPkcs8 then Inl ''local_active_signing_key_required''
     else and_then (localPkcs8KeyCustodyFromEnvironment (ah_crypto h) (ah_files h) (ah_uid h) env
         (kr_reference active) (Some (kr_kid active))) (\<lambda>custody.
       and_then (map_result (verification_descriptor (ah_crypto h)) verification) (\<lambda>descriptors.
       let jwk = kd_jwk (lc_descriptor custody); stored = jwk_members (kr_jwk active) in
       if map_of jwk ''n'' \<noteq> map_of stored ''n'' \<or> map_of jwk ''e'' \<noteq> map_of stored ''e''
       then Inl ''local_public_key_metadata_mismatch''
       else Inr (kr_kid active, custody, descriptors))))"

definition startAuthorizationService ::
  "service_host \<Rightarrow> service_config \<Rightarrow> environment \<Rightarrow> (string \<Rightarrow> bool result) \<Rightarrow> time \<Rightarrow> db \<Rightarrow>
     authorization_service result" where
  "startAuthorizationService h config env active now d =
     (let rt = ah_runtime h in
      if \<not> ServiceConfigSchema rt config then Inl zod_error
      else case parse_url rt (sv_issuer config) of
        None \<Rightarrow> Inl ''Invalid URL''
      | Some u \<Rightarrow>
          and_then (loadPublicDeploymentConfig rt (ah_parse h) (ah_is_ip h) (ah_number h) env
              (Some (url_origin u))) (\<lambda>deployment.
          and_then (accountAuthFromEnvironment rt (ah_parse h) (ah_decode h) (ah_number h) (ah_files h)
              (Some (ah_uid h)) env AuthReader True now d) (\<lambda>accounts.
          and_then (signing_custody h env now d) (\<lambda>(kid, custody, descriptors).
          and_then (oauthConsentBootstrapSigner custody) (\<lambda>signer.
          and_then (key_holder_of ''public'' (kd_key (lc_descriptor custody)) (kd_kid (lc_descriptor custody))) (\<lambda>verifier.
          and_then (rateLimitSubjectCodecFromEnvironment (ah_decode h) env) (\<lambda>rateKey.
          and_then (fst (loadActivePublicClients d)) (\<lambda>loaded.
          and_then (secretArtifactCodecFromEnvironment (parsed (ah_parse h)) (ah_decode h) env) (\<lambda>codec.
          and_then (createAuthorizationProvider rt (sv_issuer config) (sv_cookie_keys config)
              (Inr (lc_descriptor custody), guardedSign (ah_crypto h) custody (active kid))
              descriptors loaded) (\<lambda>provider.
          and_then (revocationEventSigner custody) (\<lambda>revocation.
          and_then (worker_issuer rt (sv_issuer config)) (\<lambda>issuer.
          Inr \<lparr>az_config = config, az_origin = url_origin u, az_deployment = deployment,
            az_accounts = accounts, az_kid = kid, az_custody = custody, az_bootstrap_signer = signer,
            az_bootstrap_verifier = verifier, az_rate_key = rateKey, az_codec = codec,
            az_provider = provider, az_revocation_signer = revocation, az_issuer = issuer\<rparr>))))))))))))"

text \<open>The worker the service runs: it signs only while the key is active.\<close>

definition service_worker ::
  "service_host \<Rightarrow> authorization_service \<Rightarrow> (string \<Rightarrow> bool result) \<Rightarrow>
     (string \<Rightarrow> string \<Rightarrow> delivery_error + unit) \<Rightarrow> (outbox_row \<Rightarrow> time) \<Rightarrow> worker" where
  "service_worker h z active send clock =
     \<lparr>wk_issuer = az_issuer z,
      wk_sign = guardedRevocationSign (ah_runtime h) (ah_crypto h) (az_revocation_signer z) (active (az_kid z)),
      wk_send = send, wk_clock = clock\<rparr>"

section \<open>State of the handlers\<close>

record interaction =
  it_uid :: string
  it_prompt :: string
  it_details :: json_object
  it_params :: json_object
  it_grant :: "json option"

record login_session =
  lg_user :: string
  lg_created :: time
  lg_expires :: time

text \<open>
  What is saved of a grant: a new one of an account and a client with the identifier it is given,
  or an existing one, and what is added to it.
\<close>

record grant_update =
  gu_existing :: "string option"
  gu_account :: string
  gu_client :: string
  gu_jti :: "string option"
  gu_oidc :: "string option"
  gu_claims :: "string list"
  gu_resources :: "(string \<times> string) list"

record provider_library =
  pl_interaction :: "http_request \<Rightarrow> interaction result"
  pl_session :: "http_request \<Rightarrow> login_session option result"
  pl_find_grant :: "string \<Rightarrow> bool result"
  pl_save_grant :: "grant_update \<Rightarrow> string result"
  pl_finish :: "interaction_result \<Rightarrow> bool \<Rightarrow> http_response result"
  pl_callback :: "http_request \<Rightarrow> provider_error + http_response"

datatype service_effect =
    SavedGrant grant_update
  | FinishedWith interaction_result bool
  | ForwardedToProvider http_request
  | LoggedRejection rejection int
  | LoggedFailure grant_stage grant_code

record service_state =
  zs_db :: db
  zs_clients :: "string \<Rightarrow> string list option"
  zs_effects :: "service_effect list"

type_synonym 'a step = "(grant_stage \<times> (provider_error + 'a)) \<times> service_state"

definition emit :: "service_effect \<Rightarrow> service_state \<Rightarrow> service_state" where
  "emit e st = st\<lparr>zs_effects := zs_effects st @ [e]\<rparr>"

definition throw_at :: "grant_stage \<Rightarrow> string \<Rightarrow> service_state \<Rightarrow> 'a step" where
  "throw_at stage e st = ((stage, Inl (OtherError e)), st)"

definition answer_at :: "grant_stage \<Rightarrow> 'a \<Rightarrow> service_state \<Rightarrow> 'a step" where
  "answer_at stage r st = ((stage, Inr r), st)"

definition writeInteractionError :: "int \<Rightarrow> rejection \<Rightarrow> service_state \<Rightarrow> http_response step" where
  "writeInteractionError status reason st =
     answer_at AtInteraction (json_answer status ''{\"error\":\"invalid_request\"}'') (emit (LoggedRejection reason status) st)"

definition unavailable_body :: string where
  "unavailable_body = ''{\"error\":\"temporarily_unavailable\"}''"

definition interactionFinished ::
  "provider_library \<Rightarrow> interaction_result \<Rightarrow> bool \<Rightarrow> service_state \<Rightarrow> http_response step" where
  "interactionFinished lib result merge st =
     (let st' = emit (FinishedWith result merge) st in
      case pl_finish lib result merge of
        Inl e \<Rightarrow> throw_at AtInteractionFinish e st' | Inr r \<Rightarrow> answer_at AtInteractionFinish r st')"

section \<open>Consent\<close>

record consent_interaction =
  cq_uid :: string
  cq_account :: string
  cq_client :: string
  cq_resource :: string
  cq_scopes :: "string list"
  cq_csp :: string
  cq_grant :: "json option"
  cq_details :: json_object

definition consent_audience :: "authorization_service \<Rightarrow> string" where
  "consent_audience z = az_origin z @ ''/v1/oauth/consent/start''"

definition cookie_key :: "authorization_service \<Rightarrow> string" where
  "cookie_key z = (case sv_cookie_keys (az_config z) of [] \<Rightarrow> [] | k # ks \<Rightarrow> k)"

definition consent_page_text :: "authorization_service \<Rightarrow> consent_interaction \<Rightarrow> string \<Rightarrow> string \<Rightarrow> string" where
  "consent_page_text z q hostname csrf =
     renderInteractionPage
       \<lparr>ip_title = dp_product (az_deployment z) @ '' authorization'',
        ip_heading = ''Authorize direct MCP access.'',
        ip_message = ''The client will connect directly to '' @ escapeHtml hostname @
          ''. WePuu will not receive its tool inputs or results.'',
        ip_content = ''<h2>Approved ceiling</h2><ul class=\"scope-list\">'' @
          concat (map (\<lambda>s. ''<li>'' @ escapeHtml s @ ''</li>'') (cq_scopes q)) @
          ''</ul><form method=\"post\" data-wepuu-consent><input type=\"hidden\" name=\"csrf\" value=\"'' @
          escapeHtml csrf @
          ''\"><div class=\"actions\"><button name=\"decision\" value=\"approve\" type=\"submit\">Approve access</button><button class=\"danger\" name=\"decision\" value=\"deny\" type=\"submit\">Deny</button></div><p data-wepuu-submit-status role=\"status\" hidden>Authorizing'' @
          [CHR 0xE2, CHR 0x80, CHR 0xA6] @ ''</p></form><script>'' @ CONSENT_SUBMISSION_SCRIPT @ ''</script>''\<rparr>"

definition consent_page ::
  "service_host \<Rightarrow> authorization_service \<Rightarrow> consent_interaction \<Rightarrow> grant_binding \<Rightarrow> bytes \<Rightarrow> time \<Rightarrow>
     service_state \<Rightarrow> http_response step" where
  "consent_page h z q b random now st =
     (let rt = ah_runtime h;
          csrf = signCsrf rt \<lparr>cr_uid = cq_uid q, cr_account = cq_account q, cr_grant = ab_grant b,
            cr_expires = now div 1000 + 300, cr_nonce = base64url rt random\<rparr> (cookie_key z) in
      case parse_url rt (cq_resource q) of
        None \<Rightarrow> throw_at AtBinding ''Invalid URL'' st
      | Some u \<Rightarrow> answer_at AtBinding
          \<lparr>rs_status = 200,
           rs_headers = [(''content-type'', ''text/html; charset=utf-8''), no_store,
             (''referrer-policy'', INTERACTION_REFERRER_POLICY), (''content-security-policy'', cq_csp q),
             (''x-content-type-options'', ''nosniff'')],
           rs_body = consent_page_text z q (url_hostname u) csrf\<rparr> st)"

definition plan_update :: "consent_interaction \<Rightarrow> grant_binding \<Rightarrow> consent_plan \<Rightarrow> grant_update" where
  "plan_update q b p =
     \<lparr>gu_existing = cp_existing p, gu_account = cq_account q, gu_client = cq_client q,
      gu_jti = (if cp_existing p = None then Some (ab_grant b) else None),
      gu_oidc = (if cp_oidc_scopes p = [] then None else Some (join_with '' '' (cp_oidc_scopes p))),
      gu_claims = cp_oidc_claims p,
      gu_resources = map (\<lambda>(r, ss). (r, join_with '' '' ss)) (cp_resource_scopes p)\<rparr>"

definition save_consent ::
  "provider_library \<Rightarrow> consent_interaction \<Rightarrow> grant_binding \<Rightarrow> consent_plan \<Rightarrow> service_state \<Rightarrow> http_response step" where
  "save_consent lib q b p st =
     (let update = plan_update q b p; st' = emit (SavedGrant update) st in
      case pl_save_grant lib update of
        Inl e \<Rightarrow> throw_at AtGrantSave e st'
      | Inr savedGrantId \<Rightarrow>
          if savedGrantId \<noteq> ab_grant b then ((AtGrantSave, Inl (GrantDiagnosticError AtGrantSave BindingMismatch)), st')
          else interactionFinished lib (consentInteractionResult (cp_existing p) savedGrantId) True st')"

definition approve_consent ::
  "provider_library \<Rightarrow> consent_interaction \<Rightarrow> grant_binding \<Rightarrow> service_state \<Rightarrow> http_response step" where
  "approve_consent lib q b st =
     (case consentGrantUpdatePlan (cq_grant q) (ab_grant b) (cq_resource q) (cq_scopes q) (cq_details q) of
        Inl e \<Rightarrow> ((AtConsentPlan, Inl e), st)
      | Inr p \<Rightarrow>
          (case cp_existing p of
             None \<Rightarrow> save_consent lib q b p st
           | Some g \<Rightarrow>
               (case pl_find_grant lib g of
                  Inl e \<Rightarrow> throw_at AtGrantLoad e st
                | Inr False \<Rightarrow> ((AtGrantLoad, Inl (GrantDiagnosticError AtGrantLoad ProviderMissing)), st)
                | Inr True \<Rightarrow> save_consent lib q b p st)))"

definition decide_consent ::
  "service_host \<Rightarrow> authorization_service \<Rightarrow> provider_library \<Rightarrow> consent_interaction \<Rightarrow> grant_binding \<Rightarrow>
     (string \<times> string) list \<Rightarrow> time \<Rightarrow> service_state \<Rightarrow> http_response step" where
  "decide_consent h z lib q b form now st =
     (case verifyCsrf (ah_runtime h) (ah_decode h) (ah_parse h)
          (case map_of form ''csrf'' of None \<Rightarrow> [] | Some c \<Rightarrow> c) (cookie_key z) now of
        None \<Rightarrow> writeInteractionError 400 CsrfBindingMismatch st
      | Some c \<Rightarrow>
          if cr_uid c \<noteq> cq_uid q \<or> cr_account c \<noteq> cq_account q \<or> cr_grant c \<noteq> ab_grant b
          then writeInteractionError 400 CsrfBindingMismatch st
          else if map_of form ''decision'' \<noteq> Some ''approve'' then interactionFinished lib AccessDenied False st
          else approve_consent lib q b st)"

definition bound_consent ::
  "service_host \<Rightarrow> authorization_service \<Rightarrow> provider_library \<Rightarrow> consent_interaction \<Rightarrow> string \<Rightarrow>
     (string \<times> string) list option \<Rightarrow> bytes \<Rightarrow> time \<Rightarrow> service_state \<Rightarrow> http_response step" where
  "bound_consent h z lib q verb submitted random now st =
     (case resolveExact (cq_account q) (cq_client q) (cq_resource q) (cq_scopes q) (zs_db st) of
        (Inl e, d) \<Rightarrow> throw_at AtBinding e st
      | (Inr None, d) \<Rightarrow>
          (case signBootstrap (ah_runtime h) (ah_crypto h) (az_bootstrap_signer z)
              \<lparr>bi_issuer = sv_issuer (az_config z), bi_audience = consent_audience z, bi_subject = cq_account q,
               bi_uid = cq_uid q, bi_client = cq_client q, bi_resource = cq_resource q,
               bi_scopes = cq_scopes q\<rparr> random now of
             Inl e \<Rightarrow> throw_at AtBinding e st
           | Inr request \<Rightarrow> answer_at AtBinding (see_other (consentBootstrapLocation request)) st)
      | (Inr (Some b), d) \<Rightarrow>
          if verb = ''GET'' then consent_page h z q b random now st
          else (case submitted of
            None \<Rightarrow> writeInteractionError 405 MethodOrContentType st
          | Some form \<Rightarrow> decide_consent h z lib q b form now st))"

definition deny_from_console ::
  "service_host \<Rightarrow> authorization_service \<Rightarrow> provider_library \<Rightarrow> consent_interaction \<Rightarrow> string \<Rightarrow> time \<Rightarrow>
     service_state \<Rightarrow> http_response step" where
  "deny_from_console h z lib q token now st =
     (case verifyBootstrap (ah_runtime h) (ah_crypto h) (az_bootstrap_verifier z) token
          \<lparr>be_issuer = sv_issuer (az_config z), be_audience = consent_audience z, be_subject = cq_account q\<rparr> now of
        Inl e \<Rightarrow> writeInteractionError 400 ConsentBootstrapInvalid st
      | Inr claims \<Rightarrow>
          if \<not> oauthConsentBootstrapMatches claims (cq_uid q) (cq_client q) (cq_resource q) (cq_scopes q)
          then writeInteractionError 400 ConsentBootstrapInvalid st
          else interactionFinished lib AccessDenied False st)"

definition consent_route ::
  "service_host \<Rightarrow> authorization_service \<Rightarrow> provider_library \<Rightarrow> http_request \<Rightarrow> consent_interaction \<Rightarrow> bytes \<Rightarrow>
     time \<Rightarrow> service_state \<Rightarrow> http_response step" where
  "consent_route h z lib rq q random now st =
     (if rq_method rq \<noteq> ''POST'' then bound_consent h z lib q (rq_method rq) None random now st
      else case interactionSubmissionHeaderRejection (rq_method rq) (header ''content-type'' rq)
          (header ''origin'' rq) (az_origin z) of
        Some (status, reason) \<Rightarrow> writeInteractionError status reason st
      | None \<Rightarrow>
          (case read_chunks 8192 ''interaction_body_too_large'' [] (rq_chunks rq) of
             Inl e \<Rightarrow> throw_at AtInteraction e st
           | Inr body \<Rightarrow>
               let form = parse_form body in
               (case (map_of form ''decision'' = Some ''deny'', map_of form ''local_consent_request'') of
                  (True, Some token) \<Rightarrow> deny_from_console h z lib q token now st
                | _ \<Rightarrow> bound_consent h z lib q (rq_method rq) (Some form) random now st)))"

section \<open>Routes\<close>

definition login_location :: "http_request \<Rightarrow> http_response" where
  "login_location rq = see_other (''/v1/account/login?return_to='' @ encodeURIComponent (rq_path rq))"

definition consent_request_of ::
  "service_host \<Rightarrow> interaction \<Rightarrow> string \<Rightarrow> consent_interaction option" where
  "consent_request_of h details account =
     (case (map_of (it_params details) ''client_id'', interactionResource (it_params details),
            interactionScopes (it_params details),
            consentInteractionCsp (ah_runtime h) (ah_base64 h) (map_of (it_params details) ''redirect_uri'')) of
        (Some (JStr client), Some resource, Some scopes, Some csp) \<Rightarrow>
          Some \<lparr>cq_uid = it_uid details, cq_account = account, cq_client = client, cq_resource = resource,
            cq_scopes = scopes, cq_csp = csp, cq_grant = it_grant details, cq_details = it_details details\<rparr>
      | _ \<Rightarrow> None)"

definition prompt_route ::
  "service_host \<Rightarrow> authorization_service \<Rightarrow> provider_library \<Rightarrow> http_request \<Rightarrow> interaction \<Rightarrow> string \<Rightarrow> time \<Rightarrow>
     bytes \<Rightarrow> time \<Rightarrow> service_state \<Rightarrow> http_response step" where
  "prompt_route h z lib rq details account created random now st =
     (if it_prompt details = ''login'' then interactionFinished lib (LoginResult account (created div 1000)) False st
      else if it_prompt details \<noteq> ''consent'' then writeInteractionError 400 UnsupportedPrompt st
      else case consent_request_of h details account of
        None \<Rightarrow> writeInteractionError 400 InvalidParameters st
      | Some q \<Rightarrow> consent_route h z lib rq q random now st)"

definition interaction_route ::
  "service_host \<Rightarrow> authorization_service \<Rightarrow> provider_library \<Rightarrow> http_request \<Rightarrow> bytes \<Rightarrow> time \<Rightarrow>
     service_state \<Rightarrow> http_response step" where
  "interaction_route h z lib rq random now st =
     (case pl_interaction lib rq of
        Inl e \<Rightarrow> throw_at AtInteraction e st
      | Inr details \<Rightarrow>
          (case pl_session lib rq of
             Inl e \<Rightarrow> throw_at AtInteraction e st
           | Inr None \<Rightarrow> answer_at AtInteraction (login_location rq) st
           | Inr (Some session) \<Rightarrow>
               if lg_expires session \<le> now then answer_at AtInteraction (login_location rq) st
               else (case resolveLink (lg_user session) (zs_db st) of
                 (Inl e, d) \<Rightarrow> throw_at AtInteraction e st
               | (Inr None, d) \<Rightarrow> answer_at AtInteraction (login_location rq) st
               | (Inr (Some link), d) \<Rightarrow>
                   if al_status link \<noteq> TActive then writeInteractionError 403 AccountInactive st
                   else prompt_route h z lib rq details (al_account link) (lg_created session) random now st)))"

definition provider_callback ::
  "provider_library \<Rightarrow> http_request \<Rightarrow> service_state \<Rightarrow> http_response step" where
  "provider_callback lib rq st =
     (let st' = emit (ForwardedToProvider rq) st in
      case pl_callback lib rq of
        Inr r \<Rightarrow> answer_at AtInteraction r st'
      | Inl e \<Rightarrow>
          let (_, stage, code) = grantFailureDiagnostic e AtInteraction 0 in
          answer_at AtInteraction (json_answer 500 unavailable_body) (emit (LoggedFailure stage code) st'))"

definition provider_route ::
  "service_host \<Rightarrow> provider_library \<Rightarrow> http_request \<Rightarrow> service_state \<Rightarrow> http_response step" where
  "provider_route h lib rq st =
     (if rq_method rq = ''GET'' \<and> rq_path rq = ''/auth'' then
        let (ok, query) = normalizeAuthorizationResources (rq_query rq) in
        if \<not> ok then writeInteractionError 400 InvalidParameters st
        else
          let (_, store) = allowRegisteredNativeLoopbackPort (ah_runtime h) (map_of query ''client_id'')
                (map_of query ''redirect_uri'') (zs_clients st)
          in provider_callback lib (rq\<lparr>rq_query := query\<rparr>) (st\<lparr>zs_clients := store\<rparr>)
      else provider_callback lib rq st)"

definition limited_route ::
  "service_host \<Rightarrow> authorization_service \<Rightarrow> provider_library \<Rightarrow> http_request \<Rightarrow> bytes \<Rightarrow> time \<Rightarrow>
     service_state \<Rightarrow> http_response step" where
  "limited_route h z lib rq random now st =
     (if starts_with (rq_path rq) ''/interaction/'' then interaction_route h z lib rq random now st
      else provider_route h lib rq st)"

definition ready_answer :: "authorization_service \<Rightarrow> time \<Rightarrow> db \<Rightarrow> http_response" where
  "ready_answer z now d =
     (if fst (isActiveKey (az_kid z) now d) = Inr True then json_answer 200 ''{\"status\":\"ready\"}''
      else json_answer 503 unavailable_body)"

definition authorization_route ::
  "service_host \<Rightarrow> authorization_service \<Rightarrow> provider_library \<Rightarrow> http_request \<Rightarrow> bytes \<Rightarrow> time \<Rightarrow>
     service_state \<Rightarrow> http_response step" where
  "authorization_route h z lib rq random now st =
     (if rq_method rq = ''GET'' \<and> rq_path rq = ''/assets/wepuu-v1.css''
      then answer_at AtInteraction \<lparr>rs_status = 200,
        rs_headers = [(''content-type'', ''text/css; charset=utf-8''),
          (''cache-control'', ''public, max-age=31536000, immutable''), (''x-content-type-options'', ''nosniff'')],
        rs_body = ah_styles h\<rparr> st
      else if rq_method rq = ''GET'' \<and> rq_path rq = ''/health/live''
      then answer_at AtInteraction (json_answer 200 ''{\"status\":\"live\"}'') st
      else if rq_method rq = ''GET'' \<and> rq_path rq = ''/health/ready''
      then answer_at AtInteraction (ready_answer z now (zs_db st)) st
      else case endpointPolicy (rq_method rq) (rq_path rq) of
        None \<Rightarrow> limited_route h z lib rq random now st
      | Some policy \<Rightarrow>
          (case allow (ah_runtime h) (az_rate_key z) policy (requestSource rq) now (zs_db st) of
             (Inl e, d) \<Rightarrow> answer_at AtInteraction (json_answer 503 unavailable_body) (st\<lparr>zs_db := d\<rparr>)
           | (Inr False, d) \<Rightarrow> answer_at AtInteraction \<lparr>rs_status = 429,
               rs_headers = [(''content-type'', ''application/json''), no_store, (''retry-after'', ''60'')],
               rs_body = unavailable_body\<rparr> (st\<lparr>zs_db := d\<rparr>)
           | (Inr True, d) \<Rightarrow> limited_route h z lib rq random now (st\<lparr>zs_db := d\<rparr>)))"

text \<open>Whatever a handler throws is logged by stage and category, and answered alike.\<close>

definition handleAuthorization ::
  "service_host \<Rightarrow> authorization_service \<Rightarrow> provider_library \<Rightarrow> http_request \<Rightarrow> bytes \<Rightarrow> time \<Rightarrow>
     service_state \<Rightarrow> http_response \<times> service_state" where
  "handleAuthorization h z lib rq random now st =
     (case authorization_route h z lib rq random now st of
        ((stage, Inr r), st') \<Rightarrow> (r, st')
      | ((stage, Inl e), st') \<Rightarrow>
          let (_, s, code) = grantFailureDiagnostic e stage now
          in (json_answer 503 unavailable_body, emit (LoggedFailure s code) st'))"

end
