(* ===== verification/Authorization_Safety.thy ===== *)
theory Authorization_Safety
  imports Authorization_Service
begin

text \<open>
  What the authorization service guarantees: an approval rests on the user's form and on a consent of
  the site, a request changes only counters, the provider is reached within the limits, and a revoked
  key signs nothing.  The examples at the end run the service on concrete requests.
\<close>

section \<open>What an approval rests on\<close>

lemma resolve_exact_consent:
  assumes "resolveExact subject client resource scopes d = (Inr (Some b), d')"
  shows "\<exists>g r scs. consent_of d g r \<and> gr_subject g = subject \<and> gr_client g = client \<and>
    si_resource r = resource \<and> set (gr_scopes g) = set scopes \<and> b = binding_of g r scs"
proof -
  let ?P = "\<lambda>(g, r). gr_subject g = subject \<and> gr_client g = client \<and> si_resource r = resource \<and>
      gr_scopes g = requested_scopes scopes"
  let ?F = "filter ?P (active_consents (role_session RoleAuth) d)"
  have one: "\<exists>g r scs. l = [(g, r)] \<and> b = binding_of g r scs"
    if "(case l of [] \<Rightarrow> Inr (None, d)
        | [(g, r)] \<Rightarrow> (case parse_scope_set (gr_scopes g) of None \<Rightarrow> Inl zod_error
           | Some scs \<Rightarrow> Inr (Some \<lparr>ab_tenant = gr_tenant g, ab_site = gr_site g, ab_grant = gr_id g,
               ab_subject = gr_subject g, ab_client = gr_client g, ab_resource = si_resource r,
               ab_scopes = scs\<rparr>, d))
        | _ \<Rightarrow> Inl ''authorization_grant_ambiguous'') = Inr (Some b, d')" for l :: "(grant_row \<times> site_row) list"
    using that by (cases "parse_scope_set (gr_scopes (fst (hd l)))"; cases l; cases "tl l"; simp add: binding_of_def split: prod.splits)
      (elim conjE, rule exI, erule sym)
  have some: "length (requested_scopes scopes) \<noteq> 0"
    using assms by (intro notI) (simp add: resolveExact_def)
  have "\<exists>g r scs. take 2 ?F = [(g, r)] \<and> b = binding_of g r scs"
    by (rule one, rule assms [unfolded resolveExact_def Let_def if_not_P [OF some] with_role_defs transaction_Inr])
  then obtain g r scs where *: "take 2 ?F = [(g, r)]" and b: "b = binding_of g r scs" by blast
  have "(g, r) \<in> set (take 2 ?F)" unfolding * by simp
  then have "(g, r) \<in> set ?F" by (rule in_set_takeD)
  then have "consent_of d g r" "?P (g, r)" by (simp_all add: set_active_consents)
  with b show ?thesis by (intro exI [of _ g] exI [of _ r] exI [of _ scs]) (simp add: requested_scopes_def)
qed

lemma effects_emit [simp]: "zs_effects (emit e st) = zs_effects st @ [e]" "zs_db (emit e st) = zs_db st"
  by (simp_all add: emit_def)

lemma effects_finished [simp]:
  "zs_effects (snd (interactionFinished lib result merge st)) = zs_effects st @ [FinishedWith result merge]"
  "zs_db (snd (interactionFinished lib result merge st)) = zs_db st"
  by (simp_all add: interactionFinished_def throw_at_def answer_at_def Let_def split: sum.split)

lemma effects_refused [simp]:
  "zs_effects (snd (writeInteractionError status reason st)) = zs_effects st @ [LoggedRejection reason status]"
  "zs_db (snd (writeInteractionError status reason st)) = zs_db st"
  by (simp_all add: writeInteractionError_def answer_at_def)

lemma effects_thrown [simp]: "snd (throw_at stage e st) = st" "snd (answer_at stage r st) = st"
  by (simp_all add: throw_at_def answer_at_def)

lemma effects_db: "zs_effects (st\<lparr>zs_db := d\<rparr>) = zs_effects st"
  by simp

abbreviation saves :: "grant_update \<Rightarrow> 'a step \<Rightarrow> bool" where
  "saves u s \<equiv> SavedGrant u \<in> set (zs_effects (snd s))"

abbreviation saved :: "grant_update \<Rightarrow> service_state \<Rightarrow> bool" where
  "saved u st \<equiv> SavedGrant u \<in> set (zs_effects st)"

lemma save_consent_saves: "saves u (save_consent lib q b p st) \<Longrightarrow> \<not> saved u st \<Longrightarrow> u = plan_update q b p"
  by (auto simp: save_consent_def Let_def split: sum.split_asm if_split_asm)

lemma approve_consent_saves:
  "saves u (approve_consent lib q b st) \<Longrightarrow> \<not> saved u st \<Longrightarrow>
     \<exists>p. consentGrantUpdatePlan (cq_grant q) (ab_grant b) (cq_resource q) (cq_scopes q) (cq_details q) = Inr p \<and>
       u = plan_update q b p"
  by (auto simp: approve_consent_def dest: save_consent_saves
    split: sum.split_asm option.split_asm bool.split_asm)

definition form_token :: "(string \<times> string) list \<Rightarrow> string" where
  "form_token form = (case map_of form ''csrf'' of None \<Rightarrow> [] | Some c \<Rightarrow> c)"

lemma decide_consent_saves:
  assumes "saves u (decide_consent h z lib q b form now st)" "\<not> saved u st"
  shows "map_of form ''decision'' = Some ''approve'' \<and>
    (\<exists>c. verifyCsrf (ah_runtime h) (ah_decode h) (ah_parse h) (form_token form) (cookie_key z) now = Some c \<and>
       cr_uid c = cq_uid q \<and> cr_account c = cq_account q \<and> cr_grant c = ab_grant b) \<and>
    (\<exists>p. consentGrantUpdatePlan (cq_grant q) (ab_grant b) (cq_resource q) (cq_scopes q) (cq_details q) = Inr p \<and>
       u = plan_update q b p)"
  using assms approve_consent_saves [of u lib q b st]
  by (auto simp: decide_consent_def form_token_def split: option.split_asm if_split_asm)

lemma bound_consent_saves:
  assumes "saves u (bound_consent h z lib q verb submitted random now st)" "\<not> saved u st"
  shows "\<exists>b d' form. resolveExact (cq_account q) (cq_client q) (cq_resource q) (cq_scopes q) (zs_db st) = (Inr (Some b), d') \<and>
    submitted = Some form \<and> saves u (decide_consent h z lib q b form now st)"
  using assms
  by (auto simp: bound_consent_def consent_page_def Let_def
    split: sum.split_asm option.split_asm if_split_asm prod.split_asm)

lemma consent_route_saves:
  assumes "saves u (consent_route h z lib rq q random now st)" "\<not> saved u st"
  shows "interactionSubmissionHeaderRejection (rq_method rq) (header ''content-type'' rq)
      (header ''origin'' rq) (az_origin z) = None \<and>
    read_chunks 8192 ''interaction_body_too_large'' [] (rq_chunks rq) = Inr (concat (rq_chunks rq)) \<and>
    saves u (bound_consent h z lib q (rq_method rq) (Some (parse_form (concat (rq_chunks rq)))) random now st)"
proof -
  have deny: "\<not> saves u (deny_from_console h z lib q token now st)" for token
    using assms(2) by (simp add: deny_from_console_def split: sum.split)
  have bare: "\<not> saves u (bound_consent h z lib q verb None random now st)" for verb
    using bound_consent_saves [of u h z lib q verb None] assms(2) by blast
  show ?thesis
    using assms deny bare
    by (auto simp: consent_route_def read_chunks_one Let_def
      split: sum.split_asm option.split_asm if_split_asm bool.split_asm)
qed

lemma header_rejection_None:
  "interactionSubmissionHeaderRejection verb t origin expected = None \<longleftrightarrow>
     verb = ''POST'' \<and> map_option (\<lambda>t. hd (split_on CHR '';'' t)) t = Some ''application/x-www-form-urlencoded'' \<and>
     origin = Some expected \<and> expected \<noteq> ''null''"
  by (auto simp: interactionSubmissionHeaderRejection_def split: option.split)

lemma prompt_route_saves:
  assumes "saves u (prompt_route h z lib rq details account created random now st)" "\<not> saved u st"
  shows "it_prompt details = ''consent'' \<and>
    (\<exists>q. consent_request_of h details account = Some q \<and> saves u (consent_route h z lib rq q random now st))"
  using assms by (auto simp: prompt_route_def split: if_split_asm option.split_asm)

lemma interaction_route_saves:
  assumes "saves u (interaction_route h z lib rq random now st)" "\<not> saved u st"
  shows "\<exists>details session link d'. pl_interaction lib rq = Inr details \<and> pl_session lib rq = Inr (Some session) \<and>
    now < lg_expires session \<and> resolveLink (lg_user session) (zs_db st) = (Inr (Some link), d') \<and>
    al_status link = TActive \<and>
    saves u (prompt_route h z lib rq details (al_account link) (lg_created session) random now st)"
  using assms
  by (auto simp: interaction_route_def split: sum.split_asm option.split_asm if_split_asm prod.split_asm)

lemma provider_route_saves: "\<not> saved u st \<Longrightarrow> \<not> saves u (provider_route h lib rq st)"
  by (simp add: provider_route_def provider_callback_def Let_def answer_at_def
    split: sum.split prod.split)

lemma interaction_paths_unlimited: "starts_with path ''/interaction/'' \<Longrightarrow> endpointPolicy verb path = None"
proof -
  have "\<not> starts_with ''/auth'' ''/interaction/''" "\<not> starts_with ''/token'' ''/interaction/''"
    "\<not> starts_with ''/token/revocation'' ''/interaction/''" by code_simp+
  then show "starts_with path ''/interaction/'' \<Longrightarrow> endpointPolicy verb path = None"
    unfolding endpointPolicy_def by (metis (full_types))
qed

lemma authorization_route_saves:
  assumes "saves u (authorization_route h z lib rq random now st)" "\<not> saved u st"
  shows "saves u (interaction_route h z lib rq random now st)"
proof (cases "starts_with (rq_path rq) ''/interaction/''")
  case True
  then have "endpointPolicy (rq_method rq) (rq_path rq) = None" by (rule interaction_paths_unlimited)
  with True assms show ?thesis
    by (auto simp: authorization_route_def limited_route_def split: if_split_asm)
next
  case False
  have "\<not> saves u (limited_route h z lib rq random now (st\<lparr>zs_db := d\<rparr>))" for d
    using False assms(2) by (simp add: limited_route_def provider_route_saves)
  moreover have "\<not> saves u (limited_route h z lib rq random now st)"
    using False assms(2) by (simp add: limited_route_def provider_route_saves)
  ultimately have "\<not> saves u (authorization_route h z lib rq random now st)"
    using assms(2) unfolding authorization_route_def
    by (auto simp only: effects_thrown not_False_eq_True effects_db if_False if_True simp_thms split: if_split option.split sum.split bool.split prod.split)
  with assms(1) show ?thesis by contradiction
qed

lemma handle_saves:
  assumes "SavedGrant u \<in> set (zs_effects (snd (handleAuthorization h z lib rq random now st)))" "\<not> saved u st"
  shows "saves u (interaction_route h z lib rq random now st)"
  using assms by (intro authorization_route_saves)
    (auto simp: handleAuthorization_def Let_def split: prod.split_asm sum.split_asm)

lemma missing_list_Inr: "missing_list permitted v = Inr xs \<Longrightarrow> set xs \<subseteq> set permitted"
  by (auto simp: missing_list_def plan_error_def succ_simps list_ex_iff)

lemma missing_resources_Inr:
  assumes "missing_resources resource scopes v = Inr rs"
  shows "\<forall>(r, ss)\<in>set rs. r = resource \<and> set ss \<subseteq> set scopes"
proof (cases v)
  case (Some j)
  with assms show ?thesis
    by (cases j) (auto simp: missing_resources_def plan_error_def succ_simps dest!: missing_list_Inr)
qed (use assms in \<open>simp add: missing_resources_def\<close>)

lemma consent_plan_Inr:
  assumes "consentGrantUpdatePlan pg grant resource scopes details = Inr p"
  shows "(pg = None \<and> cp_existing p = None \<or> pg = Some (JStr grant) \<and> cp_existing p = Some grant) \<and>
    set (cp_oidc_scopes p) \<subseteq> {''openid'', ''offline_access''} \<and>
    (\<forall>(r, ss)\<in>set (cp_resource_scopes p). r = resource \<and> set ss \<subseteq> set scopes)"
proof -
  have pg: "pg = None \<or> pg = Some (JStr grant)"
    using assms by (auto simp: consentGrantUpdatePlan_def plan_error_def split: if_split_asm)
  then have "\<exists>oidc claims missing. p = \<lparr>cp_existing = (if pg = None then None else Some grant), cp_oidc_scopes = oidc,
      cp_oidc_claims = claims, cp_resource_scopes = missing\<rparr> \<and>
    missing_list [''openid'', ''offline_access''] (map_of details ''missingOIDCScope'') = Inr oidc \<and>
    missing_resources resource scopes (map_of details ''missingResourceScopes'') = Inr missing"
    using assms unfolding consentGrantUpdatePlan_def plan_error_def
    by (simp only: succ_simps not_not simp_thms Inr_Inl_False Inl_Inr_False sum.inject) metis
  then obtain oidc claims missing where p: "p = \<lparr>cp_existing = (if pg = None then None else Some grant), cp_oidc_scopes = oidc,
      cp_oidc_claims = claims, cp_resource_scopes = missing\<rparr>"
    and *: "missing_list [''openid'', ''offline_access''] (map_of details ''missingOIDCScope'') = Inr oidc"
      "missing_resources resource scopes (map_of details ''missingResourceScopes'') = Inr missing"
    by blast
  show ?thesis
    using pg missing_list_Inr [OF *(1)] missing_resources_Inr [OF *(2)] by (auto simp add: p)
qed


text \<open>
  What an approval needs: a form submitted on the service's own origin, by a browser with a live session
  linked to an active account, for a consent interaction, with a form token that the service signed
  for this interaction, account and grant and that has not expired.
\<close>

definition form_approves ::
  "service_host \<Rightarrow> authorization_service \<Rightarrow> http_request \<Rightarrow> consent_interaction \<Rightarrow> string \<Rightarrow> time \<Rightarrow> bool" where
  "form_approves h z rq q grant now \<longleftrightarrow>
     (let body = concat (rq_chunks rq); form = parse_form body in
      rq_method rq = ''POST'' \<and> header ''origin'' rq = Some (az_origin z) \<and> length body \<le> 8192 \<and>
      map_of form ''decision'' = Some ''approve'' \<and>
      (\<exists>c. verifyCsrf (ah_runtime h) (ah_decode h) (ah_parse h) (form_token form) (cookie_key z) now = Some c \<and>
         cr_uid c = cq_uid q \<and> cr_account c = cq_account q \<and> cr_grant c = grant))"

definition signed_in_request ::
  "service_host \<Rightarrow> provider_library \<Rightarrow> http_request \<Rightarrow> time \<Rightarrow> db \<Rightarrow> consent_interaction \<Rightarrow> bool" where
  "signed_in_request h lib rq now d q \<longleftrightarrow>
     (\<exists>details session link d'. pl_interaction lib rq = Inr details \<and> it_prompt details = ''consent'' \<and>
        pl_session lib rq = Inr (Some session) \<and> now < lg_expires session \<and>
        resolveLink (lg_user session) d = (Inr (Some link), d') \<and> al_status link = TActive \<and>
        consent_request_of h details (al_account link) = Some q)"

text \<open>What is saved gives nothing that the grant of the site does not give.\<close>

definition within_grant :: "grant_row \<Rightarrow> site_row \<Rightarrow> grant_update \<Rightarrow> bool" where
  "within_grant g r u \<longleftrightarrow> gu_account u = gr_subject g \<and> gu_client u = gr_client g \<and>
     (gu_existing u = None \<and> gu_jti u = Some (gr_id g) \<or> gu_existing u = Some (gr_id g) \<and> gu_jti u = None) \<and>
     (\<forall>t. gu_oidc u = Some t \<longrightarrow> set (words t) \<subseteq> {''openid'', ''offline_access''}) \<and>
     (\<forall>(resource, t)\<in>set (gu_resources u). resource = si_resource r \<and> set (words t) \<subseteq> set (gr_scopes g))"

lemma consent_request_scopes:
  assumes "consent_request_of h details account = Some q"
  shows "set (cq_scopes q) \<subseteq> set mcpScopes"
  using assms unfolding consent_request_of_def interactionScopes_def
  by (auto simp: Let_def split: option.split_asm json.split_asm if_split_asm)

lemma plan_within_grant:
  assumes plan: "consentGrantUpdatePlan (cq_grant q) (ab_grant b) (cq_resource q) (cq_scopes q) (cq_details q) = Inr p"
    and b: "b = binding_of g r scs" and g: "gr_subject g = cq_account q" "gr_client g = cq_client q"
      "si_resource r = cq_resource q" "set (gr_scopes g) = set (cq_scopes q)"
    and sc: "set (cq_scopes q) \<subseteq> set mcpScopes"
  shows "within_grant g r (plan_update q b p)"
proof -
  from consent_plan_Inr [OF plan]
  have ex: "cp_existing p = None \<or> cp_existing p = Some (ab_grant b)"
    and oidc: "set (cp_oidc_scopes p) \<subseteq> {''openid'', ''offline_access''}"
    and rs: "\<And>n ss. (n, ss) \<in> set (cp_resource_scopes p) \<Longrightarrow> n = cq_resource q \<and> set ss \<subseteq> set (cq_scopes q)"
    by blast+
  have w: "words (join_with '' '' ss) = ss" if "(n, ss) \<in> set (cp_resource_scopes p)" for n ss
    by (rule words_join) (use rs [OF that] sc mcp_words in blast)
  have "words (join_with '' '' (cp_oidc_scopes p)) = cp_oidc_scopes p"
    by (rule words_join) (use oidc in \<open>force simp: is_word_def\<close>)
  with ex oidc show ?thesis
    unfolding within_grant_def
    by (auto simp: plan_update_def b binding_of_def g w split: if_split_asm dest: rs rs [THEN conjunct2, THEN subsetD])
qed

text \<open>
  C3. Nothing is written to a grant of \<open>oidc-provider\<close> without a user's answer: whenever the service saves a
  grant, the request was a form posted from the service's own origin by a browser with a live session,
  linked to an active account, that answered \<open>approve\<close> with an unexpired form token the service signed
  for that interaction, account and grant; an active grant of an active site names that account, client
  and resource with exactly the scopes the interaction asks for; and what is saved is for that account
  and client, under that grant's identifier, and adds only scopes of it.
\<close>

theorem consent_sound:
  assumes "SavedGrant u \<in> set (zs_effects (snd (handleAuthorization h z lib rq random now st)))"
    and "SavedGrant u \<notin> set (zs_effects st)"
  shows "\<exists>q g r. signed_in_request h lib rq now (zs_db st) q \<and> form_approves h z rq q (gr_id g) now \<and>
    consent_of (zs_db st) g r \<and> gr_subject g = cq_account q \<and> gr_client g = cq_client q \<and>
    si_resource r = cq_resource q \<and> set (gr_scopes g) = set (cq_scopes q) \<and> within_grant g r u"
proof -
  note new = assms(2)
  from interaction_route_saves [OF handle_saves [OF assms] new] obtain details session link d'
    where s: "pl_interaction lib rq = Inr details" "pl_session lib rq = Inr (Some session)"
      "now < lg_expires session" "resolveLink (lg_user session) (zs_db st) = (Inr (Some link), d')" "al_status link = TActive"
      and "saves u (prompt_route h z lib rq details (al_account link) (lg_created session) random now st)" by blast
  from prompt_route_saves [OF this(6) new] obtain q where p: "it_prompt details = ''consent''"
      "consent_request_of h details (al_account link) = Some q"
    and "saves u (consent_route h z lib rq q random now st)" by blast
  note route = consent_route_saves [OF this(3) new]
  from bound_consent_saves [OF route [THEN conjunct2, THEN conjunct2] new] obtain b d2
    where b: "resolveExact (cq_account q) (cq_client q) (cq_resource q) (cq_scopes q) (zs_db st) = (Inr (Some b), d2)"
      and "saves u (decide_consent h z lib q b (parse_form (concat (rq_chunks rq))) now st)" by blast
  note decision = decide_consent_saves [OF this(2) new]
  from resolve_exact_consent [OF b] obtain g r scs where g: "consent_of (zs_db st) g r" "gr_subject g = cq_account q"
      "gr_client g = cq_client q" "si_resource r = cq_resource q" "set (gr_scopes g) = set (cq_scopes q)"
    and bind: "b = binding_of g r scs" by blast
  have "signed_in_request h lib rq now (zs_db st) q" using s p unfolding signed_in_request_def by blast
  moreover have "form_approves h z rq q (gr_id g) now"
    using route decision unfolding form_approves_def header_rejection_None
    by (auto simp: bind binding_of_def read_chunks_one split: if_split_asm)
  moreover have "within_grant g r u"
    using decision plan_within_grant [OF _ bind g(2-) consent_request_scopes [OF p(2)]] by blast
  ultimately show ?thesis using g by blast
qed

section \<open>What a request changes\<close>

lemma save_keeps: "zs_db (snd (save_consent lib q b p st)) = zs_db st"
  by (simp add: save_consent_def Let_def split: sum.split)

lemma approve_keeps: "zs_db (snd (approve_consent lib q b st)) = zs_db st"
  by (simp add: approve_consent_def save_keeps split: sum.split option.split bool.split)

lemma decide_keeps: "zs_db (snd (decide_consent h z lib q b form now st)) = zs_db st"
  by (simp add: decide_consent_def approve_keeps split: option.split)

lemma page_keeps: "zs_db (snd (consent_page h z q b random now st)) = zs_db st"
  by (simp add: consent_page_def Let_def split: option.split)

lemma bound_keeps: "zs_db (snd (bound_consent h z lib q verb form random now st)) = zs_db st"
  by (simp add: bound_consent_def page_keeps decide_keeps split: sum.split option.split prod.split)

lemma deny_keeps: "zs_db (snd (deny_from_console h z lib q token now st)) = zs_db st"
  by (simp add: deny_from_console_def split: sum.split)

lemma consent_keeps: "zs_db (snd (consent_route h z lib rq q random now st)) = zs_db st"
  by (simp add: consent_route_def bound_keeps deny_keeps Let_def split: sum.split option.split bool.split)

lemma interaction_keeps: "zs_db (snd (interaction_route h z lib rq random now st)) = zs_db st"
  by (simp add: interaction_route_def prompt_route_def consent_keeps
    split: sum.split option.split prod.split)

lemma limited_keeps: "zs_db (snd (limited_route h z lib rq random now st)) = zs_db st"
  by (simp add: limited_route_def interaction_keeps provider_route_def provider_callback_def answer_at_def Let_def
    split: sum.split prod.split)

lemma allow_eq:
  "allow rt key policy subject now d = (case rate_limit_digest rt key (rp_name policy) subject of
     Inl e \<Rightarrow> (Inl e, d)
   | Inr digest \<Rightarrow> (Inr (rate_allowed (RateRequest (rp_name policy) digest (rp_limit policy) (rp_seconds policy) now) (buckets d)),
       d\<lparr>buckets := rate_step (RateRequest (rp_name policy) digest (rp_limit policy) (rp_seconds policy) now) (buckets d)\<rparr>))"
  by (simp add: allow_def with_role_defs transaction_def Let_def split: sum.split prod.split)

lemma allow_database: "\<exists>rows. snd (allow rt key policy subject now d) = d\<lparr>buckets := rows\<rparr>"
  by (simp only: allow_eq split: sum.split) (auto intro: exI [of _ "buckets d"])

lemma policy_paths:
  "endpointPolicy verb path = Some p \<Longrightarrow>
     path \<noteq> ''/assets/wepuu-v1.css'' \<and> path \<noteq> ''/health/live'' \<and> path \<noteq> ''/health/ready''"
  unfolding endpointPolicy_def by (intro conjI notI) (simp_all split: if_split_asm)

lemma if_snd: "zs_db (snd (if c then a else b)) = (if c then zs_db (snd a) else zs_db (snd b))"
  by simp

lemma route_database:
  "zs_db (snd (authorization_route h z lib rq random now st)) =
     (case endpointPolicy (rq_method rq) (rq_path rq) of
        None \<Rightarrow> zs_db st
      | Some p \<Rightarrow> snd (allow (ah_runtime h) (az_rate_key z) p (requestSource rq) now (zs_db st)))"
proof (cases "endpointPolicy (rq_method rq) (rq_path rq)")
  case None
  then show ?thesis
    unfolding authorization_route_def by (simp only: if_snd effects_thrown limited_keeps option.case if_cancel)
next
  case (Some p)
  obtain r d where a: "allow (ah_runtime h) (az_rate_key z) p (requestSource rq) now (zs_db st) = (r, d)" by fastforce
  have "zs_db (snd (case r of Inl e \<Rightarrow> A e | Inr ok \<Rightarrow> if ok then B else C)) = d"
    if "\<And>e. zs_db (snd (A e)) = d" "zs_db (snd B) = d" "zs_db (snd C) = d" for A :: "string \<Rightarrow> 'a step" and B C
    using that by (simp split: sum.split)
  from policy_paths [OF Some] Some show ?thesis
    unfolding authorization_route_def
    by (simp add: a limited_keeps split: sum.split bool.split)
qed

lemma handle_database:
  "zs_db (snd (handleAuthorization h z lib rq random now st)) = zs_db (snd (authorization_route h z lib rq random now st))"
  by (simp add: handleAuthorization_def Let_def split: prod.split sum.split)

text \<open>
  Whatever a request is and however it ends, the authorization service itself changes nothing of the
  database but the counters of the rate limiter.
\<close>

theorem service_keeps_records:
  "\<exists>rows. zs_db (snd (handleAuthorization h z lib rq random now st)) = (zs_db st)\<lparr>buckets := rows\<rparr>"
  using allow_database unfolding handle_database route_database
  by (simp split: option.split) (auto intro: exI [of _ "buckets (zs_db st)"])

section \<open>How often the provider is reached\<close>

text \<open>A request with its random bytes and its instant, and the states of a run of requests.\<close>

fun service_step ::
  "service_host \<Rightarrow> authorization_service \<Rightarrow> provider_library \<Rightarrow> http_request \<times> bytes \<times> time \<Rightarrow> service_state \<Rightarrow> service_state" where
  "service_step h z lib (rq, random, now) st = snd (handleAuthorization h z lib rq random now st)"

definition new_effects :: "service_state \<Rightarrow> service_state \<Rightarrow> service_effect list" where
  "new_effects st st' = drop (length (zs_effects st)) (zs_effects st')"

text \<open>A request of a source to an endpoint, in a window of its policy, that reaches \<open>oidc-provider\<close>.\<close>

fun reaches_provider ::
  "service_host \<Rightarrow> authorization_service \<Rightarrow> provider_library \<Rightarrow> string \<Rightarrow> string \<Rightarrow> string \<Rightarrow> time \<Rightarrow>
     http_request \<times> bytes \<times> time \<Rightarrow> service_state \<Rightarrow> bool" where
  "reaches_provider h z lib verb path source start (rq, random, now) st \<longleftrightarrow>
     rq_method rq = verb \<and> rq_path rq = path \<and> requestSource rq = source \<and>
     (\<exists>p. endpointPolicy verb path = Some p \<and> window_start (rp_seconds p) now = start) \<and>
     (\<exists>rq'. ForwardedToProvider rq' \<in> set (new_effects st (service_step h z lib (rq, random, now) st)))"

definition endpoint_budget ::
  "service_host \<Rightarrow> authorization_service \<Rightarrow> string \<Rightarrow> string \<Rightarrow> string \<Rightarrow> time \<Rightarrow> service_state \<Rightarrow> nat" where
  "endpoint_budget h z verb path source start st =
     (case endpointPolicy verb path of
        None \<Rightarrow> 0
      | Some p \<Rightarrow>
          (case rate_limit_digest (ah_runtime h) (az_rate_key z) (rp_name p) source of
             Inl e \<Rightarrow> 0
           | Inr digest \<Rightarrow> remaining (rp_name p) digest (rp_limit p) start (buckets (zs_db st))))"

lemma endpoint_policies_named:
  "endpointPolicy verb path = Some p \<Longrightarrow> endpointPolicy verb' path' = Some p' \<Longrightarrow> rp_name p' = rp_name p \<Longrightarrow> p' = p"
  by (auto simp: endpointPolicy_def split: if_split_asm)

lemma step_database:
  "zs_db (service_step h z lib (rq, random, now) st) = (case endpointPolicy (rq_method rq) (rq_path rq) of
     None \<Rightarrow> zs_db st
   | Some p \<Rightarrow> snd (allow (ah_runtime h) (az_rate_key z) p (requestSource rq) now (zs_db st)))"
  by (simp add: handle_database route_database)

lemma answered_effects: "zs_effects (snd (handleAuthorization h z lib rq random now st)) = zs_effects st"
  if "authorization_route h z lib rq random now st = ((stage, Inr r), st\<lparr>zs_db := d\<rparr>)"
  using that by (simp add: handleAuthorization_def)

lemma reached_allowed:
  assumes "reaches_provider h z lib verb path source start (rq, random, now) st" and "endpointPolicy verb path = Some p"
  shows "fst (allow (ah_runtime h) (az_rate_key z) p source now (zs_db st)) = Inr True"
proof -
  from assms have rq: "rq_method rq = verb" "rq_path rq = path" "requestSource rq = source"
    and new: "new_effects st (service_step h z lib (rq, random, now) st) \<noteq> []" by auto
  obtain r d where a: "allow (ah_runtime h) (az_rate_key z) p source now (zs_db st) = (r, d)" by fastforce
  have "r = Inr True"
  proof (rule ccontr)
    assume "r \<noteq> Inr True"
    then consider e where "r = Inl e" | "r = Inr False" by (cases r) auto
    then have "\<exists>stage resp. authorization_route h z lib rq random now st = ((stage, Inr resp), st\<lparr>zs_db := d\<rparr>)"
      using policy_paths [OF assms(2)]
      by cases (simp_all add: authorization_route_def rq assms(2) a answer_at_def)
    then obtain stage resp where "authorization_route h z lib rq random now st = ((stage, Inr resp), st\<lparr>zs_db := d\<rparr>)" by blast
    from answered_effects [OF this] new show False by (simp add: new_effects_def)
  qed
  then show ?thesis by (simp add: a)
qed

lemma endpoint_budget_step:
  "endpoint_budget h z verb path source start (service_step h z lib (rq, random, now) st) \<le>
     endpoint_budget h z verb path source start st"
  "reaches_provider h z lib verb path source start (rq, random, now) st \<Longrightarrow>
   endpoint_budget h z verb path source start (service_step h z lib (rq, random, now) st) <
     endpoint_budget h z verb path source start st"
proof -
  show "endpoint_budget h z verb path source start (service_step h z lib (rq, random, now) st) \<le>
     endpoint_budget h z verb path source start st"
  proof (cases "endpointPolicy verb path")
    case (Some p)
    have "remaining (rp_name p) dg (rp_limit p) start (rate_step (RateRequest (rp_name p') dg' (rp_limit p') (rp_seconds p') now) t)
        \<le> remaining (rp_name p) dg (rp_limit p) start t"
      if "endpointPolicy (rq_method rq) (rq_path rq) = Some p'" for p' dg dg' t
      by (rule limiter.step_budget [where w = "rp_seconds p", OF TrueI])
        (use endpoint_policies_named [OF Some that] in auto)
    then show ?thesis
      by (simp add: endpoint_budget_def Some step_database allow_eq del: service_step.simps rate_step.simps
          split: option.split sum.split)
  qed (simp add: endpoint_budget_def)
next
  assume r: "reaches_provider h z lib verb path source start (rq, random, now) st"
  then obtain p where p: "endpointPolicy verb path = Some p" "window_start (rp_seconds p) now = start"
    and rq: "rq_method rq = verb" "rq_path rq = path" "requestSource rq = source" by auto
  from reached_allowed [OF r p(1)] obtain dg where
    dg: "rate_limit_digest (ah_runtime h) (az_rate_key z) (rp_name p) source = Inr dg"
    and ok: "rate_allowed (RateRequest (rp_name p) dg (rp_limit p) (rp_seconds p) now) (buckets (zs_db st))"
    by (auto simp add: allow_eq simp del: rate_allowed.simps split: sum.split_asm)
  have "remaining (rp_name p) dg (rp_limit p) start
      (rate_step (RateRequest (rp_name p) dg (rp_limit p) (rp_seconds p) now) (buckets (zs_db st)))
    < remaining (rp_name p) dg (rp_limit p) start (buckets (zs_db st))"
    by (rule limiter.charge_budget [where w = "rp_seconds p", OF TrueI])
      (use ok p(2) in \<open>auto simp: charged_in_def simp del: rate_allowed.simps\<close>)
  then show "endpoint_budget h z verb path source start (service_step h z lib (rq, random, now) st) <
     endpoint_budget h z verb path source start st"
    by (simp add: endpoint_budget_def p(1) step_database rq dg allow_eq del: service_step.simps rate_step.simps)
qed

interpretation provider_gate:
  budget_machine "service_step h z lib" "\<lambda>_. True" "\<lambda>_. True" "endpoint_budget h z verb path source start"
    "reaches_provider h z lib verb path source start"
  for h z lib verb path source start
proof unfold_locales
  fix x :: "http_request \<times> bytes \<times> time" and st :: service_state
  obtain rq random now where x: "x = (rq, random, now)" by (cases x)
  show "endpoint_budget h z verb path source start (service_step h z lib x st) \<le> endpoint_budget h z verb path source start st"
    unfolding x by (rule endpoint_budget_step(1))
  assume "reaches_provider h z lib verb path source start x st"
  then show "endpoint_budget h z verb path source start (service_step h z lib x st) < endpoint_budget h z verb path source start st"
    unfolding x by (rule endpoint_budget_step(2))
qed simp

fun times_reached ::
  "service_host \<Rightarrow> authorization_service \<Rightarrow> provider_library \<Rightarrow> string \<Rightarrow> string \<Rightarrow> string \<Rightarrow> time \<Rightarrow>
     (http_request \<times> bytes \<times> time) list \<Rightarrow> service_state \<Rightarrow> nat" where
  "times_reached h z lib verb path source start [] st = 0"
| "times_reached h z lib verb path source start (x # xs) st =
     (if reaches_provider h z lib verb path source start x st then 1 else 0) +
     times_reached h z lib verb path source start xs (service_step h z lib x st)"

lemma times_reached_charges:
  "times_reached h z lib verb path source start xs st = provider_gate.charges h z lib verb path source start xs st"
  by (induction xs arbitrary: st) simp_all

lemma endpoint_limits: "endpointPolicy verb path = Some p \<Longrightarrow> 0 \<le> rp_limit p"
  by (auto simp: endpointPolicy_def split: if_split_asm)

text \<open>
  C21. However requests are mixed, a source reaches \<open>oidc-provider\<close> through a limited endpoint at most as often
  in a window as the policy of the endpoint allows: 20 times in five minutes for \<open>GET /auth\<close>, 30 times
  in a minute for \<open>POST /token\<close> and for \<open>POST /token/revocation\<close>.
\<close>

theorem provider_reached_within_limit:
  assumes "endpointPolicy verb path = Some p"
  shows "int (times_reached h z lib verb path source start xs st) \<le> rp_limit p"
proof -
  have "times_reached h z lib verb path source start xs st \<le> endpoint_budget h z verb path source start st"
    unfolding times_reached_charges
    by (rule add_leD1 [OF provider_gate.charges_le_budget]) (simp_all add: list_all_iff)
  moreover have "int (endpoint_budget h z verb path source start st) \<le> rp_limit p"
    using endpoint_limits [OF assms] by (simp add: endpoint_budget_def assms remaining_def split: sum.split)
  ultimately show ?thesis by linarith
qed

section \<open>The signing key\<close>

lemma inactive_after_revocation:
  assumes "revokeKey kid t d = (Inr True, d')" and "keys_ok (signing_keys d)"
  shows "fst (isActiveKey kid now (fold key_step ops d')) = Inr False"
proof (cases "\<exists>r\<in>set (signing_keys (fold key_step ops d')). ky_kid r = kid")
  case True
  with revoked_key_unusable [OF assms] show ?thesis by blast
qed (auto simp: isActiveKey_def with_role_defs transaction_def list_ex_iff)

text \<open>
  The hand-off of a consent to the console is signed with the same key, but without asking whether it is
  still active: after the revocation the signer still answers.
\<close>

theorem handoff_signed_after_revocation:
  assumes "revokeKey (az_kid z) t d = (Inr True, d')" and "keys_ok (signing_keys d)"
    and "fst (resolveExact (cq_account q) (cq_client q) (cq_resource q) (cq_scopes q) d') = Inr None"
    and "signBootstrap (ah_runtime h) (ah_crypto h) (az_bootstrap_signer z)
        \<lparr>bi_issuer = sv_issuer (az_config z), bi_audience = consent_audience z, bi_subject = cq_account q,
         bi_uid = cq_uid q, bi_client = cq_client q, bi_resource = cq_resource q, bi_scopes = cq_scopes q\<rparr> random now =
      Inr request"
  shows "fst (isActiveKey (az_kid z) now d') = Inr False
    \<and> bound_consent h z lib q verb submitted random now (st\<lparr>zs_db := d'\<rparr>) =
      answer_at AtBinding (see_other (consentBootstrapLocation request)) (st\<lparr>zs_db := d'\<rparr>)"
proof
  show "fst (isActiveKey (az_kid z) now d') = Inr False"
    using inactive_after_revocation [OF assms(1,2), of now "[]"] by simp
  obtain e where "resolveExact (cq_account q) (cq_client q) (cq_resource q) (cq_scopes q) d' = (Inr None, e)"
    using assms(3) by (metis prod.collapse)
  then show "bound_consent h z lib q verb submitted random now (st\<lparr>zs_db := d'\<rparr>) =
      answer_at AtBinding (see_other (consentBootstrapLocation request)) (st\<lparr>zs_db := d'\<rparr>)"
    using assms(4) by (simp add: bound_consent_def)
qed

text \<open>
  C22. After the revocation of the signing key it was started with, and whatever is done to the keys since, the
  signer of the provider's tokens refuses, the signer of the worker's revocation events refuses, and the
  service reports that it is not ready.  The hand-off of a consent to the console has a signer of its own,
  which this does not cover.
\<close>

theorem revoked_key_signers_refuse:
  assumes "revokeKey (az_kid z) t d = (Inr True, d')" and "keys_ok (signing_keys d)"
    and "e = fold key_step ops d'"
  shows "guardedSign (ah_crypto h) (az_custody z) (fst (isActiveKey (az_kid z) now e)) data = Inl ''signing_key_not_active'' \<and>
    wk_sign (service_worker h z (\<lambda>kid. fst (isActiveKey kid now e)) send clock) event later = Inl ''signing_key_not_active'' \<and>
    rs_status (ready_answer z now e) = 503"
  using inactive_after_revocation [OF assms(1,2)]
  by (simp add: assms(3) guardedSign_def service_worker_def guardedRevocationSign_def ready_answer_def json_answer_def)

lemma custody_kid:
  "localPkcs8KeyCustodyFromEnvironment cr fs uid env slot (Some kid) = Inr c \<Longrightarrow> kd_kid (lc_descriptor c) = kid"
  by (auto simp: localPkcs8KeyCustodyFromEnvironment_def succ_simps dest!: load_local_sound)

lemma signing_custody_Inr:
  assumes "signing_custody h env now d = Inr (kid, custody, descriptors)"
  shows "\<exists>r\<in>set (signing_keys d). usable_key now r \<and> ky_status r = KeyActive \<and> ky_kid r = kid \<and> ky_provider r = LocalPkcs8 \<and>
    kd_kid (lc_descriptor custody) = kid \<and>
    (\<forall>m\<in>{''n'', ''e''}. map_of (kd_jwk (lc_descriptor custody)) m = map_of (jwk_members (ky_jwk r)) m)"
proof -
  from assms obtain a v where load: "fst (loadUsable now d) = Inr (a, v)" and local: "kr_provider a = LocalPkcs8"
    and kid: "kid = kr_kid a"
    and custody: "localPkcs8KeyCustodyFromEnvironment (ah_crypto h) (ah_files h) (ah_uid h) env (kr_reference a) (Some (kr_kid a)) = Inr custody"
    and same: "map_of (kd_jwk (lc_descriptor custody)) ''n'' = map_of (jwk_members (kr_jwk a)) ''n''"
      "map_of (kd_jwk (lc_descriptor custody)) ''e'' = map_of (jwk_members (kr_jwk a)) ''e''"
    unfolding signing_custody_def by (auto simp: succ_simps split: if_split_asm)
  obtain d' where "loadUsable now d = (Inr (a, v), d')" using load by (cases "loadUsable now d") simp
  from loadUsable_Inr [OF this] obtain r where "r \<in> set (signing_keys d)" "usable_key now r" "key_record_of r = a" "kr_status a = KeyActive"
    by blast
  with local kid same custody_kid [OF custody] show ?thesis
    by (intro bexI [of _ r]) (auto simp: key_record_of_def)
qed

lemma started_custody:
  "startAuthorizationService h config env active now d = Inr z \<Longrightarrow>
     \<exists>descriptors. signing_custody h env now d = Inr (az_kid z, az_custody z, descriptors)"
  unfolding startAuthorizationService_def Let_def by (auto simp: succ_simps split: if_split_asm)

text \<open>
  A service that starts signs with the one active key of the database, held locally: the key loaded from
  custody has the identifier, the modulus and the exponent of a usable, active row.
\<close>

theorem started_service_signs:
  assumes "startAuthorizationService h config env active now d = Inr z"
  shows "\<exists>r\<in>set (signing_keys d). usable_key now r \<and> ky_status r = KeyActive \<and> ky_kid r = az_kid z \<and>
      ky_provider r = LocalPkcs8 \<and> kd_kid (lc_descriptor (az_custody z)) = az_kid z \<and>
      (\<forall>m\<in>{''n'', ''e''}. map_of (kd_jwk (lc_descriptor (az_custody z))) m = map_of (jwk_members (ky_jwk r)) m)"
  using started_custody [OF assms] signing_custody_Inr by blast

section \<open>Form tokens\<close>

lemma csrf_schema:
  assumes "8 \<le> length (cr_uid p)" "length (cr_uid p) \<le> 256" "8 \<le> length (cr_account p)" "length (cr_account p) \<le> 128"
    "8 \<le> length (cr_grant p)" "length (cr_grant p) \<le> 128" "0 < cr_expires p" "safe_integer (cr_expires p)"
    "rx id_class 32 32 (cr_nonce p)"
  shows "CsrfPayloadSchema (csrf_json p) = Some p"
  using assms by (simp add: CsrfPayloadSchema_def csrf_json_def z_object_def z_str_def z_int_def strict_keys_def)

text \<open>
  The token of a consent form is read back as it was signed until 300 seconds have passed, and not at all
  afterwards, for fields as the service writes them, when base64url decodes what it encodes and has no
  dot, and \<open>JSON.parse\<close> reads what \<open>JSON.stringify\<close> wrote.
\<close>

theorem form_token_roundtrip:
  assumes "\<And>b. decode (base64url rt b) = b" and "\<And>b. CHR ''.'' \<notin> set (base64url rt b)"
    and "parse (json_stringify (csrf_json p)) = Some (csrf_json p)"
    and "8 \<le> length (cr_uid p)" "length (cr_uid p) \<le> 256" "8 \<le> length (cr_account p)" "length (cr_account p) \<le> 128"
      "8 \<le> length (cr_grant p)" "length (cr_grant p) \<le> 128" "rx id_class 32 32 (cr_nonce p)"
    and "0 \<le> issued" "safe_integer (issued div 1000 + 300)" "cr_expires p = issued div 1000 + 300"
  shows "verifyCsrf rt decode parse (signCsrf rt p key) key now =
    (if now div 1000 < issued div 1000 + 300 then Some p else None)"
  using assms csrf_schema [of p]
  by (simp add: verifyCsrf_def signCsrf_def Let_def split_on_word split_on_last)

fun pair_bytes :: "string \<Rightarrow> bytes" where
  "pair_bytes (a # b # s) = char_of (16 * (of_char a - 97) + (of_char b - 97) :: nat) # pair_bytes s"
| "pair_bytes s = []"

definition byte_pairs :: "bytes \<Rightarrow> string" where
  "byte_pairs b = concat (map (\<lambda>c. [char_of (97 + of_char c div 16 :: nat), char_of (97 + of_char c mod 16 :: nat)]) b)"

lemma nibble_mod: "(97 + n) mod 256 = 97 + n" if "n < 16" for n :: nat
  using that by simp

lemma char_nibble: "(of_char (c :: char) :: nat) div 16 < 16"
  using nat_of_char_less_256 [of c] by linarith

lemma pair_bytes_byte_pairs: "pair_bytes (byte_pairs b) = b"
  by (induction b) (simp_all add: byte_pairs_def nibble_mod char_nibble)

lemma byte_pairs_dotless: "CHR ''.'' \<notin> set (byte_pairs b)"
proof -
  have "(of_char (char_of (97 + n :: nat)) :: nat) \<noteq> of_char (CHR ''.'')" if "n < 16" for n
    using that by (simp add: nibble_mod)
  then have "CHR ''.'' \<noteq> char_of (97 + n :: nat)" if "n < 16" for n using that by metis
  then show ?thesis by (auto simp: byte_pairs_def char_nibble)
qed

definition sample_token_runtime :: runtime where
  "sample_token_runtime = sample_runtime\<lparr>base64url := byte_pairs\<rparr>"

definition sample_page_token :: csrf_payload where
  "sample_page_token = \<lparr>cr_uid = ''uid-0001'', cr_account = ''account-0001'', cr_grant = ''grant-0001'',
     cr_expires = 301, cr_nonce = replicate 32 CHR ''n''\<rparr>"

theorem form_token_roundtrip_witness:
  "verifyCsrf sample_token_runtime pair_bytes (\<lambda>s. Some (csrf_json sample_page_token))
     (signCsrf sample_token_runtime sample_page_token (pad32 ''k'')) (pad32 ''k'') 200000 = Some sample_page_token"
proof -
  have "verifyCsrf sample_token_runtime pair_bytes (\<lambda>s. Some (csrf_json sample_page_token))
     (signCsrf sample_token_runtime sample_page_token (pad32 ''k'')) (pad32 ''k'') 200000 =
   (if 200000 div 1000 < 1000 div 1000 + (300 :: int) then Some sample_page_token else None)"
    by (rule form_token_roundtrip)
      (simp_all add: sample_token_runtime_def pair_bytes_byte_pairs byte_pairs_dotless sample_page_token_def
        safe_integer_def rx_def char_in_def list_all_iff)
  then show ?thesis by simp
qed


definition sample_start_env :: environment where
  "sample_start_env = map_of
     [(''WEPUU_DEPLOYMENT_MODE'', ''production''), (''WEPUU_APP_PUBLIC_ORIGIN'', ''https://auth.wepuu.com''),
      (''WEPUU_TERMS_URL'', ''https://wepuu.com/terms''), (''WEPUU_PRIVACY_URL'', ''https://wepuu.com/privacy''),
      (''WEPUU_SUPPORT_URL'', ''https://wepuu.com/support''), (''WEPUU_STATUS_URL'', ''https://status.wepuu.com/''),
      (''WEPUU_LEGAL_PROVIDER_NAME'', ''WePuu''), (''WEPUU_DATA_REGION_LABEL'', ''EU''),
      (''WEPUU_TRUSTED_PROXY_CIDRS_JSON'', ''cidrs''), (''WEPUU_RELEASE_VERSION'', ''1.0.0-rc.1''),
      (''WEPUU_RELEASE_REVISION'', ''0123abc''), (''WEPUU_IDENTITY_PROVIDER_LABEL'', ''Email''),
      (''WEPUU_RETENTION_POLICY_VERSION'', ''2026-10-01''), (''WEPUU_COMPATIBILITY_MATRIX_VERSION'', ''2026-10''),
      (''WEPUU_SIGNING_KEYRING_FILE'', ''/run/secrets/keyring''), (''WEPUU_SIGNING_KEY_SLOT'', ''main''),
      (''WEPUU_OPERATIONS_METRICS_TOKEN'', replicate 32 CHR ''m''),
      (''NODE_ENV'', ''production''), (''WEPUU_DATABASE_URL'', ''postgres''),
      (''WEPUU_AUTH_PUBLIC_ORIGIN'', ''https://auth.wepuu.com''), (''WEPUU_ACCOUNT_AUTH_SECRETS_FILE'', ''/s/secrets''),
      (''WEPUU_RATE_LIMIT_HMAC_KEY'', sample_token CHR ''r''), (''WEPUU_OAUTH_ARTIFACT_KEYS_JSON'', ''keys'')]"

definition sample_start_parse :: "string \<Rightarrow> json option" where
  "sample_start_parse text = (if text = ''cidrs'' then Some (JArr [JStr ''10.0.0.0/8''])
     else if text = ''keys'' then Some (JArr [JStr (sample_token CHR ''a''), JStr (sample_token CHR ''b'')]) else Some sample_secret_json)"

definition sample_start_host :: service_host where
  "sample_start_host = \<lparr>ah_runtime = sample_runtime, ah_crypto = sample_crypto, ah_files = sample_fs, ah_uid = 7,
     ah_parse = sample_start_parse, ah_decode = id, ah_number = (\<lambda>_. Some 8),
     ah_is_ip = (\<lambda>s. if s = ''10.0.0.0'' then 4 else 0), ah_base64 = id, ah_styles = []\<rparr>"

definition sample_start_config :: service_config where
  "sample_start_config = \<lparr>sv_issuer = ''https://auth.wepuu.com'', sv_database = ''postgres'', sv_host = ''127.0.0.1'',
     sv_port = 3001, sv_cookie_keys = [pad32 ''c1'', pad32 ''c2'']\<rparr>"

definition sample_start_db :: db where
  "sample_start_db = empty_db\<lparr>signing_keys := [\<lparr>ky_kid = ''key-00000001'', ky_provider = LocalPkcs8, ky_reference = ''main'',
     ky_jwk = JObj [(''kty'', JStr ''RSA''), (''n'', JStr ''AQAB''), (''e'', JStr ''AQAB'')], ky_status = KeyActive,
     ky_publish = 0, ky_activate = Some 10, ky_retire = None, ky_revoke = None\<rparr>]\<rparr>"

definition sample_started :: "authorization_service result" where
  "sample_started = startAuthorizationService sample_start_host sample_start_config sample_start_env
     (\<lambda>_. Inr True) 1000 sample_start_db"

definition sample_local :: local_custody where
  "sample_local = \<lparr>lc_private = sample_private, lc_descriptor = \<lparr>kd_kid = ''key-00000001'', kd_key = sample_public,
     kd_jwk = [(''kty'', JStr ''RSA''), (''n'', JStr ''AQAB''), (''e'', JStr ''AQAB''), (''kid'', JStr ''key-00000001''),
       (''alg'', JStr ''RS256''), (''use'', JStr ''sig'')]\<rparr>\<rparr>"

lemma sample_start_local:
  "localPkcs8KeyCustodyFromEnvironment sample_crypto sample_fs 7 sample_start_env ''main'' (Some ''key-00000001'') = Inr sample_local"
proof -
  have "KidSchema ''key-00000001''" by code_simp
  then show ?thesis
    by (simp add: localPkcs8KeyCustodyFromEnvironment_def sample_start_env_def Let_def sample_local_def
      sample_fs_read sample_paths loadLocalKey_def lookup_by_Cons canonicalPublicJwk_def sample_keyring
      sample_crypto_def rsa_private_def sample_private_def)
qed

lemma sample_start_key:
  "fst (loadUsable 1000 sample_start_db) = Inr (\<lparr>kr_kid = ''key-00000001'', kr_provider = LocalPkcs8, kr_reference = ''main'',
     kr_jwk = JObj [(''kty'', JStr ''RSA''), (''n'', JStr ''AQAB''), (''e'', JStr ''AQAB'')], kr_status = KeyActive\<rparr>, [])"
  by code_simp

lemma sample_start_custody:
  "signing_custody sample_start_host sample_start_env 1000 sample_start_db = Inr (''key-00000001'', sample_local, [])"
  by (simp add: signing_custody_def sample_start_key sample_start_host_def sample_start_local jwk_members_def Let_def)
    (simp add: sample_local_def)

lemma sample_start_parts:
  "is_ok (loadPublicDeploymentConfig sample_runtime sample_start_parse (\<lambda>s. if s = ''10.0.0.0'' then 4 else 0) (\<lambda>_. Some 8)
     sample_start_env (Some ''https://auth.wepuu.com''))"
  "is_ok (accountAuthFromEnvironment sample_runtime sample_start_parse id (\<lambda>_. Some 8) sample_fs
     (Some 7) sample_start_env AuthReader True 1000 sample_start_db)"
  "is_ok (rateLimitSubjectCodecFromEnvironment id sample_start_env)" "is_ok (fst (loadActivePublicClients sample_start_db))"
  "is_ok (secretArtifactCodecFromEnvironment (parsed sample_start_parse) id sample_start_env)"
  "is_ok (worker_issuer sample_runtime ''https://auth.wepuu.com'')"
  "is_ok (oauthConsentBootstrapSigner sample_local)" "is_ok (revocationEventSigner sample_local)"
  "is_ok (key_holder_of ''public'' sample_public ''key-00000001'')"
  "ServiceConfigSchema sample_runtime sample_start_config"
  by code_simp+


lemma and_then_ok: "is_ok r \<Longrightarrow> (\<And>a. r = Inr a \<Longrightarrow> is_ok (f a)) \<Longrightarrow> is_ok (and_then r f)"
  by (auto simp: is_ok_iff and_then_Inr)

lemma sample_provider_starts:
  "is_ok (createAuthorizationProvider sample_runtime ''https://auth.wepuu.com'' [pad32 ''c1'', pad32 ''c2'']
     (Inr (lc_descriptor sample_local), sign) [] loaded)"
proof -
  have "assertHttpsUrl sample_runtime ''https://auth.wepuu.com'' ''issuer'' = Inr ''https://auth.wepuu.com''"
    "\<not> list_ex (\<lambda>k. length k < 32) [pad32 ''c1'', pad32 ''c2'']" by code_simp+
  then show ?thesis by (simp add: createAuthorizationProvider_def Let_def)
qed

lemma sample_started_ok: "is_ok sample_started"
proof -
  have url: "parse_url sample_runtime ''https://auth.wepuu.com'' = Some (the (sample_parse_url ''https://auth.wepuu.com''))"
    "url_origin (the (sample_parse_url ''https://auth.wepuu.com'')) = ''https://auth.wepuu.com''" by code_simp+
  have fields: "ah_runtime sample_start_host = sample_runtime" "ah_parse sample_start_host = sample_start_parse"
    "ah_is_ip sample_start_host = (\<lambda>s. if s = ''10.0.0.0'' then 4 else 0)" "ah_number sample_start_host = (\<lambda>_. Some 8)"
    "ah_decode sample_start_host = id" "ah_files sample_start_host = sample_fs" "ah_uid sample_start_host = 7"
    "sv_issuer sample_start_config = ''https://auth.wepuu.com''"
    "sv_cookie_keys sample_start_config = [pad32 ''c1'', pad32 ''c2'']"
    by (simp_all add: sample_start_host_def sample_start_config_def)
  have kid: "kd_key (lc_descriptor sample_local) = sample_public" "kd_kid (lc_descriptor sample_local) = ''key-00000001''"
    by (simp_all add: sample_local_def)
  have cfg: "(\<not> ServiceConfigSchema sample_runtime sample_start_config) = False" using sample_start_parts(10) by simp
  show ?thesis
    unfolding sample_started_def startAuthorizationService_def Let_def fields url sample_start_custody cfg if_False
      option.case and_then_simps prod.case kid
    by (intro and_then_ok sample_start_parts sample_provider_starts is_ok_simps)
qed

theorem started_service_signs_witness:
  "\<exists>r\<in>set (signing_keys sample_start_db). usable_key 1000 r \<and> ky_kid r = az_kid (projr sample_started)"
  using started_service_signs [OF ok_value [OF sample_started_ok, unfolded sample_started_def]]
  unfolding sample_started_def by blast

section \<open>Examples\<close>

definition sample_form :: string where
  "sample_form = ''csrf=e.s&decision=approve''"

definition sample_csrf :: csrf_payload where
  "sample_csrf = \<lparr>cr_uid = ''uid-0001'', cr_account = ''account-0001'', cr_grant = ''grant-0001'',
     cr_expires = 300, cr_nonce = replicate 32 CHR ''n''\<rparr>"

definition sample_service_host :: service_host where
  "sample_service_host = \<lparr>ah_runtime = sample_runtime\<lparr>hmac_sha256 := (\<lambda>k s. ''s'')\<rparr>, ah_crypto = sample_crypto,
     ah_files = sample_fs, ah_uid = 0, ah_parse = (\<lambda>s. Some (csrf_json sample_csrf)), ah_decode = id,
     ah_number = (\<lambda>s. None), ah_is_ip = (\<lambda>s. 0), ah_base64 = id, ah_styles = []\<rparr>"

definition sample_submission :: http_request where
  "sample_submission = \<lparr>rq_method = ''POST'', rq_path = ''/interaction/uid-0001'', rq_query = [],
     rq_headers = [(''content-type'', ''application/x-www-form-urlencoded''), (''origin'', ''https://auth.example'')],
     rq_remote = None, rq_chunks = [take 8 sample_form, drop 8 sample_form]\<rparr>"

definition sample_interaction :: interaction where
  "sample_interaction = \<lparr>it_uid = ''uid-0001'', it_prompt = ''consent'',
     it_details = [(''missingResourceScopes'', JObj [(''https://blog.example/mcp'', JArr [JStr ''mcp:read''])])],
     it_params = [(''client_id'', JStr ''client-0001''), (''resource'', JStr ''https://blog.example/mcp''),
       (''scope'', JStr ''openid mcp:read mcp:seo.write''), (''redirect_uri'', JStr ''https://client.example/callback'')],
     it_grant = None\<rparr>"

definition sample_library :: provider_library where
  "sample_library =
     \<lparr>pl_interaction = (\<lambda>_. Inr sample_interaction),
      pl_session = (\<lambda>_. Inr (Some \<lparr>lg_user = ''user-1'', lg_created = 0, lg_expires = 5000\<rparr>)),
      pl_find_grant = (\<lambda>_. Inr False), pl_save_grant = (\<lambda>u. Inr ''grant-0001''),
      pl_finish = (\<lambda>_ _. Inr (see_other ''/auth/uid-0001'')), pl_callback = (\<lambda>_. Inr (see_other ''/''))\<rparr>"

definition sample_service_state :: service_state where
  "sample_service_state = \<lparr>zs_db = consent_db\<lparr>
       accounts := [\<lparr>acc_id = ''account-0001'', acc_status = TActive, acc_issuer = None, acc_subject_hash = None\<rparr>],
       links := [\<lparr>link_user = ''user-1'', link_account = ''account-0001''\<rparr>],
       homes := [\<lparr>home_account = ''account-0001'', home_tenant = ''tenant-0001''\<rparr>]\<rparr>,
     zs_clients = (\<lambda>_. None), zs_effects = []\<rparr>"

definition sample_authorization_service :: authorization_service where
  "sample_authorization_service =
     \<lparr>az_config = \<lparr>sv_issuer = ''https://auth.example'', sv_database = ''postgres'', sv_host = ''127.0.0.1'',
        sv_port = 3001, sv_cookie_keys = [pad32 ''c1'', pad32 ''c2'']\<rparr>,
      az_origin = ''https://auth.example'', az_deployment = projr sample_deployment, az_accounts = sample_auth_config,
      az_kid = ''key-00000001'', az_custody = projr sample_custody, az_bootstrap_signer = sample_holder,
      az_bootstrap_verifier = sample_holder, az_rate_key = pad32 ''k'', az_codec = sample_codec,
      az_provider = projr sample_provider, az_revocation_signer = sample_holder, az_issuer = ''https://auth.example''\<rparr>"

definition sample_saved :: grant_update where
  "sample_saved = \<lparr>gu_existing = None, gu_account = ''account-0001'', gu_client = ''client-0001'',
     gu_jti = Some ''grant-0001'', gu_oidc = None, gu_claims = [],
     gu_resources = [(''https://blog.example/mcp'', ''mcp:read'')]\<rparr>"

definition sample_consent_request :: "string \<Rightarrow> consent_interaction" where
  "sample_consent_request csp = \<lparr>cq_uid = ''uid-0001'', cq_account = ''account-0001'', cq_client = ''client-0001'',
     cq_resource = ''https://blog.example/mcp'', cq_scopes = [''mcp:read'', ''mcp:seo.write''], cq_csp = csp,
     cq_grant = None, cq_details =
       [(''missingResourceScopes'', JObj [(''https://blog.example/mcp'', JArr [JStr ''mcp:read''])])]\<rparr>"

lemma sample_consent_fields [simp]:
  "cq_account (sample_consent_request csp) = ''account-0001''" "cq_client (sample_consent_request csp) = ''client-0001''"
  "cq_resource (sample_consent_request csp) = ''https://blog.example/mcp''"
  "cq_scopes (sample_consent_request csp) = [''mcp:read'', ''mcp:seo.write'']"
  by (simp_all add: sample_consent_request_def)

lemma sample_csp:
  "\<exists>csp. consentInteractionCsp (ah_runtime sample_service_host) (ah_base64 sample_service_host)
     (Some (JStr ''https://client.example/callback'')) = Some csp"
  unfolding consentInteractionCsp_def by (simp add: sample_service_host_def sample_runtime_def sample_parse_url_def starts_with_def Let_def)

lemma sample_asked_parts:
  "map_of (it_params sample_interaction) ''client_id'' = Some (JStr ''client-0001'')"
  "interactionResource (it_params sample_interaction) = Some ''https://blog.example/mcp''"
  "interactionScopes (it_params sample_interaction) = Some [''mcp:read'', ''mcp:seo.write'']"
  "map_of (it_params sample_interaction) ''redirect_uri'' = Some (JStr ''https://client.example/callback'')"
  "it_prompt sample_interaction = ''consent''" "it_uid sample_interaction = ''uid-0001''"
  "it_grant sample_interaction = None"
  "it_details sample_interaction =
     [(''missingResourceScopes'', JObj [(''https://blog.example/mcp'', JArr [JStr ''mcp:read''])])]"
  by code_simp+

lemma sample_interaction_path: "starts_with ''/interaction/uid-0001'' ''/interaction/''"
  by code_simp

lemma sample_resolved:
  "fst (resolveExact ''account-0001'' ''client-0001'' ''https://blog.example/mcp'' [''mcp:read'', ''mcp:seo.write'']
     (zs_db sample_service_state)) = Inr (Some (binding_of (hd (grants consent_db)) (hd (sites consent_db)) [McpRead, McpSeoWrite]))"
  by code_simp

lemma sample_linked:
  "fst (resolveLink ''user-1'' (zs_db sample_service_state)) =
     Inr (Some \<lparr>al_account = ''account-0001'', al_home = ''tenant-0001'', al_status = TActive\<rparr>)"
  by code_simp

lemma sample_csrf_verified:
  "verifyCsrf (ah_runtime sample_service_host) (ah_decode sample_service_host) (ah_parse sample_service_host) ''e.s'' key 1000 =
     Some sample_csrf"
  unfolding sample_service_host_def verifyCsrf_def by code_simp

lemma sample_form_parsed: "parse_form sample_form = [(''csrf'', ''e.s''), (''decision'', ''approve'')]"
  by code_simp


lemma outcome_fst: "fst x = r \<Longrightarrow> \<exists>d. x = (r, d)"
  by (cases x) simp

lemma sample_plan:
  "consentGrantUpdatePlan None ''grant-0001'' ''https://blog.example/mcp'' [''mcp:read'', ''mcp:seo.write'']
     [(''missingResourceScopes'', JObj [(''https://blog.example/mcp'', JArr [JStr ''mcp:read''])])] =
   Inr \<lparr>cp_existing = None, cp_oidc_scopes = [], cp_oidc_claims = [],
     cp_resource_scopes = [(''https://blog.example/mcp'', [''mcp:read''])]\<rparr>"
  by code_simp

lemma sample_decided:
  "saves sample_saved (decide_consent sample_service_host sample_authorization_service sample_library
     (sample_consent_request csp) (binding_of (hd (grants consent_db)) (hd (sites consent_db)) scs)
     (parse_form sample_form) 1000 st)"
  unfolding decide_consent_def sample_form_parsed
  by (simp add: sample_csrf_verified sample_csrf_def approve_consent_def sample_consent_request_def sample_plan
    binding_of_def consent_db_def save_consent_def plan_update_def sample_saved_def Let_def split: sum.split)

lemma sample_headers:
  "interactionSubmissionHeaderRejection ''POST'' (header ''content-type'' sample_submission)
     (header ''origin'' sample_submission) ''https://auth.example'' = None"
  "concat (rq_chunks sample_submission) = sample_form" "rq_method sample_submission = ''POST''"
  "rq_path sample_submission = ''/interaction/uid-0001''" "length sample_form \<le> 8192"
  by code_simp+

lemma sample_bound:
  "saves sample_saved (bound_consent sample_service_host sample_authorization_service sample_library
     (sample_consent_request csp) ''POST'' (Some (parse_form sample_form)) random 1000 sample_service_state)"
proof -
  have post: "(''POST'' = ''GET'') = False" by simp
  from outcome_fst [OF sample_resolved] obtain d where d: "resolveExact ''account-0001'' ''client-0001''
      ''https://blog.example/mcp'' [''mcp:read'', ''mcp:seo.write''] (zs_db sample_service_state) =
    (Inr (Some (binding_of (hd (grants consent_db)) (hd (sites consent_db)) [McpRead, McpSeoWrite])), d)" ..
  show ?thesis
    unfolding bound_consent_def sample_consent_fields d prod.case sum.case option.case post if_False
    by (rule sample_decided)
qed

lemma consent_route_submitted:
  assumes "interactionSubmissionHeaderRejection ''POST'' (header ''content-type'' rq) (header ''origin'' rq) (az_origin z) = None"
    and "rq_method rq = ''POST''" "concat (rq_chunks rq) = body" "length body \<le> 8192"
    and "map_of (parse_form body) ''local_consent_request'' = None"
  shows "consent_route h z lib rq q random now st =
    bound_consent h z lib q ''POST'' (Some (parse_form body)) random now st"
  using assms by (simp add: consent_route_def read_chunks_one Let_def split: bool.split)

lemma handle_interaction:
  assumes "starts_with (rq_path rq) ''/interaction/''" and "rq_method rq \<noteq> ''GET''"
    and "saves u (interaction_route h z lib rq random now st)"
  shows "SavedGrant u \<in> set (zs_effects (snd (handleAuthorization h z lib rq random now st)))"
  using assms interaction_paths_unlimited [OF assms(1)]
  by (auto simp: handleAuthorization_def authorization_route_def limited_route_def Let_def split: prod.split sum.split)

lemma sample_routed:
  "saves sample_saved (consent_route sample_service_host sample_authorization_service sample_library sample_submission
     (sample_consent_request csp) random 1000 sample_service_state)"
proof -
  have origin: "az_origin sample_authorization_service = ''https://auth.example''"
    by (simp add: sample_authorization_service_def)
  have "map_of (parse_form sample_form) ''local_consent_request'' = None" unfolding sample_form_parsed by simp
  then have "consent_route sample_service_host sample_authorization_service sample_library sample_submission
      (sample_consent_request csp) random 1000 sample_service_state =
    bound_consent sample_service_host sample_authorization_service sample_library
      (sample_consent_request csp) ''POST'' (Some (parse_form sample_form)) random 1000 sample_service_state"
    using sample_headers origin by (intro consent_route_submitted) simp_all
  then show ?thesis using sample_bound by simp
qed

theorem consent_sound_witness:
  "\<exists>q g r. signed_in_request sample_service_host sample_library sample_submission 1000 (zs_db sample_service_state) q \<and>
    form_approves sample_service_host sample_authorization_service sample_submission q (gr_id g) 1000 \<and>
    consent_of (zs_db sample_service_state) g r \<and> gr_subject g = cq_account q \<and> gr_client g = cq_client q \<and>
    si_resource r = cq_resource q \<and> set (gr_scopes g) = set (cq_scopes q) \<and> within_grant g r sample_saved"
proof -
  obtain csp where csp: "consentInteractionCsp (ah_runtime sample_service_host) (ah_base64 sample_service_host)
     (Some (JStr ''https://client.example/callback'')) = Some csp" using sample_csp by blast
  have asked: "consent_request_of sample_service_host sample_interaction ''account-0001'' = Some (sample_consent_request csp)"
    unfolding consent_request_of_def sample_asked_parts csp option.case prod.case json.case sample_consent_request_def ..
  from outcome_fst [OF sample_linked] obtain d where d: "resolveLink ''user-1'' (zs_db sample_service_state) =
    (Inr (Some \<lparr>al_account = ''account-0001'', al_home = ''tenant-0001'', al_status = TActive\<rparr>), d)" ..
  have routed: "saves sample_saved (interaction_route sample_service_host sample_authorization_service sample_library
      sample_submission ''random'' 1000 sample_service_state)"
    using sample_routed [of csp "''random''"] unfolding interaction_route_def prompt_route_def
    by (simp add: sample_library_def d asked sample_asked_parts)
  have "SavedGrant sample_saved \<in> set (zs_effects (snd (handleAuthorization sample_service_host
      sample_authorization_service sample_library sample_submission ''random'' 1000 sample_service_state)))"
    by (rule handle_interaction [OF _ _ routed]) (simp_all add: sample_headers sample_interaction_path)
  from consent_sound [OF this] show ?thesis by (simp add: sample_service_state_def)
qed

theorem provider_reached_within_limit_witness:
  "int (times_reached sample_service_host sample_authorization_service sample_library ''POST'' ''/token'' ''unknown'' 0
     [(sample_submission\<lparr>rq_path := ''/token''\<rparr>, ''random'', 1000), (sample_submission\<lparr>rq_path := ''/token''\<rparr>, ''random'', 2000)]
     sample_service_state) \<le> rp_limit \<lparr>rp_name = ''oauth.token'', rp_limit = 30, rp_seconds = 60\<rparr>"
  by (rule provider_reached_within_limit) code_simp

theorem revoked_key_signers_refuse_witness:
  "rs_status (ready_answer (sample_authorization_service\<lparr>az_kid := ''key-0001''\<rparr>) 5000000
     (fold key_step [KeyActivate ''key-0001'' 5000000] (snd (revokeKey ''key-0001'' 3000000 sample_keys_db)))) = 503"
proof -
  let ?z = "sample_authorization_service\<lparr>az_kid := ''key-0001''\<rparr>"
  have "fst (revokeKey ''key-0001'' 3000000 sample_keys_db) = Inr True" by code_simp
  then have "revokeKey (az_kid ?z) 3000000 sample_keys_db = (Inr True, snd (revokeKey ''key-0001'' 3000000 sample_keys_db))"
    by (simp add: prod_eq_iff)
  from revoked_key_signers_refuse [OF this sample_keys_facts(2) refl] show ?thesis by blast
qed

end
