(* ===== verification/Control_Pages.thy ===== *)
theory Control_Pages
  imports Platform_UI Account_Auth
begin

text \<open>
  The pages of the control API (apps/control-api/src/ui.ts).  \<open>utc\<close> is
  \<open>toLocaleString('en-US', { timeZone: 'UTC' })\<close> of an instant, \<open>uuid\<close> the random identifier drawn for
  the form of an action.
\<close>

section \<open>Names\<close>

definition site_status_text :: "site_status \<Rightarrow> string" where
  "site_status_text s = (case s of SitePending \<Rightarrow> ''pending'' | SiteActive \<Rightarrow> ''active'' | SiteSuspended \<Rightarrow> ''suspended''
     | SiteRevoked \<Rightarrow> ''revoked'' | SiteDeleted \<Rightarrow> ''deleted'')"

definition grant_status_text :: "grant_status \<Rightarrow> string" where
  "grant_status_text s = (case s of GrantPending \<Rightarrow> ''pending'' | GrantActive \<Rightarrow> ''active''
     | GrantSuspended \<Rightarrow> ''suspended'' | GrantRevoked \<Rightarrow> ''revoked'')"

definition member_role_text :: "member_role \<Rightarrow> string" where
  "member_role_text r = (case r of Owner \<Rightarrow> ''owner'' | Administrator \<Rightarrow> ''administrator'' | Member \<Rightarrow> ''member'')"

definition if_plural :: "nat \<Rightarrow> string" where
  "if_plural n = (if n = 1 then [] else ''s'')"

section \<open>Sign-in\<close>

definition hidden_field :: "string \<Rightarrow> string \<Rightarrow> string" where
  "hidden_field name v =
     ''<input type=\"hidden\" name=\"'' @
     escapeHtml name @
     ''\" value=\"'' @
     escapeHtml v @
     ''\">''"

definition form_notice :: "string option \<Rightarrow> string" where
  "form_notice message = (case message of None \<Rightarrow> [] | Some m \<Rightarrow>
     ''<p class=\"form-notice\" role=\"alert\">'' @
     escapeHtml m @
     ''</p>'')"

definition renderEmailLogin :: "string \<Rightarrow> string \<Rightarrow> string option \<Rightarrow> string" where
  "renderEmailLogin csrf token message = renderInteractionPage
     \<lparr>ip_title = ''Sign in to WePuu'', ip_heading = ''Welcome Back'',
      ip_message = ''Sign in to manage your WordPress sites and AI connections.'',
      ip_content = form_notice message @
     ''<form class=\"auth-form\" method=\"post\" action=\"/v1/account/email/send\">'' @
     hidden_field ''csrf'' csrf @
     hidden_field ''transaction'' token @
     ''<label for=\"email\">Email address</label><input id=\"email\" name=\"email\" type=\"email\" inputmode=\"email\" autocomplete=\"email\" maxlength=\"254\" required autofocus><button type=\"submit\">Continue with Email</button></form>''\<rparr>"

definition delivery_text :: "delivery_outcome \<Rightarrow> string" where
  "delivery_text d = (case d of
     Accepted \<Rightarrow> ''The email provider accepted the request. Delivery to your inbox may take a moment.''
   | Rejected \<Rightarrow> ''The email provider did not accept this request. You can retry after the countdown.''
   | Unknown \<Rightarrow> ''We could not confirm whether the provider accepted the request. Check your inbox before requesting another code.'')"

text \<open>\<open>Math.trunc\<close> has nothing to cut: the seconds are an integer.\<close>

definition renderEmailVerification ::
  "string \<Rightarrow> string \<Rightarrow> string \<Rightarrow> delivery_outcome \<Rightarrow> string option \<Rightarrow> int option \<Rightarrow> string" where
  "renderEmailVerification csrf token email delivery message retryAfter =
     (let retry = max 0 (case retryAfter of None \<Rightarrow> 60 | Some s \<Rightarrow> s) in
      renderInteractionPage
     \<lparr>ip_title = ''Verify your email'', ip_heading = ''Check Your Inbox'',
      ip_message = ''Enter the 6-digit verification code sent to your email.'',
      ip_content = ''<p class=\"muted\">'' @
     escapeHtml email @
     ''</p><p class=\"muted\" role=\"status\">'' @
     escapeHtml (delivery_text delivery) @
     ''</p>'' @
     form_notice message @
     ''<form class=\"auth-form\" method=\"post\" action=\"/v1/account/email/verify\">'' @
     hidden_field ''csrf'' csrf @
     hidden_field ''transaction'' token @
     hidden_field ''email'' email @
     ''<label for=\"otp\">Verification code</label><input class=\"otp-input\" id=\"otp\" name=\"otp\" type=\"text\" inputmode=\"numeric\" autocomplete=\"one-time-code\" pattern=\"[0-9]{6}\" minlength=\"6\" maxlength=\"6\" required autofocus><button type=\"submit\">Verify Email</button></form><div class=\"auth-secondary\"><form method=\"post\" action=\"/v1/account/email/resend\">'' @
     hidden_field ''csrf'' csrf @
     hidden_field ''transaction'' token @
     hidden_field ''email'' email @
     ''<button class=\"secondary\" type=\"submit\" data-retry-after=\"'' @
     show_int retry @
     ''\">Resend code in '' @
     show_int retry @
     ''s</button></form><form method=\"post\" action=\"/v1/account/email/change\">'' @
     hidden_field ''csrf'' csrf @
     hidden_field ''transaction'' token @
     ''<button class=\"link-button\" type=\"submit\">Use a different email</button></form></div><script src=\"/assets/email-otp-v1.js\" defer></script>''\<rparr>)"

definition renderAccountBootstrapRetry :: "string \<Rightarrow> string \<Rightarrow> string" where
  "renderAccountBootstrapRetry csrf token = renderInteractionPage
     \<lparr>ip_title = ''Finish account setup'', ip_heading = ''Your email is verified.'',
      ip_message = ''We could not finish your workspace setup. Your secure session is still valid, so you do not need another code.'',
      ip_content = ''<form class=\"auth-form\" method=\"post\" action=\"/v1/account/bootstrap\">'' @
     hidden_field ''csrf'' csrf @
     hidden_field ''transaction'' token @
     ''<button type=\"submit\">Retry account setup</button></form>''\<rparr>"

section \<open>The pages of a workspace\<close>

record tenant_page =
  tp_deployment :: deployment_config
  tp_membership :: membership_view
  tp_sites :: "site_view list"
  tp_grants :: "grant_view list"
  tp_events :: "event_view list"
  tp_csrf :: string
  tp_activity :: "(int \<times> audit_outcome option \<times> bool) option"

record page_runtime =
  pg_uuid :: "string \<Rightarrow> string"
  pg_utc :: "time \<Rightarrow> string"

definition status_badge :: "string \<Rightarrow> string" where
  "status_badge v = ''<span class=\"status '' @
     escapeHtml v @
     ''\">'' @
     escapeHtml v @
     ''</span>''"

definition tenant_shell :: "tenant_page \<Rightarrow> shell_tab \<Rightarrow> string \<Rightarrow> string \<Rightarrow> string \<Rightarrow> string" where
  "tenant_shell m active title eyebrow body = renderShell
     \<lparr>sh_title = title, sh_eyebrow = eyebrow, sh_active = active,
      sh_tenant = Some (mv_tenant (tp_membership m)), sh_deployment = tp_deployment m, sh_body = body\<rparr>"

definition actionForm :: "page_runtime \<Rightarrow> string \<Rightarrow> string \<Rightarrow> string \<Rightarrow> bool \<Rightarrow> string" where
  "actionForm pg action label csrf dangerous =
     ''<form method=\"post\" action=\"'' @
     escapeHtml action @
     ''\"><input type=\"hidden\" name=\"csrf\" value=\"'' @
     escapeHtml csrf @
     ''\"><input type=\"hidden\" name=\"idempotency_key\" value=\"'' @
     replace_all CHR ''-'' [] (pg_uuid pg action) @
     ''\"><button type=\"submit\"'' @
     (if dangerous then '' class=\"danger\"'' else []) @
     ''>'' @
     escapeHtml label @
     ''</button></form>''"

definition tenant_path :: "tenant_page \<Rightarrow> string" where
  "tenant_path m = ''/app/tenants/'' @ encodeURIComponent (mv_tenant (tp_membership m))"

definition active_sites :: "tenant_page \<Rightarrow> nat" where
  "active_sites m = length (filter (\<lambda>s. sv_status s = SiteActive) (tp_sites m))"

definition active_grants :: "tenant_page \<Rightarrow> grant_view list" where
  "active_grants m = filter (\<lambda>g. gv_status g = GrantActive) (tp_grants m)"

definition active_clients :: "tenant_page \<Rightarrow> nat" where
  "active_clients m = length (dedup (map gv_client (active_grants m)))"

definition trustRail :: "tenant_page \<Rightarrow> string" where
  "trustRail m = ''<ol class=\"trust-rail\"><li><span class=\"trust-dot\"></span><div><strong>Platform account</strong><small>Authenticated with a one-time email code</small></div></li><li><span class=\"trust-dot\"></span><div><strong>'' @
     show_nat (active_sites m) @
     '' connected site'' @
     if_plural (active_sites m) @
     ''</strong><small>Each site keeps its own WordPress permissions</small></div></li><li><span class=\"trust-dot\"></span><div><strong>'' @
     show_nat (length (active_grants m)) @
     '' active grant'' @
     if_plural (length (active_grants m)) @
     ''</strong><small>Scopes limit what a client may request</small></div></li><li><span class=\"trust-dot\"></span><div><strong>'' @
     show_nat (active_clients m) @
     '' authorized client'' @
     if_plural (active_clients m) @
     ''</strong><small>MCP calls travel directly to WordPress</small></div></li></ol>''"

definition renderOverview :: "page_runtime \<Rightarrow> tenant_page \<Rightarrow> string" where
  "renderOverview pg m =
     (let recent = concat (map (\<lambda>e. ''<tr><td>'' @
     escapeHtml (vw_name e) @
     ''</td><td>'' @
     status_badge (outcome_name (vw_outcome e)) @
     ''</td><td>'' @
     escapeHtml (pg_utc pg (vw_occurred e)) @
     '' UTC</td></tr>'') (take 5 (tp_events m))) in
      tenant_shell m TabOverview ''Trust overview'' ''Workspace security'' (''<h1>Your WordPress access, clearly connected.</h1><p class=\"lede\">WePuu coordinates identity and authorization. Tool inputs, results and WordPress content never pass through this control plane.</p><div class=\"grid\"><section class=\"panel span-4\"><p class=\"muted\">Connected sites</p><div class=\"metric\">'' @
     show_nat (active_sites m) @
     ''</div></section><section class=\"panel span-4\"><p class=\"muted\">Active grants</p><div class=\"metric\">'' @
     show_nat (length (active_grants m)) @
     ''</div></section><section class=\"panel span-4\"><p class=\"muted\">Authorized clients</p><div class=\"metric\">'' @
     show_nat (active_clients m) @
     ''</div></section><section class=\"panel span-8\"><h2>Direct trust chain</h2>'' @
     trustRail m @
     ''</section><aside class=\"panel span-4\"><h2>Workspace</h2><div class=\"metric\">'' @
     escapeHtml (member_role_text (mv_role (tp_membership m))) @
     ''</div><p class=\"muted\">'' @
     (if mv_home (tp_membership m) then ''Personal home workspace'' else ''Member workspace'') @
     ''</p><hr><h3>Data path</h3><p>OAuth tokens come from WePuu. MCP requests go directly from the client to the exact WordPress resource.</p><p class=\"mono\">Client &rarr; WordPress</p></aside><section class=\"panel span-8\"><h2>Recent security activity</h2>'' @
     (if recent = [] then ''<div class=\"empty\">No security events have been recorded.</div>'' else ''<div class=\"table-wrap\"><table><thead><tr><th>Event</th><th>Outcome</th><th>Time</th></tr></thead><tbody>'' @
       recent @
       ''</tbody></table></div>'') @
     ''</section></div>''))"

definition disconnect_form :: "page_runtime \<Rightarrow> tenant_page \<Rightarrow> site_view \<Rightarrow> string" where
  "disconnect_form pg m s = actionForm pg (tenant_path m @ ''/sites/'' @ encodeURIComponent (sv_id s) @ ''/disconnect'')
     ''Disconnect site'' (tp_csrf m) True"

definition revoke_form :: "page_runtime \<Rightarrow> tenant_page \<Rightarrow> grant_view \<Rightarrow> string" where
  "revoke_form pg m g = actionForm pg (tenant_path m @ ''/grants/'' @ encodeURIComponent (gv_id g) @ ''/revoke'')
     ''Revoke grant'' (tp_csrf m) True"

definition renderSites :: "page_runtime \<Rightarrow> tenant_page \<Rightarrow> string" where
  "renderSites pg m =
     (let rows = concat (map (\<lambda>s. ''<tr><td><strong><a href=\"'' @
     tenant_path m @
     ''/sites/'' @
     encodeURIComponent (sv_id s) @
     ''\">'' @
     escapeHtml (sv_hostname s) @
     ''</a></strong><br><code>'' @
     escapeHtml (sv_resource s) @
     ''</code></td><td>'' @
     status_badge (site_status_text (sv_status s)) @
     ''</td><td>'' @
     escapeHtml ''1'' @
     ''</td><td>'' @
     (if sv_status s = SiteActive then disconnect_form pg m s else []) @
     ''</td></tr>'') (tp_sites m)) in
      tenant_shell m TabSites ''Connected sites'' ''Resource inventory'' (''<h1>WordPress stays in control.</h1><p class=\"lede\">A site appears here only after its administrator starts and completes pairing. Disconnecting revokes its platform relationship.</p><section class=\"panel flat\"><div class=\"table-wrap\">'' @
     (if rows = [] then ''<div class=\"empty\"><strong>No sites connected.</strong><p>Start pairing from the WePuu connector in WordPress.</p></div>'' else ''<table><thead><tr><th>Site and exact MCP resource</th><th>Status</th><th>Protocol</th><th>Action</th></tr></thead><tbody>'' @
       rows @
       ''</tbody></table>'') @
     ''</div></section>''))"

definition renderGrants :: "page_runtime \<Rightarrow> tenant_page \<Rightarrow> string" where
  "renderGrants pg m =
     (let rows = concat (map (\<lambda>g. ''<tr><td><a href=\"'' @
     tenant_path m @
     ''/grants/'' @
     encodeURIComponent (gv_id g) @
     ''\"><code>'' @
     escapeHtml (gv_client g) @
     ''</code></a></td><td>'' @
     join_with ''<br>'' (map (\<lambda>c. ''<span class=\"mono\">'' @ escapeHtml (scope_name c) @ ''</span>'') (gv_scopes g)) @
     ''</td><td>'' @
     status_badge (grant_status_text (gv_status g)) @
     ''</td><td>'' @
     (if gv_status g = GrantActive then revoke_form pg m g else []) @
     ''</td></tr>'') (tp_grants m)) in
      tenant_shell m TabGrants ''Client grants'' ''Authorization ceiling'' (''<h1>Grant only what the client needs.</h1><p class=\"lede\">A scope is a ceiling, not a replacement for WordPress capability and object checks.</p><section class=\"panel flat\"><div class=\"table-wrap\">'' @
     (if rows = [] then ''<div class=\"empty\"><strong>No client grants.</strong><p>Consent begins from a compatible MCP client.</p></div>'' else ''<table><thead><tr><th>Client</th><th>Approved scopes</th><th>Status</th><th>Action</th></tr></thead><tbody>'' @
       rows @
       ''</tbody></table>'') @
     ''</div></section>''))"

text \<open>\<open>URLSearchParams.toString\<close> of a page number and an outcome, which need no escapes.\<close>

definition activity_query :: "tenant_page \<Rightarrow> audit_outcome option \<Rightarrow> int \<Rightarrow> string" where
  "activity_query m outcome n = tenant_path m @ ''/activity?page='' @ show_int n @
     (case outcome of None \<Rightarrow> [] | Some out \<Rightarrow> ''&outcome='' @ outcome_name out)"

definition outcome_options :: "audit_outcome option \<Rightarrow> string" where
  "outcome_options outcome = concat (map (\<lambda>v.
     ''<option value=\"'' @ v @ [CHR 0x22] @
     (if map_option outcome_name outcome = Some v then '' selected'' else []) @ ''>'' @
     (if v = [] then ''All outcomes'' else v) @ ''</option>'') [[], ''success'', ''denied'', ''error''])"

definition renderActivity :: "page_runtime \<Rightarrow> tenant_page \<Rightarrow> string" where
  "renderActivity pg m =
     (let (n, outcome, hasNext) = (case tp_activity m of None \<Rightarrow> (1, None, False) | Some a \<Rightarrow> a);
          rows = concat (map (\<lambda>e. ''<tr><td>'' @
     escapeHtml (vw_name e) @
     ''</td><td>'' @
     status_badge (outcome_name (vw_outcome e)) @
     ''</td><td>'' @
     escapeHtml (vw_reason e) @
     ''</td><td><code>'' @
     escapeHtml (vw_correlation e) @
     ''</code></td><td>'' @
     escapeHtml (pg_utc pg (vw_occurred e)) @
     '' UTC</td></tr>'') (tp_events m));
          previous = (if n > 1 then ''<a class=\"button\" href=\"'' @ activity_query m outcome (n - 1) @ ''\">Previous</a>''
            else ''<span></span>'');
          following = (if hasNext then ''<a class=\"button\" href=\"'' @ activity_query m outcome (n + 1) @ ''\">Next</a>''
            else ''<span></span>'') in
      tenant_shell m TabActivity ''Security activity'' ''Content-free audit'' (''<h1>See decisions, never content.</h1><p class=\"lede\">This record contains security outcomes and opaque identifiers. It does not contain MCP arguments, results, tokens or WordPress content.</p><form class=\"filter-bar\" method=\"get\" action=\"'' @
     tenant_path m @ ''/activity'' @
     ''\"><label>Outcome<select name=\"outcome\">'' @
     outcome_options outcome @
     ''</select></label><button type=\"submit\">Apply filter</button></form><section class=\"panel flat\"><div class=\"table-wrap\">'' @
     (if rows = [] then ''<div class=\"empty\">No security activity matches this view.</div>'' else ''<table><thead><tr><th>Event</th><th>Outcome</th><th>Reason</th><th>Correlation</th><th>Time</th></tr></thead><tbody>'' @
       rows @
       ''</tbody></table>'') @
     ''</div><nav class=\"pager\" aria-label=\"Activity pages\">'' @
     previous @
     ''<span>Page '' @
     show_int n @
     ''</span>'' @
     following @
     ''</nav></section>''))"

definition renderSiteDetail :: "page_runtime \<Rightarrow> tenant_page \<Rightarrow> string \<Rightarrow> string result" where
  "renderSiteDetail pg m siteId = (case lookup_by sv_id siteId (tp_sites m) of
     None \<Rightarrow> Inl ''site_not_found''
   | Some s \<Rightarrow> Inr (tenant_shell m TabSites (sv_hostname s) ''Site trust record'' (''<p><a href=\"'' @
     tenant_path m @
     ''/sites\">&larr; All sites</a></p><h1>'' @
     escapeHtml (sv_hostname s) @
     ''</h1><p class=\"lede\">This record binds one exact WordPress MCP resource to this workspace. Changing the origin requires a new pairing.</p><div class=\"grid\"><section class=\"panel span-8\"><h2>Exact resource</h2><dl class=\"detail-list\"><div><dt>Resource</dt><dd><code>'' @
     escapeHtml (sv_resource s) @
     ''</code></dd></div><div><dt>Status</dt><dd>'' @
     status_badge (site_status_text (sv_status s)) @
     ''</dd></div><div><dt>Protocol</dt><dd>'' @
     escapeHtml ''1'' @
     ''</dd></div><div><dt>Paired</dt><dd>'' @
     escapeHtml (pg_utc pg (sv_created s)) @
     '' UTC</dd></div></dl></section><aside class=\"panel span-4\"><h2>Authorized clients</h2><div class=\"metric\">'' @
     show_nat (length (filter (\<lambda>g. gv_site g = sv_id s) (active_grants m))) @
     ''</div><p class=\"muted\">Active grants for this exact resource.</p></aside><section class=\"panel span-8\"><h2>Connection controls</h2><p>Disconnecting revokes the site relationship and its grants. It does not remove WordPress content.</p>'' @
     (if sv_status s = SiteActive then disconnect_form pg m s else ''<p class=\"muted\">This site is not active.</p>'') @
     ''</section></div>'')))"

definition grant_site_link :: "tenant_page \<Rightarrow> grant_view \<Rightarrow> string" where
  "grant_site_link m g = (case lookup_by sv_id (gv_site g) (tp_sites m) of
     None \<Rightarrow> ''<span class=\"muted\">Unavailable</span>''
   | Some s \<Rightarrow> ''<a href=\"'' @ tenant_path m @ ''/sites/'' @ encodeURIComponent (sv_id s) @ ''\">'' @
       escapeHtml (sv_hostname s) @ ''</a>'')"

definition renderGrantDetail :: "page_runtime \<Rightarrow> tenant_page \<Rightarrow> string \<Rightarrow> string result" where
  "renderGrantDetail pg m grantId = (case lookup_by gv_id grantId (tp_grants m) of
     None \<Rightarrow> Inl ''grant_not_found''
   | Some g \<Rightarrow> Inr (tenant_shell m TabGrants ''Grant detail'' ''Authorization record'' (''<p><a href=\"'' @
     tenant_path m @
     ''/grants\">&larr; All grants</a></p><h1>Client authorization.</h1><p class=\"lede\">This grant sets a maximum scope. WordPress still evaluates its local user, capability and object permissions for every tool call.</p><div class=\"grid\"><section class=\"panel span-8\"><h2>Binding</h2><dl class=\"detail-list\"><div><dt>Client</dt><dd><code>'' @
     escapeHtml (gv_client g) @
     ''</code></dd></div><div><dt>Site</dt><dd>'' @
     grant_site_link m g @
     ''</dd></div><div><dt>Status</dt><dd>'' @
     status_badge (grant_status_text (gv_status g)) @
     ''</dd></div><div><dt>Consent version</dt><dd>'' @
     escapeHtml (gv_version g) @
     ''</dd></div><div><dt>Created</dt><dd>'' @
     escapeHtml (pg_utc pg (gv_created g)) @
     '' UTC</dd></div></dl></section><aside class=\"panel span-4\"><h2>Approved scopes</h2><ul class=\"scope-list\">'' @
     concat (map (\<lambda>c. ''<li>'' @ escapeHtml (scope_name c) @ ''</li>'') (gv_scopes g)) @
     ''</ul></aside><section class=\"panel span-8\"><h2>Authorization control</h2><p>Revoking this grant invalidates its refresh family and schedules a content-free revocation event for the paired site.</p>'' @
     (if gv_status g = GrantActive then revoke_form pg m g else ''<p class=\"muted\">This grant is not active.</p>'') @
     ''</section></div>'')))"

section \<open>The pages of the platform\<close>

definition platform_shell :: "deployment_config \<Rightarrow> shell_tab \<Rightarrow> string \<Rightarrow> string \<Rightarrow> string \<Rightarrow> string" where
  "platform_shell deployment active title eyebrow body = renderShell
     \<lparr>sh_title = title, sh_eyebrow = eyebrow, sh_active = active, sh_tenant = None,
      sh_deployment = deployment, sh_body = body\<rparr>"

definition renderCompatibility :: "deployment_config \<Rightarrow> string" where
  "renderCompatibility deployment = platform_shell deployment TabCompatibility ''Compatibility'' ''Verified client paths''
     (''<h1>Support means tested.</h1><p class=\"lede\">A client appears as supported only after its real OAuth and direct MCP path passes. Documentation claims alone do not establish compatibility.</p><section class=\"panel flat\"><div class=\"table-wrap\"><table><thead><tr><th>Client</th><th>Version</th><th>Registration path</th><th>Result</th></tr></thead><tbody><tr><td>Codex</td><td><code>0.154.0</code></td><td>Pre-registered Authorization Code + PKCE S256</td><td>'' @
     status_badge ''success'' @
     ''</td></tr><tr><td>WorkBuddy / codebuddy</td><td><code>5.5.2 / 2.137.1</code></td><td>No standards-compliant path verified</td><td>'' @
     status_badge ''denied'' @
     ''</td></tr></tbody></table></div><p class=\"muted\">Matrix version: '' @
     escapeHtml (dp_compatibility deployment) @
     ''. Newer client versions remain unverified until the same acceptance suite passes.</p></section>'')"

definition check_status :: "readiness_check \<Rightarrow> string" where
  "check_status k = (if rc_ready k then ''ready'' else ''pending'')"

definition readiness_item :: "readiness_check \<Rightarrow> string" where
  "readiness_item k = ''<div class=\"readiness-item '' @
     check_status k @
     ''\"><strong>'' @
     escapeHtml (rc_label k) @
     ''</strong> '' @
     status_badge (check_status k) @
     ''<p class=\"muted\">'' @
     escapeHtml (rc_detail k) @
     ''</p></div>''"

definition renderReadiness :: "deployment_config \<Rightarrow> bool \<times> readiness_check list \<Rightarrow> string" where
  "renderReadiness deployment report = platform_shell deployment TabReadiness ''Release readiness'' ''Fail-closed release gate''
     (''<h1>'' @
     (if fst report then ''Configuration is release-ready.'' else ''Public release stays locked.'') @
     ''</h1><p class=\"lede\">This view reports whether required categories are configured. It never returns secrets, credential paths, client secrets or key material.</p><div class=\"grid\"><section class=\"panel span-8\"><h2>Readiness checks</h2><div class=\"readiness-grid\">'' @
     concat (map readiness_item (snd report)) @
     ''</div></section><aside class=\"panel span-4\"><h2>Candidate</h2><dl class=\"detail-list\"><div><dt>Version</dt><dd>'' @
     escapeHtml (dp_version deployment) @
     ''</dd></div><div><dt>Revision</dt><dd><code>'' @
     escapeHtml (dp_revision deployment) @
     ''</code></dd></div><div><dt>Signing</dt><dd>Protected local PKCS#8</dd></div></dl></aside></div>'')"

definition workspace_item :: "membership_view \<Rightarrow> string" where
  "workspace_item w = ''<li><a href=\"/app/tenants/'' @
     encodeURIComponent (mv_tenant w) @
     ''\"><strong>Workspace '' @
     escapeHtml (take 8 (mv_tenant w)) @
     ''</strong><br><span class=\"muted\">'' @
     escapeHtml (member_role_text (mv_role w)) @
     (if mv_home w then '' &middot; home'' else []) @
     ''</span></a></li>''"

definition renderAccount :: "page_runtime \<Rightarrow> deployment_config \<Rightarrow> membership_view list \<Rightarrow> string \<Rightarrow> string" where
  "renderAccount pg deployment workspaces csrf = platform_shell deployment TabAccount ''Account'' ''Account and data''
     (''<h1>Your account is a control identity.</h1><p class=\"lede\">It stores an opaque identity binding and authorization state. It does not store your WordPress password, Application Password, content or MCP payloads.</p><div class=\"grid\"><section class=\"panel span-8\"><h2>Workspaces</h2><ul class=\"workspace-list\">'' @
     concat (map workspace_item workspaces) @
     ''</ul></section><aside class=\"panel span-4\"><h2>Session</h2><p>Signing out revokes this browser session.</p>'' @
     actionForm pg ''/app/logout'' ''Sign out'' csrf False @
     ''</aside><section class=\"panel span-8\"><h2>Data controls</h2><p>Verified deletion is implemented internally, but public deletion requests remain disabled while retention, residency and legal policies are being finalized.</p><p class=\"muted\">No request has been created from this page.</p></section></div>'')"

end
