(* ===== verification/Control_Rules.thy ===== *)
theory Control_Rules
  imports Control_Pages Http Console_Auth
begin

text \<open>
  The rules of the control API that need no database (apps/control-api/src/server.ts): cookies, return
  paths, the two origins and what each of them serves, the CSRF gates, the schemas of the bodies, the
  answers to errors, and the counters of operations.ts.  Fastify parses a request before a handler
  sees it: \<open>kq_body\<close> is the parsed JSON or the text of a form, \<open>kq_query\<close> the parsed query, and
  \<open>kq_path\<close> and \<open>kq_search\<close> the raw URL up to the question mark and from it on.  Where the code
  puts them into a \<open>URL\<close> and prints it again (the redirect of the hook, the link to the sign-in page),
  the text is taken to be in the normal form of that parser already.
\<close>

section \<open>Requests, errors and answers\<close>

datatype control_body = NoBody | JsonBody json | FormBody string

record control_request =
  kq_method :: string
  kq_path :: string
  kq_search :: string
  kq_query :: json_object
  kq_headers :: "(string \<times> string) list"
  kq_ip :: string
  kq_body :: control_body

definition kq_header :: "string \<Rightarrow> control_request \<Rightarrow> string option" where
  "kq_header name rq = map_of (kq_headers rq) name"

datatype control_error = Platform platform_error | Unexpected string

definition refusal :: "platform_error_code \<Rightarrow> nat \<Rightarrow> control_error" where
  "refusal code status = Platform \<lparr>pe_code = code, pe_status = status\<rparr>"

definition unavailable_error :: control_error where
  "unavailable_error = refusal TemporarilyUnavailable 503"

definition invalid_request :: control_error where
  "invalid_request = refusal InvalidRequest 400"

definition forbidden :: control_error where
  "forbidden = refusal Forbidden 403"

definition not_found :: control_error where
  "not_found = refusal NotFound 404"

definition unauthenticated :: control_error where
  "unauthenticated = refusal Unauthenticated 401"

definition error_code_text :: "platform_error_code \<Rightarrow> string" where
  "error_code_text c = (case c of InvalidRequest \<Rightarrow> ''invalid_request'' | NotFound \<Rightarrow> ''not_found''
     | Conflict \<Rightarrow> ''conflict'' | Unauthenticated \<Rightarrow> ''unauthenticated'' | Forbidden \<Rightarrow> ''forbidden''
     | TemporarilyUnavailable \<Rightarrow> ''temporarily_unavailable'')"

definition send_json :: "int \<Rightarrow> json_object \<Rightarrow> http_response" where
  "send_json status members = \<lparr>rs_status = status,
     rs_headers = [no_store, (''content-type'', ''application/json; charset=utf-8'')],
     rs_body = json_stringify (JObj members)\<rparr>"

definition set_cookies :: "string list \<Rightarrow> (string \<times> string) list" where
  "set_cookies cs = map (\<lambda>c. (''set-cookie'', c)) cs"

definition redirect :: "string list \<Rightarrow> string \<Rightarrow> http_response" where
  "redirect cookies location = \<lparr>rs_status = 303,
     rs_headers = no_store # set_cookies cookies @ [(''location'', location)], rs_body = []\<rparr>"

text \<open>\<open>htmlHeaders\<close> and the type of the page.\<close>

definition html_headers :: "string list \<Rightarrow> (string \<times> string) list" where
  "html_headers cookies =
     [no_store, (''referrer-policy'', ''same-origin''), (''content-security-policy'', UI_CSP),
      (''x-content-type-options'', ''nosniff''), (''x-frame-options'', ''DENY'')] @ set_cookies cookies @
     [(''content-type'', ''text/html; charset=utf-8'')]"

definition send_html :: "int \<Rightarrow> string list \<Rightarrow> string \<Rightarrow> http_response" where
  "send_html status cookies page = \<lparr>rs_status = status, rs_headers = html_headers cookies, rs_body = page\<rparr>"

text \<open>\<open>setErrorHandler\<close>.\<close>

definition error_page :: "int \<Rightarrow> string \<Rightarrow> string \<Rightarrow> http_response" where
  "error_page status heading message = send_html status [] (renderInteractionPage
     \<lparr>ip_title = ''WePuu control plane'', ip_heading = heading, ip_message = message,
      ip_content = ''<p><a class=\"button\" href=\"/app\">Return to workspace</a></p>''\<rparr>)"

definition answer_error :: "control_request \<Rightarrow> control_error \<Rightarrow> http_response" where
  "answer_error rq e =
     (let ui = starts_with (kq_path rq) ''/app'' in
      case e of
        Platform p \<Rightarrow>
          if ui then error_page (int (pe_status p))
            (if pe_status p = 404 then ''That record is not available.''
             else if pe_status p = 403 then ''This action is not allowed.''
             else ''The control plane could not complete this request.'')
            (if pe_status p \<ge> 500 then ''The service is temporarily unavailable. No authorization state was changed.''
             else ''Return to the workspace and try a valid action.'')
          else send_json (int (pe_status p)) [(''error'', JStr (error_code_text (pe_code p)))]
      | Unexpected _ \<Rightarrow>
          if ui then error_page 500 ''The control plane is temporarily unavailable.''
            ''No authorization state was changed. Return to the workspace and retry.''
          else send_json 500 [(''error'', JStr ''temporarily_unavailable'')])"

section \<open>Cookies\<close>

definition SESSION_COOKIE :: string where
  "SESSION_COOKIE = ''__Host-wepuu_session''"
definition CSRF_COOKIE :: string where
  "CSRF_COOKIE = ''__Host-wepuu_csrf''"
definition CONSOLE_SESSION_COOKIE :: string where
  "CONSOLE_SESSION_COOKIE = ''__Host-wepuu_console''"
definition CONSOLE_LOGIN_COOKIE_PREFIX :: string where
  "CONSOLE_LOGIN_COOKIE_PREFIX = ''__Host-wepuu_console_login_''"

definition cookie_pair :: "string \<Rightarrow> string \<times> string" where
  "cookie_pair part = (case split_on CHR ''='' (trim part) of
     [] \<Rightarrow> ([], []) | name # v \<Rightarrow> (name, join_with ''='' v))"

definition requestCookie :: "control_request \<Rightarrow> string \<Rightarrow> string option" where
  "requestCookie rq cookieName = (case kq_header ''cookie'' rq of
     None \<Rightarrow> None
   | Some text \<Rightarrow> map_of (map cookie_pair (split_on CHR '';'' text)) cookieName)"

definition sessionCookie :: "control_request \<Rightarrow> string option" where
  "sessionCookie rq = requestCookie rq SESSION_COOKIE"

definition secureCookie :: "string \<Rightarrow> string \<Rightarrow> int \<Rightarrow> string" where
  "secureCookie name v maxAgeSeconds = name @ ''='' @ v @ ''; Max-Age='' @ show_int (max 0 maxAgeSeconds) @
     ''; Path=/; Secure; HttpOnly; SameSite=Lax''"

definition consoleLoginCookieName :: "string \<Rightarrow> string" where
  "consoleLoginCookieName requestId = CONSOLE_LOGIN_COOKIE_PREFIX @ requestId"

definition clearCookie :: "string \<Rightarrow> string" where
  "clearCookie name = secureCookie name [] 0"

definition csrfCookie :: "string \<Rightarrow> string" where
  "csrfCookie v = CSRF_COOKIE @ ''='' @ v @ ''; Max-Age=43200; Path=/; Secure; SameSite=Lax''"

text \<open>\<open>timingSafeEqual\<close> after the comparison of the lengths.\<close>

definition sameSecret :: "string \<Rightarrow> string \<Rightarrow> bool" where
  "sameSecret a b \<longleftrightarrow> length a = length b \<and> a = b"

text \<open>Seconds of life of a cookie for what expires at an instant.\<close>

definition cookie_age :: "time \<Rightarrow> time \<Rightarrow> int" where
  "cookie_age expires now = max 1 ((expires - now) div 1000)"

section \<open>Return paths\<close>

text \<open>\<open>resolve\<close> is \<open>new URL(_, 'https://return.invalid')\<close>; \<open>None\<close> when it throws.\<close>

definition validatedReturnTo :: "(string \<Rightarrow> url option) \<Rightarrow> string option \<Rightarrow> control_error + string" where
  "validatedReturnTo resolve v =
     (let returnTo = (case v of None \<Rightarrow> ''/app'' | Some r \<Rightarrow> r) in
      if \<not> starts_with returnTo ''/'' \<or> starts_with returnTo ''//'' \<or> CHR 0x5C \<in> set returnTo
      then Inl invalid_request
      else case resolve returnTo of
        None \<Rightarrow> Inl (Unexpected ''Invalid URL'')
      | Some u \<Rightarrow>
          if url_origin u \<noteq> ''https://return.invalid'' \<or> url_username u \<noteq> [] \<or> url_password u \<noteq> [] \<or> url_hash u \<noteq> []
          then Inl invalid_request else Inr (url_pathname u @ url_search u))"

section \<open>Which origin serves what\<close>

datatype boundary = AuthBoundary | AppBoundary | UnknownBoundary

record origins =
  og_auth :: string
  og_app :: string
  og_auth_host :: string
  og_app_host :: string

definition splitOrigins :: "origins \<Rightarrow> bool" where
  "splitOrigins og \<longleftrightarrow> og_auth og \<noteq> og_app og"

definition requestBoundary :: "origins \<Rightarrow> control_request \<Rightarrow> boundary" where
  "requestBoundary og rq =
     (if \<not> splitOrigins og then AuthBoundary
      else let host = map_option (map lower_latin) (kq_header ''host'' rq) in
        if host = Some (map lower_latin (og_auth_host og)) then AuthBoundary
        else if host = Some (map lower_latin (og_app_host og)) then AppBoundary
        else UnknownBoundary)"

definition app_account_route :: "string \<Rightarrow> bool" where
  "app_account_route path \<longleftrightarrow> path = ''/v1/account/tenants'' \<or> path = ''/v1/account/deployment-readiness''"

text \<open>The two expressions for the pairing route and the completion of a grant.\<close>

definition pairing_path :: "string \<Rightarrow> bool" where
  "pairing_path path = (case split_on CHR ''/'' path of
     [a, b, c, t, p] \<Rightarrow> a = [] \<and> b = ''v1'' \<and> c = ''tenants'' \<and> t \<noteq> [] \<and> p = ''pairing'' | _ \<Rightarrow> False)"

definition completion_path :: "string \<Rightarrow> bool" where
  "completion_path path = (case split_on CHR ''/'' path of
     [a, b, c, t, g, i, p] \<Rightarrow> a = [] \<and> b = ''v1'' \<and> c = ''tenants'' \<and> t \<noteq> [] \<and> g = ''grants'' \<and> i \<noteq> [] \<and> p = ''complete''
   | _ \<Rightarrow> False)"

definition auth_only :: "string \<Rightarrow> bool" where
  "auth_only path \<longleftrightarrow> starts_with path ''/v1/account'' \<and> \<not> app_account_route path \<or> starts_with path ''/v1/pairing'' \<or>
     starts_with path ''/v1/consent'' \<or> starts_with path ''/v1/oauth'' \<or> pairing_path path \<or> completion_path path"

definition app_only :: "string \<Rightarrow> bool" where
  "app_only path \<longleftrightarrow> starts_with path ''/app'' \<or> starts_with path ''/v1/console'' \<or> starts_with path ''/v1/session'' \<or>
     app_account_route path \<or> starts_with path ''/v1/tenants'' \<and> \<not> auth_only path"

text \<open>The hook before every handler: go on, or the answer that ends the request.\<close>

definition preHandler :: "origins \<Rightarrow> control_request \<Rightarrow> control_error + http_response option" where
  "preHandler og rq =
     (if \<not> splitOrigins og then Inr None
      else
        let path = kq_path rq; b = requestBoundary og rq in
        if starts_with path ''/app'' \<and> b = AuthBoundary
        then Inr (Some (redirect [] (og_app og @ path @ kq_search rq)))
        else if b = UnknownBoundary \<or> app_only path \<and> b \<noteq> AppBoundary \<or> auth_only path \<and> b \<noteq> AuthBoundary
        then Inl not_found else Inr None)"

section \<open>Forms\<close>

abbreviation csrf_token :: "string \<Rightarrow> bool" where
  "csrf_token s \<equiv> rx id_class 43 43 s"

definition IdempotencyKeySchema :: "string schema" where
  "IdempotencyKeySchema = z_str (rx id_class 16 128)"

text \<open>\<open>Object.fromEntries(new URLSearchParams(body))\<close>: the last of several values.\<close>

definition form_object :: "string \<Rightarrow> json_object" where
  "form_object body = map (\<lambda>(k, v). (k, JStr v)) (rev (parse_form body))"

text \<open>The cookie of the pages: an existing token is kept, otherwise \<open>fresh\<close> is set.\<close>

definition uiCsrf :: "string \<Rightarrow> control_request \<Rightarrow> string \<times> string list" where
  "uiCsrf fresh rq = (case requestCookie rq CSRF_COOKIE of
     Some existing \<Rightarrow> if csrf_token existing then (existing, []) else (fresh, [csrfCookie fresh])
   | None \<Rightarrow> (fresh, [csrfCookie fresh]))"

definition UiFormSchema :: "json \<Rightarrow> (string \<times> string) option" where
  "UiFormSchema j =
     Option.bind (z_object [''csrf'', ''idempotency_key''] (Some j)) (\<lambda>obj.
     Option.bind (z_str (rx id_class 43 43) (map_of obj ''csrf'')) (\<lambda>csrf.
     Option.bind (IdempotencyKeySchema (map_of obj ''idempotency_key'')) (\<lambda>key. Some (csrf, key))))"

text \<open>\<open>request.body\<close> as a schema sees it, and as \<open>validateUiMutation\<close> reads a form.\<close>

definition raw_body :: "control_request \<Rightarrow> json" where
  "raw_body rq = (case kq_body rq of NoBody \<Rightarrow> JNull | JsonBody j \<Rightarrow> j | FormBody s \<Rightarrow> JStr s)"

definition form_input :: "control_request \<Rightarrow> json" where
  "form_input rq = (case raw_body rq of JStr s \<Rightarrow> JObj (form_object s) | j \<Rightarrow> j)"

definition validateUiMutation :: "origins \<Rightarrow> control_request \<Rightarrow> control_error + (string \<times> string)" where
  "validateUiMutation og rq =
     (if kq_header ''origin'' rq \<noteq> Some (og_app og) then Inl forbidden
      else case (UiFormSchema (form_input rq), requestCookie rq CSRF_COOKIE) of
        (Some (csrf, key), Some cookie) \<Rightarrow> if sameSecret cookie csrf then Inr (csrf, key) else Inl forbidden
      | _ \<Rightarrow> Inl forbidden)"

definition loginFormInput :: "origins \<Rightarrow> control_request \<Rightarrow> control_error + json_object" where
  "loginFormInput og rq =
     (if kq_header ''origin'' rq \<noteq> Some (og_auth og) then Inl forbidden
      else case raw_body rq of
        JStr s \<Rightarrow> Inr (form_object s)
      | JObj obj \<Rightarrow> Inr obj
      | JArr xs \<Rightarrow> Inr []
      | _ \<Rightarrow> Inl invalid_request)"

definition validateLoginMutation ::
  "origins \<Rightarrow> (json \<Rightarrow> 'a option) \<Rightarrow> control_request \<Rightarrow> control_error + 'a" where
  "validateLoginMutation og sch rq =
     and_then (loginFormInput og rq) (\<lambda>obj.
       case (z_str (rx id_class 43 43) (map_of obj ''csrf''), requestCookie rq CSRF_COOKIE) of
         (Some csrf, Some cookie) \<Rightarrow>
           if \<not> sameSecret cookie csrf then Inl forbidden
           else (case sch (JObj obj) of None \<Rightarrow> Inl invalid_request | Some form \<Rightarrow> Inr form)
       | _ \<Rightarrow> Inl forbidden)"

section \<open>Schemas\<close>

record login_form =
  lf_csrf :: string
  lf_transaction :: string

definition login_form_of :: "json_object \<Rightarrow> login_form option" where
  "login_form_of obj =
     Option.bind (z_str (rx id_class 43 43) (map_of obj ''csrf'')) (\<lambda>csrf.
     Option.bind (z_str (rx id_class 43 43) (map_of obj ''transaction'')) (\<lambda>transaction.
     Some \<lparr>lf_csrf = csrf, lf_transaction = transaction\<rparr>))"

definition LoginMutationBaseSchema :: "json \<Rightarrow> login_form option" where
  "LoginMutationBaseSchema j = Option.bind (z_object [''csrf'', ''transaction''] (Some j)) login_form_of"

definition EmailSendFormSchema :: "json \<Rightarrow> (login_form \<times> string) option" where
  "EmailSendFormSchema j =
     Option.bind (z_object [''csrf'', ''transaction'', ''email''] (Some j)) (\<lambda>obj.
     Option.bind (login_form_of obj) (\<lambda>form.
     Option.bind (z_str (\<lambda>s. 3 \<le> length s \<and> length s \<le> 320) (map_of obj ''email'')) (\<lambda>email.
     Some (form, email))))"

definition EmailVerifyFormSchema :: "json \<Rightarrow> (login_form \<times> string \<times> string) option" where
  "EmailVerifyFormSchema j =
     Option.bind (z_object [''csrf'', ''transaction'', ''email'', ''otp''] (Some j)) (\<lambda>obj.
     Option.bind (login_form_of obj) (\<lambda>form.
     Option.bind (z_str (\<lambda>s. 3 \<le> length s \<and> length s \<le> 320) (map_of obj ''email'')) (\<lambda>email.
     Option.bind (z_str (rx digit_class 6 6) (map_of obj ''otp'')) (\<lambda>otp.
     Some (form, email, otp)))))"

definition console_request_id :: "string \<Rightarrow> bool" where
  "console_request_id s \<longleftrightarrow> starts_with s ''console_'' \<and> rx id_class 32 32 (drop 8 s)"

definition AccountLoginQuerySchema :: "json_object \<Rightarrow> string option option" where
  "AccountLoginQuerySchema query =
     Option.bind (z_object [''return_to''] (Some (JObj query))) (\<lambda>obj.
     z_optional (z_str (\<lambda>s. length s \<le> 2048)) (map_of obj ''return_to''))"

definition ConsoleRequestQuerySchema :: "json_object \<Rightarrow> string option" where
  "ConsoleRequestQuerySchema query =
     Option.bind (z_object [''request''] (Some (JObj query))) (\<lambda>obj. z_str console_request_id (map_of obj ''request''))"

definition ConsoleExchangeSchema :: "json \<Rightarrow> (string \<times> string) option" where
  "ConsoleExchangeSchema j =
     Option.bind (z_object [''request'', ''code''] (Some j)) (\<lambda>obj.
     Option.bind (z_str console_request_id (map_of obj ''request'')) (\<lambda>request.
     Option.bind (z_str (rx id_class 43 43) (map_of obj ''code'')) (\<lambda>code. Some (request, code))))"

definition ConsoleLogoutSchema :: "json \<Rightarrow> string option" where
  "ConsoleLogoutSchema j =
     Option.bind (z_object [''csrf'', ''request''] (Some j)) (\<lambda>obj.
     Option.bind (z_str (rx id_class 43 43) (map_of obj ''csrf'')) (\<lambda>csrf.
     z_str console_request_id (map_of obj ''request'')))"

definition PairingBodySchema :: "json \<Rightarrow> (string \<times> string) option" where
  "PairingBodySchema j =
     Option.bind (z_object [''resource'', ''verifier''] (Some j)) (\<lambda>obj.
     Option.bind (z_str (\<lambda>s. 1 \<le> length s \<and> length s \<le> 2048) (map_of obj ''resource'')) (\<lambda>resource.
     Option.bind (z_str (rx id_class 43 128) (map_of obj ''verifier'')) (\<lambda>verifier. Some (resource, verifier))))"

definition scope_set_schema :: "json option \<Rightarrow> mcp_scope list option" where
  "scope_set_schema j = z_array (z_enum MCP_SCOPE_NAMES) mcp_scope_set j"

definition GrantStartBodySchema :: "json \<Rightarrow> (string \<times> mcp_scope list) option" where
  "GrantStartBodySchema j =
     Option.bind (z_object [''client_id'', ''scopes''] (Some j)) (\<lambda>obj.
     Option.bind (z_str oauth_client_id (map_of obj ''client_id'')) (\<lambda>client.
     Option.bind (scope_set_schema (map_of obj ''scopes'')) (\<lambda>scopes. Some (client, scopes))))"

definition GrantCompletionBodySchema :: "json \<Rightarrow> (string \<times> string \<times> bool) option" where
  "GrantCompletionBodySchema j =
     Option.bind (z_object [''proof'', ''challenge'', ''decision''] (Some j)) (\<lambda>obj.
     Option.bind (z_str (\<lambda>s. 1 \<le> length s \<and> length s \<le> 16384) (map_of obj ''proof'')) (\<lambda>proof.
     Option.bind (z_str (rx id_class 43 43) (map_of obj ''challenge'')) (\<lambda>challenge.
     Option.bind (z_enum [(''approved'', True), (''denied'', False)] (map_of obj ''decision'')) (\<lambda>approved.
     Some (proof, challenge, approved)))))"

definition OAuthConsentStartBodySchema :: "json \<Rightarrow> string option" where
  "OAuthConsentStartBodySchema j =
     Option.bind (z_object [''request''] (Some j)) (\<lambda>obj.
     z_str (\<lambda>s. 1 \<le> length s \<and> length s \<le> 8192) (map_of obj ''request''))"

text \<open>\<open>z.coerce.number()\<close> of a query value is the parameter \<open>number\<close>.\<close>

definition ActivityQuerySchema ::
  "(json \<Rightarrow> int option) \<Rightarrow> json_object \<Rightarrow> (int \<times> audit_outcome option) option" where
  "ActivityQuerySchema number query =
     Option.bind (z_object [''page'', ''outcome''] (Some (JObj query))) (\<lambda>obj.
     Option.bind (case map_of obj ''page'' of None \<Rightarrow> Some 1
       | Some v \<Rightarrow> Option.bind (number v) (\<lambda>n. if 1 \<le> n \<and> n \<le> 500 then Some n else None)) (\<lambda>page.
     Option.bind (z_optional (z_enum SecurityOutcomeSchema) (map_of obj ''outcome'')) (\<lambda>outcome.
     Some (page, outcome))))"

section \<open>Operations\<close>

definition hasOperationsAccess :: "string option \<Rightarrow> control_request \<Rightarrow> bool" where
  "hasOperationsAccess token rq =
     (case (token, kq_header ''authorization'' rq) of
        (Some t, Some authorization) \<Rightarrow>
          \<not> length t < 32 \<and> starts_with authorization ''Bearer '' \<and> sameSecret t (drop 7 authorization)
      | _ \<Rightarrow> False)"

text \<open>\<open>ContentFreeMetrics\<close>; durations are in microseconds, and \<open>fixed\<close> is \<open>toFixed(3)\<close> of them.\<close>

record control_metrics =
  km_requests :: nat
  km_duration :: int
  km_status :: "string \<Rightarrow> nat"
  km_otp :: "string \<Rightarrow> nat"

definition recordOtp :: "string \<Rightarrow> control_metrics \<Rightarrow> control_metrics" where
  "recordOtp key m = m\<lparr>km_otp := (km_otp m)(key := km_otp m key + 1)\<rparr>"

definition status_class :: "int \<Rightarrow> string" where
  "status_class code = show_int (code div 100) @ ''xx''"

definition record_response :: "int \<Rightarrow> int \<Rightarrow> control_metrics \<Rightarrow> control_metrics" where
  "record_response statusCode duration m =
     m\<lparr>km_requests := km_requests m + 1, km_duration := km_duration m + max 0 duration,
       km_status := (km_status m)(status_class statusCode := km_status m (status_class statusCode) + 1)\<rparr>"

definition metrics_lines :: "(int \<Rightarrow> string) \<Rightarrow> int option \<Rightarrow> control_metrics \<Rightarrow> string list" where
  "metrics_lines fixed budget m =
     [''# HELP wepuu_control_requests_total Total control-plane HTTP responses.'',
      ''# TYPE wepuu_control_requests_total counter'',
      ''wepuu_control_requests_total '' @ show_nat (km_requests m),
      ''# HELP wepuu_control_request_duration_milliseconds_total Accumulated control-plane response time.'',
      ''# TYPE wepuu_control_request_duration_milliseconds_total counter'',
      ''wepuu_control_request_duration_milliseconds_total '' @ fixed (km_duration m)] @
     map (\<lambda>c. ''wepuu_control_responses_total{status_class=\"'' @ c @ ''\"} '' @ show_nat (km_status m c))
       [''2xx'', ''3xx'', ''4xx'', ''5xx''] @
     concat (map (\<lambda>k. let name = ''wepuu_otp_send_'' @ k @ ''_total'' in
         [''# TYPE '' @ name @ '' counter'', name @ '' '' @ show_nat (km_otp m k)])
       [''attempt'', ''accepted'', ''rejected'', ''unknown'']) @
     [''# TYPE wepuu_otp_rate_limited_total counter''] @
     map (\<lambda>x. ''wepuu_otp_rate_limited_total{dimension=\"'' @ x @ ''\"} '' @ show_nat (km_otp m (''limited:'' @ x)))
       [''ip'', ''recipient_hour'', ''recipient_day'', ''global_day''] @
     [''# TYPE wepuu_otp_storage_failed_total counter'',
      ''wepuu_otp_storage_failed_total '' @ show_nat (km_otp m ''storage_failed'')] @
     (case budget of None \<Rightarrow> []
      | Some n \<Rightarrow> [''# TYPE wepuu_otp_budget_remaining gauge'', ''wepuu_otp_budget_remaining '' @ show_int n])"

definition render_metrics :: "(int \<Rightarrow> string) \<Rightarrow> int option \<Rightarrow> control_metrics \<Rightarrow> string" where
  "render_metrics fixed budget m = join_with [CHR 0x0A] (metrics_lines fixed budget m) @ [CHR 0x0A]"

end
