(* ===== verification/Control_Session.thy ===== *)
theory Control_Session
  imports Control_Rules Directory Key_Custody Pairing
begin

text \<open>
  What the routes of the control API share (apps/control-api/src/server.ts): the options of
  \<open>buildControlApi\<close>, the state they run in, and how a request gets an identity, a tenant context and
  the model of a page.  Better Auth is the record \<open>account_library\<close>; the stores are the PostgreSQL
  ones of \<open>packages/database\<close>.  Of \<open>Date.now()\<close> a request reads one instant.
\<close>

section \<open>Steps\<close>

record control_state =
  ks_db :: db
  ks_diagnostics :: "(string \<times> diag_stage \<times> diag_code) list"
  ks_metrics :: control_metrics

type_synonym 'a control = "control_state \<Rightarrow> (control_error + 'a) \<times> control_state"

definition answer :: "'a \<Rightarrow> 'a control" where
  "answer a s = (Inr a, s)"

definition throws :: "control_error \<Rightarrow> 'a control" where
  "throws e s = (Inl e, s)"

definition proceed :: "'a control \<Rightarrow> ('a \<Rightarrow> 'b control) \<Rightarrow> 'b control" where
  "proceed m f s = (case m s of (Inl e, s') \<Rightarrow> (Inl e, s') | (Inr a, s') \<Rightarrow> f a s')"

text \<open>\<open>try { m } catch (error) { f(error) }\<close>\<close>

definition rescue :: "'a control \<Rightarrow> (control_error \<Rightarrow> 'a control) \<Rightarrow> 'a control" where
  "rescue m f s = (case m s of (Inl e, s') \<Rightarrow> f e s' | (Inr a, s') \<Rightarrow> (Inr a, s'))"

definition pure_step :: "control_error + 'a \<Rightarrow> 'a control" where
  "pure_step r s = (r, s)"

text \<open>\<open>if (!ok) throw error\<close>\<close>

definition demand :: "bool \<Rightarrow> control_error \<Rightarrow> 'a control \<Rightarrow> 'a control" where
  "demand ok e m = (if ok then m else throws e)"

definition given :: "'a option \<Rightarrow> control_error \<Rightarrow> ('a \<Rightarrow> 'b control) \<Rightarrow> 'b control" where
  "given v e f = (case v of None \<Rightarrow> throws e | Some a \<Rightarrow> f a)"

text \<open>A result of a schema or a library that may throw, and an operation on the database.\<close>

definition thrown_away :: "'a result \<Rightarrow> control_error + 'a" where
  "thrown_away r = (case r of Inl e \<Rightarrow> Inl (Unexpected e) | Inr a \<Rightarrow> Inr a)"

definition store :: "(db \<Rightarrow> 'a outcome) \<Rightarrow> 'a control" where
  "store op s = (case op (ks_db s) of (r, d) \<Rightarrow> (thrown_away r, s\<lparr>ks_db := d\<rparr>))"

definition reading :: "(db \<Rightarrow> 'a result) \<Rightarrow> 'a control" where
  "reading q s = (thrown_away (q (ks_db s)), s)"

lemma proceed_Inr:
  "proceed m f s = (Inr b, s') \<longleftrightarrow> (\<exists>a s1. m s = (Inr a, s1) \<and> f a s1 = (Inr b, s'))"
  by (auto simp: proceed_def case_eq_Pair)

lemma store_Inr: "store op s = (Inr a, s') \<longleftrightarrow> (\<exists>d. op (ks_db s) = (Inr a, d) \<and> s' = s\<lparr>ks_db := d\<rparr>)"
  by (auto simp: store_def thrown_away_def split: prod.splits sum.splits)

section \<open>Better Auth\<close>

type_synonym headers = "(string \<times> string) list"

record account_session =
  bs_session :: string
  bs_user :: string
  bs_created :: time
  bs_expires :: time

text \<open>A \<open>Response\<close> of Better Auth: its headers without the cookies, and the cookies.\<close>

record auth_reply =
  ay_status :: int
  ay_headers :: headers
  ay_cookies :: "string list"
  ay_body :: string

record account_library =
  lb_session :: "headers \<Rightarrow> db \<Rightarrow> account_session option result"
  lb_post :: "string \<Rightarrow> headers \<Rightarrow> json \<Rightarrow> db \<Rightarrow> auth_reply outcome"
  lb_sign_out :: "headers \<Rightarrow> db \<Rightarrow> auth_reply outcome"
  lb_outcome :: "string \<Rightarrow> delivery_outcome option"
  lb_budget :: "db \<Rightarrow> int option result"

definition reply_ok :: "auth_reply \<Rightarrow> bool" where
  "reply_ok r \<longleftrightarrow> 200 \<le> ay_status r \<and> ay_status r < 300"

definition with_headers :: "headers \<Rightarrow> http_response \<Rightarrow> http_response" where
  "with_headers hs r = r\<lparr>rs_headers := hs @ rs_headers r\<rparr>"

definition sendAccountAuthResponse :: "auth_reply \<Rightarrow> http_response" where
  "sendAccountAuthResponse r = \<lparr>rs_status = ay_status r,
     rs_headers = ay_headers r @ set_cookies (ay_cookies r), rs_body = ay_body r\<rparr>"

definition forwardAccountAuthHeaders :: "auth_reply \<Rightarrow> headers" where
  "forwardAccountAuthHeaders r = set_cookies (ay_cookies r) @
     filter (\<lambda>(name, v). name \<in> set [''retry-after'', ''x-retry-after'']) (ay_headers r)"

definition retry_header :: "auth_reply \<Rightarrow> string option" where
  "retry_header r = (case map_of (ay_headers r) ''x-retry-after'' of
     None \<Rightarrow> map_of (ay_headers r) ''retry-after'' | Some v \<Rightarrow> Some v)"

text \<open>\<open>Number.parseInt(_, 10) || fallback\<close>, not below zero; \<open>number\<close> is \<open>None\<close> for not-a-number.\<close>

definition retry_seconds :: "(string \<Rightarrow> int option) \<Rightarrow> int \<Rightarrow> auth_reply \<Rightarrow> int" where
  "retry_seconds number fallback r =
     (case retry_header r of
        None \<Rightarrow> fallback
      | Some v \<Rightarrow> max 0 (case number v of None \<Rightarrow> fallback | Some n \<Rightarrow> if n = 0 then fallback else n))"

definition headersWithResponseCookies :: "control_request \<Rightarrow> auth_reply \<Rightarrow> headers" where
  "headersWithResponseCookies rq r =
     (let cookies = filter (\<lambda>c. c \<noteq> []) ((case kq_header ''cookie'' rq of None \<Rightarrow> [] | Some c \<Rightarrow> c) #
            map (\<lambda>c. hd (split_on CHR '';'' c)) (ay_cookies r))
      in if cookies = [] then [] else [(''cookie'', join_with ''; '' cookies)])"

section \<open>Options\<close>

datatype identity_provider = DenyAll | BetterAuthIdentity bool | SessionIdentity | ConsoleIdentity

text \<open>The random values a request draws.\<close>

record control_draws =
  dw_correlation :: "nat \<Rightarrow> string"
  dw_csrf :: string
  dw_token :: string
  dw_request :: string
  dw_secret :: string
  dw_account :: string
  dw_tenant :: string
  dw_delivery :: string
  dw_id :: "string \<Rightarrow> string"
  dw_challenge :: string

record grant_start =
  gs_site :: string
  gs_client :: string
  gs_scopes :: "mcp_scope list"
  gs_key :: string

record started_grant =
  sg_grant :: string
  sg_url :: string
  sg_until :: time

type_synonym pairing_operations =
  "control_draws \<Rightarrow> time \<Rightarrow> tenant_context \<Rightarrow> string \<times> string \<Rightarrow> db \<Rightarrow> (thrown + string) \<times> db"

record grant_operations =
  go_start :: "control_draws \<Rightarrow> time \<Rightarrow> tenant_context \<Rightarrow> grant_start \<Rightarrow> db \<Rightarrow> started_grant outcome"
  go_complete :: "time \<Rightarrow> tenant_context \<Rightarrow> grant_complete \<Rightarrow> db \<Rightarrow> (thrown + unit) \<times> db"

text \<open>
  \<open>co_url\<close> is \<open>new URL(path, base)\<close>, \<open>co_iso\<close> is \<open>toISOString\<close>, \<open>co_instant\<close> the database's reading of a
  time stamp, \<open>co_integer\<close> is \<open>Number.parseInt\<close>, \<open>co_number\<close> the coercion of a query value and
  \<open>co_fixed\<close> is \<open>toFixed(3)\<close>.  A Boolean says that an optional store is present.
\<close>

record control_options =
  co_runtime :: runtime
  co_url :: "string \<Rightarrow> string \<Rightarrow> url option"
  co_iso :: "time \<Rightarrow> string"
  co_instant :: "string \<Rightarrow> time"
  co_integer :: "string \<Rightarrow> int option"
  co_number :: "json \<Rightarrow> int option"
  co_fixed :: "int \<Rightarrow> string"
  co_pages :: page_runtime
  co_assets :: "string \<Rightarrow> string"
  co_origins :: origins
  co_deployment :: deployment_config
  co_report :: "bool \<times> readiness_check list"
  co_token :: "string option"
  co_identity :: identity_provider
  co_console_identity :: "identity_provider option"
  co_accounts :: "account_library option"
  co_login :: bool
  co_console :: bool
  co_workspace :: bool
  co_readiness :: "(db \<Rightarrow> bool) option"
  co_pairing :: "pairing_operations option"
  co_grants :: "grant_operations option"
  co_issuer :: "string option"
  co_bootstrap :: "(string \<Rightarrow> bootstrap_expected \<Rightarrow> time \<Rightarrow> bootstrap_claims result) option"

section \<open>Audit\<close>

definition control_event ::
  "control_options \<Rightarrow> time \<Rightarrow> string \<Rightarrow> audit_outcome \<Rightarrow> string \<Rightarrow> string \<Rightarrow> audit_event" where
  "control_event co now name outcome reason correlation =
     \<lparr>au_occurred = co_iso co now, au_name = name, au_outcome = outcome, au_reason = reason,
      au_correlation = correlation, au_tenant = None, au_site = None, au_client = None, au_grant = None,
      au_actor = None, au_service = ''control-api'', au_version = ''0.5.0'', au_duration = None\<rparr>"

definition tenant_event ::
  "control_options \<Rightarrow> time \<Rightarrow> string \<Rightarrow> audit_outcome \<Rightarrow> string \<Rightarrow> tenant_context \<Rightarrow> audit_event" where
  "tenant_event co now name outcome reason ctx =
     (control_event co now name outcome reason (ctx_correlation ctx))
       \<lparr>au_tenant := Some (ctx_tenant ctx), au_actor := Some (ctx_account ctx)\<rparr>"

definition access_denied :: "control_options \<Rightarrow> time \<Rightarrow> tenant_context \<Rightarrow> audit_event" where
  "access_denied co now ctx = tenant_event co now ''tenant.access_denied'' AuditDenied ''membership_missing'' ctx"

definition safeAudit :: "control_options \<Rightarrow> audit_event \<Rightarrow> unit control" where
  "safeAudit co e s =
     (Inr (), s\<lparr>ks_db := snd (writeEvent (co_runtime co) (co_instant co) (audit_json e) (ks_db s))\<rparr>)"

definition safePairingDiagnostic :: "string \<Rightarrow> diag_stage \<times> diag_code \<Rightarrow> unit control" where
  "safePairingDiagnostic correlation d s = (Inr (), s\<lparr>ks_diagnostics := ks_diagnostics s @ [(correlation, d)]\<rparr>)"

section \<open>Identity\<close>

definition account_session_of :: "control_options \<Rightarrow> headers \<Rightarrow> account_session option control" where
  "account_session_of co hs = (case co_accounts co of
     None \<Rightarrow> throws unavailable_error | Some lb \<Rightarrow> reading (lb_session lb hs))"

definition session_live_at :: "time \<Rightarrow> account_session option \<Rightarrow> bool" where
  "session_live_at now v \<longleftrightarrow> (case v of None \<Rightarrow> False | Some b \<Rightarrow> bs_expires b > now)"

definition principal :: "string \<Rightarrow> int \<Rightarrow> auth_method \<Rightarrow> account_principal option control" where
  "principal account at how =
     proceed (pure_step (thrown_away (parse_account_principal
       \<lparr>pr_account = account, pr_time = at, pr_method = how\<rparr>))) (\<lambda>p. answer (Some p))"

text \<open>\<open>BetterAuthAccountIdentityProvider\<close>, then the two that read a session cookie.\<close>

definition linked_account ::
  "control_draws \<Rightarrow> time \<Rightarrow> bool \<Rightarrow> string \<Rightarrow> auth_link option control" where
  "linked_account dw now provisionMissing user =
     proceed (store (resolveLink user)) (\<lambda>existing.
       case existing of
         Some link \<Rightarrow> answer (Some link)
       | None \<Rightarrow>
           if provisionMissing
           then proceed (store (provision user (dw_account dw) (dw_tenant dw) now)) (\<lambda>link. answer (Some link))
           else answer None)"

definition better_auth_identity ::
  "control_options \<Rightarrow> control_draws \<Rightarrow> time \<Rightarrow> bool \<Rightarrow> control_request \<Rightarrow> account_principal option control" where
  "better_auth_identity co dw now provisionMissing rq =
     proceed (account_session_of co (kq_headers rq)) (\<lambda>session.
       case session of
         None \<Rightarrow> answer None
       | Some b \<Rightarrow>
           if bs_expires b \<le> now then answer None
           else proceed (linked_account dw now provisionMissing (bs_user b)) (\<lambda>link.
             case link of
               None \<Rightarrow> answer None
             | Some l \<Rightarrow>
                 if al_status l \<noteq> TActive then answer None
                 else principal (al_account l) (bs_created b div 1000) EmailOtp))"

definition cookie_identity ::
  "(string \<Rightarrow> db \<Rightarrow> resolved_session option outcome) \<Rightarrow> nat \<Rightarrow> auth_method \<Rightarrow> string option \<Rightarrow>
     account_principal option control" where
  "cookie_identity resolve longest how token =
     (case token of
        None \<Rightarrow> answer None
      | Some t \<Rightarrow>
          if \<not> rx id_class 43 longest t then answer None
          else proceed (store (resolve t)) (\<lambda>session.
            case session of None \<Rightarrow> answer None | Some r \<Rightarrow> principal (rs_account r) (rs_time r) how))"

definition authenticate ::
  "control_options \<Rightarrow> identity_provider \<Rightarrow> control_draws \<Rightarrow> time \<Rightarrow> control_request \<Rightarrow>
     account_principal option control" where
  "authenticate co provider dw now rq =
     (let digest = sha256 (co_runtime co) in
      case provider of
        DenyAll \<Rightarrow> answer None
      | BetterAuthIdentity provisionMissing \<Rightarrow> better_auth_identity co dw now provisionMissing rq
      | SessionIdentity \<Rightarrow>
          cookie_identity (\<lambda>t. resolveSession (digest t) now) 128 Oidc (sessionCookie rq)
      | ConsoleIdentity \<Rightarrow>
          cookie_identity (\<lambda>t. resolveConsoleSession (digest t) now) 43 EmailOtp
            (requestCookie rq CONSOLE_SESSION_COOKIE))"

definition identityProviderFor :: "control_options \<Rightarrow> control_request \<Rightarrow> control_error + identity_provider" where
  "identityProviderFor co rq =
     (if splitOrigins (co_origins co) \<and> requestBoundary (co_origins co) rq = AppBoundary
      then (case co_console_identity co of None \<Rightarrow> Inl unavailable_error | Some p \<Rightarrow> Inr p)
      else Inr (co_identity co))"

definition identify ::
  "control_options \<Rightarrow> control_draws \<Rightarrow> time \<Rightarrow> control_request \<Rightarrow> account_principal option control" where
  "identify co dw now rq =
     proceed (pure_step (identityProviderFor co rq)) (\<lambda>p. authenticate co p dw now rq)"

definition authenticatedPrincipal ::
  "control_options \<Rightarrow> control_draws \<Rightarrow> time \<Rightarrow> control_request \<Rightarrow> account_principal control" where
  "authenticatedPrincipal co dw now rq =
     proceed (identify co dw now rq) (\<lambda>p.
       case p of None \<Rightarrow> throws unauthenticated
       | Some v \<Rightarrow> pure_step (thrown_away (parse_account_principal v)))"

section \<open>Tenant contexts and memberships\<close>

definition tenant_context_of ::
  "control_options \<Rightarrow> string \<Rightarrow> string \<Rightarrow> string \<Rightarrow> tenant_context control" where
  "tenant_context_of co tenant account correlation =
     pure_step (thrown_away (parse_tenant_context (co_runtime co)
       \<lparr>ctx_tenant = tenant, ctx_account = account, ctx_correlation = correlation\<rparr>))"

definition requestContext ::
  "control_options \<Rightarrow> control_draws \<Rightarrow> time \<Rightarrow> control_request \<Rightarrow> string \<Rightarrow> tenant_context control" where
  "requestContext co dw now rq tenant =
     proceed (identify co dw now rq) (\<lambda>p.
       let valid = zod_uuid (co_runtime co) tenant; correlation = dw_correlation dw 0 in
       case p of
         None \<Rightarrow>
           proceed (safeAudit co ((control_event co now ''account.authentication_denied'' AuditDenied
               ''identity_missing'' correlation)\<lparr>au_tenant := if valid then Some tenant else None\<rparr>))
             (\<lambda>_. throws unauthenticated)
       | Some v \<Rightarrow>
           proceed (pure_step (thrown_away (parse_account_principal v))) (\<lambda>identity.
           if \<not> valid then throws invalid_request
           else tenant_context_of co tenant (pr_account identity) correlation))"

definition membershipsFor ::
  "control_options \<Rightarrow> control_draws \<Rightarrow> time \<Rightarrow> control_request \<Rightarrow>
     (account_principal \<times> membership_view list) control" where
  "membershipsFor co dw now rq =
     proceed (authenticatedPrincipal co dw now rq) (\<lambda>p.
       if \<not> co_workspace co then throws unavailable_error
       else proceed (store (listMemberships (pr_account p))) (\<lambda>ms. answer (p, ms)))"

definition login_redirect :: "control_options \<Rightarrow> control_request \<Rightarrow> http_response" where
  "login_redirect co rq =
     (let returnTo = encodeURIComponent (kq_path rq @ kq_search rq) in
      redirect [] ((if splitOrigins (co_origins co) then ''/v1/console/login?return_to=''
                    else ''/v1/account/login?return_to='') @ returnTo))"

definition unauthenticated_error :: "control_error \<Rightarrow> bool" where
  "unauthenticated_error e \<longleftrightarrow> (case e of Platform p \<Rightarrow> pe_code p = Unauthenticated | Unexpected _ \<Rightarrow> False)"

text \<open>A page for a member: a request without identity is answered with the way to sign in.\<close>

definition uiMembershipsFor ::
  "control_options \<Rightarrow> control_draws \<Rightarrow> time \<Rightarrow> control_request \<Rightarrow>
     (http_response + account_principal \<times> membership_view list) control" where
  "uiMembershipsFor co dw now rq =
     rescue (proceed (membershipsFor co dw now rq) (\<lambda>a. answer (Inr a)))
       (\<lambda>e. if unauthenticated_error e then answer (Inl (login_redirect co rq)) else throws e)"

definition ui_page ::
  "control_options \<Rightarrow> control_draws \<Rightarrow> time \<Rightarrow> control_request \<Rightarrow>
     (account_principal \<times> membership_view list \<Rightarrow> http_response control) \<Rightarrow> http_response control" where
  "ui_page co dw now rq f =
     proceed (uiMembershipsFor co dw now rq) (\<lambda>r. case r of Inl login \<Rightarrow> answer login | Inr a \<Rightarrow> f a)"

section \<open>The model of a page\<close>

definition findTenantFor :: "control_options \<Rightarrow> tenant_context \<Rightarrow> tenant_view option control" where
  "findTenantFor co ctx = store (withTenant (co_runtime co) ctx (findTenant (ctx_tenant ctx)))"

definition listSitesFor :: "control_options \<Rightarrow> tenant_context \<Rightarrow> site_view list control" where
  "listSitesFor co ctx = store (withTenant (co_runtime co) ctx listSites)"

definition listGrantsFor :: "control_options \<Rightarrow> tenant_context \<Rightarrow> grant_view list control" where
  "listGrantsFor co ctx = store (withTenant (co_runtime co) ctx listGrants)"

definition listEventsFor ::
  "control_options \<Rightarrow> tenant_context \<Rightarrow> int \<Rightarrow> int \<Rightarrow> audit_outcome option \<Rightarrow> event_view list control" where
  "listEventsFor co ctx limit offset outcome = store (withTenant (co_runtime co) ctx (listEvents limit offset outcome))"

definition revokeGrantFor :: "control_options \<Rightarrow> tenant_context \<Rightarrow> string \<Rightarrow> time \<Rightarrow> bool control" where
  "revokeGrantFor co ctx grantId now =
     store (withTenant (co_runtime co) ctx (revokeGrantView (ctx_tenant ctx) grantId now))"

definition disconnectSiteFor :: "control_options \<Rightarrow> tenant_context \<Rightarrow> string \<Rightarrow> time \<Rightarrow> bool control" where
  "disconnectSiteFor co ctx siteId now =
     store (withTenant (co_runtime co) ctx (disconnectSite (ctx_tenant ctx) siteId now))"

definition tenantPageModel ::
  "control_options \<Rightarrow> control_draws \<Rightarrow> time \<Rightarrow> control_request \<Rightarrow> string \<Rightarrow>
     (int \<times> audit_outcome option) option \<Rightarrow> (tenant_page \<times> string list) control" where
  "tenantPageModel co dw now rq tenant activity =
     proceed (membershipsFor co dw now rq) (\<lambda>(p, memberships).
     if \<not> zod_uuid (co_runtime co) tenant then throws invalid_request
     else given (lookup_by mv_tenant tenant memberships) not_found (\<lambda>membership.
     proceed (tenant_context_of co (mv_tenant membership) (pr_account p) (dw_correlation dw 0)) (\<lambda>ctx.
     proceed (findTenantFor co ctx) (\<lambda>found.
     demand (found \<noteq> None) not_found (
     let (limit, offset, outcome) = (case activity of None \<Rightarrow> (50, 0, None)
           | Some (n, out) \<Rightarrow> (21, (n - 1) * 20, out)) in
     proceed (listSitesFor co ctx) (\<lambda>ss.
     proceed (listGrantsFor co ctx) (\<lambda>gs.
     proceed (listEventsFor co ctx limit offset outcome) (\<lambda>rows.
     let (csrf, cookies) = uiCsrf (dw_csrf dw) rq in
     answer (\<lparr>tp_deployment = co_deployment co, tp_membership = membership, tp_sites = ss, tp_grants = gs,
          tp_events = (if activity = None then rows else take 20 rows), tp_csrf = csrf,
          tp_activity = map_option (\<lambda>(n, out). (n, out, length rows > 20)) activity\<rparr>, cookies)))))))))"

end
