(* ===== verification/Control_Api.thy ===== *)
theory Control_Api
  imports Control_Session
begin

text \<open>
  The routes of the control API (apps/control-api/src/server.ts), one definition per handler, the
  dispatch on method and path, and the hooks around it.  The scripts and the style sheet the service
  sends are the values of \<open>co_assets\<close>.
\<close>

section \<open>Assets, health and metrics\<close>

definition asset :: "control_options \<Rightarrow> string \<Rightarrow> string \<Rightarrow> http_response" where
  "asset co name kind = \<lparr>rs_status = 200,
     rs_headers = [(''cache-control'', ''public, max-age=31536000, immutable''),
       (''x-content-type-options'', ''nosniff''), (''content-type'', kind @ ''; charset=utf-8'')],
     rs_body = co_assets co name\<rparr>"

definition live_answer :: http_response where
  "live_answer = send_json 200 [(''status'', JStr ''live'')]"

definition ready_route :: "control_options \<Rightarrow> http_response control" where
  "ready_route co s = (Inr (case co_readiness co of
       Some ready \<Rightarrow> if ready (ks_db s) then send_json 200 [(''status'', JStr ''ready'')]
         else send_json 503 [(''error'', JStr ''temporarily_unavailable'')]
     | None \<Rightarrow> send_json 503 [(''error'', JStr ''temporarily_unavailable'')]), s)"

definition metrics_route :: "control_options \<Rightarrow> control_request \<Rightarrow> http_response control" where
  "metrics_route co rq s =
     (if \<not> hasOperationsAccess (co_token co) rq then throws not_found s
      else case (case co_accounts co of None \<Rightarrow> Inr None | Some lb \<Rightarrow> lb_budget lb (ks_db s)) of
        Inl e \<Rightarrow> throws unavailable_error s
      | Inr budget \<Rightarrow> answer \<lparr>rs_status = 200,
          rs_headers = [no_store, (''content-type'', ''text/plain; version=0.0.4; charset=utf-8'')],
          rs_body = render_metrics (co_fixed co) budget (ks_metrics s)\<rparr> s)"

section \<open>Pages that start a script\<close>

definition ellipsis :: string where
  "ellipsis = [CHR 0xE2, CHR 0x80, CHR 0xA6]"

definition script_page :: "string \<Rightarrow> string \<Rightarrow> string \<Rightarrow> string \<Rightarrow> string \<Rightarrow> http_response" where
  "script_page title heading message status script = send_html 200 [] (renderInteractionPage
     \<lparr>ip_title = title, ip_heading = heading, ip_message = message,
      ip_content = ''<p id=\"status\" role=\"status\">'' @ status @ ''</p><script src=\"/assets/'' @ script @
        ''\" defer></script>''\<rparr>)"

definition pairing_start_page :: http_response where
  "pairing_start_page = script_page ''WePuu site pairing'' ''Connect this WordPress site.''
     ''Verifying the site proof. WordPress content does not pass through WePuu.''
     (''Verifying the site'' @ ellipsis) ''pairing-v1.js''"

definition consent_complete_page :: http_response where
  "consent_complete_page = script_page ''WePuu consent'' ''Finish WordPress consent.''
     ''The site is confirming the local user and approved scope ceiling.''
     (''Completing consent'' @ ellipsis) ''consent-complete-v2.js''"

definition consent_start_page :: http_response where
  "consent_start_page = script_page ''WePuu authorization setup'' ''Confirm access in WordPress.''
     ''Preparing an exact site and scope binding before OAuth consent.''
     (''Preparing authorization'' @ ellipsis) ''consent-start-v1.js''"

definition session_callback_page :: http_response where
  "session_callback_page = script_page ''WePuu console sign-in'' ''Opening your workspace.''
     ''Completing a one-time secure handoff from the identity service.''
     ''Completing sign-in&hellip;'' ''console-handoff-v1.js''"

section \<open>The handoff to the console\<close>

text \<open>\<open>URLSearchParams.toString\<close>\<close>

definition form_unreserved :: char_class where
  "form_unreserved = [(65, 90), (97, 122), (48, 57), (42, 42), (45, 46), (95, 95)]"

definition form_encode :: "string \<Rightarrow> string" where
  "form_encode s = concat (map (\<lambda>c. if char_in form_unreserved c then [c] else if c = CHR '' '' then ''+''
     else let n = of_char c :: nat in [CHR ''%'', hex_upper (n div 16), hex_upper (n mod 16)]) s)"

definition console_login_route ::
  "control_options \<Rightarrow> control_draws \<Rightarrow> time \<Rightarrow> control_request \<Rightarrow> http_response control" where
  "console_login_route co dw now rq =
     demand (co_console co) unavailable_error (
     given (AccountLoginQuerySchema (kq_query rq)) invalid_request (\<lambda>return_to.
     proceed (pure_step (validatedReturnTo (\<lambda>p. co_url co p ''https://return.invalid'') return_to)) (\<lambda>returnPath.
     demand (starts_with returnPath ''/app'') invalid_request (
     proceed (store (createConsoleLogin (co_runtime co) returnPath (dw_request dw) (dw_secret dw) now)) (\<lambda>t.
     answer (redirect [secureCookie (consoleLoginCookieName (cl_request t)) (cl_browser t) (cookie_age (cl_expires t) now)]
       (og_auth (co_origins co) @ ''/v1/account/console/authorize?request='' @ form_encode (cl_request t))))))))"

definition console_authorize_route ::
  "control_options \<Rightarrow> control_draws \<Rightarrow> time \<Rightarrow> control_request \<Rightarrow> http_response control" where
  "console_authorize_route co dw now rq =
     demand (co_console co \<and> co_accounts co \<noteq> None) unavailable_error (
     given (ConsoleRequestQuerySchema (kq_query rq)) invalid_request (\<lambda>request.
     proceed (account_session_of co (kq_headers rq)) (\<lambda>session.
     case session of
       None \<Rightarrow> answer (redirect [] (''/v1/account/login?return_to='' @
         encodeURIComponent (''/v1/account/console/authorize?request='' @ encodeURIComponent request)))
     | Some b \<Rightarrow>
         if bs_expires b \<le> now
         then answer (redirect [] (''/v1/account/login?return_to='' @
           encodeURIComponent (''/v1/account/console/authorize?request='' @ encodeURIComponent request)))
         else proceed (authenticate co (co_identity co) dw now rq) (\<lambda>p.
           given p forbidden (\<lambda>v.
           proceed (store (authorizeLogin (co_runtime co) request (bs_session b) (pr_account v) (bs_expires b)
               (dw_token dw) now)) (\<lambda>h.
           answer (redirect [] (og_app (co_origins co) @ ''/v1/session/callback#request='' @
             form_encode (ch_request h) @ ''&code='' @ form_encode (ch_code h)))))))))"

definition session_exchange_route ::
  "control_options \<Rightarrow> control_draws \<Rightarrow> time \<Rightarrow> control_request \<Rightarrow> http_response control" where
  "session_exchange_route co dw now rq =
     demand (co_console co \<and> kq_header ''origin'' rq = Some (og_app (co_origins co))) forbidden (
     given (ConsoleExchangeSchema (raw_body rq)) invalid_request (\<lambda>(request, code).
     given (requestCookie rq (consoleLoginCookieName request)) invalid_request (\<lambda>browserSecret.
     rescue (proceed (store (exchangeLogin (co_runtime co) request browserSecret code (dw_token dw) now)) (\<lambda>c.
       answer (with_headers (set_cookies
           [secureCookie CONSOLE_SESSION_COOKIE (cn_token c) (cookie_age (cn_expires c) now),
            clearCookie (consoleLoginCookieName request)])
         (send_json 200 [(''location'', JStr (cn_return c))]))))
       (\<lambda>_. throws invalid_request))))"

definition console_logout_page :: "string \<Rightarrow> string \<Rightarrow> string" where
  "console_logout_page csrf request = renderInteractionPage
     \<lparr>ip_title = ''Sign out of WePuu'', ip_heading = ''Sign out on this browser?'',
      ip_message = ''This ends both the console session and its authoritative identity session.'',
      ip_content = ''<form class=\"auth-form\" method=\"post\" action=\"/v1/account/console/logout\"><input type=\"hidden\" name=\"csrf\" value=\"'' @
        csrf @ ''\"><input type=\"hidden\" name=\"request\" value=\"'' @ request @
        ''\"><button type=\"submit\">Sign out</button></form>''\<rparr>"

definition console_logout_form_route ::
  "control_options \<Rightarrow> control_draws \<Rightarrow> time \<Rightarrow> control_request \<Rightarrow> http_response control" where
  "console_logout_form_route co dw now rq =
     demand (co_console co \<and> co_accounts co \<noteq> None) unavailable_error (
     given (ConsoleRequestQuerySchema (kq_query rq)) invalid_request (\<lambda>request.
     proceed (account_session_of co (kq_headers rq)) (\<lambda>session.
     case session of
       None \<Rightarrow> answer (redirect [] (og_app (co_origins co)))
     | Some b \<Rightarrow>
         proceed (store (validateLogout request (bs_session b) False now)) (\<lambda>_.
         let (csrf, cookies) = uiCsrf (dw_csrf dw) rq in
         answer (send_html 200 cookies (console_logout_page csrf request))))))"

definition sign_out :: "control_options \<Rightarrow> control_request \<Rightarrow> auth_reply control" where
  "sign_out co rq = (case co_accounts co of
     None \<Rightarrow> throws unavailable_error | Some lb \<Rightarrow> store (lb_sign_out lb (kq_headers rq)))"

definition console_logout_route ::
  "control_options \<Rightarrow> time \<Rightarrow> control_request \<Rightarrow> http_response control" where
  "console_logout_route co now rq =
     demand (co_console co \<and> co_accounts co \<noteq> None) unavailable_error (
     proceed (pure_step (validateLoginMutation (co_origins co) ConsoleLogoutSchema rq)) (\<lambda>request.
     proceed (account_session_of co (kq_headers rq)) (\<lambda>session.
     given session unauthenticated (\<lambda>b.
     proceed (store (validateLogout request (bs_session b) True now)) (\<lambda>returnPath.
     proceed (sign_out co rq) (\<lambda>r.
     given (co_url co returnPath (og_app (co_origins co))) (Unexpected ''Invalid URL'') (\<lambda>u.
     answer (redirect (ay_cookies r @ [clearCookie CSRF_COOKIE]) (url_href u)))))))))"

section \<open>Signing in with a code\<close>

definition account_login_route ::
  "control_options \<Rightarrow> control_draws \<Rightarrow> time \<Rightarrow> control_request \<Rightarrow> http_response control" where
  "account_login_route co dw now rq =
     demand (co_accounts co \<noteq> None \<and> co_login co) unavailable_error (
     given (AccountLoginQuerySchema (kq_query rq)) invalid_request (\<lambda>return_to.
     proceed (pure_step (validatedReturnTo (\<lambda>p. co_url co p ''https://return.invalid'') return_to)) (\<lambda>returnTo.
     let (csrf, cookies) = uiCsrf (dw_csrf dw) rq in
     proceed (store (createLogin (co_runtime co) returnTo csrf (dw_token dw) now)) (\<lambda>t.
     proceed (account_session_of co (kq_headers rq)) (\<lambda>session.
     case session of
       None \<Rightarrow> answer (send_html 200 cookies (renderEmailLogin csrf (lg_token t) None))
     | Some b \<Rightarrow>
         if bs_expires b \<le> now then answer (send_html 200 cookies (renderEmailLogin csrf (lg_token t) None))
         else rescue
           (proceed (store (completeLogin (co_runtime co) (lg_token t) csrf (bs_user b) (dw_account dw) (dw_tenant dw) now))
             (\<lambda>c. answer (redirect (if cookies = [] then [csrfCookie csrf] else cookies) (cp_return c))))
           (\<lambda>_. answer (send_html 503 cookies (renderAccountBootstrapRetry csrf (lg_token t)))))))))"

definition account_post_headers :: "control_options \<Rightarrow> control_request \<Rightarrow> string option \<Rightarrow> headers" where
  "account_post_headers co rq deliveryId =
     [(''origin'', og_auth (co_origins co)), (''content-type'', ''application/json''), (''x-wepuu-client-ip'', kq_ip rq)] @
     (case deliveryId of None \<Rightarrow> [] | Some i \<Rightarrow> [(''x-wepuu-delivery-id'', i)]) @
     (case kq_header ''cookie'' rq of None \<Rightarrow> [] | Some c \<Rightarrow> [(''cookie'', c)]) @
     (case kq_header ''user-agent'' rq of None \<Rightarrow> [] | Some a \<Rightarrow> [(''user-agent'', a)])"

definition accountAuthPost ::
  "control_options \<Rightarrow> control_request \<Rightarrow> string \<Rightarrow> json_object \<Rightarrow> string option \<Rightarrow> auth_reply control" where
  "accountAuthPost co rq path body deliveryId = (case co_accounts co of
     None \<Rightarrow> throws unavailable_error
   | Some lb \<Rightarrow> store (lb_post lb (og_auth (co_origins co) @ ''/api/auth'' @ path)
       (account_post_headers co rq deliveryId) (JObj body)))"

text \<open>What is answered for what Better Auth replied and what became of the mail.\<close>

definition send_code_answer ::
  "control_options \<Rightarrow> control_request \<Rightarrow> login_form \<Rightarrow> string \<Rightarrow> auth_reply \<Rightarrow> delivery_outcome option \<Rightarrow> http_response" where
  "send_code_answer co rq form email r outcome =
     (let page = renderEmailVerification (lf_csrf form) (lf_transaction form) email in
      with_headers (forwardAccountAuthHeaders r)
       (if ay_status r = 429 then send_html 429 []
          (page Unknown (Some ''Please wait before requesting another code.'')
            (Some (retry_seconds (co_integer co) 60 r)))
        else if outcome = Some Rejected then send_html 503 []
          (page Rejected (Some ''We could not send a code right now.'') None)
        else if ay_status r = 503 \<and> outcome = None then send_html 503 []
          (page Unknown (Some ''Code sending is temporarily unavailable. You can still enter a valid code you already received.'') None)
        else (case (reply_ok r, outcome) of
          (True, Some Unknown) \<Rightarrow> send_html 202 [] (page Unknown None None)
        | (True, Some _) \<Rightarrow> send_html 200 [] (page Accepted None None)
        | _ \<Rightarrow> answer_error rq unavailable_error)))"

definition send_email_code_route ::
  "control_options \<Rightarrow> control_draws \<Rightarrow> time \<Rightarrow> control_request \<Rightarrow> http_response control" where
  "send_email_code_route co dw now rq =
     (case co_accounts co of
        None \<Rightarrow> throws unavailable_error
      | Some lb \<Rightarrow>
          demand (co_login co) unavailable_error (
          proceed (pure_step (validateLoginMutation (co_origins co) EmailSendFormSchema rq)) (\<lambda>(form, input).
          case normalizeAccountEmail (co_runtime co) input of
            Inl _ \<Rightarrow> answer (send_html 400 [] (renderEmailLogin (lf_csrf form) (lf_transaction form)
              (Some ''Enter a valid email address.'')))
          | Inr email \<Rightarrow>
              proceed (store (bindEmail (co_runtime co) (lf_transaction form) (lf_csrf form) email now)) (\<lambda>_.
              proceed (accountAuthPost co rq ''/email-otp/send-verification-otp''
                [(''email'', JStr email), (''type'', JStr ''sign-in'')] (Some (dw_delivery dw))) (\<lambda>r.
              answer (send_code_answer co rq form email r (lb_outcome lb (dw_delivery dw))))))))"

definition change_email_route ::
  "control_options \<Rightarrow> control_draws \<Rightarrow> time \<Rightarrow> control_request \<Rightarrow> http_response control" where
  "change_email_route co dw now rq =
     demand (co_login co) unavailable_error (
     proceed (pure_step (validateLoginMutation (co_origins co) LoginMutationBaseSchema rq)) (\<lambda>form.
     proceed (store (restartLogin (co_runtime co) (lf_transaction form) (lf_csrf form) (dw_token dw) now)) (\<lambda>t.
     answer (send_html 200 [] (renderEmailLogin (lf_csrf form) (lg_token t) None)))))"

definition complete_login_step ::
  "control_options \<Rightarrow> control_draws \<Rightarrow> time \<Rightarrow> login_form \<Rightarrow> headers \<Rightarrow> string control" where
  "complete_login_step co dw now form hs =
     demand (co_accounts co \<noteq> None \<and> co_login co) unavailable_error (
     proceed (account_session_of co hs) (\<lambda>session.
     given session unauthenticated (\<lambda>b.
     demand (\<not> bs_expires b \<le> now) unauthenticated (
     proceed (store (completeLogin (co_runtime co) (lf_transaction form) (lf_csrf form) (bs_user b)
         (dw_account dw) (dw_tenant dw) now)) (\<lambda>c.
     demand (cp_status c = TActive) forbidden (answer (cp_return c)))))))"

definition complete_or_retry ::
  "control_options \<Rightarrow> control_draws \<Rightarrow> time \<Rightarrow> login_form \<Rightarrow> headers \<Rightarrow> headers \<Rightarrow> http_response control" where
  "complete_or_retry co dw now form hs forwarded =
     rescue (proceed (complete_login_step co dw now form hs)
         (\<lambda>returnPath. answer (with_headers forwarded (redirect [] returnPath))))
       (\<lambda>_. answer (with_headers forwarded
         (send_html 503 [] (renderAccountBootstrapRetry (lf_csrf form) (lf_transaction form)))))"

definition refused_code_answer ::
  "control_options \<Rightarrow> login_form \<Rightarrow> string \<Rightarrow> auth_reply \<Rightarrow> http_response" where
  "refused_code_answer co form email r =
     (let retryAfter = retry_seconds (co_integer co) 0 r; limited = ay_status r = 429 in
      with_headers (forwardAccountAuthHeaders r) (send_html (if limited then 429 else 400) []
        (renderEmailVerification (lf_csrf form) (lf_transaction form) email Accepted
          (Some (if limited then ''Too many verification attempts. Please wait and try again.''
            else ''The code is invalid or expired. Request a new code if needed.''))
          (if retryAfter = 0 then None else Some retryAfter))))"

definition verify_email_route ::
  "control_options \<Rightarrow> control_draws \<Rightarrow> time \<Rightarrow> control_request \<Rightarrow> http_response control" where
  "verify_email_route co dw now rq =
     demand (co_accounts co \<noteq> None \<and> co_login co) unavailable_error (
     proceed (pure_step (validateLoginMutation (co_origins co) EmailVerifyFormSchema rq)) (\<lambda>(form, input, otp).
     case normalizeAccountEmail (co_runtime co) input of
       Inl _ \<Rightarrow> throws invalid_request
     | Inr email \<Rightarrow>
         proceed (store (bindEmail (co_runtime co) (lf_transaction form) (lf_csrf form) email now)) (\<lambda>_.
         proceed (account_session_of co (kq_headers rq)) (\<lambda>current.
         if session_live_at now current
         then proceed (complete_login_step co dw now form (kq_headers rq)) (\<lambda>returnPath. answer (redirect [] returnPath))
         else proceed (accountAuthPost co rq ''/sign-in/email-otp'' [(''email'', JStr email), (''otp'', JStr otp)] None) (\<lambda>r.
           if \<not> reply_ok r then answer (refused_code_answer co form email r)
           else complete_or_retry co dw now form (headersWithResponseCookies rq r) (forwardAccountAuthHeaders r))))))"

definition bootstrap_route ::
  "control_options \<Rightarrow> control_draws \<Rightarrow> time \<Rightarrow> control_request \<Rightarrow> http_response control" where
  "bootstrap_route co dw now rq =
     proceed (pure_step (validateLoginMutation (co_origins co) LoginMutationBaseSchema rq)) (\<lambda>form.
       complete_or_retry co dw now form (kq_headers rq) [])"

section \<open>Accounts\<close>

text \<open>The views as \<open>JSON.stringify\<close> writes them.\<close>

definition membership_json :: "(time \<Rightarrow> string) \<Rightarrow> membership_view \<Rightarrow> json" where
  "membership_json stamp m = JObj [(''tenantId'', JStr (mv_tenant m)), (''role'', JStr (member_role_text (mv_role m))),
     (''status'', JStr ''active''), (''createdAt'', JStr (stamp (mv_created m))), (''isHome'', JBool (mv_home m))]"

definition tenant_status_text :: "tenant_status \<Rightarrow> string" where
  "tenant_status_text s = (case s of TActive \<Rightarrow> ''active'' | TSuspended \<Rightarrow> ''suspended'' | TDeleted \<Rightarrow> ''deleted'')"

definition tenant_json :: "(time \<Rightarrow> string) \<Rightarrow> tenant_view \<Rightarrow> json" where
  "tenant_json stamp t = JObj [(''id'', JStr (tv_id t)), (''status'', JStr (tenant_status_text (tv_status t))),
     (''createdAt'', JStr (stamp (tv_created t)))]"

definition site_json :: "(time \<Rightarrow> string) \<Rightarrow> site_view \<Rightarrow> json" where
  "site_json stamp v = JObj [(''tenantId'', JStr (sv_tenant v)), (''id'', JStr (sv_id v)),
     (''resource'', JStr (sv_resource v)), (''displayHostname'', JStr (sv_hostname v)),
     (''status'', JStr (site_status_text (sv_status v))), (''protocolVersion'', JStr ''1''),
     (''createdAt'', JStr (stamp (sv_created v)))]"

definition grant_json :: "(time \<Rightarrow> string) \<Rightarrow> grant_view \<Rightarrow> json" where
  "grant_json stamp g = JObj [(''tenantId'', JStr (gv_tenant g)), (''id'', JStr (gv_id g)), (''siteId'', JStr (gv_site g)),
     (''subjectId'', JStr (gv_subject g)), (''clientId'', JStr (gv_client g)), (''scopes'', scopes_json (gv_scopes g)),
     (''status'', JStr (grant_status_text (gv_status g))), (''consentVersion'', JStr (gv_version g)),
     (''createdAt'', JStr (stamp (gv_created g)))]"

definition event_json :: "(time \<Rightarrow> string) \<Rightarrow> event_view \<Rightarrow> json" where
  "event_json stamp e = JObj [(''id'', JStr (show_nat (vw_id e))), (''occurredAt'', JStr (stamp (vw_occurred e))),
     (''eventName'', JStr (vw_name e)), (''outcome'', JStr (outcome_name (vw_outcome e))),
     (''reason'', JStr (vw_reason e)), (''correlationId'', JStr (vw_correlation e)), (''service'', JStr (vw_service e))]"

definition readiness_id_text :: "readiness_id \<Rightarrow> string" where
  "readiness_id_text i = (case i of CheckRelease \<Rightarrow> ''release'' | CheckLegal \<Rightarrow> ''legal'' | CheckIdentity \<Rightarrow> ''identity''
     | CheckResidency \<Rightarrow> ''residency'' | CheckProxy \<Rightarrow> ''proxy'' | CheckSigning \<Rightarrow> ''signing'')"

definition check_json :: "readiness_check \<Rightarrow> json" where
  "check_json k = JObj [(''id'', JStr (readiness_id_text (rc_id k))), (''label'', JStr (rc_label k)),
     (''status'', JStr (check_status k)), (''detail'', JStr (rc_detail k))]"

definition account_session_route ::
  "control_options \<Rightarrow> control_draws \<Rightarrow> time \<Rightarrow> control_request \<Rightarrow> http_response control" where
  "account_session_route co dw now rq =
     proceed (identify co dw now rq) (\<lambda>p.
       answer (case p of None \<Rightarrow> send_json 401 [(''error'', JStr ''unauthenticated'')]
         | Some _ \<Rightarrow> send_json 200 [(''authenticated'', JBool True)]))"

definition account_tenants_route ::
  "control_options \<Rightarrow> control_draws \<Rightarrow> time \<Rightarrow> control_request \<Rightarrow> http_response control" where
  "account_tenants_route co dw now rq =
     proceed (membershipsFor co dw now rq) (\<lambda>(p, ms).
       answer (send_json 200 [(''tenants'', JArr (map (membership_json (co_iso co)) ms))]))"

definition account_logout_route :: "control_options \<Rightarrow> control_request \<Rightarrow> http_response control" where
  "account_logout_route co rq =
     demand (co_accounts co \<noteq> None) unavailable_error (
     demand (kq_header ''origin'' rq = Some (og_auth (co_origins co))) forbidden (
     proceed (sign_out co rq) (\<lambda>r. answer (sendAccountAuthResponse r))))"

definition root_route :: "control_options \<Rightarrow> control_request \<Rightarrow> http_response control" where
  "root_route co rq = answer (redirect []
     (if requestBoundary (co_origins co) rq = AuthBoundary \<and> splitOrigins (co_origins co)
      then og_app (co_origins co) else ''/app''))"

definition deployment_readiness_route ::
  "control_options \<Rightarrow> control_draws \<Rightarrow> time \<Rightarrow> control_request \<Rightarrow> http_response control" where
  "deployment_readiness_route co dw now rq =
     proceed (authenticatedPrincipal co dw now rq) (\<lambda>_. answer (send_json 200
       [(''ready'', JBool (fst (co_report co))), (''checks'', JArr (map check_json (snd (co_report co))))]))"

section \<open>The console\<close>

definition home_workspace :: "membership_view list \<Rightarrow> membership_view option" where
  "home_workspace ms = (case first_row (filter mv_home ms) of None \<Rightarrow> first_row ms | Some m \<Rightarrow> Some m)"

definition workspaces_of ::
  "control_options \<Rightarrow> control_draws \<Rightarrow> time \<Rightarrow> account_principal \<Rightarrow> membership_view list \<Rightarrow> membership_view list control" where
  "workspaces_of co dw now p ms =
     (if ms \<noteq> [] then answer ms
      else demand (co_workspace co) unavailable_error (
        proceed (store (ensurePersonalWorkspace (pr_account p) (dw_tenant dw) now)) (\<lambda>_.
        store (listMemberships (pr_account p)))))"

definition app_route ::
  "control_options \<Rightarrow> control_draws \<Rightarrow> time \<Rightarrow> control_request \<Rightarrow> http_response control" where
  "app_route co dw now rq =
     ui_page co dw now rq (\<lambda>(p, ms).
     proceed (workspaces_of co dw now p ms) (\<lambda>ms'.
     given (home_workspace ms') unavailable_error (\<lambda>target.
     answer (redirect [] (''/app/tenants/'' @ encodeURIComponent (mv_tenant target))))))"

definition tenant_page_route ::
  "control_options \<Rightarrow> control_draws \<Rightarrow> time \<Rightarrow> control_request \<Rightarrow> string \<Rightarrow> (page_runtime \<Rightarrow> tenant_page \<Rightarrow> string) \<Rightarrow>
     http_response control" where
  "tenant_page_route co dw now rq tenant renderer =
     ui_page co dw now rq (\<lambda>_.
     proceed (tenantPageModel co dw now rq tenant None) (\<lambda>(m, cookies).
     answer (send_html 200 cookies (renderer (co_pages co) m))))"

definition activity_route ::
  "control_options \<Rightarrow> control_draws \<Rightarrow> time \<Rightarrow> control_request \<Rightarrow> string \<Rightarrow> http_response control" where
  "activity_route co dw now rq tenant =
     ui_page co dw now rq (\<lambda>_.
     given (ActivityQuerySchema (co_number co) (kq_query rq)) invalid_request (\<lambda>activity.
     proceed (tenantPageModel co dw now rq tenant (Some activity)) (\<lambda>(m, cookies).
     answer (send_html 200 cookies (renderActivity (co_pages co) m)))))"

text \<open>\<open>ObjectParamsSchema\<close>\<close>

definition object_params :: "control_options \<Rightarrow> string \<Rightarrow> string \<Rightarrow> bool" where
  "object_params co tenant object \<longleftrightarrow> zod_uuid (co_runtime co) tenant \<and> opaque_id object"

definition detail_route ::
  "control_options \<Rightarrow> control_draws \<Rightarrow> time \<Rightarrow> control_request \<Rightarrow> string \<Rightarrow> string \<Rightarrow>
     (tenant_page \<Rightarrow> string list) \<Rightarrow> (page_runtime \<Rightarrow> tenant_page \<Rightarrow> string \<Rightarrow> string result) \<Rightarrow> http_response control" where
  "detail_route co dw now rq tenant object objects renderer =
     ui_page co dw now rq (\<lambda>_.
     demand (object_params co tenant object) invalid_request (
     proceed (tenantPageModel co dw now rq tenant None) (\<lambda>(m, cookies).
     demand (object \<in> set (objects m)) not_found (
     proceed (pure_step (thrown_away (renderer (co_pages co) m object))) (\<lambda>page.
     answer (send_html 200 cookies page))))))"

definition account_page_route ::
  "control_options \<Rightarrow> control_draws \<Rightarrow> time \<Rightarrow> control_request \<Rightarrow> http_response control" where
  "account_page_route co dw now rq =
     ui_page co dw now rq (\<lambda>(p, ms).
     let (csrf, cookies) = uiCsrf (dw_csrf dw) rq in
     answer (send_html 200 cookies (renderAccount (co_pages co) (co_deployment co) ms csrf)))"

definition static_page_route ::
  "control_options \<Rightarrow> control_draws \<Rightarrow> time \<Rightarrow> control_request \<Rightarrow> string \<Rightarrow> http_response control" where
  "static_page_route co dw now rq page = ui_page co dw now rq (\<lambda>_. answer (send_html 200 [] page))"

definition app_logout_route ::
  "control_options \<Rightarrow> control_draws \<Rightarrow> time \<Rightarrow> control_request \<Rightarrow> http_response control" where
  "app_logout_route co dw now rq =
     proceed (pure_step (validateUiMutation (co_origins co) rq)) (\<lambda>_.
     if splitOrigins (co_origins co) then
       demand (co_console co) unavailable_error (
       given (requestCookie rq CONSOLE_SESSION_COOKIE) unauthenticated (\<lambda>token.
       proceed (store (beginLogout (sha256 (co_runtime co) token) ''/app'' (dw_request dw) (dw_secret dw) now)) (\<lambda>request.
       answer (redirect [clearCookie CONSOLE_SESSION_COOKIE, clearCookie CSRF_COOKIE]
         (og_auth (co_origins co) @ ''/v1/account/console/logout?request='' @ form_encode request)))))
     else proceed (sign_out co rq) (\<lambda>r. answer (redirect (ay_cookies r @ [clearCookie CSRF_COOKIE]) ''/app'')))"

text \<open>The two mutations of the pages; \<open>act\<close> is \<open>revokeGrant\<close> or \<open>disconnectSite\<close>.\<close>

definition ui_mutation_route ::
  "control_options \<Rightarrow> control_draws \<Rightarrow> time \<Rightarrow> control_request \<Rightarrow> string \<Rightarrow> string \<Rightarrow>
     (tenant_context \<Rightarrow> string \<Rightarrow> time \<Rightarrow> bool control) \<Rightarrow> string \<Rightarrow> http_response control" where
  "ui_mutation_route co dw now rq tenant object act back =
     proceed (pure_step (validateUiMutation (co_origins co) rq)) (\<lambda>_.
     proceed (requestContext co dw now rq tenant) (\<lambda>ctx.
     demand (object_params co tenant object) invalid_request (
     proceed (act ctx object now) (\<lambda>_.
     answer (redirect [] (''/app/tenants/'' @ encodeURIComponent (ctx_tenant ctx) @ back))))))"

section \<open>Tenants, sites and grants\<close>

definition tenant_route ::
  "control_options \<Rightarrow> control_draws \<Rightarrow> time \<Rightarrow> control_request \<Rightarrow> string \<Rightarrow> http_response control" where
  "tenant_route co dw now rq tenant =
     proceed (requestContext co dw now rq tenant) (\<lambda>ctx.
     proceed (findTenantFor co ctx) (\<lambda>found.
     case found of
       None \<Rightarrow> proceed (safeAudit co (access_denied co now ctx)) (\<lambda>_. throws not_found)
     | Some t \<Rightarrow> answer (send_json 200 [(''tenant'', tenant_json (co_iso co) t)])))"

definition list_route ::
  "control_options \<Rightarrow> control_draws \<Rightarrow> time \<Rightarrow> control_request \<Rightarrow> string \<Rightarrow> (tenant_context \<Rightarrow> json list control) \<Rightarrow>
     string \<Rightarrow> http_response control" where
  "list_route co dw now rq tenant rows name =
     proceed (requestContext co dw now rq tenant) (\<lambda>ctx.
     proceed (rows ctx) (\<lambda>js. answer (send_json 200 [(name, JArr js)])))"

definition site_rows :: "control_options \<Rightarrow> tenant_context \<Rightarrow> json list control" where
  "site_rows co ctx = proceed (listSitesFor co ctx) (\<lambda>vs. answer (map (site_json (co_iso co)) vs))"

definition grant_rows :: "control_options \<Rightarrow> tenant_context \<Rightarrow> json list control" where
  "grant_rows co ctx = proceed (listGrantsFor co ctx) (\<lambda>vs. answer (map (grant_json (co_iso co)) vs))"

definition event_rows :: "control_options \<Rightarrow> tenant_context \<Rightarrow> json list control" where
  "event_rows co ctx = proceed (listEventsFor co ctx 50 0 None) (\<lambda>vs. answer (map (event_json (co_iso co)) vs))"

definition idempotency_header :: "control_request \<Rightarrow> string option" where
  "idempotency_header rq = IdempotencyKeySchema (map_option JStr (kq_header ''idempotency-key'' rq))"

definition api_mutation_route ::
  "control_options \<Rightarrow> control_draws \<Rightarrow> time \<Rightarrow> control_request \<Rightarrow> string \<Rightarrow> string \<Rightarrow>
     (tenant_context \<Rightarrow> string \<Rightarrow> time \<Rightarrow> bool control) \<Rightarrow> http_response control" where
  "api_mutation_route co dw now rq tenant object act =
     demand (kq_header ''origin'' rq = Some (og_app (co_origins co))) forbidden (
     proceed (requestContext co dw now rq tenant) (\<lambda>ctx.
     demand (object_params co tenant object \<and>
         idempotency_header rq \<noteq> None) invalid_request (
     proceed (act ctx object now) (\<lambda>_.
     answer \<lparr>rs_status = 204, rs_headers = [no_store], rs_body = []\<rparr>))))"

section \<open>Pairing and consent\<close>

definition pairing_refused :: "control_options \<Rightarrow> time \<Rightarrow> tenant_context \<Rightarrow> http_response control" where
  "pairing_refused co now ctx =
     proceed (safePairingDiagnostic (ctx_correlation ctx) (StageState, TenantAccessDenied)) (\<lambda>_.
     proceed (safeAudit co (access_denied co now ctx)) (\<lambda>_. throws invalid_request))"

definition pairing_outcome ::
  "control_options \<Rightarrow> time \<Rightarrow> tenant_context \<Rightarrow> thrown + string \<Rightarrow> http_response control" where
  "pairing_outcome co now ctx r = (case r of
     Inr siteId \<Rightarrow>
       proceed (safeAudit co ((tenant_event co now ''pairing.verified'' AuditSuccess ''none'' ctx)
           \<lparr>au_site := Some siteId\<rparr>)) (\<lambda>_.
       answer (send_json 200 [(''site_id'', JStr siteId), (''status'', JStr ''active'')]))
   | Inl e \<Rightarrow>
       proceed (safePairingDiagnostic (ctx_correlation ctx) (pairingDiagnostic e)) (\<lambda>_.
       proceed (safeAudit co (tenant_event co now ''pairing.denied'' AuditDenied ''proof_invalid'' ctx))
         (\<lambda>_. throws invalid_request)))"

definition attempt :: "(db \<Rightarrow> 'r \<times> db) \<Rightarrow> 'r control" where
  "attempt op s = (case op (ks_db s) of (r, d) \<Rightarrow> (Inr r, s\<lparr>ks_db := d\<rparr>))"

definition pairing_route ::
  "control_options \<Rightarrow> control_draws \<Rightarrow> time \<Rightarrow> control_request \<Rightarrow> string \<Rightarrow> http_response control" where
  "pairing_route co dw now rq tenant =
     demand (co_workspace co) unavailable_error (
     given (co_pairing co) unavailable_error (\<lambda>pair.
     demand (kq_header ''origin'' rq = Some (og_auth (co_origins co))) forbidden (
     proceed (requestContext co dw now rq tenant) (\<lambda>ctx.
     given (PairingBodySchema (raw_body rq)) invalid_request (\<lambda>body.
     proceed (store (listMemberships (ctx_account ctx))) (\<lambda>ms.
     case lookup_by mv_tenant (ctx_tenant ctx) ms of
       None \<Rightarrow> pairing_refused co now ctx
     | Some m \<Rightarrow>
         if mv_role m \<noteq> Owner \<and> mv_role m \<noteq> Administrator then pairing_refused co now ctx
         else proceed (attempt (pair dw now ctx body)) (pairing_outcome co now ctx)))))))"

text \<open>\<open>OAuthConsentBootstrapClaimsSchema\<close>: the claims with their scopes parsed.\<close>

definition OAuthConsentBootstrapClaimsSchema ::
  "runtime \<Rightarrow> bootstrap_claims \<Rightarrow> (bootstrap_claims \<times> mcp_scope list) option" where
  "OAuthConsentBootstrapClaimsSchema rt c =
     (if rx id_class 8 256 (bc_uid c) \<and> oauth_client_id (bc_client c) \<and> canonical_resource rt (bc_resource c) \<and>
         opaque_id (bc_subject c) \<and> rx id_class 32 32 (bc_jti c)
      then map_option (\<lambda>scopes. (c, scopes)) (parse_scope_set (bc_scopes c)) else None)"

definition bootstrap_claims_of ::
  "control_options \<Rightarrow> time \<Rightarrow> string \<Rightarrow> string \<Rightarrow> (bootstrap_claims \<times> mcp_scope list) option" where
  "bootstrap_claims_of co now request account =
     (case (co_bootstrap co, co_issuer co) of
        (Some verify, Some issuer) \<Rightarrow>
          (case verify request \<lparr>be_issuer = issuer,
              be_audience = og_auth (co_origins co) @ ''/v1/oauth/consent/start'', be_subject = account\<rparr> now of
             Inl _ \<Rightarrow> None | Inr c \<Rightarrow> OAuthConsentBootstrapClaimsSchema (co_runtime co) c)
      | _ \<Rightarrow> None)"

text \<open>The active sites of the resource in all workspaces of the account.\<close>

primrec matching_sites ::
  "control_options \<Rightarrow> control_draws \<Rightarrow> string \<Rightarrow> string \<Rightarrow> nat \<Rightarrow> membership_view list \<Rightarrow>
     (tenant_context \<times> site_view) list control" where
  "matching_sites co dw account resource i [] = answer []"
| "matching_sites co dw account resource i (m # ms) =
     proceed (tenant_context_of co (mv_tenant m) account (dw_correlation dw i)) (\<lambda>ctx.
     proceed (listSitesFor co ctx) (\<lambda>ss.
     proceed (matching_sites co dw account resource (Suc i) ms) (\<lambda>rest.
     answer (map (\<lambda>v. (ctx, v)) (filter (\<lambda>v. sv_status v = SiteActive \<and> sv_resource v = resource) ss) @ rest))))"

definition start_grant ::
  "control_options \<Rightarrow> control_draws \<Rightarrow> time \<Rightarrow> tenant_context \<Rightarrow> grant_start \<Rightarrow>
     (started_grant \<Rightarrow> http_response) \<Rightarrow> http_response control" where
  "start_grant co dw now ctx q answered =
     (case co_grants co of
        None \<Rightarrow> throws unavailable_error
      | Some ops \<Rightarrow>
          rescue (proceed (store (go_start ops dw now ctx q)) (\<lambda>r.
            proceed (safeAudit co ((tenant_event co now ''grant.created'' AuditSuccess ''none'' ctx)
              \<lparr>au_site := Some (gs_site q), au_client := Some (gs_client q), au_grant := Some (sg_grant r)\<rparr>))
            (\<lambda>_. answer (answered r)))) (\<lambda>_. throws invalid_request))"

definition consent_key :: "control_options \<Rightarrow> string \<Rightarrow> string \<Rightarrow> string" where
  "consent_key co account uid =
     ''oauth_'' @ base64url (co_runtime co) (sha256 (co_runtime co) (account @ [CHR 0x00] @ uid))"

definition consent_started :: "control_options \<Rightarrow> string \<Rightarrow> started_grant \<Rightarrow> http_response" where
  "consent_started co uid r = send_json 201 [(''consent_url'', JStr (sg_url r)),
     (''expires_at'', JStr (co_iso co (sg_until r))), (''return_path'', JStr (''/interaction/'' @ uid))]"

definition consent_start_route ::
  "control_options \<Rightarrow> control_draws \<Rightarrow> time \<Rightarrow> control_request \<Rightarrow> http_response control" where
  "consent_start_route co dw now rq =
     demand (co_grants co \<noteq> None \<and> co_issuer co \<noteq> None \<and> co_bootstrap co \<noteq> None) unavailable_error (
     demand (kq_header ''origin'' rq = Some (og_auth (co_origins co))) forbidden (
     given (OAuthConsentStartBodySchema (raw_body rq)) invalid_request (\<lambda>request.
     proceed (membershipsFor co dw now rq) (\<lambda>(p, ms).
     given (bootstrap_claims_of co now request (pr_account p)) invalid_request (\<lambda>(c, scopes).
     proceed (matching_sites co dw (pr_account p) (bc_resource c) 0 ms) (\<lambda>matches.
     case matches of
       [(ctx, site)] \<Rightarrow>
         start_grant co dw now ctx \<lparr>gs_site = sv_id site, gs_client = bc_client c, gs_scopes = scopes,
           gs_key = consent_key co (pr_account p) (bc_uid c)\<rparr> (consent_started co (bc_uid c))
     | _ \<Rightarrow> throws invalid_request))))))"

definition grant_started :: "control_options \<Rightarrow> started_grant \<Rightarrow> http_response" where
  "grant_started co r = send_json 201 [(''grant_id'', JStr (sg_grant r)), (''consent_url'', JStr (sg_url r)),
     (''expires_at'', JStr (co_iso co (sg_until r)))]"

definition grant_start_route ::
  "control_options \<Rightarrow> control_draws \<Rightarrow> time \<Rightarrow> control_request \<Rightarrow> string \<Rightarrow> string \<Rightarrow> http_response control" where
  "grant_start_route co dw now rq tenant site =
     (let og = co_origins co in
      demand (co_grants co \<noteq> None) unavailable_error (
      demand (kq_header ''origin'' rq = Some (if requestBoundary og rq = AppBoundary then og_app og else og_auth og)) forbidden (
      proceed (requestContext co dw now rq tenant) (\<lambda>ctx.
      demand (object_params co tenant site) invalid_request (
      given (GrantStartBodySchema (raw_body rq)) invalid_request (\<lambda>(client, scopes).
      given (idempotency_header rq) invalid_request (\<lambda>key.
      start_grant co dw now ctx \<lparr>gs_site = site, gs_client = client, gs_scopes = scopes, gs_key = key\<rparr>
        (grant_started co))))))))"

definition completion_event ::
  "control_options \<Rightarrow> time \<Rightarrow> tenant_context \<Rightarrow> string \<Rightarrow> bool \<Rightarrow> audit_event" where
  "completion_event co now ctx grant approved =
     (if approved then tenant_event co now ''grant.created'' AuditSuccess ''none'' ctx
      else tenant_event co now ''grant.revoked'' AuditDenied ''consent_denied'' ctx)\<lparr>au_grant := Some grant\<rparr>"

definition grant_complete_route ::
  "control_options \<Rightarrow> control_draws \<Rightarrow> time \<Rightarrow> control_request \<Rightarrow> string \<Rightarrow> string \<Rightarrow> http_response control" where
  "grant_complete_route co dw now rq tenant grant =
     given (co_grants co) unavailable_error (\<lambda>ops.
     demand (kq_header ''origin'' rq = Some (og_auth (co_origins co))) forbidden (
     proceed (requestContext co dw now rq tenant) (\<lambda>ctx.
     demand (object_params co tenant grant) invalid_request (
     given (GrantCompletionBodySchema (raw_body rq)) invalid_request (\<lambda>(proof, challenge, approved).
     given (idempotency_header rq) invalid_request (\<lambda>key.
     proceed (attempt (go_complete ops now ctx \<lparr>gc_tenant = ctx_tenant ctx, gc_grant = grant, gc_proof = proof,
         gc_challenge = challenge, gc_decision = (if approved then Approved else DeniedDecision), gc_key = key\<rparr>)) (\<lambda>r.
     case r of
       Inl _ \<Rightarrow> throws invalid_request
     | Inr _ \<Rightarrow> proceed (safeAudit co (completion_event co now ctx grant approved)) (\<lambda>_.
         answer \<lparr>rs_status = 204, rs_headers = [no_store], rs_body = []\<rparr>))))))))"

end
