(* ===== verification/Control_Dispatch.thy ===== *)
theory Control_Dispatch
  imports Control_Api
begin

text \<open>
  \<open>buildControlApi\<close> as a whole (apps/control-api/src/server.ts): the table of its routes, the handler
  each of them has, and the life of a request: the hook before the handlers, the handler, the answer to
  what it throws, and the counters.  The requests that Fastify answers without a handler (a body too
  large or not of a known type, and \<open>HEAD\<close>) are not modelled.
\<close>

section \<open>Routes\<close>

datatype control_route =
    AssetRoute string string
  | LiveRoute | ReadyRoute | MetricsRoute
  | PairingStartPage | ConsentCompletePage | ConsentStartPage
  | ConsoleLogin | ConsoleAuthorize | SessionCallback | SessionExchange | ConsoleLogoutForm | ConsoleLogout
  | AccountLogin | SendCode | ChangeEmail | VerifyEmail | AccountBootstrap
  | AccountSession | AccountTenants | AccountLogout | DeploymentReadiness
  | RootRoute | AppHome | AccountPage | CompatibilityPage | ReadinessPage | AppLogout
  | OverviewPage string | SitesPage string | GrantsPage string | ActivityPage string
  | SitePage string string | GrantPage string string
  | UiRevoke string string | UiDisconnect string string
  | GetTenant string | TenantEvents string | TenantSites string | TenantGrants string
  | PairSite string | OAuthConsentStart | StartGrant string string | CompleteGrant string string
  | ApiRevoke string string | ApiDisconnect string string
  | NoRoute

definition get_routes :: "(string \<times> control_route) list" where
  "get_routes =
     [(''/assets/wepuu-v1.css'', AssetRoute ''wepuu-v1.css'' ''text/css''),
      (''/assets/pairing-v1.js'', AssetRoute ''pairing-v1.js'' ''text/javascript''),
      (''/assets/consent-complete-v1.js'', AssetRoute ''consent-complete-v1.js'' ''text/javascript''),
      (''/assets/consent-complete-v2.js'', AssetRoute ''consent-complete-v2.js'' ''text/javascript''),
      (''/assets/consent-start-v1.js'', AssetRoute ''consent-start-v1.js'' ''text/javascript''),
      (''/assets/email-otp-v1.js'', AssetRoute ''email-otp-v1.js'' ''text/javascript''),
      (''/assets/console-handoff-v1.js'', AssetRoute ''console-handoff-v1.js'' ''text/javascript''),
      (''/health/live'', LiveRoute), (''/health/ready'', ReadyRoute), (''/livez'', LiveRoute), (''/readyz'', ReadyRoute),
      (''/internal/metrics'', MetricsRoute), (''/v1/pairing/start'', PairingStartPage),
      (''/v1/consent/complete'', ConsentCompletePage), (''/v1/consent/start'', ConsentStartPage),
      (''/v1/console/login'', ConsoleLogin), (''/v1/account/console/authorize'', ConsoleAuthorize),
      (''/v1/session/callback'', SessionCallback), (''/v1/account/console/logout'', ConsoleLogoutForm),
      (''/v1/account/login'', AccountLogin), (''/v1/account/session'', AccountSession),
      (''/v1/account/tenants'', AccountTenants), (''/v1/account/deployment-readiness'', DeploymentReadiness),
      (''/'', RootRoute), (''/app'', AppHome), (''/app/account'', AccountPage),
      (''/app/compatibility'', CompatibilityPage), (''/app/readiness'', ReadinessPage)]"

definition post_routes :: "(string \<times> control_route) list" where
  "post_routes =
     [(''/v1/session/exchange'', SessionExchange), (''/v1/account/console/logout'', ConsoleLogout),
      (''/v1/account/email/send'', SendCode), (''/v1/account/email/resend'', SendCode),
      (''/v1/account/email/change'', ChangeEmail), (''/v1/account/email/verify'', VerifyEmail),
      (''/v1/account/bootstrap'', AccountBootstrap), (''/v1/account/logout'', AccountLogout),
      (''/app/logout'', AppLogout), (''/v1/oauth/consent/start'', OAuthConsentStart)]"

text \<open>The segments after \<open>/app/tenants\<close> and after \<open>/v1/tenants\<close>; parameters are decoded.\<close>

definition app_get_route :: "string list \<Rightarrow> control_route" where
  "app_get_route segs = (case segs of
     [t] \<Rightarrow> OverviewPage (percent_decode t)
   | [t, k] \<Rightarrow> if k = ''sites'' then SitesPage (percent_decode t) else if k = ''grants'' then GrantsPage (percent_decode t)
       else if k = ''activity'' then ActivityPage (percent_decode t) else NoRoute
   | [t, k, i] \<Rightarrow> if k = ''sites'' then SitePage (percent_decode t) (percent_decode i)
       else if k = ''grants'' then GrantPage (percent_decode t) (percent_decode i) else NoRoute
   | _ \<Rightarrow> NoRoute)"

definition app_post_route :: "string list \<Rightarrow> control_route" where
  "app_post_route segs = (case segs of
     [t, k, i, v] \<Rightarrow> if k = ''grants'' \<and> v = ''revoke'' then UiRevoke (percent_decode t) (percent_decode i)
       else if k = ''sites'' \<and> v = ''disconnect'' then UiDisconnect (percent_decode t) (percent_decode i) else NoRoute
   | _ \<Rightarrow> NoRoute)"

definition api_get_route :: "string list \<Rightarrow> control_route" where
  "api_get_route segs = (case segs of
     [t] \<Rightarrow> GetTenant (percent_decode t)
   | [t, k] \<Rightarrow> if k = ''security-events'' then TenantEvents (percent_decode t)
       else if k = ''sites'' then TenantSites (percent_decode t)
       else if k = ''grants'' then TenantGrants (percent_decode t) else NoRoute
   | _ \<Rightarrow> NoRoute)"

definition api_post_route :: "string list \<Rightarrow> control_route" where
  "api_post_route segs = (case segs of
     [t, k] \<Rightarrow> if k = ''pairing'' then PairSite (percent_decode t) else NoRoute
   | [t, k, i, v] \<Rightarrow>
       let tenant = percent_decode t; object = percent_decode i in
       if k = ''sites'' \<and> v = ''grants'' then StartGrant tenant object
       else if k = ''grants'' \<and> v = ''complete'' then CompleteGrant tenant object
       else if k = ''grants'' \<and> v = ''revoke'' then ApiRevoke tenant object
       else if k = ''sites'' \<and> v = ''disconnect'' then ApiDisconnect tenant object else NoRoute
   | _ \<Rightarrow> NoRoute)"

definition tenant_route_of :: "string \<Rightarrow> string \<Rightarrow> control_route" where
  "tenant_route_of verb path =
     (let segs = split_on CHR ''/'' path; area = take 3 segs; rest = drop 3 segs in
      if area = [[], ''app'', ''tenants''] then
        (if verb = ''GET'' then app_get_route rest else if verb = ''POST'' then app_post_route rest else NoRoute)
      else if area = [[], ''v1'', ''tenants''] then
        (if verb = ''GET'' then api_get_route rest else if verb = ''POST'' then api_post_route rest else NoRoute)
      else NoRoute)"

definition route_of :: "string \<Rightarrow> string \<Rightarrow> control_route" where
  "route_of verb path =
     (case map_of (if verb = ''GET'' then get_routes else if verb = ''POST'' then post_routes else []) path of
        Some r \<Rightarrow> r | None \<Rightarrow> tenant_route_of verb path)"

section \<open>Handlers\<close>

definition not_found_answer :: http_response where
  "not_found_answer = send_json 404 [(''error'', JStr ''not_found'')]"

definition run_route ::
  "control_options \<Rightarrow> control_draws \<Rightarrow> time \<Rightarrow> control_request \<Rightarrow> control_route \<Rightarrow> http_response control" where
  "run_route co dw now rq r = (case r of
     AssetRoute name kind \<Rightarrow> answer (asset co name kind)
   | LiveRoute \<Rightarrow> answer live_answer
   | ReadyRoute \<Rightarrow> ready_route co
   | MetricsRoute \<Rightarrow> metrics_route co rq
   | PairingStartPage \<Rightarrow> answer pairing_start_page
   | ConsentCompletePage \<Rightarrow> answer consent_complete_page
   | ConsentStartPage \<Rightarrow> answer consent_start_page
   | ConsoleLogin \<Rightarrow> console_login_route co dw now rq
   | ConsoleAuthorize \<Rightarrow> console_authorize_route co dw now rq
   | SessionCallback \<Rightarrow> answer session_callback_page
   | SessionExchange \<Rightarrow> session_exchange_route co dw now rq
   | ConsoleLogoutForm \<Rightarrow> console_logout_form_route co dw now rq
   | ConsoleLogout \<Rightarrow> console_logout_route co now rq
   | AccountLogin \<Rightarrow> account_login_route co dw now rq
   | SendCode \<Rightarrow> send_email_code_route co dw now rq
   | ChangeEmail \<Rightarrow> change_email_route co dw now rq
   | VerifyEmail \<Rightarrow> verify_email_route co dw now rq
   | AccountBootstrap \<Rightarrow> bootstrap_route co dw now rq
   | AccountSession \<Rightarrow> account_session_route co dw now rq
   | AccountTenants \<Rightarrow> account_tenants_route co dw now rq
   | AccountLogout \<Rightarrow> account_logout_route co rq
   | DeploymentReadiness \<Rightarrow> deployment_readiness_route co dw now rq
   | RootRoute \<Rightarrow> root_route co rq
   | AppHome \<Rightarrow> app_route co dw now rq
   | AccountPage \<Rightarrow> account_page_route co dw now rq
   | CompatibilityPage \<Rightarrow> static_page_route co dw now rq (renderCompatibility (co_deployment co))
   | ReadinessPage \<Rightarrow> static_page_route co dw now rq (renderReadiness (co_deployment co) (co_report co))
   | AppLogout \<Rightarrow> app_logout_route co dw now rq
   | OverviewPage t \<Rightarrow> tenant_page_route co dw now rq t renderOverview
   | SitesPage t \<Rightarrow> tenant_page_route co dw now rq t renderSites
   | GrantsPage t \<Rightarrow> tenant_page_route co dw now rq t renderGrants
   | ActivityPage t \<Rightarrow> activity_route co dw now rq t
   | SitePage t i \<Rightarrow> detail_route co dw now rq t i (\<lambda>m. map sv_id (tp_sites m)) renderSiteDetail
   | GrantPage t i \<Rightarrow> detail_route co dw now rq t i (\<lambda>m. map gv_id (tp_grants m)) renderGrantDetail
   | UiRevoke t i \<Rightarrow> ui_mutation_route co dw now rq t i (revokeGrantFor co) ''/grants''
   | UiDisconnect t i \<Rightarrow> ui_mutation_route co dw now rq t i (disconnectSiteFor co) ''/sites''
   | GetTenant t \<Rightarrow> tenant_route co dw now rq t
   | TenantEvents t \<Rightarrow> list_route co dw now rq t (event_rows co) ''events''
   | TenantSites t \<Rightarrow> list_route co dw now rq t (site_rows co) ''sites''
   | TenantGrants t \<Rightarrow> list_route co dw now rq t (grant_rows co) ''grants''
   | PairSite t \<Rightarrow> pairing_route co dw now rq t
   | OAuthConsentStart \<Rightarrow> consent_start_route co dw now rq
   | StartGrant t i \<Rightarrow> grant_start_route co dw now rq t i
   | CompleteGrant t i \<Rightarrow> grant_complete_route co dw now rq t i
   | ApiRevoke t i \<Rightarrow> api_mutation_route co dw now rq t i (revokeGrantFor co)
   | ApiDisconnect t i \<Rightarrow> api_mutation_route co dw now rq t i (disconnectSiteFor co)
   | NoRoute \<Rightarrow> answer not_found_answer)"

section \<open>Requests\<close>

definition control_step ::
  "control_options \<Rightarrow> control_draws \<Rightarrow> time \<Rightarrow> control_request \<Rightarrow> control_state \<Rightarrow> http_response \<times> control_state" where
  "control_step co dw now rq s =
     (case preHandler (co_origins co) rq of
        Inl e \<Rightarrow> (answer_error rq e, s)
      | Inr (Some r) \<Rightarrow> (r, s)
      | Inr None \<Rightarrow>
          (case run_route co dw now rq (route_of (kq_method rq) (kq_path rq)) s of
             (Inl e, s') \<Rightarrow> (answer_error rq e, s')
           | (Inr r, s') \<Rightarrow> (r, s')))"

definition handleControl ::
  "control_options \<Rightarrow> control_draws \<Rightarrow> time \<Rightarrow> int \<Rightarrow> control_request \<Rightarrow> control_state \<Rightarrow>
     http_response \<times> control_state" where
  "handleControl co dw now elapsed rq s =
     (case control_step co dw now rq s of
        (r, s') \<Rightarrow> (r, s'\<lparr>ks_metrics := record_response (rs_status r) elapsed (ks_metrics s')\<rparr>))"

end
