(* ===== verification/Control_Frames.thy ===== *)
theory Control_Frames
  imports Control_Dispatch Pairing_Store
begin

text \<open>
  What the routes of the control API may change in the database.  The interface \<open>control_frame\<close> is what
  a relation between two states of the database has to say about each operation of the stores.  Inside
  it, a route that does not decide over sites and grants stays within the relation, and a route that does
  either leaves the database alone or was admitted, with the origin of its host and an identity.
\<close>

section \<open>Steps within a relation\<close>

named_theorems within_intros \<open>steps and routes that stay within the relation of an interface\<close>

definition within :: "(db \<Rightarrow> db \<Rightarrow> bool) \<Rightarrow> 'a control \<Rightarrow> bool" where
  "within R m \<longleftrightarrow> (\<forall>s. R (ks_db s) (ks_db (snd (m s))))"

text \<open>What is asked of Better Auth, and of the operations on pairings and grants.\<close>

definition library_within :: "(db \<Rightarrow> db \<Rightarrow> bool) \<Rightarrow> control_options \<Rightarrow> bool" where
  "library_within R co \<longleftrightarrow> (\<forall>lb. co_accounts co = Some lb \<longrightarrow>
     (\<forall>path hs j d. R d (snd (lb_post lb path hs j d))) \<and> (\<forall>hs d. R d (snd (lb_sign_out lb hs d))))"

definition operations_within :: "(db \<Rightarrow> db \<Rightarrow> bool) \<Rightarrow> control_options \<Rightarrow> bool" where
  "operations_within R co \<longleftrightarrow>
     (\<forall>pair. co_pairing co = Some pair \<longrightarrow> (\<forall>dw now ctx body d. R d (snd (pair dw now ctx body d)))) \<and>
     (\<forall>ops. co_grants co = Some ops \<longrightarrow>
        (\<forall>dw now ctx q d. R d (snd (go_start ops dw now ctx q d))) \<and>
        (\<forall>now ctx q d. R d (snd (go_complete ops now ctx q d))))"

section \<open>Routes that decide over sites and grants\<close>

definition authority_route :: "control_route \<Rightarrow> bool" where
  "authority_route r \<longleftrightarrow> (case r of
     UiRevoke _ _ \<Rightarrow> True | UiDisconnect _ _ \<Rightarrow> True | PairSite _ \<Rightarrow> True | OAuthConsentStart \<Rightarrow> True
   | StartGrant _ _ \<Rightarrow> True | CompleteGrant _ _ \<Rightarrow> True | ApiRevoke _ _ \<Rightarrow> True | ApiDisconnect _ _ \<Rightarrow> True
   | _ \<Rightarrow> False)"

text \<open>The origin of the host a request came to, and what a request to such a route has to show.\<close>

definition boundary_origin :: "origins \<Rightarrow> control_request \<Rightarrow> string" where
  "boundary_origin og rq = (if requestBoundary og rq = AppBoundary then og_app og else og_auth og)"

definition route_admitted :: "control_options \<Rightarrow> control_request \<Rightarrow> control_route \<Rightarrow> bool" where
  "route_admitted co rq r \<longleftrightarrow>
     (let og = co_origins co; sent = kq_header ''origin'' rq; ui = is_ok (validateUiMutation og rq) in
      case r of
        UiRevoke t i \<Rightarrow> ui \<and> object_params co t i | UiDisconnect t i \<Rightarrow> ui \<and> object_params co t i
      | ApiRevoke t i \<Rightarrow> sent = Some (og_app og) \<and> object_params co t i
      | ApiDisconnect t i \<Rightarrow> sent = Some (og_app og) \<and> object_params co t i
      | PairSite t \<Rightarrow> sent = Some (og_auth og) \<and> zod_uuid (co_runtime co) t
      | CompleteGrant t i \<Rightarrow> sent = Some (og_auth og) \<and> object_params co t i
      | StartGrant t i \<Rightarrow> sent = Some (boundary_origin og rq) \<and> object_params co t i
      | OAuthConsentStart \<Rightarrow> sent = Some (og_auth og)
      | _ \<Rightarrow> True)"

definition identified :: "control_options \<Rightarrow> control_draws \<Rightarrow> time \<Rightarrow> control_request \<Rightarrow> control_state \<Rightarrow> bool" where
  "identified co dw now rq s \<longleftrightarrow> (case fst (identify co dw now rq s) of Inr (Some _) \<Rightarrow> True | _ \<Rightarrow> False)"

section \<open>The interface\<close>

locale control_frame =
  fixes R :: "db \<Rightarrow> db \<Rightarrow> bool"
  assumes same: "R d d"
    and chain: "R a b \<Longrightarrow> R b c \<Longrightarrow> R a c"
    and audit: "R d (snd (writeEvent rt instant j d))"
    and link: "R d (snd (resolveLink u d))"
    and new_link: "R d (snd (provision u acc ten now d))"
    and old_session: "R d (snd (resolveSession h now d))"
    and console_session: "R d (snd (resolveConsoleSession h now d))"
    and memberships: "R d (snd (listMemberships acc d))"
    and workspace: "R d (snd (ensurePersonalWorkspace acc ten now d))"
    and console_login: "R d (snd (createConsoleLogin rt path random secret now d))"
    and console_authorize: "R d (snd (authorizeLogin rt request sid acc until code now d))"
    and console_exchange: "R d (snd (exchangeLogin rt request secret code token now d))"
    and console_logout: "R d (snd (beginLogout h ''/app'' random secret now d))"
    and console_validate: "R d (snd (validateLogout request sid spend now d))"
    and login: "R d (snd (createLogin rt path csrf token now d))"
    and login_bind: "R d (snd (bindEmail rt token csrf email now d))"
    and login_restart: "R d (snd (restartLogin rt token csrf token' now d))"
    and login_complete: "R d (snd (completeLogin rt token csrf u acc ten now d))"
begin

lemma within_answer [within_intros]: "within R (answer a)"
  by (simp add: within_def answer_def same)

lemma within_throws [within_intros]: "within R (throws e)"
  by (simp add: within_def throws_def same)

lemma within_pure [within_intros]: "within R (pure_step r)"
  by (simp add: within_def pure_step_def same)

lemma within_reading [within_intros]: "within R (reading q)"
  by (simp add: within_def reading_def same)

lemma within_next: "within R m \<Longrightarrow> m s = (r, s') \<Longrightarrow> R (ks_db s') d \<Longrightarrow> R (ks_db s) d"
  unfolding within_def by (metis chain snd_conv)

lemma within_step: "within R m \<Longrightarrow> m s = (r, s') \<Longrightarrow> R (ks_db s) (ks_db s')"
  unfolding within_def by (metis snd_conv)

lemma within_proceed [within_intros]:
  "within R m \<Longrightarrow> (\<And>a. within R (f a)) \<Longrightarrow> within R (proceed m f)"
  by (auto simp: within_def [of R "proceed m f"] proceed_def within_def [of R "f _"]
      split: prod.split sum.split intro: within_step within_next)

lemma within_rescue [within_intros]:
  "within R m \<Longrightarrow> (\<And>e. within R (f e)) \<Longrightarrow> within R (rescue m f)"
  by (auto simp: within_def [of R "rescue m f"] rescue_def within_def [of R "f _"]
      split: prod.split sum.split intro: within_step within_next)

lemma within_demand [within_intros]: "within R m \<Longrightarrow> within R (demand ok e m)"
  by (simp add: demand_def within_throws)

lemma within_given [within_intros]: "(\<And>a. within R (f a)) \<Longrightarrow> within R (given v e f)"
  by (simp add: given_def within_throws split: option.split)

lemma within_if [within_intros]: "within R m \<Longrightarrow> within R n \<Longrightarrow> within R (if b then m else n)"
  by simp

lemma within_option [within_intros]:
  "within R m \<Longrightarrow> (\<And>a. within R (f a)) \<Longrightarrow> within R (case v of None \<Rightarrow> m | Some a \<Rightarrow> f a)"
  by (simp split: option.split)

lemma within_sum [within_intros]:
  "(\<And>a. within R (f a)) \<Longrightarrow> (\<And>b. within R (g b)) \<Longrightarrow> within R (case v of Inl a \<Rightarrow> f a | Inr b \<Rightarrow> g b)"
  by (simp split: sum.split)

lemma within_pair [within_intros]: "(\<And>a b. within R (f a b)) \<Longrightarrow> within R (case p of (a, b) \<Rightarrow> f a b)"
  by (simp split: prod.split)

lemma within_list [within_intros]:
  "within R m \<Longrightarrow> (\<And>x xs. within R (f x xs)) \<Longrightarrow> within R (case l of [] \<Rightarrow> m | x # xs \<Rightarrow> f x xs)"
  by (simp split: list.split)

lemma within_store: "(\<And>d. R d (snd (op d))) \<Longrightarrow> within R (store op)"
  by (simp add: within_def store_def split: prod.split) (metis snd_conv)

lemma within_attempt: "(\<And>d. R d (snd (op d))) \<Longrightarrow> within R (attempt op)"
  by (simp add: within_def attempt_def split: prod.split) (metis snd_conv)

lemma within_tenant:
  assumes "\<And>s d a d'. op s d = Inr (a, d') \<Longrightarrow> d' = d"
  shows "within R (store (withTenant rt ctx op))"
proof (rule within_store)
  fix d
  have "snd (withTenant rt ctx op d) = d"
    using assms by (auto simp: withTenant_def transaction_def split: sum.split)
  then show "R d (snd (withTenant rt ctx op d))" by (simp add: same)
qed

lemmas within_stores [within_intros] =
  within_store [OF link] within_store [OF new_link] within_store [OF old_session]
  within_store [OF console_session] within_store [OF memberships] within_store [OF workspace]
  within_store [OF console_login] within_store [OF console_authorize] within_store [OF console_exchange]
  within_store [OF console_logout] within_store [OF console_validate] within_store [OF login]
  within_store [OF login_bind] within_store [OF login_restart] within_store [OF login_complete]

lemma within_audit [within_intros]: "within R (safeAudit co e)"
  by (simp add: within_def safeAudit_def audit)

lemma within_diagnostic [within_intros]: "within R (safePairingDiagnostic c x)"
  by (simp add: within_def safePairingDiagnostic_def same)

lemma within_readers [within_intros]:
  "within R (findTenantFor co ctx)" "within R (listSitesFor co ctx)" "within R (listGrantsFor co ctx)"
  "within R (listEventsFor co ctx limit offset outcome)"
  unfolding findTenantFor_def listSitesFor_def listGrantsFor_def listEventsFor_def
  by (rule within_tenant; auto simp: findTenant_def listSites_def listGrants_def listEvents_def and_then_Inr Let_def)+

lemma within_sessions [within_intros]:
  "within R (account_session_of co hs)" "within R (principal acc at how)"
  "within R (linked_account dw now p u)"
  unfolding account_session_of_def principal_def linked_account_def by (intro within_intros)+

lemma within_identities [within_intros]:
  "within R (better_auth_identity co dw now p rq)"
  "within R (cookie_identity (\<lambda>t. resolveSession (f t) now) n how token)"
  "within R (cookie_identity (\<lambda>t. resolveConsoleSession (f t) now) n how token)"
  unfolding better_auth_identity_def cookie_identity_def by (intro within_intros)+

lemma within_authenticate [within_intros]: "within R (authenticate co p dw now rq)"
  unfolding authenticate_def Let_def by (cases p) (simp_all add: within_intros)

lemma within_identify [within_intros]: "within R (identify co dw now rq)"
  unfolding identify_def by (intro within_intros)

lemma within_principal [within_intros]: "within R (authenticatedPrincipal co dw now rq)"
  unfolding authenticatedPrincipal_def by (intro within_intros)

lemma within_context [within_intros]:
  "within R (tenant_context_of co t a c)" "within R (requestContext co dw now rq t)"
  unfolding tenant_context_of_def requestContext_def Let_def by (intro within_intros)+

lemma within_members [within_intros]:
  "within R (membershipsFor co dw now rq)" "within R (uiMembershipsFor co dw now rq)"
  "(\<And>a. within R (f a)) \<Longrightarrow> within R (ui_page co dw now rq f)"
  unfolding membershipsFor_def uiMembershipsFor_def ui_page_def by (intro within_intros)+

lemma within_page [within_intros]: "within R (tenantPageModel co dw now rq t activity)"
  unfolding tenantPageModel_def Let_def by (intro within_intros)

lemma within_sites [within_intros]: "within R (matching_sites co dw acc res i ms)"
  by (induction ms arbitrary: i) (auto intro!: within_intros)

text \<open>The routes, first those that ask Better Auth to write.\<close>

lemma within_sign_out: "library_within R co \<Longrightarrow> within R (sign_out co rq)"
  unfolding sign_out_def library_within_def
  by (auto intro!: within_throws within_store split: option.split)

lemma within_post: "library_within R co \<Longrightarrow> within R (accountAuthPost co rq path body i)"
  unfolding accountAuthPost_def library_within_def
  by (auto intro!: within_throws within_store split: option.split)

lemma within_complete [within_intros]:
  "within R (complete_login_step co dw now form hs)" "within R (complete_or_retry co dw now form hs fwd)"
  unfolding complete_login_step_def complete_or_retry_def by (intro within_intros)+

lemma within_account_routes:
  assumes "library_within R co"
  shows "within R (console_logout_route co now rq)" "within R (send_email_code_route co dw now rq)"
    "within R (verify_email_route co dw now rq)" "within R (account_logout_route co rq)"
    "within R (app_logout_route co dw now rq)"
  unfolding console_logout_route_def send_email_code_route_def verify_email_route_def account_logout_route_def
    app_logout_route_def
  by (intro within_intros within_sign_out [OF assms] within_post [OF assms])+

lemma within_console_routes:
  "within R (console_login_route co dw now rq)" "within R (console_authorize_route co dw now rq)"
  "within R (session_exchange_route co dw now rq)" "within R (console_logout_form_route co dw now rq)"
  "within R (account_login_route co dw now rq)" "within R (change_email_route co dw now rq)"
  "within R (bootstrap_route co dw now rq)"
  unfolding console_login_route_def console_authorize_route_def session_exchange_route_def
    console_logout_form_route_def account_login_route_def change_email_route_def bootstrap_route_def Let_def
  by (intro within_intros)+

lemma within_reading_routes:
  "within R (ready_route co)" "within R (metrics_route co rq)" "within R (account_session_route co dw now rq)"
  "within R (account_tenants_route co dw now rq)" "within R (root_route co rq)"
  "within R (deployment_readiness_route co dw now rq)" "within R (app_route co dw now rq)"
  "within R (tenant_page_route co dw now rq t f)" "within R (activity_route co dw now rq t)"
  "within R (detail_route co dw now rq t i g h)" "within R (account_page_route co dw now rq)"
  "within R (static_page_route co dw now rq page)" "within R (tenant_route co dw now rq t)"
  "(\<And>ctx. within R (rows ctx)) \<Longrightarrow> within R (list_route co dw now rq t rows name)"
  "within R (site_rows co ctx)" "within R (grant_rows co ctx)" "within R (event_rows co ctx)"
  unfolding account_session_route_def account_tenants_route_def root_route_def deployment_readiness_route_def
    app_route_def workspaces_of_def tenant_page_route_def activity_route_def detail_route_def account_page_route_def
    static_page_route_def tenant_route_def list_route_def site_rows_def grant_rows_def event_rows_def Let_def
  by ((intro within_intros | simp add: within_def ready_route_def metrics_route_def answer_def throws_def same
      split: option.split sum.split); assumption?)+

lemma route_within:
  "library_within R co \<Longrightarrow> \<not> authority_route r \<Longrightarrow> within R (run_route co dw now rq r)"
  by (cases r) (simp_all add: run_route_def authority_route_def within_account_routes within_console_routes
    within_reading_routes within_answer)

text \<open>Without an identity, or for what is no tenant, the context is refused and nothing else happens.\<close>

lemma context_refused:
  assumes "\<not> (identified co dw now rq s \<and> zod_uuid (co_runtime co) t)"
  shows "\<exists>e s'. requestContext co dw now rq t s = (Inl e, s') \<and> R (ks_db s) (ks_db s')"
proof -
  obtain r s' where r: "requestContext co dw now rq t s = (r, s')" by fastforce
  have "\<exists>e. r = Inl e"
    using assms r by (auto simp: requestContext_def identified_def proceed_def Let_def throws_def pure_step_def
        tenant_context_of_def safeAudit_def thrown_away_def split: prod.splits sum.splits option.splits if_splits)
  with r show ?thesis using within_step [OF within_context(2)] by blast
qed

text \<open>How a route without an admitted request ends before its decision.\<close>

lemma gate_context:
  "\<not> (identified co dw now rq s \<and> zod_uuid (co_runtime co) t) \<Longrightarrow>
     R (ks_db s) (ks_db (snd (proceed (requestContext co dw now rq t) f s)))"
  using context_refused [of co dw now rq s t] by (auto simp: proceed_def)

lemma gate_object:
  assumes "\<not> (identified co dw now rq s \<and> object_params co t i)" and "ok \<Longrightarrow> object_params co t i"
  shows "R (ks_db s) (ks_db (snd (proceed (requestContext co dw now rq t) (\<lambda>ctx. demand ok e (f ctx)) s)))"
proof (cases "identified co dw now rq s \<and> zod_uuid (co_runtime co) t")
  case True
  obtain r s' where r: "requestContext co dw now rq t s = (r, s')" by fastforce
  from True assms have "\<not> ok" by auto
  with r within_step [OF within_context(2) r] show ?thesis
    by (auto simp: proceed_def demand_def throws_def split: sum.split)
qed (rule gate_context)

lemma gate_members:
  assumes "\<not> identified co dw now rq s"
  shows "R (ks_db s) (ks_db (snd (proceed (membershipsFor co dw now rq) f s)))"
proof -
  obtain r s' where r: "membershipsFor co dw now rq s = (r, s')" by fastforce
  have "\<exists>e. r = Inl e"
    using assms r by (auto simp: membershipsFor_def authenticatedPrincipal_def identified_def proceed_def throws_def
        pure_step_def thrown_away_def split: prod.splits sum.splits option.splits if_splits)
  with r within_step [OF within_members(1) r] show ?thesis by (auto simp: proceed_def)
qed

lemma gates:
  "(ok \<Longrightarrow> R (ks_db s) (ks_db (snd (m s)))) \<Longrightarrow> R (ks_db s) (ks_db (snd (demand ok e m s)))"
  "(\<And>a. v = Some a \<Longrightarrow> R (ks_db s) (ks_db (snd (f a s)))) \<Longrightarrow> R (ks_db s) (ks_db (snd (given v e f s)))"
  "(\<And>a. r = Inr a \<Longrightarrow> R (ks_db s) (ks_db (snd (g a s)))) \<Longrightarrow> R (ks_db s) (ks_db (snd (proceed (pure_step r) g s)))"
  by (auto simp: throws_def demand_def given_def proceed_def pure_step_def same split: option.split sum.split)

lemma route_gate:
  assumes "authority_route r" and "\<not> (route_admitted co rq r \<and> identified co dw now rq s)"
  shows "R (ks_db s) (ks_db (snd (run_route co dw now rq r s)))"
proof (cases r)
  case (UiRevoke t i)
  with assms(2) show ?thesis
    by (simp add: run_route_def route_admitted_def Let_def ui_mutation_route_def)
       (intro gates gate_object, auto)
next
  case (UiDisconnect t i)
  with assms(2) show ?thesis
    by (simp add: run_route_def route_admitted_def Let_def ui_mutation_route_def)
       (intro gates gate_object, auto)
next
  case (ApiRevoke t i)
  with assms(2) show ?thesis
    by (simp add: run_route_def route_admitted_def Let_def api_mutation_route_def)
       (intro gates gate_object, auto)
next
  case (ApiDisconnect t i)
  with assms(2) show ?thesis
    by (simp add: run_route_def route_admitted_def Let_def api_mutation_route_def)
       (intro gates gate_object, auto)
next
  case (PairSite t)
  with assms(2) show ?thesis
    by (simp add: run_route_def route_admitted_def Let_def pairing_route_def) (intro gates gate_context, auto)
next
  case (CompleteGrant t i)
  with assms(2) show ?thesis
    by (simp add: run_route_def route_admitted_def Let_def grant_complete_route_def) (intro gates gate_object, auto)
next
  case (StartGrant t i)
  with assms(2) show ?thesis
    by (simp add: run_route_def route_admitted_def Let_def grant_start_route_def boundary_origin_def)
       (intro conjI impI gates gate_object, auto)
next
  case OAuthConsentStart
  with assms(2) show ?thesis
    by (simp add: run_route_def route_admitted_def Let_def consent_start_route_def) (intro gates gate_members, auto)
qed (use assms(1) in \<open>simp_all add: authority_route_def\<close>)

end

section \<open>Sites and grants\<close>

definition same_authority :: "db \<Rightarrow> db \<Rightarrow> bool" where
  "same_authority d d' \<longleftrightarrow> sites d' = sites d \<and> grants d' = grants d"

lemma same_authority_refl [simp]: "same_authority d d"
  by (simp add: same_authority_def)

lemma same_authority_tx:
  "(\<And>a d'. op s d = Inr (a, d') \<Longrightarrow> same_authority d d') \<Longrightarrow> same_authority d (snd (transaction s op d))"
  by (auto simp: transaction_def split: sum.split)

lemma same_authority_fields [simp]:
  "same_authority d (b\<lparr>console_txs := ct\<rparr>) = same_authority d b"
  "same_authority d (b\<lparr>console_sessions := cs\<rparr>) = same_authority d b"
  "same_authority d (b\<lparr>login_txs := lt\<rparr>) = same_authority d b"
  "same_authority d (b\<lparr>events := ev\<rparr>) = same_authority d b"
  "same_authority d (b\<lparr>console_sessions := cs, console_txs := ct\<rparr>) = same_authority d b"
  "same_authority d (b\<lparr>tenants := ts, memberships := ms, homes := hs\<rparr>) = same_authority d b"
  by (simp_all add: same_authority_def)

lemma same_authority_link:
  "ensure_account_auth_link u a t now d = Inr (lk, d') \<Longrightarrow> same_authority d d'"
  by (auto simp: ensure_account_auth_link_def and_then_Inr same_authority_def split: if_splits option.splits)

lemma same_authority_chain: "same_authority a b \<Longrightarrow> same_authority b c \<Longrightarrow> same_authority a c"
  by (simp add: same_authority_def)

interpretation authority: control_frame same_authority
proof unfold_locales
  show "same_authority d (snd (writeEvent rt instant j d))" for rt instant j d
    unfolding writeEvent_def withAuditWriter_def
    by (auto intro!: same_authority_tx split: sum.split option.split if_splits)
  show "same_authority d (snd (resolveLink u d))" for u d
    unfolding resolveLink_def with_role_defs by (auto intro!: same_authority_tx)
  show "same_authority d (snd (provision u acc ten now d))" for u acc ten now d
    unfolding provision_def with_role_defs
    by (auto simp: succ_simps intro!: same_authority_tx intro: same_authority_link)
  show "same_authority d (snd (resolveSession h now d))" for h now d
    unfolding resolveSession_def with_role_defs by (auto intro!: same_authority_tx)
  show "same_authority d (snd (resolveConsoleSession h now d))" for h now d
    unfolding resolveConsoleSession_def with_role_defs by (auto intro!: same_authority_tx)
  show "same_authority d (snd (listMemberships acc d))" for acc d
    unfolding listMemberships_def withAccountWorkspace_def by (auto intro!: same_authority_tx)
  show "same_authority d (snd (ensurePersonalWorkspace acc ten now d))" for acc ten now d
    unfolding ensurePersonalWorkspace_def withAccountWorkspace_def ensure_personal_workspace_def
    by (auto simp: succ_simps intro!: same_authority_tx)
  show "same_authority d (snd (createConsoleLogin rt path random secret now d))" for rt path random secret now d
    unfolding createConsoleLogin_def with_role_defs
    by (auto simp: succ_simps intro!: same_authority_tx)
  show "same_authority d (snd (authorizeLogin rt request sid acc until code now d))" for rt request sid acc until code now d
    unfolding authorizeLogin_def with_role_defs
    by (auto simp: succ_simps intro!: same_authority_tx)
  show "same_authority d (snd (exchangeLogin rt request secret code token now d))" for rt request secret code token now d
    unfolding exchangeLogin_def with_role_defs
    by (auto simp: succ_simps intro!: same_authority_tx)
  show "same_authority d (snd (beginLogout h ''/app'' random secret now d))" for h random secret now d
    unfolding beginLogout_def with_role_defs
    by (auto simp: succ_simps intro!: same_authority_tx)
  show "same_authority d (snd (validateLogout request sid spend now d))" for request sid spend now d
    unfolding validateLogout_def with_role_defs
    by (auto simp: succ_simps intro!: same_authority_tx)
  show "same_authority d (snd (createLogin rt path csrf token now d))" for rt path csrf token now d
    unfolding createLogin_def with_role_defs
    by (auto simp: succ_simps intro!: same_authority_tx)
  show "same_authority d (snd (bindEmail rt token csrf email now d))" for rt token csrf email now d
    unfolding bindEmail_def with_role_defs
    by (auto simp: succ_simps intro!: same_authority_tx split: sum.split)
  show "same_authority d (snd (restartLogin rt token csrf token' now d))" for rt token csrf token' now d
    unfolding restartLogin_def with_role_defs
    by (auto simp: succ_simps intro!: same_authority_tx split: sum.split)
  show "same_authority d (snd (completeLogin rt token csrf u acc ten now d))" for rt token csrf u acc ten now d
    unfolding completeLogin_def with_role_defs
    by (auto simp: succ_simps intro!: same_authority_tx dest!: same_authority_link elim: same_authority_chain
        split: sum.split)
qed (auto simp: same_authority_def)

end
