(* ===== verification/Control_Main.thy ===== *)
theory Control_Main
  imports Control_Dispatch Pairing_Store Signing_Keys
begin

text \<open>
  The start of the control API (apps/control-api/src/main.ts): the environment is read and checked, the
  key in custody is tied to the active signing key of the database, and the pairing and grant
  operations are put together from the services and their PostgreSQL repositories.  Better Auth is the
  argument \<open>lb\<close>; files, libraries and the network are the fields of \<open>control_host\<close>.
\<close>

record control_host =
  hx_runtime :: runtime
  hx_crypto :: crypto
  hx_jose :: jose
  hx_net :: net
  hx_files :: file_system
  hx_uid :: nat
  hx_parse :: "string \<Rightarrow> json option"
  hx_decode :: "string \<Rightarrow> bytes"
  hx_number :: "string \<Rightarrow> int option"
  hx_integer :: "string \<Rightarrow> int option"
  hx_is_ip :: "string \<Rightarrow> nat"
  hx_resolver :: "string \<Rightarrow> thrown + string list"
  hx_request :: "string \<Rightarrow> string \<Rightarrow> string \<Rightarrow> thrown + site_response"
  hx_pem :: "key_object \<Rightarrow> string"
  hx_url :: "string \<Rightarrow> string \<Rightarrow> url option"
  hx_iso :: "time \<Rightarrow> string"
  hx_instant :: "string \<Rightarrow> time"
  hx_coerce :: "json \<Rightarrow> int option"
  hx_fixed :: "int \<Rightarrow> string"
  hx_pages :: page_runtime
  hx_assets :: "string \<Rightarrow> string"

section \<open>Pairing\<close>

definition control_pair ::
  "control_host \<Rightarrow> string \<Rightarrow> string \<Rightarrow> string \<Rightarrow> pairing_operations" where
  "control_pair h issuer pem kid dw now ctx body d =
     (let rt = hx_runtime h; repo = postgres_pairing rt ctx now; (resource, verifier) = body;
          attemptId = ''attempt_'' @ dw_id dw ''attempt''; siteId = ''site_'' @ dw_id dw ''site'' in
      case PairingService issuer pem kid of
        Inl e \<Rightarrow> (Inl (Plain e), d)
      | Inr ps \<Rightarrow>
          (case pairingBegin rt repo now \<lparr>pb_tenant = ctx_tenant ctx, pb_attempt = attemptId,
              pb_account = ctx_account ctx, pb_correlation = ctx_correlation ctx, pb_resource = resource,
              pb_verifier = verifier\<rparr> d of
             (Inl e, d1) \<Rightarrow> (Inl e, d1)
           | (Inr _, d1) \<Rightarrow>
               (case pairingVerify rt ps repo
                   (https_verify rt (hx_jose h) (hx_net h) (hx_resolver h) (hx_request h) now) now (dw_challenge dw)
                   \<lparr>vf_tenant = ctx_tenant ctx, vf_attempt = attemptId, vf_verifier = verifier, vf_site = siteId,
                    vf_key = ''pair_'' @ dw_id dw ''pair''\<rparr> d1 of
                  (Inl e, d2) \<Rightarrow> (Inl e, d2)
                | (Inr _, d2) \<Rightarrow> (Inr siteId, d2))))"

section \<open>Grants\<close>

definition object_members :: "json \<Rightarrow> json_object" where
  "object_members j = (case j of JObj obj \<Rightarrow> obj | _ \<Rightarrow> [])"

definition challengeFactory :: "runtime \<Rightarrow> bytes \<Rightarrow> json \<Rightarrow> string" where
  "challengeFactory rt key request = base64url rt (hmac_sha256 rt key (json_stringify request))"

definition consent_url :: "runtime \<Rightarrow> string \<Rightarrow> string \<Rightarrow> string result" where
  "consent_url rt resource request = (case parse_url rt resource of
     None \<Rightarrow> Inl ''Invalid URL''
   | Some u \<Rightarrow> Inr (url_origin u @ ''/wp-admin/admin-post.php?action=wp_auto_connector_consent_start#request='' @
       form_encode request))"

definition control_grant_start ::
  "control_host \<Rightarrow> key_holder \<Rightarrow> bytes \<Rightarrow> string \<Rightarrow> control_draws \<Rightarrow> time \<Rightarrow> tenant_context \<Rightarrow> grant_start \<Rightarrow>
     db \<Rightarrow> started_grant outcome" where
  "control_grant_start h signer key issuer dw now ctx q d =
     (let rt = hx_runtime h in
      case withTenant rt ctx (findActiveSite (ctx_tenant ctx) (gs_site q)) d of
        (Inl e, d1) \<Rightarrow> (Inl e, d1)
      | (Inr None, d1) \<Rightarrow> (Inl ''active_site_not_found'', d1)
      | (Inr (Some site), d1) \<Rightarrow>
          (case grantBegin rt (postgres_grants rt ctx now)
              (\<lambda>payload. signConsentRequest (hx_crypto h) signer (object_members payload))
              (challengeFactory rt key) issuer now
              \<lparr>gb_tenant = ctx_tenant ctx, gb_grant = ''grant_'' @ dw_id dw ''grant'', gb_site = sv_id site,
               gb_subject = ctx_account ctx, gb_client = gs_client q, gb_scopes = map scope_name (gs_scopes q),
               gb_resource = sv_resource site, gb_version = ''1'', gb_key = gs_key q\<rparr> d1 of
             (Inl e, d2) \<Rightarrow> (Inl e, d2)
           | (Inr b, d2) \<Rightarrow>
               (case consent_url rt (sv_resource site) (bg_request b) of
                  Inl e \<Rightarrow> (Inl e, d2)
                | Inr u \<Rightarrow> (Inr \<lparr>sg_grant = bg_id b, sg_url = u, sg_until = bg_expires b\<rparr>, d2))))"

definition control_grant_complete ::
  "control_host \<Rightarrow> string \<Rightarrow> time \<Rightarrow> tenant_context \<Rightarrow> grant_complete \<Rightarrow> db \<Rightarrow> (thrown + unit) \<times> db" where
  "control_grant_complete h issuer now ctx q d =
     (case grantComplete (hx_runtime h) (hx_jose h) (postgres_grants (hx_runtime h) ctx now) issuer now q d of
        (Inl e, d') \<Rightarrow> (Inl e, d') | (Inr _, d') \<Rightarrow> (Inr (), d'))"

definition control_grants :: "control_host \<Rightarrow> key_holder \<Rightarrow> bytes \<Rightarrow> string \<Rightarrow> grant_operations" where
  "control_grants h signer key issuer =
     \<lparr>go_start = control_grant_start h signer key issuer, go_complete = control_grant_complete h issuer\<rparr>"

section \<open>The environment\<close>

definition decodeRuntimeKey :: "runtime \<Rightarrow> (string \<Rightarrow> bytes) \<Rightarrow> string option \<Rightarrow> string \<Rightarrow> bytes result" where
  "decodeRuntimeKey rt decode v name = (case v of
     None \<Rightarrow> Inl (name @ '' is required when WEPUU_ISSUER is configured'')
   | Some t \<Rightarrow>
       if length (decode t) \<noteq> 32 \<or> base64url rt (decode t) \<noteq> t
       then Inl (name @ '' must be canonical 256-bit base64url'') else Inr (decode t))"

definition first_given :: "string option \<Rightarrow> string option \<Rightarrow> string option" where
  "first_given a b = (case a of None \<Rightarrow> b | Some v \<Rightarrow> Some v)"

definition control_origins :: "environment \<Rightarrow> (string \<times> string) result" where
  "control_origins env =
     (let legacy = env ''WEPUU_CONTROL_PUBLIC_ORIGIN'';
          ownAuth = env ''WEPUU_AUTH_PUBLIC_ORIGIN''; ownApp = env ''WEPUU_APP_PUBLIC_ORIGIN'' in
      case (first_given ownAuth legacy, first_given ownApp legacy) of
        (Some authOrigin, Some appOrigin) \<Rightarrow>
          if (ownAuth \<noteq> None \<or> ownApp \<noteq> None) \<and> legacy \<noteq> None \<and> (legacy \<noteq> Some authOrigin \<or> legacy \<noteq> Some appOrigin)
          then Inl ''WEPUU_CONTROL_PUBLIC_ORIGIN conflicts with split public origins''
          else Inr (authOrigin, appOrigin)
      | _ \<Rightarrow> Inl ''WEPUU_AUTH_PUBLIC_ORIGIN and WEPUU_APP_PUBLIC_ORIGIN are required'')"

definition url_host :: "url \<Rightarrow> string" where
  "url_host u = url_hostname u @ (if url_port u = [] then [] else '':'' @ url_port u)"

definition parsed_origins :: "runtime \<Rightarrow> string \<Rightarrow> string \<Rightarrow> origins result" where
  "parsed_origins rt authOrigin appOrigin = (case (parse_url rt authOrigin, parse_url rt appOrigin) of
     (Some a, Some p) \<Rightarrow> Inr \<lparr>og_auth = url_origin a, og_app = url_origin p, og_auth_host = url_host a,
       og_app_host = url_host p\<rparr>
   | _ \<Rightarrow> Inl ''Invalid URL'')"

text \<open>
  What the platform issuer brings with it: the signer of consent requests, the verifier of bootstrap
  requests, the key of the challenges, and the public key as text.
\<close>

record issuer_keys =
  ik_issuer :: string
  ik_signer :: key_holder
  ik_verifier :: key_holder
  ik_key :: bytes
  ik_pem :: string
  ik_kid :: string

definition issuer_custody ::
  "control_host \<Rightarrow> environment \<Rightarrow> string \<Rightarrow> time \<Rightarrow> db \<Rightarrow> local_custody result" where
  "issuer_custody h env slot now d =
     and_then (fst (loadUsable now d)) (\<lambda>(active, _).
     if kr_provider active \<noteq> LocalPkcs8 \<or> kr_reference active \<noteq> slot
     then Inl ''control_signing_key_not_active''
     else localPkcs8KeyCustodyFromEnvironment (hx_crypto h) (hx_files h) (hx_uid h) env slot (Some (kr_kid active)))"

definition load_issuer_keys ::
  "control_host \<Rightarrow> environment \<Rightarrow> time \<Rightarrow> db \<Rightarrow> issuer_keys option result" where
  "load_issuer_keys h env now d = (case env ''WEPUU_ISSUER'' of
     None \<Rightarrow> Inr None
   | Some issuer \<Rightarrow>
       if \<not> starts_with issuer ''https://'' then Inl ''WEPUU_ISSUER must use HTTPS''
       else (case env ''WEPUU_SIGNING_KEY_SLOT'' of
         None \<Rightarrow> Inl ''WEPUU_SIGNING_KEY_SLOT is required''
       | Some slot \<Rightarrow>
           and_then (issuer_custody h env slot now d) (\<lambda>custody.
           let key = lc_descriptor custody in
           and_then (consentRequestSigner custody) (\<lambda>signer.
           and_then (key_holder_of ''public'' (kd_key key) (kd_kid key)) (\<lambda>verifier.
           and_then (decodeRuntimeKey (hx_runtime h) (hx_decode h) (env ''WEPUU_GRANT_IDEMPOTENCY_HMAC_KEY'')
               ''WEPUU_GRANT_IDEMPOTENCY_HMAC_KEY'') (\<lambda>hmacKey.
           Inr (Some \<lparr>ik_issuer = issuer, ik_signer = signer, ik_verifier = verifier, ik_key = hmacKey,
             ik_pem = hx_pem h (kd_key key), ik_kid = kd_kid key\<rparr>)))))))"

definition control_options_of ::
  "control_host \<Rightarrow> environment \<Rightarrow> account_library \<Rightarrow> origins \<Rightarrow> deployment_config \<Rightarrow> issuer_keys option \<Rightarrow> control_options" where
  "control_options_of h env lb og deployment keys =
     \<lparr>co_runtime = hx_runtime h, co_url = hx_url h, co_iso = hx_iso h, co_instant = hx_instant h,
      co_integer = hx_integer h, co_number = hx_coerce h, co_fixed = hx_fixed h, co_pages = hx_pages h,
      co_assets = hx_assets h, co_origins = og, co_deployment = deployment,
      co_report = evaluateDeploymentReadiness deployment env,
      co_token = env ''WEPUU_OPERATIONS_METRICS_TOKEN'', co_identity = BetterAuthIdentity True,
      co_console_identity = Some ConsoleIdentity, co_accounts = Some lb, co_login = True, co_console = True,
      co_workspace = True, co_readiness = Some (\<lambda>d. True),
      co_pairing = map_option (\<lambda>k. control_pair h (ik_issuer k) (ik_pem k) (ik_kid k)) keys,
      co_grants = map_option (\<lambda>k. control_grants h (ik_signer k) (ik_key k) (ik_issuer k)) keys,
      co_issuer = map_option ik_issuer keys,
      co_bootstrap = map_option (\<lambda>k. verifyBootstrap (hx_runtime h) (hx_crypto h) (ik_verifier k)) keys\<rparr>"

definition startControlApi ::
  "control_host \<Rightarrow> environment \<Rightarrow> account_library \<Rightarrow> time \<Rightarrow> db \<Rightarrow> control_options result" where
  "startControlApi h env lb now d =
     (let rt = hx_runtime h in
      if env ''WEPUU_DATABASE_URL'' = None \<or> env ''WEPUU_DATABASE_URL'' = Some []
      then Inl ''WEPUU_DATABASE_URL is required''
      else and_then (control_origins env) (\<lambda>(authOrigin, appOrigin).
      and_then (loadPublicDeploymentConfig rt (hx_parse h) (hx_is_ip h) (hx_number h) env (Some appOrigin)) (\<lambda>deployment.
      and_then (accountAuthFromEnvironment rt (hx_parse h) (hx_decode h) (hx_number h) (hx_files h)
          (Some (hx_uid h)) env AuthWriter True now d) (\<lambda>accounts.
      and_then (load_issuer_keys h env now d) (\<lambda>keys.
      and_then (parsed_origins rt authOrigin appOrigin) (\<lambda>og.
      Inr (control_options_of h env lb og deployment keys)))))))"

end
