(* ===== verification/Control_Safety.thy ===== *)
theory Control_Safety
  imports Control_Frames Control_Main
begin

text \<open>
  What the control API guarantees of every request: who may change sites and grants, what a console page
  shows, and what the start of an authorization hands to the grant service.
\<close>

section \<open>Where a route lives\<close>

lemma join_split: "join_with [c] (split_on c s) = s"
proof (induction s)
  case (Cons x s)
  obtain y ys where "split_on c s = y # ys" using split_on_nonempty by (metis list.exhaust)
  with Cons show ?case by (cases ys) auto
qed simp

lemma path_start: "split_on CHR ''/'' path = [] # a # b # rest \<Longrightarrow> \<exists>more. path = CHR ''/'' # a @ CHR ''/'' # b @ more"
  using join_split [of "CHR ''/''" path] by (cases rest) auto

lemma get_routes_free: "map_of get_routes path = Some r \<Longrightarrow> \<not> authority_route r"
proof -
  have "list_all (\<lambda>x. \<not> authority_route (snd x)) get_routes"
    by (simp add: get_routes_def authority_route_def)
  then show "map_of get_routes path = Some r \<Longrightarrow> \<not> authority_route r"
    by (force simp: list_all_iff dest: map_of_SomeD)
qed

lemma post_routes_free:
  assumes "map_of post_routes path = Some r" and "authority_route r"
  shows "path = ''/v1/oauth/consent/start'' \<and> r = OAuthConsentStart"
proof -
  have "list_all (\<lambda>x. authority_route (snd x) \<longrightarrow> x = (''/v1/oauth/consent/start'', OAuthConsentStart)) post_routes"
    by (simp add: post_routes_def authority_route_def)
  with assms show ?thesis by (force simp: list_all_iff dest: map_of_SomeD)
qed

text \<open>The kind of origin that serves a route on sites and grants, for parameters that are not empty.\<close>

definition served_by_app :: "control_route \<Rightarrow> bool" where
  "served_by_app r \<longleftrightarrow> (case r of
     UiRevoke _ _ \<Rightarrow> True | UiDisconnect _ _ \<Rightarrow> True | ApiRevoke _ _ \<Rightarrow> True | ApiDisconnect _ _ \<Rightarrow> True
   | StartGrant _ _ \<Rightarrow> True | _ \<Rightarrow> False)"

text \<open>The two expressions of the hook, on the segments of a path.\<close>

definition pairing_segs :: "string list \<Rightarrow> bool" where
  "pairing_segs segs = (case segs of
     [a, b, c, t, p] \<Rightarrow> a = [] \<and> b = ''v1'' \<and> c = ''tenants'' \<and> t \<noteq> [] \<and> p = ''pairing'' | _ \<Rightarrow> False)"

definition completion_segs :: "string list \<Rightarrow> bool" where
  "completion_segs segs = (case segs of
     [a, b, c, t, g, i, p] \<Rightarrow> a = [] \<and> b = ''v1'' \<and> c = ''tenants'' \<and> t \<noteq> [] \<and> g = ''grants'' \<and> i \<noteq> [] \<and> p = ''complete''
   | _ \<Rightarrow> False)"

lemma path_segs:
  "pairing_path path = pairing_segs (split_on CHR ''/'' path)"
  "completion_path path = completion_segs (split_on CHR ''/'' path)"
  unfolding pairing_path_def completion_path_def pairing_segs_def completion_segs_def by (rule refl)+

lemma app_authority:
  assumes "tenant_route_of verb path = r" "authority_route r" "take 3 (split_on CHR ''/'' path) = [[], ''app'', ''tenants'']"
  shows "verb = ''POST'' \<and> app_only path \<and> ((\<exists>t i. r = UiRevoke t i) \<or> (\<exists>t i. r = UiDisconnect t i))"
proof -
  from assms(3) obtain rest where segs: "split_on CHR ''/'' path = [] # ''app'' # ''tenants'' # rest"
    by (metis append_Cons append_Nil append_take_drop_id)
  have r: "r = (if verb = ''GET'' then app_get_route rest else if verb = ''POST'' then app_post_route rest else NoRoute)"
    using assms(1) by (simp add: tenant_route_of_def segs)
  have get: "\<not> authority_route (app_get_route rest)"
    by (auto simp: app_get_route_def authority_route_def split: list.split)
  have post: "authority_route (app_post_route rest) \<Longrightarrow>
      (\<exists>t i. app_post_route rest = UiRevoke t i) \<or> (\<exists>t i. app_post_route rest = UiDisconnect t i)"
    by (auto simp: app_post_route_def authority_route_def split: list.splits if_splits)
  have "verb = ''POST''" using r assms(2) get by (auto simp: authority_route_def split: if_splits)
  moreover from this have "(\<exists>t i. r = UiRevoke t i) \<or> (\<exists>t i. r = UiDisconnect t i)" using r assms(2) post by simp
  moreover have "app_only path" using path_start [OF segs] by (auto simp: app_only_def starts_with_def)
  ultimately show ?thesis by simp
qed

lemma api_post_paths:
  assumes "authority_route (api_post_route rest)"
  shows "if served_by_app (api_post_route rest)
     then \<not> pairing_segs ([] # ''v1'' # ''tenants'' # rest) \<and> \<not> completion_segs ([] # ''v1'' # ''tenants'' # rest)
     else (\<forall>t. api_post_route rest = PairSite t \<longrightarrow> t \<noteq> []) \<and> (\<forall>t i. api_post_route rest = CompleteGrant t i \<longrightarrow> t \<noteq> [] \<and> i \<noteq> []) \<longrightarrow>
       pairing_segs ([] # ''v1'' # ''tenants'' # rest) \<or> completion_segs ([] # ''v1'' # ''tenants'' # rest)"
proof -
  consider t k where "rest = [t, k]" | t k i v where "rest = [t, k, i, v]"
    using assms by (auto simp: api_post_route_def authority_route_def split: list.splits)
  then show ?thesis
  proof cases
    case (1 t k)
    with assms have "k = ''pairing''" by (simp add: api_post_route_def authority_route_def split: if_splits)
    then have *: "api_post_route rest = PairSite (percent_decode t)" using 1 by (simp add: api_post_route_def)
    show ?thesis unfolding * by (cases "t = []") (simp_all add: served_by_app_def 1 \<open>k = _\<close> pairing_segs_def)
  next
    case (2 t k i v)
    show ?thesis
    proof (cases "k = ''grants'' \<and> v = ''complete''")
      case True
      then have *: "api_post_route rest = CompleteGrant (percent_decode t) (percent_decode i)"
        using 2 by (simp add: api_post_route_def Let_def)
      show ?thesis unfolding *
        by (cases "t = []"; cases "i = []") (simp_all add: served_by_app_def 2 True completion_segs_def)
    next
      case False
      then have "served_by_app (api_post_route rest)"
        using assms by (simp add: 2 api_post_route_def authority_route_def served_by_app_def Let_def split: if_splits)
      then show ?thesis using False by (auto simp: 2 pairing_segs_def completion_segs_def)
    qed
  qed
qed

lemma api_authority:
  assumes "tenant_route_of verb path = r" "authority_route r" "take 3 (split_on CHR ''/'' path) = [[], ''v1'', ''tenants'']"
  shows "verb = ''POST'' \<and> (starts_with path ''/app'' \<longrightarrow> (\<exists>t i. r = UiRevoke t i) \<or> (\<exists>t i. r = UiDisconnect t i))
      \<and> (if served_by_app r then app_only path
     else (\<forall>t. r = PairSite t \<longrightarrow> t \<noteq> []) \<and> (\<forall>t i. r = CompleteGrant t i \<longrightarrow> t \<noteq> [] \<and> i \<noteq> []) \<longrightarrow> auth_only path)"
proof -
  from assms(3) obtain rest where segs: "split_on CHR ''/'' path = [] # ''v1'' # ''tenants'' # rest"
    by (metis append_Cons append_Nil append_take_drop_id)
  have r: "r = (if verb = ''GET'' then api_get_route rest else if verb = ''POST'' then api_post_route rest else NoRoute)"
    using assms(1) by (simp add: tenant_route_of_def segs)
  have get: "\<not> authority_route (api_get_route rest)"
    by (auto simp: api_get_route_def authority_route_def split: list.split)
  from path_start [OF segs] obtain more where path: "path = ''/v1/tenants'' @ more" by auto
  have area: "starts_with path ''/v1/tenants'' \<and> (auth_only path \<longleftrightarrow> pairing_path path \<or> completion_path path) \<and> \<not> app_account_route path"
    unfolding auth_only_def by (simp add: path starts_with_def app_account_route_def)
  have post: "authority_route (api_post_route rest) \<Longrightarrow>
     (if served_by_app (api_post_route rest) then \<not> pairing_path path \<and> \<not> completion_path path
     else (\<forall>t. api_post_route rest = PairSite t \<longrightarrow> t \<noteq> []) \<and> (\<forall>t i. api_post_route rest = CompleteGrant t i \<longrightarrow> t \<noteq> [] \<and> i \<noteq> []) \<longrightarrow>
       pairing_path path \<or> completion_path path)"
    unfolding path_segs segs by (rule api_post_paths)
  have "verb = ''POST''" using r assms(2) get by (auto simp: authority_route_def split: if_splits)
  with r have "r = api_post_route rest" by simp
  moreover have "\<not> starts_with path ''/app''" by (simp add: path starts_with_def)
  ultimately show ?thesis using post assms(2) area \<open>verb = _\<close> by (auto simp: app_only_def)
qed

lemma authority_paths:
  assumes "route_of verb path = r" and "authority_route r"
  shows "verb = ''POST'' \<and> (starts_with path ''/app'' \<longrightarrow> (\<exists>t i. r = UiRevoke t i) \<or> (\<exists>t i. r = UiDisconnect t i))
      \<and> (if served_by_app r then app_only path
     else (\<forall>t. r = PairSite t \<longrightarrow> t \<noteq> []) \<and> (\<forall>t i. r = CompleteGrant t i \<longrightarrow> t \<noteq> [] \<and> i \<noteq> []) \<longrightarrow> auth_only path)"
proof (cases "map_of (if verb = ''GET'' then get_routes else if verb = ''POST'' then post_routes else []) path")
  case None
  then have t: "tenant_route_of verb path = r" using assms by (simp add: route_of_def)
  then consider "take 3 (split_on CHR ''/'' path) = [[], ''app'', ''tenants'']" |
      "take 3 (split_on CHR ''/'' path) = [[], ''v1'', ''tenants'']"
    using assms(2) by (auto simp: tenant_route_of_def authority_route_def Let_def split: if_splits)
  then show ?thesis
  proof cases
    case 1
    with app_authority [OF t assms(2)] show ?thesis by (auto simp: served_by_app_def)
  next
    case 2
    with api_authority [OF t assms(2)] show ?thesis by simp
  qed
next
  case (Some q)
  with assms have q: "q = r" by (simp add: route_of_def)
  show ?thesis
  proof (cases "verb = ''POST''")
    case True
    then have *: "path = ''/v1/oauth/consent/start'' \<and> r = OAuthConsentStart"
      using post_routes_free [OF _ assms(2)] Some q by simp
    have "auth_only ''/v1/oauth/consent/start''" "\<not> starts_with ''/v1/oauth/consent/start'' ''/app''" by (simp_all add: auth_only_def starts_with_def)
    with True * show ?thesis by (simp add: served_by_app_def)
  next
    case False
    then show ?thesis using Some q get_routes_free assms(2) by (auto split: if_splits)
  qed
qed


section \<open>Who may change sites and grants\<close>

lemma opaque_given: "object_params co t i \<Longrightarrow> i \<noteq> []"
  by (auto simp: object_params_def opaque_id_def dest!: rx_length)

lemma ui_origin: "is_ok (validateUiMutation og rq) \<Longrightarrow> kq_header ''origin'' rq = Some (og_app og)"
  by (auto simp: validateUiMutation_def is_ok_def split: if_splits)

text \<open>What the hook lets through: a known host, and the one that serves the path.\<close>

lemma hook_passes:
  assumes "preHandler og rq = Inr None"
  shows "splitOrigins og \<Longrightarrow> requestBoundary og rq \<noteq> UnknownBoundary"
    and "app_only (kq_path rq) \<Longrightarrow> boundary_origin og rq = og_app og"
    and "auth_only (kq_path rq) \<Longrightarrow> boundary_origin og rq = og_auth og"
  using assms
  by (auto simp: preHandler_def boundary_origin_def splitOrigins_def requestBoundary_def Let_def split: if_splits)

text \<open>A request that was admitted to a route on sites and grants showed the origin of the host it came to.\<close>

lemma admitted_origin:
  assumes "route_of (kq_method rq) (kq_path rq) = r" "authority_route r" "route_admitted co rq r"
    and pre: "preHandler (co_origins co) rq = Inr None" and "\<not> zod_uuid (co_runtime co) []"
  shows "kq_method rq = ''POST'' \<and> kq_header ''origin'' rq = Some (boundary_origin (co_origins co) rq)"
proof -
  note at = authority_paths [OF assms(1,2)]
  have given: "object_params co t i \<Longrightarrow> t \<noteq> [] \<and> i \<noteq> []" for t i
    using assms(5) opaque_given [of co t i] by (auto simp: object_params_def)
  have "kq_header ''origin'' rq = Some (boundary_origin (co_origins co) rq)"
  proof (cases "served_by_app r")
    case True
    with at have "boundary_origin (co_origins co) rq = og_app (co_origins co)" using hook_passes(2) [OF pre] by simp
    with True assms(3) show ?thesis
      by (cases r) (auto simp: served_by_app_def route_admitted_def Let_def dest: ui_origin)
  next
    case False
    with at assms(2,3,5) given have "auth_only (kq_path rq)"
      by (cases r) (auto simp: served_by_app_def authority_route_def route_admitted_def Let_def)
    then have "boundary_origin (co_origins co) rq = og_auth (co_origins co)" using hook_passes(3) [OF pre] by simp
    with False assms(2,3) show ?thesis
      by (cases r) (auto simp: served_by_app_def authority_route_def route_admitted_def Let_def)
  qed
  with at show ?thesis by simp
qed

lemma handled_route:
  assumes "handleControl co dw now elapsed rq s = (a, s')" and "\<not> same_authority (ks_db s) (ks_db s')"
  shows "preHandler (co_origins co) rq = Inr None"
    and "ks_db s' = ks_db (snd (run_route co dw now rq (route_of (kq_method rq) (kq_path rq)) s))"
  using assms by (auto simp: handleControl_def control_step_def split: prod.splits sum.splits option.splits)

section \<open>What a console reads\<close>

definition reads :: "'a tx \<Rightarrow> bool" where
  "reads op \<longleftrightarrow> (\<forall>t d b d'. op t d = Inr (b, d') \<longrightarrow> d' = d)"

lemma console_reads [simp]:
  "reads listSites" "reads listGrants" "reads (listEvents l i outcome)" "reads (findTenant t)"
  by (auto simp: reads_def listSites_def listGrants_def listEvents_def findTenant_def and_then_Inr Let_def)

lemma store_tenant:
  assumes "store (withTenant rt ctx op) s = (Inr a, s')" and "reads op"
  shows "s' = s \<and> (\<exists>t. se_role t = RoleControl \<and> se_tenant t = Some (ctx_tenant ctx) \<and>
     se_account t = Some (ctx_account ctx) \<and> op t (ks_db s) = Inr (a, ks_db s))"
  using assms by (fastforce simp: store_Inr reads_def elim!: withTenant_Inr)

lemma tenant_context_Inr:
  "tenant_context_of co t a c s = (Inr ctx, s') \<Longrightarrow>
     s' = s \<and> ctx = \<lparr>ctx_tenant = t, ctx_account = a, ctx_correlation = c\<rparr>"
  by (auto simp: tenant_context_of_def pure_step_def thrown_away_def parse_tenant_context_def
      split: sum.splits if_splits)

lemma set_insert_view: "set (insert_view v ws) = insert v (set ws)"
  by (induction ws) auto

lemma set_account_tenants:
  "set (list_current_account_tenants s d) = workspace_view d ` {m \<in> set (memberships d).
     Some (mem_account m) = se_account s \<and> mem_active m \<and> active_tenant d (mem_tenant m)}"
proof -
  have "set (foldr insert_view ws []) = set ws" for ws by (induction ws) (simp_all add: set_insert_view)
  then show ?thesis by (simp only: list_current_account_tenants_def set_map set_filter)
qed

text \<open>The membership that lets an account into a workspace.\<close>

definition member_of :: "db \<Rightarrow> string \<Rightarrow> string \<Rightarrow> bool" where
  "member_of d account t \<longleftrightarrow> active_tenant d t \<and>
     (\<exists>m\<in>set (memberships d). mem_tenant m = t \<and> mem_account m = account \<and> mem_active m)"

lemma memberships_Inr:
  assumes "membershipsFor co dw now rq s = (Inr (p, ms), s')"
  shows "authenticatedPrincipal co dw now rq s = (Inr p, s')"
    and "mv_tenant ` set ms = {t. member_of (ks_db s') (pr_account p) t}"
  using assms
  by (auto simp: membershipsFor_def proceed_Inr store_Inr listMemberships_def withAccountWorkspace_def answer_def throws_def
      transaction_Inr set_account_tenants member_of_def workspace_view_def image_iff split: if_splits)
    (blast+)?

text \<open>A row of another tenant is not among the views of a tenant.\<close>

lemma sites_shown:
  assumes "listSitesFor co ctx s = (Inr vs, s')"
  shows "s' = s \<and> set vs = site_view_of ` {r \<in> set (sites (ks_db s)). si_tenant r = ctx_tenant ctx \<and>
     has_active_membership (ks_db s) (si_tenant r) (Some (ctx_account ctx)) \<and> si_status r \<noteq> SiteDeleted}"
proof -
  from store_tenant [OF assms [unfolded listSitesFor_def]] show ?thesis
    by (auto simp: listSites_def site_select_def)
qed

lemma grants_shown:
  assumes "listGrantsFor co ctx s = (Inr vs, s')"
  shows "s' = s \<and> (\<forall>v\<in>set vs. \<exists>r\<in>set (grants (ks_db s)). grant_view_of r = Some v \<and> gr_tenant r = ctx_tenant ctx)"
proof -
  from store_tenant [OF assms [unfolded listGrantsFor_def]]
  obtain t where t: "s' = s" "se_role t = RoleControl" "se_tenant t = Some (ctx_tenant ctx)"
      "listGrants t (ks_db s) = Inr (vs, ks_db s)" by auto
  from t(4) have m: "map grant_view_of (sort_key gr_created (sort_key (\<lambda>r. text_key (gr_id r))
      (filter (grant_access t (ks_db s)) (grants (ks_db s))))) = map Some vs"
    by (auto simp: listGrants_def and_then_Inr parse_or_throw_def z_all_Some split: option.splits)
  have "\<exists>r\<in>set (filter (grant_access t (ks_db s)) (grants (ks_db s))). grant_view_of r = Some v" if "v \<in> set vs" for v
  proof -
    from that have "Some v \<in> set (map Some vs)" by simp
    then show ?thesis unfolding m [symmetric] by auto
  qed
  with t show ?thesis by (fastforce simp: grant_access_def)
qed

lemma events_shown:
  assumes "listEventsFor co ctx l i outcome s = (Inr vs, s')"
  shows "s' = s \<and> set vs \<subseteq> event_view_of ` {r \<in> set (events (ks_db s)). ev_tenant r = ctx_tenant ctx}"
proof -
  from store_tenant [OF assms [unfolded listEventsFor_def]] show ?thesis
    by (auto simp: listEvents_def Let_def set_visible_events security_event_access_def
        dest!: in_set_takeD in_set_dropD)
qed

lemma tenant_found:
  assumes "findTenantFor co ctx s = (Inr v, s')"
  shows "s' = s"
proof -
  from store_tenant [OF assms [unfolded findTenantFor_def]] show ?thesis
 by simp
qed

section \<open>The start of an authorization\<close>

lemma matching_Inr:
  assumes "matching_sites co dw account resource i ms s = (Inr found, s')"
  shows "s' = s \<and> (\<forall>(c, v)\<in>set found. ctx_tenant c = sv_tenant v \<and> ctx_account c = account)
    \<and> snd ` set found = site_view_of ` {r \<in> set (sites (ks_db s)). si_tenant r \<in> mv_tenant ` set ms
        \<and> si_status r = SiteActive \<and> si_resource r = resource
        \<and> has_active_membership (ks_db s) (si_tenant r) (Some account)}"
  using assms
proof (induction ms arbitrary: i found)
  case Nil
  then show ?case by (simp add: answer_def)
next
  case (Cons m ms)
  obtain ctx s1 ss s2 rest where
    a: "tenant_context_of co (mv_tenant m) account (dw_correlation dw i) s = (Inr ctx, s1)"
      "listSitesFor co ctx s1 = (Inr ss, s2)" "matching_sites co dw account resource (Suc i) ms s2 = (Inr rest, s')"
      "found = map (\<lambda>v. (ctx, v)) (filter (\<lambda>v. sv_status v = SiteActive \<and> sv_resource v = resource) ss) @ rest"
    using Cons.prems by (auto simp: proceed_Inr answer_def)
  note ctx = tenant_context_Inr [OF a(1)] and shown = sites_shown [OF a(2)]
  then have "matching_sites co dw account resource (Suc i) ms s = (Inr rest, s')" using a(3) by simp
  note rest = Cons.IH [OF this]
  let ?shown = "filter (\<lambda>v. sv_status v = SiteActive \<and> sv_resource v = resource) ss"
  have "set ?shown = site_view_of ` {r \<in> set (sites (ks_db s)). si_tenant r = mv_tenant m
      \<and> si_status r = SiteActive \<and> si_resource r = resource
      \<and> has_active_membership (ks_db s) (si_tenant r) (Some account)}"
    using ctx shown by (auto simp: site_view_of_def)
  moreover have "snd ` set found = set ?shown \<union> snd ` set rest" by (simp add: a(4) image_Un image_image)
  ultimately have "snd ` set found = site_view_of ` {r \<in> set (sites (ks_db s)). si_tenant r \<in> mv_tenant ` set (m # ms)
      \<and> si_status r = SiteActive \<and> si_resource r = resource
      \<and> has_active_membership (ks_db s) (si_tenant r) (Some account)}"
    using rest by auto
  moreover have "\<forall>v\<in>set ss. sv_tenant v = mv_tenant m" using ctx shown by (auto simp: site_view_of_def)
  then have "\<forall>(c, v)\<in>set found. ctx_tenant c = sv_tenant v \<and> ctx_account c = account"
    using ctx rest by (auto simp: a(4))
  ultimately show ?case using rest by simp
qed

section \<open>What a revocation from the console touches\<close>

lemma revoke_view_Inr:
  assumes "withTenant rt ctx (revokeGrantView t i now) d = (Inr b, d')"
  shows "sites d' = sites d \<and> (grants d' = grants d \<or> has_active_membership d t (Some (ctx_account ctx)) \<and>
     grants d' = sql_update (\<lambda>r. gr_tenant r = t \<and> gr_id r = i \<and> grant_live r \<and>
         (gr_subject r = ctx_account ctx \<or> has_tenant_role d t (Some (ctx_account ctx)) manager_roles))
       (revoke_grant_row ''platform_user_revoked'' now) (grants d))"
proof -
  from assms obtain s where s: "se_account s = Some (ctx_account ctx)" "revokeGrantView t i now s d = Inr (b, d')"
    by (elim withTenant_Inr)
  then show ?thesis
    by (auto simp: revokeGrantView_def revoke_grant_with_event_def tx_succ)
qed

text \<open>The rows one console revocation may touch: the live grant it names, in the workspace of the request, if it
  belongs to the account of the session or that account manages the workspace.\<close>

definition revocable_by :: "db \<Rightarrow> tenant_context \<Rightarrow> string \<Rightarrow> grant_row \<Rightarrow> bool" where
  "revocable_by d ctx i r \<longleftrightarrow> gr_tenant r = ctx_tenant ctx \<and> gr_id r = i \<and> grant_live r \<and>
     (gr_subject r = ctx_account ctx \<or> has_tenant_role d (ctx_tenant ctx) (Some (ctx_account ctx)) manager_roles)"

lemma context_tenant:
  "requestContext co dw now rq t s = (Inr ctx, s') \<Longrightarrow> ctx_tenant ctx = t"
  by (auto simp: requestContext_def proceed_Inr Let_def throws_def tenant_context_of_def pure_step_def thrown_away_def
      parse_tenant_context_def split: option.splits if_splits sum.splits)

lemma revoke_step:
  assumes "proceed (requestContext co dw now rq t) (\<lambda>ctx. demand ok e (proceed (revokeGrantFor co ctx i now) (\<lambda>_. answer (r ctx)))) s = (a, s')"
  shows "sites (ks_db s') = sites (ks_db s) \<and> (grants (ks_db s') = grants (ks_db s) \<or>
    (\<exists>ctx s1. requestContext co dw now rq t s = (Inr ctx, s1) \<and> ctx_tenant ctx = t \<and>
      has_active_membership (ks_db s1) t (Some (ctx_account ctx)) \<and>
      grants (ks_db s') = sql_update (revocable_by (ks_db s1) ctx i)
        (revoke_grant_row ''platform_user_revoked'' now) (grants (ks_db s))))"
proof -
  obtain c s1 where c: "requestContext co dw now rq t s = (c, s1)" by fastforce
  have same: "sites (ks_db s1) = sites (ks_db s)" "grants (ks_db s1) = grants (ks_db s)"
    using authority.within_step [OF authority.within_context(2) c] by (simp_all add: same_authority_def)
  show ?thesis
  proof (cases c)
    case (Inl x)
    with assms c same show ?thesis by (auto simp: proceed_def)
  next
    case (Inr ctx)
    obtain v d where v: "withTenant (co_runtime co) ctx (revokeGrantView (ctx_tenant ctx) i now) (ks_db s1) = (v, d)"
      by fastforce
    show ?thesis
    proof (cases v)
      case (Inl x)
      with v have "d = ks_db s1" by (metis withTenant_rollback)
      with Inl v Inr assms c same show ?thesis
        by (auto simp: proceed_def demand_def throws_def revokeGrantFor_def store_def thrown_away_def split: if_splits)
    next
      case r: (Inr b)
      note eff = revoke_view_Inr [OF v [unfolded r]]
      from Inr c have t: "requestContext co dw now rq t s = (Inr ctx, s1)" "ctx_tenant ctx = t"
        using context_tenant [of co dw now rq t s ctx s1] by simp_all
      with eff v r assms same show ?thesis
        by (auto simp: proceed_def demand_def throws_def revokeGrantFor_def store_def thrown_away_def answer_def
          revocable_by_def [abs_def] split: if_splits)
    qed
  qed
qed

definition revocation_scoped :: "control_options \<Rightarrow> control_draws \<Rightarrow> time \<Rightarrow> control_request \<Rightarrow> string \<Rightarrow> string \<Rightarrow>
    control_state \<Rightarrow> control_state \<Rightarrow> bool" where
  "revocation_scoped co dw now rq t i s s' \<longleftrightarrow> sites (ks_db s') = sites (ks_db s) \<and> (grants (ks_db s') = grants (ks_db s) \<or>
    (\<exists>ctx s1. requestContext co dw now rq t s = (Inr ctx, s1) \<and> ctx_tenant ctx = t \<and>
      has_active_membership (ks_db s1) t (Some (ctx_account ctx)) \<and>
      grants (ks_db s') = sql_update (revocable_by (ks_db s1) ctx i)
        (revoke_grant_row ''platform_user_revoked'' now) (grants (ks_db s))))"

lemma revoke_routes:
  "ui_mutation_route co dw now rq t i (revokeGrantFor co) page s = (a, s') \<Longrightarrow> revocation_scoped co dw now rq t i s s'"
  "api_mutation_route co dw now rq t i (revokeGrantFor co) s = (a, s') \<Longrightarrow> revocation_scoped co dw now rq t i s s'"
  unfolding revocation_scoped_def
  subgoal
    unfolding ui_mutation_route_def proceed_def [of "pure_step _"]
    by (cases "validateUiMutation (co_origins co) rq") (auto simp: pure_step_def dest!: revoke_step)
  subgoal
    unfolding api_mutation_route_def demand_def [of "kq_header _ _ = _"]
    by (auto simp: throws_def dest!: revoke_step split: if_splits)
  done

section \<open>Properties\<close>

text \<open>An example: the owner of a site revokes a grant from a console with one origin.\<close>

definition sample_site_tenant :: string where
  "sample_site_tenant = replicate 36 CHR ''1''"

definition sample_revocation_request :: control_request where
  "sample_revocation_request = \<lparr>kq_method = ''POST'',
     kq_path = ''/v1/tenants/'' @ sample_site_tenant @ ''/grants/grant-0001/revoke'', kq_search = [], kq_query = [],
     kq_headers = [(''host'', ''p.example''), (''origin'', ''https://p.example''),
       (''cookie'', ''__Host-wepuu_session='' @ sample_token CHR ''S''),
       (''idempotency-key'', ''revoke-grant-0001'')], kq_ip = ''198.51.100.7'', kq_body = NoBody\<rparr>"

definition sample_deployed :: deployment_config where
  "sample_deployed = \<lparr>dp_mode = ModeTest, dp_product = ''WePuu'', dp_origin = ''https://p.example'', dp_legal = [],
     dp_terms = None, dp_privacy = None, dp_support = None, dp_status = None, dp_region = [], dp_proxies = [],
     dp_version = [], dp_revision = [], dp_identity = [], dp_retention = [], dp_compatibility = []\<rparr>"

definition sample_control :: control_options where
  "sample_control = \<lparr>co_runtime = sample_runtime, co_url = (\<lambda>path base. None), co_iso = (\<lambda>t. ''2026-01-01T00:00:00Z''),
     co_instant = (\<lambda>s. 0), co_integer = (\<lambda>s. None), co_number = (\<lambda>j. None), co_fixed = (\<lambda>i. []),
     co_pages = \<lparr>pg_uuid = id, pg_utc = (\<lambda>t. [])\<rparr>, co_assets = id,
     co_origins = \<lparr>og_auth = ''https://p.example'', og_app = ''https://p.example'', og_auth_host = ''p.example'',
       og_app_host = ''p.example''\<rparr>,
     co_deployment = sample_deployed, co_report = (False, []), co_token = None, co_identity = SessionIdentity,
     co_console_identity = None, co_accounts = None, co_login = False, co_console = False, co_workspace = True,
     co_readiness = None, co_pairing = None, co_grants = None, co_issuer = None, co_bootstrap = None\<rparr>"

definition sample_draws :: control_draws where
  "sample_draws = \<lparr>dw_correlation = (\<lambda>i. ''corr-0001''), dw_csrf = [], dw_token = [], dw_request = [], dw_secret = [],
     dw_account = [], dw_tenant = [], dw_delivery = [], dw_id = id, dw_challenge = []\<rparr>"

definition sample_control_db :: db where
  "sample_control_db = sample_pairing_db\<lparr>accounts := [\<lparr>acc_id = ''account-1'', acc_status = TActive, acc_issuer = None,
       acc_subject_hash = None\<rparr>],
     account_sessions := [\<lparr>as_hash = pad32 (sample_token CHR ''S''), as_account = ''account-1'', as_issuer = ''i'',
       as_authenticated = 1000, as_expires = 90000000, as_revoked = None\<rparr>],
     tenants := [\<lparr>ten_id = sample_site_tenant, ten_status = TActive, ten_created = 0\<rparr>],
     sites := [sample_site_row], grants := [sample_pending\<lparr>gr_status := GrantActive\<rparr>]\<rparr>"

definition sample_control_state :: control_state where
  "sample_control_state = \<lparr>ks_db = sample_control_db, ks_diagnostics = [],
     ks_metrics = \<lparr>km_requests = 0, km_duration = 0, km_status = (\<lambda>k. 0), km_otp = (\<lambda>k. 0)\<rparr>\<rparr>"

text \<open>
  C4. A request to the control API that changes a site or a grant was a POST, carried a valid identity and
  the origin of the service; where the service has two origins, it came to the host of one of them and
  carried the origin of that host (with one origin the host is not looked at).  A request from the pages
  under \<open>/app\<close> also showed the token of the form.  Better Auth is assumed not to write to the two tables.
\<close>

theorem authority_needs_same_origin:
  assumes "library_within same_authority co" and "\<not> zod_uuid (co_runtime co) []"
    and "handleControl co dw now elapsed rq s = (a, s')"
    and "\<not> same_authority (ks_db s) (ks_db s')"
  shows "kq_method rq = ''POST'' \<and> identified co dw now rq s
    \<and> kq_header ''origin'' rq = Some (boundary_origin (co_origins co) rq)
    \<and> (splitOrigins (co_origins co) \<longrightarrow> requestBoundary (co_origins co) rq \<noteq> UnknownBoundary)
    \<and> (starts_with (kq_path rq) ''/app'' \<longrightarrow> is_ok (validateUiMutation (co_origins co) rq))"
proof -
  let ?r = "route_of (kq_method rq) (kq_path rq)"
  note pre = handled_route(1) [OF assms(3,4)]
  have changed: "\<not> same_authority (ks_db s) (ks_db (snd (run_route co dw now rq ?r s)))"
    using handled_route(2) [OF assms(3,4)] assms(4) by simp
  have route: "authority_route ?r"
    using authority.route_within [OF assms(1)] changed unfolding within_def by blast
  then have ok: "route_admitted co rq ?r" "identified co dw now rq s"
    using authority.route_gate changed by blast+
  have "is_ok (validateUiMutation (co_origins co) rq)" if "starts_with (kq_path rq) ''/app''"
    using authority_paths [OF refl route] that ok(1) by (auto simp: route_admitted_def Let_def)
  with ok(2) admitted_origin [OF refl route ok(1) pre assms(2)] hook_passes(1) [OF pre] show ?thesis by simp
qed

lemma sample_revocation_eval:
  "gr_status (hd (grants (ks_db (snd (handleControl sample_control sample_draws 2000 3 sample_revocation_request
     sample_control_state))))) = GrantRevoked"
  by code_simp

theorem authority_needs_same_origin_witness:
  "identified sample_control sample_draws 2000 sample_revocation_request sample_control_state
   \<and> kq_header ''origin'' sample_revocation_request =
       Some (boundary_origin (co_origins sample_control) sample_revocation_request)"
proof -
  let ?s = "snd (handleControl sample_control sample_draws 2000 3 sample_revocation_request sample_control_state)"
  have "gr_status (hd (grants (ks_db sample_control_state))) = GrantActive"
    by (simp add: sample_control_state_def sample_control_db_def)
  with sample_revocation_eval have changed: "\<not> same_authority (ks_db sample_control_state) (ks_db ?s)"
    by (auto simp: same_authority_def)
  have "library_within same_authority sample_control" "\<not> zod_uuid (co_runtime sample_control) []"
    by (simp_all add: library_within_def sample_control_def sample_runtime_def)
  from authority_needs_same_origin [OF this prod.collapse [symmetric] changed] show ?thesis by blast
qed

text \<open>
  C14. A revocation asked of the console, from its pages or its API, changes no site and no grant but the one
  it names: the live grant with that id in the workspace of the path, for which the session's account must be
  an active member, and only if the grant is that account's own or the account manages the workspace.
\<close>

theorem console_revocation_scoped:
  assumes "route_of (kq_method rq) (kq_path rq) \<in> {UiRevoke t i, ApiRevoke t i}"
    and "handleControl co dw now elapsed rq s = (a, s')"
  shows "sites (ks_db s') = sites (ks_db s) \<and> (grants (ks_db s') = grants (ks_db s) \<or>
    (\<exists>ctx s1. requestContext co dw now rq t s = (Inr ctx, s1) \<and> ctx_tenant ctx = t \<and>
      has_active_membership (ks_db s1) t (Some (ctx_account ctx)) \<and>
      grants (ks_db s') = sql_update (revocable_by (ks_db s1) ctx i)
        (revoke_grant_row ''platform_user_revoked'' now) (grants (ks_db s))))"
proof -
  obtain b s2 where route: "run_route co dw now rq (route_of (kq_method rq) (kq_path rq)) s = (b, s2)" by fastforce
  with assms(1) have "revocation_scoped co dw now rq t i s s2" by (auto simp: run_route_def intro: revoke_routes)
  moreover have "ks_db s' \<in> {ks_db s, ks_db s2}"
    using assms(2) route by (auto simp: handleControl_def control_step_def split: prod.splits sum.splits option.splits)
  ultimately show ?thesis by (auto simp: revocation_scoped_def)
qed

theorem console_revocation_scoped_witness:
  "\<exists>ctx s1. requestContext sample_control sample_draws 2000 sample_revocation_request sample_site_tenant
       sample_control_state = (Inr ctx, s1) \<and> ctx_tenant ctx = sample_site_tenant \<and>
     grants (ks_db (snd (handleControl sample_control sample_draws 2000 3 sample_revocation_request sample_control_state))) =
       sql_update (revocable_by (ks_db s1) ctx ''grant-0001'') (revoke_grant_row ''platform_user_revoked'' 2000)
         (grants (ks_db sample_control_state))"
proof -
  let ?s = "snd (handleControl sample_control sample_draws 2000 3 sample_revocation_request sample_control_state)"
  have "gr_status (hd (grants (ks_db sample_control_state))) = GrantActive"
    by (simp add: sample_control_state_def sample_control_db_def)
  with sample_revocation_eval have changed: "grants (ks_db ?s) \<noteq> grants (ks_db sample_control_state)" by auto
  have "route_of (kq_method sample_revocation_request) (kq_path sample_revocation_request) =
      ApiRevoke sample_site_tenant ''grant-0001''"
    by code_simp
  then have "route_of (kq_method sample_revocation_request) (kq_path sample_revocation_request)
      \<in> {UiRevoke sample_site_tenant ''grant-0001'', ApiRevoke sample_site_tenant ''grant-0001''}" by simp
  from console_revocation_scoped [OF this prod.collapse [symmetric]] changed show ?thesis by blast
qed

text \<open>
  C15. A console page shows one workspace of which the account is an active member, and every site, grant
  and event on it is a row of that workspace: what other tenants keep in the same tables never reaches
  a page.
\<close>

theorem tenant_page_scoped:
  assumes "tenantPageModel co dw now rq t act s = (Inr (m, cookies), s')"
  shows "\<exists>p. authenticatedPrincipal co dw now rq s = (Inr p, s') \<and> member_of (ks_db s') (pr_account p) t
    \<and> mv_tenant (tp_membership m) = t
    \<and> (\<forall>v\<in>set (tp_sites m). \<exists>r\<in>set (sites (ks_db s')). v = site_view_of r \<and> si_tenant r = t)
    \<and> (\<forall>v\<in>set (tp_grants m). \<exists>r\<in>set (grants (ks_db s')). grant_view_of r = Some v \<and> gr_tenant r = t)
    \<and> (\<forall>v\<in>set (tp_events m). \<exists>r\<in>set (events (ks_db s')). v = event_view_of r \<and> ev_tenant r = t)"
proof -
  obtain csrf ck where csrf: "uiCsrf (dw_csrf dw) rq = (csrf, ck)" by fastforce
  obtain l i :: int and out where window: "(case act of None \<Rightarrow> (50, 0, None) | Some (n, out) \<Rightarrow> (21, (n - 1) * 20, out)) = (l, i, out)"
    using prod_cases3 by blast
  from assms obtain p ms s1 w ctx s2 found s3 s4 s5 rows where
    a: "membershipsFor co dw now rq s = (Inr (p, ms), s1)" "lookup_by mv_tenant t ms = Some w"
      "tenant_context_of co (mv_tenant w) (pr_account p) (dw_correlation dw 0) s1 = (Inr ctx, s2)"
      "findTenantFor co ctx s2 = (Inr found, s3)" "listSitesFor co ctx s3 = (Inr (tp_sites m), s4)"
      "listGrantsFor co ctx s4 = (Inr (tp_grants m), s5)" "listEventsFor co ctx l i out s5 = (Inr rows, s')"
      "tp_membership m = w" "set (tp_events m) \<subseteq> set rows"
    unfolding tenantPageModel_def
    by (auto simp: proceed_Inr given_def demand_def throws_def answer_def csrf window Let_def set_take_subset
        split: if_splits option.splits)
  have ctx: "s2 = s1" "ctx_tenant ctx = t" using tenant_context_Inr [OF a(3)] lookup_byD [OF a(2)] by auto
  have same: "s1 = s'" using ctx a tenant_found [OF a(4)] sites_shown [OF a(5)] grants_shown [OF a(6)] events_shown [OF a(7)]
    by simp
  have "mv_tenant w \<in> mv_tenant ` set ms" "mv_tenant w = t" using lookup_byD [OF a(2)] by auto
  then have "member_of (ks_db s') (pr_account p) t" using memberships_Inr(2) [OF a(1)] same by auto
  moreover have "authenticatedPrincipal co dw now rq s = (Inr p, s')" using memberships_Inr(1) [OF a(1)] same by simp
  moreover have "s3 = s'" "s4 = s'" "s5 = s'"
    using same ctx tenant_found [OF a(4)] sites_shown [OF a(5)] grants_shown [OF a(6)] by simp_all
  ultimately show ?thesis
    using sites_shown [OF a(5)] grants_shown [OF a(6)] events_shown [OF a(7)] a(8,9) ctx \<open>mv_tenant w = t\<close> by fastforce
qed


theorem tenant_page_scoped_witness:
  "\<exists>m :: tenant_page. mv_tenant (tp_membership m) = sample_site_tenant
     \<and> (\<forall>v\<in>set (tp_sites m). sv_tenant v = sample_site_tenant)"
proof -
  have "is_ok (fst (tenantPageModel sample_control sample_draws 2000 sample_revocation_request sample_site_tenant None
      sample_control_state))"
    by code_simp
  then obtain m cookies s' where "tenantPageModel sample_control sample_draws 2000 sample_revocation_request
      sample_site_tenant None sample_control_state = (Inr (m, cookies), s')"
    by (metis ok_outcome surj_pair)
  from tenant_page_scoped [OF this] have "mv_tenant (tp_membership m) = sample_site_tenant"
    and "\<forall>v\<in>set (tp_sites m). sv_tenant v = sample_site_tenant"
    by (auto simp: site_view_of_def)
  then show ?thesis by blast
qed

text \<open>
  C9. An authorization is started only from the origin of the identity service, for the account that
  is signed in, and on claims that verify for that account.  Exactly one active site in all workspaces of
  the account has the resource of the claims; the grant service is asked for that site in its tenant, with
  the client and the scopes of the claims and a key made of the account and the interaction, and the
  answer is what it returned.
\<close>

theorem consent_start_sound:
  assumes "consent_start_route co dw now rq s = (Inr reply, s')"
  shows "\<exists>request p s1 c scopes ctx site ops g d.
     kq_header ''origin'' rq = Some (og_auth (co_origins co))
   \<and> OAuthConsentStartBodySchema (raw_body rq) = Some request
   \<and> authenticatedPrincipal co dw now rq s = (Inr p, s1)
   \<and> bootstrap_claims_of co now request (pr_account p) = Some (c, scopes)
   \<and> {site_view_of r | r. r \<in> set (sites (ks_db s1)) \<and> member_of (ks_db s1) (pr_account p) (si_tenant r)
        \<and> si_status r = SiteActive \<and> si_resource r = bc_resource c} = {site}
   \<and> ctx_tenant ctx = sv_tenant site \<and> ctx_account ctx = pr_account p
   \<and> co_grants co = Some ops
   \<and> go_start ops dw now ctx \<lparr>gs_site = sv_id site, gs_client = bc_client c, gs_scopes = scopes,
       gs_key = consent_key co (pr_account p) (bc_uid c)\<rparr> (ks_db s1) = (Inr g, d)
   \<and> reply = consent_started co (bc_uid c) g"
proof -
  from assms obtain request p ms s1 c scopes found s2 where
    a: "kq_header ''origin'' rq = Some (og_auth (co_origins co))"
      "OAuthConsentStartBodySchema (raw_body rq) = Some request"
      "membershipsFor co dw now rq s = (Inr (p, ms), s1)"
      "bootstrap_claims_of co now request (pr_account p) = Some (c, scopes)"
      "matching_sites co dw (pr_account p) (bc_resource c) 0 ms s1 = (Inr found, s2)"
    and b: "(case found of [(ctx, site)] \<Rightarrow>
         start_grant co dw now ctx \<lparr>gs_site = sv_id site, gs_client = bc_client c, gs_scopes = scopes,
           gs_key = consent_key co (pr_account p) (bc_uid c)\<rparr> (consent_started co (bc_uid c))
     | _ \<Rightarrow> throws invalid_request) s2 = (Inr reply, s')"
    unfolding consent_start_route_def
    by (auto simp: proceed_Inr given_def demand_def throws_def split: if_splits option.splits prod.splits)
  obtain ctx site where found: "found = [(ctx, site)]"
    using b by (auto simp: throws_def split: list.splits prod.splits)
  with b obtain ops g d where g: "co_grants co = Some ops"
      "go_start ops dw now ctx \<lparr>gs_site = sv_id site, gs_client = bc_client c, gs_scopes = scopes,
       gs_key = consent_key co (pr_account p) (bc_uid c)\<rparr> (ks_db s2) = (Inr g, d)"
      "reply = consent_started co (bc_uid c) g"
    by (auto simp: start_grant_def rescue_def throws_def proceed_Inr store_Inr answer_def safeAudit_def split: option.splits prod.splits sum.splits)
  note m = matching_Inr [OF a(5)]
  have "{site} = site_view_of ` {r \<in> set (sites (ks_db s1)). si_tenant r \<in> mv_tenant ` set ms
      \<and> si_status r = SiteActive \<and> si_resource r = bc_resource c
      \<and> has_active_membership (ks_db s1) (si_tenant r) (Some (pr_account p))}"
    using m by (simp add: found)
  also have "\<dots> = {site_view_of r | r. r \<in> set (sites (ks_db s1)) \<and> member_of (ks_db s1) (pr_account p) (si_tenant r)
        \<and> si_status r = SiteActive \<and> si_resource r = bc_resource c}"
    unfolding memberships_Inr(2) [OF a(3)] by (auto simp: member_of_def has_active_membership_def list_ex_iff)
  finally have one: "{site_view_of r | r. r \<in> set (sites (ks_db s1)) \<and> member_of (ks_db s1) (pr_account p) (si_tenant r)
        \<and> si_status r = SiteActive \<and> si_resource r = bc_resource c} = {site}" by (rule sym)
  have "s2 = s1" "ctx_tenant ctx = sv_tenant site" "ctx_account ctx = pr_account p" using m by (simp_all add: found)
  with g have "go_start ops dw now ctx \<lparr>gs_site = sv_id site, gs_client = bc_client c, gs_scopes = scopes,
       gs_key = consent_key co (pr_account p) (bc_uid c)\<rparr> (ks_db s1) = (Inr g, d)" by simp
  with a(1,2,4) memberships_Inr(1) [OF a(3)] one g(1,3) \<open>ctx_tenant ctx = _\<close> \<open>ctx_account ctx = _\<close>
  show ?thesis by blast
qed

text \<open>An example: the account of the site starts the authorization of a client.\<close>

definition sample_start_claims :: bootstrap_claims where
  "sample_start_claims = \<lparr>bc_uid = ''interaction-0001'', bc_client = ''client-01'', bc_resource = ''https://a.example/mcp'',
     bc_scopes = [''mcp:read''], bc_subject = ''account-1'', bc_jti = replicate 32 CHR ''j''\<rparr>"

definition sample_starting :: control_options where
  "sample_starting = sample_control\<lparr>co_grants := Some \<lparr>go_start = (\<lambda>dw now ctx q d.
         (Inr \<lparr>sg_grant = ''grant-0002'', sg_url = ''https://a.example/consent'', sg_until = now + 120000\<rparr>, d)),
       go_complete = (\<lambda>now ctx q d. (Inr (), d))\<rparr>,
     co_issuer := Some ''https://p.example/'',
     co_bootstrap := Some (\<lambda>jws e now. if be_subject e = ''account-1'' then Inr sample_start_claims else Inl ''invalid'')\<rparr>"

definition sample_start_request :: control_request where
  "sample_start_request = sample_revocation_request\<lparr>kq_path := ''/v1/oauth/consent/start'',
     kq_body := JsonBody (JObj [(''request'', JStr ''jws'')])\<rparr>"

theorem consent_start_sound_witness:
  "\<exists>p s1. authenticatedPrincipal sample_starting sample_draws 2000 sample_start_request sample_control_state = (Inr p, s1)
     \<and> (\<exists>site. site \<in> {site_view_of r | r. r \<in> set (sites (ks_db s1))})"
proof -
  have "is_ok (fst (consent_start_route sample_starting sample_draws 2000 sample_start_request sample_control_state))"
    by code_simp
  then obtain reply s' where "consent_start_route sample_starting sample_draws 2000 sample_start_request
      sample_control_state = (Inr reply, s')"
    by (metis ok_outcome surj_pair)
  from consent_start_sound [OF this] show ?thesis by blast
qed

end
