(* ===== verification/Control_Returns.thy ===== *)
theory Control_Returns
  imports Control_Safety
begin

text \<open>
  Where a sign-in may lead.  \<open>control_invariant\<close> extends \<open>control_frame\<close> with the decisions over sites and grants,
  so that every request stays within a relation; it is interpreted on the return paths that the logins
  of the identity service and of the console keep in their tables.
\<close>

section \<open>Requests that decide over sites and grants\<close>

text \<open>With what a relation says of those operations too, every request stays within it.\<close>

locale control_invariant = control_frame +
  assumes revoke: "R d (snd (withTenant rt ctx (revokeGrantView t g now) d))"
    and disconnect: "R d (snd (withTenant rt ctx (disconnectSite t g now) d))"
begin

lemma within_decisions [within_intros]:
  "within R (revokeGrantFor co ctx g now)" "within R (disconnectSiteFor co ctx g now)"
  unfolding revokeGrantFor_def disconnectSiteFor_def
  by (auto intro!: within_store revoke disconnect)

lemma within_present:
  "(\<And>a. v = Some a \<Longrightarrow> within R (f a)) \<Longrightarrow> within R (given v e f)"
  by (simp add: given_def within_throws split: option.split)

lemma within_grants:
  assumes "operations_within R co"
  shows "co_pairing co = Some pair \<Longrightarrow> within R (attempt (pair dw now ctx body))"
    and "within R (start_grant co dw now ctx q answered)"
    and "co_grants co = Some g \<Longrightarrow> within R (attempt (go_complete g now ctx q'))"
proof -
  note ops = assms [unfolded operations_within_def]
  show "co_pairing co = Some pair \<Longrightarrow> within R (attempt (pair dw now ctx body))"
    using ops by (intro within_attempt) blast
  show "within R (start_grant co dw now ctx q answered)"
    unfolding start_grant_def using ops by (auto split: option.split intro!: within_intros within_store)
  show "co_grants co = Some g \<Longrightarrow> within R (attempt (go_complete g now ctx q'))"
    using ops by (intro within_attempt) blast
qed

lemma within_authority_routes:
  assumes "operations_within R co"
  shows "within R (pairing_route co dw now rq t)" "within R (consent_start_route co dw now rq)"
    "within R (grant_start_route co dw now rq t i)" "within R (grant_complete_route co dw now rq t i)"
    "within R (ui_mutation_route co dw now rq t i (revokeGrantFor co) back)"
    "within R (ui_mutation_route co dw now rq t i (disconnectSiteFor co) back)"
    "within R (api_mutation_route co dw now rq t i (revokeGrantFor co))"
    "within R (api_mutation_route co dw now rq t i (disconnectSiteFor co))"
  unfolding pairing_route_def pairing_refused_def pairing_outcome_def consent_start_route_def grant_start_route_def
    grant_complete_route_def ui_mutation_route_def api_mutation_route_def Let_def
  by (intro within_present within_intros within_grants [OF assms]; assumption?)+

lemma request_within:
  assumes "library_within R co" and "operations_within R co"
  shows "R (ks_db s) (ks_db (snd (handleControl co dw now elapsed rq s)))"
proof -
  have "within R (run_route co dw now rq r)" for r
  proof (cases "authority_route r")
    case True
    then show ?thesis
      by (cases r) (simp_all add: run_route_def authority_route_def within_authority_routes [OF assms(2)])
  qed (rule route_within [OF assms(1)])
  then have "R (ks_db s) (ks_db (snd (run_route co dw now rq (route_of (kq_method rq) (kq_path rq)) s)))"
    by (simp add: within_def)
  then show ?thesis
    by (auto simp: handleControl_def control_step_def same split: prod.splits sum.splits option.splits)
qed

end

section \<open>Return paths\<close>

text \<open>A path on the own origin: neither another host nor a backslash that a browser reads as a slash.\<close>

definition local_path :: "string \<Rightarrow> bool" where
  "local_path p \<longleftrightarrow> starts_with p ''/'' \<and> \<not> starts_with p ''//'' \<and> CHR 0x5C \<notin> set p"

definition local_paths :: "db \<Rightarrow> bool" where
  "local_paths d \<longleftrightarrow> (\<forall>r\<in>set (login_txs d). local_path (lt_return r)) \<and>
     (\<forall>r\<in>set (console_txs d). local_path (ct_return r))"

definition keeps_paths :: "db \<Rightarrow> db \<Rightarrow> bool" where
  "keeps_paths d d' \<longleftrightarrow> (local_paths d \<longrightarrow> local_paths d')"

lemma keeps_paths_refl [simp]: "keeps_paths d d"
  by (simp add: keeps_paths_def)

lemma keeps_paths_tx:
  "(\<And>a d'. op s d = Inr (a, d') \<Longrightarrow> keeps_paths d d') \<Longrightarrow> keeps_paths d (snd (transaction s op d))"
  by (auto simp: transaction_def split: sum.split)

lemma keeps_paths_same:
  "login_txs d' = login_txs d \<Longrightarrow> console_txs d' = console_txs d \<Longrightarrow> keeps_paths d d'"
  by (simp add: keeps_paths_def local_paths_def)

lemma return_paths_local:
  "login_return_path p \<Longrightarrow> local_path p" "validConsoleReturnPath p \<Longrightarrow> local_path p"
  by (auto simp: login_return_path_def validConsoleReturnPath_def local_path_def)

lemmas tx_rows = succ_simps sql_insert_checked_Inr sql_update_checked_Inr

lemmas path_simps = succ_simps keeps_paths_def local_paths_def return_paths_local set_sql_update set_sql_delete

lemma keeps_login:
  "keeps_paths d (snd (createLogin rt path csrf token now d))"
  "keeps_paths d (snd (bindEmail rt token csrf email now d))"
  "keeps_paths d (snd (restartLogin rt token csrf token' now d))"
  unfolding createLogin_def bindEmail_def restartLogin_def with_role_defs
  by (auto simp: tx_rows open_login_Inr intro!: keeps_paths_tx split: sum.split)
     (auto simp: path_simps purge_logins_def dest!: lookup_byD)

lemma keeps_link: "ensure_account_auth_link u a t now d = Inr (lk, d') \<Longrightarrow> keeps_paths d d'"
  by (rule keeps_paths_same) (auto simp: ensure_account_auth_link_def and_then_Inr split: if_splits option.splits)

lemma keeps_complete: "keeps_paths d (snd (completeLogin rt token csrf u acc ten now d))"
  unfolding completeLogin_def with_role_defs
  by (auto simp: tx_rows open_login_Inr intro!: keeps_paths_tx split: sum.split)
     (auto simp: path_simps dest!: keeps_link lookup_byD)

lemma keeps_console:
  "keeps_paths d (snd (createConsoleLogin rt path random secret now d))"
  "keeps_paths d (snd (authorizeLogin rt request sid acc until code now d))"
  "keeps_paths d (snd (exchangeLogin rt request secret code token now d))"
  "keeps_paths d (snd (beginLogout h back random secret' now d))"
  "keeps_paths d (snd (validateLogout request sid spend now d))"
  unfolding createConsoleLogin_def authorizeLogin_def exchangeLogin_def beginLogout_def validateLogout_def with_role_defs
  by (auto simp: tx_rows intro!: keeps_paths_tx split: sum.split)
     (auto simp: path_simps purge_console_def dest!: lookup_byD)

lemma keeps_paths_tx_same:
  "(\<And>a d'. op s d = Inr (a, d') \<Longrightarrow> login_txs d' = login_txs d \<and> console_txs d' = console_txs d) \<Longrightarrow>
     keeps_paths d (snd (transaction s op d))"
  by (rule keeps_paths_tx) (metis keeps_paths_same)

lemma keeps_tenant:
  "(\<And>s a d'. op s d = Inr (a, d') \<Longrightarrow> login_txs d' = login_txs d \<and> console_txs d' = console_txs d) \<Longrightarrow>
     keeps_paths d (snd (withTenant rt ctx op d))"
  by (auto simp: withTenant_def intro!: keeps_paths_tx_same split: sum.split)

interpretation return_paths: control_invariant keeps_paths
proof unfold_locales
  show "keeps_paths a c" if "keeps_paths a b" "keeps_paths b c" for a b c
    using that by (simp add: keeps_paths_def)
  show "keeps_paths d (snd (writeEvent rt instant j d))" for rt instant j d
    unfolding writeEvent_def withAuditWriter_def
    by (auto intro!: keeps_paths_tx_same split: sum.split option.split if_splits)
  show "keeps_paths d (snd (resolveLink u d))" for u d
    unfolding resolveLink_def with_role_defs by (auto intro!: keeps_paths_tx_same)
  show "keeps_paths d (snd (provision u acc ten now d))" for u acc ten now d
    unfolding provision_def with_role_defs
    by (auto simp: succ_simps intro!: keeps_paths_tx intro: keeps_link)
  show "keeps_paths d (snd (resolveSession h now d))" for h now d
    unfolding resolveSession_def with_role_defs by (auto intro!: keeps_paths_tx_same)
  show "keeps_paths d (snd (resolveConsoleSession h now d))" for h now d
    unfolding resolveConsoleSession_def with_role_defs by (auto intro!: keeps_paths_tx_same)
  show "keeps_paths d (snd (listMemberships acc d))" for acc d
    unfolding listMemberships_def withAccountWorkspace_def by (auto intro!: keeps_paths_tx_same)
  show "keeps_paths d (snd (ensurePersonalWorkspace acc ten now d))" for acc ten now d
    unfolding ensurePersonalWorkspace_def withAccountWorkspace_def ensure_personal_workspace_def
    by (auto simp: succ_simps intro!: keeps_paths_tx_same)
  show "keeps_paths d (snd (withTenant rt ctx (revokeGrantView t g now) d))" for rt ctx t g now d
    unfolding revokeGrantView_def revoke_grant_with_event_def by (auto simp: succ_simps intro!: keeps_tenant)
  show "keeps_paths d (snd (withTenant rt ctx (disconnectSite t g now) d))" for rt ctx t g now d
    unfolding disconnectSite_def disconnect_site_with_event_def by (auto simp: succ_simps intro!: keeps_tenant)
qed (simp_all add: keeps_login keeps_complete keeps_console)

text \<open>A run of the service: requests one after the other, each with what it draws and its instant.\<close>

type_synonym control_call = "control_draws \<times> time \<times> int \<times> control_request"

definition control_run :: "control_options \<Rightarrow> control_call list \<Rightarrow> control_state \<Rightarrow> control_state" where
  "control_run co calls s = fold (\<lambda>(dw, now, elapsed, rq) s. snd (handleControl co dw now elapsed rq s)) calls s"

lemma run_keeps_paths:
  assumes "library_within keeps_paths co" and "operations_within keeps_paths co"
  shows "keeps_paths (ks_db s) (ks_db (control_run co calls s))"
proof (induction calls arbitrary: s)
  case (Cons c calls)
  obtain dw now elapsed rq where c: "c = (dw, now, elapsed, rq)" by (cases c)
  show ?case
    using return_paths.request_within [OF assms, of s dw now elapsed rq] Cons
    by (auto simp: control_run_def c keeps_paths_def)
qed (simp add: control_run_def)

lemma complete_returns:
  "completeLogin rt token csrf u acc ten now d = (Inr c, d') \<Longrightarrow> \<exists>r\<in>set (login_txs d). cp_return c = lt_return r"
  unfolding completeLogin_def by (auto simp: login_simps dest!: lookup_byD)

lemma exchange_returns:
  "exchangeLogin rt request secret code token now d = (Inr c, d') \<Longrightarrow> \<exists>r\<in>set (console_txs d). cn_return c = ct_return r"
  unfolding exchangeLogin_def by (auto simp: console_simps dest!: lookup_byD)

text \<open>The operations \<open>main.ts\<close> puts together from the PostgreSQL repositories leave the two tables alone.\<close>

definition sign_in_tables :: "db \<Rightarrow> login_row list \<times> console_tx_row list" where
  "sign_in_tables d = (login_txs d, console_txs d)"

lemma tables_tenant:
  "(\<And>s a d'. op s d = Inr (a, d') \<Longrightarrow> login_txs d' = login_txs d \<and> console_txs d' = console_txs d) \<Longrightarrow>
     sign_in_tables (snd (withTenant rt ctx op d)) = sign_in_tables d"
  by (auto simp: withTenant_def transaction_def sign_in_tables_def split: sum.split)

lemma repository_tables:
  "sign_in_tables (snd (createAttempt rt ctx now a acc cor d)) = sign_in_tables d"
  "sign_in_tables (snd (findAttemptForUpdate rt ctx t i d)) = sign_in_tables d"
  "sign_in_tables (snd (markVerifying rt ctx now t i d)) = sign_in_tables d"
  "sign_in_tables (snd (failAttempt rt ctx t i code d)) = sign_in_tables d"
  "sign_in_tables (snd (completePairing rt ctx now a p site key d)) = sign_in_tables d"
  "sign_in_tables (snd (createPending rt ctx now g d)) = sign_in_tables d"
  "sign_in_tables (snd (findPending rt ctx t i key d)) = sign_in_tables d"
  "sign_in_tables (snd (activateGrant rt ctx now t i key th d)) = sign_in_tables d"
  "sign_in_tables (snd (denyGrant rt ctx now t i key th d)) = sign_in_tables d"
  "sign_in_tables (snd (withTenant rt ctx (findActiveSite t i) d)) = sign_in_tables d"
  unfolding createAttempt_def findAttemptForUpdate_def markVerifying_def failAttempt_def completePairing_def
    createPending_def findPending_def activateGrant_def denyGrant_def finish_grant_def
    findActiveSite_def
  by (auto simp: tx_rows pairing_completion_def create_grant_def insert_idem_def split: sum.split
      intro!: tables_tenant)

lemma repository_steps:
  "createAttempt rt ctx now a acc cor d = (u, d') \<Longrightarrow> sign_in_tables d' = sign_in_tables d"
  "findAttemptForUpdate rt ctx t i d = (f, d') \<Longrightarrow> sign_in_tables d' = sign_in_tables d"
  "markVerifying rt ctx now t i d = (b, d') \<Longrightarrow> sign_in_tables d' = sign_in_tables d"
  "failAttempt rt ctx t i code d = (u, d') \<Longrightarrow> sign_in_tables d' = sign_in_tables d"
  "completePairing rt ctx now a p site key d = (u, d') \<Longrightarrow> sign_in_tables d' = sign_in_tables d"
  "createPending rt ctx now g d = (c, d') \<Longrightarrow> sign_in_tables d' = sign_in_tables d"
  "findPending rt ctx t i key d = (q, d') \<Longrightarrow> sign_in_tables d' = sign_in_tables d"
  "activateGrant rt ctx now t i key th d = (u, d') \<Longrightarrow> sign_in_tables d' = sign_in_tables d"
  "denyGrant rt ctx now t i key th d = (u, d') \<Longrightarrow> sign_in_tables d' = sign_in_tables d"
  "withTenant rt ctx (findActiveSite t i) d = (v, d') \<Longrightarrow> sign_in_tables d' = sign_in_tables d"
  by (drule arg_cong [where f = "\<lambda>x. sign_in_tables (snd x)"], simp add: repository_tables)+

lemma service_tables:
  "sign_in_tables (snd (control_pair h issuer pem kid dw now ctx body d)) = sign_in_tables d"
  "sign_in_tables (snd (control_grant_start h signer key issuer dw now ctx q d)) = sign_in_tables d"
  "sign_in_tables (snd (control_grant_complete h issuer now ctx q' d)) = sign_in_tables d"
proof -
  show "sign_in_tables (snd (control_pair h issuer pem kid dw now ctx body d)) = sign_in_tables d"
    unfolding control_pair_def pairingBegin_def pairingVerify_def verify_marked_def postgres_pairing_def Let_def
    by (auto split: prod.split sum.split option.split dest!: repository_steps)
  show "sign_in_tables (snd (control_grant_start h signer key issuer dw now ctx q d)) = sign_in_tables d"
    unfolding control_grant_start_def grantBegin_def postgres_grants_def Let_def
    by (auto split: prod.split sum.split option.split dest!: repository_steps)
  show "sign_in_tables (snd (control_grant_complete h issuer now ctx q' d)) = sign_in_tables d"
    unfolding control_grant_complete_def grantComplete_def postgres_grants_def
    by (auto split: prod.split sum.split option.split dest!: repository_steps)
qed

lemma wired_operations: "operations_within keeps_paths (control_options_of h env lb og deployment keys)"
proof -
  have "sign_in_tables d' = sign_in_tables d \<Longrightarrow> keeps_paths d d'" for d d'
    by (simp add: sign_in_tables_def keeps_paths_same)
  then show ?thesis
    by (cases keys) (auto simp: operations_within_def control_options_of_def control_grants_def service_tables)
qed

text \<open>
  C11. No sign-in leads away from the service: after any run of requests from a state in which the stored
  return paths are local, the path that a completed email login redirects to and the one a console exchange
  hands to the browser start with a single slash and hold no backslash.  Better Auth and the operations
  on pairings and grants are assumed to leave the stored paths local; \<open>wired_operations\<close> proves it
  of the operations \<open>main.ts\<close> installs.
\<close>

theorem sign_in_returns_local:
  assumes "library_within keeps_paths co" and "operations_within keeps_paths co"
    and "local_paths (ks_db s0)" and "s = control_run co calls s0"
  shows "(complete_login_step co dw now form hs s = (Inr path, s') \<longrightarrow> local_path path) \<and>
    (exchangeLogin rt request secret code token now (ks_db s) = (Inr c, d) \<longrightarrow> local_path (cn_return c))"
proof -
  have ok: "local_paths (ks_db s)"
    using run_keeps_paths [OF assms(1,2), of s0 calls] assms(3,4) by (simp add: keeps_paths_def)
  have "complete_login_step co dw now form hs s = (Inr path, s') \<Longrightarrow> \<exists>r\<in>set (login_txs (ks_db s)). path = lt_return r"
    by (auto simp: complete_login_step_def demand_def given_def throws_def proceed_Inr store_Inr answer_def
        account_session_of_def reading_def thrown_away_def split: if_splits option.splits sum.splits dest!: complete_returns)
  with ok show ?thesis by (auto simp: local_paths_def dest!: exchange_returns)
qed


text \<open>An example: the login of the sample database, completed after a probe of the service.\<close>

definition sample_accounts :: account_library where
  "sample_accounts = \<lparr>lb_session = (\<lambda>hs d. Inr (Some \<lparr>bs_session = ''ses-1'', bs_user = ''user-1'', bs_created = 500,
       bs_expires = 90000000\<rparr>)),
     lb_post = (\<lambda>path hs j d. (Inl ''unused'', d)), lb_sign_out = (\<lambda>hs d. (Inl ''unused'', d)),
     lb_outcome = (\<lambda>i. None), lb_budget = (\<lambda>d. Inr None)\<rparr>"

definition sample_signing_in :: control_options where
  "sample_signing_in = sample_control\<lparr>co_accounts := Some sample_accounts, co_login := True\<rparr>"

definition sample_login_state :: control_state where
  "sample_login_state = sample_control_state\<lparr>ks_db := sample_login_db\<rparr>"

definition sample_calls :: "control_call list" where
  "sample_calls = [(sample_draws, 1500, 3, sample_revocation_request\<lparr>kq_method := ''GET'', kq_path := ''/livez''\<rparr>)]"

definition sample_login_form :: login_form where
  "sample_login_form = \<lparr>lf_csrf = sample_token CHR ''C'', lf_transaction = sample_token CHR ''T''\<rparr>"

definition sample_login_draws :: control_draws where
  "sample_login_draws = sample_draws\<lparr>dw_account := sample_account, dw_tenant := sample_site_tenant\<rparr>"

theorem sign_in_returns_local_witness:
  "\<exists>path s'. complete_login_step sample_signing_in sample_login_draws 2000 sample_login_form []
      (control_run sample_signing_in sample_calls sample_login_state) = (Inr path, s') \<and> local_path path"
proof -
  have "is_ok (fst (complete_login_step sample_signing_in sample_login_draws 2000 sample_login_form []
      (control_run sample_signing_in sample_calls sample_login_state)))"
    by code_simp
  then obtain path s' where run: "complete_login_step sample_signing_in sample_login_draws 2000 sample_login_form []
      (control_run sample_signing_in sample_calls sample_login_state) = (Inr path, s')"
    by (metis ok_outcome surj_pair)
  have "library_within keeps_paths sample_signing_in" "operations_within keeps_paths sample_signing_in"
    by (simp_all add: library_within_def operations_within_def sample_signing_in_def sample_accounts_def sample_control_def)
  moreover have "local_paths (ks_db sample_login_state)" by code_simp
  ultimately have "local_path path" using sign_in_returns_local [OF _ _ _ refl] run by blast
  with run show ?thesis by blast
qed

end
