(* ===== verification/Command_Line.thy ===== *)
theory Command_Line
  imports Signing_Keys OAuth_Clients Key_Custody
begin

text \<open>
  The command-line entry points: the migrations and the test clients and signing keys of the database
  (packages/database/src/cli.ts, oauth-test-client-cli.ts, signing-keys-cli.ts), and the generation and
  inspection of a key in custody (packages/key-custody/src/cli.ts).  A run is the text it prints, or
  the error it ends with, and the state it leaves.
\<close>

section \<open>Arguments and output\<close>

text \<open>\<open>process.argv[indexOf(name) + 1]\<close>, and \<open>process.argv[2]\<close>.\<close>

primrec following :: "string \<Rightarrow> string list \<Rightarrow> string option" where
  "following name [] = None"
| "following name (a # as) = (if a = name then first_row as else following name as)"

definition argument :: "string list \<Rightarrow> string \<Rightarrow> string result" where
  "argument argv name = (case following (''--'' @ name) argv of
     None \<Rightarrow> Inl (''--'' @ name @ '' is required'')
   | Some v \<Rightarrow> if starts_with v ''--'' then Inl (''--'' @ name @ '' is required'') else Inr v)"

definition command :: "string list \<Rightarrow> string option" where
  "command argv = first_row (drop 2 argv)"

definition print_json :: "json_object \<Rightarrow> string" where
  "print_json obj = json_stringify (JObj obj) @ [CHR 0x0A]"

definition given_url :: "environment \<Rightarrow> bool" where
  "given_url env \<longleftrightarrow> env ''WEPUU_DATABASE_URL'' \<noteq> None \<and> env ''WEPUU_DATABASE_URL'' \<noteq> Some []"

section \<open>Database\<close>

definition migrate_cli ::
  "runtime \<Rightarrow> (string \<Rightarrow> 'd \<Rightarrow> 'd result) \<Rightarrow> (string \<Rightarrow> string) \<Rightarrow> string list \<Rightarrow> string list \<Rightarrow> environment \<Rightarrow>
     'd migrated \<Rightarrow> string result \<times> 'd migrated" where
  "migrate_cli rt run sql files argv env st =
     (if command argv \<noteq> Some ''migrate'' then (Inl ''usage: database cli migrate'', st)
      else if \<not> given_url env then (Inl ''WEPUU_DATABASE_URL is required'', st)
      else case migrate rt run sql files st of
        (Inl e, st') \<Rightarrow> (Inl e, st')
      | (Inr _, st') \<Rightarrow> (Inr (''migrations applied'' @ [CHR 0x0A]), st'))"

definition allowedOperations :: "string list" where
  "allowedOperations = [''provision-p3a-lifecycle'', ''suspend-p3a-lifecycle'',
     ''register-p3b1-codex-callback'', ''remove-p3b1-codex-callback'']"

definition callback_report :: "callback_update \<Rightarrow> json_object" where
  "callback_report u = [(''changed'', JBool (cu_changed u)), (''clientId'', JStr P3B1_CODEX_CLIENT_ID),
     (''redirectCount'', JInt (int (cu_redirects u))), (''metadataDigest'', JStr (cu_metadata u)),
     (''callbackDigest'', JStr (cu_callback u))]"

definition change_test_callback ::
  "runtime \<Rightarrow> file_system \<Rightarrow> environment \<Rightarrow> callback_operation \<Rightarrow> db \<Rightarrow> json_object outcome" where
  "change_test_callback rt fs env oper d = (case env ''WEPUU_CODEX_DESKTOP_CALLBACK_FILE'' of
     None \<Rightarrow> (Inl ''WEPUU_CODEX_DESKTOP_CALLBACK_FILE is required'', d)
   | Some file \<Rightarrow>
       if file = [] then (Inl ''WEPUU_CODEX_DESKTOP_CALLBACK_FILE is required'', d)
       else case readP3b1CodexDesktopCallbackFile rt fs file (env ''NODE_ENV'' = Some ''production'') of
         Inl e \<Rightarrow> (Inl e, d)
       | Inr uri \<Rightarrow> (case updateP3b1CodexDesktopCallback rt uri oper d of
           (Inl e, d') \<Rightarrow> (Inl e, d') | (Inr u, d') \<Rightarrow> (Inr (callback_report u), d')))"

definition run_test_client ::
  "runtime \<Rightarrow> file_system \<Rightarrow> environment \<Rightarrow> string \<Rightarrow> db \<Rightarrow> json_object outcome" where
  "run_test_client rt fs env oper d =
     (if oper = ''provision-p3a-lifecycle'' then
        (case provisionP3aLifecycleTestClient rt d of
           (Inl e, d') \<Rightarrow> (Inl e, d')
         | (Inr b, d') \<Rightarrow> (Inr [(''created'', JBool b), (''clientId'', JStr P3A_LIFECYCLE_TEST_CLIENT_ID),
             (''redirectUri'', JStr P3A_LIFECYCLE_TEST_REDIRECT_URI)], d'))
      else if oper = ''suspend-p3a-lifecycle'' then
        (case suspendP3aLifecycleTestClient rt d of
           (Inl e, d') \<Rightarrow> (Inl e, d')
         | (Inr b, d') \<Rightarrow> (Inr [(''changed'', JBool b), (''clientId'', JStr P3A_LIFECYCLE_TEST_CLIENT_ID)], d'))
      else change_test_callback rt fs env (if oper = ''register-p3b1-codex-callback'' then Register else Remove) d)"

definition oauth_test_client_cli ::
  "runtime \<Rightarrow> file_system \<Rightarrow> string list \<Rightarrow> environment \<Rightarrow> db \<Rightarrow> string outcome" where
  "oauth_test_client_cli rt fs argv env d =
     (if length argv \<noteq> 3 \<or> argv ! 2 \<notin> set allowedOperations then
        (Inl ''usage: oauth test client cli provision-p3a-lifecycle | suspend-p3a-lifecycle | register-p3b1-codex-callback | remove-p3b1-codex-callback'', d)
      else if \<not> given_url env then (Inl ''WEPUU_DATABASE_URL is required'', d)
      else case run_test_client rt fs env (argv ! 2) d of
        (Inl e, d') \<Rightarrow> (Inl e, d') | (Inr obj, d') \<Rightarrow> (Inr (print_json obj), d'))"

text \<open>The answer to an operator of the signing keys.\<close>

definition key_report :: "bool \<Rightarrow> string \<Rightarrow> string \<Rightarrow> string" where
  "key_report changed kid status =
     print_json [(''changed'', JBool changed), (''kid'', JStr kid), (''status'', JStr status)]"

definition publish_from_custody ::
  "crypto \<Rightarrow> file_system \<Rightarrow> nat \<Rightarrow> environment \<Rightarrow> string \<Rightarrow> time \<Rightarrow> db \<Rightarrow> string outcome" where
  "publish_from_custody cr fs uid env slot now d =
     (case localPkcs8KeyCustodyFromEnvironment cr fs uid env slot None of
        Inl e \<Rightarrow> (Inl e, d)
      | Inr custody \<Rightarrow>
          let key = lc_descriptor custody in
          (case publishKey \<lparr>pi_kid = kd_kid key, pi_reference = slot, pi_jwk = JObj (kd_jwk key),
              pi_provider = Some LocalPkcs8, pi_published = None\<rparr> now d of
             (Inl e, d') \<Rightarrow> (Inl e, d') | (Inr _, d') \<Rightarrow> (Inr (key_report True (kd_kid key) ''published''), d')))"

definition with_argument ::
  "string list \<Rightarrow> string \<Rightarrow> (string \<Rightarrow> db \<Rightarrow> string outcome) \<Rightarrow> db \<Rightarrow> string outcome" where
  "with_argument argv name f d = (case argument argv name of Inl e \<Rightarrow> (Inl e, d) | Inr v \<Rightarrow> f v d)"

definition reported ::
  "string \<Rightarrow> (string \<Rightarrow> db \<Rightarrow> bool outcome) \<Rightarrow> string \<Rightarrow> db \<Rightarrow> string outcome" where
  "reported status act kid d = (case act kid d of
     (Inl e, d') \<Rightarrow> (Inl e, d') | (Inr b, d') \<Rightarrow> (Inr (key_report b kid status), d'))"

definition signing_keys_cli ::
  "crypto \<Rightarrow> file_system \<Rightarrow> nat \<Rightarrow> string list \<Rightarrow> environment \<Rightarrow> time \<Rightarrow> db \<Rightarrow> string outcome" where
  "signing_keys_cli cr fs uid argv env now d =
     (if env ''WEPUU_DATABASE_URL'' = None then (Inl ''WEPUU_DATABASE_URL is required'', d)
      else if command argv = Some ''publish'' then
        with_argument argv ''slot'' (\<lambda>slot. publish_from_custody cr fs uid env slot now) d
      else if command argv = Some ''activate'' then
        with_argument argv ''kid'' (reported ''active'' (\<lambda>kid. activateKey kid now)) d
      else if command argv = Some ''retire'' then
        with_argument argv ''kid'' (reported ''revoked'' (\<lambda>kid. retireKey kid now)) d
      else (Inl ''usage: keys:[publish|activate|retire] --slot SLOT | --kid KID'', d))"

section \<open>Keys in files\<close>

text \<open>\<open>path.resolve\<close> of one path in the directory \<open>cwd\<close>.\<close>

fun resolve_segments :: "string list \<Rightarrow> string list \<Rightarrow> string list" where
  "resolve_segments done [] = rev done"
| "resolve_segments done (s # ss) =
     (if s = [] \<or> s = ''.'' then resolve_segments done ss
      else if s = ''..'' then resolve_segments (drop 1 done) ss
      else resolve_segments (s # done) ss)"

definition resolve_path :: "string \<Rightarrow> string \<Rightarrow> string" where
  "resolve_path cwd p = CHR ''/'' # join_with ''/'' (resolve_segments []
     (split_on CHR ''/'' (if starts_with p ''/'' then p else cwd @ ''/'' @ p)))"

definition path_option :: "string \<Rightarrow> string list \<Rightarrow> string \<Rightarrow> string result" where
  "path_option cwd argv name = and_then (argument argv name) (\<lambda>v. Inr (resolve_path cwd v))"

text \<open>
  A pair of keys that was drawn with the random bytes of its passphrase, the export of the private key
  under a passphrase, and whether the host lets a call on a path pass.
\<close>

record key_tools =
  kt_private :: key_object
  kt_public :: key_object
  kt_random :: bytes
  kt_pem :: "string \<Rightarrow> string"
  kt_allows :: "string \<Rightarrow> string \<Rightarrow> bool"

text \<open>\<open>writeFile\<close> with the flag \<open>wx\<close> and mode 0600, \<open>chmod\<close> to 0600 and \<open>unlink\<close>, whose error is dropped.\<close>

definition write_new :: "key_tools \<Rightarrow> nat \<Rightarrow> string \<Rightarrow> string \<Rightarrow> file_system \<Rightarrow> file_system result" where
  "write_new kt uid path text fs =
     (if fs path \<noteq> None then Inl ''EEXIST'' else if \<not> kt_allows kt ''open'' path then Inl ''EACCES''
      else Inr (fs(path \<mapsto> \<lparr>fi_file = True, fi_symlink = False, fi_size = utf8_length text, fi_mode = 384,
        fi_owner = uid, fi_text = text\<rparr>)))"

definition unlink_quietly :: "key_tools \<Rightarrow> string \<Rightarrow> file_system \<Rightarrow> file_system" where
  "unlink_quietly kt path fs = (if kt_allows kt ''unlink'' path then fs(path := None) else fs)"

definition write_key_files ::
  "key_tools \<Rightarrow> nat \<Rightarrow> string \<Rightarrow> string \<Rightarrow> string \<Rightarrow> string \<Rightarrow> file_system \<Rightarrow> unit result \<times> file_system" where
  "write_key_files kt uid privateKeyFile passphraseFile pem passphrase fs =
     (case write_new kt uid privateKeyFile pem fs of
        Inl e \<Rightarrow> (Inl e, fs)
      | Inr fs1 \<Rightarrow>
          let failed = (\<lambda>g. (Inl ''passphrase_file_write_failed'',
                unlink_quietly kt passphraseFile (unlink_quietly kt privateKeyFile g))) in
          (case write_new kt uid passphraseFile passphrase fs1 of
             Inl _ \<Rightarrow> failed fs1
           | Inr fs2 \<Rightarrow>
               if kt_allows kt ''chmod'' privateKeyFile \<and> kt_allows kt ''chmod'' passphraseFile then (Inr (), fs2)
               else failed fs2))"

text \<open>\<open>{ ...publicJwk, kid, alg, use }\<close>\<close>

definition spread :: "json_object \<Rightarrow> json_object \<Rightarrow> json_object" where
  "spread obj over = map (\<lambda>(k, v). (k, case map_of over k of None \<Rightarrow> v | Some w \<Rightarrow> w)) obj @
     filter (\<lambda>(k, v). map_of obj k = None) over"

definition generated_report :: "crypto \<Rightarrow> key_tools \<Rightarrow> string result" where
  "generated_report cr kt = (case exportJwk cr (kt_public kt) of
     None \<Rightarrow> Inl ''export_failed''
   | Some jwk \<Rightarrow> (case calculateJwkThumbprint cr jwk of
       None \<Rightarrow> Inl ''thumbprint_failed''
     | Some kid \<Rightarrow> Inr (print_json [(''kid'', JStr kid), (''publicJwk'', JObj (spread jwk
         [(''kid'', JStr kid), (''alg'', JStr ''RS256''), (''use'', JStr ''sig'')]))])))"

definition generateKey ::
  "runtime \<Rightarrow> crypto \<Rightarrow> key_tools \<Rightarrow> nat \<Rightarrow> string \<Rightarrow> string list \<Rightarrow> file_system \<Rightarrow> string result \<times> file_system" where
  "generateKey rt cr kt uid cwd argv fs =
     (case and_then (path_option cwd argv ''private-key-file'') (\<lambda>private.
           and_then (path_option cwd argv ''passphrase-file'') (\<lambda>pass. Inr (private, pass))) of
        Inl e \<Rightarrow> (Inl e, fs)
      | Inr (private, pass) \<Rightarrow>
          let passphrase = base64url rt (kt_random kt) in
          (case write_key_files kt uid private pass (kt_pem kt passphrase) passphrase fs of
             (Inl e, fs') \<Rightarrow> (Inl e, fs') | (Inr _, fs') \<Rightarrow> (generated_report cr kt, fs')))"

definition inspectKey :: "crypto \<Rightarrow> nat \<Rightarrow> string \<Rightarrow> string list \<Rightarrow> file_system \<Rightarrow> string result" where
  "inspectKey cr uid cwd argv fs =
     and_then (path_option cwd argv ''private-key-file'') (\<lambda>private.
     and_then (path_option cwd argv ''passphrase-file'') (\<lambda>pass.
     and_then (loadLocalKey cr fs uid \<lparr>kr_slot = [], kr_private = private, kr_passphrase = pass\<rparr> False None) (\<lambda>c.
     Inr (print_json [(''kid'', JStr (kd_kid (lc_descriptor c))),
       (''publicJwk'', JObj (kd_jwk (lc_descriptor c)))]))))"

definition key_custody_cli ::
  "runtime \<Rightarrow> crypto \<Rightarrow> key_tools \<Rightarrow> nat \<Rightarrow> string \<Rightarrow> string list \<Rightarrow> file_system \<Rightarrow> string result \<times> file_system" where
  "key_custody_cli rt cr kt uid cwd argv fs =
     (if command argv = Some ''generate'' then generateKey rt cr kt uid cwd argv fs
      else if command argv = Some ''inspect'' then (inspectKey cr uid cwd argv fs, fs)
      else (Inl ''usage: keys:[generate|inspect] --private-key-file PATH --passphrase-file PATH'', fs))"

section \<open>Properties\<close>

text \<open>
  What the documentation of Node and RFC 7638 say of the pair and its export: the exported file is read
  back with its passphrase, a 3072-bit RSA pair, a thumbprint of the members \<open>kty\<close>, \<open>n\<close> and \<open>e\<close> alone.
\<close>

definition key_tools_lawful :: "crypto \<Rightarrow> key_tools \<Rightarrow> string \<Rightarrow> bool" where
  "key_tools_lawful cr kt passphrase \<longleftrightarrow>
     createPrivateKey cr (kt_pem kt passphrase) passphrase = Some (kt_private kt) \<and> rsa_private (kt_private kt) \<and>
     createPublicKey cr (kt_private kt) = Some (kt_public kt) \<and>
     encrypted_pem (kt_pem kt passphrase) \<and> utf8_length (kt_pem kt passphrase) \<in> {1..32768} \<and>
     length passphrase = 64 \<and> utf8_length passphrase = 64 \<and> strip_newline passphrase = passphrase \<and>
     (\<exists>n e. exportJwk cr (kt_public kt) = Some [(''kty'', JStr ''RSA''), (''n'', JStr n), (''e'', JStr e)] \<and>
       (\<forall>kid. calculateJwkThumbprint cr [(''kty'', JStr ''RSA''), (''n'', JStr n), (''e'', JStr e), (''kid'', JStr kid),
           (''alg'', JStr ''RS256''), (''use'', JStr ''sig'')] =
         calculateJwkThumbprint cr [(''kty'', JStr ''RSA''), (''n'', JStr n), (''e'', JStr e)]))"

lemma write_key_files_Inr:
  assumes "write_key_files kt uid a b pem pass fs = (Inr u, fs')"
  shows "fs a = None" "fs b = None" "a \<noteq> b"
    "fs' = fs(a \<mapsto> \<lparr>fi_file = True, fi_symlink = False, fi_size = utf8_length pem, fi_mode = 384, fi_owner = uid,
         fi_text = pem\<rparr>, b \<mapsto> \<lparr>fi_file = True, fi_symlink = False, fi_size = utf8_length pass, fi_mode = 384,
         fi_owner = uid, fi_text = pass\<rparr>)"
  using assms by (auto simp: write_key_files_def write_new_def Let_def split: sum.splits if_splits)

lemma resolved_absolute: "path_option cwd argv name = Inr p \<Longrightarrow> is_absolute p"
  by (auto simp: path_option_def and_then_Inr resolve_path_def is_absolute_def starts_with_def)

lemma generate_Inr:
  assumes "generateKey rt cr kt uid cwd argv fs = (Inr out, fs')"
  obtains a b where "path_option cwd argv ''private-key-file'' = Inr a" "path_option cwd argv ''passphrase-file'' = Inr b"
    "write_key_files kt uid a b (kt_pem kt (base64url rt (kt_random kt))) (base64url rt (kt_random kt)) fs = (Inr (), fs')"
    "generated_report cr kt = Inr out"
  using assms by (auto simp: generateKey_def and_then_Inr Let_def split: sum.splits prod.splits dest!: and_then_Inr [THEN iffD1])

text \<open>The line both commands print for a loaded key.\<close>

definition key_line :: "local_custody \<Rightarrow> json_object" where
  "key_line c = [(''kid'', JStr (kd_kid (lc_descriptor c))), (''publicJwk'', JObj (kd_jwk (lc_descriptor c)))]"

lemma lawful_load:
  assumes "key_tools_lawful cr kt pass" and report: "generated_report cr kt = Inr out"
    and files: "\<And>prod. readProtectedFile fs uid a prod 32768 = Inr (kt_pem kt pass)"
      "\<And>prod. readProtectedFile fs uid b prod 1024 = Inr pass"
  shows "\<exists>c. (\<forall>sl prod. loadLocalKey cr fs uid \<lparr>kr_slot = sl, kr_private = a, kr_passphrase = b\<rparr> prod None = Inr c)
    \<and> lc_private c = kt_private kt \<and> out = print_json (key_line c)"
proof -
  from assms(1) obtain n e where exported: "exportJwk cr (kt_public kt) = Some [(''kty'', JStr ''RSA''), (''n'', JStr n), (''e'', JStr e)]"
    and thumb: "calculateJwkThumbprint cr [(''kty'', JStr ''RSA''), (''n'', JStr n), (''e'', JStr e), (''kid'', JStr kid),
           (''alg'', JStr ''RS256''), (''use'', JStr ''sig'')] =
         calculateJwkThumbprint cr [(''kty'', JStr ''RSA''), (''n'', JStr n), (''e'', JStr e)]" for kid
    by (auto simp: key_tools_lawful_def)
  from report obtain kid where kid: "calculateJwkThumbprint cr [(''kty'', JStr ''RSA''), (''n'', JStr n), (''e'', JStr e)] = Some kid"
    and out: "out = print_json [(''kid'', JStr kid), (''publicJwk'', JObj [(''kty'', JStr ''RSA''), (''n'', JStr n),
         (''e'', JStr e), (''kid'', JStr kid), (''alg'', JStr ''RS256''), (''use'', JStr ''sig'')])]"
    by (auto simp: generated_report_def exported spread_def split: option.splits)
  have jwk: "canonicalPublicJwk cr (kt_public kt) k = Inr [(''kty'', JStr ''RSA''), (''n'', JStr n), (''e'', JStr e),
      (''kid'', JStr k), (''alg'', JStr ''RS256''), (''use'', JStr ''sig'')]" for k
    by (simp add: canonicalPublicJwk_def exported available_def z_str_def)
  show ?thesis
    using assms(1) by (simp add: loadLocalKey_def files key_tools_lawful_def available_def jwk thumb kid out key_line_def)
qed

text \<open>
  C38. A key that the command line generates is one the services accept: the two files are new, belong to the
  user and to nobody else, and custody loads them under the rules of production.  Inspecting them prints
  exactly the line the generation printed, and no other file has changed.
\<close>

theorem generated_key_loads:
  assumes "generateKey rt cr kt uid cwd argv fs = (Inr out, fs')"
    and "key_tools_lawful cr kt (base64url rt (kt_random kt))"
  shows "\<exists>a b c. path_option cwd argv ''private-key-file'' = Inr a \<and> path_option cwd argv ''passphrase-file'' = Inr b
    \<and> fs a = None \<and> fs b = None \<and> (\<forall>p. p \<noteq> a \<and> p \<noteq> b \<longrightarrow> fs' p = fs p)
    \<and> loadLocalKey cr fs' uid \<lparr>kr_slot = slot, kr_private = a, kr_passphrase = b\<rparr> production None = Inr c
    \<and> lc_private c = kt_private kt \<and> inspectKey cr uid cwd argv fs' = Inr out"
proof -
  let ?pass = "base64url rt (kt_random kt)"
  from assms(1) obtain a b where p: "path_option cwd argv ''private-key-file'' = Inr a"
      "path_option cwd argv ''passphrase-file'' = Inr b"
      "write_key_files kt uid a b (kt_pem kt ?pass) ?pass fs = (Inr (), fs')"
      "generated_report cr kt = Inr out"
    by (rule generate_Inr)
  note w = write_key_files_Inr [OF p(3)]
  have files: "readProtectedFile fs' uid a prod 32768 = Inr (kt_pem kt ?pass)"
      "readProtectedFile fs' uid b prod 1024 = Inr ?pass" for prod
    using assms(2) w resolved_absolute [OF p(1)] resolved_absolute [OF p(2)]
    by (auto simp: readProtectedFile_def key_tools_lawful_def)
  obtain c where c: "\<And>sl prod. loadLocalKey cr fs' uid \<lparr>kr_slot = sl, kr_private = a, kr_passphrase = b\<rparr> prod None = Inr c"
      "lc_private c = kt_private kt" "out = print_json (key_line c)"
    using lawful_load [OF assms(2) p(4) files] by auto
  then have "inspectKey cr uid cwd argv fs' = Inr out"
    by (simp add: inspectKey_def p(1,2) key_line_def)
  with c w p(1,2) show ?thesis by auto
qed

text \<open>An example: two new files in an empty directory.\<close>

definition sample_tools :: key_tools where
  "sample_tools = \<lparr>kt_private = sample_private, kt_public = sample_public, kt_random = replicate 64 CHR ''a'',
     kt_pem = (\<lambda>p. pem_header @ [CHR 0x0A]), kt_allows = (\<lambda>call path. True)\<rparr>"

definition sample_argv :: "string list" where
  "sample_argv = [''node'', ''cli.js'', ''generate'', ''--private-key-file'', ''/keys/main.pem'',
     ''--passphrase-file'', ''main.pass'']"

definition sample_tool_crypto :: crypto where
  "sample_tool_crypto = sample_crypto\<lparr>exportJwk :=
     (\<lambda>k. Some [(''kty'', JStr ''RSA''), (''n'', JStr ''AQAB''), (''e'', JStr ''AQAB'')])\<rparr>"

theorem generated_key_loads_witness:
  "\<exists>out fs'. generateKey sample_runtime sample_tool_crypto sample_tools 7 ''/keys'' sample_argv Map.empty = (Inr out, fs')
     \<and> inspectKey sample_tool_crypto 7 ''/keys'' sample_argv fs' = Inr out"
proof -
  have "is_ok (fst (generateKey sample_runtime sample_tool_crypto sample_tools 7 ''/keys'' sample_argv Map.empty))"
    by code_simp
  then obtain out fs' where run: "generateKey sample_runtime sample_tool_crypto sample_tools 7 ''/keys'' sample_argv Map.empty
      = (Inr out, fs')"
    by (metis ok_outcome surj_pair)
  have pass: "strip_newline (replicate 64 CHR ''a'') = replicate 64 CHR ''a''" "utf8_length (replicate 64 CHR ''a'') = 64"
    and pem: "encrypted_pem (pem_header @ [CHR 0x0A])" "utf8_length (pem_header @ [CHR 0x0A]) = 38"
    by code_simp+
  have "key_tools_lawful sample_tool_crypto sample_tools (base64url sample_runtime (kt_random sample_tools))"
    by (simp add: key_tools_lawful_def sample_tool_crypto_def sample_tools_def sample_crypto_def sample_runtime_def
        rsa_private_def sample_private_def pass pem)
  from generated_key_loads [OF run this] run show ?thesis by blast
qed

text \<open>
  C39. When the passphrase file is already there, the generation of a key fails, as the flag \<open>wx\<close> asks; but
  the handler of the failure unlinks both paths, and so the passphrase of another key is deleted.
\<close>

theorem failed_generation_deletes_passphrase:
  assumes "path_option cwd argv ''private-key-file'' = Inr a" and "path_option cwd argv ''passphrase-file'' = Inr b"
    and "fs a = None" and "fs b = Some other" and "kt_allows kt = (\<lambda>call path. True)"
  shows "generateKey rt cr kt uid cwd argv fs = (Inl ''passphrase_file_write_failed'', fs(b := None))"
proof -
  have "a \<noteq> b" using assms(3,4) by auto
  then show ?thesis using assms
    by (auto simp: generateKey_def write_key_files_def write_new_def unlink_quietly_def Let_def fun_eq_iff)
qed

theorem failed_generation_deletes_passphrase_witness:
  "generateKey sample_runtime sample_crypto sample_tools 7 ''/keys'' sample_argv
     [''/keys/main.pass'' \<mapsto> \<lparr>fi_file = True, fi_symlink = False, fi_size = 64, fi_mode = 384, fi_owner = 7,
        fi_text = ''the passphrase of another key''\<rparr>] =
   (Inl ''passphrase_file_write_failed'', [''/keys/main.pass'' \<mapsto> \<lparr>fi_file = True, fi_symlink = False, fi_size = 64,
        fi_mode = 384, fi_owner = 7, fi_text = ''the passphrase of another key''\<rparr>](''/keys/main.pass'' := None))"
proof -
  have "path_option ''/keys'' sample_argv ''private-key-file'' = Inr ''/keys/main.pem''"
    "path_option ''/keys'' sample_argv ''passphrase-file'' = Inr ''/keys/main.pass''"
    by code_simp+
  then show ?thesis
    by (rule failed_generation_deletes_passphrase) (simp_all add: sample_tools_def)
qed

end
