(* ===== verification/Desktop_Preflight.thy ===== *)
theory Desktop_Preflight
  imports Command_Line Platform_UI Account_Auth
begin

text \<open>
  The preflight of the desktop client (scripts/prepare-codex-desktop-preflight.mjs): the identity of the
  installed package, the server entry it looks for in the client's configuration, the block it adds to a
  user's configuration and takes out again, the public OAuth metadata it insists on, and the project it
  writes.  The client's process is a function from a method and its parameters to the reply that carries
  the number of the call, \<open>None\<close> when the time limit of the process ends the wait; \<open>fetch\<close> is a function
  from an address and the treatment of redirects to the response.  Regular expressions are written out as
  scanners; a JSON object has the properties it was written with.
\<close>

section \<open>Text and JSON values\<close>

primrec tails :: "'a list \<Rightarrow> 'a list list" where
  "tails [] = [[]]"
| "tails (x # xs) = (x # xs) # tails xs"

definition contains_text :: "string \<Rightarrow> string \<Rightarrow> bool" where
  "contains_text s t \<longleftrightarrow> list_ex (\<lambda>u. starts_with u t) (tails s)"

definition is_word :: "char \<Rightarrow> bool" where
  "is_word c \<longleftrightarrow> char_in [(65, 90), (97, 122), (48, 57), (95, 95)] c"

text \<open>The group of \<open>\bname="([^"]+)"\<close>; the flag says whether a word character comes before the text.\<close>

fun attribute_in :: "bool \<Rightarrow> string \<Rightarrow> string \<Rightarrow> string option" where
  "attribute_in word name [] = None"
| "attribute_in word name (c # cs) =
     (let rest = drop (length name + 2) (c # cs);
          value = takeWhile (\<lambda>x. x \<noteq> CHR 0x22) rest in
      if \<not> word \<and> starts_with (c # cs) (name @ [CHR ''='', CHR 0x22]) \<and> value \<noteq> [] \<and> length value < length rest
      then Some value else attribute_in (is_word c) name cs)"

definition attribute :: "string \<Rightarrow> string \<Rightarrow> string option" where
  "attribute name s = attribute_in False name s"

text \<open>\<open>value?.name\<close>, the truth value of a value, its text and \<open>Object.keys\<close> of it.\<close>

definition js_prop :: "string \<Rightarrow> json option \<Rightarrow> json option" where
  "js_prop name v = (case v of Some (JObj fs) \<Rightarrow> map_of fs name | _ \<Rightarrow> None)"

definition truthy :: "json option \<Rightarrow> bool" where
  "truthy v \<longleftrightarrow> v \<notin> {None, Some JNull, Some (JBool False), Some (JInt 0), Some (JStr [])}"

fun js_text :: "json \<Rightarrow> string" and js_items :: "json list \<Rightarrow> string list" where
  "js_text JNull = ''null''"
| "js_text (JBool b) = (if b then ''true'' else ''false'')"
| "js_text (JInt i) = show_int i"
| "js_text (JFloat s) = s"
| "js_text (JStr s) = s"
| "js_text (JArr xs) = join_with '','' (js_items xs)"
| "js_text (JObj fs) = ''[object Object]''"
| "js_items [] = []"
| "js_items (x # xs) = (if x = JNull then [] else js_text x) # js_items xs"

definition object_keys :: "json option \<Rightarrow> string list" where
  "object_keys v = (case v of
     Some (JObj fs) \<Rightarrow> map fst fs
   | Some (JArr xs) \<Rightarrow> map show_nat [0..<length xs]
   | Some (JStr s) \<Rightarrow> map show_nat [0..<length s]
   | _ \<Rightarrow> [])"

section \<open>The desktop package\<close>

definition DESKTOP_PACKAGE_NAMES :: "string list" where
  "DESKTOP_PACKAGE_NAMES = [''OpenAI.Codex'', ''OpenAI.CodexBeta'']"

definition EXISTING_DESKTOP_SERVER_NAME :: string where
  "EXISTING_DESKTOP_SERVER_NAME = ''wepuu-p3b1-desktop-20261012-8f57f886''"

definition MCP_RESOURCE :: string where
  "MCP_RESOURCE = ''https://test.wpauto.cc/wp-json/wp-auto/mcp''"

definition RESOURCE_METADATA_URL :: string where
  "RESOURCE_METADATA_URL = ''https://test.wpauto.cc/.well-known/oauth-protected-resource/wp-json/wp-auto/mcp''"

definition OAUTH_ISSUER :: string where
  "OAUTH_ISSUER = ''https://auth.wpauto.cc''"

definition OAUTH_CLIENT_ID :: string where
  "OAUTH_CLIENT_ID = ''wepuu-e2e-codex''"

definition OAUTH_CALLBACK_URL :: string where
  "OAUTH_CALLBACK_URL = ''http://127.0.0.1/callback''"

definition ADVERTISED_MCP_SCOPES :: "string list" where
  "ADVERTISED_MCP_SCOPES =
     [''mcp:read'', ''mcp:content.write'', ''mcp:media.write'', ''mcp:taxonomy.write'', ''mcp:seo.write'']"

text \<open>\<open><Identity\s+[^>]*\/?\s*>\<close>\<close>

definition identity_at :: "string \<Rightarrow> string option" where
  "identity_at s =
     (let rest = drop 9 s; inner = takeWhile (\<lambda>c. c \<noteq> CHR ''>'') rest in
      if starts_with s ''<Identity'' \<and> inner \<noteq> [] \<and> is_space (hd inner) \<and> length inner < length rest
      then Some (''<Identity'' @ inner @ ''>'') else None)"

primrec identity_element :: "string \<Rightarrow> string option" where
  "identity_element [] = None"
| "identity_element (c # cs) = (case identity_at (c # cs) of None \<Rightarrow> identity_element cs | Some e \<Rightarrow> Some e)"

text \<open>\<open>^\d+\.\d+\.\d+\.\d+$\<close>\<close>

definition four_numbers :: "string \<Rightarrow> bool" where
  "four_numbers s \<longleftrightarrow> length (split_on CHR ''.'' s) = 4 \<and> list_all digits (split_on CHR ''.'' s)"

record desktop_manifest =
  dm_package :: string
  dm_version :: string

definition parseDesktopManifest :: "string \<Rightarrow> desktop_manifest result" where
  "parseDesktopManifest xml =
     (let identity = identity_element xml;
          name = Option.bind identity (attribute ''Name'');
          version = Option.bind identity (attribute ''Version'') in
      case (name, version) of
        (Some n, Some v) \<Rightarrow>
          if n \<notin> set DESKTOP_PACKAGE_NAMES then Inl ''codex_desktop_manifest_invalid''
          else if \<not> four_numbers v then Inl ''codex_desktop_version_invalid''
          else Inr \<lparr>dm_package = n, dm_version = v\<rparr>
      | _ \<Rightarrow> Inl ''codex_desktop_manifest_invalid'')"

text \<open>\<open>\\OpenAI\.Codex(?:Beta)?_[^\\]+\\app\\resources\\codex(?:\.exe)?$\<close> without regard to case.\<close>

definition bslash :: string where
  "bslash = [CHR 0x5C]"

definition resources_tail :: string where
  "resources_tail = bslash @ ''app'' @ bslash @ ''resources'' @ bslash @ ''codex''"

definition packaged_at :: "string \<Rightarrow> bool" where
  "packaged_at t \<longleftrightarrow>
     (let l = map lower_latin t; start = bslash @ ''openai.codex''; r = drop (length start) l;
          u = (if starts_with r ''beta'' then drop 4 r else r);
          seg = takeWhile (\<lambda>c. c \<noteq> CHR 0x5C) (drop 1 u) in
      starts_with l start \<and> starts_with u ''_'' \<and> seg \<noteq> [] \<and>
      drop (1 + length seg) u \<in> {resources_tail, resources_tail @ ''.exe''})"

definition packaged_executable :: "string \<Rightarrow> bool" where
  "packaged_executable s \<longleftrightarrow> list_ex packaged_at (tails s)"

text \<open>\<open>path.win32.dirname\<close> of the paths above, which \<open>where.exe\<close> prints in their normal form.\<close>

definition win_dirname :: "string \<Rightarrow> string" where
  "win_dirname p = rev (drop 1 (dropWhile (\<lambda>c. c \<noteq> CHR 0x5C) (rev p)))"

definition resolveDefaultManifestPath :: "string result \<Rightarrow> string \<Rightarrow> string result" where
  "resolveDefaultManifestPath where_stdout platform =
     (if platform \<noteq> ''win32'' then Inl ''codex_desktop_windows_required''
      else and_then where_stdout (\<lambda>out.
        let candidates = filter (\<lambda>v. v \<noteq> []) (map trim (split_on CHR 0x0A out)) in
        case first_row (filter packaged_executable candidates) of
          None \<Rightarrow> Inl ''codex_desktop_executable_not_found''
        | Some executable \<Rightarrow>
            let resources = win_dirname executable; packageRoot = win_dirname (win_dirname resources)
            in Inr (packageRoot @ bslash @ ''AppxManifest.xml'')))"

section \<open>The callback\<close>

definition configDigest :: "runtime \<Rightarrow> string \<Rightarrow> string" where
  "configDigest rt v = hex rt (sha256 rt v)"

definition validateDesktopCallbackUrl :: "runtime \<Rightarrow> string \<Rightarrow> string result" where
  "validateDesktopCallbackUrl rt v =
     (if v = OAUTH_CALLBACK_URL then Inr v
      else if length v > 256 \<or> \<not> starts_with v callback_prefix \<or> \<not> rx id_class 8 64 (drop (length callback_prefix) v)
      then Inl ''codex_desktop_callback_invalid''
      else case parse_url rt v of
        None \<Rightarrow> Inl ''Invalid URL''
      | Some u \<Rightarrow>
          if url_href u \<noteq> v \<or> url_port u \<noteq> [] \<or> url_search u \<noteq> [] \<or> url_hash u \<noteq> [] \<or>
             url_username u \<noteq> [] \<or> url_password u \<noteq> []
          then Inl ''codex_desktop_callback_invalid'' else Inr v)"

definition missing_file :: string where
  "missing_file = ''ENOENT: no such file or directory''"

definition readDesktopCallbackFile :: "runtime \<Rightarrow> file_system \<Rightarrow> string \<Rightarrow> string result" where
  "readDesktopCallbackFile rt fs filePath =
     (case fs filePath of
        None \<Rightarrow> Inl missing_file
      | Some f \<Rightarrow>
          if \<not> fi_file f \<or> fi_symlink f \<or> fi_size f < 1 \<or> fi_size f > 300
          then Inl ''codex_desktop_callback_file_invalid''
          else if \<not> one_line (fi_text f) then Inl ''codex_desktop_callback_file_invalid''
          else validateDesktopCallbackUrl rt (strip_newline (fi_text f)))"

section \<open>The server entry\<close>

definition expectedDesktopServer :: "runtime \<Rightarrow> string \<Rightarrow> json result" where
  "expectedDesktopServer rt callbackUrl =
     and_then (validateDesktopCallbackUrl rt callbackUrl) (\<lambda>callback.
       Inr (JObj [(''url'', JStr MCP_RESOURCE), (''oauth_resource'', JStr MCP_RESOURCE),
         (''scopes'', JArr [JStr ''mcp:read'']), (''default_tools_approval_mode'', JStr ''prompt''),
         (''oauth'', JObj [(''client_id'', JStr OAUTH_CLIENT_ID), (''callback_url'', JStr callback)])]))"

record server_check =
  sk_present :: bool
  sk_enabled :: bool
  sk_resource :: bool
  sk_client :: bool
  sk_read_only :: bool
  sk_callback_valid :: bool
  sk_callback_digest :: "string option"
  sk_callback_match :: bool
  sk_approval :: bool
  sk_oauth_mode :: bool
  sk_unexpected :: bool
  sk_matches :: bool

definition server_fields :: "string list" where
  "server_fields = [''url'', ''oauth_resource'', ''scopes'', ''default_tools_approval_mode'', ''oauth'', ''enabled'', ''auth'']"

definition oauth_fields :: "string list" where
  "oauth_fields = [''client_id'', ''callback_url'']"

definition valid_callback :: "runtime \<Rightarrow> json option \<Rightarrow> string option" where
  "valid_callback rt server = (case js_prop ''callback_url'' (js_prop ''oauth'' server) of
     Some (JStr callback) \<Rightarrow> if is_ok (validateDesktopCallbackUrl rt callback) then Some callback else None
   | _ \<Rightarrow> None)"

definition inspectDesktopServer :: "runtime \<Rightarrow> json option \<Rightarrow> string \<Rightarrow> server_check" where
  "inspectDesktopServer rt server expected =
     (let present = (case server of Some (JObj _) \<Rightarrow> True | _ \<Rightarrow> False);
          callback = valid_callback rt server;
          enabled = (present \<and> js_prop ''enabled'' server \<noteq> Some (JBool False));
          resource = (present \<and> js_prop ''url'' server = Some (JStr MCP_RESOURCE)
            \<and> js_prop ''oauth_resource'' server = Some (JStr MCP_RESOURCE));
          client = (present \<and> js_prop ''client_id'' (js_prop ''oauth'' server) = Some (JStr OAUTH_CLIENT_ID));
          read_only = (present \<and> js_prop ''scopes'' server = Some (JArr [JStr ''mcp:read'']));
          digest = map_option (configDigest rt) callback;
          approval = (present \<and> js_prop ''default_tools_approval_mode'' server = Some (JStr ''prompt''));
          oauth = (present \<and> js_prop ''auth'' server \<in> {None, Some (JStr ''oauth'')});
          unexpected = (present \<and> (list_ex (\<lambda>k. k \<notin> set server_fields) (object_keys server)
            \<or> list_ex (\<lambda>k. k \<notin> set oauth_fields) (object_keys (js_prop ''oauth'' server))))
      in \<lparr>sk_present = present, sk_enabled = enabled, sk_resource = resource, sk_client = client,
        sk_read_only = read_only, sk_callback_valid = (callback \<noteq> None), sk_callback_digest = digest,
        sk_callback_match = (digest = Some expected), sk_approval = approval, sk_oauth_mode = oauth,
        sk_unexpected = unexpected,
        sk_matches = (present \<and> enabled \<and> resource \<and> client \<and> read_only \<and> digest = Some expected \<and> approval
          \<and> oauth \<and> \<not> unexpected)\<rparr>)"

text \<open>\<open>layer.config?.mcp_servers?.[serverName]\<close>; reading a property of \<open>null\<close> throws.\<close>

definition layer_server :: "string \<Rightarrow> json \<Rightarrow> json option" where
  "layer_server name layer = js_prop name (js_prop ''mcp_servers'' (js_prop ''config'' (Some layer)))"

record config_summary =
  sm_server :: string
  sm_project_disabled :: bool
  sm_trust_mention :: bool
  sm_layer_types :: "json list"
  sm_present :: bool
  sm_matches :: bool
  sm_callback_digest :: "string option"

definition reason_text :: "json \<Rightarrow> string" where
  "reason_text layer = (case js_prop ''disabledReason'' (Some layer) of
     None \<Rightarrow> [] | Some JNull \<Rightarrow> [] | Some v \<Rightarrow> js_text v)"

definition project_layer :: "json \<Rightarrow> bool" where
  "project_layer layer \<longleftrightarrow> js_prop ''type'' (js_prop ''name'' (Some layer)) = Some (JStr ''project'')"

definition layer_type :: "json \<Rightarrow> json" where
  "layer_type layer = (case js_prop ''type'' (js_prop ''name'' (Some layer)) of
     None \<Rightarrow> JStr ''unknown'' | Some JNull \<Rightarrow> JStr ''unknown'' | Some v \<Rightarrow> v)"

definition layer_enabled :: "json \<Rightarrow> bool" where
  "layer_enabled layer \<longleftrightarrow> \<not> truthy (js_prop ''disabledReason'' (Some layer))"

definition summarizeDesktopConfigRead ::
  "runtime \<Rightarrow> json option \<Rightarrow> string \<Rightarrow> string \<Rightarrow> config_summary result" where
  "summarizeDesktopConfigRead rt res name expected = (case js_prop ''layers'' res of
     Some (JArr layers) \<Rightarrow>
       if JNull \<in> set layers then Inl ''TypeError''
       else let target = filter (\<lambda>l. layer_server name l \<noteq> None) layers;
                enabled = filter layer_enabled target;
                checks = map (\<lambda>l. inspectDesktopServer rt (layer_server name l) expected) enabled in
         Inr \<lparr>sm_server = name,
           sm_project_disabled = list_ex (\<lambda>l. project_layer l \<and> \<not> layer_enabled l) target,
           sm_trust_mention = list_ex (\<lambda>l. project_layer l \<and>
             contains_text (map lower_latin (reason_text l)) ''trust'') target,
           sm_layer_types = map layer_type enabled,
           sm_present = (enabled \<noteq> []),
           sm_matches = (checks \<noteq> [] \<and> list_all sk_matches checks),
           sm_callback_digest = (if checks \<noteq> [] \<and> list_all sk_callback_match checks then Some expected else None)\<rparr>
   | _ \<Rightarrow> Inl ''codex_config_layers_missing'')"

definition user_layer :: "json \<Rightarrow> bool" where
  "user_layer layer \<longleftrightarrow> js_prop ''type'' (js_prop ''name'' (Some layer)) = Some (JStr ''user'') \<and> layer_enabled layer"

definition call_backend :: "(string \<Rightarrow> json \<Rightarrow> json option) \<Rightarrow> string \<Rightarrow> json \<Rightarrow> json result" where
  "call_backend backend verb params =
     (case backend verb params of None \<Rightarrow> Inl ''codex_probe_timeout'' | Some reply \<Rightarrow> Inr reply)"

definition readDesktopConfig ::
  "runtime \<Rightarrow> (string \<Rightarrow> json \<Rightarrow> json option) \<Rightarrow> string \<Rightarrow> string \<Rightarrow> string \<Rightarrow> string \<Rightarrow>
     (config_summary \<times> json option) result" where
  "readDesktopConfig rt backend executable cwd name expected =
     (if \<not> is_absolute executable \<or> \<not> is_absolute cwd then Inl ''codex_config_absolute_paths_required''
      else and_then (call_backend backend ''initialize'' (JObj
             [(''clientInfo'', JObj [(''name'', JStr ''wepuu_config_probe''), (''version'', JStr ''0.1.0'')]),
              (''capabilities'', JObj [(''experimentalApi'', JBool True)])])) (\<lambda>initialized.
        if truthy (js_prop ''error'' (Some initialized)) then Inl ''codex_config_initialize_failed''
        else and_then (call_backend backend ''config/read'' (JObj [(''cwd'', JStr cwd), (''includeLayers'', JBool True)]))
          (\<lambda>response.
        if truthy (js_prop ''error'' (Some response)) then Inl ''codex_config_read_failed''
        else and_then (summarizeDesktopConfigRead rt (js_prop ''result'' (Some response)) name expected) (\<lambda>summary.
          case js_prop ''layers'' (js_prop ''result'' (Some response)) of
            Some (JArr layers) \<Rightarrow> (case filter user_layer layers of
                [layer] \<Rightarrow> Inr (summary, layer_server name layer)
              | _ \<Rightarrow> Inl ''codex_user_config_layer_ambiguous'')
          | _ \<Rightarrow> Inl ''TypeError''))))"

section \<open>The block in the user's configuration\<close>

text \<open>\<open>^wepuu-p3b1-desktop-\d{8}-[a-f0-9]{8}$\<close>\<close>

definition name_prefix :: string where
  "name_prefix = ''wepuu-p3b1-desktop-''"

abbreviation hex_class :: char_class where "hex_class \<equiv> [(97, 102), (48, 57)]"

definition server_name_ok :: "string \<Rightarrow> bool" where
  "server_name_ok s \<longleftrightarrow> starts_with s name_prefix \<and>
     (let r = drop (length name_prefix) s in
      rx digit_class 8 8 (take 8 r) \<and> starts_with (drop 8 r) ''-'' \<and> rx hex_class 8 8 (drop 9 r))"

text \<open>\<open>now.toISOString()\<close> is the argument \<open>stamp\<close>.\<close>

definition createServerName :: "string \<Rightarrow> string \<Rightarrow> string result" where
  "createServerName stamp random =
     (if \<not> rx hex_class 8 8 random then Inl ''server_name_random_invalid''
      else Inr (name_prefix @ filter (\<lambda>c. c \<noteq> CHR ''-'') (take 10 stamp) @ ''-'' @ random))"

definition quoted :: "string \<Rightarrow> string" where
  "quoted s = CHR 0x22 # s @ [CHR 0x22]"

abbreviation newline_text :: string where "newline_text \<equiv> [CHR 0x0A]"

definition renderProjectConfig :: "runtime \<Rightarrow> string \<Rightarrow> string \<Rightarrow> string result" where
  "renderProjectConfig rt name callbackUrl =
     (if \<not> server_name_ok name then Inl ''server_name_invalid''
      else and_then (validateDesktopCallbackUrl rt callbackUrl) (\<lambda>callback.
        Inr (''[mcp_servers.'' @ name @ '']'' @ newline_text
          @ ''url = '' @ quoted MCP_RESOURCE @ newline_text
          @ ''oauth_resource = '' @ quoted MCP_RESOURCE @ newline_text
          @ ''scopes = ['' @ quoted ''mcp:read'' @ '']'' @ newline_text
          @ ''default_tools_approval_mode = '' @ quoted ''prompt'' @ newline_text @ newline_text
          @ ''[mcp_servers.'' @ name @ ''.oauth]'' @ newline_text
          @ ''client_id = '' @ quoted OAUTH_CLIENT_ID @ newline_text
          @ ''callback_url = '' @ quoted callback @ newline_text)))"

text \<open>The expression for a table of the server at the start of a line; each token follows any white space.\<close>

definition token :: "string \<Rightarrow> string \<Rightarrow> string option" where
  "token t s = (let r = dropWhile is_space s in if starts_with r t then Some (drop (length t) r) else None)"

definition server_token :: "string \<Rightarrow> string \<Rightarrow> string option" where
  "server_token name s = (case token (quoted name) s of
     Some r \<Rightarrow> Some r
   | None \<Rightarrow> (case token (CHR 0x27 # name @ [CHR 0x27]) s of Some r \<Rightarrow> Some r | None \<Rightarrow> token name s))"

definition table_at :: "string \<Rightarrow> string \<Rightarrow> bool" where
  "table_at name s =
     (case Option.bind (token ''['' s) (\<lambda>r. Option.bind (token ''mcp_servers'' r) (\<lambda>r.
        Option.bind (token ''.'' r) (server_token name))) of
        None \<Rightarrow> False
      | Some r \<Rightarrow> token '']'' r \<noteq> None \<or> token ''.'' r \<noteq> None)"

definition line_end :: "char \<Rightarrow> bool" where
  "line_end c \<longleftrightarrow> c = CHR 0x0A \<or> c = CHR 0x0D"

primrec line_starts :: "bool \<Rightarrow> string \<Rightarrow> string list" where
  "line_starts here [] = (if here then [[]] else [])"
| "line_starts here (c # cs) = (if here then [c # cs] else []) @ line_starts (line_end c) cs"

definition targetTable :: "string \<Rightarrow> string \<Rightarrow> bool" where
  "targetTable name contents \<longleftrightarrow> list_ex (table_at name) (line_starts True contents)"

record receipt =
  rc_server :: string
  rc_baseline :: string
  rc_after :: string
  rc_appended :: string

text \<open>\<open>appended\<close> is absent, here empty, where nothing changed.\<close>

record registration =
  rg_changed :: bool
  rg_contents :: string
  rg_appended :: string
  rg_receipt :: "receipt option"

definition newline_of :: "string \<Rightarrow> string" where
  "newline_of contents = (if contains_text contents [CHR 0x0D, CHR 0x0A] then [CHR 0x0D, CHR 0x0A] else newline_text)"

definition appended_block :: "runtime \<Rightarrow> string \<Rightarrow> string \<Rightarrow> string" where
  "appended_block rt contents rendered =
     (let nl = newline_of contents;
          marker = ''# WPAuto P3-B1B temporary MCP; baseline '' @ configDigest rt contents;
          block = replace_all CHR 0x0A nl (marker @ newline_text @ rendered);
          separator = (if ends_with contents nl \<or> contents = [] then [] else nl)
      in separator @ nl @ block)"

definition planTemporaryGlobalConfig ::
  "runtime \<Rightarrow> string \<Rightarrow> string \<Rightarrow> json option \<Rightarrow> registration result" where
  "planTemporaryGlobalConfig rt contents callbackUrl existing =
     and_then (validateDesktopCallbackUrl rt callbackUrl) (\<lambda>callback.
       if existing \<noteq> None then
         (if \<not> sk_matches (inspectDesktopServer rt existing (configDigest rt callback))
          then Inl ''codex_global_server_conflict''
          else Inr \<lparr>rg_changed = False, rg_contents = contents, rg_appended = [], rg_receipt = None\<rparr>)
       else if targetTable EXISTING_DESKTOP_SERVER_NAME contents then Inl ''codex_global_server_conflict''
       else and_then (renderProjectConfig rt EXISTING_DESKTOP_SERVER_NAME callbackUrl) (\<lambda>rendered.
         let appended = appended_block rt contents rendered; updated = contents @ appended in
         Inr \<lparr>rg_changed = True, rg_contents = updated, rg_appended = appended,
           rg_receipt = Some \<lparr>rc_server = EXISTING_DESKTOP_SERVER_NAME, rc_baseline = configDigest rt contents,
             rc_after = configDigest rt updated, rc_appended = configDigest rt appended\<rparr>\<rparr>))"

definition assertGlobalConfigUnchanged :: "runtime \<Rightarrow> string \<Rightarrow> string \<Rightarrow> unit result" where
  "assertGlobalConfigUnchanged rt contents expected =
     (if configDigest rt contents \<noteq> expected then Inl ''codex_global_config_concurrent_change'' else Inr ())"

text \<open>\<open>contents.slice(0, -n)\<close>, which is empty for \<open>n = 0\<close>; the answer is \<open>changed\<close> with the contents.\<close>

definition slice_back :: "string \<Rightarrow> nat \<Rightarrow> string" where
  "slice_back s n = (if n = 0 then [] else take (length s - n) s)"

definition planTemporaryGlobalRollback :: "runtime \<Rightarrow> string \<Rightarrow> registration \<Rightarrow> (bool \<times> string) result" where
  "planTemporaryGlobalRollback rt contents rg =
     (if \<not> rg_changed rg then Inr (False, contents)
      else case rg_receipt rg of
        None \<Rightarrow> Inr (False, contents)
      | Some rc \<Rightarrow>
          if configDigest rt (rg_appended rg) \<noteq> rc_appended rc \<or> \<not> ends_with contents (rg_appended rg)
          then Inl ''codex_global_rollback_conflict''
          else Inr (True, slice_back contents (length (rg_appended rg))))"

section \<open>The public metadata\<close>

datatype redirect_mode = RedirectError | RedirectManual

record fetched =
  ft_status :: int
  ft_header :: "string \<Rightarrow> string option"
  ft_json :: "json result"

definition validateChallenge :: "int \<Rightarrow> string option \<Rightarrow> unit result" where
  "validateChallenge status authenticate =
     (if status \<noteq> 401 then Inl ''mcp_challenge_status_invalid''
      else if Option.bind authenticate (attribute ''resource_metadata'') \<noteq> Some RESOURCE_METADATA_URL
      then Inl ''mcp_resource_metadata_challenge_invalid'' else Inr ())"

definition assertRecord :: "json \<Rightarrow> string \<Rightarrow> json_object result" where
  "assertRecord v code = (case v of JObj obj \<Rightarrow> Inr obj | _ \<Rightarrow> Inl code)"

definition assertExactStringArray :: "json option \<Rightarrow> string list \<Rightarrow> string \<Rightarrow> unit result" where
  "assertExactStringArray v expected code = (if v = Some (JArr (map JStr expected)) then Inr () else Inl code)"

definition validateResourceMetadata :: "json \<Rightarrow> unit result" where
  "validateResourceMetadata metadata =
     and_then (assertRecord metadata ''resource_metadata_invalid'') (\<lambda>v.
     if map_of v ''resource'' \<noteq> Some (JStr MCP_RESOURCE) then Inl ''resource_metadata_resource_mismatch''
     else and_then (assertExactStringArray (map_of v ''authorization_servers'') [OAUTH_ISSUER]
         ''resource_metadata_issuer_mismatch'') (\<lambda>_.
     and_then (assertExactStringArray (map_of v ''scopes_supported'') ADVERTISED_MCP_SCOPES
         ''resource_metadata_scopes_mismatch'') (\<lambda>_.
     assertExactStringArray (map_of v ''bearer_methods_supported'') [''header'']
         ''resource_metadata_bearer_method_mismatch'')))"

definition array_includes :: "json option \<Rightarrow> string \<Rightarrow> bool" where
  "array_includes v s = (case v of Some (JArr xs) \<Rightarrow> JStr s \<in> set xs | _ \<Rightarrow> False)"

definition validateAuthorizationMetadata :: "json \<Rightarrow> unit result" where
  "validateAuthorizationMetadata metadata =
     and_then (assertRecord metadata ''authorization_metadata_invalid'') (\<lambda>v.
     if map_of v ''issuer'' \<noteq> Some (JStr OAUTH_ISSUER) then Inl ''authorization_metadata_issuer_mismatch''
     else if map_of v ''authorization_response_iss_parameter_supported'' \<noteq> Some (JBool True)
     then Inl ''authorization_response_issuer_binding_missing''
     else if \<not> array_includes (map_of v ''code_challenge_methods_supported'') ''S256'' then Inl ''pkce_s256_missing''
     else if \<not> array_includes (map_of v ''token_endpoint_auth_methods_supported'') ''none''
     then Inl ''public_client_auth_method_missing'' else Inr ())"

type_synonym fetch_impl = "string \<Rightarrow> redirect_mode \<Rightarrow> fetched result"

definition fetch_resource :: "fetch_impl \<Rightarrow> (bool \<times> fetched) result" where
  "fetch_resource fetch =
     and_then (fetch RESOURCE_METADATA_URL RedirectManual) (\<lambda>initial.
     if 300 \<le> ft_status initial \<and> ft_status initial < 400 then
       (if ft_header initial ''location'' \<noteq> Some (RESOURCE_METADATA_URL @ ''/'')
        then Inl ''resource_metadata_redirect_invalid''
        else and_then (fetch (RESOURCE_METADATA_URL @ ''/'') RedirectError) (\<lambda>r. Inr (True, r)))
     else Inr (False, initial))"

definition probePublicOAuthMetadata :: "fetch_impl \<Rightarrow> bool result" where
  "probePublicOAuthMetadata fetch =
     and_then (fetch MCP_RESOURCE RedirectError) (\<lambda>challenge.
     and_then (validateChallenge (ft_status challenge) (ft_header challenge ''www-authenticate'')) (\<lambda>_.
     and_then (fetch_resource fetch) (\<lambda>(redirectObserved, resource).
     if ft_status resource \<noteq> 200 then Inl ''resource_metadata_status_invalid''
     else and_then (and_then (ft_json resource) validateResourceMetadata) (\<lambda>_.
     and_then (fetch (OAUTH_ISSUER @ ''/.well-known/openid-configuration'') RedirectError) (\<lambda>authorization.
     if ft_status authorization \<noteq> 200 then Inl ''authorization_metadata_status_invalid''
     else and_then (and_then (ft_json authorization) validateAuthorizationMetadata) (\<lambda>_.
       Inr redirectObserved))))))"

section \<open>The project\<close>

text \<open>\<open>mkdir\<close> of one directory and \<open>writeFile\<close> with the flag \<open>wx\<close>; \<open>allows\<close> is what else the host decides.\<close>

definition make_directory :: "(string \<Rightarrow> string \<Rightarrow> bool) \<Rightarrow> nat \<Rightarrow> string \<Rightarrow> file_system \<Rightarrow> file_system result" where
  "make_directory allows uid path fs =
     (if fs path \<noteq> None then Inl ''EEXIST: file already exists''
      else if \<not> allows ''mkdir'' path then Inl ''EACCES: permission denied''
      else Inr (fs(path \<mapsto> \<lparr>fi_file = False, fi_symlink = False, fi_size = 0, fi_mode = 493, fi_owner = uid,
        fi_text = []\<rparr>)))"

definition write_exclusive ::
  "(string \<Rightarrow> string \<Rightarrow> bool) \<Rightarrow> nat \<Rightarrow> string \<Rightarrow> string \<Rightarrow> file_system \<Rightarrow> file_system result" where
  "write_exclusive allows uid path text fs =
     (if fs path \<noteq> None then Inl ''EEXIST: file already exists''
      else if \<not> allows ''open'' path then Inl ''EACCES: permission denied''
      else Inr (fs(path \<mapsto> \<lparr>fi_file = True, fi_symlink = False, fi_size = utf8_length text, fi_mode = 384,
        fi_owner = uid, fi_text = text\<rparr>)))"

record prepared_project =
  pp_manifest :: desktop_manifest
  pp_server :: string
  pp_directory :: string
  pp_config :: string
  pp_digest :: string
  pp_redirect :: bool

record preflight_host =
  ho_uid :: nat
  ho_cwd :: string
  ho_tmpdir :: string
  ho_allows :: "string \<Rightarrow> string \<Rightarrow> bool"
  ho_iso :: string
  ho_random :: string

text \<open>\<open>readFile\<close>, through a symbolic link, whose \<open>fi_text\<close> is the text of its target.\<close>

definition read_text :: "file_system \<Rightarrow> string \<Rightarrow> string result" where
  "read_text fs path = (case fs path of
     None \<Rightarrow> Inl missing_file
   | Some f \<Rightarrow> if fi_file f \<or> fi_symlink f then Inr (fi_text f) else Inl ''EISDIR: illegal operation on a directory, read'')"

definition project_config :: "string \<Rightarrow> string" where
  "project_config dir = dir @ ''/.codex/config.toml''"

definition write_project ::
  "runtime \<Rightarrow> preflight_host \<Rightarrow> string \<Rightarrow> string \<Rightarrow> string \<Rightarrow> file_system \<Rightarrow> unit result \<times> file_system" where
  "write_project rt ho name callback dir fs =
     (case make_directory (ho_allows ho) (ho_uid ho) dir fs of
        Inl e \<Rightarrow> (Inl e, fs)
      | Inr fs1 \<Rightarrow> (case make_directory (ho_allows ho) (ho_uid ho) (dir @ ''/.codex'') fs1 of
          Inl e \<Rightarrow> (Inl e, fs1)
        | Inr fs2 \<Rightarrow> (case renderProjectConfig rt name callback of
            Inl e \<Rightarrow> (Inl e, fs2)
          | Inr text \<Rightarrow> (case write_exclusive (ho_allows ho) (ho_uid ho) (project_config dir) text fs2 of
              Inl e \<Rightarrow> (Inl e, fs2)
            | Inr fs3 \<Rightarrow> (Inr (), fs3)))))"

definition plan_project ::
  "runtime \<Rightarrow> preflight_host \<Rightarrow> string option \<Rightarrow> string \<Rightarrow> string option \<Rightarrow> file_system \<Rightarrow>
     (desktop_manifest \<times> string \<times> string \<times> string) result" where
  "plan_project rt ho manifestPath outputRoot callbackFile fs = (case manifestPath of
     None \<Rightarrow> Inl ''codex_desktop_manifest_path_required''
   | Some path \<Rightarrow>
       and_then (and_then (read_text fs path) parseDesktopManifest) (\<lambda>manifest.
       and_then (case callbackFile of None \<Rightarrow> Inr OAUTH_CALLBACK_URL | Some f \<Rightarrow> readDesktopCallbackFile rt fs f)
         (\<lambda>callbackUrl.
       and_then (createServerName (ho_iso ho) (ho_random ho)) (\<lambda>serverName.
       let root = resolve_path (ho_cwd ho) outputRoot; dir = resolve_path root serverName in
       if \<not> starts_with dir (root @ ''/'') then Inl ''temporary_project_path_invalid''
       else Inr (manifest, callbackUrl, serverName, dir)))))"

definition prepareDesktopProject ::
  "runtime \<Rightarrow> preflight_host \<Rightarrow> fetch_impl \<Rightarrow> string option \<Rightarrow> string \<Rightarrow> string option \<Rightarrow> file_system \<Rightarrow>
     prepared_project result \<times> file_system" where
  "prepareDesktopProject rt ho fetch manifestPath outputRoot callbackFile fs =
     (case plan_project rt ho manifestPath outputRoot callbackFile fs of
        Inl e \<Rightarrow> (Inl e, fs)
      | Inr (manifest, callbackUrl, serverName, dir) \<Rightarrow>
          (case write_project rt ho serverName callbackUrl dir fs of
             (Inl e, fs') \<Rightarrow> (Inl e, fs')
           | (Inr _, fs') \<Rightarrow>
               (and_then (probePublicOAuthMetadata fetch) (\<lambda>redirect.
                  Inr \<lparr>pp_manifest = manifest, pp_server = serverName, pp_directory = dir,
                    pp_config = project_config dir, pp_digest = configDigest rt callbackUrl,
                    pp_redirect = redirect\<rparr>), fs')))"

definition report_line :: "string \<Rightarrow> string \<Rightarrow> string" where
  "report_line name v = name @ ''='' @ v @ newline_text"

definition preflight_report :: "prepared_project \<Rightarrow> string" where
  "preflight_report p =
     report_line ''CODEX_DESKTOP_VERSION'' (dm_version (pp_manifest p))
     @ report_line ''CODEX_DESKTOP_SERVER_NAME'' (pp_server p)
     @ report_line ''CODEX_DESKTOP_PROJECT_DIR'' (pp_directory p)
     @ report_line ''CODEX_DESKTOP_CONFIG_PATH'' (pp_config p)
     @ report_line ''CODEX_DESKTOP_CALLBACK_DIGEST'' (pp_digest p)
     @ report_line ''RESOURCE_METADATA_SAME_ORIGIN_REDIRECT'' (if pp_redirect p then ''true'' else ''false'')
     @ report_line ''CODEX_DESKTOP_STATIC_COMPATIBILITY_PASS'' ''True''
     @ report_line ''CODEX_DESKTOP_OAUTH_STARTED'' ''False''"

text \<open>The line on \<open>stderr\<close> of a failed run: a message that is not \<open>^[a-z0-9_.:-]+$\<close> is not shown.\<close>

definition preflight_failure :: "string \<Rightarrow> string" where
  "preflight_failure e = report_line ''CODEX_DESKTOP_PREFLIGHT_FAILED''
     (if e \<noteq> [] \<and> list_all (char_in [(97, 122), (48, 57), (95, 95), (46, 46), (58, 58), (45, 45)]) e
      then e else ''unknown'')"

definition preflight_main ::
  "runtime \<Rightarrow> preflight_host \<Rightarrow> fetch_impl \<Rightarrow> environment \<Rightarrow> string result \<Rightarrow> string \<Rightarrow> file_system \<Rightarrow>
     string result \<times> file_system" where
  "preflight_main rt ho fetch env where_stdout platform fs =
     (case (case env ''WEPUU_CODEX_APPX_MANIFEST'' of
          Some path \<Rightarrow> Inr path | None \<Rightarrow> resolveDefaultManifestPath where_stdout platform) of
        Inl e \<Rightarrow> (Inl (preflight_failure e), fs)
      | Inr path \<Rightarrow>
          (case prepareDesktopProject rt ho fetch (Some path) (ho_tmpdir ho)
              (env ''WEPUU_CODEX_DESKTOP_CALLBACK_FILE'') fs of
             (Inl e, fs') \<Rightarrow> (Inl (preflight_failure e), fs')
           | (Inr p, fs') \<Rightarrow> (Inr (preflight_report p), fs')))"

section \<open>The block is found and taken out\<close>

lemma ends_with_append [simp]: "ends_with (a @ b) b"
  by (simp add: ends_with_def)

lemma ends_with_iff: "ends_with s t \<longleftrightarrow> (\<exists>a. s = a @ t)"
proof
  assume "ends_with s t"
  then have "s = take (length s - length t) s @ t"
    by (metis append_take_drop_id ends_with_def)
  then show "\<exists>a. s = a @ t" by blast
qed auto

lemma line_start_after: "line_end c \<Longrightarrow> s \<in> set (line_starts here (xs @ c # s))"
proof (induction xs arbitrary: here)
  case Nil
  then show ?case by (cases s) auto
qed simp

text \<open>The header line of the block, and what the registration knows of its own text.\<close>

definition header_line :: string where
  "header_line = ''[mcp_servers.'' @ EXISTING_DESKTOP_SERVER_NAME @ '']''"

lemma header_found: "table_at EXISTING_DESKTOP_SERVER_NAME (header_line @ s)"
  by (simp add: header_line_def EXISTING_DESKTOP_SERVER_NAME_def table_at_def token_def server_token_def quoted_def
    is_space_def starts_with_def)

lemma header_kept: "replace_all CHR 0x0A nl header_line = header_line"
  by (simp add: header_line_def EXISTING_DESKTOP_SERVER_NAME_def replace_all_def)

lemma render_header:
  "renderProjectConfig rt EXISTING_DESKTOP_SERVER_NAME url = Inr text \<Longrightarrow> \<exists>rest. text = header_line @ rest"
  by (auto simp: renderProjectConfig_def and_then_Inr header_line_def split: if_splits)

lemma newline_ends: "\<exists>a c. newline_of s = a @ [c] \<and> line_end c"
  by (auto simp: newline_of_def line_end_def)

lemma appended_shape:
  assumes "renderProjectConfig rt EXISTING_DESKTOP_SERVER_NAME url = Inr text"
  shows "\<exists>a c b. line_end c \<and> appended_block rt contents text = a @ c # header_line @ b"
proof -
  obtain rest where body: "text = header_line @ rest" using render_header [OF assms] by blast
  obtain a c where nl: "newline_of contents = a @ [c]" "line_end c" using newline_ends by blast
  have lf: "replace_all CHR 0x0A r newline_text = r" for r by (simp add: replace_all_def)
  show ?thesis
    by (rule exI [of _ "(if ends_with contents (newline_of contents) \<or> contents = [] then [] else newline_of contents)
        @ newline_of contents @ replace_all CHR 0x0A (newline_of contents)
          (''# WPAuto P3-B1B temporary MCP; baseline '' @ configDigest rt contents) @ a"],
      rule exI [of _ c], rule exI [of _ "replace_all CHR 0x0A (newline_of contents) rest"])
      (simp add: appended_block_def Let_def body lf header_kept nl replace_all_append del: append_assoc add: append_assoc [symmetric])
qed

lemma plan_changed:
  assumes "planTemporaryGlobalConfig rt contents url existing = Inr rg" and "rg_changed rg"
  obtains body where "existing = None" "renderProjectConfig rt EXISTING_DESKTOP_SERVER_NAME url = Inr body"
    "rg_appended rg = appended_block rt contents body" "rg_contents rg = contents @ rg_appended rg"
    "rg_receipt rg = Some \<lparr>rc_server = EXISTING_DESKTOP_SERVER_NAME, rc_baseline = configDigest rt contents,
       rc_after = configDigest rt (rg_contents rg), rc_appended = configDigest rt (rg_appended rg)\<rparr>"
  using assms by (auto simp: planTemporaryGlobalConfig_def and_then_Inr Let_def split: if_splits)

lemma rollback_restores:
  assumes "planTemporaryGlobalConfig rt contents url existing = Inr rg" and "rg_changed rg"
  shows "rg_contents rg = contents @ rg_appended rg \<and> (\<forall>text changed before.
    planTemporaryGlobalRollback rt text rg = Inr (changed, before) \<longleftrightarrow> changed \<and> text = before @ rg_appended rg)"
proof -
  from assms obtain block where b: "renderProjectConfig rt EXISTING_DESKTOP_SERVER_NAME url = Inr block"
    "rg_appended rg = appended_block rt contents block" "rg_contents rg = contents @ rg_appended rg"
    "\<exists>rc. rg_receipt rg = Some rc \<and> rc_appended rc = configDigest rt (rg_appended rg)"
    by (rule plan_changed) auto
  have "rg_appended rg \<noteq> []" using appended_shape [OF b(1), of contents] b(2) by auto
  with b(3,4) assms(2) show ?thesis
    by (auto simp: planTemporaryGlobalRollback_def slice_back_def ends_with_iff split: if_splits)
qed

lemma registered_once:
  assumes "planTemporaryGlobalConfig rt contents url existing = Inr rg" and "rg_changed rg"
  shows "\<not> is_ok (planTemporaryGlobalConfig rt (before @ rg_appended rg @ after) url' None)"
proof -
  from assms obtain block where b: "renderProjectConfig rt EXISTING_DESKTOP_SERVER_NAME url = Inr block"
    "rg_appended rg = appended_block rt contents block"
    by (rule plan_changed)
  obtain a c d where shape: "line_end c" "appended_block rt contents block = a @ c # header_line @ d"
    using appended_shape [OF b(1)] by blast
  have "header_line @ d @ after \<in> set (line_starts True ((before @ a) @ c # header_line @ d @ after))"
    by (rule line_start_after [OF shape(1)])
  then have "targetTable EXISTING_DESKTOP_SERVER_NAME (before @ rg_appended rg @ after)"
    unfolding targetTable_def list_ex_iff b(2) shape(2) by (auto intro: header_found)
  then show ?thesis by (simp add: planTemporaryGlobalConfig_def and_then_def split: sum.splits)
qed

section \<open>What the configuration of the client may say\<close>

text \<open>An entry that names the resource, the client, the read scope and the callback, and nothing else.\<close>

definition exact_server :: "runtime \<Rightarrow> string \<Rightarrow> json \<Rightarrow> bool" where
  "exact_server rt expected server \<longleftrightarrow> (\<exists>obj oauth callback. server = JObj obj
     \<and> map_of obj ''url'' = Some (JStr MCP_RESOURCE) \<and> map_of obj ''oauth_resource'' = Some (JStr MCP_RESOURCE)
     \<and> map_of obj ''scopes'' = Some (JArr [JStr ''mcp:read''])
     \<and> map_of obj ''default_tools_approval_mode'' = Some (JStr ''prompt'')
     \<and> map_of obj ''oauth'' = Some (JObj oauth) \<and> map_of oauth ''client_id'' = Some (JStr OAUTH_CLIENT_ID)
     \<and> map_of oauth ''callback_url'' = Some (JStr callback) \<and> is_ok (validateDesktopCallbackUrl rt callback)
     \<and> configDigest rt callback = expected
     \<and> map_of obj ''enabled'' \<noteq> Some (JBool False) \<and> map_of obj ''auth'' \<in> {None, Some (JStr ''oauth'')}
     \<and> fst ` set obj \<subseteq> set server_fields \<and> fst ` set oauth \<subseteq> set oauth_fields)"

lemma js_prop_Some: "js_prop k v = Some w \<longleftrightarrow> (\<exists>obj. v = Some (JObj obj) \<and> map_of obj k = Some w)"
  by (auto simp: js_prop_def split: option.splits json.splits)

lemma js_prop_JObj [simp]: "js_prop k (Some (JObj obj)) = map_of obj k"
  by (simp add: js_prop_def)

lemma valid_callback_Some:
  "valid_callback rt server = Some callback \<longleftrightarrow>
     js_prop ''callback_url'' (js_prop ''oauth'' server) = Some (JStr callback) \<and> is_ok (validateDesktopCallbackUrl rt callback)"
  by (auto simp: valid_callback_def split: option.splits json.splits if_splits)

lemma unlisted: "list_ex (\<lambda>k. k \<notin> A) xs \<longleftrightarrow> \<not> set xs \<subseteq> A"
  by (auto simp: list_ex_iff)

lemma object_keys_JObj [simp]: "object_keys (Some (JObj obj)) = map fst obj"
  by (simp add: object_keys_def)

lemma inspect_matches:
  "sk_matches (inspectDesktopServer rt (Some server) expected) \<longleftrightarrow> exact_server rt expected server"
proof (cases server)
  case (JObj obj)
  show ?thesis
    by (simp add: JObj inspectDesktopServer_def exact_server_def Let_def unlisted) 
      (auto simp: valid_callback_Some js_prop_Some)
qed (simp_all add: inspectDesktopServer_def exact_server_def Let_def)

lemma valid_same: "validateDesktopCallbackUrl rt v = Inr w \<Longrightarrow> w = v"
  by (auto simp: validateDesktopCallbackUrl_def split: if_splits option.splits)

theorem existing_entry_exact:
  assumes "planTemporaryGlobalConfig rt contents url (Some server) = Inr rg"
  shows "rg = \<lparr>rg_changed = False, rg_contents = contents, rg_appended = [], rg_receipt = None\<rparr>
    \<and> exact_server rt (configDigest rt url) server"
  using assms by (auto simp: planTemporaryGlobalConfig_def and_then_Inr inspect_matches dest: valid_same split: if_splits)

theorem expected_entry_accepted:
  assumes "expectedDesktopServer rt url = Inr server"
  shows "is_ok (planTemporaryGlobalConfig rt contents url (Some server))"
proof -
  from assms have v: "validateDesktopCallbackUrl rt url = Inr url"
    by (auto simp: expectedDesktopServer_def and_then_Inr dest: valid_same)
  with assms have "exact_server rt (configDigest rt url) server"
    by (auto simp: expectedDesktopServer_def exact_server_def server_fields_def oauth_fields_def)
  with v show ?thesis by (simp add: planTemporaryGlobalConfig_def inspect_matches)
qed

theorem summary_matches_exact:
  assumes "summarizeDesktopConfigRead rt res name expected = Inr sm" and "sm_matches sm"
  shows "\<exists>layers. js_prop ''layers'' res = Some (JArr layers)
    \<and> (\<exists>l\<in>set layers. layer_enabled l \<and> layer_server name l \<noteq> None)
    \<and> (\<forall>l\<in>set layers. \<forall>server. layer_enabled l \<and> layer_server name l = Some server \<longrightarrow> exact_server rt expected server)"
proof -
  from assms obtain layers where l: "js_prop ''layers'' res = Some (JArr layers)"
    by (auto simp: summarizeDesktopConfigRead_def split: option.splits json.splits)
  let ?enabled = "filter layer_enabled (filter (\<lambda>l. layer_server name l \<noteq> None) layers)"
  from l assms have "?enabled \<noteq> [] \<and>
      list_all (\<lambda>l. sk_matches (inspectDesktopServer rt (layer_server name l) expected)) ?enabled"
    by (auto simp: summarizeDesktopConfigRead_def Let_def list.pred_map comp_def simp del: filter_filter split: if_splits)
  then have "\<exists>l\<in>set layers. layer_enabled l \<and> layer_server name l \<noteq> None"
    "\<forall>l\<in>set layers. layer_enabled l \<and> layer_server name l \<noteq> None \<longrightarrow>
       sk_matches (inspectDesktopServer rt (layer_server name l) expected)"
    by (auto simp: filter_empty_conv list_all_iff)
  with l show ?thesis by (auto simp: inspect_matches [symmetric])
qed

section \<open>Callbacks, metadata and the project\<close>

lemma registered_url_valid:
  "validateP3b1CodexDesktopCallbackUri rt v = Inr w \<Longrightarrow> validateDesktopCallbackUrl rt v = Inr w"
  unfolding validateP3b1CodexDesktopCallbackUri_def validateDesktopCallbackUrl_def
  by (cases "parse_url rt v") (simp_all split: if_split_asm)

theorem registered_callback_accepted:
  assumes "readP3b1CodexDesktopCallbackFile rt fs path production = Inr callback"
  shows "readDesktopCallbackFile rt fs path = Inr callback"
proof -
  obtain f where "fs path = Some f"
    using assms by (cases "fs path") (simp_all add: readP3b1CodexDesktopCallbackFile_def split: if_split_asm)
  with assms registered_url_valid [of rt "strip_newline (fi_text f)" callback] show ?thesis
    by (simp add: readP3b1CodexDesktopCallbackFile_def readDesktopCallbackFile_def split: if_split_asm)
qed

lemma challenge_Inr:
  "validateChallenge status header = Inr u \<longleftrightarrow> status = 401 \<and>
     (\<exists>h. header = Some h \<and> attribute ''resource_metadata'' h = Some RESOURCE_METADATA_URL)"
  by (cases header) (auto simp: validateChallenge_def)

lemma exact_array_Inr: "assertExactStringArray v expected code = Inr u \<longleftrightarrow> v = Some (JArr (map JStr expected))"
  by (simp add: assertExactStringArray_def)

lemma record_Inr: "assertRecord v code = Inr obj \<longleftrightarrow> v = JObj obj"
  by (cases v) (auto simp: assertRecord_def)

definition resource_document :: "json_object \<Rightarrow> bool" where
  "resource_document doc \<longleftrightarrow> map_of doc ''resource'' = Some (JStr MCP_RESOURCE)
     \<and> map_of doc ''authorization_servers'' = Some (JArr [JStr OAUTH_ISSUER])
     \<and> map_of doc ''scopes_supported'' = Some (JArr (map JStr ADVERTISED_MCP_SCOPES))
     \<and> map_of doc ''bearer_methods_supported'' = Some (JArr [JStr ''header''])"

definition issuer_document :: "json_object \<Rightarrow> bool" where
  "issuer_document doc \<longleftrightarrow> map_of doc ''issuer'' = Some (JStr OAUTH_ISSUER)
     \<and> map_of doc ''authorization_response_iss_parameter_supported'' = Some (JBool True)
     \<and> array_includes (map_of doc ''code_challenge_methods_supported'') ''S256''
     \<and> array_includes (map_of doc ''token_endpoint_auth_methods_supported'') ''none''"

lemma resource_metadata_Inr:
  "validateResourceMetadata v = Inr u \<longleftrightarrow> (\<exists>doc. v = JObj doc \<and> resource_document doc)"
  by (auto simp: validateResourceMetadata_def resource_document_def and_then_Inr exact_array_Inr record_Inr)

lemma authorization_metadata_Inr:
  "validateAuthorizationMetadata v = Inr u \<longleftrightarrow> (\<exists>doc. v = JObj doc \<and> issuer_document doc)"
  by (auto simp: validateAuthorizationMetadata_def issuer_document_def and_then_Inr record_Inr split: if_splits)

lemma fetch_resource_Inr:
  "fetch_resource fetch = Inr (redirected, r) \<Longrightarrow> ft_status r = 200 \<Longrightarrow>
     fetch (if redirected then RESOURCE_METADATA_URL @ ''/'' else RESOURCE_METADATA_URL)
       (if redirected then RedirectError else RedirectManual) = Inr r"
  by (auto simp: fetch_resource_def and_then_Inr split: if_splits)

theorem probe_accepts_only:
  assumes "probePublicOAuthMetadata fetch = Inr redirected"
  shows "\<exists>challenge header resource doc authorization issuer.
    fetch MCP_RESOURCE RedirectError = Inr challenge \<and> ft_status challenge = 401
    \<and> ft_header challenge ''www-authenticate'' = Some header
    \<and> attribute ''resource_metadata'' header = Some RESOURCE_METADATA_URL
    \<and> fetch (if redirected then RESOURCE_METADATA_URL @ ''/'' else RESOURCE_METADATA_URL)
        (if redirected then RedirectError else RedirectManual) = Inr resource
    \<and> ft_status resource = 200 \<and> ft_json resource = Inr (JObj doc) \<and> resource_document doc
    \<and> fetch (OAUTH_ISSUER @ ''/.well-known/openid-configuration'') RedirectError = Inr authorization
    \<and> ft_status authorization = 200 \<and> ft_json authorization = Inr (JObj issuer) \<and> issuer_document issuer"
proof -
  from assms obtain challenge u resource v authorization w where
    c: "fetch MCP_RESOURCE RedirectError = Inr challenge"
      "validateChallenge (ft_status challenge) (ft_header challenge ''www-authenticate'') = Inr u"
    and r: "fetch_resource fetch = Inr (redirected, resource)" "ft_status resource = 200"
      "and_then (ft_json resource) validateResourceMetadata = Inr v"
    and a: "fetch (OAUTH_ISSUER @ ''/.well-known/openid-configuration'') RedirectError = Inr authorization"
      "ft_status authorization = 200" "and_then (ft_json authorization) validateAuthorizationMetadata = Inr w"
    unfolding probePublicOAuthMetadata_def and_then_Inr [of "fetch _ _"] and_then_Inr [of "validateChallenge _ _"]
      and_then_Inr [of "fetch_resource _"]
    by (auto split: if_splits simp: and_then_Inr [of "fetch _ _"] and_then_Inr [of "and_then _ _"])
  from r(3) a(3) obtain doc issuer where d: "ft_json resource = Inr (JObj doc)" "resource_document doc"
    "ft_json authorization = Inr (JObj issuer)" "issuer_document issuer"
    by (auto simp: and_then_Inr resource_metadata_Inr authorization_metadata_Inr)
  from c obtain h where "ft_status challenge = 401" "ft_header challenge ''www-authenticate'' = Some h"
    "attribute ''resource_metadata'' h = Some RESOURCE_METADATA_URL" by (auto simp: challenge_Inr)
  with c(1) fetch_resource_Inr [OF r(1,2)] r(2) a(1,2) d show ?thesis by blast
qed

text \<open>What a step of the preflight may do to the files: add new paths below a directory.\<close>

definition adds_below :: "string \<Rightarrow> file_system \<Rightarrow> file_system \<Rightarrow> bool" where
  "adds_below root fs fs' \<longleftrightarrow> (\<forall>p. fs' p \<noteq> fs p \<longrightarrow> fs p = None \<and> starts_with p root)"

lemma adds_below_refl [simp, intro]: "adds_below root fs fs"
  by (simp add: adds_below_def)

lemma adds_below_trans: "adds_below root fs1 fs2 \<Longrightarrow> adds_below root fs2 fs3 \<Longrightarrow> adds_below root fs1 fs3"
  unfolding adds_below_def by metis

lemma below_prefix: "starts_with p r \<Longrightarrow> starts_with (p @ q) r"
  by (metis append_assoc append_take_drop_id starts_with_append starts_with_def)

lemma writes_below:
  "make_directory allows uid p fs = Inr fs' \<Longrightarrow> starts_with p root \<Longrightarrow> adds_below root fs fs'"
  "write_exclusive allows uid p body fs = Inr fs' \<Longrightarrow> starts_with p root \<Longrightarrow> adds_below root fs fs'"
  by (auto simp: make_directory_def write_exclusive_def adds_below_def split: if_splits)

lemma write_project_below:
  assumes "write_project rt ho name callback dir fs = (r, fs')" and root: "starts_with dir root"
  shows "adds_below root fs fs'"
proof (cases "make_directory (ho_allows ho) (ho_uid ho) dir fs")
  case one: (Inr fs1)
  note b1 = writes_below(1) [OF one root]
  show ?thesis
  proof (cases "make_directory (ho_allows ho) (ho_uid ho) (dir @ ''/.codex'') fs1")
    case two: (Inr fs2)
    note b2 = adds_below_trans [OF b1 writes_below(1) [OF two below_prefix [OF root]]]
    have "fs' = fs2 \<or> (\<exists>body. write_exclusive (ho_allows ho) (ho_uid ho) (project_config dir) body fs2 = Inr fs')"
      using assms(1) one two by (auto simp: write_project_def split: sum.splits)
    moreover have "starts_with (project_config dir) root" using root by (simp add: project_config_def below_prefix)
    ultimately show ?thesis using b2 by (metis adds_below_trans writes_below(2))
  qed (use assms(1) one b1 in \<open>simp add: write_project_def\<close>)
qed (use assms(1) in \<open>auto simp: write_project_def\<close>)

theorem preflight_only_adds:
  assumes "prepareDesktopProject rt ho fetch manifestPath outputRoot callbackFile fs = (r, fs')"
  shows "fs' p = fs p \<or> fs p = None \<and> starts_with p (resolve_path (ho_cwd ho) outputRoot @ ''/'')"
proof (cases "plan_project rt ho manifestPath outputRoot callbackFile fs")
  case (Inr x)
  obtain m c n dir where x: "x = (m, c, n, dir)" by (cases x) auto
  obtain r' fs1 where w: "write_project rt ho n c dir fs = (r', fs1)" by fastforce
  from Inr x have "starts_with dir (resolve_path (ho_cwd ho) outputRoot @ ''/'')"
    by (auto simp: plan_project_def and_then_Inr Let_def split: option.splits if_splits)
  from write_project_below [OF w this] have "adds_below (resolve_path (ho_cwd ho) outputRoot @ ''/'') fs fs1" .
  moreover have "fs' = fs1" using assms Inr x w by (auto simp: prepareDesktopProject_def split: sum.splits)
  ultimately show ?thesis by (auto simp: adds_below_def)
qed (use assms in \<open>simp add: prepareDesktopProject_def\<close>)

section \<open>The registration\<close>

text \<open>
  C40. The block the preflight adds to a user's configuration can be taken out again exactly: a rollback
  succeeds on a text precisely if the text still ends with the block, and then leaves what stands before it,
  edits made since included.  As long as the block stands anywhere in the file, it is not added again.
\<close>

theorem temporary_block_reversible:
  assumes "planTemporaryGlobalConfig rt contents url existing = Inr rg" and "rg_changed rg"
  shows "rg_contents rg = contents @ rg_appended rg
    \<and> (\<forall>text changed before. planTemporaryGlobalRollback rt text rg = Inr (changed, before) \<longleftrightarrow>
         changed \<and> text = before @ rg_appended rg)
    \<and> (\<forall>before after url'. \<not> is_ok (planTemporaryGlobalConfig rt (before @ rg_appended rg @ after) url' None))"
  using rollback_restores [OF assms] registered_once [OF assms] by blast

text \<open>An example: a configuration with carriage returns, edited after the registration.\<close>

definition sample_contents :: string where
  "sample_contents = ''model = x'' @ [CHR 0x0D, CHR 0x0A] @ ''[projects]''"

definition sample_registration :: "registration result" where
  "sample_registration = planTemporaryGlobalConfig sample_runtime sample_contents OAUTH_CALLBACK_URL None"

lemma sample_registration_eval:
  "sample_registration = Inr (projr sample_registration)" "rg_changed (projr sample_registration)"
proof -
  have "case sample_registration of Inl e \<Rightarrow> False | Inr rg \<Rightarrow> rg_changed rg" by code_simp
  then obtain rg where rg: "sample_registration = Inr rg" "rg_changed rg" by (auto split: sum.split_asm)
  show "sample_registration = Inr (projr sample_registration)" by (simp only: rg(1) sum.sel)
  show "rg_changed (projr sample_registration)" by (simp only: rg sum.sel)
qed

theorem temporary_block_reversible_witness:
  "planTemporaryGlobalRollback sample_runtime (''# edited'' @ rg_contents (projr sample_registration))
     (projr sample_registration) = Inr (True, ''# edited'' @ sample_contents)"
proof -
  note sample = temporary_block_reversible
    [OF sample_registration_eval(1) [unfolded sample_registration_def] sample_registration_eval(2) [unfolded sample_registration_def]]
  then show ?thesis by (simp add: sample_registration_def)
qed

end
