(* ===== verification/Spec2Isabelle.thy ===== *)
theory Spec2Isabelle
  imports Pairing_Store Deletion Signing_Keys OAuth_Provider Revocation_Worker Account_Auth Authorization_Safety
    Control_Returns Command_Line Desktop_Preflight
begin

text \<open>
  WP Auto: the platform that lets an account authorize an MCP client against a WordPress site.

  \<^bold>\<open>The program.\<close>  An account signs in with a code sent by mail (\<open>packages/account-auth\<close>) and is linked
  to a platform account with its own tenant (\<open>packages/database\<close>).  It pairs a site: the console asks
  the site for a signed proof over a pinned public address (\<open>packages/pairing\<close>), and a second proof
  carries the consent of the WordPress user to a grant of scopes for one client on one resource
  (\<open>packages/contracts\<close>).  The authorization service hands such grants to \<open>oidc-provider\<close>
  (\<open>packages/oauth-provider\<close>), keeps its artifacts and refresh families in PostgreSQL, signs with a
  key in custody (\<open>packages/key-custody\<close>), and tells sites about revocations through an outbox with
  one sequence of events per site (\<open>apps/authorization-service/src/revocation-worker.ts\<close>).

  \<^bold>\<open>State.\<close>  The database is one record \<open>db\<close> of \<open>Schema\<close> with a list of rows per table (the migrations
  under \<open>packages/database/migrations\<close>).  An operation takes the state and returns
  \<open>'a result \<times> db\<close>, an error or a value and the next state; \<open>transaction\<close> of \<open>Database\<close> undoes
  every change of a body that fails, which is what the wrappers \<open>with...\<close> do.  Row locks, advisory
  locks and single statements make the interleaving of two requests an order of their operations, so
  concurrency is a list of operations and the claims about all interleavings are claims about all
  lists (\<open>Machines\<close>: \<open>state_machine\<close> for an invariant, \<open>monotone_machine\<close> for a relation that every
  step extends, \<open>budget_machine\<close> for a count that never grows; each is interpreted on the model's
  own steps).  Time is in milliseconds and an argument, as are random tokens and identifiers.

  \<^bold>\<open>What is a parameter.\<close>  SHA-256, HMAC, base64url, the URL parser and the formats of zod are the fields
  of \<open>runtime\<close> (\<open>Prelude\<close>); \<open>ipaddr.js\<close> and DNS those of \<open>Network\<close>; JOSE, key objects and
  thumbprints those of \<open>Site_Proof\<close> and \<open>Key_Custody\<close>; Better Auth, Resend and \<open>oidc-provider\<close>
  are the functions the hooks are called with.  What a claim needs of them is a hypothesis of it.

  \<^bold>\<open>Theories.\<close>
  \<^item> \<open>Prelude\<close>: results, keyed tables and the SQL statements on them (insert, update, delete, with the
    keys and CHECKs that may refuse), text classes of the regular expressions, \<open>runtime\<close>.
  \<^item> \<open>Contracts\<close> (\<open>packages/contracts\<close>): JSON, schemas as parsers to \<open>option\<close>, the scope order and the
    canonical scope sets.  \<open>Json_Text\<close>: \<open>JSON.stringify\<close> as the source uses it.
  \<^item> \<open>Schema\<close>: the tables.  \<open>Database\<close>: \<open>migrate\<close>, the transaction wrappers and row-level security.
  \<^item> \<open>Account_Login\<close>: workspaces, sessions, links, email-code logins.  \<open>Console_Auth\<close>: the console's
    login requests, handoffs, sessions and logouts.  Lemmas: a token is spent by its first use, an
    end is final, a session has the authority of the login it came from.
  \<^item> \<open>Otp_Quota\<close>, \<open>Account_Auth\<close> (\<open>packages/account-auth\<close>): the three send limits with the exact time to
    wait, reservations, the hooks around a send and the configuration from the environment.  Lemmas:
    the limits hold over every run, for the reservations and, in windows a minute shorter, for the mails
    themselves; and no mail leaves without a reservation of its own.
  \<^item> \<open>Network\<close>, \<open>Site_Proof\<close>, \<open>Pairing\<close> (\<open>packages/pairing\<close>): addresses, the pinned request as a
    machine of socket events, proofs, and the two services over the locales \<open>pairing_store\<close> and
    \<open>grant_store\<close>, which \<open>Pairing_Store\<close> interprets on the PostgreSQL repositories.
  \<^item> \<open>Rate_Limit\<close>, \<open>Artifacts\<close>, \<open>Revocation\<close>: the limiter, the artifacts of \<open>oidc-provider\<close> under rotating
    keys, refresh families, and every revocation with its event.  Lemmas: generations are used once,
    a replay revokes the grant, sequences have no holes, what is revoked stays so; an artifact is found
    as long as its version names the key it was stored under, which the number of keys decides.
  \<^item> \<open>Directory\<close>, \<open>Deletion\<close>, \<open>Signing_Keys\<close>, \<open>OAuth_Clients\<close>: audit events and the console's lists,
    deletion in its two phases, the life of a signing key, clients and the grant resolvers.
  \<^item> \<open>Key_Custody\<close> (with \<open>Host_Files\<close>), \<open>OAuth_Provider\<close>, \<open>Revocation_Worker\<close>: the keys and what they
    sign, the policies given to \<open>oidc-provider\<close>, and the worker that drains the outbox.
  \<^item> \<open>Platform_UI\<close> (\<open>packages/platform-ui\<close>): pages, the deployment configuration and its release check.
    \<open>Http\<close>: requests and answers as both services see them.
  \<^item> \<open>Authorization_Rules\<close>, \<open>Authorization_Service\<close>, \<open>Authorization_Safety\<close>
    (\<open>apps/authorization-service\<close>): the checks of a request, the routes and the wiring of \<open>main.ts\<close>, and
    what holds of every request: \<open>oidc-provider\<close> is reached within its limits, a consent is signed by
    the account's own form, and the signers of tokens and of events refuse once the key is revoked.
  \<^item> \<open>Control_Pages\<close>, \<open>Control_Rules\<close>, \<open>Control_Session\<close>, \<open>Control_Api\<close>, \<open>Control_Dispatch\<close>, \<open>Control_Main\<close>
    (\<open>apps/control-api\<close>): the pages of \<open>ui.ts\<close>; cookies, schemas and the metrics of \<open>operations.ts\<close>;
    identities, tenant contexts and the page model; one definition per handler of \<open>server.ts\<close>; the routes
    with the hooks around them (\<open>handleControl\<close>); the start of \<open>main.ts\<close>.  A handler is a step on
    \<open>control_state\<close>: the database, the diagnostics and the metrics.  \<open>Control_Frames\<close> holds the interface
    \<open>control_frame\<close>, which says what a request may change from what each store operation may; \<open>Control_Safety\<close>
    has what follows for every request: sites and grants change only for an identified account on its
    own origin, a page shows one workspace, a revocation touches the one grant it names, and an authorization
    starts on verified claims and one site.
    \<open>Control_Returns\<close> extends the interface to every request (\<open>control_invariant\<close>): no sign-in leads away.
  \<^item> \<open>Command_Line\<close>: the four command-line entry points (\<open>cli.ts\<close>, \<open>oauth-test-client-cli.ts\<close>,
    \<open>signing-keys-cli.ts\<close> and \<open>cli.ts\<close> of \<open>packages/key-custody\<close>), with the files a key generation writes.
  \<^item> \<open>Desktop_Preflight\<close> (\<open>scripts/prepare-codex-desktop-preflight.mjs\<close>): the checks before the desktop
    client is connected and the block it puts into the user's configuration.  Lemmas: the block comes out
    exactly and goes in once, only exact entries and the documented metadata pass, no file is overwritten.

  \<^bold>\<open>Bounds and fuel.\<close>  No definition uses fuel: the loops of the source run over rows, records or socket
  events and are recursive functions over those lists.  Integers are unbounded where the source uses
  numbers below \<open>2^53\<close> (\<open>safe_integer\<close> where a schema tests it); \<open>refreshTokenTtl\<close> and the send
  limits are stated with their bounds.

  \<^bold>\<open>Not modelled.\<close>  Better Auth and \<open>oidc-provider\<close> (parameters of the model), Fastify itself (body
  limits, content types, HEAD requests, the length of a route parameter) and listening and shutdown of
  the two services; connection pools and the PostgreSQL driver; the scripts that run in a browser and the
  style sheets, which the routes send as they are; the acceptance
  scripts, the end-to-end tests and the conformance spikes, which drive a deployment from outside.
  \<open>normalize('NFC')\<close> and \<open>toLowerCase\<close> are modelled for characters below 256.
\<close>

end
